(* ===== verification/Prelude.thy ===== *)
theory Prelude
  imports Main "HOL-Library.Word"
begin

text \<open>
  Shared vocabulary of the development: the C integer types, the errno values of the
  network include files, first-match scans over fixed tables, and the generic lemmas on
  lists, options and machine words that the component theories rely on.
\<close>

unbundle bit_operations_syntax

section \<open>C types\<close>

type_synonym u8 = "8 word"
type_synonym u16 = "16 word"
type_synonym u32 = "32 word"
type_synonym u64 = "64 word"
type_synonym bytes = "u8 list"

named_theorems inv_intros \<open>introduction rules that establish component invariants\<close>
named_theorems scan_simps \<open>rewrite rules for first-match scans over tables\<close>

section \<open>errno values (sys/errno.h)\<close>

abbreviation (input) EPERM :: int where "EPERM \<equiv> 1"
abbreviation (input) ENOENT :: int where "ENOENT \<equiv> 2"
abbreviation (input) EINTR :: int where "EINTR \<equiv> 4"
abbreviation (input) ENXIO :: int where "ENXIO \<equiv> 6"
abbreviation (input) EBADF :: int where "EBADF \<equiv> 9"
abbreviation (input) ENOMEM :: int where "ENOMEM \<equiv> 12"
abbreviation (input) EFAULT :: int where "EFAULT \<equiv> 14"
abbreviation (input) EBUSY :: int where "EBUSY \<equiv> 16"
abbreviation (input) EEXIST :: int where "EEXIST \<equiv> 17"
abbreviation (input) EINVAL :: int where "EINVAL \<equiv> 22"
abbreviation (input) ENFILE :: int where "ENFILE \<equiv> 23"
abbreviation (input) EMFILE :: int where "EMFILE \<equiv> 24"
abbreviation (input) ENOSPC :: int where "ENOSPC \<equiv> 28"
abbreviation (input) EPIPE :: int where "EPIPE \<equiv> 32"
abbreviation (input) EAGAIN :: int where "EAGAIN \<equiv> 35"
abbreviation (input) EWOULDBLOCK :: int where "EWOULDBLOCK \<equiv> 35"
abbreviation (input) EINPROGRESS :: int where "EINPROGRESS \<equiv> 36"
abbreviation (input) EALREADY :: int where "EALREADY \<equiv> 37"
abbreviation (input) EDESTADDRREQ :: int where "EDESTADDRREQ \<equiv> 39"
abbreviation (input) EMSGSIZE :: int where "EMSGSIZE \<equiv> 40"
abbreviation (input) EPROTOTYPE :: int where "EPROTOTYPE \<equiv> 41"
abbreviation (input) ENOPROTOOPT :: int where "ENOPROTOOPT \<equiv> 42"
abbreviation (input) EPROTONOSUPPORT :: int where "EPROTONOSUPPORT \<equiv> 43"
abbreviation (input) ESOCKTNOSUPPORT :: int where "ESOCKTNOSUPPORT \<equiv> 44"
abbreviation (input) EOPNOTSUPP :: int where "EOPNOTSUPP \<equiv> 45"
abbreviation (input) EAFNOSUPPORT :: int where "EAFNOSUPPORT \<equiv> 47"
abbreviation (input) EADDRINUSE :: int where "EADDRINUSE \<equiv> 48"
abbreviation (input) EADDRNOTAVAIL :: int where "EADDRNOTAVAIL \<equiv> 49"
abbreviation (input) ENETDOWN :: int where "ENETDOWN \<equiv> 50"
abbreviation (input) ENETUNREACH :: int where "ENETUNREACH \<equiv> 51"
abbreviation (input) ECONNABORTED :: int where "ECONNABORTED \<equiv> 53"
abbreviation (input) ECONNRESET :: int where "ECONNRESET \<equiv> 54"
abbreviation (input) ENOBUFS :: int where "ENOBUFS \<equiv> 55"
abbreviation (input) EISCONN :: int where "EISCONN \<equiv> 56"
abbreviation (input) ENOTCONN :: int where "ENOTCONN \<equiv> 57"
abbreviation (input) ETIMEDOUT :: int where "ETIMEDOUT \<equiv> 60"
abbreviation (input) ECONNREFUSED :: int where "ECONNREFUSED \<equiv> 61"
abbreviation (input) EHOSTUNREACH :: int where "EHOSTUNREACH \<equiv> 65"
abbreviation (input) ENOSYS :: int where "ENOSYS \<equiv> 78"

section \<open>First-match scans\<close>

text \<open>
  The code scans fixed tables with \<open>for (i = 0; i < N; i++) if (...) return i;\<close>.
  \<open>first_idx P xs\<close> is the index such a scan stops at.
\<close>

fun first_idx :: "('a \<Rightarrow> bool) \<Rightarrow> 'a list \<Rightarrow> nat option" where
  "first_idx P [] = None"
| "first_idx P (x # xs) = (if P x then Some 0 else map_option Suc (first_idx P xs))"

lemma first_idx_None [scan_simps]: "first_idx P xs = None \<longleftrightarrow> (\<forall>x\<in>set xs. \<not> P x)"
  by (induction xs) auto

lemma first_idx_Some:
  "first_idx P xs = Some i \<longleftrightarrow> i < length xs \<and> P (xs ! i) \<and> (\<forall>j<i. \<not> P (xs ! j))"
proof (induction xs arbitrary: i)
  case (Cons x xs)
  show ?case
  proof (cases i)
    case 0
    then show ?thesis by auto
  next
    case (Suc k)
    have "(\<forall>j<Suc k. \<not> P ((x # xs) ! j)) \<longleftrightarrow> \<not> P x \<and> (\<forall>j<k. \<not> P (xs ! j))"
      by (auto simp: less_Suc_eq_0_disj)
    then show ?thesis using Suc Cons.IH by auto
  qed
qed simp

lemma first_idx_SomeD:
  assumes "first_idx P xs = Some i"
  shows "i < length xs" "P (xs ! i)" "\<And>j. j < i \<Longrightarrow> \<not> P (xs ! j)"
  using assms by (auto simp: first_idx_Some)

lemma first_idx_ex: "x \<in> set xs \<Longrightarrow> P x \<Longrightarrow> \<exists>i. first_idx P xs = Some i"
  using first_idx_None [of P xs] by (cases "first_idx P xs") auto

lemma set_list_update_iff:
  "i < length xs \<Longrightarrow> y \<in> set (xs[i := v]) \<longleftrightarrow> y = v \<or> (\<exists>j<length xs. j \<noteq> i \<and> y = xs ! j)"
  by (auto simp: in_set_conv_nth nth_list_update)

lemma replicate_numeral: "replicate (numeral k) x = x # replicate (pred_numeral k) x"
  by (simp add: numeral_eq_Suc)

section \<open>Counting in tables\<close>

definition count_if :: "('a \<Rightarrow> bool) \<Rightarrow> 'a list \<Rightarrow> nat" where
  "count_if P xs = length (filter P xs)"

lemma count_if_simps [simp]:
  "count_if P [] = 0"
  "count_if P (x # xs) = (if P x then Suc (count_if P xs) else count_if P xs)"
  by (simp_all add: count_if_def)

lemma count_if_append [simp]: "count_if P (xs @ ys) = count_if P xs + count_if P ys"
  by (simp add: count_if_def)

lemma count_if_le: "count_if P xs \<le> length xs"
  by (simp add: count_if_def)

lemma count_if_update:
  "i < length xs \<Longrightarrow>
   count_if P (xs[i := v]) + (if P (xs ! i) then 1 else 0) = count_if P xs + (if P v then 1 else 0)"
proof (induction xs arbitrary: i)
  case (Cons x xs)
  then show ?case by (cases i) auto
qed simp

lemma count_if_0: "count_if P xs = 0 \<longleftrightarrow> (\<forall>x\<in>set xs. \<not> P x)"
  by (induction xs) auto

section \<open>Machine words\<close>

lemma word_of_nat_less_iff:
  "m < 2 ^ LENGTH('a) \<Longrightarrow> n < 2 ^ LENGTH('a) \<Longrightarrow>
   (word_of_nat m :: 'a::len word) < word_of_nat n \<longleftrightarrow> m < n"
  by (simp add: word_less_nat_alt unsigned_of_nat take_bit_nat_eq_self)

lemma unat_inject: "unat (x :: 'a::len word) = unat y \<longleftrightarrow> x = y"
  by (rule unsigned_word_eqI [THEN iffI [OF _ arg_cong]])

lemma mask_Suc_nat: "(mask (Suc k) :: nat) = Suc (2 * mask k)"
proof -
  obtain j where "(2 :: nat) ^ k = Suc j"
    using not0_implies_Suc [of "2 ^ k"] by auto
  then show ?thesis by (simp add: mask_eq_exp_minus_1)
qed

lemma uint_mask_le: "n \<le> LENGTH('a) \<Longrightarrow> uint (mask n :: 'a::len word) = mask n"
  by (simp add: uint_mask_eq min_def)

lemma unat_mask_le: "n \<le> LENGTH('a) \<Longrightarrow> unat (mask n :: 'a::len word) = mask n"
proof -
  assume "n \<le> LENGTH('a)"
  then have "int (unat (mask n :: 'a word)) = int (mask n)"
    by (simp only: of_nat_unat uint_mask_le of_nat_mask_eq)
  then show ?thesis by (simp only: of_nat_eq_iff)
qed

lemma unat_u32_less: "unat (x :: u32) < 2 ^ 32"
  using unsigned_less [of x, where 'a = nat] by simp

lemma unat_of_int_u32: "0 \<le> j \<Longrightarrow> j < 2 ^ 32 \<Longrightarrow> unat (word_of_int j :: u32) = nat j"
  by (simp add: unsigned_of_int take_bit_int_eq_self)

end
