(* ===== verification/Route.thy ===== *)
theory Route
  imports Prelude
begin

text \<open>
  The static IPv4 route table (task/route.c) and the two lwIP routing hooks that consult it
  (task/route_hook.c).  The table is the 16-entry array \<open>g_routes\<close>; its operations are
  refined to a finite map from (network, mask) to gateway with longest-prefix lookup,
  stated as the locale \<open>fib\<close>.
\<close>

section \<open>The table and its operations\<close>

record TnRoute =
  rt_dest :: u32
  rt_mask :: u32
  rt_gw :: u32
  rt_in_use :: bool

definition TN_MAX_ROUTES :: nat where "TN_MAX_ROUTES = 16"

text \<open>\<open>p[k]\<close> of the four bytes of a \<open>uint32_t\<close> on the big-endian 68k target.\<close>

definition be_byte :: "u32 \<Rightarrow> nat \<Rightarrow> u8" where
  "be_byte v k = ucast (drop_bit (24 - 8 * k) v)"

definition be32 :: "u32 \<Rightarrow> u32" where
  "be32 v = push_bit 24 (ucast (be_byte v 0)) OR push_bit 16 (ucast (be_byte v 1)) OR
            push_bit 8 (ucast (be_byte v 2)) OR ucast (be_byte v 3)"

definition tn_route_init :: "TnRoute list \<Rightarrow> TnRoute list" where
  "tn_route_init rs = map (\<lambda>r. r\<lparr>rt_in_use := False\<rparr>) rs"

definition mask_is_contiguous :: "u32 \<Rightarrow> bool" where
  "mask_is_contiguous cmask = (let inv = NOT cmask in inv AND (inv + 1) = 0)"

definition route_key :: "u32 \<Rightarrow> u32 \<Rightarrow> TnRoute \<Rightarrow> bool" where
  "route_key dest msk r = (rt_in_use r \<and> rt_dest r = dest \<and> rt_mask r = msk)"

definition tn_route_add :: "u32 \<Rightarrow> u32 \<Rightarrow> u32 \<Rightarrow> TnRoute list \<Rightarrow> TnRoute list \<times> int \<times> int" where
  "tn_route_add dest msk gw rs =
     (if \<not> mask_is_contiguous (be32 msk) \<or> be32 dest AND NOT (be32 msk) \<noteq> 0
      then (rs, -1, EINVAL)
      else case first_idx (route_key dest msk) rs of
        Some _ \<Rightarrow> (rs, -1, EEXIST)
      | None \<Rightarrow>
          (case first_idx (\<lambda>r. \<not> rt_in_use r) rs of
             Some i \<Rightarrow> (rs[i := \<lparr>rt_dest = dest, rt_mask = msk, rt_gw = gw, rt_in_use = True\<rparr>], 0, 0)
           | None \<Rightarrow> (rs, -1, ENOSPC)))"

definition tn_route_delete :: "u32 \<Rightarrow> u32 \<Rightarrow> TnRoute list \<Rightarrow> TnRoute list \<times> int \<times> int" where
  "tn_route_delete dest msk rs =
     (case first_idx (route_key dest msk) rs of
        Some i \<Rightarrow> (rs[i := (rs ! i)\<lparr>rt_in_use := False\<rparr>], 0, 0)
      | None \<Rightarrow> (rs, -1, ENOENT))"

lemma bit31_iff: "bit (x :: u32) 31 \<longleftrightarrow> 2 ^ 31 \<le> unat x"
proof -
  have "unat x < 2 ^ 32"
    using unsigned_less [of x, where 'a = nat] by simp
  then have "unat x div 2 ^ 31 < 2"
    by (simp add: less_mult_imp_div_less)
  moreover have "bit x 31 \<longleftrightarrow> odd (unat x div 2 ^ 31)"
    using bit_iff_odd [of "unat x" 31] bit_unsigned_iff [where 'a = nat, of x 31] by simp
  moreover have "2 ^ 31 \<le> unat x \<longleftrightarrow> 1 \<le> unat x div 2 ^ 31"
    by (simp add: Suc_le_eq div_greater_zero_iff)
  ultimately show ?thesis
    by (cases "unat x div 2 ^ 31") auto
qed

lemma top_bit_iff: "(x :: u32) AND 0x80000000 \<noteq> 0 \<longleftrightarrow> bit x 31"
proof -
  have "(0x80000000 :: u32) = 2 ^ 31" by simp
  then show ?thesis
    by (metis and_exp_eq_0_iff_not_bit)
qed

text \<open>\<open>while (cmask & 0x80000000u) { n++; cmask <<= 1; }\<close>\<close>

function mask_prefix_loop :: "u32 \<Rightarrow> int \<Rightarrow> int" where
  "mask_prefix_loop cmask n =
     (if cmask AND 0x80000000 \<noteq> 0 then mask_prefix_loop (push_bit 1 cmask) (n + 1) else n)"
  by pat_completeness auto

termination
proof (relation "measure (\<lambda>(c, _). unat c)")
  fix c :: u32 and n :: int
  assume "c AND 0x80000000 \<noteq> 0"
  then have top: "2 ^ 31 \<le> unat c" by (simp only: top_bit_iff bit31_iff)
  have lim: "unat c < 2 ^ 32"
    using unsigned_less [of c, where 'a = nat] by simp
  have "unat (push_bit 1 c) = (2 * unat c) mod 2 ^ 32"
    using unsigned_push_bit_eq [where 'a = nat, of 1 c]
    by (simp add: take_bit_eq_mod push_bit_eq_mult mult.commute)
  also have "\<dots> = 2 * unat c - 2 ^ 32"
    using top lim by (simp add: mod_if)
  finally show "((push_bit 1 c, n + 1), c, n) \<in> measure (\<lambda>(c, _). unat c)"
    using lim top by simp
qed simp

declare mask_prefix_loop.simps [simp del]

definition mask_prefix_len :: "u32 \<Rightarrow> int" where
  "mask_prefix_len cmask = mask_prefix_loop cmask 0"

text \<open>One iteration of the scan in \<open>tn_route_lookup\<close>; the state is \<open>(best, best_len)\<close>.\<close>

definition route_lookup_step :: "u32 \<Rightarrow> TnRoute list \<Rightarrow> nat \<Rightarrow> int \<times> int \<Rightarrow> int \<times> int" where
  "route_lookup_step cdest rs i = (\<lambda>(best, best_len).
     (if rt_in_use (rs ! i) then
        let cmask = be32 (rt_mask (rs ! i)) in
        if cdest AND cmask = be32 (rt_dest (rs ! i)) then
          let len = mask_prefix_len cmask in
          if len > best_len then (int i, len) else (best, best_len)
        else (best, best_len)
      else (best, best_len)))"

definition tn_route_lookup :: "TnRoute list \<Rightarrow> u32 \<Rightarrow> int" where
  "tn_route_lookup rs dest =
     fst (fold (route_lookup_step (be32 dest) rs) [0..<length rs] (-1, -1))"

definition tn_route_at :: "TnRoute list \<Rightarrow> int \<Rightarrow> TnRoute option" where
  "tn_route_at rs idx =
     (if idx < 0 \<or> idx \<ge> int (length rs) \<or> \<not> rt_in_use (rs ! nat idx) then None
      else Some (rs ! nat idx))"

definition tn_route_count :: "TnRoute list \<Rightarrow> int" where
  "tn_route_count rs = int (count_if rt_in_use rs)"

section \<open>lwIP routing hooks (route_hook.c)\<close>

text \<open>
  The interface list of lwIP as the hooks read it: address and netmask per interface
  (\<open>n->name\<close> is an array member of \<open>struct netif\<close>, so the test against \<open>NULL\<close> never
  skips an interface).  Interfaces are named by their position in the list.
\<close>

record netif_addr =
  nif_ip :: u32
  nif_mask :: u32

definition ip4_addr_net_eq :: "u32 \<Rightarrow> u32 \<Rightarrow> u32 \<Rightarrow> bool" where
  "ip4_addr_net_eq a b m = (a AND m = b AND m)"

definition nif_onlink :: "u32 \<Rightarrow> netif_addr \<Rightarrow> bool" where
  "nif_onlink a n = (nif_ip n \<noteq> 0 \<and> ip4_addr_net_eq a (nif_ip n) (nif_mask n))"

definition tn_route_hook_src ::
  "netif_addr list \<Rightarrow> nat option \<Rightarrow> TnRoute list \<Rightarrow> u32 option \<Rightarrow> u32 option \<Rightarrow> nat option" where
  "tn_route_hook_src netifs netif_default rs src dest =
     (case dest of None \<Rightarrow> None
      | Some a \<Rightarrow>
        if first_idx (nif_onlink a) netifs \<noteq> None then None
        else let idx = tn_route_lookup rs a in
        if idx < 0 then None
        else case tn_route_at rs idx of None \<Rightarrow> None
        | Some r \<Rightarrow>
            if rt_gw r = 0 then
              (case first_idx (\<lambda>n. nif_ip n \<noteq> 0 \<and> rt_mask r AND nif_ip n = rt_dest r) netifs of
                 Some n \<Rightarrow> Some n
               | None \<Rightarrow> netif_default)
            else
              (case first_idx (nif_onlink (rt_gw r)) netifs of
                 Some n \<Rightarrow> Some n
               | None \<Rightarrow> netif_default))"

definition tn_route_gw_get :: "TnRoute list \<Rightarrow> u32 option \<Rightarrow> u32 option" where
  "tn_route_gw_get rs ipaddr =
     (case ipaddr of None \<Rightarrow> None
      | Some a \<Rightarrow>
        let idx = tn_route_lookup rs a in
        if idx < 0 then None
        else case tn_route_at rs idx of
          None \<Rightarrow> None
        | Some r \<Rightarrow> if rt_gw r = 0 then None else Some (rt_gw r))"

section \<open>Canonical byte order, contiguous masks, prefix lengths\<close>

lemma be32_id [simp]: "be32 v = v"
proof (rule bit_word_eqI)
  fix n assume n: "n < LENGTH(32)"
  have "n < 8 \<or> (8 \<le> n \<and> n < 16) \<or> (16 \<le> n \<and> n < 24) \<or> (24 \<le> n \<and> n < 32)"
    using n by auto
  then show "bit (be32 v) n = bit v n"
    by (auto simp: be32_def be_byte_def bit_simps)
qed

text \<open>The netmask of prefix length \<open>n\<close>.\<close>

definition netmask :: "nat \<Rightarrow> u32" where
  "netmask n = NOT (mask (32 - n))"

lemma nat_and_Suc_0: "(x :: nat) AND Suc x = 0 \<longleftrightarrow> (\<exists>k. x = mask k)"
proof (induction x rule: less_induct)
  case (less x)
  show ?case
  proof (cases "even x")
    case True
    then obtain y where x: "x = 2 * y" by blast
    have "x AND Suc x = 2 * y"
      using and_rec [of "2 * y" "Suc (2 * y)"] by (simp add: x)
    moreover have "(\<exists>k. x = mask k) \<longleftrightarrow> y = 0"
    proof
      assume "\<exists>k. x = mask k"
      then obtain k where k: "x = mask k" ..
      then have "k = 0" using True by (simp add: even_mask_iff)
      then show "y = 0" using k x by simp
    next
      assume "y = 0"
      then have "x = mask 0" using x by simp
      then show "\<exists>k. x = mask k" ..
    qed
    ultimately show ?thesis by simp
  next
    case False
    then obtain y where x: "x = Suc (2 * y)" using oddE by fastforce
    have "x AND Suc x = 2 * (y AND Suc y)"
      using and_rec [of "Suc (2 * y)" "Suc (Suc (2 * y))"] by (simp add: x)
    moreover have "y AND Suc y = 0 \<longleftrightarrow> (\<exists>k. y = mask k)"
      using less.IH [of y] x by simp
    moreover have "(\<exists>k. y = mask k) \<longleftrightarrow> (\<exists>k. x = mask k)"
    proof
      assume "\<exists>k. y = mask k"
      then obtain k where "y = mask k" ..
      then have "x = mask (Suc k)" by (simp add: x mask_Suc_nat)
      then show "\<exists>k. x = mask k" ..
    next
      assume "\<exists>k. x = mask k"
      then obtain k where k: "x = mask k" ..
      then have "k \<noteq> 0" using x by (metis mask_0 nat.distinct(1))
      then obtain k' where "k = Suc k'" using not0_implies_Suc by blast
      then have "y = mask k'" using k x by (simp add: mask_Suc_nat)
      then show "\<exists>k. y = mask k" ..
    qed
    ultimately show ?thesis by simp
  qed
qed

lemma word_and_succ_0: "(x :: u32) AND (x + 1) = 0 \<longleftrightarrow> (\<exists>k\<le>32. x = mask k)"
proof (cases "x = mask 32")
  case True
  then have "x + 1 = 0" by (simp add: mask_eq_exp_minus_1)
  then show ?thesis using True by auto
next
  case False
  have max: "(- 1 :: u32) = mask 32" by (simp add: mask_eq_exp_minus_1)
  then have "unat (x + 1) = Suc (unat x)"
    using False unatSuc [of x] by (metis add.commute add.inverse_inverse eq_neg_iff_add_eq_0)
  then have "unat (x AND (x + 1)) = unat x AND Suc (unat x)"
    by (simp add: unsigned_and_eq)
  then have "x AND (x + 1) = 0 \<longleftrightarrow> (\<exists>k. unat x = mask k)"
    using nat_and_Suc_0 [of "unat x"] by (metis unat_eq_zero)
  also have "\<dots> \<longleftrightarrow> (\<exists>k\<le>32. x = mask k)"
  proof
    assume "\<exists>k. unat x = mask k"
    then obtain k where k: "unat x = mask k" ..
    have "unat x < 2 ^ 32" using unsigned_less [of x, where 'a = nat] by simp
    then have "(2 :: nat) ^ k \<le> 2 ^ 32" using k by (simp add: mask_eq_exp_minus_1)
    then have "k \<le> 32" by (rule power_le_imp_le_exp [rotated]) simp
    moreover have "unat x = unat (mask k :: u32)"
      using k \<open>k \<le> 32\<close> by (simp add: unat_mask_le)
    then have "x = mask k" by (simp only: unat_inject)
    ultimately show "\<exists>k\<le>32. x = mask k" by blast
  next
    assume "\<exists>k\<le>32. x = mask k"
    then obtain k where "k \<le> 32" "x = mask k" by blast
    then have "unat x = mask k" by (simp add: unat_mask_le)
    then show "\<exists>k. unat x = mask k" ..
  qed
  finally show ?thesis .
qed

lemma mask_is_contiguous_iff: "mask_is_contiguous m \<longleftrightarrow> (\<exists>n\<le>32. m = netmask n)"
proof -
  have "mask_is_contiguous m \<longleftrightarrow> (\<exists>k\<le>32. NOT m = mask k)"
    by (simp add: mask_is_contiguous_def Let_def word_and_succ_0)
  also have "\<dots> \<longleftrightarrow> (\<exists>n\<le>32. m = netmask n)"
  proof
    assume "\<exists>k\<le>32. NOT m = mask k"
    then obtain k where "k \<le> 32" "NOT m = mask k" by blast
    then have "32 - k \<le> 32 \<and> m = netmask (32 - k)"
      by (simp add: netmask_def) (metis bit.double_compl)
    then show "\<exists>n\<le>32. m = netmask n" by blast
  next
    assume "\<exists>n\<le>32. m = netmask n"
    then obtain n where "n \<le> 32" "m = netmask n" by blast
    then have "NOT m = mask (32 - n)" by (simp add: netmask_def)
    then show "\<exists>k\<le>32. NOT m = mask k" by (meson diff_le_self)
  qed
  finally show ?thesis .
qed

lemma bit_netmask: "n \<le> 32 \<Longrightarrow> bit (netmask n) i \<longleftrightarrow> 32 - n \<le> i \<and> i < 32"
  by (auto simp: netmask_def bit_simps)

lemma push_netmask: "Suc n \<le> 32 \<Longrightarrow> push_bit 1 (netmask (Suc n)) = netmask n"
  by (rule bit_word_eqI) (simp only: bit_push_bit_iff, auto simp: bit_netmask)

lemma mask_prefix_loop_netmask: "n \<le> 32 \<Longrightarrow> mask_prefix_loop (netmask n) a = a + int n"
proof (induction n arbitrary: a)
  case 0
  then show ?case by (simp add: mask_prefix_loop.simps top_bit_iff bit_netmask)
next
  case (Suc n)
  then have "bit (netmask (Suc n)) 31" by (simp add: bit_netmask)
  then show ?case
    using Suc push_netmask [of n]
    by (subst mask_prefix_loop.simps) (simp add: top_bit_iff)
qed

lemma mask_prefix_len_netmask: "n \<le> 32 \<Longrightarrow> mask_prefix_len (netmask n) = int n"
  by (simp add: mask_prefix_len_def mask_prefix_loop_netmask)

lemma uint_netmask: "n \<le> 32 \<Longrightarrow> uint (netmask n) = 2 ^ 32 - 2 ^ (32 - n)"
proof -
  assume n: "n \<le> 32"
  have "take_bit 32 (mask (32 - n)) = (mask (32 - n) :: int)"
    by (rule bit_eqI) (auto simp: bit_simps)
  then have "uint (NOT (mask (32 - n) :: u32)) = mask 32 - mask (32 - n)"
    by (simp add: unsigned_not_eq take_bit_not_eq_mask_diff uint_mask_le)
  then show ?thesis using n by (simp add: netmask_def mask_eq_exp_minus_1)
qed

lemma netmask_mono:
  assumes "m \<le> 32" "n \<le> 32"
  shows "netmask m \<le> netmask n \<longleftrightarrow> m \<le> n"
proof -
  have "netmask m \<le> netmask n \<longleftrightarrow> (2 :: int) ^ (32 - n) \<le> 2 ^ (32 - m)"
    using assms by (simp add: word_le_def uint_netmask)
  also have "\<dots> \<longleftrightarrow> m \<le> n"
    using assms by auto
  finally show ?thesis .
qed

section \<open>Table invariant\<close>

text \<open>
  Every used entry has a contiguous mask and no host bits, and no two used entries have the
  same network and mask.
\<close>

definition route_canon :: "TnRoute \<Rightarrow> bool" where
  "route_canon r = (mask_is_contiguous (rt_mask r) \<and> rt_dest r AND NOT (rt_mask r) = 0)"

definition route_inv :: "TnRoute list \<Rightarrow> bool" where
  "route_inv rs = (length rs = TN_MAX_ROUTES \<and>
     (\<forall>i<length rs. rt_in_use (rs ! i) \<longrightarrow> route_canon (rs ! i)) \<and>
     (\<forall>i<length rs. \<forall>j<length rs. rt_in_use (rs ! i) \<longrightarrow>
        route_key (rt_dest (rs ! i)) (rt_mask (rs ! i)) (rs ! j) \<longrightarrow> i = j))"

lemma route_inv_init: "length rs = TN_MAX_ROUTES \<Longrightarrow> route_inv (tn_route_init rs)"
  by (simp add: route_inv_def tn_route_init_def)

lemma route_inv_add [inv_intros]:
  assumes inv: "route_inv rs" and add: "tn_route_add d m g rs = (rs', r, e)"
  shows "route_inv rs'"
proof (cases "rs' = rs")
  case False
  then obtain i where ok: "mask_is_contiguous m" "d AND NOT m = 0"
    and fresh: "first_idx (route_key d m) rs = None"
    and free: "first_idx (\<lambda>r. \<not> rt_in_use r) rs = Some i"
    and rs': "rs' = rs[i := \<lparr>rt_dest = d, rt_mask = m, rt_gw = g, rt_in_use = True\<rparr>]"
    using add by (auto simp: tn_route_add_def split: if_splits option.splits)
  have "i < length rs" using free by (rule first_idx_SomeD)
  moreover have "\<not> route_key d m (rs ! j)" if "j < length rs" for j
    using fresh that by (simp add: first_idx_None)
  ultimately show ?thesis
    using inv ok unfolding route_inv_def rs' route_key_def route_canon_def
    by (auto simp: nth_list_update)
qed (use inv in simp)

lemma route_inv_delete [inv_intros]:
  assumes inv: "route_inv rs" and del: "tn_route_delete d m rs = (rs', r, e)"
  shows "route_inv rs'"
proof (cases "rs' = rs")
  case False
  then obtain i where "first_idx (route_key d m) rs = Some i"
    and rs': "rs' = rs[i := (rs ! i)\<lparr>rt_in_use := False\<rparr>]"
    using del by (auto simp: tn_route_delete_def split: option.splits)
  then have "i < length rs" by (simp add: first_idx_Some)
  then show ?thesis
    using inv unfolding route_inv_def rs' route_key_def by (auto simp: nth_list_update)
qed (use inv in simp)

section \<open>Longest-prefix lookup\<close>

definition route_matches :: "TnRoute \<Rightarrow> u32 \<Rightarrow> bool" where
  "route_matches r a = (rt_in_use r \<and> a AND rt_mask r = rt_dest r)"

lemma mask_prefix_loop_ge: "n \<le> mask_prefix_loop c n"
proof (induction c n rule: mask_prefix_loop.induct)
  case (1 c n)
  then show ?case by (subst mask_prefix_loop.simps) auto
qed

lemma mask_prefix_len_nonneg: "0 \<le> mask_prefix_len c"
  unfolding mask_prefix_len_def by (rule mask_prefix_loop_ge)

text \<open>What the scan has established after the first \<open>k\<close> entries.\<close>

definition lookup_inv :: "TnRoute list \<Rightarrow> u32 \<Rightarrow> nat \<Rightarrow> int \<times> int \<Rightarrow> bool" where
  "lookup_inv rs a k = (\<lambda>(best, len).
     (best = -1 \<and> len = -1 \<and> (\<forall>j<k. \<not> route_matches (rs ! j) a)) \<or>
     (\<exists>b<k. best = int b \<and> route_matches (rs ! b) a \<and> len = mask_prefix_len (rt_mask (rs ! b)) \<and>
        (\<forall>j<k. route_matches (rs ! j) a \<longrightarrow> mask_prefix_len (rt_mask (rs ! j)) \<le> len) \<and>
        (\<forall>j<b. route_matches (rs ! j) a \<longrightarrow> mask_prefix_len (rt_mask (rs ! j)) < len)))"

lemma lookup_inv_step:
  assumes "lookup_inv rs a k s"
  shows "lookup_inv rs a (Suc k) (route_lookup_step a rs k s)"
proof (cases "route_matches (rs ! k) a")
  case False
  then have "route_lookup_step a rs k s = s"
    by (auto simp: route_lookup_step_def route_matches_def Let_def split: prod.splits)
  then show ?thesis
    using assms False unfolding lookup_inv_def by (auto simp: less_Suc_eq)
next
  case True
  then have step: "route_lookup_step a rs k s =
      (if mask_prefix_len (rt_mask (rs ! k)) > snd s then (int k, mask_prefix_len (rt_mask (rs ! k))) else s)"
    by (auto simp: route_lookup_step_def route_matches_def Let_def split: prod.splits)
  show ?thesis
  proof (cases "mask_prefix_len (rt_mask (rs ! k)) > snd s")
    case better: True
    then show ?thesis
      using assms True unfolding lookup_inv_def step by (fastforce simp: less_Suc_eq)
  next
    case worse: False
    then have "snd s \<noteq> -1" using mask_prefix_len_nonneg [of "rt_mask (rs ! k)"] by linarith
    then show ?thesis
      using assms True worse unfolding lookup_inv_def step by (force simp: less_Suc_eq)
  qed
qed

lemma lookup_inv_fold: "lookup_inv rs a k (fold (route_lookup_step a rs) [0..<k] (-1, -1))"
proof (induction k)
  case 0
  then show ?case by (simp add: lookup_inv_def)
next
  case (Suc k)
  then show ?case using lookup_inv_step by simp
qed

lemma tn_route_lookup_cases:
  obtains (miss) "tn_route_lookup rs a = -1" "\<forall>j<length rs. \<not> route_matches (rs ! j) a"
  | (hit) b where "tn_route_lookup rs a = int b" "b < length rs" "route_matches (rs ! b) a"
      "\<And>j. j < length rs \<Longrightarrow> route_matches (rs ! j) a \<Longrightarrow>
         mask_prefix_len (rt_mask (rs ! j)) \<le> mask_prefix_len (rt_mask (rs ! b))"
      "\<And>j. j < b \<Longrightarrow> route_matches (rs ! j) a \<Longrightarrow>
         mask_prefix_len (rt_mask (rs ! j)) < mask_prefix_len (rt_mask (rs ! b))"
proof -
  let ?s = "fold (route_lookup_step a rs) [0..<length rs] (-1, -1)"
  have "lookup_inv rs a (length rs) ?s" by (rule lookup_inv_fold)
  moreover have "tn_route_lookup rs a = fst ?s" by (simp add: tn_route_lookup_def)
  ultimately show thesis
    using miss hit by (cases ?s) (auto simp: lookup_inv_def)
qed

section \<open>The forwarding table as a finite map\<close>

text \<open>
  What a client of a forwarding table relies on: the table denotes a finite map from
  (network, mask) to next hop, insertion and deletion update that map or fail without
  effect, and a lookup returns the entry of the longest matching mask (contiguous masks
  compare as unsigned numbers the way their prefix lengths do).
\<close>

definition fib_best :: "(u32 \<times> u32 \<Rightarrow> u32 option) \<Rightarrow> u32 \<Rightarrow> u32 \<Rightarrow> u32 \<Rightarrow> bool" where
  "fib_best f a m g = (f (a AND m, m) = Some g \<and> (\<forall>m'. f (a AND m', m') \<noteq> None \<longrightarrow> m' \<le> m))"

locale fib =
  fixes inv :: "'t \<Rightarrow> bool"
    and abs :: "'t \<Rightarrow> u32 \<times> u32 \<Rightarrow> u32 option"
    and add :: "u32 \<Rightarrow> u32 \<Rightarrow> u32 \<Rightarrow> 't \<Rightarrow> 't \<times> int \<times> int"
    and del :: "u32 \<Rightarrow> u32 \<Rightarrow> 't \<Rightarrow> 't \<times> int \<times> int"
    and next_hop :: "'t \<Rightarrow> u32 \<Rightarrow> u32 option"
  assumes add_inv: "inv t \<Longrightarrow> add d m g t = (t', r, e) \<Longrightarrow> inv t'"
    and add_ok: "inv t \<Longrightarrow> add d m g t = (t', 0, e) \<Longrightarrow>
          abs t (d, m) = None \<and> abs t' = (abs t)((d, m) \<mapsto> g) \<and> d AND m = d"
    and add_fail: "inv t \<Longrightarrow> add d m g t = (t', r, e) \<Longrightarrow> r \<noteq> 0 \<Longrightarrow> t' = t"
    and del_inv: "inv t \<Longrightarrow> del d m t = (t', r, e) \<Longrightarrow> inv t'"
    and del_ok: "inv t \<Longrightarrow> abs t (d, m) \<noteq> None \<Longrightarrow>
          \<exists>t'. del d m t = (t', 0, 0) \<and> abs t' = (abs t)((d, m) := None)"
    and del_fail: "inv t \<Longrightarrow> abs t (d, m) = None \<Longrightarrow> del d m t = (t, -1, ENOENT)"
    and next_hop: "inv t \<Longrightarrow> next_hop t a = Some g \<longleftrightarrow> (\<exists>m. fib_best (abs t) a m g)"
begin

lemma next_hop_cong:
  assumes "inv t" "inv t'" "\<And>m. abs t (a AND m, m) = abs t' (a AND m, m)"
  shows "next_hop t a = next_hop t' a"
proof -
  have "next_hop t a = Some g \<longleftrightarrow> next_hop t' a = Some g" for g
    using assms by (simp add: next_hop fib_best_def)
  then show ?thesis by (metis option.exhaust)
qed

text \<open>A route does not affect destinations outside its network.\<close>

lemma add_other:
  assumes "inv t" "add d m g t = (t', 0, e)" "a AND m \<noteq> d"
  shows "next_hop t' a = next_hop t a"
proof (rule next_hop_cong)
  show "inv t'" "inv t" using assms add_inv by blast+
  show "abs t' (a AND m', m') = abs t (a AND m', m')" for m'
    using add_ok [OF assms(1,2)] assms(3) by auto
qed

text \<open>A route takes over the destinations of its network that have no longer match.\<close>

lemma add_takes_over:
  assumes "inv t" "add d m g t = (t', 0, e)" "a AND m = d"
    and "\<And>m'. abs t (a AND m', m') \<noteq> None \<Longrightarrow> m' \<le> m"
  shows "next_hop t' a = Some g"
proof -
  have "fib_best (abs t') a m g"
    using add_ok [OF assms(1,2)] assms(3,4) by (auto simp: fib_best_def)
  then show ?thesis
    using next_hop add_inv [OF assms(1,2)] by blast
qed

text \<open>Deleting what was just added restores every lookup.\<close>

lemma del_after_add:
  assumes "inv t" "add d m g t = (t1, 0, e)"
  shows "\<exists>t2. del d m t1 = (t2, 0, 0) \<and> abs t2 = abs t \<and> (\<forall>a. next_hop t2 a = next_hop t a)"
proof -
  have inv1: "inv t1" and ok: "abs t (d, m) = None" "abs t1 = (abs t)((d, m) \<mapsto> g)"
    using add_inv add_ok assms by blast+
  then obtain t2 where del: "del d m t1 = (t2, 0, 0)" "abs t2 = (abs t1)((d, m) := None)"
    using del_ok [OF inv1, of d m] by auto
  then have "abs t2 = abs t" using ok by (auto simp: fun_eq_iff)
  moreover have "inv t2" using del_inv inv1 del(1) by blast
  ultimately show ?thesis
    using del(1) next_hop_cong [of t2 t] assms(1) by auto
qed

end

definition route_map :: "TnRoute list \<Rightarrow> u32 \<times> u32 \<Rightarrow> u32 option" where
  "route_map rs = (\<lambda>(d, m). map_option (\<lambda>i. rt_gw (rs ! i)) (first_idx (route_key d m) rs))"

text \<open>The gateway field of the entry the lookup selects (\<open>0\<close> for an interface route).\<close>

definition route_next_hop :: "TnRoute list \<Rightarrow> u32 \<Rightarrow> u32 option" where
  "route_next_hop rs a = map_option rt_gw (tn_route_at rs (tn_route_lookup rs a))"

lemma route_inv_unique:
  "route_inv rs \<Longrightarrow> i < length rs \<Longrightarrow> j < length rs \<Longrightarrow>
   route_key d m (rs ! i) \<Longrightarrow> route_key d m (rs ! j) \<Longrightarrow> i = j"
  by (auto simp: route_inv_def route_key_def)

lemma route_map_entry:
  assumes "route_inv rs" "i < length rs" "route_key d m (rs ! i)"
  shows "route_map rs (d, m) = Some (rt_gw (rs ! i))"
proof -
  obtain j where j: "first_idx (route_key d m) rs = Some j"
    using first_idx_ex assms(2,3) nth_mem by metis
  then have "j < length rs" "route_key d m (rs ! j)" by (auto simp: first_idx_Some)
  then have "j = i" using assms route_inv_unique by blast
  then show ?thesis using j by (simp add: route_map_def)
qed

lemma route_map_SomeD:
  "route_map rs (d, m) = Some g \<Longrightarrow> \<exists>i<length rs. route_key d m (rs ! i) \<and> rt_gw (rs ! i) = g"
  by (auto simp: route_map_def first_idx_Some)

lemma route_map_iff:
  "route_inv rs \<Longrightarrow>
   route_map rs (d, m) = Some g \<longleftrightarrow> (\<exists>i<length rs. route_key d m (rs ! i) \<and> rt_gw (rs ! i) = g)"
  using route_map_SomeD route_map_entry by fastforce

lemma route_map_None: "route_map rs (d, m) = None \<longleftrightarrow> (\<forall>r\<in>set rs. \<not> route_key d m r)"
  by (simp add: route_map_def first_idx_None)

lemma contiguous_le:
  assumes "mask_is_contiguous m" "mask_is_contiguous m'"
  shows "m \<le> m' \<longleftrightarrow> mask_prefix_len m \<le> mask_prefix_len m'"
  using assms by (auto simp: mask_is_contiguous_iff mask_prefix_len_netmask netmask_mono)

lemma fib_best_unique: "fib_best f a m g \<Longrightarrow> fib_best f a m' g' \<Longrightarrow> m = m' \<and> g = g'"
  unfolding fib_best_def by (metis option.distinct(1) option.inject order_antisym)

lemma tn_route_at_hit: "b < length rs \<Longrightarrow> rt_in_use (rs ! b) \<Longrightarrow> tn_route_at rs (int b) = Some (rs ! b)"
  by (simp add: tn_route_at_def)

lemma fib_best_hit:
  assumes inv: "route_inv rs" and b: "b < length rs" "route_matches (rs ! b) a"
    and best: "\<And>j. j < length rs \<Longrightarrow> route_matches (rs ! j) a \<Longrightarrow>
         mask_prefix_len (rt_mask (rs ! j)) \<le> mask_prefix_len (rt_mask (rs ! b))"
  shows "fib_best (route_map rs) a (rt_mask (rs ! b)) (rt_gw (rs ! b))"
  unfolding fib_best_def
proof (intro conjI allI impI)
  show "route_map rs (a AND rt_mask (rs ! b), rt_mask (rs ! b)) = Some (rt_gw (rs ! b))"
    using b by (auto intro!: route_map_entry inv simp: route_key_def route_matches_def)
next
  fix m' assume "route_map rs (a AND m', m') \<noteq> None"
  then obtain i where i: "i < length rs" "route_key (a AND m') m' (rs ! i)"
    using route_map_SomeD by blast
  then have "route_matches (rs ! i) a" "rt_mask (rs ! i) = m'"
    by (auto simp: route_matches_def route_key_def)
  moreover have "route_canon (rs ! i)" "route_canon (rs ! b)"
    using inv i b by (auto simp: route_inv_def route_key_def route_matches_def)
  ultimately show "m' \<le> rt_mask (rs ! b)"
    using best i(1) contiguous_le by (auto simp: route_canon_def)
qed

lemma route_next_hop_spec:
  assumes inv: "route_inv rs"
  shows "route_next_hop rs a = Some g \<longleftrightarrow> (\<exists>m. fib_best (route_map rs) a m g)"
proof (cases rule: tn_route_lookup_cases [of rs a])
  case miss
  have "\<not> fib_best (route_map rs) a m g" for m
  proof
    assume "fib_best (route_map rs) a m g"
    then have "route_map rs (a AND m, m) = Some g" by (simp add: fib_best_def)
    then obtain i where "i < length rs" "route_key (a AND m) m (rs ! i)"
      using route_map_SomeD by blast
    then have "route_matches (rs ! i) a" by (simp add: route_matches_def route_key_def)
    then show False using miss(2) \<open>i < length rs\<close> by blast
  qed
  moreover have "route_next_hop rs a = None"
    by (simp add: route_next_hop_def miss(1) tn_route_at_def)
  ultimately show ?thesis by simp
next
  case (hit b)
  have "fib_best (route_map rs) a (rt_mask (rs ! b)) (rt_gw (rs ! b))"
    by (rule fib_best_hit [OF inv hit(2,3,4)])
  moreover have "route_next_hop rs a = Some (rt_gw (rs ! b))"
    using hit(1,2,3) by (simp add: route_next_hop_def tn_route_at_hit route_matches_def)
  ultimately show ?thesis by (metis fib_best_unique option.inject)
qed

lemma tn_route_add_map:
  assumes "route_inv rs" "tn_route_add d m g rs = (rs', 0, e)"
  shows "route_map rs (d, m) = None \<and> route_map rs' = (route_map rs)((d, m) \<mapsto> g) \<and> d AND m = d"
proof -
  obtain i where ok: "mask_is_contiguous m" "d AND NOT m = 0"
    and fresh: "first_idx (route_key d m) rs = None"
    and free: "first_idx (\<lambda>r. \<not> rt_in_use r) rs = Some i"
    and rs': "rs' = rs[i := \<lparr>rt_dest = d, rt_mask = m, rt_gw = g, rt_in_use = True\<rparr>]"
    using assms(2) by (auto simp: tn_route_add_def split: if_splits option.splits)
  have inv': "route_inv rs'" by (rule route_inv_add [OF assms])
  have i: "i < length rs" "\<not> rt_in_use (rs ! i)" using free by (auto simp: first_idx_Some)
  have "route_map rs' (d', m') = Some g' \<longleftrightarrow> ((route_map rs)((d, m) \<mapsto> g)) (d', m') = Some g'" for d' m' g'
    using i fresh unfolding fun_upd_apply route_map_iff [OF inv']
    by (auto simp: route_map_iff assms(1) rs' nth_list_update route_key_def first_idx_None split: if_splits)
  then have "route_map rs' p = ((route_map rs)((d, m) \<mapsto> g)) p" for p
    by (cases p) (metis option.exhaust)
  moreover have "d AND m = d"
    using ok(2) by (metis and.right_neutral bit.conj_disj_distrib bit.disj_cancel_right or.right_neutral)
  ultimately show ?thesis using fresh by (simp add: fun_eq_iff route_map_def)
qed

lemma tn_route_delete_map:
  assumes inv: "route_inv rs" and hit: "route_map rs (d, m) \<noteq> None"
  shows "\<exists>rs'. tn_route_delete d m rs = (rs', 0, 0) \<and> route_map rs' = (route_map rs)((d, m) := None)"
proof -
  obtain i where i: "first_idx (route_key d m) rs = Some i"
    using hit by (auto simp: route_map_def)
  then have ilen: "i < length rs" and key: "route_key d m (rs ! i)" by (auto simp: first_idx_Some)
  let ?rs = "rs[i := (rs ! i)\<lparr>rt_in_use := False\<rparr>]"
  have del: "tn_route_delete d m rs = (?rs, 0, 0)" by (simp add: tn_route_delete_def i)
  have inv': "route_inv ?rs" by (rule route_inv_delete [OF inv del])
  have only: "j = i" if "j < length rs" "route_key d m (rs ! j)" for j
    using inv that ilen key route_inv_unique by blast
  have upd: "route_key d' m' (?rs ! j) \<longleftrightarrow> route_key d' m' (rs ! j) \<and> j \<noteq> i" "rt_gw (?rs ! j) = rt_gw (rs ! j)"
    if "j < length rs" for j d' m'
    using that ilen by (cases "j = i"; auto simp: route_key_def)+
  have "route_map ?rs (d', m') = Some g' \<longleftrightarrow> ((route_map rs)((d, m) := None)) (d', m') = Some g'" for d' m' g'
  proof (cases "(d', m') = (d, m)")
    case True
    then show ?thesis using only unfolding route_map_iff [OF inv'] by (auto simp: upd)
  next
    case False
    then have "\<not> route_key d' m' (rs ! i)" using key by (auto simp: route_key_def)
    then show ?thesis
      using False unfolding fun_upd_other [OF False] route_map_iff [OF inv'] route_map_iff [OF inv]
      by (auto simp: upd)
  qed
  then have "route_map ?rs p = ((route_map rs)((d, m) := None)) p" for p
    by (cases p) (metis option.exhaust)
  then show ?thesis using del by auto
qed

interpretation rt: fib route_inv route_map tn_route_add tn_route_delete route_next_hop
proof unfold_locales
  fix t t' d m g r e
  show "route_inv t \<Longrightarrow> tn_route_add d m g t = (t', r, e) \<Longrightarrow> route_inv t'"
    by (rule route_inv_add)
  show "route_inv t \<Longrightarrow> tn_route_delete d m t = (t', r, e) \<Longrightarrow> route_inv t'"
    by (rule route_inv_delete)
  show "route_inv t \<Longrightarrow> tn_route_add d m g t = (t', r, e) \<Longrightarrow> r \<noteq> 0 \<Longrightarrow> t' = t"
    by (auto simp: tn_route_add_def split: if_splits option.splits)
  show "route_inv t \<Longrightarrow> route_map t (d, m) = None \<Longrightarrow> tn_route_delete d m t = (t, -1, ENOENT)"
    by (simp add: tn_route_delete_def route_map_def)
qed (use tn_route_add_map tn_route_delete_map route_next_hop_spec in auto)

section \<open>Properties\<close>

lemma route_inv_distinct_prefix:
  assumes "route_inv rs" "i < length rs" "j < length rs" "i \<noteq> j"
    and "route_matches (rs ! i) a" "route_matches (rs ! j) a"
  shows "mask_prefix_len (rt_mask (rs ! i)) \<noteq> mask_prefix_len (rt_mask (rs ! j))"
proof
  assume "mask_prefix_len (rt_mask (rs ! i)) = mask_prefix_len (rt_mask (rs ! j))"
  moreover have "mask_is_contiguous (rt_mask (rs ! i))" "mask_is_contiguous (rt_mask (rs ! j))"
    using assms by (auto simp: route_inv_def route_canon_def route_matches_def)
  ultimately have "rt_mask (rs ! i) = rt_mask (rs ! j)"
    using contiguous_le by (metis order_antisym order_refl)
  then have "route_key (rt_dest (rs ! i)) (rt_mask (rs ! i)) (rs ! j)"
    "route_key (rt_dest (rs ! i)) (rt_mask (rs ! i)) (rs ! i)"
    using assms(5,6) by (simp_all add: route_key_def route_matches_def)
  then show False using route_inv_unique assms(1-4) by blast
qed

text \<open>
  C9. Longest-prefix match: on a table built by the operations of route.c,
  \<open>tn_route_lookup\<close> returns \<open>-1\<close> exactly when no used entry covers the address, and
  otherwise the index of a used entry that covers it and whose prefix is strictly longer
  than that of every other covering entry, so the tie-break of the scan is never needed.
\<close>

theorem route_lookup_longest_prefix:
  assumes "route_inv rs"
  shows "(tn_route_lookup rs a = -1 \<and> (\<forall>r\<in>set rs. \<not> route_matches r a)) \<or>
    (\<exists>b<length rs. tn_route_lookup rs a = int b \<and> route_matches (rs ! b) a \<and>
       (\<forall>j<length rs. j \<noteq> b \<longrightarrow> route_matches (rs ! j) a \<longrightarrow>
          mask_prefix_len (rt_mask (rs ! j)) < mask_prefix_len (rt_mask (rs ! b))))"
proof (cases rule: tn_route_lookup_cases [of rs a])
  case miss
  then show ?thesis by (auto simp: in_set_conv_nth)
next
  case (hit b)
  have "mask_prefix_len (rt_mask (rs ! j)) < mask_prefix_len (rt_mask (rs ! b))"
    if "j < length rs" "j \<noteq> b" "route_matches (rs ! j) a" for j
    using hit(4) [OF that(1,3)] route_inv_distinct_prefix [OF assms that(1) hit(2) that(2,3) hit(3)]
    by linarith
  then show ?thesis using hit(1,2,3) by blast
qed

definition demo_routes :: "TnRoute list" where
  "demo_routes =
     fst (tn_route_add 0 0 0xC0A80101
     (fst (tn_route_add 0x0A010000 0xFFFF0000 0xC0A801FD
     (fst (tn_route_add 0x0A000000 0xFF000000 0xC0A801FE
     (tn_route_init (replicate 16 \<lparr>rt_dest = 0, rt_mask = 0, rt_gw = 0, rt_in_use = False\<rparr>)))))))"

lemma route_inv_add_fst: "route_inv rs \<Longrightarrow> route_inv (fst (tn_route_add d m g rs))"
  by (cases "tn_route_add d m g rs") (auto intro: route_inv_add)

lemma demo_routes_inv: "route_inv demo_routes"
  unfolding demo_routes_def
  by (intro route_inv_add_fst route_inv_init) (simp add: TN_MAX_ROUTES_def)

lemma demo_routes_len: "length demo_routes = 16"
  using demo_routes_inv by (simp add: route_inv_def TN_MAX_ROUTES_def)

theorem route_lookup_longest_prefix_witness:
  "tn_route_lookup demo_routes 0x0A010203 = 1 \<and>
   mask_prefix_len (rt_mask (demo_routes ! 0)) < mask_prefix_len (rt_mask (demo_routes ! 1))"
proof -
  have "tn_route_lookup demo_routes 0x0A010203 = 1" "route_matches (demo_routes ! 0) 0x0A010203"
    by code_simp+
  then show ?thesis
    using route_lookup_longest_prefix [OF demo_routes_inv, of "0x0A010203"] demo_routes_len by auto
qed

text \<open>
  C12. Adding a route: the reply code is decided by the request and the map the table
  denotes, in the order the code checks (bad mask or host bits, duplicate key, full table);
  a successful add extends the map by exactly that entry, and every failure leaves the
  table as it was.
\<close>

theorem route_add_outcome:
  assumes "route_inv rs" "tn_route_add d m g rs = (rs', r, e)"
  shows "if \<not> (\<exists>n\<le>32. m = netmask n) \<or> d AND NOT m \<noteq> 0 then rs' = rs \<and> r = -1 \<and> e = EINVAL
    else if route_map rs (d, m) \<noteq> None then rs' = rs \<and> r = -1 \<and> e = EEXIST
    else if tn_route_count rs = int TN_MAX_ROUTES then rs' = rs \<and> r = -1 \<and> e = ENOSPC
    else r = 0 \<and> e = 0 \<and> route_inv rs' \<and> route_map rs' = (route_map rs)((d, m) \<mapsto> g) \<and>
         tn_route_count rs' = tn_route_count rs + 1"
proof -
  have full: "first_idx (\<lambda>r. \<not> rt_in_use r) rs = None \<longleftrightarrow> tn_route_count rs = int TN_MAX_ROUTES"
    using assms(1) sum_length_filter_compl [of rt_in_use rs]
    by (auto simp: first_idx_None tn_route_count_def count_if_def route_inv_def filter_empty_conv)
  have cnt: "tn_route_count rs' = tn_route_count rs + 1" if ok: "r = 0"
  proof -
    obtain i where "i < length rs" "\<not> rt_in_use (rs ! i)"
      "rs' = rs[i := \<lparr>rt_dest = d, rt_mask = m, rt_gw = g, rt_in_use = True\<rparr>]"
      using ok assms(2) by (auto simp: tn_route_add_def first_idx_Some split: if_splits option.splits)
    then show ?thesis
      using count_if_update [of i rs rt_in_use "\<lparr>rt_dest = d, rt_mask = m, rt_gw = g, rt_in_use = True\<rparr>"]
      by (simp add: tn_route_count_def)
  qed
  have key: "route_map rs (d, m) = None \<longleftrightarrow> first_idx (route_key d m) rs = None"
    by (simp add: route_map_def)
  have "r = 0 \<Longrightarrow> route_inv rs' \<and> route_map rs' = (route_map rs)((d, m) \<mapsto> g)"
    using assms rt.add_inv rt.add_ok by blast
  then show ?thesis
    using assms(2) cnt unfolding key full [symmetric] mask_is_contiguous_iff [symmetric]
    by (simp add: tn_route_add_def split: if_splits option.splits)
qed

theorem route_add_outcome_witness:
  "let (rs', r, e) = tn_route_add 0x0A010200 0xFFFFFF00 0xC0A801FC demo_routes in
     r = 0 \<and> route_map rs' = (route_map demo_routes)((0x0A010200, 0xFFFFFF00) \<mapsto> 0xC0A801FC)"
proof -
  have "\<exists>n\<le>32. 0xFFFFFF00 = netmask n" by (rule exI [of _ 24]) code_simp
  moreover have "route_map demo_routes (0x0A010200, 0xFFFFFF00) = None"
    "tn_route_count demo_routes = 3" "(0x0A010200 :: u32) AND NOT 0xFFFFFF00 = 0"
    by code_simp+
  moreover obtain rs' r e where add: "tn_route_add 0x0A010200 0xFFFFFF00 0xC0A801FC demo_routes = (rs', r, e)"
    using prod_cases3 by blast
  ultimately show ?thesis
    using route_add_outcome [OF demo_routes_inv add] by (simp add: TN_MAX_ROUTES_def)
qed

text \<open>
  Delete after add: removing the route that was just added succeeds, restores the map
  and every next-hop decision of the table, while the table keeps its invariant.
\<close>

theorem route_delete_after_add:
  assumes "route_inv rs" "tn_route_add d m g rs = (rs1, 0, e)"
  shows "\<exists>rs2. tn_route_delete d m rs1 = (rs2, 0, 0) \<and> route_map rs2 = route_map rs \<and>
     (\<forall>a. route_next_hop rs2 a = route_next_hop rs a)"
  using assms by (rule rt.del_after_add)

theorem route_delete_after_add_witness:
  "\<exists>rs1 rs2. tn_route_add 0x0A010200 0xFFFFFF00 7 demo_routes = (rs1, 0, 0) \<and>
     tn_route_delete 0x0A010200 0xFFFFFF00 rs1 = (rs2, 0, 0) \<and> route_map rs2 = route_map demo_routes"
proof -
  have "snd (tn_route_add 0x0A010200 0xFFFFFF00 7 demo_routes) = (0, 0)" by code_simp
  then obtain rs1 where "tn_route_add 0x0A010200 0xFFFFFF00 7 demo_routes = (rs1, 0, 0)"
    by (metis prod.collapse)
  then show ?thesis using route_delete_after_add [OF demo_routes_inv] by blast
qed

text \<open>
  C13. Routing hooks: when \<open>tn_route_hook_src\<close> overrides lwIP's choice for an address, no
  configured interface has that address on-link, the static table has a route for it, and
  for a gateway route the interface is one on which the gateway is on-link (the default
  interface only when there is none), the same gateway being the next hop that
  \<open>tn_route_gw_get\<close> hands to ARP.
\<close>

theorem route_hook_sound:
  assumes "route_inv rs" "tn_route_hook_src nifs dflt rs src (Some a) = Some n"
  shows "(\<forall>i\<in>set nifs. \<not> nif_onlink a i) \<and>
    (\<exists>m g. fib_best (route_map rs) a m g \<and>
       (g \<noteq> 0 \<longrightarrow> tn_route_gw_get rs (Some a) = Some g \<and>
          (n < length nifs \<and> nif_onlink g (nifs ! n) \<or>
           (\<forall>i\<in>set nifs. \<not> nif_onlink g i) \<and> dflt = Some n)))"
proof -
  obtain r where r: "tn_route_at rs (tn_route_lookup rs a) = Some r" "0 \<le> tn_route_lookup rs a"
    and off: "first_idx (nif_onlink a) nifs = None"
    using assms(2) by (auto simp: tn_route_hook_src_def Let_def split: if_splits option.splits)
  then have "route_next_hop rs a = Some (rt_gw r)" by (simp add: route_next_hop_def)
  then obtain m where best: "fib_best (route_map rs) a m (rt_gw r)"
    using rt.next_hop [OF assms(1)] by blast
  have via: "tn_route_gw_get rs (Some a) = Some (rt_gw r) \<and>
      (n < length nifs \<and> nif_onlink (rt_gw r) (nifs ! n) \<or>
       (\<forall>i\<in>set nifs. \<not> nif_onlink (rt_gw r) i) \<and> dflt = Some n)" if "rt_gw r \<noteq> 0"
    using assms(2) that r off
    by (auto simp: tn_route_hook_src_def tn_route_gw_get_def first_idx_Some first_idx_None Let_def
        split: option.splits)
  show ?thesis using best via off by (metis first_idx_None)
qed

theorem route_hook_sound_witness:
  "tn_route_hook_src [\<lparr>nif_ip = 0, nif_mask = 0\<rparr>, \<lparr>nif_ip = 0xC0A80102, nif_mask = 0xFFFFFF00\<rparr>]
     (Some 0) demo_routes None (Some 0x0A010203) = Some 1 \<and>
   tn_route_gw_get demo_routes (Some 0x0A010203) = Some 0xC0A801FD \<and>
   (\<exists>m g. fib_best (route_map demo_routes) 0x0A010203 m g)"
proof -
  have hook: "tn_route_hook_src [\<lparr>nif_ip = 0, nif_mask = 0\<rparr>, \<lparr>nif_ip = 0xC0A80102, nif_mask = 0xFFFFFF00\<rparr>]
     (Some 0) demo_routes None (Some 0x0A010203) = Some 1" by code_simp
  moreover have "tn_route_gw_get demo_routes (Some 0x0A010203) = Some 0xC0A801FD" by code_simp
  ultimately show ?thesis using route_hook_sound [OF demo_routes_inv hook] by blast
qed

end
