(* ===== verification/Client_Memory.thy ===== *)
theory Client_Memory
  imports Prelude
begin

text \<open>
  Client memory as the daemon sees it: a byte per 32-bit address, accessed byte-wise in
  the big-endian order of the 68k (the code copies through aligned locals with \<open>memcpy\<close>).
  Includes the \<open>sockaddr_in\<close> marshalling of common/sockaddr_util.c and the truncating peer
  address store of task/ipc_dgram.c.
\<close>

type_synonym ptr = u32
type_synonym mem = "ptr \<Rightarrow> u8"

abbreviation (input) NULL :: ptr where "NULL \<equiv> 0"

section \<open>Byte-wise access\<close>

definition load_bytes :: "mem \<Rightarrow> ptr \<Rightarrow> nat \<Rightarrow> bytes" where
  "load_bytes m p n = map (\<lambda>i. m (p + word_of_nat i)) [0..<n]"

definition store_bytes :: "mem \<Rightarrow> ptr \<Rightarrow> bytes \<Rightarrow> mem" where
  "store_bytes m p bs = (\<lambda>a. let k = unat (a - p) in if k < length bs then bs ! k else m a)"

definition be_of_u16 :: "u16 \<Rightarrow> bytes" where
  "be_of_u16 v = [ucast (drop_bit 8 v), ucast v]"

definition be_of_u32 :: "u32 \<Rightarrow> bytes" where
  "be_of_u32 v = [ucast (drop_bit 24 v), ucast (drop_bit 16 v), ucast (drop_bit 8 v), ucast v]"

definition u16_of_be :: "bytes \<Rightarrow> u16" where
  "u16_of_be bs = push_bit 8 (ucast (bs ! 0)) OR ucast (bs ! 1)"

definition u32_of_be :: "bytes \<Rightarrow> u32" where
  "u32_of_be bs = push_bit 24 (ucast (bs ! 0)) OR push_bit 16 (ucast (bs ! 1)) OR
                  push_bit 8 (ucast (bs ! 2)) OR ucast (bs ! 3)"

definition load_u32 :: "mem \<Rightarrow> ptr \<Rightarrow> u32" where
  "load_u32 m p = u32_of_be (load_bytes m p 4)"

definition store_u32 :: "mem \<Rightarrow> ptr \<Rightarrow> u32 \<Rightarrow> mem" where
  "store_u32 m p v = store_bytes m p (be_of_u32 v)"

definition load_u16 :: "mem \<Rightarrow> ptr \<Rightarrow> u16" where
  "load_u16 m p = u16_of_be (load_bytes m p 2)"

text \<open>A 32-bit word read as a signed \<open>LONG\<close>, and back.\<close>

abbreviation (input) to_LONG :: "u32 \<Rightarrow> int" where "to_LONG \<equiv> sint"
abbreviation (input) to_ULONG :: "int \<Rightarrow> u32" where "to_ULONG \<equiv> word_of_int"

section \<open>sockaddr_in marshalling (sockaddr_util.c)\<close>

definition sizeof_sockaddr_in :: nat where "sizeof_sockaddr_in = 16"

definition sockin_bytes :: "u16 \<Rightarrow> u16 \<Rightarrow> u32 \<Rightarrow> bytes" where
  "sockin_bytes family port_host addr_network =
     [16, ucast family] @ be_of_u16 port_host @ be_of_u32 addr_network @ replicate 8 0"

definition tn_sockin_store_bytes :: "mem \<Rightarrow> ptr \<Rightarrow> u16 \<Rightarrow> u16 \<Rightarrow> u32 \<Rightarrow> mem" where
  "tn_sockin_store_bytes m dst family port_host addr_network =
     (if dst = NULL then m else store_bytes m dst (sockin_bytes family port_host addr_network))"

text \<open>Family, port in host order and address; \<open>src\<close> is not \<open>NULL\<close>.\<close>

definition tn_sockin_load_bytes :: "mem \<Rightarrow> ptr \<Rightarrow> u16 \<times> u16 \<times> u32" where
  "tn_sockin_load_bytes m src =
     (let tmpl = load_bytes m src sizeof_sockaddr_in in
      (ucast (tmpl ! 1), u16_of_be [tmpl ! 2, tmpl ! 3], u32_of_be (take 4 (drop 4 tmpl))))"

text \<open>
  \<open>tn_store_client_sockaddr\<close>: copy at most \<open>*addrlen\<close> bytes of the 16-byte address (a negative
  length counts as 0), then report the full length.
\<close>

definition tn_store_client_sockaddr :: "mem \<Rightarrow> ptr \<Rightarrow> ptr \<Rightarrow> u16 \<Rightarrow> u32 \<Rightarrow> mem" where
  "tn_store_client_sockaddr m addr addrlen port_host addr_net =
     (if addr = NULL \<or> addrlen = NULL then m
      else let cap0 = load_u32 m addrlen;
               cap1 = (if to_LONG cap0 < 0 then 0 else cap0);
               cap = (if cap1 > 16 then 16 else cap1);
               sa = sockin_bytes 2 port_host addr_net;
               m1 = (if cap > 0 then store_bytes m addr (take (unat cap) sa) else m)
           in store_u32 m1 addrlen 16)"

datatype tn_ip_addr = Ip4 u32 | Ip6 bytes

text \<open>
  The generic address conversion: the result is \<open>None\<close> where the code returns 0.  The buffer
  is given by its address; \<open>sa_family\<close> is the byte at offset 1.
\<close>

definition tn_ip_from_sockaddr :: "mem \<Rightarrow> ptr \<Rightarrow> u32 \<Rightarrow> (tn_ip_addr \<times> u16) option" where
  "tn_ip_from_sockaddr m sa salen =
     (if sa = NULL \<or> salen = 0 then None
      else if m (sa + 1) = 2 then
        (if salen < 16 then None
         else let (family, port, addr) = tn_sockin_load_bytes m sa in Some (Ip4 addr, port))
      else if m (sa + 1) = 10 then
        (if salen < 28 then None
         else Some (Ip6 (load_bytes m (sa + 8) 16), load_u16 m (sa + 2)))
      else None)"

definition tn_sockaddr_from_ip :: "mem \<Rightarrow> ptr \<Rightarrow> ptr \<Rightarrow> tn_ip_addr \<Rightarrow> u16 \<Rightarrow> mem option" where
  "tn_sockaddr_from_ip m sa salen ip port =
     (if sa = NULL \<or> salen = NULL then None
      else case ip of
        Ip4 a \<Rightarrow>
          if load_u32 m salen < 16 then None
          else Some (store_u32 (tn_sockin_store_bytes (store_bytes m sa (replicate 16 0)) sa 2 port a) salen 16)
      | Ip6 bs \<Rightarrow>
          if load_u32 m salen < 28 then None
          else Some (store_u32
                 (store_bytes (store_bytes (store_bytes (store_bytes m sa (replicate 28 0)) sa [28, 10])
                    (sa + 2) (be_of_u16 port)) (sa + 8) bs) salen 28))"

section \<open>Lemmas\<close>

lemma length_load_bytes [simp]: "length (load_bytes m p n) = n"
  by (simp add: load_bytes_def)

lemma unat_word_of_nat: "i < 2 ^ LENGTH('a) \<Longrightarrow> unat (word_of_nat i :: 'a::len word) = i"
  by (simp add: unsigned_of_nat take_bit_nat_eq_self)

lemma load_store_same:
  assumes "length bs \<le> 2 ^ 32"
  shows "load_bytes (store_bytes m p bs) p (length bs) = bs"
proof (rule nth_equalityI)
  fix i assume "i < length (load_bytes (store_bytes m p bs) p (length bs))"
  then have i: "i < length bs" by simp
  then have "unat (word_of_nat i :: u32) = i"
    using assms by (intro unat_word_of_nat) simp
  then show "load_bytes (store_bytes m p bs) p (length bs) ! i = bs ! i"
    using i by (simp add: load_bytes_def store_bytes_def)
qed simp

lemma store_bytes_outside: "length bs \<le> unat (a - p) \<Longrightarrow> store_bytes m p bs a = m a"
  by (simp add: store_bytes_def Let_def)

lemma length_be [simp]: "length (be_of_u16 v) = 2" "length (be_of_u32 w) = 4"
  by (simp_all add: be_of_u16_def be_of_u32_def)

lemma u16_be_roundtrip [simp]: "u16_of_be (be_of_u16 v) = v"
proof (rule bit_word_eqI)
  fix n assume "n < LENGTH(16)"
  then have "n < 8 \<or> (8 \<le> n \<and> n < 16)" by auto
  then show "bit (u16_of_be (be_of_u16 v)) n = bit v n"
    by (auto simp: u16_of_be_def be_of_u16_def bit_simps)
qed

lemma u32_be_roundtrip [simp]: "u32_of_be (be_of_u32 v) = v"
proof (rule bit_word_eqI)
  fix n assume "n < LENGTH(32)"
  then have "n < 8 \<or> (8 \<le> n \<and> n < 16) \<or> (16 \<le> n \<and> n < 24) \<or> (24 \<le> n \<and> n < 32)" by auto
  then show "bit (u32_of_be (be_of_u32 v)) n = bit v n"
    by (auto simp: u32_of_be_def be_of_u32_def bit_simps)
qed

lemma load_store_u32 [simp]: "load_u32 (store_u32 m p v) p = v"
  using load_store_same [of "be_of_u32 v" m p] by (simp add: load_u32_def store_u32_def)

lemma length_sockin_bytes [simp]: "length (sockin_bytes f p a) = 16"
  by (simp add: sockin_bytes_def)

lemma sockin_load_store:
  assumes "dst \<noteq> NULL"
  shows "tn_sockin_load_bytes (tn_sockin_store_bytes m dst f p a) dst = (ucast (ucast f :: u8), p, a)"
proof -
  have "load_bytes (store_bytes m dst (sockin_bytes f p a)) dst 16 = sockin_bytes f p a"
    using load_store_same [of "sockin_bytes f p a" m dst] by simp
  moreover have "u16_of_be [sockin_bytes f p a ! 2, sockin_bytes f p a ! 3] = p"
    using u16_be_roundtrip [of p] by (simp add: sockin_bytes_def be_of_u16_def)
  moreover have "take 4 (drop 4 (sockin_bytes f p a)) = be_of_u32 a"
    by (simp add: sockin_bytes_def be_of_u16_def be_of_u32_def)
  ultimately show ?thesis
    using assms by (simp add: tn_sockin_load_bytes_def tn_sockin_store_bytes_def sizeof_sockaddr_in_def
        sockin_bytes_def)
qed

section \<open>Adjacent stores\<close>

lemma store_bytes_nil [simp]: "store_bytes m p [] = m"
  by (simp add: store_bytes_def)

lemma store_bytes_append:
  assumes "length xs + length ys \<le> 2 ^ 32"
  shows "store_bytes (store_bytes m p xs) (p + word_of_nat (length xs)) ys = store_bytes m p (xs @ ys)"
proof
  fix a
  let ?n = "length xs" and ?w = "word_of_nat (length xs) :: u32"
  show "store_bytes (store_bytes m p xs) (p + ?w) ys a = store_bytes m p (xs @ ys) a"
  proof (cases "ys = []")
    case False
    then have n: "?n < 2 ^ 32" using assms by (cases ys) auto
    then have w: "unat ?w = ?n" by (intro unat_word_of_nat) simp
    show ?thesis
    proof (cases "?n \<le> unat (a - p)")
      case True
      then have "?w \<le> a - p" using w by (simp add: word_le_nat_alt)
      then have "unat (a - p - ?w) = unat (a - p) - ?n" using w by (simp add: unat_sub)
      then have "unat (a - (p + ?w)) = unat (a - p) - ?n" by (simp add: diff_diff_add)
      then show ?thesis using True by (auto simp: store_bytes_def Let_def nth_append)
    next
      case False
      have "\<not> unat (a - (p + ?w)) < length ys"
      proof
        assume l: "unat (a - (p + ?w)) < length ys"
        have "a - p = (a - (p + ?w)) + ?w" by simp
        then have "unat (a - p) = unat (a - (p + ?w)) + ?n \<or> unat (a - (p + ?w)) + ?n \<ge> 2 ^ 32"
          using unat_add_lem [of "a - (p + ?w)" ?w] w by (auto simp: not_less)
        then show False using False l assms by auto
      qed
      then show ?thesis using False by (auto simp: store_bytes_def Let_def nth_append)
    qed
  qed simp
qed

end
