(* ===== verification/Task_Ctx.thy ===== *)
theory Task_Ctx
  imports Client_Memory Route
begin

text \<open>
  The daemon's data model (task/task_ctx.h, include/ipc.h): IPC messages, per-opener socket
  bases, socket slots, selectors and the daemon singleton, together with the interface to
  the code outside the repository's own sources.  lwIP and Exec are parameters: every call
  is an \<open>lwcall\<close> whose result and effect on the lwIP state are given by the environment, and
  is recorded, with replies and signals, in the trace \<open>d_fx\<close>.
\<close>

section \<open>Messages and bases (ipc.h)\<close>

record TnIpcMsg =
  im_cmd :: int
  im_client_task :: ptr
  im_socket_base :: ptr
  im_args :: "nat \<Rightarrow> int"
  im_ptrs :: "nat \<Rightarrow> ptr"
  im_result :: int
  im_err_no :: int

text \<open>
  The fields of \<open>TnSocketBase\<close> that the daemon reads or writes.  The three per-descriptor
  arrays are lists; the \<open>_null\<close> flags tell a \<open>NULL\<close> pointer.
\<close>

record TnSocketBase =
  sb_owner_task :: ptr
  sb_sig_io :: u32
  sb_sig_event :: u32
  sb_sig_select :: u32
  sb_dtablesize :: int
  sb_fd_map :: "int list"
  sb_fd_map_null :: bool
  sb_events :: "u32 list"
  sb_events_null :: bool
  sb_event_masks :: "u32 list"
  sb_event_masks_null :: bool
  sb_hostname :: bytes
  sb_hostent_name :: bytes
  sb_hostent_addr :: u32
  sb_hostent_valid :: bool

section \<open>Socket slots (task_ctx.h)\<close>

datatype TnTcpState = TCP_CLOSED | TCP_CONNECTING | TCP_ESTABLISHED | TCP_LISTENING
  | TCP_PEER_CLOSED | TCP_ERROR

text \<open>
  A queued packet: the pbuf is its payload (\<open>push\<close> refuses a \<open>NULL\<close> pbuf), \<open>tot_len\<close> the
  length of it.  The \<open>next\<close> links are the list structure of the queue; theory \<open>Rx_Queue\<close>
  shows that the pointer manipulation of slot_table.c implements it.
\<close>

record TnRxPacket =
  pk_p :: bytes
  pk_offset :: nat
  pk_src_ip :: u32
  pk_src_port :: u16

record TnAcceptEntry =
  ae_addr :: ptr
  ae_new_pcb :: ptr
  ae_early_rx :: "TnRxPacket list"
  ae_early_rx_count :: nat
  ae_peer_closed :: bool

record slot_opts =
  opt_broadcast :: bool
  opt_reuseaddr :: bool
  opt_keepalive :: bool
  opt_oobinline :: bool
  opt_linger_onoff :: int
  opt_linger_linger :: int
  opt_sndbuf :: int
  opt_rcvbuf :: int
  opt_rcvtimeo_secs :: u32
  opt_rcvtimeo_micro :: u32
  opt_sndtimeo_secs :: u32
  opt_sndtimeo_micro :: u32
  opt_nodelay :: bool
  opt_mss :: u16
  opt_keepidle :: int
  opt_keepintvl :: int
  opt_keepcnt :: int
  opt_tos :: u8
  opt_ttl :: u8
  opt_hdrincl :: bool
  opt_multicast_ttl :: u8
  opt_multicast_loop :: u8

record TnSocketSlot =
  s_in_use :: bool
  s_owner_base :: ptr
  s_owner_task :: ptr
  s_domain :: int
  s_type :: int
  s_protocol :: int
  s_tcp_state :: TnTcpState
  s_is_nonblocking :: bool
  s_shut_wr :: bool
  s_shut_rd :: bool
  s_opts :: slot_opts
  s_last_error :: int
  s_rx_count :: nat
  s_ref_count :: int
  s_udp_pcb :: ptr
  s_tcp_pcb :: ptr
  s_raw_pcb :: ptr
  s_rx :: "TnRxPacket list"
  s_accept :: "TnAcceptEntry list"
  s_accept_count :: nat
  s_listen_backlog :: nat
  s_pending_connect_msg :: ptr
  s_pending_accept_msg :: ptr
  s_pending_recv_msg :: ptr
  s_recv_deadline_tick :: u32
  s_pending_send_msg :: ptr
  s_send_deadline_tick :: u32
  s_send_done :: int
  s_send_iov :: ptr
  s_send_iovcnt :: u32
  s_park_id :: int
  s_is_parked :: bool

record TnSelector =
  sel_in_use :: bool
  sel_base :: ptr
  sel_task :: ptr
  sel_sig_select :: u32
  sel_nfds :: int
  sel_read_mask :: u32
  sel_write_mask :: u32
  sel_except_mask :: u32
  sel_read_mask_hi :: u32
  sel_write_mask_hi :: u32
  sel_except_mask_hi :: u32

record TnDnsPending =
  dp_imsg :: ptr
  dp_base :: ptr
  dp_name :: bytes
  dp_tick :: u32
  dp_in_use :: bool

record mcast_join =
  mj_in_use :: bool
  mj_slot :: nat
  mj_grp :: u32
  mj_ifa :: u32

section \<open>lwIP control blocks\<close>

text \<open>The fields of lwIP's control blocks that tolunnet reads or writes directly.\<close>

record tcp_pcb =
  tp_local_ip :: u32
  tp_local_port :: u16
  tp_remote_ip :: u32
  tp_remote_port :: u16
  tp_state :: nat
  tp_mss :: u16
  tp_keep_idle :: u32
  tp_keep_intvl :: u32
  tp_keep_cnt :: u32
  tp_tos :: u8
  tp_ttl :: u8
  tp_so_options :: u8
  tp_flags :: u16
  tp_snd_buf :: u16
  tp_snd_queuelen :: u16

record udp_pcb =
  up_local_ip :: u32
  up_local_port :: u16
  up_remote_ip :: u32
  up_remote_port :: u16
  up_tos :: u8
  up_ttl :: u8
  up_mcast_ttl :: u8
  up_so_options :: u8
  up_flags :: u8

record raw_pcb =
  rp_local_ip :: u32
  rp_remote_ip :: u32
  rp_tos :: u8
  rp_ttl :: u8
  rp_mcast_ttl :: u8
  rp_so_options :: u8
  rp_flags :: u8

record lwip =
  lw_tcp :: "ptr \<Rightarrow> tcp_pcb"
  lw_udp :: "ptr \<Rightarrow> udp_pcb"
  lw_raw :: "ptr \<Rightarrow> raw_pcb"
  lw_clock :: nat

text \<open>Callback arguments and the callbacks tolunnet registers.\<close>

datatype cbarg = ArgNull | ArgSlot nat | ArgEntry ptr

datatype cbfun = CbNull | Cb_tcp_recv | Cb_tcp_sent | Cb_tcp_err | Cb_tcp_poll | Cb_tcp_accept
  | Cb_tcp_connected | Cb_queued_recv | Cb_queued_err | Cb_udp_recv | Cb_raw_recv

datatype lwcall =
    TcpNew | TcpArg ptr cbarg | TcpRecv ptr cbfun | TcpSent ptr cbfun | TcpErr ptr cbfun
  | TcpPoll ptr cbfun nat | TcpAccept ptr cbfun | TcpClose ptr | TcpAbort ptr | TcpOutput ptr
  | TcpWrite ptr bytes | TcpRecved ptr nat | TcpConnect ptr u32 u16 | TcpBind ptr u32 u16
  | TcpListen ptr nat | TcpShutdown ptr bool bool
  | UdpNew | UdpRecv ptr cbarg | UdpRemove ptr | UdpBind ptr u32 u16 | UdpConnect ptr u32 u16
  | UdpSendto ptr bytes u32 u16
  | RawNew u8 | RawRecv ptr cbarg | RawRemove ptr | RawBind ptr u32 | RawConnect ptr u32
  | RawSend ptr bytes | RawSendto ptr bytes u32
  | PbufAlloc nat | PbufClone bytes | PbufFree bytes
  | AllocRxPkt | FreeRxPkt | AllocSelectors nat | FreeSelectors | AllocEntry | FreeEntry ptr
  | IgmpJoin u32 u32 | IgmpLeave u32 u32
  | DnsGethostbyname bytes
  | CbReturn int

datatype effect = FxReply ptr | FxSignal ptr u32 | FxCall lwcall int

abbreviation (input) ERR_OK :: int where "ERR_OK \<equiv> 0"
abbreviation (input) ERR_MEM :: int where "ERR_MEM \<equiv> -1"
abbreviation (input) ERR_BUF :: int where "ERR_BUF \<equiv> -2"
abbreviation (input) ERR_RTE :: int where "ERR_RTE \<equiv> -4"
abbreviation (input) ERR_INPROGRESS :: int where "ERR_INPROGRESS \<equiv> -5"
abbreviation (input) ERR_VAL :: int where "ERR_VAL \<equiv> -6"
abbreviation (input) ERR_USE :: int where "ERR_USE \<equiv> -8"
abbreviation (input) ERR_CONN :: int where "ERR_CONN \<equiv> -11"
abbreviation (input) ERR_ABRT :: int where "ERR_ABRT \<equiv> -13"
abbreviation (input) ERR_RST :: int where "ERR_RST \<equiv> -14"
abbreviation (input) ERR_CLSD :: int where "ERR_CLSD \<equiv> -15"
abbreviation (input) ERR_ARG :: int where "ERR_ARG \<equiv> -16"

text \<open>
  \<open>AllocVec\<close> and \<open>FreeVec\<close> appear by the kind of object; a result of 0 is \<open>NULL\<close>, for
  \<open>PbufClone\<close> and \<open>PbufAlloc\<close> too.
\<close>

section \<open>The daemon (task_ctx.h)\<close>

text \<open>
  \<open>d_selectors\<close> has \<open>max_selectors\<close> entries and is empty when the table is not allocated.
  The stores \<open>d_bases\<close>, \<open>d_msgs\<close> and \<open>d_mem\<close> hold the client-owned objects the daemon
  reaches through pointers.  \<open>d_rxfree\<close> is the length of the packet freelist of slot_table.c.
\<close>

record TnDaemon =
  d_sockets :: "TnSocketSlot list"
  d_next_park_id :: int
  d_hostname :: bytes
  d_selectors :: "TnSelector list"
  d_selector_count :: u8
  d_ipc_calls :: "u32 list"
  d_deferred_replies :: u32
  d_sigio_sent :: u32
  d_selector_wakeups :: u32
  d_mainloop_ticks :: u32
  d_rx_high_water :: nat
  d_rxfree :: nat
  d_dns_late_replies :: u32
  d_dns_pending :: "TnDnsPending list"
  d_dns_pending_count :: u8
  d_dns_pending_max :: nat
  d_open_bases :: "ptr list"
  d_open_base_count :: nat
  d_mcast_joins :: "mcast_join list"
  d_slot_free_hook :: bool
  d_running :: bool
  d_stop_msg :: ptr
  d_lib_open_cnt :: int
  d_routes :: "TnRoute list"
  d_bases :: "ptr \<Rightarrow> TnSocketBase"
  d_msgs :: "ptr \<Rightarrow> TnIpcMsg"
  d_mem :: mem
  d_lw :: lwip
  d_fx :: "effect list"

definition TN_MAX_GLOBAL_SOCKETS :: nat where "TN_MAX_GLOBAL_SOCKETS = 64"
definition TN_MAX_RX_QUEUE_PER_SOCKET :: nat where "TN_MAX_RX_QUEUE_PER_SOCKET = 32"
definition TN_ACCEPT_QUEUE_MAX :: nat where "TN_ACCEPT_QUEUE_MAX = 8"
definition TN_MAX_SELECTORS :: nat where "TN_MAX_SELECTORS = 16"
definition TN_CLIENT_BASES_MAX :: nat where "TN_CLIENT_BASES_MAX = 16"
definition TCP_SND_BUF :: int where "TCP_SND_BUF = 11680"
definition TCP_WND :: int where "TCP_WND = 11680"
definition TCP_SND_QUEUELEN :: u16 where "TCP_SND_QUEUELEN = 16"

abbreviation (input) AF_INET :: int where "AF_INET \<equiv> 2"
abbreviation (input) SOCK_STREAM :: int where "SOCK_STREAM \<equiv> 1"
abbreviation (input) SOCK_DGRAM :: int where "SOCK_DGRAM \<equiv> 2"
abbreviation (input) SOCK_RAW :: int where "SOCK_RAW \<equiv> 3"
abbreviation (input) IPPROTO_ICMP :: int where "IPPROTO_ICMP \<equiv> 1"
abbreviation (input) IPPROTO_TCP :: int where "IPPROTO_TCP \<equiv> 6"
abbreviation (input) IPPROTO_UDP :: int where "IPPROTO_UDP \<equiv> 17"
abbreviation (input) IPPROTO_RAW :: int where "IPPROTO_RAW \<equiv> 255"

abbreviation (input) FD_ACCEPT :: u32 where "FD_ACCEPT \<equiv> 1"
abbreviation (input) FD_CONNECT :: u32 where "FD_CONNECT \<equiv> 2"
abbreviation (input) FD_READ :: u32 where "FD_READ \<equiv> 8"
abbreviation (input) FD_WRITE :: u32 where "FD_WRITE \<equiv> 0x10"
abbreviation (input) FD_ERROR :: u32 where "FD_ERROR \<equiv> 0x20"
abbreviation (input) FD_CLOSE :: u32 where "FD_CLOSE \<equiv> 0x40"

section \<open>Environment and elementary operations\<close>

text \<open>
  lwIP events delivered while the loopback queues are polled: a call of one of tolunnet's
  callbacks with its arguments.  \<open>ev_poll\<close> is one pass over the interfaces: \<open>None\<close> when no
  interface has a packet queued, else the callbacks the pass makes; the value a callback
  returns to lwIP is handed over as the call \<open>CbReturn\<close>.
\<close>

datatype lwevent =
    EvTcpRecv int ptr "bytes option" | EvTcpSent int ptr nat | EvTcpPoll int ptr
  | EvTcpConnected int ptr | EvTcpErr int int | EvTcpAccept int ptr int
  | EvQueuedRecv ptr ptr "bytes option" | EvQueuedErr ptr
  | EvUdpRecv int "bytes option" u32 u16 | EvRawRecv int "bytes option" u32

text \<open>
  What the handlers read of lwIP beyond its control blocks: the interface list, the default
  interface, the ARP cache, \<open>ip4addr_aton\<close>, the address \<open>dns_gethostbyname\<close> stores, whether a
  task is on Exec's lists, and the compiler's offset of \<open>hostent_data\<close> in \<open>TnSocketBase\<close>.
\<close>

record netif =
  ni_name :: "u8 \<times> u8"
  ni_unit :: "nat option"
  ni_ip :: u32
  ni_mask :: u32
  ni_up :: bool
  ni_link_up :: bool
  ni_broadcast :: bool
  ni_igmp :: bool
  ni_mtu :: u16

record env =
  ev_call :: "lwcall \<Rightarrow> lwip \<Rightarrow> int \<times> lwip"
  ev_netifs :: "lwip \<Rightarrow> netif list"
  ev_default :: "lwip \<Rightarrow> netif option"
  ev_arp :: "lwip \<Rightarrow> u32 \<Rightarrow> bytes option"
  ev_aton :: "bytes \<Rightarrow> u32 option"
  ev_dns_addr :: "lwip \<Rightarrow> bytes \<Rightarrow> u32"
  ev_task_alive :: "lwip \<Rightarrow> ptr \<Rightarrow> bool"
  ev_hostent_off :: u32
  ev_poll :: "lwip \<Rightarrow> (lwevent list \<times> lwip) option"

datatype action = REPLY_NOW | DEFER

definition lwcall :: "env \<Rightarrow> lwcall \<Rightarrow> TnDaemon \<Rightarrow> TnDaemon \<times> int" where
  "lwcall E c d = (let (r, l) = ev_call E c (d_lw d)
                   in (d\<lparr>d_lw := l, d_fx := d_fx d @ [FxCall c r]\<rparr>, r))"

definition lwdo :: "env \<Rightarrow> lwcall \<Rightarrow> TnDaemon \<Rightarrow> TnDaemon" where
  "lwdo E c d = fst (lwcall E c d)"

fun lwdos :: "env \<Rightarrow> lwcall list \<Rightarrow> TnDaemon \<Rightarrow> TnDaemon" where
  "lwdos E [] d = d"
| "lwdos E (c # cs) d = lwdos E cs (lwdo E c d)"

abbreviation slot_of :: "TnDaemon \<Rightarrow> nat \<Rightarrow> TnSocketSlot" where
  "slot_of d i \<equiv> d_sockets d ! i"

definition upd_slot :: "nat \<Rightarrow> (TnSocketSlot \<Rightarrow> TnSocketSlot) \<Rightarrow> TnDaemon \<Rightarrow> TnDaemon" where
  "upd_slot i f d = d\<lparr>d_sockets := (d_sockets d)[i := f (slot_of d i)]\<rparr>"

definition upd_msg :: "ptr \<Rightarrow> (TnIpcMsg \<Rightarrow> TnIpcMsg) \<Rightarrow> TnDaemon \<Rightarrow> TnDaemon" where
  "upd_msg m f d = d\<lparr>d_msgs := (d_msgs d)(m := f (d_msgs d m))\<rparr>"

definition upd_base :: "ptr \<Rightarrow> (TnSocketBase \<Rightarrow> TnSocketBase) \<Rightarrow> TnDaemon \<Rightarrow> TnDaemon" where
  "upd_base b f d = d\<lparr>d_bases := (d_bases d)(b := f (d_bases d b))\<rparr>"

definition upd_tcp :: "ptr \<Rightarrow> (tcp_pcb \<Rightarrow> tcp_pcb) \<Rightarrow> TnDaemon \<Rightarrow> TnDaemon" where
  "upd_tcp p f d = d\<lparr>d_lw := (d_lw d)\<lparr>lw_tcp := (lw_tcp (d_lw d))(p := f (lw_tcp (d_lw d) p))\<rparr>\<rparr>"

definition upd_udp :: "ptr \<Rightarrow> (udp_pcb \<Rightarrow> udp_pcb) \<Rightarrow> TnDaemon \<Rightarrow> TnDaemon" where
  "upd_udp p f d = d\<lparr>d_lw := (d_lw d)\<lparr>lw_udp := (lw_udp (d_lw d))(p := f (lw_udp (d_lw d) p))\<rparr>\<rparr>"

definition upd_raw :: "ptr \<Rightarrow> (raw_pcb \<Rightarrow> raw_pcb) \<Rightarrow> TnDaemon \<Rightarrow> TnDaemon" where
  "upd_raw p f d = d\<lparr>d_lw := (d_lw d)\<lparr>lw_raw := (lw_raw (d_lw d))(p := f (lw_raw (d_lw d) p))\<rparr>\<rparr>"

text \<open>\<open>imsg->result = r; imsg->err_no = e;\<close> and \<open>ReplyMsg\<close>.\<close>

definition set_reply :: "ptr \<Rightarrow> int \<Rightarrow> int \<Rightarrow> TnDaemon \<Rightarrow> TnDaemon" where
  "set_reply m r e d = upd_msg m (\<lambda>x. x\<lparr>im_result := r, im_err_no := e\<rparr>) d"

definition ReplyMsg :: "ptr \<Rightarrow> TnDaemon \<Rightarrow> TnDaemon" where
  "ReplyMsg m d = d\<lparr>d_fx := d_fx d @ [FxReply m]\<rparr>"

definition Signal :: "ptr \<Rightarrow> u32 \<Rightarrow> TnDaemon \<Rightarrow> TnDaemon" where
  "Signal task sigs d = d\<lparr>d_fx := d_fx d @ [FxSignal task sigs]\<rparr>"

abbreviation answer :: "ptr \<Rightarrow> int \<Rightarrow> int \<Rightarrow> TnDaemon \<Rightarrow> TnDaemon \<times> action" where
  "answer m r e d \<equiv> (set_reply m r e d, REPLY_NOW)"

section \<open>Frame lemmas\<close>

text \<open>Which fields of the daemon the elementary operations leave alone.\<close>

lemma upd_slot_frame [simp]:
  "d_next_park_id (upd_slot i f d) = d_next_park_id d"
  "d_hostname (upd_slot i f d) = d_hostname d"
  "d_selectors (upd_slot i f d) = d_selectors d"
  "d_selector_count (upd_slot i f d) = d_selector_count d"
  "d_ipc_calls (upd_slot i f d) = d_ipc_calls d"
  "d_deferred_replies (upd_slot i f d) = d_deferred_replies d"
  "d_sigio_sent (upd_slot i f d) = d_sigio_sent d"
  "d_selector_wakeups (upd_slot i f d) = d_selector_wakeups d"
  "d_mainloop_ticks (upd_slot i f d) = d_mainloop_ticks d"
  "d_rx_high_water (upd_slot i f d) = d_rx_high_water d"
  "d_rxfree (upd_slot i f d) = d_rxfree d"
  "d_dns_late_replies (upd_slot i f d) = d_dns_late_replies d"
  "d_dns_pending (upd_slot i f d) = d_dns_pending d"
  "d_dns_pending_count (upd_slot i f d) = d_dns_pending_count d"
  "d_dns_pending_max (upd_slot i f d) = d_dns_pending_max d"
  "d_open_bases (upd_slot i f d) = d_open_bases d"
  "d_open_base_count (upd_slot i f d) = d_open_base_count d"
  "d_mcast_joins (upd_slot i f d) = d_mcast_joins d"
  "d_slot_free_hook (upd_slot i f d) = d_slot_free_hook d"
  "d_running (upd_slot i f d) = d_running d"
  "d_stop_msg (upd_slot i f d) = d_stop_msg d"
  "d_lib_open_cnt (upd_slot i f d) = d_lib_open_cnt d"
  "d_routes (upd_slot i f d) = d_routes d"
  "d_bases (upd_slot i f d) = d_bases d"
  "d_msgs (upd_slot i f d) = d_msgs d"
  "d_mem (upd_slot i f d) = d_mem d"
  "d_lw (upd_slot i f d) = d_lw d"
  "d_fx (upd_slot i f d) = d_fx d"
  by (simp_all add: upd_slot_def)

lemma upd_msg_frame [simp]:
  "d_sockets (upd_msg m g d) = d_sockets d"
  "d_next_park_id (upd_msg m g d) = d_next_park_id d"
  "d_hostname (upd_msg m g d) = d_hostname d"
  "d_selectors (upd_msg m g d) = d_selectors d"
  "d_selector_count (upd_msg m g d) = d_selector_count d"
  "d_ipc_calls (upd_msg m g d) = d_ipc_calls d"
  "d_deferred_replies (upd_msg m g d) = d_deferred_replies d"
  "d_sigio_sent (upd_msg m g d) = d_sigio_sent d"
  "d_selector_wakeups (upd_msg m g d) = d_selector_wakeups d"
  "d_mainloop_ticks (upd_msg m g d) = d_mainloop_ticks d"
  "d_rx_high_water (upd_msg m g d) = d_rx_high_water d"
  "d_rxfree (upd_msg m g d) = d_rxfree d"
  "d_dns_late_replies (upd_msg m g d) = d_dns_late_replies d"
  "d_dns_pending (upd_msg m g d) = d_dns_pending d"
  "d_dns_pending_count (upd_msg m g d) = d_dns_pending_count d"
  "d_dns_pending_max (upd_msg m g d) = d_dns_pending_max d"
  "d_open_bases (upd_msg m g d) = d_open_bases d"
  "d_open_base_count (upd_msg m g d) = d_open_base_count d"
  "d_mcast_joins (upd_msg m g d) = d_mcast_joins d"
  "d_slot_free_hook (upd_msg m g d) = d_slot_free_hook d"
  "d_running (upd_msg m g d) = d_running d"
  "d_stop_msg (upd_msg m g d) = d_stop_msg d"
  "d_lib_open_cnt (upd_msg m g d) = d_lib_open_cnt d"
  "d_routes (upd_msg m g d) = d_routes d"
  "d_bases (upd_msg m g d) = d_bases d"
  "d_mem (upd_msg m g d) = d_mem d"
  "d_lw (upd_msg m g d) = d_lw d"
  "d_fx (upd_msg m g d) = d_fx d"
  by (simp_all add: upd_msg_def)

lemma upd_base_frame [simp]:
  "d_sockets (upd_base b h d) = d_sockets d"
  "d_next_park_id (upd_base b h d) = d_next_park_id d"
  "d_hostname (upd_base b h d) = d_hostname d"
  "d_selectors (upd_base b h d) = d_selectors d"
  "d_selector_count (upd_base b h d) = d_selector_count d"
  "d_ipc_calls (upd_base b h d) = d_ipc_calls d"
  "d_deferred_replies (upd_base b h d) = d_deferred_replies d"
  "d_sigio_sent (upd_base b h d) = d_sigio_sent d"
  "d_selector_wakeups (upd_base b h d) = d_selector_wakeups d"
  "d_mainloop_ticks (upd_base b h d) = d_mainloop_ticks d"
  "d_rx_high_water (upd_base b h d) = d_rx_high_water d"
  "d_rxfree (upd_base b h d) = d_rxfree d"
  "d_dns_late_replies (upd_base b h d) = d_dns_late_replies d"
  "d_dns_pending (upd_base b h d) = d_dns_pending d"
  "d_dns_pending_count (upd_base b h d) = d_dns_pending_count d"
  "d_dns_pending_max (upd_base b h d) = d_dns_pending_max d"
  "d_open_bases (upd_base b h d) = d_open_bases d"
  "d_open_base_count (upd_base b h d) = d_open_base_count d"
  "d_mcast_joins (upd_base b h d) = d_mcast_joins d"
  "d_slot_free_hook (upd_base b h d) = d_slot_free_hook d"
  "d_running (upd_base b h d) = d_running d"
  "d_stop_msg (upd_base b h d) = d_stop_msg d"
  "d_lib_open_cnt (upd_base b h d) = d_lib_open_cnt d"
  "d_routes (upd_base b h d) = d_routes d"
  "d_msgs (upd_base b h d) = d_msgs d"
  "d_mem (upd_base b h d) = d_mem d"
  "d_lw (upd_base b h d) = d_lw d"
  "d_fx (upd_base b h d) = d_fx d"
  by (simp_all add: upd_base_def)

lemma upd_tcp_frame [simp]:
  "d_sockets (upd_tcp p ft d) = d_sockets d"
  "d_next_park_id (upd_tcp p ft d) = d_next_park_id d"
  "d_hostname (upd_tcp p ft d) = d_hostname d"
  "d_selectors (upd_tcp p ft d) = d_selectors d"
  "d_selector_count (upd_tcp p ft d) = d_selector_count d"
  "d_ipc_calls (upd_tcp p ft d) = d_ipc_calls d"
  "d_deferred_replies (upd_tcp p ft d) = d_deferred_replies d"
  "d_sigio_sent (upd_tcp p ft d) = d_sigio_sent d"
  "d_selector_wakeups (upd_tcp p ft d) = d_selector_wakeups d"
  "d_mainloop_ticks (upd_tcp p ft d) = d_mainloop_ticks d"
  "d_rx_high_water (upd_tcp p ft d) = d_rx_high_water d"
  "d_rxfree (upd_tcp p ft d) = d_rxfree d"
  "d_dns_late_replies (upd_tcp p ft d) = d_dns_late_replies d"
  "d_dns_pending (upd_tcp p ft d) = d_dns_pending d"
  "d_dns_pending_count (upd_tcp p ft d) = d_dns_pending_count d"
  "d_dns_pending_max (upd_tcp p ft d) = d_dns_pending_max d"
  "d_open_bases (upd_tcp p ft d) = d_open_bases d"
  "d_open_base_count (upd_tcp p ft d) = d_open_base_count d"
  "d_mcast_joins (upd_tcp p ft d) = d_mcast_joins d"
  "d_slot_free_hook (upd_tcp p ft d) = d_slot_free_hook d"
  "d_running (upd_tcp p ft d) = d_running d"
  "d_stop_msg (upd_tcp p ft d) = d_stop_msg d"
  "d_lib_open_cnt (upd_tcp p ft d) = d_lib_open_cnt d"
  "d_routes (upd_tcp p ft d) = d_routes d"
  "d_bases (upd_tcp p ft d) = d_bases d"
  "d_msgs (upd_tcp p ft d) = d_msgs d"
  "d_mem (upd_tcp p ft d) = d_mem d"
  "d_fx (upd_tcp p ft d) = d_fx d"
  by (simp_all add: upd_tcp_def)

lemma upd_udp_frame [simp]:
  "d_sockets (upd_udp p fu d) = d_sockets d"
  "d_next_park_id (upd_udp p fu d) = d_next_park_id d"
  "d_hostname (upd_udp p fu d) = d_hostname d"
  "d_selectors (upd_udp p fu d) = d_selectors d"
  "d_selector_count (upd_udp p fu d) = d_selector_count d"
  "d_ipc_calls (upd_udp p fu d) = d_ipc_calls d"
  "d_deferred_replies (upd_udp p fu d) = d_deferred_replies d"
  "d_sigio_sent (upd_udp p fu d) = d_sigio_sent d"
  "d_selector_wakeups (upd_udp p fu d) = d_selector_wakeups d"
  "d_mainloop_ticks (upd_udp p fu d) = d_mainloop_ticks d"
  "d_rx_high_water (upd_udp p fu d) = d_rx_high_water d"
  "d_rxfree (upd_udp p fu d) = d_rxfree d"
  "d_dns_late_replies (upd_udp p fu d) = d_dns_late_replies d"
  "d_dns_pending (upd_udp p fu d) = d_dns_pending d"
  "d_dns_pending_count (upd_udp p fu d) = d_dns_pending_count d"
  "d_dns_pending_max (upd_udp p fu d) = d_dns_pending_max d"
  "d_open_bases (upd_udp p fu d) = d_open_bases d"
  "d_open_base_count (upd_udp p fu d) = d_open_base_count d"
  "d_mcast_joins (upd_udp p fu d) = d_mcast_joins d"
  "d_slot_free_hook (upd_udp p fu d) = d_slot_free_hook d"
  "d_running (upd_udp p fu d) = d_running d"
  "d_stop_msg (upd_udp p fu d) = d_stop_msg d"
  "d_lib_open_cnt (upd_udp p fu d) = d_lib_open_cnt d"
  "d_routes (upd_udp p fu d) = d_routes d"
  "d_bases (upd_udp p fu d) = d_bases d"
  "d_msgs (upd_udp p fu d) = d_msgs d"
  "d_mem (upd_udp p fu d) = d_mem d"
  "d_fx (upd_udp p fu d) = d_fx d"
  by (simp_all add: upd_udp_def)

lemma upd_raw_frame [simp]:
  "d_sockets (upd_raw p fr d) = d_sockets d"
  "d_next_park_id (upd_raw p fr d) = d_next_park_id d"
  "d_hostname (upd_raw p fr d) = d_hostname d"
  "d_selectors (upd_raw p fr d) = d_selectors d"
  "d_selector_count (upd_raw p fr d) = d_selector_count d"
  "d_ipc_calls (upd_raw p fr d) = d_ipc_calls d"
  "d_deferred_replies (upd_raw p fr d) = d_deferred_replies d"
  "d_sigio_sent (upd_raw p fr d) = d_sigio_sent d"
  "d_selector_wakeups (upd_raw p fr d) = d_selector_wakeups d"
  "d_mainloop_ticks (upd_raw p fr d) = d_mainloop_ticks d"
  "d_rx_high_water (upd_raw p fr d) = d_rx_high_water d"
  "d_rxfree (upd_raw p fr d) = d_rxfree d"
  "d_dns_late_replies (upd_raw p fr d) = d_dns_late_replies d"
  "d_dns_pending (upd_raw p fr d) = d_dns_pending d"
  "d_dns_pending_count (upd_raw p fr d) = d_dns_pending_count d"
  "d_dns_pending_max (upd_raw p fr d) = d_dns_pending_max d"
  "d_open_bases (upd_raw p fr d) = d_open_bases d"
  "d_open_base_count (upd_raw p fr d) = d_open_base_count d"
  "d_mcast_joins (upd_raw p fr d) = d_mcast_joins d"
  "d_slot_free_hook (upd_raw p fr d) = d_slot_free_hook d"
  "d_running (upd_raw p fr d) = d_running d"
  "d_stop_msg (upd_raw p fr d) = d_stop_msg d"
  "d_lib_open_cnt (upd_raw p fr d) = d_lib_open_cnt d"
  "d_routes (upd_raw p fr d) = d_routes d"
  "d_bases (upd_raw p fr d) = d_bases d"
  "d_msgs (upd_raw p fr d) = d_msgs d"
  "d_mem (upd_raw p fr d) = d_mem d"
  "d_fx (upd_raw p fr d) = d_fx d"
  by (simp_all add: upd_raw_def)

lemma set_reply_frame [simp]:
  "d_sockets (set_reply m r e d) = d_sockets d"
  "d_next_park_id (set_reply m r e d) = d_next_park_id d"
  "d_hostname (set_reply m r e d) = d_hostname d"
  "d_selectors (set_reply m r e d) = d_selectors d"
  "d_selector_count (set_reply m r e d) = d_selector_count d"
  "d_ipc_calls (set_reply m r e d) = d_ipc_calls d"
  "d_deferred_replies (set_reply m r e d) = d_deferred_replies d"
  "d_sigio_sent (set_reply m r e d) = d_sigio_sent d"
  "d_selector_wakeups (set_reply m r e d) = d_selector_wakeups d"
  "d_mainloop_ticks (set_reply m r e d) = d_mainloop_ticks d"
  "d_rx_high_water (set_reply m r e d) = d_rx_high_water d"
  "d_rxfree (set_reply m r e d) = d_rxfree d"
  "d_dns_late_replies (set_reply m r e d) = d_dns_late_replies d"
  "d_dns_pending (set_reply m r e d) = d_dns_pending d"
  "d_dns_pending_count (set_reply m r e d) = d_dns_pending_count d"
  "d_dns_pending_max (set_reply m r e d) = d_dns_pending_max d"
  "d_open_bases (set_reply m r e d) = d_open_bases d"
  "d_open_base_count (set_reply m r e d) = d_open_base_count d"
  "d_mcast_joins (set_reply m r e d) = d_mcast_joins d"
  "d_slot_free_hook (set_reply m r e d) = d_slot_free_hook d"
  "d_running (set_reply m r e d) = d_running d"
  "d_stop_msg (set_reply m r e d) = d_stop_msg d"
  "d_lib_open_cnt (set_reply m r e d) = d_lib_open_cnt d"
  "d_routes (set_reply m r e d) = d_routes d"
  "d_bases (set_reply m r e d) = d_bases d"
  "d_mem (set_reply m r e d) = d_mem d"
  "d_lw (set_reply m r e d) = d_lw d"
  "d_fx (set_reply m r e d) = d_fx d"
  by (simp_all add: set_reply_def)

lemma ReplyMsg_frame [simp]:
  "d_sockets (ReplyMsg m d) = d_sockets d"
  "d_next_park_id (ReplyMsg m d) = d_next_park_id d"
  "d_hostname (ReplyMsg m d) = d_hostname d"
  "d_selectors (ReplyMsg m d) = d_selectors d"
  "d_selector_count (ReplyMsg m d) = d_selector_count d"
  "d_ipc_calls (ReplyMsg m d) = d_ipc_calls d"
  "d_deferred_replies (ReplyMsg m d) = d_deferred_replies d"
  "d_sigio_sent (ReplyMsg m d) = d_sigio_sent d"
  "d_selector_wakeups (ReplyMsg m d) = d_selector_wakeups d"
  "d_mainloop_ticks (ReplyMsg m d) = d_mainloop_ticks d"
  "d_rx_high_water (ReplyMsg m d) = d_rx_high_water d"
  "d_rxfree (ReplyMsg m d) = d_rxfree d"
  "d_dns_late_replies (ReplyMsg m d) = d_dns_late_replies d"
  "d_dns_pending (ReplyMsg m d) = d_dns_pending d"
  "d_dns_pending_count (ReplyMsg m d) = d_dns_pending_count d"
  "d_dns_pending_max (ReplyMsg m d) = d_dns_pending_max d"
  "d_open_bases (ReplyMsg m d) = d_open_bases d"
  "d_open_base_count (ReplyMsg m d) = d_open_base_count d"
  "d_mcast_joins (ReplyMsg m d) = d_mcast_joins d"
  "d_slot_free_hook (ReplyMsg m d) = d_slot_free_hook d"
  "d_running (ReplyMsg m d) = d_running d"
  "d_stop_msg (ReplyMsg m d) = d_stop_msg d"
  "d_lib_open_cnt (ReplyMsg m d) = d_lib_open_cnt d"
  "d_routes (ReplyMsg m d) = d_routes d"
  "d_bases (ReplyMsg m d) = d_bases d"
  "d_msgs (ReplyMsg m d) = d_msgs d"
  "d_mem (ReplyMsg m d) = d_mem d"
  "d_lw (ReplyMsg m d) = d_lw d"
  by (simp_all add: ReplyMsg_def)

lemma Signal_frame [simp]:
  "d_sockets (Signal t sg d) = d_sockets d"
  "d_next_park_id (Signal t sg d) = d_next_park_id d"
  "d_hostname (Signal t sg d) = d_hostname d"
  "d_selectors (Signal t sg d) = d_selectors d"
  "d_selector_count (Signal t sg d) = d_selector_count d"
  "d_ipc_calls (Signal t sg d) = d_ipc_calls d"
  "d_deferred_replies (Signal t sg d) = d_deferred_replies d"
  "d_sigio_sent (Signal t sg d) = d_sigio_sent d"
  "d_selector_wakeups (Signal t sg d) = d_selector_wakeups d"
  "d_mainloop_ticks (Signal t sg d) = d_mainloop_ticks d"
  "d_rx_high_water (Signal t sg d) = d_rx_high_water d"
  "d_rxfree (Signal t sg d) = d_rxfree d"
  "d_dns_late_replies (Signal t sg d) = d_dns_late_replies d"
  "d_dns_pending (Signal t sg d) = d_dns_pending d"
  "d_dns_pending_count (Signal t sg d) = d_dns_pending_count d"
  "d_dns_pending_max (Signal t sg d) = d_dns_pending_max d"
  "d_open_bases (Signal t sg d) = d_open_bases d"
  "d_open_base_count (Signal t sg d) = d_open_base_count d"
  "d_mcast_joins (Signal t sg d) = d_mcast_joins d"
  "d_slot_free_hook (Signal t sg d) = d_slot_free_hook d"
  "d_running (Signal t sg d) = d_running d"
  "d_stop_msg (Signal t sg d) = d_stop_msg d"
  "d_lib_open_cnt (Signal t sg d) = d_lib_open_cnt d"
  "d_routes (Signal t sg d) = d_routes d"
  "d_bases (Signal t sg d) = d_bases d"
  "d_msgs (Signal t sg d) = d_msgs d"
  "d_mem (Signal t sg d) = d_mem d"
  "d_lw (Signal t sg d) = d_lw d"
  by (simp_all add: Signal_def)

lemma lwdo_frame [simp]:
  "d_sockets (lwdo E c d) = d_sockets d"
  "d_next_park_id (lwdo E c d) = d_next_park_id d"
  "d_hostname (lwdo E c d) = d_hostname d"
  "d_selectors (lwdo E c d) = d_selectors d"
  "d_selector_count (lwdo E c d) = d_selector_count d"
  "d_ipc_calls (lwdo E c d) = d_ipc_calls d"
  "d_deferred_replies (lwdo E c d) = d_deferred_replies d"
  "d_sigio_sent (lwdo E c d) = d_sigio_sent d"
  "d_selector_wakeups (lwdo E c d) = d_selector_wakeups d"
  "d_mainloop_ticks (lwdo E c d) = d_mainloop_ticks d"
  "d_rx_high_water (lwdo E c d) = d_rx_high_water d"
  "d_rxfree (lwdo E c d) = d_rxfree d"
  "d_dns_late_replies (lwdo E c d) = d_dns_late_replies d"
  "d_dns_pending (lwdo E c d) = d_dns_pending d"
  "d_dns_pending_count (lwdo E c d) = d_dns_pending_count d"
  "d_dns_pending_max (lwdo E c d) = d_dns_pending_max d"
  "d_open_bases (lwdo E c d) = d_open_bases d"
  "d_open_base_count (lwdo E c d) = d_open_base_count d"
  "d_mcast_joins (lwdo E c d) = d_mcast_joins d"
  "d_slot_free_hook (lwdo E c d) = d_slot_free_hook d"
  "d_running (lwdo E c d) = d_running d"
  "d_stop_msg (lwdo E c d) = d_stop_msg d"
  "d_lib_open_cnt (lwdo E c d) = d_lib_open_cnt d"
  "d_routes (lwdo E c d) = d_routes d"
  "d_bases (lwdo E c d) = d_bases d"
  "d_msgs (lwdo E c d) = d_msgs d"
  "d_mem (lwdo E c d) = d_mem d"
  by (simp_all add: lwdo_def lwcall_def Let_def split: prod.splits)

lemma lwdos_frame [simp]:
  "d_sockets (lwdos E cs d) = d_sockets d"
  "d_next_park_id (lwdos E cs d) = d_next_park_id d"
  "d_hostname (lwdos E cs d) = d_hostname d"
  "d_selectors (lwdos E cs d) = d_selectors d"
  "d_selector_count (lwdos E cs d) = d_selector_count d"
  "d_ipc_calls (lwdos E cs d) = d_ipc_calls d"
  "d_deferred_replies (lwdos E cs d) = d_deferred_replies d"
  "d_sigio_sent (lwdos E cs d) = d_sigio_sent d"
  "d_selector_wakeups (lwdos E cs d) = d_selector_wakeups d"
  "d_mainloop_ticks (lwdos E cs d) = d_mainloop_ticks d"
  "d_rx_high_water (lwdos E cs d) = d_rx_high_water d"
  "d_rxfree (lwdos E cs d) = d_rxfree d"
  "d_dns_late_replies (lwdos E cs d) = d_dns_late_replies d"
  "d_dns_pending (lwdos E cs d) = d_dns_pending d"
  "d_dns_pending_count (lwdos E cs d) = d_dns_pending_count d"
  "d_dns_pending_max (lwdos E cs d) = d_dns_pending_max d"
  "d_open_bases (lwdos E cs d) = d_open_bases d"
  "d_open_base_count (lwdos E cs d) = d_open_base_count d"
  "d_mcast_joins (lwdos E cs d) = d_mcast_joins d"
  "d_slot_free_hook (lwdos E cs d) = d_slot_free_hook d"
  "d_running (lwdos E cs d) = d_running d"
  "d_stop_msg (lwdos E cs d) = d_stop_msg d"
  "d_lib_open_cnt (lwdos E cs d) = d_lib_open_cnt d"
  "d_routes (lwdos E cs d) = d_routes d"
  "d_bases (lwdos E cs d) = d_bases d"
  "d_msgs (lwdos E cs d) = d_msgs d"
  "d_mem (lwdos E cs d) = d_mem d"
  by (induction cs arbitrary: d) simp_all

lemma lwcall_frame [simp]:
  "d_sockets (fst (lwcall E c d)) = d_sockets d"
  "d_next_park_id (fst (lwcall E c d)) = d_next_park_id d"
  "d_hostname (fst (lwcall E c d)) = d_hostname d"
  "d_selectors (fst (lwcall E c d)) = d_selectors d"
  "d_selector_count (fst (lwcall E c d)) = d_selector_count d"
  "d_ipc_calls (fst (lwcall E c d)) = d_ipc_calls d"
  "d_deferred_replies (fst (lwcall E c d)) = d_deferred_replies d"
  "d_sigio_sent (fst (lwcall E c d)) = d_sigio_sent d"
  "d_selector_wakeups (fst (lwcall E c d)) = d_selector_wakeups d"
  "d_mainloop_ticks (fst (lwcall E c d)) = d_mainloop_ticks d"
  "d_rx_high_water (fst (lwcall E c d)) = d_rx_high_water d"
  "d_rxfree (fst (lwcall E c d)) = d_rxfree d"
  "d_dns_late_replies (fst (lwcall E c d)) = d_dns_late_replies d"
  "d_dns_pending (fst (lwcall E c d)) = d_dns_pending d"
  "d_dns_pending_count (fst (lwcall E c d)) = d_dns_pending_count d"
  "d_dns_pending_max (fst (lwcall E c d)) = d_dns_pending_max d"
  "d_open_bases (fst (lwcall E c d)) = d_open_bases d"
  "d_open_base_count (fst (lwcall E c d)) = d_open_base_count d"
  "d_mcast_joins (fst (lwcall E c d)) = d_mcast_joins d"
  "d_slot_free_hook (fst (lwcall E c d)) = d_slot_free_hook d"
  "d_running (fst (lwcall E c d)) = d_running d"
  "d_stop_msg (fst (lwcall E c d)) = d_stop_msg d"
  "d_lib_open_cnt (fst (lwcall E c d)) = d_lib_open_cnt d"
  "d_routes (fst (lwcall E c d)) = d_routes d"
  "d_bases (fst (lwcall E c d)) = d_bases d"
  "d_msgs (fst (lwcall E c d)) = d_msgs d"
  "d_mem (fst (lwcall E c d)) = d_mem d"
  by (simp_all add: lwcall_def Let_def split: prod.splits)

lemma sockets_upd_slot: "d_sockets (upd_slot i f d) = (d_sockets d)[i := f (slot_of d i)]"
  by (simp add: upd_slot_def)

lemma length_upd_slot [simp]: "length (d_sockets (upd_slot i f d)) = length (d_sockets d)"
  by (simp add: sockets_upd_slot)

lemma slot_of_upd_slot:
  "j < length (d_sockets d) \<Longrightarrow>
   slot_of (upd_slot i f d) j = (if i = j then f (slot_of d j) else slot_of d j)"
  by (simp add: sockets_upd_slot nth_list_update)

lemma slot_of_upd_same [simp]: "i < length (d_sockets d) \<Longrightarrow> slot_of (upd_slot i f d) i = f (slot_of d i)"
  by (simp add: slot_of_upd_slot)

lemma slot_of_upd_other [simp]: "i \<noteq> j \<Longrightarrow> slot_of (upd_slot i f d) j = slot_of d j"
  by (simp add: sockets_upd_slot)

lemma bases_upd_base: "d_bases (upd_base b h d) = (d_bases d)(b := h (d_bases d b))"
  by (simp add: upd_base_def)

lemma msgs_upd_msg: "d_msgs (upd_msg m g d) = (d_msgs d)(m := g (d_msgs d m))"
  by (simp add: upd_msg_def)

lemma msgs_set_reply:
  "d_msgs (set_reply m r e d) = (d_msgs d)(m := (d_msgs d m)\<lparr>im_result := r, im_err_no := e\<rparr>)"
  by (simp add: set_reply_def msgs_upd_msg)

lemma fx_ReplyMsg [simp]: "d_fx (ReplyMsg m d) = d_fx d @ [FxReply m]"
  by (simp add: ReplyMsg_def)

lemma fx_Signal [simp]: "d_fx (Signal t sg d) = d_fx d @ [FxSignal t sg]"
  by (simp add: Signal_def)

end
