(* ===== verification/Slot_Table.thy ===== *)
theory Slot_Table
  imports Task_Ctx
begin

text \<open>
  The socket slot table (task/slot_table.c): allocation, lookup, reference counting and
  release of slots, the receive and accept queues, parked receives and sends with their
  deadlines, and event recording.  \<open>tn_mcast_leave_all\<close> (task/ipc_setsockopt.c) is the
  slot-free hook the daemon installs.
\<close>

section \<open>Packet freelist\<close>

definition TN_RXFREELIST_MAX :: nat where "TN_RXFREELIST_MAX = 128"

text \<open>Whether a zeroed packet is available.\<close>

definition tn_rxpkt_get :: "env \<Rightarrow> TnDaemon \<Rightarrow> TnDaemon \<times> bool" where
  "tn_rxpkt_get E d =
     (if d_rxfree d > 0 then (d\<lparr>d_rxfree := d_rxfree d - 1\<rparr>, True)
      else let (d1, r) = lwcall E AllocRxPkt d in (d1, r \<noteq> 0))"

definition tn_rxpkt_put :: "env \<Rightarrow> TnDaemon \<Rightarrow> TnDaemon" where
  "tn_rxpkt_put E d =
     (if d_rxfree d < TN_RXFREELIST_MAX then d\<lparr>d_rxfree := d_rxfree d + 1\<rparr> else lwdo E FreeRxPkt d)"

fun free_pkts :: "env \<Rightarrow> TnRxPacket list \<Rightarrow> TnDaemon \<Rightarrow> TnDaemon" where
  "free_pkts E [] d = d"
| "free_pkts E (pk # pks) d = free_pkts E pks (tn_rxpkt_put E (lwdo E (PbufFree (pk_p pk)) d))"

section \<open>Table initialisation and allocation\<close>

definition null_opts :: slot_opts where
  "null_opts = \<lparr>opt_broadcast = False, opt_reuseaddr = False, opt_keepalive = False,
     opt_oobinline = False, opt_linger_onoff = 0, opt_linger_linger = 0, opt_sndbuf = 0,
     opt_rcvbuf = 0, opt_rcvtimeo_secs = 0, opt_rcvtimeo_micro = 0, opt_sndtimeo_secs = 0,
     opt_sndtimeo_micro = 0, opt_nodelay = False, opt_mss = 0, opt_keepidle = 0,
     opt_keepintvl = 0, opt_keepcnt = 0, opt_tos = 0, opt_ttl = 0, opt_hdrincl = False,
     opt_multicast_ttl = 0, opt_multicast_loop = 0\<rparr>"

definition null_slot :: TnSocketSlot where
  "null_slot = \<lparr>s_in_use = False, s_owner_base = NULL, s_owner_task = NULL, s_domain = 0,
     s_type = 0, s_protocol = 0, s_tcp_state = TCP_CLOSED, s_is_nonblocking = False,
     s_shut_wr = False, s_shut_rd = False, s_opts = null_opts, s_last_error = 0, s_rx_count = 0,
     s_ref_count = 0, s_udp_pcb = NULL, s_tcp_pcb = NULL, s_raw_pcb = NULL, s_rx = [],
     s_accept = [], s_accept_count = 0, s_listen_backlog = 0, s_pending_connect_msg = NULL,
     s_pending_accept_msg = NULL, s_pending_recv_msg = NULL, s_recv_deadline_tick = 0,
     s_pending_send_msg = NULL, s_send_deadline_tick = 0, s_send_done = 0, s_send_iov = NULL,
     s_send_iovcnt = 0, s_park_id = 0, s_is_parked = False\<rparr>"

definition null_selector :: TnSelector where
  "null_selector = \<lparr>sel_in_use = False, sel_base = NULL, sel_task = NULL, sel_sig_select = 0,
     sel_nfds = 0, sel_read_mask = 0, sel_write_mask = 0, sel_except_mask = 0,
     sel_read_mask_hi = 0, sel_write_mask_hi = 0, sel_except_mask_hi = 0\<rparr>"

definition tn_slot_table_init :: "env \<Rightarrow> TnDaemon \<Rightarrow> TnDaemon" where
  "tn_slot_table_init E d =
     (let d1 = d\<lparr>d_sockets := replicate TN_MAX_GLOBAL_SOCKETS null_slot\<rparr>;
          (d2, r) = lwcall E (AllocSelectors TN_MAX_SELECTORS) d1
      in d2\<lparr>d_selectors := (if r \<noteq> 0 then replicate TN_MAX_SELECTORS null_selector else []),
            d_selector_count := 0, d_next_park_id := 1, d_slot_free_hook := False\<rparr>)"

definition tn_selector_table_grow :: "env \<Rightarrow> nat \<Rightarrow> TnDaemon \<Rightarrow> TnDaemon \<times> bool" where
  "tn_selector_table_grow E new_max d =
     (if d_selectors d = [] then (d, False)
      else if new_max \<le> length (d_selectors d) then (d, True)
      else let new_max1 = (if new_max > 128 then 128 else new_max);
               (d1, r) = lwcall E (AllocSelectors new_max1) d
           in if r = 0 then (d1, False)
              else (lwdo E FreeSelectors
                     (d1\<lparr>d_selectors := d_selectors d1 @
                          replicate (new_max1 - length (d_selectors d1)) null_selector\<rparr>), True))"

definition tn_selector_table_free :: "env \<Rightarrow> TnDaemon \<Rightarrow> TnDaemon" where
  "tn_selector_table_free E d =
     (if d_selectors d = [] then d
      else (lwdo E FreeSelectors d)\<lparr>d_selectors := [], d_selector_count := 0\<rparr>)"

definition tn_slot_live_count :: "TnDaemon \<Rightarrow> int" where
  "tn_slot_live_count d = int (count_if s_in_use (d_sockets d))"

definition tn_init_socket_slot :: "ptr \<Rightarrow> ptr \<Rightarrow> int \<Rightarrow> int \<Rightarrow> int \<Rightarrow> TnSocketSlot" where
  "tn_init_socket_slot base task domain type protocol =
     \<lparr>s_in_use = True, s_owner_base = base, s_owner_task = task, s_domain = domain,
      s_type = type, s_protocol = protocol, s_tcp_state = TCP_CLOSED, s_is_nonblocking = False,
      s_shut_wr = False, s_shut_rd = False,
      s_opts = \<lparr>opt_broadcast = False, opt_reuseaddr = False, opt_keepalive = False,
        opt_oobinline = False, opt_linger_onoff = 0, opt_linger_linger = 0,
        opt_sndbuf = TCP_SND_BUF, opt_rcvbuf = TCP_WND,
        opt_rcvtimeo_secs = 0, opt_rcvtimeo_micro = 0, opt_sndtimeo_secs = 0, opt_sndtimeo_micro = 0,
        opt_nodelay = False, opt_mss = 0, opt_keepidle = 7200, opt_keepintvl = 75, opt_keepcnt = 9,
        opt_tos = 0, opt_ttl = 64, opt_hdrincl = (protocol = IPPROTO_RAW),
        opt_multicast_ttl = 1, opt_multicast_loop = 1\<rparr>,
      s_last_error = 0, s_rx_count = 0, s_ref_count = 1, s_udp_pcb = NULL, s_tcp_pcb = NULL,
      s_raw_pcb = NULL, s_rx = [], s_accept = [], s_accept_count = 0,
      s_listen_backlog = TN_ACCEPT_QUEUE_MAX, s_pending_connect_msg = NULL,
      s_pending_accept_msg = NULL, s_pending_recv_msg = NULL, s_recv_deadline_tick = 0,
      s_pending_send_msg = NULL, s_send_deadline_tick = 0, s_send_done = 0, s_send_iov = NULL,
      s_send_iovcnt = 0, s_park_id = 0, s_is_parked = False\<rparr>"

definition tn_slot_alloc :: "ptr \<Rightarrow> ptr \<Rightarrow> int \<Rightarrow> int \<Rightarrow> int \<Rightarrow> TnDaemon \<Rightarrow> TnDaemon \<times> nat option" where
  "tn_slot_alloc base task domain type protocol d =
     (case first_idx (\<lambda>s. \<not> s_in_use s) (d_sockets d) of
        Some i \<Rightarrow> (upd_slot i (\<lambda>_. tn_init_socket_slot base task domain type protocol) d, Some i)
      | None \<Rightarrow> (d, None))"

text \<open>\<open>base->fd_map[fd] = v\<close>\<close>

definition set_fd :: "ptr \<Rightarrow> nat \<Rightarrow> int \<Rightarrow> TnDaemon \<Rightarrow> TnDaemon" where
  "set_fd base fd v = upd_base base (\<lambda>b. b\<lparr>sb_fd_map := (sb_fd_map b)[fd := v]\<rparr>)"

definition tn_fd_alloc :: "ptr \<Rightarrow> int \<Rightarrow> TnDaemon \<Rightarrow> TnDaemon \<times> int" where
  "tn_fd_alloc base slot_idx d =
     (if base = NULL \<or> sb_fd_map_null (d_bases d base) \<or> slot_idx < 0 \<or>
         slot_idx \<ge> int TN_MAX_GLOBAL_SOCKETS then (d, -1)
      else case first_idx (\<lambda>v. v = -1)
                  (take (nat (sb_dtablesize (d_bases d base))) (sb_fd_map (d_bases d base))) of
        Some fd \<Rightarrow> (set_fd base fd slot_idx d, int fd)
      | None \<Rightarrow> (d, -1))"

definition tn_slot_lookup :: "TnDaemon \<Rightarrow> ptr \<Rightarrow> int \<Rightarrow> nat option" where
  "tn_slot_lookup d base fd =
     (if base = NULL \<or> fd < 0 \<or> fd \<ge> sb_dtablesize (d_bases d base) then None
      else if sb_fd_map_null (d_bases d base) then None
      else let slot_idx = sb_fd_map (d_bases d base) ! nat fd in
        if slot_idx < 0 \<or> slot_idx \<ge> int TN_MAX_GLOBAL_SOCKETS then None
        else if \<not> s_in_use (slot_of d (nat slot_idx)) then None
        else Some (nat slot_idx))"

definition tn_slot_ref :: "nat \<Rightarrow> TnDaemon \<Rightarrow> TnDaemon" where
  "tn_slot_ref i d =
     (if s_in_use (slot_of d i) then upd_slot i (\<lambda>s. s\<lparr>s_ref_count := s_ref_count s + 1\<rparr>) d else d)"

section \<open>Receive queue\<close>

text \<open>
  The queue is the list \<open>s_rx\<close>; \<open>rx_head == NULL\<close> is \<open>s_rx = []\<close>.  The result is 0 or -1 as in
  the code; \<open>None\<close> stands for a \<open>NULL\<close> pbuf or source address.
\<close>

definition tn_rx_queue_push_ex ::
  "env \<Rightarrow> nat \<Rightarrow> bytes option \<Rightarrow> u32 option \<Rightarrow> u16 \<Rightarrow> bool \<Rightarrow> TnDaemon \<Rightarrow> TnDaemon \<times> int" where
  "tn_rx_queue_push_ex E i p src_ip src_port capped d =
     (if \<not> s_in_use (slot_of d i) \<or> p = None then (d, -1)
      else if capped \<and> s_rx_count (slot_of d i) \<ge> TN_MAX_RX_QUEUE_PER_SOCKET then (d, -1)
      else let (d1, ok) = tn_rxpkt_get E d in
        if \<not> ok then (d1, -1)
        else let pkt = \<lparr>pk_p = the p, pk_offset = 0,
                        pk_src_ip = (case src_ip of Some a \<Rightarrow> a | None \<Rightarrow> 0), pk_src_port = src_port\<rparr>;
                 d2 = upd_slot i (\<lambda>s. s\<lparr>s_rx := s_rx s @ [pkt], s_rx_count := s_rx_count s + 1\<rparr>) d1
             in (d2\<lparr>d_rx_high_water := max (d_rx_high_water d2) (s_rx_count (slot_of d2 i))\<rparr>, 0))"

definition tn_rx_queue_push ::
  "env \<Rightarrow> nat \<Rightarrow> bytes option \<Rightarrow> u32 option \<Rightarrow> u16 \<Rightarrow> TnDaemon \<Rightarrow> TnDaemon \<times> int" where
  "tn_rx_queue_push E i p src_ip src_port = tn_rx_queue_push_ex E i p src_ip src_port True"

definition tn_rx_queue_push_nocap ::
  "env \<Rightarrow> nat \<Rightarrow> bytes option \<Rightarrow> u32 option \<Rightarrow> u16 \<Rightarrow> TnDaemon \<Rightarrow> TnDaemon \<times> int" where
  "tn_rx_queue_push_nocap E i p src_ip src_port = tn_rx_queue_push_ex E i p src_ip src_port False"

definition rx_pop_slot :: "TnSocketSlot \<Rightarrow> TnSocketSlot" where
  "rx_pop_slot s = s\<lparr>s_rx := tl (s_rx s), s_rx_count := s_rx_count s - 1\<rparr>"

definition tn_rx_queue_pop :: "nat \<Rightarrow> TnDaemon \<Rightarrow> TnDaemon \<times> TnRxPacket option" where
  "tn_rx_queue_pop i d =
     (if \<not> s_in_use (slot_of d i) \<or> s_rx (slot_of d i) = [] then (d, None)
      else (upd_slot i rx_pop_slot d, Some (hd (s_rx (slot_of d i)))))"

definition rx_clear_slot :: "TnSocketSlot \<Rightarrow> TnSocketSlot" where
  "rx_clear_slot s = s\<lparr>s_rx := [], s_rx_count := 0\<rparr>"

definition tn_rx_queue_drain :: "env \<Rightarrow> nat \<Rightarrow> TnDaemon \<Rightarrow> TnDaemon" where
  "tn_rx_queue_drain E i d = upd_slot i rx_clear_slot (free_pkts E (s_rx (slot_of d i)) d)"

fun recved_free_pkts :: "env \<Rightarrow> ptr \<Rightarrow> TnRxPacket list \<Rightarrow> TnDaemon \<Rightarrow> TnDaemon" where
  "recved_free_pkts E pcb [] d = d"
| "recved_free_pkts E pcb (pk # pks) d =
     recved_free_pkts E pcb pks (tn_rxpkt_put E (lwdo E (PbufFree (pk_p pk))
       (if pcb \<noteq> NULL then lwdo E (TcpRecved pcb (length (pk_p pk) - pk_offset pk)) d else d)))"

definition tn_rx_queue_drain_with_recved :: "env \<Rightarrow> nat \<Rightarrow> TnDaemon \<Rightarrow> TnDaemon" where
  "tn_rx_queue_drain_with_recved E i d =
     upd_slot i rx_clear_slot
       (recved_free_pkts E (s_tcp_pcb (slot_of d i)) (s_rx (slot_of d i)) d)"

section \<open>Accept queue\<close>

definition tn_accept_entry_free :: "env \<Rightarrow> TnAcceptEntry \<Rightarrow> bool \<Rightarrow> TnDaemon \<Rightarrow> TnDaemon" where
  "tn_accept_entry_free E ent abort_pcb d =
     (let d1 = (if abort_pcb \<and> ae_new_pcb ent \<noteq> NULL
                then lwdos E [TcpArg (ae_new_pcb ent) ArgNull, TcpRecv (ae_new_pcb ent) CbNull,
                              TcpErr (ae_new_pcb ent) CbNull, TcpAbort (ae_new_pcb ent)] d
                else d)
      in lwdo E (FreeEntry (ae_addr ent)) (free_pkts E (ae_early_rx ent) d1))"

definition tn_accept_queue_remove :: "env \<Rightarrow> nat \<Rightarrow> ptr \<Rightarrow> TnDaemon \<Rightarrow> TnDaemon" where
  "tn_accept_queue_remove E i ent d =
     (case first_idx (\<lambda>e. ae_addr e = ent) (s_accept (slot_of d i)) of
        None \<Rightarrow> d
      | Some k \<Rightarrow>
          let curr = s_accept (slot_of d i) ! k;
              d1 = upd_slot i (\<lambda>s. s\<lparr>s_accept := take k (s_accept s) @ drop (Suc k) (s_accept s),
                                    s_accept_count := s_accept_count s - 1\<rparr>) d
          in tn_accept_entry_free E curr False d1)"

definition tn_accept_queue_push :: "env \<Rightarrow> nat \<Rightarrow> ptr \<Rightarrow> TnDaemon \<Rightarrow> TnDaemon \<times> int" where
  "tn_accept_queue_push E i new_pcb d =
     (if \<not> s_in_use (slot_of d i) \<or> new_pcb = NULL then (d, -1)
      else let (d1, r) = lwcall E AllocEntry d in
        if r = 0 then (d1, -1)
        else let ent = \<lparr>ae_addr = word_of_int r, ae_new_pcb = new_pcb, ae_early_rx = [],
                        ae_early_rx_count = 0, ae_peer_closed = False\<rparr>;
                 d2 = upd_slot i (\<lambda>s. s\<lparr>s_accept := s_accept s @ [ent],
                                       s_accept_count := s_accept_count s + 1\<rparr>) d1
             in (lwdos E [TcpArg new_pcb (ArgEntry (word_of_int r)), TcpRecv new_pcb Cb_queued_recv,
                          TcpErr new_pcb Cb_queued_err] d2, 0))"

definition tn_accept_queue_pop_entry :: "nat \<Rightarrow> TnDaemon \<Rightarrow> TnDaemon \<times> TnAcceptEntry option" where
  "tn_accept_queue_pop_entry i d =
     (if \<not> s_in_use (slot_of d i) \<or> s_accept (slot_of d i) = [] then (d, None)
      else (upd_slot i (\<lambda>s. s\<lparr>s_accept := tl (s_accept s), s_accept_count := s_accept_count s - 1\<rparr>) d,
            Some (hd (s_accept (slot_of d i)))))"

definition tn_accept_queue_pop :: "env \<Rightarrow> nat \<Rightarrow> TnDaemon \<Rightarrow> TnDaemon \<times> ptr" where
  "tn_accept_queue_pop E i d =
     (case tn_accept_queue_pop_entry i d of
        (d1, None) \<Rightarrow> (d1, NULL)
      | (d1, Some ent) \<Rightarrow>
          let pcb = ae_new_pcb ent;
              d2 = (if pcb \<noteq> NULL
                    then lwdos E [TcpArg pcb ArgNull, TcpRecv pcb CbNull, TcpErr pcb CbNull] d1 else d1)
          in (tn_accept_entry_free E ent False d2, pcb))"

fun free_entries :: "env \<Rightarrow> TnAcceptEntry list \<Rightarrow> TnDaemon \<Rightarrow> TnDaemon" where
  "free_entries E [] d = d"
| "free_entries E (e # es) d = free_entries E es (tn_accept_entry_free E e True d)"

definition tn_accept_queue_drain :: "env \<Rightarrow> nat \<Rightarrow> TnDaemon \<Rightarrow> TnDaemon" where
  "tn_accept_queue_drain E i d =
     upd_slot i (\<lambda>s. s\<lparr>s_accept := [], s_accept_count := 0\<rparr>)
       (free_entries E (s_accept (slot_of d i)) d)"

text \<open>
  Callbacks of a connection that waits in an accept queue.  The callback argument is the
  entry; it is found in the queue of its listening slot.  An entry that left its queue has
  been detached from its pcb first, so lwIP does not pass one that is not found.
\<close>

definition find_entry :: "TnDaemon \<Rightarrow> ptr \<Rightarrow> (nat \<times> nat) option" where
  "find_entry d a =
     (case first_idx (\<lambda>s. first_idx (\<lambda>e. ae_addr e = a) (s_accept s) \<noteq> None) (d_sockets d) of
        None \<Rightarrow> None
      | Some i \<Rightarrow> map_option (Pair i) (first_idx (\<lambda>e. ae_addr e = a) (s_accept (slot_of d i))))"

definition upd_entry :: "nat \<Rightarrow> nat \<Rightarrow> (TnAcceptEntry \<Rightarrow> TnAcceptEntry) \<Rightarrow> TnDaemon \<Rightarrow> TnDaemon" where
  "upd_entry i k f = upd_slot i (\<lambda>s. s\<lparr>s_accept := (s_accept s)[k := f (s_accept s ! k)]\<rparr>)"

definition queued_bytes :: "TnRxPacket list \<Rightarrow> nat" where
  "queued_bytes pks = sum_list (map (\<lambda>pk. length (pk_p pk)) pks)"

definition tn_tcp_queued_recv_cb ::
  "env \<Rightarrow> ptr \<Rightarrow> ptr \<Rightarrow> bytes option \<Rightarrow> TnDaemon \<Rightarrow> TnDaemon \<times> int" where
  "tn_tcp_queued_recv_cb E arg pcb p d =
     (case find_entry d arg of
        None \<Rightarrow> (case p of Some bs \<Rightarrow> lwdo E (PbufFree bs) d | None \<Rightarrow> d, ERR_OK)
      | Some (i, k) \<Rightarrow>
        let ent = s_accept (slot_of d i) ! k; rcvbuf = opt_rcvbuf (s_opts (slot_of d i)) in
        if ae_new_pcb ent \<noteq> pcb
        then (case p of Some bs \<Rightarrow> lwdo E (PbufFree bs) d | None \<Rightarrow> d, ERR_OK)
        else case p of
          None \<Rightarrow> (upd_entry i k (\<lambda>e. e\<lparr>ae_peer_closed := True\<rparr>) d, ERR_OK)
        | Some bs \<Rightarrow>
            if ae_early_rx_count ent \<ge> TN_MAX_RX_QUEUE_PER_SOCKET then (d, ERR_MEM)
            else if rcvbuf \<noteq> 0 \<and>
                    queued_bytes (ae_early_rx ent) + length bs > unat (to_ULONG rcvbuf)
            then (d, ERR_MEM)
            else let (d1, ok) = tn_rxpkt_get E d in
              if \<not> ok then (d1, ERR_MEM)
              else let (d2, r) = lwcall E (PbufClone bs) d1 in
                if r = 0 then (tn_rxpkt_put E d2, ERR_MEM)
                else (upd_entry i k (\<lambda>e. e\<lparr>ae_early_rx := ae_early_rx e @
                          [\<lparr>pk_p = bs, pk_offset = 0, pk_src_ip = 0, pk_src_port = 0\<rparr>],
                        ae_early_rx_count := ae_early_rx_count e + 1\<rparr>)
                      (lwdo E (PbufFree bs) d2), ERR_OK))"

definition tn_tcp_queued_err_cb :: "env \<Rightarrow> ptr \<Rightarrow> TnDaemon \<Rightarrow> TnDaemon" where
  "tn_tcp_queued_err_cb E arg d =
     (case find_entry d arg of
        None \<Rightarrow> d
      | Some (i, k) \<Rightarrow>
          tn_accept_queue_remove E i arg (upd_entry i k (\<lambda>e. e\<lparr>ae_new_pcb := NULL\<rparr>) d))"

section \<open>Events\<close>

definition tn_slot_owner_alive :: "TnDaemon \<Rightarrow> ptr \<Rightarrow> bool" where
  "tn_slot_owner_alive d base = (base \<noteq> NULL \<and> first_idx (\<lambda>b. b = base) (d_open_bases d) \<noteq> None)"

text \<open>The events recorded for descriptor \<open>fd\<close> when slot \<open>i\<close> posts \<open>event_mask\<close>.\<close>

definition event_effective :: "TnSocketBase \<Rightarrow> nat \<Rightarrow> u32 \<Rightarrow> nat \<Rightarrow> u32" where
  "event_effective b i event_mask fd =
     (if sb_fd_map b ! fd = int i
      then event_mask AND (if sb_event_masks_null b then 0 else sb_event_masks b ! fd) else 0)"

definition tn_record_socket_event :: "nat \<Rightarrow> u32 \<Rightarrow> TnDaemon \<Rightarrow> TnDaemon" where
  "tn_record_socket_event i event_mask d =
     (let slot = slot_of d i; base = s_owner_base slot; b = d_bases d base;
          n = nat (sb_dtablesize b) in
      if \<not> s_in_use slot \<or> base = NULL then d
      else if \<not> tn_slot_owner_alive d base
      then upd_slot i (\<lambda>s. s\<lparr>s_owner_base := NULL, s_owner_task := NULL\<rparr>) d
      else if sb_fd_map_null b \<or> sb_events_null b then d
      else let d1 = upd_base base (\<lambda>b. b\<lparr>sb_events :=
                 map (\<lambda>fd. if fd < n then sb_events b ! fd OR event_effective b i event_mask fd
                           else sb_events b ! fd) [0..<length (sb_events b)]\<rparr>) d;
               posted = list_ex (\<lambda>fd. event_effective b i event_mask fd \<noteq> 0) [0..<n]
           in if posted \<and> sb_sig_event b \<noteq> 0 \<and> s_owner_task slot \<noteq> NULL
              then Signal (s_owner_task slot) (sb_sig_event b) d1 else d1)"

section \<open>Parked receives and sends\<close>

text \<open>The timeout in 100 ms ticks, at least 1, computed in 32-bit arithmetic.\<close>

definition timeo_ticks :: "u32 \<Rightarrow> u32 \<Rightarrow> u32" where
  "timeo_ticks secs micro =
     (let ms = secs * 1000 + (micro + 999) div 1000; ticks = (ms + 99) div 100
      in if ticks = 0 then 1 else ticks)"

definition tn_slot_park_recv :: "nat \<Rightarrow> ptr \<Rightarrow> TnDaemon \<Rightarrow> TnDaemon \<times> action" where
  "tn_slot_park_recv i imsg d =
     (let slot = slot_of d i in
      if s_pending_recv_msg slot \<noteq> NULL then
        (if s_pending_recv_msg slot = imsg then (d, DEFER) else answer imsg (-1) EALREADY d)
      else (upd_slot i (\<lambda>s. s\<lparr>s_pending_recv_msg := imsg,
              s_recv_deadline_tick :=
                (if opt_rcvtimeo_secs (s_opts s) > 0 \<or> opt_rcvtimeo_micro (s_opts s) > 0
                 then d_mainloop_ticks d + timeo_ticks (opt_rcvtimeo_secs (s_opts s)) (opt_rcvtimeo_micro (s_opts s))
                 else 0)\<rparr>) d, DEFER))"

definition tn_slot_reply_send :: "nat \<Rightarrow> int \<Rightarrow> bool \<Rightarrow> TnDaemon \<Rightarrow> TnDaemon" where
  "tn_slot_reply_send i err_no reply d =
     (let slot = slot_of d i; smsg = s_pending_send_msg slot in
      if smsg = NULL then d
      else let d1 = upd_slot i (\<lambda>s. s\<lparr>s_pending_send_msg := NULL, s_send_deadline_tick := 0,
                      s_send_done := 0, s_send_iov := NULL, s_send_iovcnt := 0\<rparr>) d;
               d2 = (if s_send_done slot > 0 then set_reply smsg (s_send_done slot) 0 d1
                     else set_reply smsg (-1) err_no d1)
           in if reply then ReplyMsg smsg d2 else d2)"

definition tn_slot_cancel_parked_send :: "ptr \<Rightarrow> TnDaemon \<Rightarrow> TnDaemon \<times> bool" where
  "tn_slot_cancel_parked_send target d =
     (if target = NULL then (d, False)
      else case first_idx (\<lambda>s. s_in_use s \<and> s_pending_send_msg s = target) (d_sockets d) of
        Some i \<Rightarrow> (tn_slot_reply_send i EINTR True d, True)
      | None \<Rightarrow> (d, False))"

text \<open>Clear the parked receive of a slot and answer it.\<close>

definition tn_slot_reply_recv :: "nat \<Rightarrow> int \<Rightarrow> bool \<Rightarrow> TnDaemon \<Rightarrow> TnDaemon" where
  "tn_slot_reply_recv i err_no reply d =
     (let rmsg = s_pending_recv_msg (slot_of d i);
          d1 = set_reply rmsg (-1) err_no
                 (upd_slot i (\<lambda>s. s\<lparr>s_pending_recv_msg := NULL, s_recv_deadline_tick := 0\<rparr>) d)
      in if reply then ReplyMsg rmsg d1 else d1)"

definition deadline_passed :: "u32 \<Rightarrow> u32 \<Rightarrow> bool" where
  "deadline_passed now deadline = (0 \<le> sint (now - deadline))"

definition slot_check_timeouts :: "nat \<Rightarrow> TnDaemon \<Rightarrow> TnDaemon" where
  "slot_check_timeouts i d =
     (let s = slot_of d i;
          d1 = (if s_in_use s \<and> s_pending_send_msg s \<noteq> NULL \<and> s_send_deadline_tick s \<noteq> 0 \<and>
                   deadline_passed (d_mainloop_ticks d) (s_send_deadline_tick s)
                then tn_slot_reply_send i EWOULDBLOCK True d else d);
          s1 = slot_of d1 i
      in if s_in_use s1 \<and> s_pending_recv_msg s1 \<noteq> NULL \<and> s_recv_deadline_tick s1 \<noteq> 0 \<and>
            deadline_passed (d_mainloop_ticks d1) (s_recv_deadline_tick s1)
         then tn_slot_reply_recv i EWOULDBLOCK True d1 else d1)"

definition tn_slot_check_recv_timeouts :: "TnDaemon \<Rightarrow> TnDaemon" where
  "tn_slot_check_recv_timeouts d = fold slot_check_timeouts [0..<length (d_sockets d)] d"

definition slot_cancel_for_base :: "ptr \<Rightarrow> bool \<Rightarrow> nat \<Rightarrow> TnDaemon \<Rightarrow> TnDaemon" where
  "slot_cancel_for_base base reply i d =
     (let s = slot_of d i;
          d1 = (if s_in_use s \<and> s_pending_recv_msg s \<noteq> NULL \<and>
                   im_socket_base (d_msgs d (s_pending_recv_msg s)) = base
                then tn_slot_reply_recv i ECONNABORTED reply d else d);
          s1 = slot_of d1 i
      in if s_in_use s1 \<and> s_pending_send_msg s1 \<noteq> NULL \<and>
            im_socket_base (d_msgs d1 (s_pending_send_msg s1)) = base
         then tn_slot_reply_send i ECONNABORTED reply d1 else d1)"

definition tn_recv_cancel_for_base2 :: "ptr \<Rightarrow> bool \<Rightarrow> TnDaemon \<Rightarrow> TnDaemon" where
  "tn_recv_cancel_for_base2 base reply d =
     (if base = NULL then d else fold (slot_cancel_for_base base reply) [0..<length (d_sockets d)] d)"

definition tn_recv_cancel_for_base :: "ptr \<Rightarrow> TnDaemon \<Rightarrow> TnDaemon" where
  "tn_recv_cancel_for_base base d = tn_recv_cancel_for_base2 base True d"

definition tn_slot_clear_owner_base :: "ptr \<Rightarrow> TnDaemon \<Rightarrow> TnDaemon" where
  "tn_slot_clear_owner_base base d =
     (if base = NULL then d
      else d\<lparr>d_sockets := map (\<lambda>s. if s_in_use s \<and> s_owner_base s = base
                                   then s\<lparr>s_owner_base := NULL, s_owner_task := NULL\<rparr> else s)
                             (d_sockets d)\<rparr>)"

section \<open>Releasing a slot\<close>

text \<open>\<open>tn_mcast_leave_all\<close> of ipc_setsockopt.c; the owner index is stored as a byte.\<close>

definition mcast_leave_one :: "env \<Rightarrow> nat \<Rightarrow> nat \<Rightarrow> TnDaemon \<Rightarrow> TnDaemon" where
  "mcast_leave_one E slot_idx k d =
     (let j = d_mcast_joins d ! k in
      if mj_in_use j \<and> mj_slot j = slot_idx mod 256
      then let d1 = lwdo E (IgmpLeave (mj_ifa j) (mj_grp j)) d
           in d1\<lparr>d_mcast_joins := (d_mcast_joins d1)[k := j\<lparr>mj_in_use := False\<rparr>]\<rparr>
      else d)"

definition tn_mcast_leave_all :: "env \<Rightarrow> nat \<Rightarrow> TnDaemon \<Rightarrow> TnDaemon" where
  "tn_mcast_leave_all E slot_idx d =
     fold (mcast_leave_one E slot_idx) [0..<length (d_mcast_joins d)] d"

text \<open>The TCP part of \<open>tn_slot_free\<close>: a listening pcb sees only arg, accept and close.\<close>

definition slot_free_tcp :: "env \<Rightarrow> nat \<Rightarrow> TnDaemon \<Rightarrow> TnDaemon" where
  "slot_free_tcp E i d =
     (let pcb = s_tcp_pcb (slot_of d i) in
      if pcb = NULL then d
      else let d1 = upd_slot i (\<lambda>s. s\<lparr>s_tcp_pcb := NULL\<rparr>) d in
        if s_tcp_state (slot_of d i) = TCP_LISTENING
        then lwdos E [TcpArg pcb ArgNull, TcpAccept pcb CbNull, TcpClose pcb] d1
        else let d2 = lwdos E [TcpArg pcb ArgNull, TcpRecv pcb CbNull, TcpSent pcb CbNull,
                               TcpErr pcb CbNull, TcpPoll pcb CbNull 0] d1;
                 (d3, r) = lwcall E (TcpClose pcb) d2
             in if r \<noteq> ERR_OK then lwdo E (TcpAbort pcb) d3 else d3)"

definition slot_free_pcbs :: "env \<Rightarrow> nat \<Rightarrow> TnDaemon \<Rightarrow> TnDaemon" where
  "slot_free_pcbs E i d =
     (let d1 = (if d_slot_free_hook d then tn_mcast_leave_all E i d else d);
          udp = s_udp_pcb (slot_of d1 i);
          d2 = (if udp \<noteq> NULL then upd_slot i (\<lambda>s. s\<lparr>s_udp_pcb := NULL\<rparr>) (lwdo E (UdpRemove udp) d1) else d1);
          d3 = slot_free_tcp E i d2;
          raw = s_raw_pcb (slot_of d3 i)
      in if raw \<noteq> NULL then upd_slot i (\<lambda>s. s\<lparr>s_raw_pcb := NULL\<rparr>) (lwdo E (RawRemove raw) d3) else d3)"

definition slot_free_connect :: "nat \<Rightarrow> TnDaemon \<Rightarrow> TnDaemon" where
  "slot_free_connect i d =
     (let cmsg = s_pending_connect_msg (slot_of d i) in
      if cmsg \<noteq> NULL
      then ReplyMsg cmsg (set_reply cmsg (-1) EBADF (upd_slot i (\<lambda>s. s\<lparr>s_pending_connect_msg := NULL\<rparr>) d))
      else d)"

definition slot_free_accept :: "nat \<Rightarrow> TnDaemon \<Rightarrow> TnDaemon" where
  "slot_free_accept i d =
     (let amsg = s_pending_accept_msg (slot_of d i) in
      if amsg \<noteq> NULL
      then ReplyMsg amsg (set_reply amsg (-1) EBADF (upd_slot i (\<lambda>s. s\<lparr>s_pending_accept_msg := NULL\<rparr>) d))
      else d)"

definition slot_free_recv :: "nat \<Rightarrow> TnDaemon \<Rightarrow> TnDaemon" where
  "slot_free_recv i d =
     (if s_pending_recv_msg (slot_of d i) \<noteq> NULL then tn_slot_reply_recv i EBADF True d else d)"

definition slot_free_pending :: "nat \<Rightarrow> TnDaemon \<Rightarrow> TnDaemon" where
  "slot_free_pending i d =
     (let d3 = slot_free_recv i (slot_free_accept i (slot_free_connect i d))
      in if s_pending_send_msg (slot_of d3 i) \<noteq> NULL then tn_slot_reply_send i EBADF True d3 else d3)"

definition tn_slot_free :: "env \<Rightarrow> nat \<Rightarrow> TnDaemon \<Rightarrow> TnDaemon" where
  "tn_slot_free E i d =
     (if i \<ge> TN_MAX_GLOBAL_SOCKETS \<or> \<not> s_in_use (slot_of d i) then d
      else let d1 = slot_free_pcbs E i d;
               d2 = tn_accept_queue_drain E i (tn_rx_queue_drain E i d1);
               d3 = slot_free_pending i d2
           in upd_slot i (\<lambda>s. s\<lparr>s_rx_count := 0, s_ref_count := 0, s_park_id := 0,
                 s_is_parked := False, s_in_use := False, s_owner_base := NULL,
                 s_owner_task := NULL\<rparr>) d3)"

definition tn_slot_unref :: "env \<Rightarrow> nat \<Rightarrow> TnDaemon \<Rightarrow> TnDaemon" where
  "tn_slot_unref E i d =
     (if i \<ge> TN_MAX_GLOBAL_SOCKETS \<or> \<not> s_in_use (slot_of d i) then d
      else let d1 = (if s_ref_count (slot_of d i) > 0
                     then upd_slot i (\<lambda>s. s\<lparr>s_ref_count := s_ref_count s - 1\<rparr>) d else d)
           in if s_ref_count (slot_of d1 i) = 0 then tn_slot_free E i d1 else d1)"

end
