(* ===== verification/Slot_Frames.thy ===== *)
theory Slot_Frames
  imports Slot_Table
begin

text \<open>
  What the operations of the slot table leave alone, and the two projections of the effect
  trace that properties speak about: the messages replied and the calls on a given pcb.
\<close>

section \<open>Frame lemmas\<close>

text \<open>The fields of the daemon that each operation leaves alone.\<close>

lemma rxpkt_get_frame [simp]:
  "d_sockets (fst (tn_rxpkt_get E d)) = d_sockets d"
  "d_next_park_id (fst (tn_rxpkt_get E d)) = d_next_park_id d"
  "d_hostname (fst (tn_rxpkt_get E d)) = d_hostname d"
  "d_selectors (fst (tn_rxpkt_get E d)) = d_selectors d"
  "d_selector_count (fst (tn_rxpkt_get E d)) = d_selector_count d"
  "d_ipc_calls (fst (tn_rxpkt_get E d)) = d_ipc_calls d"
  "d_deferred_replies (fst (tn_rxpkt_get E d)) = d_deferred_replies d"
  "d_sigio_sent (fst (tn_rxpkt_get E d)) = d_sigio_sent d"
  "d_selector_wakeups (fst (tn_rxpkt_get E d)) = d_selector_wakeups d"
  "d_mainloop_ticks (fst (tn_rxpkt_get E d)) = d_mainloop_ticks d"
  "d_rx_high_water (fst (tn_rxpkt_get E d)) = d_rx_high_water d"
  "d_dns_late_replies (fst (tn_rxpkt_get E d)) = d_dns_late_replies d"
  "d_dns_pending (fst (tn_rxpkt_get E d)) = d_dns_pending d"
  "d_dns_pending_count (fst (tn_rxpkt_get E d)) = d_dns_pending_count d"
  "d_dns_pending_max (fst (tn_rxpkt_get E d)) = d_dns_pending_max d"
  "d_open_bases (fst (tn_rxpkt_get E d)) = d_open_bases d"
  "d_open_base_count (fst (tn_rxpkt_get E d)) = d_open_base_count d"
  "d_mcast_joins (fst (tn_rxpkt_get E d)) = d_mcast_joins d"
  "d_slot_free_hook (fst (tn_rxpkt_get E d)) = d_slot_free_hook d"
  "d_running (fst (tn_rxpkt_get E d)) = d_running d"
  "d_stop_msg (fst (tn_rxpkt_get E d)) = d_stop_msg d"
  "d_lib_open_cnt (fst (tn_rxpkt_get E d)) = d_lib_open_cnt d"
  "d_routes (fst (tn_rxpkt_get E d)) = d_routes d"
  "d_bases (fst (tn_rxpkt_get E d)) = d_bases d"
  "d_msgs (fst (tn_rxpkt_get E d)) = d_msgs d"
  "d_mem (fst (tn_rxpkt_get E d)) = d_mem d"
  by (simp_all add: tn_rxpkt_get_def lwcall_def Let_def split: prod.splits)

lemma rxpkt_put_frame [simp]:
  "d_sockets (tn_rxpkt_put E d) = d_sockets d"
  "d_next_park_id (tn_rxpkt_put E d) = d_next_park_id d"
  "d_hostname (tn_rxpkt_put E d) = d_hostname d"
  "d_selectors (tn_rxpkt_put E d) = d_selectors d"
  "d_selector_count (tn_rxpkt_put E d) = d_selector_count d"
  "d_ipc_calls (tn_rxpkt_put E d) = d_ipc_calls d"
  "d_deferred_replies (tn_rxpkt_put E d) = d_deferred_replies d"
  "d_sigio_sent (tn_rxpkt_put E d) = d_sigio_sent d"
  "d_selector_wakeups (tn_rxpkt_put E d) = d_selector_wakeups d"
  "d_mainloop_ticks (tn_rxpkt_put E d) = d_mainloop_ticks d"
  "d_rx_high_water (tn_rxpkt_put E d) = d_rx_high_water d"
  "d_dns_late_replies (tn_rxpkt_put E d) = d_dns_late_replies d"
  "d_dns_pending (tn_rxpkt_put E d) = d_dns_pending d"
  "d_dns_pending_count (tn_rxpkt_put E d) = d_dns_pending_count d"
  "d_dns_pending_max (tn_rxpkt_put E d) = d_dns_pending_max d"
  "d_open_bases (tn_rxpkt_put E d) = d_open_bases d"
  "d_open_base_count (tn_rxpkt_put E d) = d_open_base_count d"
  "d_mcast_joins (tn_rxpkt_put E d) = d_mcast_joins d"
  "d_slot_free_hook (tn_rxpkt_put E d) = d_slot_free_hook d"
  "d_running (tn_rxpkt_put E d) = d_running d"
  "d_stop_msg (tn_rxpkt_put E d) = d_stop_msg d"
  "d_lib_open_cnt (tn_rxpkt_put E d) = d_lib_open_cnt d"
  "d_routes (tn_rxpkt_put E d) = d_routes d"
  "d_bases (tn_rxpkt_put E d) = d_bases d"
  "d_msgs (tn_rxpkt_put E d) = d_msgs d"
  "d_mem (tn_rxpkt_put E d) = d_mem d"
  by (simp_all add: tn_rxpkt_put_def)

lemma free_pkts_frame [simp]:
  "d_sockets (free_pkts E pks d) = d_sockets d"
  "d_next_park_id (free_pkts E pks d) = d_next_park_id d"
  "d_hostname (free_pkts E pks d) = d_hostname d"
  "d_selectors (free_pkts E pks d) = d_selectors d"
  "d_selector_count (free_pkts E pks d) = d_selector_count d"
  "d_ipc_calls (free_pkts E pks d) = d_ipc_calls d"
  "d_deferred_replies (free_pkts E pks d) = d_deferred_replies d"
  "d_sigio_sent (free_pkts E pks d) = d_sigio_sent d"
  "d_selector_wakeups (free_pkts E pks d) = d_selector_wakeups d"
  "d_mainloop_ticks (free_pkts E pks d) = d_mainloop_ticks d"
  "d_rx_high_water (free_pkts E pks d) = d_rx_high_water d"
  "d_dns_late_replies (free_pkts E pks d) = d_dns_late_replies d"
  "d_dns_pending (free_pkts E pks d) = d_dns_pending d"
  "d_dns_pending_count (free_pkts E pks d) = d_dns_pending_count d"
  "d_dns_pending_max (free_pkts E pks d) = d_dns_pending_max d"
  "d_open_bases (free_pkts E pks d) = d_open_bases d"
  "d_open_base_count (free_pkts E pks d) = d_open_base_count d"
  "d_mcast_joins (free_pkts E pks d) = d_mcast_joins d"
  "d_slot_free_hook (free_pkts E pks d) = d_slot_free_hook d"
  "d_running (free_pkts E pks d) = d_running d"
  "d_stop_msg (free_pkts E pks d) = d_stop_msg d"
  "d_lib_open_cnt (free_pkts E pks d) = d_lib_open_cnt d"
  "d_routes (free_pkts E pks d) = d_routes d"
  "d_bases (free_pkts E pks d) = d_bases d"
  "d_msgs (free_pkts E pks d) = d_msgs d"
  "d_mem (free_pkts E pks d) = d_mem d"
  by (induction pks arbitrary: d) simp_all

lemma recved_free_pkts_frame [simp]:
  "d_sockets (recved_free_pkts E pcb pks d) = d_sockets d"
  "d_next_park_id (recved_free_pkts E pcb pks d) = d_next_park_id d"
  "d_hostname (recved_free_pkts E pcb pks d) = d_hostname d"
  "d_selectors (recved_free_pkts E pcb pks d) = d_selectors d"
  "d_selector_count (recved_free_pkts E pcb pks d) = d_selector_count d"
  "d_ipc_calls (recved_free_pkts E pcb pks d) = d_ipc_calls d"
  "d_deferred_replies (recved_free_pkts E pcb pks d) = d_deferred_replies d"
  "d_sigio_sent (recved_free_pkts E pcb pks d) = d_sigio_sent d"
  "d_selector_wakeups (recved_free_pkts E pcb pks d) = d_selector_wakeups d"
  "d_mainloop_ticks (recved_free_pkts E pcb pks d) = d_mainloop_ticks d"
  "d_rx_high_water (recved_free_pkts E pcb pks d) = d_rx_high_water d"
  "d_dns_late_replies (recved_free_pkts E pcb pks d) = d_dns_late_replies d"
  "d_dns_pending (recved_free_pkts E pcb pks d) = d_dns_pending d"
  "d_dns_pending_count (recved_free_pkts E pcb pks d) = d_dns_pending_count d"
  "d_dns_pending_max (recved_free_pkts E pcb pks d) = d_dns_pending_max d"
  "d_open_bases (recved_free_pkts E pcb pks d) = d_open_bases d"
  "d_open_base_count (recved_free_pkts E pcb pks d) = d_open_base_count d"
  "d_mcast_joins (recved_free_pkts E pcb pks d) = d_mcast_joins d"
  "d_slot_free_hook (recved_free_pkts E pcb pks d) = d_slot_free_hook d"
  "d_running (recved_free_pkts E pcb pks d) = d_running d"
  "d_stop_msg (recved_free_pkts E pcb pks d) = d_stop_msg d"
  "d_lib_open_cnt (recved_free_pkts E pcb pks d) = d_lib_open_cnt d"
  "d_routes (recved_free_pkts E pcb pks d) = d_routes d"
  "d_bases (recved_free_pkts E pcb pks d) = d_bases d"
  "d_msgs (recved_free_pkts E pcb pks d) = d_msgs d"
  "d_mem (recved_free_pkts E pcb pks d) = d_mem d"
  by (induction pks arbitrary: d) simp_all

lemma rx_push_ex_frame [simp]:
  "d_next_park_id (fst (tn_rx_queue_push_ex E i p a q c d)) = d_next_park_id d"
  "d_hostname (fst (tn_rx_queue_push_ex E i p a q c d)) = d_hostname d"
  "d_selectors (fst (tn_rx_queue_push_ex E i p a q c d)) = d_selectors d"
  "d_selector_count (fst (tn_rx_queue_push_ex E i p a q c d)) = d_selector_count d"
  "d_ipc_calls (fst (tn_rx_queue_push_ex E i p a q c d)) = d_ipc_calls d"
  "d_deferred_replies (fst (tn_rx_queue_push_ex E i p a q c d)) = d_deferred_replies d"
  "d_sigio_sent (fst (tn_rx_queue_push_ex E i p a q c d)) = d_sigio_sent d"
  "d_selector_wakeups (fst (tn_rx_queue_push_ex E i p a q c d)) = d_selector_wakeups d"
  "d_mainloop_ticks (fst (tn_rx_queue_push_ex E i p a q c d)) = d_mainloop_ticks d"
  "d_dns_late_replies (fst (tn_rx_queue_push_ex E i p a q c d)) = d_dns_late_replies d"
  "d_dns_pending (fst (tn_rx_queue_push_ex E i p a q c d)) = d_dns_pending d"
  "d_dns_pending_count (fst (tn_rx_queue_push_ex E i p a q c d)) = d_dns_pending_count d"
  "d_dns_pending_max (fst (tn_rx_queue_push_ex E i p a q c d)) = d_dns_pending_max d"
  "d_open_bases (fst (tn_rx_queue_push_ex E i p a q c d)) = d_open_bases d"
  "d_open_base_count (fst (tn_rx_queue_push_ex E i p a q c d)) = d_open_base_count d"
  "d_mcast_joins (fst (tn_rx_queue_push_ex E i p a q c d)) = d_mcast_joins d"
  "d_slot_free_hook (fst (tn_rx_queue_push_ex E i p a q c d)) = d_slot_free_hook d"
  "d_running (fst (tn_rx_queue_push_ex E i p a q c d)) = d_running d"
  "d_stop_msg (fst (tn_rx_queue_push_ex E i p a q c d)) = d_stop_msg d"
  "d_lib_open_cnt (fst (tn_rx_queue_push_ex E i p a q c d)) = d_lib_open_cnt d"
  "d_routes (fst (tn_rx_queue_push_ex E i p a q c d)) = d_routes d"
  "d_bases (fst (tn_rx_queue_push_ex E i p a q c d)) = d_bases d"
  "d_msgs (fst (tn_rx_queue_push_ex E i p a q c d)) = d_msgs d"
  "d_mem (fst (tn_rx_queue_push_ex E i p a q c d)) = d_mem d"
  by (simp_all add: tn_rx_queue_push_ex_def Let_def case_prod_unfold)

lemma rx_drain_frame [simp]:
  "d_next_park_id (tn_rx_queue_drain E i d) = d_next_park_id d"
  "d_hostname (tn_rx_queue_drain E i d) = d_hostname d"
  "d_selectors (tn_rx_queue_drain E i d) = d_selectors d"
  "d_selector_count (tn_rx_queue_drain E i d) = d_selector_count d"
  "d_ipc_calls (tn_rx_queue_drain E i d) = d_ipc_calls d"
  "d_deferred_replies (tn_rx_queue_drain E i d) = d_deferred_replies d"
  "d_sigio_sent (tn_rx_queue_drain E i d) = d_sigio_sent d"
  "d_selector_wakeups (tn_rx_queue_drain E i d) = d_selector_wakeups d"
  "d_mainloop_ticks (tn_rx_queue_drain E i d) = d_mainloop_ticks d"
  "d_rx_high_water (tn_rx_queue_drain E i d) = d_rx_high_water d"
  "d_dns_late_replies (tn_rx_queue_drain E i d) = d_dns_late_replies d"
  "d_dns_pending (tn_rx_queue_drain E i d) = d_dns_pending d"
  "d_dns_pending_count (tn_rx_queue_drain E i d) = d_dns_pending_count d"
  "d_dns_pending_max (tn_rx_queue_drain E i d) = d_dns_pending_max d"
  "d_open_bases (tn_rx_queue_drain E i d) = d_open_bases d"
  "d_open_base_count (tn_rx_queue_drain E i d) = d_open_base_count d"
  "d_mcast_joins (tn_rx_queue_drain E i d) = d_mcast_joins d"
  "d_slot_free_hook (tn_rx_queue_drain E i d) = d_slot_free_hook d"
  "d_running (tn_rx_queue_drain E i d) = d_running d"
  "d_stop_msg (tn_rx_queue_drain E i d) = d_stop_msg d"
  "d_lib_open_cnt (tn_rx_queue_drain E i d) = d_lib_open_cnt d"
  "d_routes (tn_rx_queue_drain E i d) = d_routes d"
  "d_bases (tn_rx_queue_drain E i d) = d_bases d"
  "d_msgs (tn_rx_queue_drain E i d) = d_msgs d"
  "d_mem (tn_rx_queue_drain E i d) = d_mem d"
  by (simp_all add: tn_rx_queue_drain_def)

lemma rx_drain_recved_frame [simp]:
  "d_next_park_id (tn_rx_queue_drain_with_recved E i d) = d_next_park_id d"
  "d_hostname (tn_rx_queue_drain_with_recved E i d) = d_hostname d"
  "d_selectors (tn_rx_queue_drain_with_recved E i d) = d_selectors d"
  "d_selector_count (tn_rx_queue_drain_with_recved E i d) = d_selector_count d"
  "d_ipc_calls (tn_rx_queue_drain_with_recved E i d) = d_ipc_calls d"
  "d_deferred_replies (tn_rx_queue_drain_with_recved E i d) = d_deferred_replies d"
  "d_sigio_sent (tn_rx_queue_drain_with_recved E i d) = d_sigio_sent d"
  "d_selector_wakeups (tn_rx_queue_drain_with_recved E i d) = d_selector_wakeups d"
  "d_mainloop_ticks (tn_rx_queue_drain_with_recved E i d) = d_mainloop_ticks d"
  "d_rx_high_water (tn_rx_queue_drain_with_recved E i d) = d_rx_high_water d"
  "d_dns_late_replies (tn_rx_queue_drain_with_recved E i d) = d_dns_late_replies d"
  "d_dns_pending (tn_rx_queue_drain_with_recved E i d) = d_dns_pending d"
  "d_dns_pending_count (tn_rx_queue_drain_with_recved E i d) = d_dns_pending_count d"
  "d_dns_pending_max (tn_rx_queue_drain_with_recved E i d) = d_dns_pending_max d"
  "d_open_bases (tn_rx_queue_drain_with_recved E i d) = d_open_bases d"
  "d_open_base_count (tn_rx_queue_drain_with_recved E i d) = d_open_base_count d"
  "d_mcast_joins (tn_rx_queue_drain_with_recved E i d) = d_mcast_joins d"
  "d_slot_free_hook (tn_rx_queue_drain_with_recved E i d) = d_slot_free_hook d"
  "d_running (tn_rx_queue_drain_with_recved E i d) = d_running d"
  "d_stop_msg (tn_rx_queue_drain_with_recved E i d) = d_stop_msg d"
  "d_lib_open_cnt (tn_rx_queue_drain_with_recved E i d) = d_lib_open_cnt d"
  "d_routes (tn_rx_queue_drain_with_recved E i d) = d_routes d"
  "d_bases (tn_rx_queue_drain_with_recved E i d) = d_bases d"
  "d_msgs (tn_rx_queue_drain_with_recved E i d) = d_msgs d"
  "d_mem (tn_rx_queue_drain_with_recved E i d) = d_mem d"
  by (simp_all add: tn_rx_queue_drain_with_recved_def)

lemma accept_entry_free_frame [simp]:
  "d_sockets (tn_accept_entry_free E e b d) = d_sockets d"
  "d_next_park_id (tn_accept_entry_free E e b d) = d_next_park_id d"
  "d_hostname (tn_accept_entry_free E e b d) = d_hostname d"
  "d_selectors (tn_accept_entry_free E e b d) = d_selectors d"
  "d_selector_count (tn_accept_entry_free E e b d) = d_selector_count d"
  "d_ipc_calls (tn_accept_entry_free E e b d) = d_ipc_calls d"
  "d_deferred_replies (tn_accept_entry_free E e b d) = d_deferred_replies d"
  "d_sigio_sent (tn_accept_entry_free E e b d) = d_sigio_sent d"
  "d_selector_wakeups (tn_accept_entry_free E e b d) = d_selector_wakeups d"
  "d_mainloop_ticks (tn_accept_entry_free E e b d) = d_mainloop_ticks d"
  "d_rx_high_water (tn_accept_entry_free E e b d) = d_rx_high_water d"
  "d_dns_late_replies (tn_accept_entry_free E e b d) = d_dns_late_replies d"
  "d_dns_pending (tn_accept_entry_free E e b d) = d_dns_pending d"
  "d_dns_pending_count (tn_accept_entry_free E e b d) = d_dns_pending_count d"
  "d_dns_pending_max (tn_accept_entry_free E e b d) = d_dns_pending_max d"
  "d_open_bases (tn_accept_entry_free E e b d) = d_open_bases d"
  "d_open_base_count (tn_accept_entry_free E e b d) = d_open_base_count d"
  "d_mcast_joins (tn_accept_entry_free E e b d) = d_mcast_joins d"
  "d_slot_free_hook (tn_accept_entry_free E e b d) = d_slot_free_hook d"
  "d_running (tn_accept_entry_free E e b d) = d_running d"
  "d_stop_msg (tn_accept_entry_free E e b d) = d_stop_msg d"
  "d_lib_open_cnt (tn_accept_entry_free E e b d) = d_lib_open_cnt d"
  "d_routes (tn_accept_entry_free E e b d) = d_routes d"
  "d_bases (tn_accept_entry_free E e b d) = d_bases d"
  "d_msgs (tn_accept_entry_free E e b d) = d_msgs d"
  "d_mem (tn_accept_entry_free E e b d) = d_mem d"
  by (simp_all add: tn_accept_entry_free_def Let_def)

lemma free_entries_frame [simp]:
  "d_sockets (free_entries E es d) = d_sockets d"
  "d_next_park_id (free_entries E es d) = d_next_park_id d"
  "d_hostname (free_entries E es d) = d_hostname d"
  "d_selectors (free_entries E es d) = d_selectors d"
  "d_selector_count (free_entries E es d) = d_selector_count d"
  "d_ipc_calls (free_entries E es d) = d_ipc_calls d"
  "d_deferred_replies (free_entries E es d) = d_deferred_replies d"
  "d_sigio_sent (free_entries E es d) = d_sigio_sent d"
  "d_selector_wakeups (free_entries E es d) = d_selector_wakeups d"
  "d_mainloop_ticks (free_entries E es d) = d_mainloop_ticks d"
  "d_rx_high_water (free_entries E es d) = d_rx_high_water d"
  "d_dns_late_replies (free_entries E es d) = d_dns_late_replies d"
  "d_dns_pending (free_entries E es d) = d_dns_pending d"
  "d_dns_pending_count (free_entries E es d) = d_dns_pending_count d"
  "d_dns_pending_max (free_entries E es d) = d_dns_pending_max d"
  "d_open_bases (free_entries E es d) = d_open_bases d"
  "d_open_base_count (free_entries E es d) = d_open_base_count d"
  "d_mcast_joins (free_entries E es d) = d_mcast_joins d"
  "d_slot_free_hook (free_entries E es d) = d_slot_free_hook d"
  "d_running (free_entries E es d) = d_running d"
  "d_stop_msg (free_entries E es d) = d_stop_msg d"
  "d_lib_open_cnt (free_entries E es d) = d_lib_open_cnt d"
  "d_routes (free_entries E es d) = d_routes d"
  "d_bases (free_entries E es d) = d_bases d"
  "d_msgs (free_entries E es d) = d_msgs d"
  "d_mem (free_entries E es d) = d_mem d"
  by (induction es arbitrary: d) simp_all

lemma accept_drain_frame [simp]:
  "d_next_park_id (tn_accept_queue_drain E i d) = d_next_park_id d"
  "d_hostname (tn_accept_queue_drain E i d) = d_hostname d"
  "d_selectors (tn_accept_queue_drain E i d) = d_selectors d"
  "d_selector_count (tn_accept_queue_drain E i d) = d_selector_count d"
  "d_ipc_calls (tn_accept_queue_drain E i d) = d_ipc_calls d"
  "d_deferred_replies (tn_accept_queue_drain E i d) = d_deferred_replies d"
  "d_sigio_sent (tn_accept_queue_drain E i d) = d_sigio_sent d"
  "d_selector_wakeups (tn_accept_queue_drain E i d) = d_selector_wakeups d"
  "d_mainloop_ticks (tn_accept_queue_drain E i d) = d_mainloop_ticks d"
  "d_rx_high_water (tn_accept_queue_drain E i d) = d_rx_high_water d"
  "d_dns_late_replies (tn_accept_queue_drain E i d) = d_dns_late_replies d"
  "d_dns_pending (tn_accept_queue_drain E i d) = d_dns_pending d"
  "d_dns_pending_count (tn_accept_queue_drain E i d) = d_dns_pending_count d"
  "d_dns_pending_max (tn_accept_queue_drain E i d) = d_dns_pending_max d"
  "d_open_bases (tn_accept_queue_drain E i d) = d_open_bases d"
  "d_open_base_count (tn_accept_queue_drain E i d) = d_open_base_count d"
  "d_mcast_joins (tn_accept_queue_drain E i d) = d_mcast_joins d"
  "d_slot_free_hook (tn_accept_queue_drain E i d) = d_slot_free_hook d"
  "d_running (tn_accept_queue_drain E i d) = d_running d"
  "d_stop_msg (tn_accept_queue_drain E i d) = d_stop_msg d"
  "d_lib_open_cnt (tn_accept_queue_drain E i d) = d_lib_open_cnt d"
  "d_routes (tn_accept_queue_drain E i d) = d_routes d"
  "d_bases (tn_accept_queue_drain E i d) = d_bases d"
  "d_msgs (tn_accept_queue_drain E i d) = d_msgs d"
  "d_mem (tn_accept_queue_drain E i d) = d_mem d"
  by (simp_all add: tn_accept_queue_drain_def)

lemma accept_remove_frame [simp]:
  "d_next_park_id (tn_accept_queue_remove E i a d) = d_next_park_id d"
  "d_hostname (tn_accept_queue_remove E i a d) = d_hostname d"
  "d_selectors (tn_accept_queue_remove E i a d) = d_selectors d"
  "d_selector_count (tn_accept_queue_remove E i a d) = d_selector_count d"
  "d_ipc_calls (tn_accept_queue_remove E i a d) = d_ipc_calls d"
  "d_deferred_replies (tn_accept_queue_remove E i a d) = d_deferred_replies d"
  "d_sigio_sent (tn_accept_queue_remove E i a d) = d_sigio_sent d"
  "d_selector_wakeups (tn_accept_queue_remove E i a d) = d_selector_wakeups d"
  "d_mainloop_ticks (tn_accept_queue_remove E i a d) = d_mainloop_ticks d"
  "d_rx_high_water (tn_accept_queue_remove E i a d) = d_rx_high_water d"
  "d_dns_late_replies (tn_accept_queue_remove E i a d) = d_dns_late_replies d"
  "d_dns_pending (tn_accept_queue_remove E i a d) = d_dns_pending d"
  "d_dns_pending_count (tn_accept_queue_remove E i a d) = d_dns_pending_count d"
  "d_dns_pending_max (tn_accept_queue_remove E i a d) = d_dns_pending_max d"
  "d_open_bases (tn_accept_queue_remove E i a d) = d_open_bases d"
  "d_open_base_count (tn_accept_queue_remove E i a d) = d_open_base_count d"
  "d_mcast_joins (tn_accept_queue_remove E i a d) = d_mcast_joins d"
  "d_slot_free_hook (tn_accept_queue_remove E i a d) = d_slot_free_hook d"
  "d_running (tn_accept_queue_remove E i a d) = d_running d"
  "d_stop_msg (tn_accept_queue_remove E i a d) = d_stop_msg d"
  "d_lib_open_cnt (tn_accept_queue_remove E i a d) = d_lib_open_cnt d"
  "d_routes (tn_accept_queue_remove E i a d) = d_routes d"
  "d_bases (tn_accept_queue_remove E i a d) = d_bases d"
  "d_msgs (tn_accept_queue_remove E i a d) = d_msgs d"
  "d_mem (tn_accept_queue_remove E i a d) = d_mem d"
  by (simp_all add: tn_accept_queue_remove_def Let_def split: option.splits)

lemma reply_send_frame [simp]:
  "d_next_park_id (tn_slot_reply_send i e b d) = d_next_park_id d"
  "d_hostname (tn_slot_reply_send i e b d) = d_hostname d"
  "d_selectors (tn_slot_reply_send i e b d) = d_selectors d"
  "d_selector_count (tn_slot_reply_send i e b d) = d_selector_count d"
  "d_ipc_calls (tn_slot_reply_send i e b d) = d_ipc_calls d"
  "d_deferred_replies (tn_slot_reply_send i e b d) = d_deferred_replies d"
  "d_sigio_sent (tn_slot_reply_send i e b d) = d_sigio_sent d"
  "d_selector_wakeups (tn_slot_reply_send i e b d) = d_selector_wakeups d"
  "d_mainloop_ticks (tn_slot_reply_send i e b d) = d_mainloop_ticks d"
  "d_rx_high_water (tn_slot_reply_send i e b d) = d_rx_high_water d"
  "d_rxfree (tn_slot_reply_send i e b d) = d_rxfree d"
  "d_dns_late_replies (tn_slot_reply_send i e b d) = d_dns_late_replies d"
  "d_dns_pending (tn_slot_reply_send i e b d) = d_dns_pending d"
  "d_dns_pending_count (tn_slot_reply_send i e b d) = d_dns_pending_count d"
  "d_dns_pending_max (tn_slot_reply_send i e b d) = d_dns_pending_max d"
  "d_open_bases (tn_slot_reply_send i e b d) = d_open_bases d"
  "d_open_base_count (tn_slot_reply_send i e b d) = d_open_base_count d"
  "d_mcast_joins (tn_slot_reply_send i e b d) = d_mcast_joins d"
  "d_slot_free_hook (tn_slot_reply_send i e b d) = d_slot_free_hook d"
  "d_running (tn_slot_reply_send i e b d) = d_running d"
  "d_stop_msg (tn_slot_reply_send i e b d) = d_stop_msg d"
  "d_lib_open_cnt (tn_slot_reply_send i e b d) = d_lib_open_cnt d"
  "d_routes (tn_slot_reply_send i e b d) = d_routes d"
  "d_bases (tn_slot_reply_send i e b d) = d_bases d"
  "d_mem (tn_slot_reply_send i e b d) = d_mem d"
  "d_lw (tn_slot_reply_send i e b d) = d_lw d"
  by (simp_all add: tn_slot_reply_send_def Let_def)

lemma reply_recv_frame [simp]:
  "d_next_park_id (tn_slot_reply_recv i e b d) = d_next_park_id d"
  "d_hostname (tn_slot_reply_recv i e b d) = d_hostname d"
  "d_selectors (tn_slot_reply_recv i e b d) = d_selectors d"
  "d_selector_count (tn_slot_reply_recv i e b d) = d_selector_count d"
  "d_ipc_calls (tn_slot_reply_recv i e b d) = d_ipc_calls d"
  "d_deferred_replies (tn_slot_reply_recv i e b d) = d_deferred_replies d"
  "d_sigio_sent (tn_slot_reply_recv i e b d) = d_sigio_sent d"
  "d_selector_wakeups (tn_slot_reply_recv i e b d) = d_selector_wakeups d"
  "d_mainloop_ticks (tn_slot_reply_recv i e b d) = d_mainloop_ticks d"
  "d_rx_high_water (tn_slot_reply_recv i e b d) = d_rx_high_water d"
  "d_rxfree (tn_slot_reply_recv i e b d) = d_rxfree d"
  "d_dns_late_replies (tn_slot_reply_recv i e b d) = d_dns_late_replies d"
  "d_dns_pending (tn_slot_reply_recv i e b d) = d_dns_pending d"
  "d_dns_pending_count (tn_slot_reply_recv i e b d) = d_dns_pending_count d"
  "d_dns_pending_max (tn_slot_reply_recv i e b d) = d_dns_pending_max d"
  "d_open_bases (tn_slot_reply_recv i e b d) = d_open_bases d"
  "d_open_base_count (tn_slot_reply_recv i e b d) = d_open_base_count d"
  "d_mcast_joins (tn_slot_reply_recv i e b d) = d_mcast_joins d"
  "d_slot_free_hook (tn_slot_reply_recv i e b d) = d_slot_free_hook d"
  "d_running (tn_slot_reply_recv i e b d) = d_running d"
  "d_stop_msg (tn_slot_reply_recv i e b d) = d_stop_msg d"
  "d_lib_open_cnt (tn_slot_reply_recv i e b d) = d_lib_open_cnt d"
  "d_routes (tn_slot_reply_recv i e b d) = d_routes d"
  "d_bases (tn_slot_reply_recv i e b d) = d_bases d"
  "d_mem (tn_slot_reply_recv i e b d) = d_mem d"
  "d_lw (tn_slot_reply_recv i e b d) = d_lw d"
  by (simp_all add: tn_slot_reply_recv_def Let_def)

lemma park_recv_frame [simp]:
  "d_next_park_id (fst (tn_slot_park_recv i m d)) = d_next_park_id d"
  "d_hostname (fst (tn_slot_park_recv i m d)) = d_hostname d"
  "d_selectors (fst (tn_slot_park_recv i m d)) = d_selectors d"
  "d_selector_count (fst (tn_slot_park_recv i m d)) = d_selector_count d"
  "d_ipc_calls (fst (tn_slot_park_recv i m d)) = d_ipc_calls d"
  "d_deferred_replies (fst (tn_slot_park_recv i m d)) = d_deferred_replies d"
  "d_sigio_sent (fst (tn_slot_park_recv i m d)) = d_sigio_sent d"
  "d_selector_wakeups (fst (tn_slot_park_recv i m d)) = d_selector_wakeups d"
  "d_mainloop_ticks (fst (tn_slot_park_recv i m d)) = d_mainloop_ticks d"
  "d_rx_high_water (fst (tn_slot_park_recv i m d)) = d_rx_high_water d"
  "d_rxfree (fst (tn_slot_park_recv i m d)) = d_rxfree d"
  "d_dns_late_replies (fst (tn_slot_park_recv i m d)) = d_dns_late_replies d"
  "d_dns_pending (fst (tn_slot_park_recv i m d)) = d_dns_pending d"
  "d_dns_pending_count (fst (tn_slot_park_recv i m d)) = d_dns_pending_count d"
  "d_dns_pending_max (fst (tn_slot_park_recv i m d)) = d_dns_pending_max d"
  "d_open_bases (fst (tn_slot_park_recv i m d)) = d_open_bases d"
  "d_open_base_count (fst (tn_slot_park_recv i m d)) = d_open_base_count d"
  "d_mcast_joins (fst (tn_slot_park_recv i m d)) = d_mcast_joins d"
  "d_slot_free_hook (fst (tn_slot_park_recv i m d)) = d_slot_free_hook d"
  "d_running (fst (tn_slot_park_recv i m d)) = d_running d"
  "d_stop_msg (fst (tn_slot_park_recv i m d)) = d_stop_msg d"
  "d_lib_open_cnt (fst (tn_slot_park_recv i m d)) = d_lib_open_cnt d"
  "d_routes (fst (tn_slot_park_recv i m d)) = d_routes d"
  "d_bases (fst (tn_slot_park_recv i m d)) = d_bases d"
  "d_mem (fst (tn_slot_park_recv i m d)) = d_mem d"
  "d_lw (fst (tn_slot_park_recv i m d)) = d_lw d"
  "d_fx (fst (tn_slot_park_recv i m d)) = d_fx d"
  by (simp_all add: tn_slot_park_recv_def Let_def)

lemma check_timeouts_frame [simp]:
  "d_next_park_id (slot_check_timeouts i d) = d_next_park_id d"
  "d_hostname (slot_check_timeouts i d) = d_hostname d"
  "d_selectors (slot_check_timeouts i d) = d_selectors d"
  "d_selector_count (slot_check_timeouts i d) = d_selector_count d"
  "d_ipc_calls (slot_check_timeouts i d) = d_ipc_calls d"
  "d_deferred_replies (slot_check_timeouts i d) = d_deferred_replies d"
  "d_sigio_sent (slot_check_timeouts i d) = d_sigio_sent d"
  "d_selector_wakeups (slot_check_timeouts i d) = d_selector_wakeups d"
  "d_mainloop_ticks (slot_check_timeouts i d) = d_mainloop_ticks d"
  "d_rx_high_water (slot_check_timeouts i d) = d_rx_high_water d"
  "d_rxfree (slot_check_timeouts i d) = d_rxfree d"
  "d_dns_late_replies (slot_check_timeouts i d) = d_dns_late_replies d"
  "d_dns_pending (slot_check_timeouts i d) = d_dns_pending d"
  "d_dns_pending_count (slot_check_timeouts i d) = d_dns_pending_count d"
  "d_dns_pending_max (slot_check_timeouts i d) = d_dns_pending_max d"
  "d_open_bases (slot_check_timeouts i d) = d_open_bases d"
  "d_open_base_count (slot_check_timeouts i d) = d_open_base_count d"
  "d_mcast_joins (slot_check_timeouts i d) = d_mcast_joins d"
  "d_slot_free_hook (slot_check_timeouts i d) = d_slot_free_hook d"
  "d_running (slot_check_timeouts i d) = d_running d"
  "d_stop_msg (slot_check_timeouts i d) = d_stop_msg d"
  "d_lib_open_cnt (slot_check_timeouts i d) = d_lib_open_cnt d"
  "d_routes (slot_check_timeouts i d) = d_routes d"
  "d_bases (slot_check_timeouts i d) = d_bases d"
  "d_mem (slot_check_timeouts i d) = d_mem d"
  "d_lw (slot_check_timeouts i d) = d_lw d"
  by (simp_all add: slot_check_timeouts_def Let_def)

lemma cancel_for_base_frame [simp]:
  "d_next_park_id (slot_cancel_for_base b r i d) = d_next_park_id d"
  "d_hostname (slot_cancel_for_base b r i d) = d_hostname d"
  "d_selectors (slot_cancel_for_base b r i d) = d_selectors d"
  "d_selector_count (slot_cancel_for_base b r i d) = d_selector_count d"
  "d_ipc_calls (slot_cancel_for_base b r i d) = d_ipc_calls d"
  "d_deferred_replies (slot_cancel_for_base b r i d) = d_deferred_replies d"
  "d_sigio_sent (slot_cancel_for_base b r i d) = d_sigio_sent d"
  "d_selector_wakeups (slot_cancel_for_base b r i d) = d_selector_wakeups d"
  "d_mainloop_ticks (slot_cancel_for_base b r i d) = d_mainloop_ticks d"
  "d_rx_high_water (slot_cancel_for_base b r i d) = d_rx_high_water d"
  "d_rxfree (slot_cancel_for_base b r i d) = d_rxfree d"
  "d_dns_late_replies (slot_cancel_for_base b r i d) = d_dns_late_replies d"
  "d_dns_pending (slot_cancel_for_base b r i d) = d_dns_pending d"
  "d_dns_pending_count (slot_cancel_for_base b r i d) = d_dns_pending_count d"
  "d_dns_pending_max (slot_cancel_for_base b r i d) = d_dns_pending_max d"
  "d_open_bases (slot_cancel_for_base b r i d) = d_open_bases d"
  "d_open_base_count (slot_cancel_for_base b r i d) = d_open_base_count d"
  "d_mcast_joins (slot_cancel_for_base b r i d) = d_mcast_joins d"
  "d_slot_free_hook (slot_cancel_for_base b r i d) = d_slot_free_hook d"
  "d_running (slot_cancel_for_base b r i d) = d_running d"
  "d_stop_msg (slot_cancel_for_base b r i d) = d_stop_msg d"
  "d_lib_open_cnt (slot_cancel_for_base b r i d) = d_lib_open_cnt d"
  "d_routes (slot_cancel_for_base b r i d) = d_routes d"
  "d_bases (slot_cancel_for_base b r i d) = d_bases d"
  "d_mem (slot_cancel_for_base b r i d) = d_mem d"
  "d_lw (slot_cancel_for_base b r i d) = d_lw d"
  by (simp_all add: slot_cancel_for_base_def Let_def)

lemma fold_check_timeouts_frame [simp]:
  "d_next_park_id (fold slot_check_timeouts ks d) = d_next_park_id d"
  "d_hostname (fold slot_check_timeouts ks d) = d_hostname d"
  "d_selectors (fold slot_check_timeouts ks d) = d_selectors d"
  "d_selector_count (fold slot_check_timeouts ks d) = d_selector_count d"
  "d_ipc_calls (fold slot_check_timeouts ks d) = d_ipc_calls d"
  "d_deferred_replies (fold slot_check_timeouts ks d) = d_deferred_replies d"
  "d_sigio_sent (fold slot_check_timeouts ks d) = d_sigio_sent d"
  "d_selector_wakeups (fold slot_check_timeouts ks d) = d_selector_wakeups d"
  "d_mainloop_ticks (fold slot_check_timeouts ks d) = d_mainloop_ticks d"
  "d_rx_high_water (fold slot_check_timeouts ks d) = d_rx_high_water d"
  "d_rxfree (fold slot_check_timeouts ks d) = d_rxfree d"
  "d_dns_late_replies (fold slot_check_timeouts ks d) = d_dns_late_replies d"
  "d_dns_pending (fold slot_check_timeouts ks d) = d_dns_pending d"
  "d_dns_pending_count (fold slot_check_timeouts ks d) = d_dns_pending_count d"
  "d_dns_pending_max (fold slot_check_timeouts ks d) = d_dns_pending_max d"
  "d_open_bases (fold slot_check_timeouts ks d) = d_open_bases d"
  "d_open_base_count (fold slot_check_timeouts ks d) = d_open_base_count d"
  "d_mcast_joins (fold slot_check_timeouts ks d) = d_mcast_joins d"
  "d_slot_free_hook (fold slot_check_timeouts ks d) = d_slot_free_hook d"
  "d_running (fold slot_check_timeouts ks d) = d_running d"
  "d_stop_msg (fold slot_check_timeouts ks d) = d_stop_msg d"
  "d_lib_open_cnt (fold slot_check_timeouts ks d) = d_lib_open_cnt d"
  "d_routes (fold slot_check_timeouts ks d) = d_routes d"
  "d_bases (fold slot_check_timeouts ks d) = d_bases d"
  "d_mem (fold slot_check_timeouts ks d) = d_mem d"
  "d_lw (fold slot_check_timeouts ks d) = d_lw d"
  by (induction ks arbitrary: d) simp_all

lemma fold_cancel_frame [simp]:
  "d_next_park_id (fold (slot_cancel_for_base b r) ks d) = d_next_park_id d"
  "d_hostname (fold (slot_cancel_for_base b r) ks d) = d_hostname d"
  "d_selectors (fold (slot_cancel_for_base b r) ks d) = d_selectors d"
  "d_selector_count (fold (slot_cancel_for_base b r) ks d) = d_selector_count d"
  "d_ipc_calls (fold (slot_cancel_for_base b r) ks d) = d_ipc_calls d"
  "d_deferred_replies (fold (slot_cancel_for_base b r) ks d) = d_deferred_replies d"
  "d_sigio_sent (fold (slot_cancel_for_base b r) ks d) = d_sigio_sent d"
  "d_selector_wakeups (fold (slot_cancel_for_base b r) ks d) = d_selector_wakeups d"
  "d_mainloop_ticks (fold (slot_cancel_for_base b r) ks d) = d_mainloop_ticks d"
  "d_rx_high_water (fold (slot_cancel_for_base b r) ks d) = d_rx_high_water d"
  "d_rxfree (fold (slot_cancel_for_base b r) ks d) = d_rxfree d"
  "d_dns_late_replies (fold (slot_cancel_for_base b r) ks d) = d_dns_late_replies d"
  "d_dns_pending (fold (slot_cancel_for_base b r) ks d) = d_dns_pending d"
  "d_dns_pending_count (fold (slot_cancel_for_base b r) ks d) = d_dns_pending_count d"
  "d_dns_pending_max (fold (slot_cancel_for_base b r) ks d) = d_dns_pending_max d"
  "d_open_bases (fold (slot_cancel_for_base b r) ks d) = d_open_bases d"
  "d_open_base_count (fold (slot_cancel_for_base b r) ks d) = d_open_base_count d"
  "d_mcast_joins (fold (slot_cancel_for_base b r) ks d) = d_mcast_joins d"
  "d_slot_free_hook (fold (slot_cancel_for_base b r) ks d) = d_slot_free_hook d"
  "d_running (fold (slot_cancel_for_base b r) ks d) = d_running d"
  "d_stop_msg (fold (slot_cancel_for_base b r) ks d) = d_stop_msg d"
  "d_lib_open_cnt (fold (slot_cancel_for_base b r) ks d) = d_lib_open_cnt d"
  "d_routes (fold (slot_cancel_for_base b r) ks d) = d_routes d"
  "d_bases (fold (slot_cancel_for_base b r) ks d) = d_bases d"
  "d_mem (fold (slot_cancel_for_base b r) ks d) = d_mem d"
  "d_lw (fold (slot_cancel_for_base b r) ks d) = d_lw d"
  by (induction ks arbitrary: d) simp_all

lemma record_event_frame [simp]:
  "d_next_park_id (tn_record_socket_event i m d) = d_next_park_id d"
  "d_hostname (tn_record_socket_event i m d) = d_hostname d"
  "d_selectors (tn_record_socket_event i m d) = d_selectors d"
  "d_selector_count (tn_record_socket_event i m d) = d_selector_count d"
  "d_ipc_calls (tn_record_socket_event i m d) = d_ipc_calls d"
  "d_deferred_replies (tn_record_socket_event i m d) = d_deferred_replies d"
  "d_sigio_sent (tn_record_socket_event i m d) = d_sigio_sent d"
  "d_selector_wakeups (tn_record_socket_event i m d) = d_selector_wakeups d"
  "d_mainloop_ticks (tn_record_socket_event i m d) = d_mainloop_ticks d"
  "d_rx_high_water (tn_record_socket_event i m d) = d_rx_high_water d"
  "d_rxfree (tn_record_socket_event i m d) = d_rxfree d"
  "d_dns_late_replies (tn_record_socket_event i m d) = d_dns_late_replies d"
  "d_dns_pending (tn_record_socket_event i m d) = d_dns_pending d"
  "d_dns_pending_count (tn_record_socket_event i m d) = d_dns_pending_count d"
  "d_dns_pending_max (tn_record_socket_event i m d) = d_dns_pending_max d"
  "d_open_bases (tn_record_socket_event i m d) = d_open_bases d"
  "d_open_base_count (tn_record_socket_event i m d) = d_open_base_count d"
  "d_mcast_joins (tn_record_socket_event i m d) = d_mcast_joins d"
  "d_slot_free_hook (tn_record_socket_event i m d) = d_slot_free_hook d"
  "d_running (tn_record_socket_event i m d) = d_running d"
  "d_stop_msg (tn_record_socket_event i m d) = d_stop_msg d"
  "d_lib_open_cnt (tn_record_socket_event i m d) = d_lib_open_cnt d"
  "d_routes (tn_record_socket_event i m d) = d_routes d"
  "d_msgs (tn_record_socket_event i m d) = d_msgs d"
  "d_mem (tn_record_socket_event i m d) = d_mem d"
  "d_lw (tn_record_socket_event i m d) = d_lw d"
  by (simp_all add: tn_record_socket_event_def Let_def)

lemma mcast_leave_one_frame [simp]:
  "d_sockets (mcast_leave_one E i k d) = d_sockets d"
  "d_next_park_id (mcast_leave_one E i k d) = d_next_park_id d"
  "d_hostname (mcast_leave_one E i k d) = d_hostname d"
  "d_selectors (mcast_leave_one E i k d) = d_selectors d"
  "d_selector_count (mcast_leave_one E i k d) = d_selector_count d"
  "d_ipc_calls (mcast_leave_one E i k d) = d_ipc_calls d"
  "d_deferred_replies (mcast_leave_one E i k d) = d_deferred_replies d"
  "d_sigio_sent (mcast_leave_one E i k d) = d_sigio_sent d"
  "d_selector_wakeups (mcast_leave_one E i k d) = d_selector_wakeups d"
  "d_mainloop_ticks (mcast_leave_one E i k d) = d_mainloop_ticks d"
  "d_rx_high_water (mcast_leave_one E i k d) = d_rx_high_water d"
  "d_rxfree (mcast_leave_one E i k d) = d_rxfree d"
  "d_dns_late_replies (mcast_leave_one E i k d) = d_dns_late_replies d"
  "d_dns_pending (mcast_leave_one E i k d) = d_dns_pending d"
  "d_dns_pending_count (mcast_leave_one E i k d) = d_dns_pending_count d"
  "d_dns_pending_max (mcast_leave_one E i k d) = d_dns_pending_max d"
  "d_open_bases (mcast_leave_one E i k d) = d_open_bases d"
  "d_open_base_count (mcast_leave_one E i k d) = d_open_base_count d"
  "d_slot_free_hook (mcast_leave_one E i k d) = d_slot_free_hook d"
  "d_running (mcast_leave_one E i k d) = d_running d"
  "d_stop_msg (mcast_leave_one E i k d) = d_stop_msg d"
  "d_lib_open_cnt (mcast_leave_one E i k d) = d_lib_open_cnt d"
  "d_routes (mcast_leave_one E i k d) = d_routes d"
  "d_bases (mcast_leave_one E i k d) = d_bases d"
  "d_msgs (mcast_leave_one E i k d) = d_msgs d"
  "d_mem (mcast_leave_one E i k d) = d_mem d"
  by (simp_all add: mcast_leave_one_def Let_def)

lemma fold_mcast_leave_frame [simp]:
  "d_sockets (fold (mcast_leave_one E i) ks d) = d_sockets d"
  "d_next_park_id (fold (mcast_leave_one E i) ks d) = d_next_park_id d"
  "d_hostname (fold (mcast_leave_one E i) ks d) = d_hostname d"
  "d_selectors (fold (mcast_leave_one E i) ks d) = d_selectors d"
  "d_selector_count (fold (mcast_leave_one E i) ks d) = d_selector_count d"
  "d_ipc_calls (fold (mcast_leave_one E i) ks d) = d_ipc_calls d"
  "d_deferred_replies (fold (mcast_leave_one E i) ks d) = d_deferred_replies d"
  "d_sigio_sent (fold (mcast_leave_one E i) ks d) = d_sigio_sent d"
  "d_selector_wakeups (fold (mcast_leave_one E i) ks d) = d_selector_wakeups d"
  "d_mainloop_ticks (fold (mcast_leave_one E i) ks d) = d_mainloop_ticks d"
  "d_rx_high_water (fold (mcast_leave_one E i) ks d) = d_rx_high_water d"
  "d_rxfree (fold (mcast_leave_one E i) ks d) = d_rxfree d"
  "d_dns_late_replies (fold (mcast_leave_one E i) ks d) = d_dns_late_replies d"
  "d_dns_pending (fold (mcast_leave_one E i) ks d) = d_dns_pending d"
  "d_dns_pending_count (fold (mcast_leave_one E i) ks d) = d_dns_pending_count d"
  "d_dns_pending_max (fold (mcast_leave_one E i) ks d) = d_dns_pending_max d"
  "d_open_bases (fold (mcast_leave_one E i) ks d) = d_open_bases d"
  "d_open_base_count (fold (mcast_leave_one E i) ks d) = d_open_base_count d"
  "d_slot_free_hook (fold (mcast_leave_one E i) ks d) = d_slot_free_hook d"
  "d_running (fold (mcast_leave_one E i) ks d) = d_running d"
  "d_stop_msg (fold (mcast_leave_one E i) ks d) = d_stop_msg d"
  "d_lib_open_cnt (fold (mcast_leave_one E i) ks d) = d_lib_open_cnt d"
  "d_routes (fold (mcast_leave_one E i) ks d) = d_routes d"
  "d_bases (fold (mcast_leave_one E i) ks d) = d_bases d"
  "d_msgs (fold (mcast_leave_one E i) ks d) = d_msgs d"
  "d_mem (fold (mcast_leave_one E i) ks d) = d_mem d"
  by (induction ks arbitrary: d) simp_all

lemma mcast_leave_all_frame [simp]:
  "d_sockets (tn_mcast_leave_all E i d) = d_sockets d"
  "d_next_park_id (tn_mcast_leave_all E i d) = d_next_park_id d"
  "d_hostname (tn_mcast_leave_all E i d) = d_hostname d"
  "d_selectors (tn_mcast_leave_all E i d) = d_selectors d"
  "d_selector_count (tn_mcast_leave_all E i d) = d_selector_count d"
  "d_ipc_calls (tn_mcast_leave_all E i d) = d_ipc_calls d"
  "d_deferred_replies (tn_mcast_leave_all E i d) = d_deferred_replies d"
  "d_sigio_sent (tn_mcast_leave_all E i d) = d_sigio_sent d"
  "d_selector_wakeups (tn_mcast_leave_all E i d) = d_selector_wakeups d"
  "d_mainloop_ticks (tn_mcast_leave_all E i d) = d_mainloop_ticks d"
  "d_rx_high_water (tn_mcast_leave_all E i d) = d_rx_high_water d"
  "d_rxfree (tn_mcast_leave_all E i d) = d_rxfree d"
  "d_dns_late_replies (tn_mcast_leave_all E i d) = d_dns_late_replies d"
  "d_dns_pending (tn_mcast_leave_all E i d) = d_dns_pending d"
  "d_dns_pending_count (tn_mcast_leave_all E i d) = d_dns_pending_count d"
  "d_dns_pending_max (tn_mcast_leave_all E i d) = d_dns_pending_max d"
  "d_open_bases (tn_mcast_leave_all E i d) = d_open_bases d"
  "d_open_base_count (tn_mcast_leave_all E i d) = d_open_base_count d"
  "d_slot_free_hook (tn_mcast_leave_all E i d) = d_slot_free_hook d"
  "d_running (tn_mcast_leave_all E i d) = d_running d"
  "d_stop_msg (tn_mcast_leave_all E i d) = d_stop_msg d"
  "d_lib_open_cnt (tn_mcast_leave_all E i d) = d_lib_open_cnt d"
  "d_routes (tn_mcast_leave_all E i d) = d_routes d"
  "d_bases (tn_mcast_leave_all E i d) = d_bases d"
  "d_msgs (tn_mcast_leave_all E i d) = d_msgs d"
  "d_mem (tn_mcast_leave_all E i d) = d_mem d"
  by (simp_all add: tn_mcast_leave_all_def)

lemma slot_free_tcp_frame [simp]:
  "d_next_park_id (slot_free_tcp E i d) = d_next_park_id d"
  "d_hostname (slot_free_tcp E i d) = d_hostname d"
  "d_selectors (slot_free_tcp E i d) = d_selectors d"
  "d_selector_count (slot_free_tcp E i d) = d_selector_count d"
  "d_ipc_calls (slot_free_tcp E i d) = d_ipc_calls d"
  "d_deferred_replies (slot_free_tcp E i d) = d_deferred_replies d"
  "d_sigio_sent (slot_free_tcp E i d) = d_sigio_sent d"
  "d_selector_wakeups (slot_free_tcp E i d) = d_selector_wakeups d"
  "d_mainloop_ticks (slot_free_tcp E i d) = d_mainloop_ticks d"
  "d_rx_high_water (slot_free_tcp E i d) = d_rx_high_water d"
  "d_rxfree (slot_free_tcp E i d) = d_rxfree d"
  "d_dns_late_replies (slot_free_tcp E i d) = d_dns_late_replies d"
  "d_dns_pending (slot_free_tcp E i d) = d_dns_pending d"
  "d_dns_pending_count (slot_free_tcp E i d) = d_dns_pending_count d"
  "d_dns_pending_max (slot_free_tcp E i d) = d_dns_pending_max d"
  "d_open_bases (slot_free_tcp E i d) = d_open_bases d"
  "d_open_base_count (slot_free_tcp E i d) = d_open_base_count d"
  "d_mcast_joins (slot_free_tcp E i d) = d_mcast_joins d"
  "d_slot_free_hook (slot_free_tcp E i d) = d_slot_free_hook d"
  "d_running (slot_free_tcp E i d) = d_running d"
  "d_stop_msg (slot_free_tcp E i d) = d_stop_msg d"
  "d_lib_open_cnt (slot_free_tcp E i d) = d_lib_open_cnt d"
  "d_routes (slot_free_tcp E i d) = d_routes d"
  "d_bases (slot_free_tcp E i d) = d_bases d"
  "d_msgs (slot_free_tcp E i d) = d_msgs d"
  "d_mem (slot_free_tcp E i d) = d_mem d"
  by (simp_all add: slot_free_tcp_def Let_def case_prod_unfold)

lemma slot_free_pcbs_frame [simp]:
  "d_next_park_id (slot_free_pcbs E i d) = d_next_park_id d"
  "d_hostname (slot_free_pcbs E i d) = d_hostname d"
  "d_selectors (slot_free_pcbs E i d) = d_selectors d"
  "d_selector_count (slot_free_pcbs E i d) = d_selector_count d"
  "d_ipc_calls (slot_free_pcbs E i d) = d_ipc_calls d"
  "d_deferred_replies (slot_free_pcbs E i d) = d_deferred_replies d"
  "d_sigio_sent (slot_free_pcbs E i d) = d_sigio_sent d"
  "d_selector_wakeups (slot_free_pcbs E i d) = d_selector_wakeups d"
  "d_mainloop_ticks (slot_free_pcbs E i d) = d_mainloop_ticks d"
  "d_rx_high_water (slot_free_pcbs E i d) = d_rx_high_water d"
  "d_rxfree (slot_free_pcbs E i d) = d_rxfree d"
  "d_dns_late_replies (slot_free_pcbs E i d) = d_dns_late_replies d"
  "d_dns_pending (slot_free_pcbs E i d) = d_dns_pending d"
  "d_dns_pending_count (slot_free_pcbs E i d) = d_dns_pending_count d"
  "d_dns_pending_max (slot_free_pcbs E i d) = d_dns_pending_max d"
  "d_open_bases (slot_free_pcbs E i d) = d_open_bases d"
  "d_open_base_count (slot_free_pcbs E i d) = d_open_base_count d"
  "d_slot_free_hook (slot_free_pcbs E i d) = d_slot_free_hook d"
  "d_running (slot_free_pcbs E i d) = d_running d"
  "d_stop_msg (slot_free_pcbs E i d) = d_stop_msg d"
  "d_lib_open_cnt (slot_free_pcbs E i d) = d_lib_open_cnt d"
  "d_routes (slot_free_pcbs E i d) = d_routes d"
  "d_bases (slot_free_pcbs E i d) = d_bases d"
  "d_msgs (slot_free_pcbs E i d) = d_msgs d"
  "d_mem (slot_free_pcbs E i d) = d_mem d"
  by (simp_all add: slot_free_pcbs_def Let_def)

lemma slot_free_connect_frame [simp]:
  "d_next_park_id (slot_free_connect i d) = d_next_park_id d"
  "d_hostname (slot_free_connect i d) = d_hostname d"
  "d_selectors (slot_free_connect i d) = d_selectors d"
  "d_selector_count (slot_free_connect i d) = d_selector_count d"
  "d_ipc_calls (slot_free_connect i d) = d_ipc_calls d"
  "d_deferred_replies (slot_free_connect i d) = d_deferred_replies d"
  "d_sigio_sent (slot_free_connect i d) = d_sigio_sent d"
  "d_selector_wakeups (slot_free_connect i d) = d_selector_wakeups d"
  "d_mainloop_ticks (slot_free_connect i d) = d_mainloop_ticks d"
  "d_rx_high_water (slot_free_connect i d) = d_rx_high_water d"
  "d_rxfree (slot_free_connect i d) = d_rxfree d"
  "d_dns_late_replies (slot_free_connect i d) = d_dns_late_replies d"
  "d_dns_pending (slot_free_connect i d) = d_dns_pending d"
  "d_dns_pending_count (slot_free_connect i d) = d_dns_pending_count d"
  "d_dns_pending_max (slot_free_connect i d) = d_dns_pending_max d"
  "d_open_bases (slot_free_connect i d) = d_open_bases d"
  "d_open_base_count (slot_free_connect i d) = d_open_base_count d"
  "d_mcast_joins (slot_free_connect i d) = d_mcast_joins d"
  "d_slot_free_hook (slot_free_connect i d) = d_slot_free_hook d"
  "d_running (slot_free_connect i d) = d_running d"
  "d_stop_msg (slot_free_connect i d) = d_stop_msg d"
  "d_lib_open_cnt (slot_free_connect i d) = d_lib_open_cnt d"
  "d_routes (slot_free_connect i d) = d_routes d"
  "d_bases (slot_free_connect i d) = d_bases d"
  "d_mem (slot_free_connect i d) = d_mem d"
  "d_lw (slot_free_connect i d) = d_lw d"
  by (simp_all add: slot_free_connect_def Let_def)

lemma slot_free_accept_frame [simp]:
  "d_next_park_id (slot_free_accept i d) = d_next_park_id d"
  "d_hostname (slot_free_accept i d) = d_hostname d"
  "d_selectors (slot_free_accept i d) = d_selectors d"
  "d_selector_count (slot_free_accept i d) = d_selector_count d"
  "d_ipc_calls (slot_free_accept i d) = d_ipc_calls d"
  "d_deferred_replies (slot_free_accept i d) = d_deferred_replies d"
  "d_sigio_sent (slot_free_accept i d) = d_sigio_sent d"
  "d_selector_wakeups (slot_free_accept i d) = d_selector_wakeups d"
  "d_mainloop_ticks (slot_free_accept i d) = d_mainloop_ticks d"
  "d_rx_high_water (slot_free_accept i d) = d_rx_high_water d"
  "d_rxfree (slot_free_accept i d) = d_rxfree d"
  "d_dns_late_replies (slot_free_accept i d) = d_dns_late_replies d"
  "d_dns_pending (slot_free_accept i d) = d_dns_pending d"
  "d_dns_pending_count (slot_free_accept i d) = d_dns_pending_count d"
  "d_dns_pending_max (slot_free_accept i d) = d_dns_pending_max d"
  "d_open_bases (slot_free_accept i d) = d_open_bases d"
  "d_open_base_count (slot_free_accept i d) = d_open_base_count d"
  "d_mcast_joins (slot_free_accept i d) = d_mcast_joins d"
  "d_slot_free_hook (slot_free_accept i d) = d_slot_free_hook d"
  "d_running (slot_free_accept i d) = d_running d"
  "d_stop_msg (slot_free_accept i d) = d_stop_msg d"
  "d_lib_open_cnt (slot_free_accept i d) = d_lib_open_cnt d"
  "d_routes (slot_free_accept i d) = d_routes d"
  "d_bases (slot_free_accept i d) = d_bases d"
  "d_mem (slot_free_accept i d) = d_mem d"
  "d_lw (slot_free_accept i d) = d_lw d"
  by (simp_all add: slot_free_accept_def Let_def)

lemma slot_free_recv_frame [simp]:
  "d_next_park_id (slot_free_recv i d) = d_next_park_id d"
  "d_hostname (slot_free_recv i d) = d_hostname d"
  "d_selectors (slot_free_recv i d) = d_selectors d"
  "d_selector_count (slot_free_recv i d) = d_selector_count d"
  "d_ipc_calls (slot_free_recv i d) = d_ipc_calls d"
  "d_deferred_replies (slot_free_recv i d) = d_deferred_replies d"
  "d_sigio_sent (slot_free_recv i d) = d_sigio_sent d"
  "d_selector_wakeups (slot_free_recv i d) = d_selector_wakeups d"
  "d_mainloop_ticks (slot_free_recv i d) = d_mainloop_ticks d"
  "d_rx_high_water (slot_free_recv i d) = d_rx_high_water d"
  "d_rxfree (slot_free_recv i d) = d_rxfree d"
  "d_dns_late_replies (slot_free_recv i d) = d_dns_late_replies d"
  "d_dns_pending (slot_free_recv i d) = d_dns_pending d"
  "d_dns_pending_count (slot_free_recv i d) = d_dns_pending_count d"
  "d_dns_pending_max (slot_free_recv i d) = d_dns_pending_max d"
  "d_open_bases (slot_free_recv i d) = d_open_bases d"
  "d_open_base_count (slot_free_recv i d) = d_open_base_count d"
  "d_mcast_joins (slot_free_recv i d) = d_mcast_joins d"
  "d_slot_free_hook (slot_free_recv i d) = d_slot_free_hook d"
  "d_running (slot_free_recv i d) = d_running d"
  "d_stop_msg (slot_free_recv i d) = d_stop_msg d"
  "d_lib_open_cnt (slot_free_recv i d) = d_lib_open_cnt d"
  "d_routes (slot_free_recv i d) = d_routes d"
  "d_bases (slot_free_recv i d) = d_bases d"
  "d_mem (slot_free_recv i d) = d_mem d"
  "d_lw (slot_free_recv i d) = d_lw d"
  by (simp_all add: slot_free_recv_def Let_def)

lemma slot_free_pending_frame [simp]:
  "d_next_park_id (slot_free_pending i d) = d_next_park_id d"
  "d_hostname (slot_free_pending i d) = d_hostname d"
  "d_selectors (slot_free_pending i d) = d_selectors d"
  "d_selector_count (slot_free_pending i d) = d_selector_count d"
  "d_ipc_calls (slot_free_pending i d) = d_ipc_calls d"
  "d_deferred_replies (slot_free_pending i d) = d_deferred_replies d"
  "d_sigio_sent (slot_free_pending i d) = d_sigio_sent d"
  "d_selector_wakeups (slot_free_pending i d) = d_selector_wakeups d"
  "d_mainloop_ticks (slot_free_pending i d) = d_mainloop_ticks d"
  "d_rx_high_water (slot_free_pending i d) = d_rx_high_water d"
  "d_rxfree (slot_free_pending i d) = d_rxfree d"
  "d_dns_late_replies (slot_free_pending i d) = d_dns_late_replies d"
  "d_dns_pending (slot_free_pending i d) = d_dns_pending d"
  "d_dns_pending_count (slot_free_pending i d) = d_dns_pending_count d"
  "d_dns_pending_max (slot_free_pending i d) = d_dns_pending_max d"
  "d_open_bases (slot_free_pending i d) = d_open_bases d"
  "d_open_base_count (slot_free_pending i d) = d_open_base_count d"
  "d_mcast_joins (slot_free_pending i d) = d_mcast_joins d"
  "d_slot_free_hook (slot_free_pending i d) = d_slot_free_hook d"
  "d_running (slot_free_pending i d) = d_running d"
  "d_stop_msg (slot_free_pending i d) = d_stop_msg d"
  "d_lib_open_cnt (slot_free_pending i d) = d_lib_open_cnt d"
  "d_routes (slot_free_pending i d) = d_routes d"
  "d_bases (slot_free_pending i d) = d_bases d"
  "d_mem (slot_free_pending i d) = d_mem d"
  "d_lw (slot_free_pending i d) = d_lw d"
  by (simp_all add: slot_free_pending_def Let_def)

lemma slot_free_frame [simp]:
  "d_next_park_id (tn_slot_free E i d) = d_next_park_id d"
  "d_hostname (tn_slot_free E i d) = d_hostname d"
  "d_selectors (tn_slot_free E i d) = d_selectors d"
  "d_selector_count (tn_slot_free E i d) = d_selector_count d"
  "d_ipc_calls (tn_slot_free E i d) = d_ipc_calls d"
  "d_deferred_replies (tn_slot_free E i d) = d_deferred_replies d"
  "d_sigio_sent (tn_slot_free E i d) = d_sigio_sent d"
  "d_selector_wakeups (tn_slot_free E i d) = d_selector_wakeups d"
  "d_mainloop_ticks (tn_slot_free E i d) = d_mainloop_ticks d"
  "d_rx_high_water (tn_slot_free E i d) = d_rx_high_water d"
  "d_dns_late_replies (tn_slot_free E i d) = d_dns_late_replies d"
  "d_dns_pending (tn_slot_free E i d) = d_dns_pending d"
  "d_dns_pending_count (tn_slot_free E i d) = d_dns_pending_count d"
  "d_dns_pending_max (tn_slot_free E i d) = d_dns_pending_max d"
  "d_open_bases (tn_slot_free E i d) = d_open_bases d"
  "d_open_base_count (tn_slot_free E i d) = d_open_base_count d"
  "d_slot_free_hook (tn_slot_free E i d) = d_slot_free_hook d"
  "d_running (tn_slot_free E i d) = d_running d"
  "d_stop_msg (tn_slot_free E i d) = d_stop_msg d"
  "d_lib_open_cnt (tn_slot_free E i d) = d_lib_open_cnt d"
  "d_routes (tn_slot_free E i d) = d_routes d"
  "d_bases (tn_slot_free E i d) = d_bases d"
  "d_mem (tn_slot_free E i d) = d_mem d"
  by (simp_all add: tn_slot_free_def Let_def)

lemma slot_unref_frame [simp]:
  "d_next_park_id (tn_slot_unref E i d) = d_next_park_id d"
  "d_hostname (tn_slot_unref E i d) = d_hostname d"
  "d_selectors (tn_slot_unref E i d) = d_selectors d"
  "d_selector_count (tn_slot_unref E i d) = d_selector_count d"
  "d_ipc_calls (tn_slot_unref E i d) = d_ipc_calls d"
  "d_deferred_replies (tn_slot_unref E i d) = d_deferred_replies d"
  "d_sigio_sent (tn_slot_unref E i d) = d_sigio_sent d"
  "d_selector_wakeups (tn_slot_unref E i d) = d_selector_wakeups d"
  "d_mainloop_ticks (tn_slot_unref E i d) = d_mainloop_ticks d"
  "d_rx_high_water (tn_slot_unref E i d) = d_rx_high_water d"
  "d_dns_late_replies (tn_slot_unref E i d) = d_dns_late_replies d"
  "d_dns_pending (tn_slot_unref E i d) = d_dns_pending d"
  "d_dns_pending_count (tn_slot_unref E i d) = d_dns_pending_count d"
  "d_dns_pending_max (tn_slot_unref E i d) = d_dns_pending_max d"
  "d_open_bases (tn_slot_unref E i d) = d_open_bases d"
  "d_open_base_count (tn_slot_unref E i d) = d_open_base_count d"
  "d_slot_free_hook (tn_slot_unref E i d) = d_slot_free_hook d"
  "d_running (tn_slot_unref E i d) = d_running d"
  "d_stop_msg (tn_slot_unref E i d) = d_stop_msg d"
  "d_lib_open_cnt (tn_slot_unref E i d) = d_lib_open_cnt d"
  "d_routes (tn_slot_unref E i d) = d_routes d"
  "d_bases (tn_slot_unref E i d) = d_bases d"
  "d_mem (tn_slot_unref E i d) = d_mem d"
  by (simp_all add: tn_slot_unref_def Let_def)

section \<open>Projections of the trace\<close>

fun replies :: "effect list \<Rightarrow> ptr list" where
  "replies [] = []"
| "replies (FxReply m # fx) = m # replies fx"
| "replies (FxSignal t sg # fx) = replies fx"
| "replies (FxCall c r # fx) = replies fx"

lemma replies_append [simp]: "replies (fx @ fy) = replies fx @ replies fy"
  by (induction fx rule: replies.induct) auto

fun tcp_target :: "lwcall \<Rightarrow> ptr option" where
  "tcp_target (TcpArg p a) = Some p"
| "tcp_target (TcpRecv p a) = Some p"
| "tcp_target (TcpSent p a) = Some p"
| "tcp_target (TcpErr p a) = Some p"
| "tcp_target (TcpPoll p a n) = Some p"
| "tcp_target (TcpAccept p a) = Some p"
| "tcp_target (TcpClose p) = Some p"
| "tcp_target (TcpAbort p) = Some p"
| "tcp_target (TcpOutput p) = Some p"
| "tcp_target (TcpWrite p b) = Some p"
| "tcp_target (TcpRecved p n) = Some p"
| "tcp_target (TcpConnect p a q) = Some p"
| "tcp_target (TcpBind p a q) = Some p"
| "tcp_target (TcpListen p n) = Some p"
| "tcp_target (TcpShutdown p a b) = Some p"
| "tcp_target _ = None"

text \<open>The calls on TCP pcb \<open>p\<close>, in order.\<close>

fun tcp_calls :: "ptr \<Rightarrow> effect list \<Rightarrow> lwcall list" where
  "tcp_calls p [] = []"
| "tcp_calls p (FxCall c r # fx) = (if tcp_target c = Some p then c # tcp_calls p fx else tcp_calls p fx)"
| "tcp_calls p (FxReply m # fx) = tcp_calls p fx"
| "tcp_calls p (FxSignal t sg # fx) = tcp_calls p fx"

lemma tcp_calls_append [simp]: "tcp_calls p (fx @ fy) = tcp_calls p fx @ tcp_calls p fy"
  by (induction p fx rule: tcp_calls.induct) auto

abbreviation replied :: "TnDaemon \<Rightarrow> ptr list" where
  "replied d \<equiv> replies (d_fx d)"

abbreviation tcp_trace :: "ptr \<Rightarrow> TnDaemon \<Rightarrow> lwcall list" where
  "tcp_trace p d \<equiv> tcp_calls p (d_fx d)"

lemma fx_frame [simp]:
  "d_fx (upd_slot i f d) = d_fx d"
  "d_fx (upd_msg m g d) = d_fx d"
  "d_fx (set_reply m r e d) = d_fx d"
  by simp_all

lemma fx_lwcall: "d_fx (fst (lwcall E c d)) = d_fx d @ [FxCall c (snd (lwcall E c d))]"
  by (simp add: lwcall_def Let_def case_prod_unfold)

lemma fx_lwdo: "d_fx (lwdo E c d) = d_fx d @ [FxCall c (snd (lwcall E c d))]"
  by (simp add: lwdo_def fx_lwcall)

lemma replied_lw [simp]:
  "replied (fst (lwcall E c d)) = replied d" "replied (lwdo E c d) = replied d"
  by (simp_all add: fx_lwcall fx_lwdo)

lemma replied_lwdos [simp]: "replied (lwdos E cs d) = replied d"
  by (induction cs arbitrary: d) simp_all

lemma tcp_trace_lw [simp]:
  "tcp_trace p (fst (lwcall E c d)) = tcp_trace p d @ (if tcp_target c = Some p then [c] else [])"
  "tcp_trace p (lwdo E c d) = tcp_trace p d @ (if tcp_target c = Some p then [c] else [])"
  by (simp_all add: fx_lwcall fx_lwdo)

lemma tcp_trace_lwdos [simp]:
  "tcp_trace p (lwdos E cs d) = tcp_trace p d @ filter (\<lambda>c. tcp_target c = Some p) cs"
  by (induction cs arbitrary: d) simp_all

lemma rxpkt_trace [simp]:
  "replied (fst (tn_rxpkt_get E d)) = replied d" "replied (tn_rxpkt_put E d) = replied d"
  "tcp_trace p (fst (tn_rxpkt_get E d)) = tcp_trace p d" "tcp_trace p (tn_rxpkt_put E d) = tcp_trace p d"
  by (simp_all add: tn_rxpkt_get_def tn_rxpkt_put_def Let_def case_prod_unfold)

lemma free_pkts_trace [simp]:
  "replied (free_pkts E pks d) = replied d" "tcp_trace p (free_pkts E pks d) = tcp_trace p d"
  by (induction pks arbitrary: d) simp_all

lemma rx_drain_trace [simp]:
  "replied (tn_rx_queue_drain E i d) = replied d" "tcp_trace p (tn_rx_queue_drain E i d) = tcp_trace p d"
  by (simp_all add: tn_rx_queue_drain_def)

lemma entry_free_trace [simp]:
  "replied (tn_accept_entry_free E e b d) = replied d"
  "p \<noteq> ae_new_pcb e \<Longrightarrow> tcp_trace p (tn_accept_entry_free E e b d) = tcp_trace p d"
  by (simp_all add: tn_accept_entry_free_def Let_def)

lemma free_entries_replied [simp]: "replied (free_entries E es d) = replied d"
  by (induction es arbitrary: d) simp_all

lemma free_entries_trace: "p \<notin> ae_new_pcb ` set es \<Longrightarrow> tcp_trace p (free_entries E es d) = tcp_trace p d"
  by (induction es arbitrary: d) simp_all

lemma mcast_leave_trace [simp]:
  "replied (mcast_leave_one E i k d) = replied d"
  "tcp_trace p (mcast_leave_one E i k d) = tcp_trace p d"
  by (simp_all add: mcast_leave_one_def Let_def)

lemma mcast_leave_all_trace [simp]:
  "replied (tn_mcast_leave_all E i d) = replied d"
  "tcp_trace p (tn_mcast_leave_all E i d) = tcp_trace p d"
proof -
  have "replied (fold (mcast_leave_one E i) ks d) = replied d \<and>
    tcp_trace p (fold (mcast_leave_one E i) ks d) = tcp_trace p d" for ks
    by (induction ks arbitrary: d) simp_all
  then show "replied (tn_mcast_leave_all E i d) = replied d"
    "tcp_trace p (tn_mcast_leave_all E i d) = tcp_trace p d"
    by (simp_all add: tn_mcast_leave_all_def)
qed

lemma slot_free_pcbs_replied [simp]: "replied (slot_free_pcbs E i d) = replied d"
  by (simp add: slot_free_pcbs_def slot_free_tcp_def Let_def case_prod_unfold)

end
