(* ===== verification/Fixtures.thy ===== *)
theory Fixtures
  imports Slot_Table
begin

text \<open>
  Concrete states on which properties are evaluated: an lwIP environment whose calls succeed
  and which has nothing queued on its loopback interfaces, and a freshly initialised daemon
  with two registered openers.
\<close>

definition lwip0 :: lwip where
  "lwip0 = \<lparr>
     lw_tcp = (\<lambda>_. \<lparr>tp_local_ip = 0, tp_local_port = 0, tp_remote_ip = 0, tp_remote_port = 0,
       tp_state = 4, tp_mss = 1460, tp_keep_idle = 0, tp_keep_intvl = 0, tp_keep_cnt = 0,
       tp_tos = 0, tp_ttl = 64, tp_so_options = 0, tp_flags = 0, tp_snd_buf = 11680,
       tp_snd_queuelen = 0\<rparr>),
     lw_udp = (\<lambda>_. \<lparr>up_local_ip = 0, up_local_port = 0, up_remote_ip = 0, up_remote_port = 0,
       up_tos = 0, up_ttl = 64, up_mcast_ttl = 1, up_so_options = 0, up_flags = 0\<rparr>),
     lw_raw = (\<lambda>_. \<lparr>rp_local_ip = 0, rp_remote_ip = 0, rp_tos = 0, rp_ttl = 64, rp_mcast_ttl = 1,
       rp_so_options = 0, rp_flags = 0\<rparr>),
     lw_clock = 0\<rparr>"

fun call0 :: "lwcall \<Rightarrow> lwip \<Rightarrow> int \<times> lwip" where
  "call0 TcpNew l = (0x7000 + int (lw_clock l), l\<lparr>lw_clock := lw_clock l + 1\<rparr>)"
| "call0 UdpNew l = (0x7000 + int (lw_clock l), l\<lparr>lw_clock := lw_clock l + 1\<rparr>)"
| "call0 (RawNew p) l = (0x7000 + int (lw_clock l), l\<lparr>lw_clock := lw_clock l + 1\<rparr>)"
| "call0 AllocRxPkt l = (0x7000, l)"
| "call0 AllocEntry l = (0x7000 + int (lw_clock l), l\<lparr>lw_clock := lw_clock l + 1\<rparr>)"
| "call0 (AllocSelectors n) l = (0x7000, l)"
| "call0 (PbufAlloc n) l = (0x7000, l)"
| "call0 (PbufClone bs) l = (0x7000, l)"
| "call0 (TcpListen p n) l = (uint p, l)"
| "call0 c l = (0, l)"

definition env0 :: env where
  "env0 = \<lparr>ev_call = call0, ev_netifs = (\<lambda>_. []), ev_default = (\<lambda>_. None), ev_arp = (\<lambda>_ _. None),
     ev_aton = (\<lambda>_. None), ev_dns_addr = (\<lambda>_ _. 0), ev_task_alive = (\<lambda>_ _. True), ev_hostent_off = 0x80,
     ev_poll = (\<lambda>l. None)\<rparr>"

definition base0 :: TnSocketBase where
  "base0 = \<lparr>sb_owner_task = 0x500, sb_sig_io = 0, sb_sig_event = 0, sb_sig_select = 0x100,
     sb_dtablesize = 64, sb_fd_map = replicate 64 (-1), sb_fd_map_null = False,
     sb_events = replicate 64 0, sb_events_null = False, sb_event_masks = replicate 64 0,
     sb_event_masks_null = False, sb_hostname = [], sb_hostent_name = [], sb_hostent_addr = 0,
     sb_hostent_valid = False\<rparr>"

definition msg0 :: TnIpcMsg where
  "msg0 = \<lparr>im_cmd = 0, im_client_task = 0x500, im_socket_base = 0x100, im_args = (\<lambda>_. 0),
     im_ptrs = (\<lambda>_. 0), im_result = 0, im_err_no = 0\<rparr>"

definition daemon0 :: TnDaemon where
  "daemon0 = \<lparr>
     d_sockets = replicate 64 null_slot, d_next_park_id = 1, d_hostname = [],
     d_selectors = replicate 16 null_selector, d_selector_count = 0,
     d_ipc_calls = replicate 32 0, d_deferred_replies = 0, d_sigio_sent = 0,
     d_selector_wakeups = 0, d_mainloop_ticks = 0, d_rx_high_water = 0, d_rxfree = 0,
     d_dns_late_replies = 0,
     d_dns_pending = replicate 8 \<lparr>dp_imsg = 0, dp_base = 0, dp_name = [], dp_tick = 0, dp_in_use = False\<rparr>,
     d_dns_pending_count = 0, d_dns_pending_max = 8,
     d_open_bases = [0x100, 0x200] @ replicate 14 0, d_open_base_count = 2,
     d_mcast_joins = replicate 8 \<lparr>mj_in_use = False, mj_slot = 0, mj_grp = 0, mj_ifa = 0\<rparr>,
     d_slot_free_hook = True, d_running = True, d_stop_msg = 0, d_lib_open_cnt = 2,
     d_routes = replicate 16 \<lparr>rt_dest = 0, rt_mask = 0, rt_gw = 0, rt_in_use = False\<rparr>,
     d_bases = (\<lambda>_. base0), d_msgs = (\<lambda>_. msg0), d_mem = (\<lambda>_. 0), d_lw = lwip0, d_fx = []\<rparr>"

lemma daemon0_sockets [simp]: "d_sockets daemon0 = replicate 64 null_slot"
  by (simp add: daemon0_def)

lemma daemon0_simps [simp]:
  "d_open_bases daemon0 = [0x100, 0x200] @ replicate 14 0" "d_bases daemon0 = (\<lambda>_. base0)"
  "d_msgs daemon0 = (\<lambda>_. msg0)" "d_fx daemon0 = []" "d_mainloop_ticks daemon0 = 0"
  "d_selectors daemon0 = replicate 16 null_selector" "d_next_park_id daemon0 = 1"
  "d_selector_count daemon0 = 0"
  by (simp_all add: daemon0_def)

end
