(* ===== verification/Slot_Props.thy ===== *)
theory Slot_Props
  imports Slot_Frames Fixtures
begin

text \<open>
  Properties of the slot table: what releasing a slot leaves behind and whom it answers,
  and the deadlines of parked receives and sends.
\<close>

section \<open>Only one slot changes\<close>

text \<open>\<open>d'\<close> differs from \<open>d\<close> in the slot table at most at slot \<open>i\<close>.\<close>

definition only_slot :: "nat \<Rightarrow> TnDaemon \<Rightarrow> TnDaemon \<Rightarrow> bool" where
  "only_slot i d d' = (length (d_sockets d') = length (d_sockets d) \<and>
     (\<forall>j. j \<noteq> i \<longrightarrow> slot_of d' j = slot_of d j))"

lemma only_slot_refl [simp]: "d_sockets d' = d_sockets d \<Longrightarrow> only_slot i d d'"
  by (simp add: only_slot_def)

lemma only_slot_trans: "only_slot i d d1 \<Longrightarrow> only_slot i d1 d2 \<Longrightarrow> only_slot i d d2"
  by (simp add: only_slot_def)

lemma only_slot_upd: "only_slot i d d1 \<Longrightarrow> only_slot i d (upd_slot i f d1)"
  by (simp add: only_slot_def)

lemma only_slot_eq: "only_slot i d d1 \<Longrightarrow> d_sockets d2 = d_sockets d1 \<Longrightarrow> only_slot i d d2"
  by (simp add: only_slot_def)

lemma only_slot_length: "only_slot i d d' \<Longrightarrow> length (d_sockets d') = length (d_sockets d)"
  by (simp add: only_slot_def)

lemma only_slot_other: "only_slot i d d' \<Longrightarrow> j \<noteq> i \<Longrightarrow> slot_of d' j = slot_of d j"
  by (simp add: only_slot_def)

lemmas only_slot_defs = only_slot_def sockets_upd_slot

lemma reply_send_only [simp]: "only_slot i d (tn_slot_reply_send i e b d)"
  by (simp add: tn_slot_reply_send_def Let_def only_slot_defs)

lemma reply_recv_only [simp]: "only_slot i d (tn_slot_reply_recv i e b d)"
  by (simp add: tn_slot_reply_recv_def Let_def only_slot_defs)

lemma null_pcb_upd:
  "s_udp_pcb s = NULL \<Longrightarrow> s\<lparr>s_udp_pcb := NULL\<rparr> = s"
  "s_tcp_pcb s = NULL \<Longrightarrow> s\<lparr>s_tcp_pcb := NULL\<rparr> = s"
  "s_raw_pcb s = NULL \<Longrightarrow> s\<lparr>s_raw_pcb := NULL\<rparr> = s"
  by (cases s; simp)+

lemma slot_free_tcp_sockets:
  "d_sockets (slot_free_tcp E i d) = (d_sockets d)[i := (slot_of d i)\<lparr>s_tcp_pcb := NULL\<rparr>]"
proof (cases "s_tcp_pcb (slot_of d i) = NULL")
  case True
  then show ?thesis by (simp add: slot_free_tcp_def null_pcb_upd)
next
  case False
  then show ?thesis by (simp add: slot_free_tcp_def Let_def case_prod_unfold sockets_upd_slot)
qed

definition free_udp :: "env \<Rightarrow> nat \<Rightarrow> TnDaemon \<Rightarrow> TnDaemon" where
  "free_udp E i d = (if s_udp_pcb (slot_of d i) \<noteq> NULL
     then upd_slot i (\<lambda>s. s\<lparr>s_udp_pcb := NULL\<rparr>) (lwdo E (UdpRemove (s_udp_pcb (slot_of d i))) d) else d)"

definition free_raw :: "env \<Rightarrow> nat \<Rightarrow> TnDaemon \<Rightarrow> TnDaemon" where
  "free_raw E i d = (if s_raw_pcb (slot_of d i) \<noteq> NULL
     then upd_slot i (\<lambda>s. s\<lparr>s_raw_pcb := NULL\<rparr>) (lwdo E (RawRemove (s_raw_pcb (slot_of d i))) d) else d)"

lemma free_udp_sockets: "d_sockets (free_udp E i d) = (d_sockets d)[i := (slot_of d i)\<lparr>s_udp_pcb := NULL\<rparr>]"
  by (simp add: free_udp_def sockets_upd_slot null_pcb_upd)

lemma free_raw_sockets: "d_sockets (free_raw E i d) = (d_sockets d)[i := (slot_of d i)\<lparr>s_raw_pcb := NULL\<rparr>]"
  by (simp add: free_raw_def sockets_upd_slot null_pcb_upd)

lemma slot_free_pcbs_alt:
  "slot_free_pcbs E i d =
     free_raw E i (slot_free_tcp E i (free_udp E i (if d_slot_free_hook d then tn_mcast_leave_all E i d else d)))"
  by (simp add: slot_free_pcbs_def free_raw_def free_udp_def Let_def)

lemma slot_free_pcbs_sockets:
  "d_sockets (slot_free_pcbs E i d) =
     (d_sockets d)[i := (slot_of d i)\<lparr>s_udp_pcb := NULL, s_tcp_pcb := NULL, s_raw_pcb := NULL\<rparr>]"
  by (cases "i < length (d_sockets d)")
     (simp_all add: slot_free_pcbs_alt free_raw_sockets free_udp_sockets slot_free_tcp_sockets
      list_update_beyond)

lemma slot_free_pcbs_only [simp]: "only_slot i d (slot_free_pcbs E i d)"
  by (simp add: only_slot_def slot_free_pcbs_sockets)

lemma slot_free_steps_only [simp]:
  "only_slot i d (slot_free_connect i d)" "only_slot i d (slot_free_accept i d)"
  "only_slot i d (slot_free_recv i d)"
  by (simp_all add: slot_free_connect_def slot_free_accept_def slot_free_recv_def Let_def only_slot_defs
      tn_slot_reply_recv_def)

lemma slot_free_pending_only [simp]: "only_slot i d (slot_free_pending i d)"
proof -
  let ?d3 = "slot_free_recv i (slot_free_accept i (slot_free_connect i d))"
  have "only_slot i d ?d3" by (meson only_slot_trans slot_free_steps_only)
  then show ?thesis
    by (simp add: slot_free_pending_def Let_def) (meson only_slot_trans reply_send_only)
qed

lemma drains_only [simp]:
  "only_slot i d (tn_accept_queue_drain E i (tn_rx_queue_drain E i d))"
  by (simp add: tn_accept_queue_drain_def tn_rx_queue_drain_def only_slot_defs)

lemma tn_slot_free_only [simp]: "only_slot i d (tn_slot_free E i d)"
proof -
  let ?d1 = "slot_free_pcbs E i d"
  let ?d2 = "tn_accept_queue_drain E i (tn_rx_queue_drain E i ?d1)"
  have "only_slot i d (slot_free_pending i ?d2)"
    by (meson only_slot_trans slot_free_pcbs_only drains_only slot_free_pending_only)
  then show ?thesis
    by (simp add: tn_slot_free_def Let_def only_slot_upd)
qed

lemma tn_slot_unref_only [simp]: "only_slot i d (tn_slot_unref E i d)"
proof -
  have "only_slot i d (upd_slot i f d)" for f
    by (simp add: only_slot_upd)
  then show ?thesis
    by (simp add: tn_slot_unref_def Let_def) (meson only_slot_trans tn_slot_free_only)
qed

section \<open>Releasing a slot\<close>

lemma drains_slot:
  assumes "i < length (d_sockets d)"
  shows "slot_of (tn_accept_queue_drain E i (tn_rx_queue_drain E i d)) i =
    (slot_of d i)\<lparr>s_rx := [], s_rx_count := 0, s_accept := [], s_accept_count := 0\<rparr>"
  using assms by (simp add: tn_accept_queue_drain_def tn_rx_queue_drain_def rx_clear_slot_def sockets_upd_slot)

text \<open>The messages parked on a slot, in the order in which \<open>tn_slot_free\<close> answers them.\<close>

definition parked_msgs :: "TnSocketSlot \<Rightarrow> ptr list" where
  "parked_msgs s = filter (\<lambda>m. m \<noteq> NULL)
     [s_pending_connect_msg s, s_pending_accept_msg s, s_pending_recv_msg s, s_pending_send_msg s]"

text \<open>The slot after each of the three first steps.\<close>

lemma pending_null_upd:
  "s_pending_connect_msg s = NULL \<Longrightarrow> s\<lparr>s_pending_connect_msg := NULL\<rparr> = s"
  "s_pending_accept_msg s = NULL \<Longrightarrow> s\<lparr>s_pending_accept_msg := NULL\<rparr> = s"
  "s_pending_recv_msg s = NULL \<Longrightarrow>
     s\<lparr>s_pending_recv_msg := NULL, s_recv_deadline_tick := s_recv_deadline_tick s\<rparr> = s"
  "s_pending_send_msg s = NULL \<Longrightarrow>
     s\<lparr>s_pending_send_msg := NULL, s_send_deadline_tick := s_send_deadline_tick s, s_send_done := s_send_done s,
       s_send_iov := s_send_iov s, s_send_iovcnt := s_send_iovcnt s\<rparr> = s"
  by (cases s; simp)+

lemma slot_free_steps_slot:
  assumes "i < length (d_sockets d)"
  shows "slot_of (slot_free_connect i d) i = (slot_of d i)\<lparr>s_pending_connect_msg := NULL\<rparr>"
    "slot_of (slot_free_accept i d) i = (slot_of d i)\<lparr>s_pending_accept_msg := NULL\<rparr>"
    "\<exists>t. slot_of (slot_free_recv i d) i = (slot_of d i)\<lparr>s_pending_recv_msg := NULL, s_recv_deadline_tick := t\<rparr>"
proof -
  show "slot_of (slot_free_connect i d) i = (slot_of d i)\<lparr>s_pending_connect_msg := NULL\<rparr>"
    using assms by (simp add: slot_free_connect_def Let_def pending_null_upd)
  show "slot_of (slot_free_accept i d) i = (slot_of d i)\<lparr>s_pending_accept_msg := NULL\<rparr>"
    using assms by (simp add: slot_free_accept_def Let_def pending_null_upd)
  show "\<exists>t. slot_of (slot_free_recv i d) i = (slot_of d i)\<lparr>s_pending_recv_msg := NULL, s_recv_deadline_tick := t\<rparr>"
  proof (cases "s_pending_recv_msg (slot_of d i) = NULL")
    case True
    then show ?thesis using pending_null_upd(3) by (metis slot_free_recv_def)
  next
    case False
    then have "slot_of (slot_free_recv i d) i = (slot_of d i)\<lparr>s_pending_recv_msg := NULL, s_recv_deadline_tick := 0\<rparr>"
      using assms by (simp add: slot_free_recv_def tn_slot_reply_recv_def Let_def)
    then show ?thesis by blast
  qed
qed

lemma slot_free_steps_replied:
  "replied (slot_free_connect i d) = replied d @ filter (\<lambda>m. m \<noteq> NULL) [s_pending_connect_msg (slot_of d i)]"
  "replied (slot_free_accept i d) = replied d @ filter (\<lambda>m. m \<noteq> NULL) [s_pending_accept_msg (slot_of d i)]"
  "replied (slot_free_recv i d) = replied d @ filter (\<lambda>m. m \<noteq> NULL) [s_pending_recv_msg (slot_of d i)]"
  "replied (tn_slot_reply_send i e True d) = replied d @ filter (\<lambda>m. m \<noteq> NULL) [s_pending_send_msg (slot_of d i)]"
  by (simp_all add: slot_free_connect_def slot_free_accept_def slot_free_recv_def
      tn_slot_reply_recv_def tn_slot_reply_send_def Let_def)

text \<open>The reply a message gets when its slot is released.\<close>

definition release_reply :: "TnSocketSlot \<Rightarrow> ptr \<Rightarrow> TnIpcMsg \<Rightarrow> TnIpcMsg" where
  "release_reply s m x =
     (if m = s_pending_send_msg s \<and> s_send_done s > 0
      then x\<lparr>im_result := s_send_done s, im_err_no := 0\<rparr>
      else x\<lparr>im_result := -1, im_err_no := EBADF\<rparr>)"

lemma slot_free_steps_msgs:
  "d_msgs (slot_free_connect i d) m = (if m \<noteq> NULL \<and> m = s_pending_connect_msg (slot_of d i)
     then (d_msgs d m)\<lparr>im_result := -1, im_err_no := EBADF\<rparr> else d_msgs d m)"
  "d_msgs (slot_free_accept i d) m = (if m \<noteq> NULL \<and> m = s_pending_accept_msg (slot_of d i)
     then (d_msgs d m)\<lparr>im_result := -1, im_err_no := EBADF\<rparr> else d_msgs d m)"
  "d_msgs (slot_free_recv i d) m = (if m \<noteq> NULL \<and> m = s_pending_recv_msg (slot_of d i)
     then (d_msgs d m)\<lparr>im_result := -1, im_err_no := EBADF\<rparr> else d_msgs d m)"
  "d_msgs (tn_slot_reply_send i EBADF True d) m = (if m \<noteq> NULL \<and> m = s_pending_send_msg (slot_of d i)
     then release_reply (slot_of d i) m (d_msgs d m) else d_msgs d m)"
  by (auto simp: slot_free_connect_def slot_free_accept_def slot_free_recv_def tn_slot_reply_recv_def
      tn_slot_reply_send_def Let_def msgs_set_reply release_reply_def)

lemma slot_free_three:
  fixes d :: TnDaemon
  assumes i: "i < length (d_sockets d)"
  defines "d3 \<equiv> slot_free_recv i (slot_free_accept i (slot_free_connect i d))"
  shows "\<exists>t. slot_of d3 i = (slot_of d i)\<lparr>s_pending_connect_msg := NULL, s_pending_accept_msg := NULL,
      s_pending_recv_msg := NULL, s_recv_deadline_tick := t\<rparr>"
    "length (d_sockets d3) = length (d_sockets d)"
    "replied d3 = replied d @ filter (\<lambda>m. m \<noteq> NULL)
       [s_pending_connect_msg (slot_of d i), s_pending_accept_msg (slot_of d i), s_pending_recv_msg (slot_of d i)]"
    "d_msgs d3 m = (if m \<noteq> NULL \<and> (m = s_pending_connect_msg (slot_of d i) \<or>
         m = s_pending_accept_msg (slot_of d i) \<or> m = s_pending_recv_msg (slot_of d i))
       then (d_msgs d m)\<lparr>im_result := -1, im_err_no := EBADF\<rparr> else d_msgs d m)"
proof -
  let ?d1 = "slot_free_connect i d"
  let ?d2 = "slot_free_accept i ?d1"
  have l1: "length (d_sockets ?d1) = length (d_sockets d)" "length (d_sockets ?d2) = length (d_sockets d)"
    using only_slot_length slot_free_steps_only by metis+
  then show "length (d_sockets d3) = length (d_sockets d)"
    unfolding d3_def using only_slot_length slot_free_steps_only by metis
  have s: "slot_of ?d1 i = (slot_of d i)\<lparr>s_pending_connect_msg := NULL\<rparr>"
    "slot_of ?d2 i = (slot_of d i)\<lparr>s_pending_connect_msg := NULL, s_pending_accept_msg := NULL\<rparr>"
    using slot_free_steps_slot(1) [OF i] slot_free_steps_slot(2) [of i ?d1] i l1 by simp_all
  then show "\<exists>t. slot_of d3 i = (slot_of d i)\<lparr>s_pending_connect_msg := NULL, s_pending_accept_msg := NULL,
      s_pending_recv_msg := NULL, s_recv_deadline_tick := t\<rparr>"
    unfolding d3_def using slot_free_steps_slot(3) [of i ?d2] i l1 by simp
  show "replied d3 = replied d @ filter (\<lambda>m. m \<noteq> NULL)
       [s_pending_connect_msg (slot_of d i), s_pending_accept_msg (slot_of d i), s_pending_recv_msg (slot_of d i)]"
    by (simp add: d3_def slot_free_steps_replied s)
  show "d_msgs d3 m = (if m \<noteq> NULL \<and> (m = s_pending_connect_msg (slot_of d i) \<or>
         m = s_pending_accept_msg (slot_of d i) \<or> m = s_pending_recv_msg (slot_of d i))
       then (d_msgs d m)\<lparr>im_result := -1, im_err_no := EBADF\<rparr> else d_msgs d m)"
    by (auto simp: d3_def slot_free_steps_msgs s)
qed

lemma reply_send_slot:
  assumes "i < length (d_sockets d)"
  shows "\<exists>t n v c. slot_of (tn_slot_reply_send i e b d) i = (slot_of d i)\<lparr>s_pending_send_msg := NULL,
     s_send_deadline_tick := t, s_send_done := n, s_send_iov := v, s_send_iovcnt := c\<rparr>"
proof (cases "s_pending_send_msg (slot_of d i) = NULL")
  case True
  then have "slot_of (tn_slot_reply_send i e b d) i = slot_of d i"
    by (simp add: tn_slot_reply_send_def Let_def)
  then show ?thesis using pending_null_upd(4) [OF True] by metis
next
  case False
  then have "slot_of (tn_slot_reply_send i e b d) i = (slot_of d i)\<lparr>s_pending_send_msg := NULL,
     s_send_deadline_tick := 0, s_send_done := 0, s_send_iov := NULL, s_send_iovcnt := 0\<rparr>"
    using assms by (simp add: tn_slot_reply_send_def Let_def)
  then show ?thesis by blast
qed

lemma slot_free_pending_spec:
  assumes i: "i < length (d_sockets d)"
  shows "\<exists>t u n v c. slot_of (slot_free_pending i d) i = (slot_of d i)\<lparr>s_pending_connect_msg := NULL,
      s_pending_accept_msg := NULL, s_pending_recv_msg := NULL, s_recv_deadline_tick := t,
      s_pending_send_msg := NULL, s_send_deadline_tick := u, s_send_done := n, s_send_iov := v,
      s_send_iovcnt := c\<rparr>"
    "replied (slot_free_pending i d) = replied d @ parked_msgs (slot_of d i)"
    "distinct (parked_msgs (slot_of d i)) \<Longrightarrow> d_msgs (slot_free_pending i d) m =
      (if m \<in> set (parked_msgs (slot_of d i)) then release_reply (slot_of d i) m (d_msgs d m) else d_msgs d m)"
proof -
  define d3 where "d3 = slot_free_recv i (slot_free_accept i (slot_free_connect i d))"
  note three = slot_free_three [OF i, folded d3_def]
  obtain t where t: "slot_of d3 i = (slot_of d i)\<lparr>s_pending_connect_msg := NULL, s_pending_accept_msg := NULL,
      s_pending_recv_msg := NULL, s_recv_deadline_tick := t\<rparr>" using three(1) by blast
  have eq: "slot_free_pending i d = tn_slot_reply_send i EBADF True d3"
    unfolding slot_free_pending_def d3_def [symmetric] Let_def
    by (simp add: tn_slot_reply_send_def Let_def)
  show "\<exists>t u n v c. slot_of (slot_free_pending i d) i = (slot_of d i)\<lparr>s_pending_connect_msg := NULL,
      s_pending_accept_msg := NULL, s_pending_recv_msg := NULL, s_recv_deadline_tick := t,
      s_pending_send_msg := NULL, s_send_deadline_tick := u, s_send_done := n, s_send_iov := v,
      s_send_iovcnt := c\<rparr>"
    using reply_send_slot [of i d3 EBADF True] i three(2) unfolding eq t by fastforce
  show "replied (slot_free_pending i d) = replied d @ parked_msgs (slot_of d i)"
    unfolding eq slot_free_steps_replied t three(3) by (simp add: parked_msgs_def)
  assume "distinct (parked_msgs (slot_of d i))"
  then show "d_msgs (slot_free_pending i d) m =
      (if m \<in> set (parked_msgs (slot_of d i)) then release_reply (slot_of d i) m (d_msgs d m) else d_msgs d m)"
    unfolding eq slot_free_steps_msgs three(4) t
    by (auto simp: parked_msgs_def release_reply_def split: if_splits)
qed

text \<open>
  C4. Releasing a slot: \<open>tn_slot_free\<close> leaves the slot unused, without control blocks,
  queued data or parked requests, touches no other slot, and answers exactly the requests
  that were parked on it, once each and in a fixed order: with \<open>EBADF\<close>, or, for a send that
  had already queued bytes, with that count.
\<close>

theorem slot_free_complete:
  fixes E :: env
  assumes "i < TN_MAX_GLOBAL_SOCKETS" "length (d_sockets d) = TN_MAX_GLOBAL_SOCKETS"
    and "s_in_use (slot_of d i)" "distinct (parked_msgs (slot_of d i))"
  defines "d' \<equiv> tn_slot_free E i d"
  shows "\<not> s_in_use (slot_of d' i) \<and> s_ref_count (slot_of d' i) = 0 \<and> \<not> s_is_parked (slot_of d' i) \<and>
    s_udp_pcb (slot_of d' i) = NULL \<and> s_tcp_pcb (slot_of d' i) = NULL \<and> s_raw_pcb (slot_of d' i) = NULL \<and>
    s_rx (slot_of d' i) = [] \<and> s_accept (slot_of d' i) = [] \<and> parked_msgs (slot_of d' i) = [] \<and>
    (\<forall>j. j \<noteq> i \<longrightarrow> slot_of d' j = slot_of d j) \<and>
    replied d' = replied d @ parked_msgs (slot_of d i) \<and>
    (\<forall>m. d_msgs d' m = (if m \<in> set (parked_msgs (slot_of d i))
                        then release_reply (slot_of d i) m (d_msgs d m) else d_msgs d m))"
proof -
  let ?d1 = "slot_free_pcbs E i d"
  let ?d2 = "tn_accept_queue_drain E i (tn_rx_queue_drain E i ?d1)"
  have i: "i < length (d_sockets d)" using assms(1,2) by simp
  have len: "length (d_sockets ?d1) = length (d_sockets d)" "length (d_sockets ?d2) = length (d_sockets d)"
    by (simp_all add: only_slot_length [OF slot_free_pcbs_only] only_slot_length [OF drains_only])
  have s2: "slot_of ?d2 i = (slot_of d i)\<lparr>s_udp_pcb := NULL, s_tcp_pcb := NULL, s_raw_pcb := NULL,
      s_rx := [], s_rx_count := 0, s_accept := [], s_accept_count := 0\<rparr>"
    using drains_slot [of i ?d1 E] i len by (simp add: slot_free_pcbs_sockets)
  have parked: "parked_msgs (slot_of ?d2 i) = parked_msgs (slot_of d i)"
    "release_reply (slot_of ?d2 i) = release_reply (slot_of d i)"
    by (simp_all add: s2 parked_msgs_def release_reply_def fun_eq_iff)
  have d': "d' = upd_slot i (\<lambda>s. s\<lparr>s_rx_count := 0, s_ref_count := 0, s_park_id := 0,
      s_is_parked := False, s_in_use := False, s_owner_base := NULL, s_owner_task := NULL\<rparr>)
      (slot_free_pending i ?d2)"
    using assms(1,3) by (simp add: d'_def tn_slot_free_def Let_def)
  have ip: "i < length (d_sockets ?d2)" "i < length (d_sockets (slot_free_pending i ?d2))"
    using i len only_slot_length [OF slot_free_pending_only, of i ?d2] by simp_all
  note pend = slot_free_pending_spec [OF ip(1)]
  have "s_udp_pcb (slot_of d' i) = NULL \<and> s_tcp_pcb (slot_of d' i) = NULL \<and> s_raw_pcb (slot_of d' i) = NULL \<and>
      s_rx (slot_of d' i) = [] \<and> s_accept (slot_of d' i) = [] \<and> parked_msgs (slot_of d' i) = []"
    using ip pend(1) by (auto simp: d' s2 parked_msgs_def)
  moreover have "\<not> s_in_use (slot_of d' i) \<and> s_ref_count (slot_of d' i) = 0 \<and> \<not> s_is_parked (slot_of d' i)"
    using ip by (simp add: d')
  moreover have "replied d' = replied d @ parked_msgs (slot_of d i)"
    using pend(2) by (simp add: d' parked) (simp add: tn_accept_queue_drain_def)
  moreover have "d_msgs d' m = (if m \<in> set (parked_msgs (slot_of d i))
      then release_reply (slot_of d i) m (d_msgs d m) else d_msgs d m)" for m
    using pend(3) assms(4) by (simp add: d' parked)
  moreover have "slot_of d' j = slot_of d j" if "j \<noteq> i" for j
    using only_slot_other [OF tn_slot_free_only that] by (simp add: d'_def)
  ultimately show ?thesis by blast
qed

definition busy_daemon :: TnDaemon where
  "busy_daemon = upd_slot 3 (\<lambda>_. (tn_init_socket_slot 0x100 0x500 AF_INET SOCK_STREAM 0)
     \<lparr>s_tcp_state := TCP_ESTABLISHED, s_tcp_pcb := 0x7000, s_pending_recv_msg := 0x20,
      s_recv_deadline_tick := 9, s_pending_send_msg := 0x24, s_send_done := 7\<rparr>) daemon0"

lemma busy_daemon_slot:
  "length (d_sockets busy_daemon) = 64" "d_fx busy_daemon = []" "d_msgs busy_daemon = (\<lambda>_. msg0)"
  "d_mainloop_ticks busy_daemon = 0"
  "slot_of busy_daemon 3 = (tn_init_socket_slot 0x100 0x500 AF_INET SOCK_STREAM 0)
     \<lparr>s_tcp_state := TCP_ESTABLISHED, s_tcp_pcb := 0x7000, s_pending_recv_msg := 0x20,
      s_recv_deadline_tick := 9, s_pending_send_msg := 0x24, s_send_done := 7\<rparr>"
  by (simp_all add: busy_daemon_def)

theorem slot_free_complete_witness:
  "let d' = tn_slot_free env0 3 busy_daemon in
     \<not> s_in_use (slot_of d' 3) \<and> replied d' = [0x20, 0x24] \<and>
     im_err_no (d_msgs d' 0x20) = EBADF \<and> im_result (d_msgs d' 0x24) = 7"
proof -
  have "parked_msgs (slot_of busy_daemon 3) = [0x20, 0x24]"
    "s_in_use (slot_of busy_daemon 3)" "s_pending_send_msg (slot_of busy_daemon 3) = 0x24"
    "s_send_done (slot_of busy_daemon 3) = 7"
    by (simp_all add: busy_daemon_slot parked_msgs_def tn_init_socket_slot_def)
  then show ?thesis
    using slot_free_complete [of 3 busy_daemon env0]
    by (simp add: Let_def busy_daemon_slot(1,2,3) TN_MAX_GLOBAL_SOCKETS_def release_reply_def)
qed

text \<open>
  Releasing a listening socket: the listening pcb, which is lwIP's smaller
  \<open>tcp_pcb_listen\<close>, sees only \<open>tcp_arg\<close>, \<open>tcp_accept\<close> and \<open>tcp_close\<close>, never a call that
  writes the fields it does not have.
\<close>

theorem slot_free_listener_calls:
  assumes "i < TN_MAX_GLOBAL_SOCKETS" "length (d_sockets d) = TN_MAX_GLOBAL_SOCKETS"
    and "s_in_use (slot_of d i)" "s_tcp_state (slot_of d i) = TCP_LISTENING"
    and "s_tcp_pcb (slot_of d i) = p" "p \<noteq> NULL" "p \<notin> ae_new_pcb ` set (s_accept (slot_of d i))"
  shows "tcp_trace p (tn_slot_free E i d) =
    tcp_trace p d @ [TcpArg p ArgNull, TcpAccept p CbNull, TcpClose p]"
proof -
  let ?d0 = "free_udp E i (if d_slot_free_hook d then tn_mcast_leave_all E i d else d)"
  have i: "i < length (d_sockets d)" using assms(1,2) by simp
  have s0: "s_tcp_pcb (slot_of ?d0 i) = p" "s_tcp_state (slot_of ?d0 i) = TCP_LISTENING"
    using i assms(4,5) by (simp_all add: free_udp_sockets)
  have t0: "tcp_trace p ?d0 = tcp_trace p d" by (simp add: free_udp_def)
  have "tcp_trace p (slot_free_tcp E i ?d0) =
      tcp_trace p d @ [TcpArg p ArgNull, TcpAccept p CbNull, TcpClose p]"
    using s0 t0 assms(6) by (simp add: slot_free_tcp_def Let_def)
  then have pcbs: "tcp_trace p (slot_free_pcbs E i d) =
      tcp_trace p d @ [TcpArg p ArgNull, TcpAccept p CbNull, TcpClose p]"
    by (simp add: slot_free_pcbs_alt free_raw_def)
  have acc: "s_accept (slot_of (tn_rx_queue_drain E i (slot_free_pcbs E i d)) i) = s_accept (slot_of d i)"
    using i by (simp add: tn_rx_queue_drain_def sockets_upd_slot slot_free_pcbs_sockets rx_clear_slot_def)
  have pend: "tcp_trace p (slot_free_pending i d') = tcp_trace p d'" for d'
    by (simp add: slot_free_pending_def slot_free_recv_def slot_free_accept_def slot_free_connect_def
        tn_slot_reply_recv_def tn_slot_reply_send_def Let_def)
  show ?thesis
    using assms(1,3,7) pcbs
    by (simp add: tn_slot_free_def Let_def pend tn_accept_queue_drain_def free_entries_trace acc)
qed

theorem slot_free_listener_calls_witness:
  "tcp_trace 0x7000 (tn_slot_free env0 5 (upd_slot 5 (\<lambda>_. (tn_init_socket_slot 0x100 0x500 AF_INET SOCK_STREAM 0)
     \<lparr>s_tcp_state := TCP_LISTENING, s_tcp_pcb := 0x7000\<rparr>) daemon0)) =
   [TcpArg 0x7000 ArgNull, TcpAccept 0x7000 CbNull, TcpClose 0x7000]"
proof -
  let ?d = "upd_slot 5 (\<lambda>_. (tn_init_socket_slot 0x100 0x500 AF_INET SOCK_STREAM 0)
     \<lparr>s_tcp_state := TCP_LISTENING, s_tcp_pcb := 0x7000\<rparr>) daemon0"
  have "slot_of ?d 5 = (tn_init_socket_slot 0x100 0x500 AF_INET SOCK_STREAM 0)
     \<lparr>s_tcp_state := TCP_LISTENING, s_tcp_pcb := 0x7000\<rparr>" "length (d_sockets ?d) = 64"
    by simp_all
  then show ?thesis
    using slot_free_listener_calls [of 5 ?d "0x7000" env0]
    by (simp add: TN_MAX_GLOBAL_SOCKETS_def tn_init_socket_slot_def)
qed

end
