(* ===== verification/Timeouts.thy ===== *)
theory Timeouts
  imports Slot_Props
begin

text \<open>
  Deadlines of parked receives and sends (task/slot_table.c): what one pass of
  \<open>tn_slot_check_recv_timeouts\<close> answers, and that a deadline computed when a request is
  parked expires after the requested time and not before.
\<close>

section \<open>One pass over the table\<close>

definition send_expired :: "u32 \<Rightarrow> TnSocketSlot \<Rightarrow> bool" where
  "send_expired now s = (s_in_use s \<and> s_pending_send_msg s \<noteq> NULL \<and> s_send_deadline_tick s \<noteq> 0 \<and>
     deadline_passed now (s_send_deadline_tick s))"

definition recv_expired :: "u32 \<Rightarrow> TnSocketSlot \<Rightarrow> bool" where
  "recv_expired now s = (s_in_use s \<and> s_pending_recv_msg s \<noteq> NULL \<and> s_recv_deadline_tick s \<noteq> 0 \<and>
     deadline_passed now (s_recv_deadline_tick s))"

definition expired_msgs :: "u32 \<Rightarrow> TnSocketSlot \<Rightarrow> ptr list" where
  "expired_msgs now s = (if send_expired now s then [s_pending_send_msg s] else []) @
     (if recv_expired now s then [s_pending_recv_msg s] else [])"

definition after_send_timeout :: "u32 \<Rightarrow> TnSocketSlot \<Rightarrow> TnSocketSlot" where
  "after_send_timeout now s =
     (if send_expired now s
      then s\<lparr>s_pending_send_msg := NULL, s_send_deadline_tick := 0, s_send_done := 0,
             s_send_iov := NULL, s_send_iovcnt := 0\<rparr> else s)"

definition after_timeouts :: "u32 \<Rightarrow> TnSocketSlot \<Rightarrow> TnSocketSlot" where
  "after_timeouts now s =
     (let s1 = after_send_timeout now s
      in if recv_expired now s then s1\<lparr>s_pending_recv_msg := NULL, s_recv_deadline_tick := 0\<rparr> else s1)"

lemma after_send_timeout_recv [simp]:
  "s_pending_recv_msg (after_send_timeout now s) = s_pending_recv_msg s"
  "recv_expired now (after_send_timeout now s) = recv_expired now s"
  by (simp_all add: after_send_timeout_def recv_expired_def)

lemma slot_check_timeouts_step:
  assumes i: "i < length (d_sockets d)"
  shows "d_sockets (slot_check_timeouts i d) =
      (d_sockets d)[i := after_timeouts (d_mainloop_ticks d) (slot_of d i)]"
    "replied (slot_check_timeouts i d) = replied d @ expired_msgs (d_mainloop_ticks d) (slot_of d i)"
proof -
  let ?now = "d_mainloop_ticks d"
  define d1 where "d1 = (if send_expired ?now (slot_of d i) then tn_slot_reply_send i EWOULDBLOCK True d else d)"
  have d1: "d_sockets d1 = (d_sockets d)[i := after_send_timeout ?now (slot_of d i)]"
    "replied d1 = replied d @ (if send_expired ?now (slot_of d i) then [s_pending_send_msg (slot_of d i)] else [])"
    "d_mainloop_ticks d1 = ?now"
    by (auto simp: d1_def after_send_timeout_def tn_slot_reply_send_def Let_def sockets_upd_slot send_expired_def)
  have s1: "slot_of d1 i = after_send_timeout ?now (slot_of d i)" using i by (simp add: d1)
  have step: "slot_check_timeouts i d =
      (if recv_expired ?now (slot_of d1 i) then tn_slot_reply_recv i EWOULDBLOCK True d1 else d1)"
    using d1(3) by (simp add: slot_check_timeouts_def Let_def d1_def recv_expired_def send_expired_def)
  show "d_sockets (slot_check_timeouts i d) = (d_sockets d)[i := after_timeouts ?now (slot_of d i)]"
    using i by (simp add: step s1 tn_slot_reply_recv_def sockets_upd_slot d1 after_timeouts_def Let_def)
  show "replied (slot_check_timeouts i d) = replied d @ expired_msgs ?now (slot_of d i)"
    by (simp add: step s1 tn_slot_reply_recv_def d1(2) expired_msgs_def Let_def)
qed

lemma check_timeouts_prefix:
  assumes "k \<le> length (d_sockets d)"
  shows "d_sockets (fold slot_check_timeouts [0..<k] d) =
      map (after_timeouts (d_mainloop_ticks d)) (take k (d_sockets d)) @ drop k (d_sockets d) \<and>
    replied (fold slot_check_timeouts [0..<k] d) =
      replied d @ concat (map (expired_msgs (d_mainloop_ticks d)) (take k (d_sockets d)))"
  using assms
proof (induction k)
  case (Suc k)
  let ?f = "fold slot_check_timeouts [0..<k] d"
  have k: "k < length (d_sockets d)" using Suc.prems by simp
  have IH: "d_sockets ?f = map (after_timeouts (d_mainloop_ticks d)) (take k (d_sockets d)) @ drop k (d_sockets d)"
    "replied ?f = replied d @ concat (map (expired_msgs (d_mainloop_ticks d)) (take k (d_sockets d)))"
    using Suc by simp_all
  then have kf: "k < length (d_sockets ?f)" "slot_of ?f k = slot_of d k"
    using k by (simp_all add: nth_append)
  have ticks: "d_mainloop_ticks ?f = d_mainloop_ticks d" by simp
  have "fold slot_check_timeouts [0..<Suc k] d = slot_check_timeouts k ?f" by simp
  moreover have "drop k (d_sockets d) = slot_of d k # drop (Suc k) (d_sockets d)"
    using k by (simp add: Cons_nth_drop_Suc)
  ultimately show ?case
    using slot_check_timeouts_step [OF kf(1)] k
    by (simp add: ticks kf(2) IH take_Suc_conv_app_nth list_update_append nth_append)
qed simp


section \<open>Deadline arithmetic\<close>

lemma sint_word_of_int_small: "- (2 ^ 31) \<le> x \<Longrightarrow> x < 2 ^ 31 \<Longrightarrow> sint (word_of_int x :: u32) = x"
  by (simp add: signed_of_int signed_take_bit_int_eq_self)

lemma sint_diff_nonneg:
  assumes "k < 2 ^ 31" "n < 2 ^ 31"
  shows "0 \<le> sint ((t0 + word_of_nat k) - (t0 + word_of_nat n) :: u32) \<longleftrightarrow> n \<le> k"
proof (cases "n \<le> k")
  case True
  then have "(t0 + word_of_nat k) - (t0 + word_of_nat n) = (word_of_nat (k - n) :: u32)"
    by (simp add: of_nat_diff)
  moreover have "sint (word_of_nat (k - n) :: u32) = int (k - n)"
    using assms by (simp add: signed_of_nat signed_take_bit_int_eq_self)
  ultimately show ?thesis using True by simp
next
  case False
  then have "(t0 + word_of_nat k) - (t0 + word_of_nat n) = (- word_of_nat (n - k) :: u32)"
    by (simp add: of_nat_diff)
  also have "\<dots> = word_of_int (- int (n - k))" by simp
  finally have "sint ((t0 + word_of_nat k) - (t0 + word_of_nat n) :: u32) = - int (n - k)"
    using assms sint_word_of_int_small [of "- int (n - k)"] by simp
  then show ?thesis using False by simp
qed

text \<open>The requested timeout in milliseconds and the number of ticks, without wrap-around.\<close>

lemma unat_timeo_ticks:
  assumes "unat secs \<le> 4294966" "unat micro \<le> 999999"
  shows "unat (timeo_ticks secs micro) =
    max 1 ((unat secs * 1000 + (unat micro + 999) div 1000 + 99) div 100)"
proof -
  have a: "unat (secs * 1000) = unat secs * 1000"
    using assms(1) by (simp add: unat_word_ariths)
  have b: "unat ((micro + 999) div 1000) = (unat micro + 999) div 1000"
    using assms(2) by (simp add: unat_div_distrib unat_word_ariths)
  have c: "(unat micro + 999) div 1000 \<le> 1000" using assms(2) by simp
  have ms: "unat (secs * 1000 + (micro + 999) div 1000) = unat secs * 1000 + (unat micro + 999) div 1000"
    unfolding unat_word_ariths(1) a b using assms(1) c by simp
  have "unat ((secs * 1000 + (micro + 999) div 1000 + 99) div 100) =
      (unat secs * 1000 + (unat micro + 999) div 1000 + 99) div 100"
    unfolding unat_div_distrib unat_word_ariths(1) [of _ 99] ms using assms(1) c by simp
  then show ?thesis
    unfolding timeo_ticks_def Let_def by (simp add: unat_eq_zero [symmetric])
qed

text \<open>
  Receive timeout: a receive parked at tick \<open>t0\<close> on a socket with an \<open>SO_RCVTIMEO\<close> of
  \<open>secs\<close> seconds and \<open>micro\<close> microseconds is unexpired for every tick at which less than
  that time has passed and expired from the first tick on at which it has, across the
  wrap-around of the tick counter, unless the computed deadline is the tick 0.
\<close>

theorem park_recv_deadline:
  assumes "i < length (d_sockets d)" "s_in_use (slot_of d i)" "s_pending_recv_msg (slot_of d i) = NULL"
    and "opt_rcvtimeo_secs (s_opts (slot_of d i)) = secs" "opt_rcvtimeo_micro (s_opts (slot_of d i)) = micro"
    and "unat secs \<le> 4294966" "unat micro \<le> 999999" "secs \<noteq> 0 \<or> micro \<noteq> 0"
    and "imsg \<noteq> NULL" "d_mainloop_ticks d + timeo_ticks secs micro \<noteq> 0" "k < 2 ^ 31"
  defines "s \<equiv> slot_of (fst (tn_slot_park_recv i imsg d)) i"
  shows "s_pending_recv_msg s = imsg \<and>
    (recv_expired (d_mainloop_ticks d + word_of_nat k) s \<longleftrightarrow>
       unat secs * 1000 + (unat micro + 999) div 1000 \<le> k * 100)"
proof -
  let ?t0 = "d_mainloop_ticks d" and ?n = "unat (timeo_ticks secs micro)"
  let ?ms = "unat secs * 1000 + (unat micro + 999) div 1000"
  have n: "?n = max 1 ((?ms + 99) div 100)" by (rule unat_timeo_ticks [OF assms(6,7)])
  have small: "?n < 2 ^ 31" unfolding n using assms(6,7) by simp
  have "unat secs > 0 \<or> unat micro > 0" using assms(8) by (auto simp: unat_gt_0)
  then have pos: "?ms > 0" by (auto simp: div_greater_zero_iff)
  have word: "timeo_ticks secs micro = word_of_nat ?n" by simp
  have dl: "s_recv_deadline_tick s = ?t0 + word_of_nat ?n" "s_pending_recv_msg s = imsg" "s_in_use s"
    using assms(1-5,8) by (auto simp: s_def tn_slot_park_recv_def Let_def word_neq_0_conv [symmetric])
  have "recv_expired (?t0 + word_of_nat k) s \<longleftrightarrow> ?n \<le> k"
    using dl assms(9,10) sint_diff_nonneg [OF assms(11) small, of ?t0]
    by (simp add: recv_expired_def deadline_passed_def)
  also have "\<dots> \<longleftrightarrow> ?ms \<le> k * 100" unfolding n using pos by auto
  finally show ?thesis using dl(2) by simp
qed

definition timed_daemon :: TnDaemon where
  "timed_daemon = (upd_slot 3 (\<lambda>_. (tn_init_socket_slot 0x100 0x500 AF_INET SOCK_STREAM 0)
     \<lparr>s_tcp_state := TCP_ESTABLISHED,
      s_opts := null_opts\<lparr>opt_rcvtimeo_secs := 2, opt_rcvtimeo_micro := 500000\<rparr>\<rparr>) daemon0)
     \<lparr>d_mainloop_ticks := 0xFFFFFFF0\<rparr>"

theorem park_recv_deadline_witness:
  "let s = slot_of (fst (tn_slot_park_recv 3 0x20 timed_daemon)) 3 in
   recv_expired (0xFFFFFFF0 + word_of_nat 25) s \<and> \<not> recv_expired (0xFFFFFFF0 + word_of_nat 24) s"
proof -
  have s: "length (d_sockets timed_daemon) = 64" "d_mainloop_ticks timed_daemon = 0xFFFFFFF0"
    "slot_of timed_daemon 3 = (tn_init_socket_slot 0x100 0x500 AF_INET SOCK_STREAM 0)
       \<lparr>s_tcp_state := TCP_ESTABLISHED,
        s_opts := null_opts\<lparr>opt_rcvtimeo_secs := 2, opt_rcvtimeo_micro := 500000\<rparr>\<rparr>"
    by (simp_all add: timed_daemon_def sockets_upd_slot)
  have "timeo_ticks 2 500000 = 25" by code_simp
  then show ?thesis
    using park_recv_deadline [of 3 timed_daemon 2 500000 "0x20" 25]
      park_recv_deadline [of 3 timed_daemon 2 500000 "0x20" 24]
    by (simp add: s tn_init_socket_slot_def Let_def)
qed

text \<open>
  The tick 0 doubles as \<open>no deadline\<close>: a receive parked exactly \<open>timeo_ticks\<close> before the
  tick counter wraps to 0 gets the deadline 0 and never expires, whatever its timeout.
\<close>

theorem park_recv_deadline_lost:
  assumes "i < length (d_sockets d)" "s_pending_recv_msg (slot_of d i) = NULL"
    and "d_mainloop_ticks d + timeo_ticks (opt_rcvtimeo_secs (s_opts (slot_of d i)))
           (opt_rcvtimeo_micro (s_opts (slot_of d i))) = 0"
  shows "\<not> recv_expired now (slot_of (fst (tn_slot_park_recv i imsg d)) i)"
  using assms by (simp add: tn_slot_park_recv_def Let_def recv_expired_def)

theorem park_recv_deadline_lost_witness:
  "opt_rcvtimeo_secs (s_opts (slot_of (timed_daemon\<lparr>d_mainloop_ticks := -25\<rparr>) 3)) = 2 \<and>
   \<not> recv_expired 1000 (slot_of (fst (tn_slot_park_recv 3 0x20 (timed_daemon\<lparr>d_mainloop_ticks := -25\<rparr>))) 3)"
proof -
  let ?d = "timed_daemon\<lparr>d_mainloop_ticks := -25\<rparr>"
  have "slot_of ?d 3 = (tn_init_socket_slot 0x100 0x500 AF_INET SOCK_STREAM 0)
       \<lparr>s_tcp_state := TCP_ESTABLISHED,
        s_opts := null_opts\<lparr>opt_rcvtimeo_secs := 2, opt_rcvtimeo_micro := 500000\<rparr>\<rparr>"
    "length (d_sockets ?d) = 64"
    by (simp_all add: timed_daemon_def sockets_upd_slot)
  moreover have "timeo_ticks 2 500000 = 25" by code_simp
  ultimately show ?thesis
    using park_recv_deadline_lost [of 3 ?d 1000 "0x20"] by (simp add: tn_init_socket_slot_def)
qed

end
