(* ===== verification/Rx_Queue.thy ===== *)
theory Rx_Queue
  imports Slot_Props
begin

text \<open>
  The receive queue at the level of its pointers (task/slot_table.c): a singly linked list of
  packet nodes with head and tail, and the LIFO freelist the nodes come from and return to.
  The linked structure is shown to implement a first-in first-out queue, and to simulate the
  list that the slot model of theory \<open>Slot_Table\<close> uses for it.
\<close>

section \<open>Nodes, queue and freelist\<close>

record rxnode =
  nd_next :: ptr
  nd_pkt :: TnRxPacket

record rxheap =
  hp_node :: "ptr \<Rightarrow> rxnode"
  hp_head :: ptr
  hp_tail :: ptr
  hp_count :: nat
  hp_free :: ptr
  hp_free_count :: nat

definition zero_pkt :: TnRxPacket where
  "zero_pkt = \<lparr>pk_p = [], pk_offset = 0, pk_src_ip = 0, pk_src_port = 0\<rparr>"

definition set_node :: "ptr \<Rightarrow> rxnode \<Rightarrow> rxheap \<Rightarrow> rxheap" where
  "set_node a n h = h\<lparr>hp_node := (hp_node h)(a := n)\<rparr>"

text \<open>\<open>fresh\<close> is what \<open>AllocVec\<close> would return (\<open>NULL\<close> when out of memory).\<close>

definition pl_rxpkt_get :: "ptr \<Rightarrow> rxheap \<Rightarrow> rxheap \<times> ptr" where
  "pl_rxpkt_get fresh h =
     (if hp_free h \<noteq> NULL then
        let pkt = hp_free h;
            h1 = h\<lparr>hp_free := nd_next (hp_node h pkt), hp_free_count := hp_free_count h - 1\<rparr>
        in (set_node pkt \<lparr>nd_next = NULL, nd_pkt = zero_pkt\<rparr> h1, pkt)
      else if fresh = NULL then (h, NULL)
      else (set_node fresh \<lparr>nd_next = NULL, nd_pkt = zero_pkt\<rparr> h, fresh))"

definition pl_rxpkt_put :: "ptr \<Rightarrow> rxheap \<Rightarrow> rxheap" where
  "pl_rxpkt_put pkt h =
     (if pkt = NULL then h
      else if hp_free_count h < TN_RXFREELIST_MAX then
        (set_node pkt ((hp_node h pkt)\<lparr>nd_next := hp_free h\<rparr>) h)
          \<lparr>hp_free := pkt, hp_free_count := hp_free_count h + 1\<rparr>
      else h)"

definition pl_push :: "ptr \<Rightarrow> bool \<Rightarrow> TnRxPacket \<Rightarrow> rxheap \<Rightarrow> rxheap \<times> int" where
  "pl_push fresh capped pk h =
     (if capped \<and> hp_count h \<ge> TN_MAX_RX_QUEUE_PER_SOCKET then (h, -1)
      else let (h1, pkt) = pl_rxpkt_get fresh h in
        if pkt = NULL then (h1, -1)
        else let h2 = set_node pkt \<lparr>nd_next = NULL, nd_pkt = pk\<rparr> h1;
                 h3 = (if hp_tail h2 \<noteq> NULL
                       then set_node (hp_tail h2) ((hp_node h2 (hp_tail h2))\<lparr>nd_next := pkt\<rparr>) h2
                       else h2\<lparr>hp_head := pkt\<rparr>)
             in (h3\<lparr>hp_tail := pkt, hp_count := hp_count h3 + 1\<rparr>, 0))"

definition pl_pop :: "rxheap \<Rightarrow> rxheap \<times> ptr" where
  "pl_pop h =
     (if hp_head h = NULL then (h, NULL)
      else let pkt = hp_head h;
               h1 = h\<lparr>hp_head := nd_next (hp_node h pkt)\<rparr>;
               h2 = (if hp_head h1 = NULL then h1\<lparr>hp_tail := NULL\<rparr> else h1);
               h3 = set_node pkt ((hp_node h2 pkt)\<lparr>nd_next := NULL\<rparr>) h2
           in (if hp_count h3 > 0 then h3\<lparr>hp_count := hp_count h3 - 1\<rparr> else h3, pkt))"

text \<open>The loop of \<open>tn_rx_queue_drain\<close>; \<open>None\<close> would be a loop that does not end.\<close>

partial_function (option) pl_drain_loop :: "rxheap \<Rightarrow> rxheap option" where
  "pl_drain_loop h =
     (if hp_head h = NULL then Some h
      else pl_drain_loop (pl_rxpkt_put (hp_head h) (h\<lparr>hp_head := nd_next (hp_node h (hp_head h))\<rparr>)))"

definition pl_drain :: "rxheap \<Rightarrow> rxheap option" where
  "pl_drain h = map_option (\<lambda>h1. h1\<lparr>hp_tail := NULL, hp_count := 0\<rparr>) (pl_drain_loop h)"

section \<open>The representation invariant\<close>

fun chain :: "(ptr \<Rightarrow> rxnode) \<Rightarrow> ptr \<Rightarrow> ptr list \<Rightarrow> bool" where
  "chain n p [] = (p = NULL)"
| "chain n p (a # as) = (p = a \<and> a \<noteq> NULL \<and> chain n (nd_next (n a)) as)"

lemma chain_upd [simp]: "a \<notin> set as \<Longrightarrow> chain (n(a := x)) p as = chain n p as"
  by (induction as arbitrary: p) auto

lemma chain_nonnull: "chain n p as \<Longrightarrow> NULL \<notin> set as"
  by (induction as arbitrary: p) auto

lemma chain_Nil_iff: "chain n p as \<Longrightarrow> p = NULL \<longleftrightarrow> as = []"
  by (cases as) auto

lemma chain_append_node:
  "chain n p as \<Longrightarrow> as \<noteq> [] \<Longrightarrow> distinct as \<Longrightarrow> b \<noteq> NULL \<Longrightarrow> b \<notin> set as \<Longrightarrow> nd_next (n b) = NULL \<Longrightarrow>
   chain (n(last as := (n (last as))\<lparr>nd_next := b\<rparr>)) p (as @ [b])"
proof (induction as arbitrary: p)
  case (Cons a as)
  then show ?case
    by (cases "as = []") auto
qed simp

definition rx_inv :: "rxheap \<Rightarrow> ptr list \<Rightarrow> ptr list \<Rightarrow> bool" where
  "rx_inv h qs fs = (chain (hp_node h) (hp_head h) qs \<and> chain (hp_node h) (hp_free h) fs \<and>
     distinct (qs @ fs) \<and> hp_tail h = (if qs = [] then NULL else last qs) \<and>
     hp_count h = length qs \<and> hp_free_count h = length fs \<and> length fs \<le> TN_RXFREELIST_MAX)"

definition pkts_of :: "rxheap \<Rightarrow> ptr list \<Rightarrow> TnRxPacket list" where
  "pkts_of h qs = map (\<lambda>a. nd_pkt (hp_node h a)) qs"

lemma set_node_simps [simp]:
  "hp_head (set_node a x h) = hp_head h" "hp_tail (set_node a x h) = hp_tail h"
  "hp_count (set_node a x h) = hp_count h" "hp_free (set_node a x h) = hp_free h"
  "hp_free_count (set_node a x h) = hp_free_count h"
  "hp_node (set_node a x h) = (hp_node h)(a := x)"
  by (simp_all add: set_node_def)

lemma pl_get_inv:
  assumes "rx_inv h qs fs" "pl_rxpkt_get fresh h = (h1, pkt)" "pkt \<noteq> NULL"
    and fresh: "fresh \<notin> set (qs @ fs)"
  shows "rx_inv h1 qs (tl fs) \<and> pkt \<notin> set qs \<and> pkt \<notin> set (tl fs) \<and> pkts_of h1 qs = pkts_of h qs"
proof (cases fs)
  case Nil
  then have "hp_free h = NULL" using assms(1) by (simp add: rx_inv_def)
  then have "h1 = set_node fresh \<lparr>nd_next = NULL, nd_pkt = zero_pkt\<rparr> h" "pkt = fresh"
    using assms(2,3) by (auto simp: pl_rxpkt_get_def split: if_splits)
  then show ?thesis
    using assms(1) fresh Nil by (auto simp: rx_inv_def pkts_of_def)
next
  case (Cons f fs')
  then have f: "hp_free h = f" "f \<noteq> NULL" "f \<notin> set qs" "f \<notin> set fs'"
    using assms(1) by (auto simp: rx_inv_def)
  then have "h1 = set_node f \<lparr>nd_next = NULL, nd_pkt = zero_pkt\<rparr>
      (h\<lparr>hp_free := nd_next (hp_node h f), hp_free_count := hp_free_count h - 1\<rparr>)" "pkt = f"
    using assms(2) by (auto simp: pl_rxpkt_get_def Let_def)
  then show ?thesis
    using assms(1) f Cons by (auto simp: rx_inv_def pkts_of_def)
qed

lemma pl_push_inv:
  assumes inv: "rx_inv h qs fs" and push: "pl_push fresh capped pk h = (h', 0)"
    and fresh: "fresh \<notin> set (qs @ fs)"
  shows "\<exists>a. a \<notin> set qs \<and> rx_inv h' (qs @ [a]) (tl fs) \<and> pkts_of h' (qs @ [a]) = pkts_of h qs @ [pk]"
proof -
  obtain h1 a where get: "pl_rxpkt_get fresh h = (h1, a)" by force
  have a: "a \<noteq> NULL" using push by (auto simp: pl_push_def get split: if_splits)
  have g: "rx_inv h1 qs (tl fs)" "a \<notin> set qs" "a \<notin> set (tl fs)" "pkts_of h1 qs = pkts_of h qs"
    using pl_get_inv [OF inv get a fresh] by auto
  let ?h2 = "set_node a \<lparr>nd_next = NULL, nd_pkt = pk\<rparr> h1"
  have i2: "rx_inv ?h2 qs (tl fs)" "pkts_of ?h2 qs = pkts_of h qs"
    using g by (auto simp: rx_inv_def pkts_of_def)
  show ?thesis
  proof (cases "qs = []")
    case True
    then have "h' = ?h2\<lparr>hp_head := a, hp_tail := a, hp_count := hp_count ?h2 + 1\<rparr>"
      using push a i2(1) by (auto simp: pl_push_def get rx_inv_def split: if_splits)
    then have "rx_inv h' [a] (tl fs) \<and> pkts_of h' [a] = [pk]"
      using True a i2(1) g by (auto simp: rx_inv_def pkts_of_def)
    then show ?thesis using True by (auto simp: pkts_of_def)
  next
    case False
    let ?t = "last qs"
    have t: "hp_tail ?h2 = ?t" "?t \<noteq> NULL" "?t \<in> set qs"
      using i2(1) False chain_nonnull by (auto simp: rx_inv_def) (metis chain_nonnull last_in_set)
    then have h': "h' = (set_node ?t ((hp_node ?h2 ?t)\<lparr>nd_next := a\<rparr>) ?h2)
        \<lparr>hp_tail := a, hp_count := hp_count ?h2 + 1\<rparr>"
      using push a by (auto simp: pl_push_def get split: if_splits)
    have "chain (hp_node h') (hp_head h') (qs @ [a])"
      using chain_append_node [of "hp_node ?h2" "hp_head ?h2" qs a] i2(1) False a g(2)
      by (auto simp: h' rx_inv_def)
    moreover have "?t \<notin> set (tl fs)" using i2(1) t(3) by (auto simp: rx_inv_def)
    ultimately have "rx_inv h' (qs @ [a]) (tl fs)"
      using i2(1) g(2,3) by (auto simp: rx_inv_def h')
    moreover have "pkts_of h' (qs @ [a]) = pkts_of h qs @ [pk]"
      using i2(2) g(2) by (auto simp: pkts_of_def h')
    ultimately show ?thesis using g(2) by blast
  qed
qed

lemma pl_push_fail:
  assumes inv: "rx_inv h qs fs" and push: "pl_push fresh capped pk h = (h', r)" "r \<noteq> 0"
  shows "h' = h \<and> r = -1 \<and> (capped \<and> hp_count h \<ge> TN_MAX_RX_QUEUE_PER_SOCKET \<or> fs = [] \<and> fresh = NULL)"
proof -
  have "hp_free h = NULL \<longleftrightarrow> fs = []" using inv chain_Nil_iff by (auto simp: rx_inv_def)
  then show ?thesis
    using push by (auto simp: pl_push_def pl_rxpkt_get_def Let_def split: if_splits)
qed

lemma pl_pop_inv:
  assumes inv: "rx_inv h (a # qs) fs"
  shows "\<exists>h'. pl_pop h = (h', a) \<and> rx_inv h' qs fs \<and> pkts_of h' qs = pkts_of h qs \<and>
    nd_pkt (hp_node h' a) = nd_pkt (hp_node h a)"
proof -
  have a: "hp_head h = a" "a \<noteq> NULL" "a \<notin> set qs" "a \<notin> set fs" "chain (hp_node h) (nd_next (hp_node h a)) qs"
    using inv by (auto simp: rx_inv_def)
  have emp: "nd_next (hp_node h a) = NULL \<longleftrightarrow> qs = []" using a(5) by (rule chain_Nil_iff)
  show ?thesis
    using inv a emp by (auto simp: pl_pop_def Let_def rx_inv_def pkts_of_def)
qed

lemma pl_put_inv:
  assumes "rx_inv h qs fs" "a \<noteq> NULL" "a \<notin> set (qs @ fs)"
  shows "rx_inv (pl_rxpkt_put a h) qs (if length fs < TN_RXFREELIST_MAX then a # fs else fs)"
  using assms by (auto simp: pl_rxpkt_put_def rx_inv_def)

text \<open>The queue without its tail pointer and counter, which the drain loop leaves stale.\<close>

definition rx_loop_inv :: "rxheap \<Rightarrow> ptr list \<Rightarrow> ptr list \<Rightarrow> bool" where
  "rx_loop_inv h qs fs = (chain (hp_node h) (hp_head h) qs \<and> chain (hp_node h) (hp_free h) fs \<and>
     distinct (qs @ fs) \<and> hp_free_count h = length fs \<and> length fs \<le> TN_RXFREELIST_MAX)"

lemma pl_drain_loop_returns:
  "rx_loop_inv h qs fs \<Longrightarrow>
   \<exists>h' fs'. pl_drain_loop h = Some h' \<and> rx_loop_inv h' [] fs' \<and>
     length fs' = min TN_RXFREELIST_MAX (length fs + length qs)"
proof (induction qs arbitrary: h fs)
  case Nil
  then have "pl_drain_loop h = Some h" by (simp add: pl_drain_loop.simps rx_loop_inv_def)
  moreover have "length fs = min TN_RXFREELIST_MAX (length fs + length [])"
    using Nil by (simp add: rx_loop_inv_def)
  ultimately show ?case using Nil by blast
next
  case (Cons a qs)
  let ?h = "pl_rxpkt_put (hp_head h) (h\<lparr>hp_head := nd_next (hp_node h (hp_head h))\<rparr>)"
  let ?fs = "if length fs < TN_RXFREELIST_MAX then a # fs else fs"
  have "pl_drain_loop h = pl_drain_loop ?h"
    using Cons.prems by (subst pl_drain_loop.simps) (auto simp: rx_loop_inv_def)
  moreover have "rx_loop_inv ?h qs ?fs"
    using Cons.prems by (auto simp: rx_loop_inv_def pl_rxpkt_put_def)
  ultimately show ?case
    using Cons.IH [of ?h ?fs] Cons.prems
    by (auto simp: rx_loop_inv_def min_def split: if_splits)
qed

lemma pl_drain_inv:
  assumes "rx_inv h qs fs"
  shows "\<exists>h' fs'. pl_drain h = Some h' \<and> rx_inv h' [] fs' \<and>
    length fs' = min TN_RXFREELIST_MAX (length fs + length qs)"
proof -
  have "rx_loop_inv h qs fs" using assms by (simp add: rx_inv_def rx_loop_inv_def)
  then obtain h1 fs' where "pl_drain_loop h = Some h1" "rx_loop_inv h1 [] fs'"
    "length fs' = min TN_RXFREELIST_MAX (length fs + length qs)"
    using pl_drain_loop_returns by blast
  then show ?thesis by (auto simp: pl_drain_def rx_loop_inv_def rx_inv_def)
qed

section \<open>Simulation of the list in the slot\<close>

definition rx_sim :: "rxheap \<Rightarrow> ptr list \<Rightarrow> ptr list \<Rightarrow> nat \<Rightarrow> TnDaemon \<Rightarrow> bool" where
  "rx_sim h qs fs i d = (rx_inv h qs fs \<and> pkts_of h qs = s_rx (slot_of d i) \<and>
     s_rx_count (slot_of d i) = length qs \<and> d_rxfree d = length fs)"

lemma free_pkts_rxfree:
  "d_rxfree d \<le> TN_RXFREELIST_MAX \<Longrightarrow>
   d_rxfree (free_pkts E pks d) = min TN_RXFREELIST_MAX (d_rxfree d + length pks)"
  by (induction pks arbitrary: d) (auto simp: tn_rxpkt_put_def min_def)

text \<open>
  C14. Receive queue, push: the pointer code appends a packet to the linked list exactly
  when the list model appends it, with the same result code, under the cap of 32 packets
  and with the freelist or \<open>AllocVec\<close> supplying the node; the links, tail pointer, counter
  and freelist stay consistent.
\<close>

theorem rx_queue_push_refines:
  assumes sim: "rx_sim h qs fs i d" and i: "i < length (d_sockets d)" "s_in_use (slot_of d i)"
    and fresh: "fresh \<notin> set (qs @ fs)" "fresh = NULL \<longleftrightarrow> snd (lwcall E AllocRxPkt d) = 0"
    and pl: "pl_push fresh capped \<lparr>pk_p = p, pk_offset = 0, pk_src_ip = a, pk_src_port = port\<rparr> h = (h', r)"
    and sl: "tn_rx_queue_push_ex E i (Some p) (Some a) port capped d = (d', r')"
  shows "r = r' \<and> (\<exists>qs' fs'. rx_sim h' qs' fs' i d')"
proof -
  have inv: "rx_inv h qs fs" and cnt: "s_rx_count (slot_of d i) = hp_count h" "hp_count h = length qs"
    and free: "d_rxfree d = length fs" using sim by (auto simp: rx_sim_def rx_inv_def)
  let ?full = "capped \<and> hp_count h \<ge> TN_MAX_RX_QUEUE_PER_SOCKET"
  have get: "fst (tn_rxpkt_get E d) = (if fs = [] then fst (lwcall E AllocRxPkt d) else d\<lparr>d_rxfree := length fs - 1\<rparr>)"
    "snd (tn_rxpkt_get E d) = (fs \<noteq> [] \<or> fresh \<noteq> NULL)"
    using free fresh(2) by (auto simp: tn_rxpkt_get_def Let_def case_prod_unfold)
  have sock: "d_sockets (fst (tn_rxpkt_get E d)) = d_sockets d" by simp
  have get_free: "d_rxfree (fst (tn_rxpkt_get E d)) = length fs - 1"
    using get(1) free by simp
  show ?thesis
  proof (cases "?full \<or> fs = [] \<and> fresh = NULL")
    case True
    have "r \<noteq> 0"
      using pl True inv chain_Nil_iff
      by (auto simp: pl_push_def pl_rxpkt_get_def rx_inv_def Let_def split: if_splits)
    then have "h' = h" "r = -1" using pl_push_fail [OF inv pl] by auto
    moreover have "r' = -1 \<and> d_sockets d' = d_sockets d \<and> d_rxfree d' = d_rxfree d"
      using sl True i(2) cnt get(2) sock get_free free
      by (simp add: tn_rx_queue_push_ex_def Let_def case_prod_unfold split: if_splits) auto
    ultimately show ?thesis using sim by (auto simp: rx_sim_def)
  next
    case False
    have r': "r' = 0" "d_rxfree d' = length (tl fs)"
      "slot_of d' i = (slot_of d i)\<lparr>s_rx := s_rx (slot_of d i) @
         [\<lparr>pk_p = p, pk_offset = 0, pk_src_ip = a, pk_src_port = port\<rparr>], s_rx_count := s_rx_count (slot_of d i) + 1\<rparr>"
      using sl False i cnt get(2) sock get_free
      by (auto simp: tn_rx_queue_push_ex_def Let_def case_prod_unfold sockets_upd_slot split: if_splits)
    have "r = 0" using pl_push_fail [OF inv pl] False by blast
    then obtain b where "rx_inv h' (qs @ [b]) (tl fs)"
      "pkts_of h' (qs @ [b]) = pkts_of h qs @ [\<lparr>pk_p = p, pk_offset = 0, pk_src_ip = a, pk_src_port = port\<rparr>]"
      using pl_push_inv [OF inv _ fresh(1)] pl by blast
    then have "rx_sim h' (qs @ [b]) (tl fs) i d'"
      using sim r' by (auto simp: rx_sim_def)
    then show ?thesis using r' \<open>r = 0\<close> by blast
  qed
qed

definition empty_heap :: rxheap where
  "empty_heap = \<lparr>hp_node = (\<lambda>_. \<lparr>nd_next = NULL, nd_pkt = zero_pkt\<rparr>), hp_head = NULL, hp_tail = NULL,
     hp_count = 0, hp_free = NULL, hp_free_count = 0\<rparr>"

definition open_daemon :: TnDaemon where
  "open_daemon = upd_slot 3 (\<lambda>_. tn_init_socket_slot 0x100 0x500 AF_INET SOCK_DGRAM 0) daemon0"

lemma open_daemon_slot:
  "length (d_sockets open_daemon) = 64" "d_rxfree open_daemon = 0" "d_fx open_daemon = []"
  "slot_of open_daemon 3 = tn_init_socket_slot 0x100 0x500 AF_INET SOCK_DGRAM 0"
  by (simp_all add: open_daemon_def) (simp add: daemon0_def)

lemma empty_sim: "rx_sim empty_heap [] [] 3 open_daemon"
  by (simp add: rx_sim_def rx_inv_def empty_heap_def pkts_of_def open_daemon_slot tn_init_socket_slot_def)

theorem rx_queue_push_refines_witness:
  "snd (pl_push 0x7000 True \<lparr>pk_p = [1, 2], pk_offset = 0, pk_src_ip = 5, pk_src_port = 6\<rparr> empty_heap) =
   snd (tn_rx_queue_push_ex env0 3 (Some [1, 2]) (Some 5) 6 True open_daemon)"
proof -
  have "s_in_use (slot_of open_daemon 3)" "snd (lwcall env0 AllocRxPkt open_daemon) = 0x7000"
    by (simp_all add: open_daemon_slot tn_init_socket_slot_def lwcall_def env0_def)
  moreover obtain h' r d' r' where
    "pl_push 0x7000 True \<lparr>pk_p = [1, 2], pk_offset = 0, pk_src_ip = 5, pk_src_port = 6\<rparr> empty_heap = (h', r)"
    "tn_rx_queue_push_ex env0 3 (Some [1, 2]) (Some 5) 6 True open_daemon = (d', r')" by fastforce
  ultimately show ?thesis
    using rx_queue_push_refines [OF empty_sim, of "0x7000" env0 True "[1, 2]" 5 6 h' r d' r'] open_daemon_slot(1)
    by simp
qed

text \<open>
  C15. Receive queue, pop and drain: popping the linked list yields the packet at the head
  of the list model and leaves both in correspondence; the drain loop ends, leaves the
  queue empty and returns the nodes to the freelist, which never exceeds 128 entries.
\<close>

theorem rx_queue_pop_drain_refines:
  assumes sim: "rx_sim h qs fs i d" and i: "i < length (d_sockets d)" "s_in_use (slot_of d i)"
  shows "(case tn_rx_queue_pop i d of
      (d', None) \<Rightarrow> d' = d \<and> pl_pop h = (h, NULL)
    | (d', Some pk) \<Rightarrow> (\<exists>h' a. pl_pop h = (h', a) \<and> a \<noteq> NULL \<and> nd_pkt (hp_node h' a) = pk \<and>
        rx_sim h' (tl qs) fs i d')) \<and>
    (\<exists>h' fs'. pl_drain h = Some h' \<and> rx_sim h' [] fs' i (tn_rx_queue_drain E i d) \<and>
       length fs' \<le> TN_RXFREELIST_MAX)"
proof -
  have inv: "rx_inv h qs fs" and pk: "pkts_of h qs = s_rx (slot_of d i)"
    and cnt: "s_rx_count (slot_of d i) = length qs" and free: "d_rxfree d = length fs"
    using sim by (auto simp: rx_sim_def)
  have lim: "length fs \<le> TN_RXFREELIST_MAX" using inv by (simp add: rx_inv_def)
  have len: "length (s_rx (slot_of d i)) = length qs" using pk by (metis length_map pkts_of_def)
  obtain h' fs' where dr: "pl_drain h = Some h'" "rx_inv h' [] fs'"
    "length fs' = min TN_RXFREELIST_MAX (length fs + length qs)"
    using pl_drain_inv [OF inv] by blast
  have "d_rxfree (tn_rx_queue_drain E i d) = length fs'"
    using free_pkts_rxfree [of d E "s_rx (slot_of d i)"] free lim len dr(3)
    by (simp add: tn_rx_queue_drain_def)
  then have "rx_sim h' [] fs' i (tn_rx_queue_drain E i d)"
    using dr(2) i(1)
    by (simp add: rx_sim_def pkts_of_def tn_rx_queue_drain_def sockets_upd_slot rx_clear_slot_def)
  moreover have "length fs' \<le> TN_RXFREELIST_MAX" using dr(2) by (simp add: rx_inv_def)
  moreover have "case tn_rx_queue_pop i d of
      (d', None) \<Rightarrow> d' = d \<and> pl_pop h = (h, NULL)
    | (d', Some pk) \<Rightarrow> (\<exists>h' a. pl_pop h = (h', a) \<and> a \<noteq> NULL \<and> nd_pkt (hp_node h' a) = pk \<and>
        rx_sim h' (tl qs) fs i d')"
  proof (cases qs)
    case Nil
    then have "hp_head h = NULL" "s_rx (slot_of d i) = []"
      using inv pk by (auto simp: rx_inv_def pkts_of_def)
    then show ?thesis by (simp add: tn_rx_queue_pop_def pl_pop_def)
  next
    case (Cons a qs')
    then obtain h' where pop: "pl_pop h = (h', a)" "rx_inv h' qs' fs" "pkts_of h' qs' = pkts_of h qs'"
      "nd_pkt (hp_node h' a) = nd_pkt (hp_node h a)" using pl_pop_inv inv by blast
    have rx: "s_rx (slot_of d i) = nd_pkt (hp_node h a) # pkts_of h qs'"
      using pk Cons by (simp add: pkts_of_def)
    have "a \<noteq> NULL" using inv Cons by (simp add: rx_inv_def)
    moreover have "rx_sim h' qs' fs i (upd_slot i rx_pop_slot d)"
      using pop i(1) rx cnt Cons free by (simp add: rx_sim_def rx_pop_slot_def)
    ultimately show ?thesis
      using pop i(2) rx Cons by (simp add: tn_rx_queue_pop_def)
  qed
  ultimately show ?thesis using dr(1) by blast
qed

theorem rx_queue_pop_drain_refines_witness:
  "pl_pop empty_heap = (empty_heap, NULL) \<and>
   (\<exists>h'. pl_drain empty_heap = Some h' \<and> hp_head h' = NULL)"
  using rx_queue_pop_drain_refines [OF empty_sim, of env0] open_daemon_slot
  by (auto simp: tn_rx_queue_pop_def tn_init_socket_slot_def rx_sim_def rx_inv_def)

section \<open>First in, first out\<close>

text \<open>The interface of a bounded queue: a push may fail, a pop returns the oldest element.\<close>

locale fifo =
  fixes rep :: "'s \<Rightarrow> 'a list \<Rightarrow> bool"
    and push :: "'a \<Rightarrow> 's \<Rightarrow> 's option"
    and pop :: "'s \<Rightarrow> ('a \<times> 's) option"
  assumes push_rep: "rep s xs \<Longrightarrow> push x s = Some s' \<Longrightarrow> rep s' (xs @ [x])"
    and pop_empty: "rep s [] \<Longrightarrow> pop s = None"
    and pop_cons: "rep s (x # xs) \<Longrightarrow> \<exists>s'. pop s = Some (x, s') \<and> rep s' xs"
begin

fun push_list :: "'a list \<Rightarrow> 's \<Rightarrow> 's option" where
  "push_list [] s = Some s"
| "push_list (x # xs) s = (case push x s of None \<Rightarrow> None | Some s' \<Rightarrow> push_list xs s')"

fun pop_list :: "nat \<Rightarrow> 's \<Rightarrow> ('a list \<times> 's) option" where
  "pop_list 0 s = Some ([], s)"
| "pop_list (Suc n) s = (case pop s of None \<Rightarrow> None
     | Some (x, s') \<Rightarrow> map_option (\<lambda>(xs, t). (x # xs, t)) (pop_list n s'))"

lemma push_list_rep: "rep s xs \<Longrightarrow> push_list ys s = Some s' \<Longrightarrow> rep s' (xs @ ys)"
proof (induction ys arbitrary: s xs)
  case (Cons y ys)
  then obtain s1 where "push y s = Some s1" "push_list ys s1 = Some s'" by (auto split: option.splits)
  then show ?case using Cons.IH [of s1 "xs @ [y]"] push_rep Cons.prems(1) by simp
qed simp

lemma pop_list_rep: "rep s (xs @ ys) \<Longrightarrow> \<exists>s'. pop_list (length xs) s = Some (xs, s') \<and> rep s' ys"
proof (induction xs arbitrary: s)
  case (Cons x xs)
  then obtain s1 where "pop s = Some (x, s1)" "rep s1 (xs @ ys)" using pop_cons by fastforce
  then show ?case using Cons.IH [of s1] by auto
qed simp

lemma fifo_order:
  assumes "rep s xs" "push_list ys s = Some s'"
  shows "\<exists>t. pop_list (length xs + length ys) s' = Some (xs @ ys, t) \<and> rep t []"
  using pop_list_rep [of s' "xs @ ys" "[]"] push_list_rep [OF assms] by simp

end

text \<open>The receive queue of slot \<open>i\<close> as such a queue of datagrams.\<close>

definition rx_rep :: "nat \<Rightarrow> TnDaemon \<Rightarrow> (bytes \<times> u32 \<times> u16) list \<Rightarrow> bool" where
  "rx_rep i d xs = (i < length (d_sockets d) \<and> s_in_use (slot_of d i) \<and>
     map (\<lambda>pk. (pk_p pk, pk_src_ip pk, pk_src_port pk)) (s_rx (slot_of d i)) = xs \<and>
     s_rx_count (slot_of d i) = length xs)"

definition rx_push :: "env \<Rightarrow> nat \<Rightarrow> bytes \<times> u32 \<times> u16 \<Rightarrow> TnDaemon \<Rightarrow> TnDaemon option" where
  "rx_push E i = (\<lambda>(p, a, q) d. let (d', r) = tn_rx_queue_push E i (Some p) (Some a) q d in
     if r = 0 then Some d' else None)"

definition rx_pop :: "nat \<Rightarrow> TnDaemon \<Rightarrow> ((bytes \<times> u32 \<times> u16) \<times> TnDaemon) option" where
  "rx_pop i d = (case tn_rx_queue_pop i d of (d', None) \<Rightarrow> None
     | (d', Some pk) \<Rightarrow> Some ((pk_p pk, pk_src_ip pk, pk_src_port pk), d'))"

interpretation rxq: fifo "rx_rep i" "rx_push E i" "rx_pop i" for E i
proof unfold_locales
  fix s :: TnDaemon and xs x s'
  assume rep: "rx_rep i s xs" and push: "rx_push E i x s = Some s'"
  obtain p a q where x: "x = (p, a, q)" by (cases x)
  have "slot_of s' i = (slot_of s i)\<lparr>s_rx := s_rx (slot_of s i) @
      [\<lparr>pk_p = p, pk_offset = 0, pk_src_ip = a, pk_src_port = q\<rparr>], s_rx_count := s_rx_count (slot_of s i) + 1\<rparr> \<and>
      length (d_sockets s') = length (d_sockets s)"
    using push rep
    by (auto simp: x rx_push_def tn_rx_queue_push_def tn_rx_queue_push_ex_def rx_rep_def Let_def
        case_prod_unfold sockets_upd_slot split: if_splits)
  then show "rx_rep i s' (xs @ [x])" using rep by (auto simp: rx_rep_def x)
next
  fix s :: TnDaemon and x :: "bytes \<times> u32 \<times> u16" and xs
  show "rx_rep i s [] \<Longrightarrow> rx_pop i s = None"
    by (auto simp: rx_rep_def rx_pop_def tn_rx_queue_pop_def)
  show "rx_rep i s (x # xs) \<Longrightarrow> \<exists>s'. rx_pop i s = Some (x, s') \<and> rx_rep i s' xs"
    by (auto simp: rx_rep_def rx_pop_def tn_rx_queue_pop_def rx_pop_slot_def)
qed

text \<open>The accept queue of slot \<open>i\<close> as a queue of connections.\<close>

definition acc_rep :: "nat \<Rightarrow> TnDaemon \<Rightarrow> ptr list \<Rightarrow> bool" where
  "acc_rep i d pcbs = (i < length (d_sockets d) \<and> s_in_use (slot_of d i) \<and>
     map ae_new_pcb (s_accept (slot_of d i)) = pcbs \<and> s_accept_count (slot_of d i) = length pcbs)"

definition acc_push :: "env \<Rightarrow> nat \<Rightarrow> ptr \<Rightarrow> TnDaemon \<Rightarrow> TnDaemon option" where
  "acc_push E i pcb d = (let (d', r) = tn_accept_queue_push E i pcb d in if r = 0 then Some d' else None)"

definition acc_pop :: "nat \<Rightarrow> TnDaemon \<Rightarrow> (ptr \<times> TnDaemon) option" where
  "acc_pop i d = (case tn_accept_queue_pop_entry i d of (d', None) \<Rightarrow> None
     | (d', Some ent) \<Rightarrow> Some (ae_new_pcb ent, d'))"

interpretation accq: fifo "acc_rep i" "acc_push E i" "acc_pop i" for E i
proof unfold_locales
  fix s :: TnDaemon and xs x s'
  assume rep: "acc_rep i s xs" and push: "acc_push E i x s = Some s'"
  have "\<exists>ent. ae_new_pcb ent = x \<and> slot_of s' i = (slot_of s i)\<lparr>s_accept := s_accept (slot_of s i) @ [ent],
      s_accept_count := s_accept_count (slot_of s i) + 1\<rparr> \<and> length (d_sockets s') = length (d_sockets s)"
    using push rep
    by (auto simp: acc_push_def tn_accept_queue_push_def acc_rep_def Let_def case_prod_unfold
        sockets_upd_slot split: if_splits
        intro!: exI [of _ "\<lparr>ae_addr = word_of_int (snd (lwcall E AllocEntry s)), ae_new_pcb = x,
          ae_early_rx = [], ae_early_rx_count = 0, ae_peer_closed = False\<rparr>"])
  then show "acc_rep i s' (xs @ [x])" using rep by (auto simp: acc_rep_def)
next
  fix s :: TnDaemon and x :: ptr and xs
  show "acc_rep i s [] \<Longrightarrow> acc_pop i s = None"
    by (auto simp: acc_rep_def acc_pop_def tn_accept_queue_pop_entry_def)
  show "acc_rep i s (x # xs) \<Longrightarrow> \<exists>s'. acc_pop i s = Some (x, s') \<and> acc_rep i s' xs"
    by (auto simp: acc_rep_def acc_pop_def tn_accept_queue_pop_entry_def)
qed



end
