(* ===== verification/Ipc_Select.thy ===== *)
theory Ipc_Select
  imports Slot_Props
begin

text \<open>
  Readiness, selectors and WaitSelect (task/ipc_select.c, common/fdset_util.c): the readiness
  predicates of a slot, the wake-up of armed selectors, and the handlers of SELECT_ARM,
  SELECT_DISARM and WAITSELECT.
\<close>

section \<open>fd_set helpers (fdset_util.c)\<close>

definition tn_fdset_check_nfds :: "int \<Rightarrow> int" where
  "tn_fdset_check_nfds nfds = (if nfds < 0 then EINVAL else 0)"

definition tn_fd_set :: "u64 \<Rightarrow> nat \<Rightarrow> u64" where
  "tn_fd_set fs fd = fs OR push_bit fd 1"

definition tn_fd_clr :: "u64 \<Rightarrow> nat \<Rightarrow> u64" where
  "tn_fd_clr fs fd = fs AND NOT (push_bit fd 1)"

definition tn_fd_isset :: "u64 \<Rightarrow> nat \<Rightarrow> bool" where
  "tn_fd_isset fs fd = (drop_bit fd fs AND 1 \<noteq> 0)"

definition tn_waitselect_timeout_ms :: "u32 \<Rightarrow> u32 \<Rightarrow> u32" where
  "tn_waitselect_timeout_ms secs micros =
     (if secs > 0xFFFFFFFF div 1000 then 0xFFFFFFFF
      else let ms = (ucast secs * 1000 + ucast (micros div 1000) :: u64)
           in if ms > 0xFFFFFFFF then 0xFFFFFFFF else ucast ms)"

section \<open>Readiness\<close>

definition tn_selector_base_alive :: "TnDaemon \<Rightarrow> ptr \<Rightarrow> bool" where
  "tn_selector_base_alive d base = (base \<noteq> NULL \<and> first_idx (\<lambda>b. b = base) (d_open_bases d) \<noteq> None)"

definition tn_select_can_read :: "TnSocketSlot \<Rightarrow> bool" where
  "tn_select_can_read s =
     (if \<not> s_in_use s then False
      else if s_rx s \<noteq> [] then True
      else if s_tcp_state s = TCP_PEER_CLOSED \<or> s_tcp_state s = TCP_ERROR then True
      else s_tcp_state s = TCP_LISTENING \<and> s_accept s \<noteq> [])"

definition tn_select_can_write :: "lwip \<Rightarrow> TnSocketSlot \<Rightarrow> bool" where
  "tn_select_can_write l s =
     (if \<not> s_in_use s then False
      else if s_tcp_state s = TCP_ERROR then True
      else if s_type s = 2 \<or> s_type s = 3 then True
      else if s_tcp_state s = TCP_ESTABLISHED \<or> s_tcp_state s = TCP_PEER_CLOSED then
        (if s_shut_wr s then True
         else if s_tcp_pcb s = NULL \<or> s_pending_send_msg s \<noteq> NULL then False
         else tp_snd_buf (lw_tcp l (s_tcp_pcb s)) > 0 \<and>
              tp_snd_queuelen (lw_tcp l (s_tcp_pcb s)) < TCP_SND_QUEUELEN)
      else False)"

definition tn_select_has_except :: "TnSocketSlot \<Rightarrow> bool" where
  "tn_select_has_except s = (s_in_use s \<and> (s_tcp_state s = TCP_ERROR \<or> s_last_error s \<noteq> 0))"

section \<open>Selectors\<close>

definition tn_selector_count_resync :: "TnDaemon \<Rightarrow> TnDaemon" where
  "tn_selector_count_resync d =
     (if d_selectors d = [] then d
      else d\<lparr>d_selector_count := word_of_nat (count_if sel_in_use (d_selectors d))\<rparr>)"

text \<open>The two words of an fd_set, and the word and mask of a descriptor.\<close>

type_synonym fdwords = "u32 \<times> u32"

definition fd_word :: "fdwords \<Rightarrow> nat \<Rightarrow> u32" where
  "fd_word ws fd = (if fd \<ge> 32 then snd ws else fst ws)"

definition fd_mask :: "nat \<Rightarrow> u32" where
  "fd_mask fd = push_bit (fd mod 32) 1"

definition fd_req :: "fdwords \<Rightarrow> nat \<Rightarrow> bool" where
  "fd_req ws fd = (fd_word ws fd AND fd_mask fd \<noteq> 0)"

definition fd_add :: "nat \<Rightarrow> fdwords \<Rightarrow> fdwords" where
  "fd_add fd ws = (if fd \<ge> 32 then (fst ws, snd ws OR fd_mask fd) else (fst ws OR fd_mask fd, snd ws))"

definition selector_match :: "TnDaemon \<Rightarrow> TnSelector \<Rightarrow> nat \<Rightarrow> bool" where
  "selector_match d sel i =
     list_ex (\<lambda>fd. sb_fd_map (d_bases d (sel_base sel)) ! fd = int i \<and>
         (fd_req (sel_read_mask sel, sel_read_mask_hi sel) fd \<and> tn_select_can_read (slot_of d i) \<or>
          fd_req (sel_write_mask sel, sel_write_mask_hi sel) fd \<and> tn_select_can_write (d_lw d) (slot_of d i) \<or>
          fd_req (sel_except_mask sel, sel_except_mask_hi sel) fd \<and> tn_select_has_except (slot_of d i)))
       [0..<nat (min (sel_nfds sel) (sb_dtablesize (d_bases d (sel_base sel))))]"

definition disarm_selector :: "nat \<Rightarrow> TnDaemon \<Rightarrow> TnDaemon" where
  "disarm_selector k d =
     d\<lparr>d_selectors := (d_selectors d)[k := (d_selectors d ! k)\<lparr>sel_in_use := False, sel_base := NULL, sel_task := NULL\<rparr>]\<rparr>"

definition signal_selector :: "nat \<Rightarrow> nat \<Rightarrow> TnDaemon \<Rightarrow> TnDaemon" where
  "signal_selector i k d =
     (let sel = d_selectors d ! k in
      if \<not> sel_in_use sel \<or> sel_base sel = NULL \<or> sel_task sel = NULL \<or> sel_sig_select sel = 0 then d
      else if \<not> tn_selector_base_alive d (sel_base sel)
      then tn_selector_count_resync (disarm_selector k d)
      else if selector_match d sel i
      then (Signal (sel_task sel) (sel_sig_select sel) d)\<lparr>d_selector_wakeups := d_selector_wakeups d + 1\<rparr>
      else d)"

text \<open>The SIGIO part of \<open>tn_signal_socket\<close>.\<close>

definition signal_sigio :: "nat \<Rightarrow> TnDaemon \<Rightarrow> TnDaemon" where
  "signal_sigio i d =
     (let s = slot_of d i;
          d1 = (if s_owner_base s \<noteq> NULL \<and> \<not> tn_selector_base_alive d (s_owner_base s)
                then upd_slot i (\<lambda>s. s\<lparr>s_owner_base := NULL, s_owner_task := NULL\<rparr>) d else d);
          s1 = slot_of d1 i;
          sig_io = sb_sig_io (d_bases d1 (s_owner_base s1))
      in if s_owner_task s1 \<noteq> NULL \<and> s_owner_base s1 \<noteq> NULL \<and> sig_io \<noteq> 0
         then (Signal (s_owner_task s1) sig_io d1)\<lparr>d_sigio_sent := d_sigio_sent d1 + 1\<rparr> else d1)"

definition tn_signal_socket :: "nat \<Rightarrow> TnDaemon \<Rightarrow> TnDaemon" where
  "tn_signal_socket i d =
     (if \<not> s_in_use (slot_of d i) then d
      else let d1 = signal_sigio i d in
        if d_selector_count d1 = 0 \<or> d_selectors d1 = [] then d1
        else if i \<ge> TN_MAX_GLOBAL_SOCKETS then d1
        else fold (signal_selector i) [0..<length (d_selectors d1)] d1)"

section \<open>The scan\<close>

definition TN_SELECT_MAX_FDS :: int where "TN_SELECT_MAX_FDS = 64"
definition TN_SELECT_FDSET_WORDS :: int where "TN_SELECT_FDSET_WORDS = 8"

definition tn_select_clamp_nfds :: "TnDaemon \<Rightarrow> ptr \<Rightarrow> int \<Rightarrow> int" where
  "tn_select_clamp_nfds d base nfds =
     (let n1 = (if nfds > TN_SELECT_MAX_FDS then TN_SELECT_MAX_FDS else nfds);
          n2 = (if base \<noteq> NULL \<and> n1 > sb_dtablesize (d_bases d base) then sb_dtablesize (d_bases d base) else n1)
      in if n2 < 0 then 0 else n2)"

definition tn_fdset_word_get :: "mem \<Rightarrow> ptr \<Rightarrow> int \<Rightarrow> u32" where
  "tn_fdset_word_get m fds w = load_u32 m (fds + word_of_int (w * 4))"

definition tn_fdset_word_put :: "ptr \<Rightarrow> int \<Rightarrow> u32 \<Rightarrow> mem \<Rightarrow> mem" where
  "tn_fdset_word_put fds w v m = store_u32 m (fds + word_of_int (w * 4)) v"

definition tn_fdset_put_result :: "ptr \<Rightarrow> int \<Rightarrow> fdwords \<Rightarrow> mem \<Rightarrow> mem" where
  "tn_fdset_put_result fds nfds ws m =
     (if fds = NULL then m
      else let m1 = tn_fdset_word_put fds 0 (fst ws) m
           in if nfds > 32 then tn_fdset_word_put fds 1 (snd ws) m1 else m1)"

text \<open>\<open>(req_nfds + 31) / 32\<close> in 32-bit arithmetic; a wrapped sum clears nothing.\<close>

definition tn_select_clear_tail :: "ptr \<Rightarrow> int \<Rightarrow> int \<Rightarrow> mem \<Rightarrow> mem" where
  "tn_select_clear_tail fds clamped req_nfds m =
     (let w = (if clamped > 32 then 2 else 1);
          nw0 = sint (word_of_int (req_nfds + 31) :: u32) div 32;
          nw = (if nw0 > TN_SELECT_FDSET_WORDS then TN_SELECT_FDSET_WORDS else nw0)
      in if fds = NULL then m else fold (\<lambda>k. tn_fdset_word_put fds k 0) [w..nw - 1] m)"

record scan_out =
  so_r :: fdwords
  so_w :: fdwords
  so_e :: fdwords
  so_ready :: int

text \<open>
  The loop over the descriptors that SELECT_ARM and WAITSELECT share; \<open>None\<close> is the EBADF
  exit for a requested descriptor without a socket.
\<close>

definition scan_slot :: "lwip \<Rightarrow> fdwords \<Rightarrow> fdwords \<Rightarrow> fdwords \<Rightarrow> nat \<Rightarrow> TnSocketSlot \<Rightarrow> scan_out \<Rightarrow> scan_out" where
  "scan_slot l r w e fd s o0 =
     (let o1 = (if fd_req r fd \<and> tn_select_can_read s
                then o0\<lparr>so_r := fd_add fd (so_r o0), so_ready := so_ready o0 + 1\<rparr> else o0);
          o2 = (if fd_req w fd \<and> tn_select_can_write l s
                then o1\<lparr>so_w := fd_add fd (so_w o1), so_ready := so_ready o1 + 1\<rparr> else o1)
      in if fd_req e fd \<and> tn_select_has_except s
         then o2\<lparr>so_e := fd_add fd (so_e o2), so_ready := so_ready o2 + 1\<rparr> else o2)"

fun select_scan :: "TnDaemon \<Rightarrow> ptr \<Rightarrow> fdwords \<Rightarrow> fdwords \<Rightarrow> fdwords \<Rightarrow> nat list \<Rightarrow> scan_out \<Rightarrow> scan_out option" where
  "select_scan d base r w e [] o0 = Some o0"
| "select_scan d base r w e (fd # fds) o0 =
     (if fd_req r fd \<or> fd_req w fd \<or> fd_req e fd then
        (case tn_slot_lookup d base (int fd) of
           None \<Rightarrow> None
         | Some i \<Rightarrow> select_scan d base r w e fds (scan_slot (d_lw d) r w e fd (slot_of d i) o0))
      else select_scan d base r w e fds o0)"

definition scan0 :: scan_out where
  "scan0 = \<lparr>so_r = (0, 0), so_w = (0, 0), so_e = (0, 0), so_ready = 0\<rparr>"

definition put_sets :: "ptr \<Rightarrow> ptr \<Rightarrow> ptr \<Rightarrow> int \<Rightarrow> int \<Rightarrow> scan_out \<Rightarrow> mem \<Rightarrow> mem" where
  "put_sets rfds wfds efds nfds req_nfds out m =
     tn_select_clear_tail efds nfds req_nfds
       (tn_select_clear_tail wfds nfds req_nfds
         (tn_select_clear_tail rfds nfds req_nfds
           (tn_fdset_put_result efds nfds (so_e out)
             (tn_fdset_put_result wfds nfds (so_w out)
               (tn_fdset_put_result rfds nfds (so_r out) m)))))"

text \<open>The high words are read from the client sets only when \<open>nfds > 32\<close>.\<close>

definition hi_word :: "mem \<Rightarrow> ptr \<Rightarrow> int \<Rightarrow> u32" where
  "hi_word m fds nfds = (if nfds > 32 \<and> fds \<noteq> NULL then tn_fdset_word_get m fds 1 else 0)"

section \<open>Handlers\<close>

definition arm_selector :: "ptr \<Rightarrow> ptr \<Rightarrow> int \<Rightarrow> fdwords \<Rightarrow> fdwords \<Rightarrow> fdwords \<Rightarrow> nat \<Rightarrow> TnDaemon \<Rightarrow> TnDaemon" where
  "arm_selector base task nfds r w e k d =
     (let d1 = (if \<not> sel_in_use (d_selectors d ! k)
                then d\<lparr>d_selector_count := d_selector_count d + 1\<rparr> else d);
          d2 = tn_selector_count_resync d1
      in d2\<lparr>d_selectors := (d_selectors d2)[k :=
           \<lparr>sel_in_use = True, sel_base = base, sel_task = task,
            sel_sig_select = sb_sig_select (d_bases d2 base), sel_nfds = nfds,
            sel_read_mask = fst r, sel_write_mask = fst w, sel_except_mask = fst e,
            sel_read_mask_hi = snd r, sel_write_mask_hi = snd w, sel_except_mask_hi = snd e\<rparr>]\<rparr>)"

definition find_selector :: "TnDaemon \<Rightarrow> ptr \<Rightarrow> nat option" where
  "find_selector d base =
     (case first_idx (\<lambda>s. sel_in_use s \<and> sel_base s = base) (d_selectors d) of
        Some k \<Rightarrow> Some k
      | None \<Rightarrow> first_idx (\<lambda>s. \<not> sel_in_use s) (d_selectors d))"

definition tn_ipc_cmd_select_arm :: "ptr \<Rightarrow> TnDaemon \<Rightarrow> TnDaemon \<times> action" where
  "tn_ipc_cmd_select_arm imsg d =
     (let m = d_msgs d imsg; base = im_socket_base m; nfds0 = im_args m 0;
          rfds = im_ptrs m 0; wfds = im_ptrs m 1; efds = im_ptrs m 2 in
      if base = NULL then answer imsg (-1) EINVAL d
      else if d_selectors d = [] then answer imsg (-1) ENOBUFS d
      else if tn_fdset_check_nfds nfds0 \<noteq> 0 then answer imsg (-1) (tn_fdset_check_nfds nfds0) d
      else let nfds = tn_select_clamp_nfds d base nfds0;
               r = (to_ULONG (im_args m 1), hi_word (d_mem d) rfds nfds);
               w = (to_ULONG (im_args m 2), hi_word (d_mem d) wfds nfds);
               e = (to_ULONG (im_args m 3), hi_word (d_mem d) efds nfds) in
        case select_scan d base r w e [0..<nat nfds] scan0 of
          None \<Rightarrow> answer imsg (-1) EBADF d
        | Some out \<Rightarrow>
            if so_ready out > 0
            then answer imsg (so_ready out) 0 (d\<lparr>d_mem := put_sets rfds wfds efds nfds nfds0 out (d_mem d)\<rparr>)
            else case find_selector d base of
              None \<Rightarrow> answer imsg (-1) ENOBUFS d
            | Some k \<Rightarrow> answer imsg 0 0 (arm_selector base (im_client_task m) nfds r w e k d))"

definition disarm_step :: "ptr \<Rightarrow> nat \<Rightarrow> TnDaemon \<Rightarrow> TnDaemon" where
  "disarm_step base k d =
     (if sel_in_use (d_selectors d ! k) \<and> sel_base (d_selectors d ! k) = base
      then let d1 = disarm_selector k d
           in if d_selector_count d1 > 0 then d1\<lparr>d_selector_count := d_selector_count d1 - 1\<rparr> else d1
      else d)"

definition tn_ipc_cmd_select_disarm :: "ptr \<Rightarrow> TnDaemon \<Rightarrow> TnDaemon \<times> action" where
  "tn_ipc_cmd_select_disarm imsg d =
     (let base = im_socket_base (d_msgs d imsg);
          d1 = (if base \<noteq> NULL \<and> d_selectors d \<noteq> []
                then fold (\<lambda>k d. if sel_in_use (d_selectors d ! k) \<and> sel_base (d_selectors d ! k) = base
                                 then tn_selector_count_resync (disarm_step base k d) else d)
                       [0..<length (d_selectors d)] d
                else d)
      in answer imsg 0 0 d1)"

definition tn_selector_disarm_all_for_base :: "ptr \<Rightarrow> TnDaemon \<Rightarrow> TnDaemon" where
  "tn_selector_disarm_all_for_base base d =
     (if base = NULL \<or> d_selectors d = [] then d
      else fold (disarm_step base) [0..<length (d_selectors d)] d)"

definition tn_ipc_cmd_waitselect :: "ptr \<Rightarrow> TnDaemon \<Rightarrow> TnDaemon \<times> action" where
  "tn_ipc_cmd_waitselect imsg d =
     (let m = d_msgs d imsg; base = im_socket_base m; nfds0 = im_args m 0;
          rfds = im_ptrs m 0; wfds = im_ptrs m 1; efds = im_ptrs m 2;
          lo = (\<lambda>fds. if fds \<noteq> NULL then tn_fdset_word_get (d_mem d) fds 0 else 0) in
      if base = NULL then answer imsg (-1) EINVAL d
      else if tn_fdset_check_nfds nfds0 \<noteq> 0 then answer imsg (-1) (tn_fdset_check_nfds nfds0) d
      else let nfds = tn_select_clamp_nfds d base nfds0;
               r = (lo rfds, hi_word (d_mem d) rfds nfds);
               w = (lo wfds, hi_word (d_mem d) wfds nfds);
               e = (lo efds, hi_word (d_mem d) efds nfds) in
        case select_scan d base r w e [0..<nat nfds] scan0 of
          None \<Rightarrow> answer imsg (-1) EBADF d
        | Some out \<Rightarrow>
            answer imsg (so_ready out) 0 (d\<lparr>d_mem := put_sets rfds wfds efds nfds nfds0 out (d_mem d)\<rparr>))"

end
