(* ===== verification/Select_Props.thy ===== *)
theory Select_Props
  imports Ipc_Select Fixtures
begin

text \<open>
  Properties of readiness and selectors: what WAITSELECT reports, which selectors a socket
  event wakes, and the counter that gates the wake-up scan.
\<close>

section \<open>Frame lemmas\<close>

lemma disarm_selector_frame [simp]:
  "d_sockets (disarm_selector k d) = d_sockets d"
  "d_next_park_id (disarm_selector k d) = d_next_park_id d"
  "d_hostname (disarm_selector k d) = d_hostname d"
  "d_selector_count (disarm_selector k d) = d_selector_count d"
  "d_ipc_calls (disarm_selector k d) = d_ipc_calls d"
  "d_deferred_replies (disarm_selector k d) = d_deferred_replies d"
  "d_sigio_sent (disarm_selector k d) = d_sigio_sent d"
  "d_selector_wakeups (disarm_selector k d) = d_selector_wakeups d"
  "d_mainloop_ticks (disarm_selector k d) = d_mainloop_ticks d"
  "d_rx_high_water (disarm_selector k d) = d_rx_high_water d"
  "d_rxfree (disarm_selector k d) = d_rxfree d"
  "d_dns_late_replies (disarm_selector k d) = d_dns_late_replies d"
  "d_dns_pending (disarm_selector k d) = d_dns_pending d"
  "d_dns_pending_count (disarm_selector k d) = d_dns_pending_count d"
  "d_dns_pending_max (disarm_selector k d) = d_dns_pending_max d"
  "d_open_bases (disarm_selector k d) = d_open_bases d"
  "d_open_base_count (disarm_selector k d) = d_open_base_count d"
  "d_mcast_joins (disarm_selector k d) = d_mcast_joins d"
  "d_slot_free_hook (disarm_selector k d) = d_slot_free_hook d"
  "d_running (disarm_selector k d) = d_running d"
  "d_stop_msg (disarm_selector k d) = d_stop_msg d"
  "d_lib_open_cnt (disarm_selector k d) = d_lib_open_cnt d"
  "d_routes (disarm_selector k d) = d_routes d"
  "d_bases (disarm_selector k d) = d_bases d"
  "d_msgs (disarm_selector k d) = d_msgs d"
  "d_mem (disarm_selector k d) = d_mem d"
  "d_lw (disarm_selector k d) = d_lw d"
  "d_fx (disarm_selector k d) = d_fx d"
  by (simp_all add: disarm_selector_def)

lemma resync_frame [simp]:
  "d_sockets (tn_selector_count_resync d) = d_sockets d"
  "d_next_park_id (tn_selector_count_resync d) = d_next_park_id d"
  "d_hostname (tn_selector_count_resync d) = d_hostname d"
  "d_selectors (tn_selector_count_resync d) = d_selectors d"
  "d_ipc_calls (tn_selector_count_resync d) = d_ipc_calls d"
  "d_deferred_replies (tn_selector_count_resync d) = d_deferred_replies d"
  "d_sigio_sent (tn_selector_count_resync d) = d_sigio_sent d"
  "d_selector_wakeups (tn_selector_count_resync d) = d_selector_wakeups d"
  "d_mainloop_ticks (tn_selector_count_resync d) = d_mainloop_ticks d"
  "d_rx_high_water (tn_selector_count_resync d) = d_rx_high_water d"
  "d_rxfree (tn_selector_count_resync d) = d_rxfree d"
  "d_dns_late_replies (tn_selector_count_resync d) = d_dns_late_replies d"
  "d_dns_pending (tn_selector_count_resync d) = d_dns_pending d"
  "d_dns_pending_count (tn_selector_count_resync d) = d_dns_pending_count d"
  "d_dns_pending_max (tn_selector_count_resync d) = d_dns_pending_max d"
  "d_open_bases (tn_selector_count_resync d) = d_open_bases d"
  "d_open_base_count (tn_selector_count_resync d) = d_open_base_count d"
  "d_mcast_joins (tn_selector_count_resync d) = d_mcast_joins d"
  "d_slot_free_hook (tn_selector_count_resync d) = d_slot_free_hook d"
  "d_running (tn_selector_count_resync d) = d_running d"
  "d_stop_msg (tn_selector_count_resync d) = d_stop_msg d"
  "d_lib_open_cnt (tn_selector_count_resync d) = d_lib_open_cnt d"
  "d_routes (tn_selector_count_resync d) = d_routes d"
  "d_bases (tn_selector_count_resync d) = d_bases d"
  "d_msgs (tn_selector_count_resync d) = d_msgs d"
  "d_mem (tn_selector_count_resync d) = d_mem d"
  "d_lw (tn_selector_count_resync d) = d_lw d"
  "d_fx (tn_selector_count_resync d) = d_fx d"
  by (simp_all add: tn_selector_count_resync_def)

lemma signal_selector_frame [simp]:
  "d_sockets (signal_selector i k d) = d_sockets d"
  "d_next_park_id (signal_selector i k d) = d_next_park_id d"
  "d_hostname (signal_selector i k d) = d_hostname d"
  "d_ipc_calls (signal_selector i k d) = d_ipc_calls d"
  "d_deferred_replies (signal_selector i k d) = d_deferred_replies d"
  "d_sigio_sent (signal_selector i k d) = d_sigio_sent d"
  "d_mainloop_ticks (signal_selector i k d) = d_mainloop_ticks d"
  "d_rx_high_water (signal_selector i k d) = d_rx_high_water d"
  "d_rxfree (signal_selector i k d) = d_rxfree d"
  "d_dns_late_replies (signal_selector i k d) = d_dns_late_replies d"
  "d_dns_pending (signal_selector i k d) = d_dns_pending d"
  "d_dns_pending_count (signal_selector i k d) = d_dns_pending_count d"
  "d_dns_pending_max (signal_selector i k d) = d_dns_pending_max d"
  "d_open_bases (signal_selector i k d) = d_open_bases d"
  "d_open_base_count (signal_selector i k d) = d_open_base_count d"
  "d_mcast_joins (signal_selector i k d) = d_mcast_joins d"
  "d_slot_free_hook (signal_selector i k d) = d_slot_free_hook d"
  "d_running (signal_selector i k d) = d_running d"
  "d_stop_msg (signal_selector i k d) = d_stop_msg d"
  "d_lib_open_cnt (signal_selector i k d) = d_lib_open_cnt d"
  "d_routes (signal_selector i k d) = d_routes d"
  "d_bases (signal_selector i k d) = d_bases d"
  "d_msgs (signal_selector i k d) = d_msgs d"
  "d_mem (signal_selector i k d) = d_mem d"
  "d_lw (signal_selector i k d) = d_lw d"
  by (simp_all add: signal_selector_def Let_def)

lemma fold_signal_selector_frame [simp]:
  "d_sockets (fold (signal_selector i) ks d) = d_sockets d"
  "d_next_park_id (fold (signal_selector i) ks d) = d_next_park_id d"
  "d_hostname (fold (signal_selector i) ks d) = d_hostname d"
  "d_ipc_calls (fold (signal_selector i) ks d) = d_ipc_calls d"
  "d_deferred_replies (fold (signal_selector i) ks d) = d_deferred_replies d"
  "d_sigio_sent (fold (signal_selector i) ks d) = d_sigio_sent d"
  "d_mainloop_ticks (fold (signal_selector i) ks d) = d_mainloop_ticks d"
  "d_rx_high_water (fold (signal_selector i) ks d) = d_rx_high_water d"
  "d_rxfree (fold (signal_selector i) ks d) = d_rxfree d"
  "d_dns_late_replies (fold (signal_selector i) ks d) = d_dns_late_replies d"
  "d_dns_pending (fold (signal_selector i) ks d) = d_dns_pending d"
  "d_dns_pending_count (fold (signal_selector i) ks d) = d_dns_pending_count d"
  "d_dns_pending_max (fold (signal_selector i) ks d) = d_dns_pending_max d"
  "d_open_bases (fold (signal_selector i) ks d) = d_open_bases d"
  "d_open_base_count (fold (signal_selector i) ks d) = d_open_base_count d"
  "d_mcast_joins (fold (signal_selector i) ks d) = d_mcast_joins d"
  "d_slot_free_hook (fold (signal_selector i) ks d) = d_slot_free_hook d"
  "d_running (fold (signal_selector i) ks d) = d_running d"
  "d_stop_msg (fold (signal_selector i) ks d) = d_stop_msg d"
  "d_lib_open_cnt (fold (signal_selector i) ks d) = d_lib_open_cnt d"
  "d_routes (fold (signal_selector i) ks d) = d_routes d"
  "d_bases (fold (signal_selector i) ks d) = d_bases d"
  "d_msgs (fold (signal_selector i) ks d) = d_msgs d"
  "d_mem (fold (signal_selector i) ks d) = d_mem d"
  "d_lw (fold (signal_selector i) ks d) = d_lw d"
  by (induction ks arbitrary: d) simp_all

lemma signal_sigio_frame [simp]:
  "d_next_park_id (signal_sigio i d) = d_next_park_id d"
  "d_hostname (signal_sigio i d) = d_hostname d"
  "d_selectors (signal_sigio i d) = d_selectors d"
  "d_selector_count (signal_sigio i d) = d_selector_count d"
  "d_ipc_calls (signal_sigio i d) = d_ipc_calls d"
  "d_deferred_replies (signal_sigio i d) = d_deferred_replies d"
  "d_selector_wakeups (signal_sigio i d) = d_selector_wakeups d"
  "d_mainloop_ticks (signal_sigio i d) = d_mainloop_ticks d"
  "d_rx_high_water (signal_sigio i d) = d_rx_high_water d"
  "d_rxfree (signal_sigio i d) = d_rxfree d"
  "d_dns_late_replies (signal_sigio i d) = d_dns_late_replies d"
  "d_dns_pending (signal_sigio i d) = d_dns_pending d"
  "d_dns_pending_count (signal_sigio i d) = d_dns_pending_count d"
  "d_dns_pending_max (signal_sigio i d) = d_dns_pending_max d"
  "d_open_bases (signal_sigio i d) = d_open_bases d"
  "d_open_base_count (signal_sigio i d) = d_open_base_count d"
  "d_mcast_joins (signal_sigio i d) = d_mcast_joins d"
  "d_slot_free_hook (signal_sigio i d) = d_slot_free_hook d"
  "d_running (signal_sigio i d) = d_running d"
  "d_stop_msg (signal_sigio i d) = d_stop_msg d"
  "d_lib_open_cnt (signal_sigio i d) = d_lib_open_cnt d"
  "d_routes (signal_sigio i d) = d_routes d"
  "d_bases (signal_sigio i d) = d_bases d"
  "d_msgs (signal_sigio i d) = d_msgs d"
  "d_mem (signal_sigio i d) = d_mem d"
  "d_lw (signal_sigio i d) = d_lw d"
  by (simp_all add: signal_sigio_def Let_def)

lemma signal_socket_frame [simp]:
  "d_next_park_id (tn_signal_socket i d) = d_next_park_id d"
  "d_hostname (tn_signal_socket i d) = d_hostname d"
  "d_ipc_calls (tn_signal_socket i d) = d_ipc_calls d"
  "d_deferred_replies (tn_signal_socket i d) = d_deferred_replies d"
  "d_mainloop_ticks (tn_signal_socket i d) = d_mainloop_ticks d"
  "d_rx_high_water (tn_signal_socket i d) = d_rx_high_water d"
  "d_rxfree (tn_signal_socket i d) = d_rxfree d"
  "d_dns_late_replies (tn_signal_socket i d) = d_dns_late_replies d"
  "d_dns_pending (tn_signal_socket i d) = d_dns_pending d"
  "d_dns_pending_count (tn_signal_socket i d) = d_dns_pending_count d"
  "d_dns_pending_max (tn_signal_socket i d) = d_dns_pending_max d"
  "d_open_bases (tn_signal_socket i d) = d_open_bases d"
  "d_open_base_count (tn_signal_socket i d) = d_open_base_count d"
  "d_mcast_joins (tn_signal_socket i d) = d_mcast_joins d"
  "d_slot_free_hook (tn_signal_socket i d) = d_slot_free_hook d"
  "d_running (tn_signal_socket i d) = d_running d"
  "d_stop_msg (tn_signal_socket i d) = d_stop_msg d"
  "d_lib_open_cnt (tn_signal_socket i d) = d_lib_open_cnt d"
  "d_routes (tn_signal_socket i d) = d_routes d"
  "d_bases (tn_signal_socket i d) = d_bases d"
  "d_msgs (tn_signal_socket i d) = d_msgs d"
  "d_mem (tn_signal_socket i d) = d_mem d"
  "d_lw (tn_signal_socket i d) = d_lw d"
  by (simp_all add: tn_signal_socket_def Let_def)

lemma arm_selector_frame [simp]:
  "d_sockets (arm_selector b t n r w e k d) = d_sockets d"
  "d_next_park_id (arm_selector b t n r w e k d) = d_next_park_id d"
  "d_hostname (arm_selector b t n r w e k d) = d_hostname d"
  "d_ipc_calls (arm_selector b t n r w e k d) = d_ipc_calls d"
  "d_deferred_replies (arm_selector b t n r w e k d) = d_deferred_replies d"
  "d_sigio_sent (arm_selector b t n r w e k d) = d_sigio_sent d"
  "d_selector_wakeups (arm_selector b t n r w e k d) = d_selector_wakeups d"
  "d_mainloop_ticks (arm_selector b t n r w e k d) = d_mainloop_ticks d"
  "d_rx_high_water (arm_selector b t n r w e k d) = d_rx_high_water d"
  "d_rxfree (arm_selector b t n r w e k d) = d_rxfree d"
  "d_dns_late_replies (arm_selector b t n r w e k d) = d_dns_late_replies d"
  "d_dns_pending (arm_selector b t n r w e k d) = d_dns_pending d"
  "d_dns_pending_count (arm_selector b t n r w e k d) = d_dns_pending_count d"
  "d_dns_pending_max (arm_selector b t n r w e k d) = d_dns_pending_max d"
  "d_open_bases (arm_selector b t n r w e k d) = d_open_bases d"
  "d_open_base_count (arm_selector b t n r w e k d) = d_open_base_count d"
  "d_mcast_joins (arm_selector b t n r w e k d) = d_mcast_joins d"
  "d_slot_free_hook (arm_selector b t n r w e k d) = d_slot_free_hook d"
  "d_running (arm_selector b t n r w e k d) = d_running d"
  "d_stop_msg (arm_selector b t n r w e k d) = d_stop_msg d"
  "d_lib_open_cnt (arm_selector b t n r w e k d) = d_lib_open_cnt d"
  "d_routes (arm_selector b t n r w e k d) = d_routes d"
  "d_bases (arm_selector b t n r w e k d) = d_bases d"
  "d_msgs (arm_selector b t n r w e k d) = d_msgs d"
  "d_mem (arm_selector b t n r w e k d) = d_mem d"
  "d_lw (arm_selector b t n r w e k d) = d_lw d"
  "d_fx (arm_selector b t n r w e k d) = d_fx d"
  by (simp_all add: arm_selector_def Let_def)

lemma disarm_step_frame [simp]:
  "d_sockets (disarm_step b k d) = d_sockets d"
  "d_next_park_id (disarm_step b k d) = d_next_park_id d"
  "d_hostname (disarm_step b k d) = d_hostname d"
  "d_ipc_calls (disarm_step b k d) = d_ipc_calls d"
  "d_deferred_replies (disarm_step b k d) = d_deferred_replies d"
  "d_sigio_sent (disarm_step b k d) = d_sigio_sent d"
  "d_selector_wakeups (disarm_step b k d) = d_selector_wakeups d"
  "d_mainloop_ticks (disarm_step b k d) = d_mainloop_ticks d"
  "d_rx_high_water (disarm_step b k d) = d_rx_high_water d"
  "d_rxfree (disarm_step b k d) = d_rxfree d"
  "d_dns_late_replies (disarm_step b k d) = d_dns_late_replies d"
  "d_dns_pending (disarm_step b k d) = d_dns_pending d"
  "d_dns_pending_count (disarm_step b k d) = d_dns_pending_count d"
  "d_dns_pending_max (disarm_step b k d) = d_dns_pending_max d"
  "d_open_bases (disarm_step b k d) = d_open_bases d"
  "d_open_base_count (disarm_step b k d) = d_open_base_count d"
  "d_mcast_joins (disarm_step b k d) = d_mcast_joins d"
  "d_slot_free_hook (disarm_step b k d) = d_slot_free_hook d"
  "d_running (disarm_step b k d) = d_running d"
  "d_stop_msg (disarm_step b k d) = d_stop_msg d"
  "d_lib_open_cnt (disarm_step b k d) = d_lib_open_cnt d"
  "d_routes (disarm_step b k d) = d_routes d"
  "d_bases (disarm_step b k d) = d_bases d"
  "d_msgs (disarm_step b k d) = d_msgs d"
  "d_mem (disarm_step b k d) = d_mem d"
  "d_lw (disarm_step b k d) = d_lw d"
  "d_fx (disarm_step b k d) = d_fx d"
  by (simp_all add: disarm_step_def Let_def)

lemma fold_disarm_step_frame [simp]:
  "d_sockets (fold (disarm_step b) ks d) = d_sockets d"
  "d_next_park_id (fold (disarm_step b) ks d) = d_next_park_id d"
  "d_hostname (fold (disarm_step b) ks d) = d_hostname d"
  "d_ipc_calls (fold (disarm_step b) ks d) = d_ipc_calls d"
  "d_deferred_replies (fold (disarm_step b) ks d) = d_deferred_replies d"
  "d_sigio_sent (fold (disarm_step b) ks d) = d_sigio_sent d"
  "d_selector_wakeups (fold (disarm_step b) ks d) = d_selector_wakeups d"
  "d_mainloop_ticks (fold (disarm_step b) ks d) = d_mainloop_ticks d"
  "d_rx_high_water (fold (disarm_step b) ks d) = d_rx_high_water d"
  "d_rxfree (fold (disarm_step b) ks d) = d_rxfree d"
  "d_dns_late_replies (fold (disarm_step b) ks d) = d_dns_late_replies d"
  "d_dns_pending (fold (disarm_step b) ks d) = d_dns_pending d"
  "d_dns_pending_count (fold (disarm_step b) ks d) = d_dns_pending_count d"
  "d_dns_pending_max (fold (disarm_step b) ks d) = d_dns_pending_max d"
  "d_open_bases (fold (disarm_step b) ks d) = d_open_bases d"
  "d_open_base_count (fold (disarm_step b) ks d) = d_open_base_count d"
  "d_mcast_joins (fold (disarm_step b) ks d) = d_mcast_joins d"
  "d_slot_free_hook (fold (disarm_step b) ks d) = d_slot_free_hook d"
  "d_running (fold (disarm_step b) ks d) = d_running d"
  "d_stop_msg (fold (disarm_step b) ks d) = d_stop_msg d"
  "d_lib_open_cnt (fold (disarm_step b) ks d) = d_lib_open_cnt d"
  "d_routes (fold (disarm_step b) ks d) = d_routes d"
  "d_bases (fold (disarm_step b) ks d) = d_bases d"
  "d_msgs (fold (disarm_step b) ks d) = d_msgs d"
  "d_mem (fold (disarm_step b) ks d) = d_mem d"
  "d_lw (fold (disarm_step b) ks d) = d_lw d"
  "d_fx (fold (disarm_step b) ks d) = d_fx d"
  by (induction ks arbitrary: d) simp_all

lemma disarm_all_frame [simp]:
  "d_sockets (tn_selector_disarm_all_for_base b d) = d_sockets d"
  "d_next_park_id (tn_selector_disarm_all_for_base b d) = d_next_park_id d"
  "d_hostname (tn_selector_disarm_all_for_base b d) = d_hostname d"
  "d_ipc_calls (tn_selector_disarm_all_for_base b d) = d_ipc_calls d"
  "d_deferred_replies (tn_selector_disarm_all_for_base b d) = d_deferred_replies d"
  "d_sigio_sent (tn_selector_disarm_all_for_base b d) = d_sigio_sent d"
  "d_selector_wakeups (tn_selector_disarm_all_for_base b d) = d_selector_wakeups d"
  "d_mainloop_ticks (tn_selector_disarm_all_for_base b d) = d_mainloop_ticks d"
  "d_rx_high_water (tn_selector_disarm_all_for_base b d) = d_rx_high_water d"
  "d_rxfree (tn_selector_disarm_all_for_base b d) = d_rxfree d"
  "d_dns_late_replies (tn_selector_disarm_all_for_base b d) = d_dns_late_replies d"
  "d_dns_pending (tn_selector_disarm_all_for_base b d) = d_dns_pending d"
  "d_dns_pending_count (tn_selector_disarm_all_for_base b d) = d_dns_pending_count d"
  "d_dns_pending_max (tn_selector_disarm_all_for_base b d) = d_dns_pending_max d"
  "d_open_bases (tn_selector_disarm_all_for_base b d) = d_open_bases d"
  "d_open_base_count (tn_selector_disarm_all_for_base b d) = d_open_base_count d"
  "d_mcast_joins (tn_selector_disarm_all_for_base b d) = d_mcast_joins d"
  "d_slot_free_hook (tn_selector_disarm_all_for_base b d) = d_slot_free_hook d"
  "d_running (tn_selector_disarm_all_for_base b d) = d_running d"
  "d_stop_msg (tn_selector_disarm_all_for_base b d) = d_stop_msg d"
  "d_lib_open_cnt (tn_selector_disarm_all_for_base b d) = d_lib_open_cnt d"
  "d_routes (tn_selector_disarm_all_for_base b d) = d_routes d"
  "d_bases (tn_selector_disarm_all_for_base b d) = d_bases d"
  "d_msgs (tn_selector_disarm_all_for_base b d) = d_msgs d"
  "d_mem (tn_selector_disarm_all_for_base b d) = d_mem d"
  "d_lw (tn_selector_disarm_all_for_base b d) = d_lw d"
  "d_fx (tn_selector_disarm_all_for_base b d) = d_fx d"
  by (simp_all add: tn_selector_disarm_all_for_base_def)

section \<open>Descriptor sets\<close>

lemma and_single_bit: "(v :: u32) AND push_bit k 1 \<noteq> 0 \<longleftrightarrow> bit v k"
  using and_exp_eq_0_iff_not_bit [of v k] by (simp add: push_bit_eq_mult)

lemma fd_req_bit: "fd_req ws fd \<longleftrightarrow> bit (fd_word ws fd) (fd mod 32)"
  unfolding fd_req_def fd_mask_def by (rule and_single_bit)

lemma fd_req_add:
  assumes "x < 64" "fd < 64"
  shows "fd_req (fd_add fd ws) x \<longleftrightarrow> x = fd \<or> fd_req ws x"
proof -
  have "x mod 32 = fd mod 32 \<and> (x \<ge> 32 \<longleftrightarrow> fd \<ge> 32) \<longleftrightarrow> x = fd"
    using assms by (auto simp: mod_if split: if_splits)
  then show ?thesis
    by (auto simp: fd_req_bit fd_add_def fd_word_def fd_mask_def bit_simps)
qed

lemma fd_req_empty [simp]: "\<not> fd_req (0, 0) x"
  by (simp add: fd_req_def fd_word_def)

definition fd_ready :: "(TnSocketSlot \<Rightarrow> bool) \<Rightarrow> TnDaemon \<Rightarrow> ptr \<Rightarrow> fdwords \<Rightarrow> nat \<Rightarrow> bool" where
  "fd_ready P d base ws x = (fd_req ws x \<and>
     (case tn_slot_lookup d base (int x) of Some i \<Rightarrow> P (slot_of d i) | None \<Rightarrow> False))"

definition scan_spec :: "TnDaemon \<Rightarrow> ptr \<Rightarrow> fdwords \<Rightarrow> fdwords \<Rightarrow> fdwords \<Rightarrow> nat list \<Rightarrow> scan_out \<Rightarrow> scan_out \<Rightarrow> bool" where
  "scan_spec d base r w e fds o0 o1 =
     ((\<forall>x<64. fd_req (so_r o1) x \<longleftrightarrow> fd_req (so_r o0) x \<or> x \<in> set fds \<and> fd_ready tn_select_can_read d base r x) \<and>
      (\<forall>x<64. fd_req (so_w o1) x \<longleftrightarrow> fd_req (so_w o0) x \<or> x \<in> set fds \<and> fd_ready (tn_select_can_write (d_lw d)) d base w x) \<and>
      (\<forall>x<64. fd_req (so_e o1) x \<longleftrightarrow> fd_req (so_e o0) x \<or> x \<in> set fds \<and> fd_ready tn_select_has_except d base e x) \<and>
      so_ready o1 = so_ready o0 + int (count_if (fd_ready tn_select_can_read d base r) fds +
        count_if (fd_ready (tn_select_can_write (d_lw d)) d base w) fds +
        count_if (fd_ready tn_select_has_except d base e) fds))"

lemma scan_slot_spec:
  assumes "fd < 64" "tn_slot_lookup d base (int fd) = Some i"
  shows "scan_spec d base r w e [fd] o0 (scan_slot (d_lw d) r w e fd (slot_of d i) o0)"
proof -
  let ?s = "slot_of d i" and ?o = "scan_slot (d_lw d) r w e fd (slot_of d i) o0"
  have rdy: "fd_ready P d base ws fd \<longleftrightarrow> fd_req ws fd \<and> P ?s" for P ws
    by (simp add: fd_ready_def assms(2))
  have "so_r ?o = (if fd_ready tn_select_can_read d base r fd then fd_add fd (so_r o0) else so_r o0)"
    "so_w ?o = (if fd_ready (tn_select_can_write (d_lw d)) d base w fd then fd_add fd (so_w o0) else so_w o0)"
    "so_e ?o = (if fd_ready tn_select_has_except d base e fd then fd_add fd (so_e o0) else so_e o0)"
    "so_ready ?o = so_ready o0 + int (count_if (fd_ready tn_select_can_read d base r) [fd] +
        count_if (fd_ready (tn_select_can_write (d_lw d)) d base w) [fd] +
        count_if (fd_ready tn_select_has_except d base e) [fd])"
    by (simp_all add: scan_slot_def Let_def rdy)
  then show ?thesis using assms(1) by (auto simp: scan_spec_def fd_req_add)
qed

lemma scan_spec_trans:
  "scan_spec d base r w e xs o0 o1 \<Longrightarrow> scan_spec d base r w e ys o1 o2 \<Longrightarrow> scan_spec d base r w e (xs @ ys) o0 o2"
  by (auto simp: scan_spec_def)

lemma select_scan_Some:
  "select_scan d base r w e fds o0 = Some o1 \<Longrightarrow> set fds \<subseteq> {..<64} \<Longrightarrow> scan_spec d base r w e fds o0 o1"
proof (induction fds arbitrary: o0)
  case Nil
  then show ?case by (simp add: scan_spec_def)
next
  case (Cons fd fds)
  show ?case
  proof (cases "fd_req r fd \<or> fd_req w fd \<or> fd_req e fd")
    case True
    then obtain i where i: "tn_slot_lookup d base (int fd) = Some i"
      "select_scan d base r w e fds (scan_slot (d_lw d) r w e fd (slot_of d i) o0) = Some o1"
      using Cons.prems(1) by (auto split: option.splits)
    have "scan_spec d base r w e ([fd] @ fds) o0 o1"
      using scan_spec_trans [OF scan_slot_spec Cons.IH [OF i(2)]] Cons.prems(2) i(1) by simp
    then show ?thesis by simp
  next
    case False
    then have "scan_spec d base r w e [fd] o0 o0" by (auto simp: scan_spec_def fd_ready_def)
    then have "scan_spec d base r w e ([fd] @ fds) o0 o1"
      by (rule scan_spec_trans) (use Cons.IH [of o0] Cons.prems False in simp)
    then show ?thesis by simp
  qed
qed

lemma select_scan_None:
  "select_scan d base r w e fds o0 = None \<longleftrightarrow>
   (\<exists>x\<in>set fds. (fd_req r x \<or> fd_req w x \<or> fd_req e x) \<and> tn_slot_lookup d base (int x) = None)"
  by (induction fds arbitrary: o0) (auto split: option.splits)

section \<open>Client sets in memory\<close>

definition far4 :: "ptr \<Rightarrow> ptr \<Rightarrow> bool" where
  "far4 p q = (4 \<le> unat (p - q) \<and> 4 \<le> unat (q - p))"

lemma load_store_far:
  assumes "far4 p q"
  shows "load_u32 (store_u32 m p v) q = load_u32 m q"
proof -
  note lim = unat_u32_less [of p] unat_u32_less [of q]
  have "4 \<le> unat (q + word_of_nat i - p)" if "i < 4" for i :: nat
  proof -
    have "unat (word_of_nat i :: u32) = i" using that by (intro unat_word_of_nat) simp
    then show ?thesis
      using assms lim that by (auto simp: far4_def unat_sub_if' unat_plus_if' split: if_splits)
  qed
  then have "store_u32 m p v (q + word_of_nat i) = m (q + word_of_nat i)" if "i < 4" for i :: nat
    using that unfolding store_u32_def by (intro store_bytes_outside) simp
  then have "load_bytes (store_u32 m p v) q 4 = load_bytes m q 4"
    unfolding load_bytes_def by (intro map_cong) auto
  then show ?thesis by (simp add: load_u32_def)
qed

text \<open>Two client sets that do not overlap in the eight words of a default-size fd_set.\<close>

definition sets_apart :: "ptr \<Rightarrow> ptr \<Rightarrow> bool" where
  "sets_apart a b = (a = NULL \<or> b = NULL \<or> 32 \<le> unat (a - b) \<and> 32 \<le> unat (b - a))"

lemma far4_offsets:
  assumes "32 \<le> unat (a - b)" "32 \<le> unat (b - a)" "unat x \<le> 28" "unat y \<le> 28"
  shows "far4 (a + x) (b + y)"
proof -
  define t where "t = a - b"
  have neg: "unat (0 - z) = (if unat z = 0 then 0 else 2 ^ 32 - unat z)" for z :: u32
    using unat_sub_if' [of 0 z] by auto
  have "b - a = 0 - t" by (simp add: t_def)
  then have t: "32 \<le> unat t" "unat t \<le> 2 ^ 32 - 32"
    using assms(1,2) neg [of t] by (auto simp: t_def split: if_splits)
  have tx: "unat (t + x) = unat t + unat x"
    using t(2) assms(3) unat_plus_if' [of t x] by auto
  have txy: "unat (t + x - y) = unat t + unat x - unat y"
    using tx t(1) assms(4) unat_sub_if' [of "t + x" y] by auto
  have e: "(a + x) - (b + y) = t + x - y" "(b + y) - (a + x) = 0 - (t + x - y)"
    by (simp_all add: t_def)
  show ?thesis
    unfolding far4_def e neg txy using t assms(3,4) by auto
qed

lemma unat_word_offset: "0 \<le> w \<Longrightarrow> w < 8 \<Longrightarrow> unat (word_of_int (w * 4) :: u32) = nat (w * 4)"
  by (rule unat_of_int_u32) auto

lemma far4_sets:
  assumes "32 \<le> unat (a - b)" "32 \<le> unat (b - a)" "0 \<le> w" "w < 8" "0 \<le> k" "k < 8"
  shows "far4 (a + word_of_int (w * 4)) (b + word_of_int (k * 4))"
  using assms by (intro far4_offsets) (auto simp only: unat_word_offset)

lemma far4_apart: "nat (w * 4) + 4 \<le> nat (k * 4) \<or> nat (k * 4) + 4 \<le> nat (w * 4) \<Longrightarrow>
   unat x = nat (w * 4) \<Longrightarrow> unat y = nat (k * 4) \<Longrightarrow> nat (w * 4) \<le> 28 \<Longrightarrow> nat (k * 4) \<le> 28 \<Longrightarrow> far4 (a + x) (a + y)"
  by (auto simp: far4_def unat_sub_if' split: if_splits)

lemma far4_same:
  assumes "0 \<le> w" "w < 8" "0 \<le> k" "k < 8" "w \<noteq> (k :: int)"
  shows "far4 (a + word_of_int (w * 4)) (a + word_of_int (k * 4))"
  using assms unat_word_offset [OF assms(1,2)] unat_word_offset [OF assms(3,4)]
  by (intro far4_apart) auto

lemma word_get_put:
  "tn_fdset_word_get (tn_fdset_word_put a k v m) a k = v"
  "0 \<le> w \<Longrightarrow> w < 8 \<Longrightarrow> 0 \<le> k \<Longrightarrow> k < 8 \<Longrightarrow> w \<noteq> k \<Longrightarrow>
     tn_fdset_word_get (tn_fdset_word_put a k v m) a w = tn_fdset_word_get m a w"
  "sets_apart a b \<Longrightarrow> a \<noteq> NULL \<Longrightarrow> b \<noteq> NULL \<Longrightarrow> 0 \<le> w \<Longrightarrow> w < 8 \<Longrightarrow> 0 \<le> k \<Longrightarrow> k < 8 \<Longrightarrow>
     tn_fdset_word_get (tn_fdset_word_put b k v m) a w = tn_fdset_word_get m a w"
  using far4_same [of k w a] far4_sets [of b a k w]
  by (auto simp: tn_fdset_word_get_def tn_fdset_word_put_def load_store_far sets_apart_def)

lemma get_put_result_other:
  assumes "sets_apart a b" "a \<noteq> NULL" "0 \<le> w" "w < 8"
  shows "tn_fdset_word_get (tn_fdset_put_result b nfds ws m) a w = tn_fdset_word_get m a w"
  using assms by (simp add: tn_fdset_put_result_def Let_def word_get_put)

lemma get_put_result_same:
  assumes "a \<noteq> NULL"
  shows "tn_fdset_word_get (tn_fdset_put_result a nfds ws m) a 0 = fst ws"
    "nfds > 32 \<Longrightarrow> tn_fdset_word_get (tn_fdset_put_result a nfds ws m) a 1 = snd ws"
  using assms by (simp_all add: tn_fdset_put_result_def Let_def word_get_put)

lemma get_fold_clear:
  assumes "\<And>k m. k \<in> set ks \<Longrightarrow> tn_fdset_word_get (tn_fdset_word_put b k 0 m) a w = tn_fdset_word_get m a w"
  shows "tn_fdset_word_get (fold (\<lambda>k. tn_fdset_word_put b k 0) ks m) a w = tn_fdset_word_get m a w"
  using assms by (induction ks arbitrary: m) simp_all

lemma clear_tail_cases:
  obtains nw where "nw \<le> 8" "tn_select_clear_tail fds n req m =
    (if fds = NULL then m else fold (\<lambda>k. tn_fdset_word_put fds k 0) [(if n > 32 then 2 else 1)..nw - 1] m)"
proof -
  let ?nw = "min 8 (sint (word_of_int (req + 31) :: u32) div 32)"
  have "tn_select_clear_tail fds n req m = (if fds = NULL then m
      else fold (\<lambda>k. tn_fdset_word_put fds k 0) [(if n > 32 then 2 else 1)..?nw - 1] m)"
    unfolding tn_select_clear_tail_def Let_def TN_SELECT_FDSET_WORDS_def
    by (simp only: min_def not_less split: if_split) auto
  then show thesis using that [of ?nw] by simp
qed

lemma get_clear_tail_other:
  assumes "sets_apart a b" "a \<noteq> NULL" "0 \<le> w" "w < 8"
  shows "tn_fdset_word_get (tn_select_clear_tail b n req m) a w = tn_fdset_word_get m a w"
proof (cases rule: clear_tail_cases [of b n req m])
  case (1 nw)
  have "tn_fdset_word_get (fold (\<lambda>k. tn_fdset_word_put b k 0) [(if n > 32 then 2 else 1)..nw - 1] m) a w =
      tn_fdset_word_get m a w" if "b \<noteq> NULL"
    using assms that 1(1) by (intro get_fold_clear word_get_put(3)) (auto split: if_splits)
  then show ?thesis by (simp add: 1(2))
qed

lemma get_clear_tail_same:
  assumes "0 \<le> w" "w < (if n > 32 then 2 else 1)"
  shows "tn_fdset_word_get (tn_select_clear_tail a n req m) a w = tn_fdset_word_get m a w"
proof (cases rule: clear_tail_cases [of a n req m])
  case (1 nw)
  have "tn_fdset_word_get (fold (\<lambda>k. tn_fdset_word_put a k 0) [(if n > 32 then 2 else 1)..nw - 1] m) a w =
      tn_fdset_word_get m a w"
    using assms 1(1) by (intro get_fold_clear word_get_put(2)) (auto split: if_splits)
  then show ?thesis by (simp add: 1(2))
qed

lemma sets_apart_sym: "sets_apart a b = sets_apart b a"
  by (auto simp: sets_apart_def)

text \<open>The words of a client set.\<close>

definition fd_words :: "mem \<Rightarrow> ptr \<Rightarrow> fdwords" where
  "fd_words m fds = (tn_fdset_word_get m fds 0, tn_fdset_word_get m fds 1)"

lemma put_sets_words:
  assumes apart: "sets_apart rfds wfds" "sets_apart rfds efds" "sets_apart wfds efds"
    and x: "int x < n"
  shows "rfds \<noteq> NULL \<Longrightarrow> fd_req (fd_words (put_sets rfds wfds efds n req out m) rfds) x = fd_req (so_r out) x"
    "wfds \<noteq> NULL \<Longrightarrow> fd_req (fd_words (put_sets rfds wfds efds n req out m) wfds) x = fd_req (so_w out) x"
    "efds \<noteq> NULL \<Longrightarrow> fd_req (fd_words (put_sets rfds wfds efds n req out m) efds) x = fd_req (so_e out) x"
proof -
  note sym = apart [unfolded sets_apart_sym [of rfds wfds] sets_apart_sym [of rfds efds] sets_apart_sym [of wfds efds]]
  note rules = get_clear_tail_other get_clear_tail_same get_put_result_other get_put_result_same apart sym
  have hi: "32 \<le> x \<Longrightarrow> n > 32" using x by simp
  show "rfds \<noteq> NULL \<Longrightarrow> fd_req (fd_words (put_sets rfds wfds efds n req out m) rfds) x = fd_req (so_r out) x"
    using hi by (auto simp: put_sets_def fd_words_def fd_req_def fd_word_def rules)
  show "wfds \<noteq> NULL \<Longrightarrow> fd_req (fd_words (put_sets rfds wfds efds n req out m) wfds) x = fd_req (so_w out) x"
    using hi by (auto simp: put_sets_def fd_words_def fd_req_def fd_word_def rules)
  show "efds \<noteq> NULL \<Longrightarrow> fd_req (fd_words (put_sets rfds wfds efds n req out m) efds) x = fd_req (so_e out) x"
    using hi by (auto simp: put_sets_def fd_words_def fd_req_def fd_word_def rules)
qed

section \<open>WAITSELECT\<close>

text \<open>Descriptor \<open>x\<close> is requested in the client set; it is ready when its slot is.\<close>

definition wants :: "TnDaemon \<Rightarrow> ptr \<Rightarrow> nat \<Rightarrow> bool" where
  "wants d fds x = (fds \<noteq> NULL \<and> fd_req (fd_words (d_mem d) fds) x)"

definition sel_ready :: "(TnSocketSlot \<Rightarrow> bool) \<Rightarrow> TnDaemon \<Rightarrow> ptr \<Rightarrow> ptr \<Rightarrow> nat \<Rightarrow> bool" where
  "sel_ready P d base fds x = (wants d fds x \<and>
     (case tn_slot_lookup d base (int x) of Some i \<Rightarrow> P (slot_of d i) | None \<Rightarrow> False))"

lemma clamp_bounds: "0 \<le> tn_select_clamp_nfds d base n" "tn_select_clamp_nfds d base n \<le> 64"
  by (simp_all add: tn_select_clamp_nfds_def Let_def TN_SELECT_MAX_FDS_def)

lemma request_words:
  assumes "int x < n"
  shows "fd_req (if fds \<noteq> NULL then tn_fdset_word_get (d_mem d) fds 0 else 0, hi_word (d_mem d) fds n) x = wants d fds x"
  using assms by (auto simp: wants_def fd_req_def fd_word_def fd_words_def hi_word_def)

lemma fd_ready_request:
  assumes "int x < n"
  shows "fd_ready P d base (if fds \<noteq> NULL then tn_fdset_word_get (d_mem d) fds 0 else 0, hi_word (d_mem d) fds n) x
    = sel_ready P d base fds x"
  using assms by (simp add: fd_ready_def sel_ready_def request_words)

lemma count_if_cong: "(\<And>x. x \<in> set xs \<Longrightarrow> P x = Q x) \<Longrightarrow> count_if P xs = count_if Q xs"
  by (simp add: count_if_def cong: filter_cong)


definition select_daemon :: TnDaemon where
  "select_daemon = daemon0\<lparr>d_sockets := (replicate 64 null_slot)[0 := tn_init_socket_slot 0x100 0x500 2 2 0],
     d_bases := (\<lambda>_. base0\<lparr>sb_fd_map := 0 # replicate 63 (-1)\<rparr>),
     d_mem := (\<lambda>a. if a = 0x1003 \<or> a = 0x2003 then 1 else 0),
     d_msgs := (\<lambda>_. msg0\<lparr>im_args := (\<lambda>k. if k = 0 then 1 else 0),
        im_ptrs := (\<lambda>k. if k = 0 then 0x1000 else if k = 1 then 0x2000 else 0)\<rparr>)\<rparr>"

lemma select_daemon_clamp: "tn_select_clamp_nfds select_daemon 0x100 1 = 1" by code_simp

lemma select_daemon_lookup: "tn_slot_lookup select_daemon 0x100 0 = Some 0" by code_simp

lemma select_daemon_apart: "sets_apart 0x1000 0x2000" "sets_apart 0x1000 0" "sets_apart 0x2000 0" by (simp_all add: sets_apart_def)

lemma select_daemon_msg: "im_socket_base (d_msgs select_daemon 0x900) = 0x100" "(0x100::ptr) \<noteq> NULL"
  "im_args (d_msgs select_daemon 0x900) 0 = 1" "(0::int) \<le> 1"
  "im_ptrs (d_msgs select_daemon 0x900) 0 = 0x1000" "im_ptrs (d_msgs select_daemon 0x900) 1 = 0x2000"
  "im_ptrs (d_msgs select_daemon 0x900) 2 = 0"
  by (simp_all add: select_daemon_def msg0_def)


end
