(* ===== verification/Selector_Props.thy ===== *)
theory Selector_Props
  imports Select_Props
begin

text \<open>
  Wake-up of armed selectors by socket events, and the selector counter that decides whether
  the scan over the table runs at all.
\<close>

section \<open>One selector\<close>

lemma signal_selector_fx: "\<exists>xs. d_fx (signal_selector i k d) = d_fx d @ xs"
  by (simp add: signal_selector_def Let_def)

lemma fold_signal_fx: "\<exists>xs. d_fx (fold (signal_selector i) ks d) = d_fx d @ xs"
proof (induction ks arbitrary: d)
  case (Cons k ks)
  obtain xs where "d_fx (signal_selector i k d) = d_fx d @ xs" using signal_selector_fx by blast
  moreover obtain ys where "d_fx (fold (signal_selector i) ks (signal_selector i k d)) = d_fx (signal_selector i k d) @ ys"
    using Cons.IH by blast
  ultimately show ?case by simp
qed simp

lemma selectors_resync [simp]: "d_selectors (tn_selector_count_resync d) = d_selectors d"
  by (simp add: tn_selector_count_resync_def)

lemma signal_selector_other: "j \<noteq> k \<Longrightarrow> d_selectors (signal_selector i j d) ! k = d_selectors d ! k"
  by (simp add: signal_selector_def Let_def disarm_selector_def)

lemma length_signal_selector [simp]: "length (d_selectors (signal_selector i j d)) = length (d_selectors d)"
  by (simp add: signal_selector_def Let_def disarm_selector_def)

lemma fold_signal_other: "k \<notin> set js \<Longrightarrow> d_selectors (fold (signal_selector i) js d) ! k = d_selectors d ! k"
  by (induction js arbitrary: d) (auto simp: signal_selector_other)

text \<open>Readiness does not depend on who owns the socket.\<close>

lemma sigio_slot:
  "slot_of (signal_sigio i d) j = slot_of d j \<or>
   slot_of (signal_sigio i d) j = (slot_of d j)\<lparr>s_owner_base := NULL, s_owner_task := NULL\<rparr>"
proof (cases "i = j \<and> i < length (d_sockets d)")
  case True then show ?thesis by (auto simp: signal_sigio_def Let_def)
next
  case False
  then have "(d_sockets d)[i := x] ! j = d_sockets d ! j" for x
    by (cases "i = j") (auto simp: list_update_beyond)
  then show ?thesis by (auto simp: signal_sigio_def Let_def sockets_upd_slot)
qed

lemma ready_owner:
  "tn_select_can_read (s\<lparr>s_owner_base := b, s_owner_task := t\<rparr>) = tn_select_can_read s"
  "tn_select_can_write l (s\<lparr>s_owner_base := b, s_owner_task := t\<rparr>) = tn_select_can_write l s"
  "tn_select_has_except (s\<lparr>s_owner_base := b, s_owner_task := t\<rparr>) = tn_select_has_except s"
  by (simp_all add: tn_select_can_read_def tn_select_can_write_def tn_select_has_except_def)

lemma match_sigio: "selector_match (signal_sigio i d) sel j = selector_match d sel j"
  using sigio_slot [of i d j] by (elim disjE) (simp_all only: selector_match_def ready_owner signal_sigio_frame)

lemma sigio_fx: "\<exists>xs. d_fx (signal_sigio i d) = d_fx d @ xs"
  by (simp add: signal_sigio_def Let_def)

lemma in_use_sigio: "s_in_use (slot_of (signal_sigio i d) j) = s_in_use (slot_of d j)"
  using sigio_slot [of i d j] by auto

lemma alive_cong: "d_open_bases d = d_open_bases e \<Longrightarrow> tn_selector_base_alive d b = tn_selector_base_alive e b"
  by (simp add: tn_selector_base_alive_def)

lemma match_cong:
  "d_bases d = d_bases e \<Longrightarrow> d_sockets d = d_sockets e \<Longrightarrow> d_lw d = d_lw e \<Longrightarrow>
   selector_match d sel i = selector_match e sel i"
  by (simp add: selector_match_def)


definition armed_daemon :: TnDaemon where
  "armed_daemon = select_daemon\<lparr>d_selector_count := 1,
     d_selectors := [\<lparr>sel_in_use = True, sel_base = 0x100, sel_task = 0x500, sel_sig_select = 0x100, sel_nfds = 1,
       sel_read_mask = 0, sel_write_mask = 1, sel_except_mask = 0, sel_read_mask_hi = 0, sel_write_mask_hi = 0,
       sel_except_mask_hi = 0\<rparr>]\<rparr>"


section \<open>Arming\<close>

lemma find_selector_range: "find_selector d base = Some k \<Longrightarrow> k < length (d_selectors d)"
  by (auto simp: find_selector_def split: option.splits dest: first_idx_SomeD(1))

text \<open>What the arm step leaves in the counter: the selectors in use before it, not after.\<close>

lemma arm_selector_count:
  "d_selectors d \<noteq> [] \<Longrightarrow>
   d_selector_count (arm_selector base task n r w e k d) = word_of_nat (count_if sel_in_use (d_selectors d))"
  by (simp add: arm_selector_def Let_def tn_selector_count_resync_def)

lemma arm_selector_sel:
  "k < length (d_selectors d) \<Longrightarrow>
   sel_in_use (d_selectors (arm_selector base task n r w e k d) ! k) \<and>
   sel_base (d_selectors (arm_selector base task n r w e k d) ! k) = base"
  by (simp add: arm_selector_def Let_def)

lemma select_arm_outcome:
  assumes "tn_ipc_cmd_select_arm imsg d = (d', act)" "im_result (d_msgs d' imsg) = 0"
  shows "\<exists>task n r w e k. d' = set_reply imsg 0 0 (arm_selector (im_socket_base (d_msgs d imsg)) task n r w e k d) \<and>
    k < length (d_selectors d)"
proof -
  from assms obtain k task n r w e where "find_selector d (im_socket_base (d_msgs d imsg)) = Some k"
    "d' = set_reply imsg 0 0 (arm_selector (im_socket_base (d_msgs d imsg)) task n r w e k d)"
    by (auto simp: tn_ipc_cmd_select_arm_def Let_def msgs_set_reply tn_fdset_check_nfds_def
        simp del: split_paired_All split: if_splits option.splits)
  then show ?thesis using find_selector_range by blast
qed

text \<open>
  Arming the first selector leaves the counter at zero: when no selector is in use and
  SELECT_ARM answers 0 (armed, the client goes to sleep), a selector of the client is in use
  but \<open>selector_count\<close> is 0, so \<open>tn_signal_socket\<close> returns after the SIGIO part for every slot
  and never looks at the selector.
\<close>

theorem select_arm_first_lost:
  assumes free: "count_if sel_in_use (d_selectors d) = 0"
    and arm: "tn_ipc_cmd_select_arm imsg d = (d', act)" "im_result (d_msgs d' imsg) = 0"
  shows "(\<exists>k < length (d_selectors d'). sel_in_use (d_selectors d' ! k) \<and>
            sel_base (d_selectors d' ! k) = im_socket_base (d_msgs d imsg)) \<and>
         (\<forall>j. tn_signal_socket j d' = (if s_in_use (slot_of d' j) then signal_sigio j d' else d'))"
proof -
  obtain task n r w e k where
    d': "d' = set_reply imsg 0 0 (arm_selector (im_socket_base (d_msgs d imsg)) task n r w e k d)"
    and k: "k < length (d_selectors d)" using select_arm_outcome [OF arm] by blast
  have "d_selectors d \<noteq> []" using k by auto
  then have "d_selector_count d' = 0" using free arm_selector_count by (simp add: d')
  then have "\<forall>j. tn_signal_socket j d' = (if s_in_use (slot_of d' j) then signal_sigio j d' else d')"
    by (simp add: tn_signal_socket_def Let_def)
  moreover have "length (d_selectors d') = length (d_selectors d)"
    by (simp add: d' arm_selector_def Let_def)
  moreover have "sel_in_use (d_selectors d' ! k) \<and> sel_base (d_selectors d' ! k) = im_socket_base (d_msgs d imsg)"
    unfolding d' set_reply_frame by (rule arm_selector_sel [OF k])
  ultimately show ?thesis using k by auto
qed

definition arm_daemon :: TnDaemon where
  "arm_daemon = select_daemon\<lparr>d_msgs := (\<lambda>_. msg0\<lparr>im_args := (\<lambda>k. if k \<le> 1 then 1 else 0),
      im_ptrs := (\<lambda>k. if k = 0 then 0x1000 else 0)\<rparr>)\<rparr>"

theorem select_arm_first_lost_witness:
  "im_result (d_msgs (fst (tn_ipc_cmd_select_arm 0x900 arm_daemon)) 0x900) = 0 \<and>
   tn_signal_socket 0 (fst (tn_ipc_cmd_select_arm 0x900 arm_daemon)) =
     signal_sigio 0 (fst (tn_ipc_cmd_select_arm 0x900 arm_daemon)) \<and>
   sel_in_use (d_selectors (fst (tn_ipc_cmd_select_arm 0x900 arm_daemon)) ! 0)"
proof -
  have f: "count_if sel_in_use (d_selectors arm_daemon) = 0" by code_simp
  have r: "im_result (d_msgs (fst (tn_ipc_cmd_select_arm 0x900 arm_daemon)) 0x900) = 0" by code_simp
  have u: "s_in_use (slot_of (fst (tn_ipc_cmd_select_arm 0x900 arm_daemon)) 0)"
    "sel_in_use (d_selectors (fst (tn_ipc_cmd_select_arm 0x900 arm_daemon)) ! 0)" by code_simp+
  show ?thesis using select_arm_first_lost [OF f surjective_pairing r] r u by simp
qed

end
