(* ===== verification/Ledger.thy ===== *)
theory Ledger
  imports Prelude Client_Memory
begin

text \<open>
  The abstract reference ledger of the socket table: for each slot whether it is in use, its
  reference count, whether it is parked and under which id; for each opener its descriptor
  table; the opener of each message, the registered openers and the next park id.  A ledger is balanced when the
  count of every used slot is the number of descriptors that name it, over the openers \<open>B\<close>,
  plus one when it is parked, and no descriptor names a slot that is not in use.  The handlers
  of the daemon refine the operations defined here.
\<close>

type_synonym ledger_slot = "bool \<times> int \<times> bool \<times> int"

record ledger =
  lg_slots :: "ledger_slot list"
  lg_map :: "ptr \<Rightarrow> int list"
  lg_size :: "ptr \<Rightarrow> int"
  lg_owner :: "ptr \<Rightarrow> ptr"
  lg_opened :: "ptr list"
  lg_next :: int

definition lg_refs :: "ptr set \<Rightarrow> ledger \<Rightarrow> nat \<Rightarrow> nat" where
  "lg_refs B L i = (\<Sum>b\<in>B. count_if (\<lambda>v. v = int i) (lg_map L b))"

fun slot_balanced :: "nat \<Rightarrow> ledger_slot \<Rightarrow> bool" where
  "slot_balanced r (used, n, parked, pid) =
     (if used then n = int r + (if parked then 1 else 0) \<and> n > 0 else r = 0)"

text \<open>
  \<open>B\<close> holds every opener, and the address 0, where there is no descriptor table.
\<close>

definition lg_wf :: "ptr set \<Rightarrow> ledger \<Rightarrow> bool" where
  "lg_wf B L = (finite B \<and> length (lg_slots L) = 64 \<and> NULL \<in> B \<and> lg_map L NULL = [] \<and>
     (\<forall>b\<in>B. length (lg_map L b) = nat (lg_size L b)) \<and> (\<forall>m. lg_owner L m \<in> B) \<and> set (lg_opened L) \<subseteq> B \<and>
     0 < lg_next L \<and> lg_next L < 2 ^ 31)"

definition balanced :: "ptr set \<Rightarrow> ledger \<Rightarrow> bool" where
  "balanced B L = (lg_wf B L \<and> (\<forall>i<64. slot_balanced (lg_refs B L i) (lg_slots L ! i)))"

section \<open>Operations\<close>

definition lg_upd :: "nat \<Rightarrow> (ledger_slot \<Rightarrow> ledger_slot) \<Rightarrow> ledger \<Rightarrow> ledger" where
  "lg_upd i f L = L\<lparr>lg_slots := (lg_slots L)[i := f (lg_slots L ! i)]\<rparr>"

definition lg_set_fd :: "ptr \<Rightarrow> nat \<Rightarrow> int \<Rightarrow> ledger \<Rightarrow> ledger" where
  "lg_set_fd b fd v L = L\<lparr>lg_map := (lg_map L)(b := (lg_map L b)[fd := v])\<rparr>"

fun drop_ref :: "ledger_slot \<Rightarrow> ledger_slot" where
  "drop_ref (used, n, parked, pid) =
     (if \<not> used then (used, n, parked, pid)
      else let n1 = (if n > 0 then n - 1 else n)
           in if n1 = 0 then (False, 0, False, 0) else (True, n1, parked, pid))"

fun add_ref :: "ledger_slot \<Rightarrow> ledger_slot" where
  "add_ref (used, n, parked, pid) = (used, if used then n + 1 else n, parked, pid)"

fun park :: "int \<Rightarrow> ledger_slot \<Rightarrow> ledger_slot" where
  "park pid (used, n, parked, pid0) = (used, n, True, pid)"

fun unpark :: "ledger_slot \<Rightarrow> ledger_slot" where
  "unpark (used, n, parked, pid0) = (used, n, False, 0)"

text \<open>Close the descriptor \<open>fd\<close> of \<open>b\<close> when it names a used slot.\<close>

definition lg_close_fd :: "ptr \<Rightarrow> nat \<Rightarrow> ledger \<Rightarrow> ledger" where
  "lg_close_fd b fd L =
     (let v = lg_map L b ! fd in
      if 0 \<le> v \<and> v < 64 \<and> fst (lg_slots L ! nat v) then lg_upd (nat v) drop_ref (lg_set_fd b fd (-1) L) else L)"

definition lg_open :: "nat \<Rightarrow> ptr \<Rightarrow> nat \<Rightarrow> ledger \<Rightarrow> ledger" where
  "lg_open j b fd L = lg_set_fd b fd (int j) (lg_upd j (\<lambda>_. (True, 1, False, 0)) L)"

definition lg_dup :: "nat \<Rightarrow> ptr \<Rightarrow> nat \<Rightarrow> ledger \<Rightarrow> ledger" where
  "lg_dup i b fd L = lg_upd i add_ref (lg_set_fd b fd (int i) L)"

definition lg_release :: "nat \<Rightarrow> ptr \<Rightarrow> nat \<Rightarrow> bool \<Rightarrow> int \<Rightarrow> ledger \<Rightarrow> ledger" where
  "lg_release i b fd copy pid L =
     (if copy then lg_upd i add_ref (lg_upd i (park pid) L) else lg_set_fd b fd (-1) (lg_upd i (park pid) L))"

definition lg_obtain :: "nat \<Rightarrow> ptr \<Rightarrow> nat \<Rightarrow> ledger \<Rightarrow> ledger" where
  "lg_obtain i b fd L = lg_upd i unpark (lg_set_fd b fd (int i) L)"

section \<open>Counting references\<close>

lemma lg_simps [simp]:
  "lg_map (lg_upd i f L) = lg_map L" "lg_size (lg_upd i f L) = lg_size L" "lg_owner (lg_upd i f L) = lg_owner L"
  "lg_next (lg_upd i f L) = lg_next L" "lg_next (lg_set_fd b fd v L) = lg_next L"
  "lg_opened (lg_upd i f L) = lg_opened L" "lg_opened (lg_set_fd b fd v L) = lg_opened L"
  "lg_slots (lg_set_fd b fd v L) = lg_slots L" "lg_size (lg_set_fd b fd v L) = lg_size L"
  "lg_owner (lg_set_fd b fd v L) = lg_owner L" "length (lg_slots (lg_upd i f L)) = length (lg_slots L)"
  by (simp_all add: lg_upd_def lg_set_fd_def)

lemma refs_upd [simp]: "lg_refs B (lg_upd i f L) j = lg_refs B L j"
  by (simp add: lg_refs_def)

lemma wf_upd [simp]: "lg_wf B (lg_upd i f L) = lg_wf B L"
  by (simp add: lg_wf_def)

lemma wf_set_fd [simp]: "lg_wf B (lg_set_fd b fd v L) = lg_wf B L"
  by (auto simp: lg_wf_def lg_set_fd_def)

lemma refs_set_fd:
  assumes "lg_wf B L" "b \<in> B" "fd < nat (lg_size L b)"
  shows "lg_refs B (lg_set_fd b fd v L) i + (if lg_map L b ! fd = int i then 1 else 0) =
         lg_refs B L i + (if v = int i then 1 else 0)"
proof -
  let ?c = "\<lambda>L b. count_if (\<lambda>v. v = int i) (lg_map L b)"
  have fin: "finite B" and len: "fd < length (lg_map L b)" using assms by (auto simp: lg_wf_def)
  have "lg_refs B M i = ?c M b + (\<Sum>x\<in>B - {b}. ?c M x)" for M
    using fin assms(2) by (simp add: lg_refs_def sum.remove)
  moreover have "(\<Sum>x\<in>B - {b}. ?c (lg_set_fd b fd v L) x) = (\<Sum>x\<in>B - {b}. ?c L x)"
    by (intro sum.cong) (auto simp: lg_set_fd_def)
  moreover have "?c (lg_set_fd b fd v L) b + (if lg_map L b ! fd = int i then 1 else 0) =
      ?c L b + (if v = int i then 1 else 0)"
    using count_if_update [OF len, of "\<lambda>x. x = int i" v] by (simp add: lg_set_fd_def)
  ultimately show ?thesis by simp
qed

lemma refs_pos:
  assumes "lg_wf B L" "b \<in> B" "fd < nat (lg_size L b)" "lg_map L b ! fd = int i"
  shows "lg_refs B L i > 0"
  using refs_set_fd [OF assms(1-3), of "-1" i] assms(4) by simp

lemma balancedD: "balanced B L \<Longrightarrow> i < 64 \<Longrightarrow> slot_balanced (lg_refs B L i) (lg_slots L ! i)"
  by (simp add: balanced_def)

lemma balanced_used:
  assumes "balanced B L" "b \<in> B" "fd < nat (lg_size L b)" "lg_map L b ! fd = int i" "i < 64"
  shows "fst (lg_slots L ! i)"
  using balancedD [OF assms(1,5)] refs_pos [of B L b fd i] assms
  by (cases "lg_slots L ! i") (auto simp: balanced_def split: if_splits)

section \<open>Every operation keeps the ledger balanced\<close>

lemma balancedI:
  assumes "lg_wf B L" "\<And>i. i < 64 \<Longrightarrow> slot_balanced (lg_refs B L i) (lg_slots L ! i)"
  shows "balanced B L"
  using assms by (simp add: balanced_def)

lemma wf_length: "lg_wf B L \<Longrightarrow> length (lg_slots L) = 64"
  by (simp add: lg_wf_def)

lemma slots_upd: "lg_wf B L \<Longrightarrow> j < 64 \<Longrightarrow>
    lg_slots (lg_upd i f L) ! j = (if i = j then f (lg_slots L ! j) else lg_slots L ! j)"
  by (simp add: lg_upd_def wf_length nth_list_update)

lemma balanced_close_fd [inv_intros]:
  assumes bal: "balanced B L" and b: "b \<in> B" "fd < nat (lg_size L b)"
  shows "balanced B (lg_close_fd b fd L)"
proof (cases "0 \<le> lg_map L b ! fd \<and> lg_map L b ! fd < 64 \<and> fst (lg_slots L ! nat (lg_map L b ! fd))")
  case True
  define i where "i = nat (lg_map L b ! fd)"
  have wf: "lg_wf B L" using bal by (simp add: balanced_def)
  have i: "i < 64" "lg_map L b ! fd = int i" "fst (lg_slots L ! i)" using True by (auto simp: i_def)
  let ?M = "lg_set_fd b fd (-1) L"
  have eq: "lg_close_fd b fd L = lg_upd i drop_ref ?M" using True by (simp add: lg_close_fd_def Let_def i_def)
  have refs: "lg_refs B ?M j + (if j = i then 1 else 0) = lg_refs B L j" for j
    using refs_set_fd [OF wf b, of "-1" j] i(2) by auto
  show ?thesis unfolding eq
  proof (rule balancedI)
    fix j :: nat assume j: "j < 64"
    show "slot_balanced (lg_refs B (lg_upd i drop_ref ?M) j) (lg_slots (lg_upd i drop_ref ?M) ! j)"
      using slots_upd [of B ?M j i drop_ref] wf j balancedD [OF bal j] refs [of j] i(3)
      by (cases "lg_slots L ! j") (auto split: if_splits simp: Let_def)
  qed (use wf in simp)
next
  case False
  then show ?thesis using bal by (auto simp: lg_close_fd_def Let_def)
qed

lemma balanced_open [inv_intros]:
  assumes bal: "balanced B L" and b: "b \<in> B" "fd < nat (lg_size L b)" "lg_map L b ! fd = -1"
    and j: "j < 64" "\<not> fst (lg_slots L ! j)"
  shows "balanced B (lg_open j b fd L)"
proof -
  have wf: "lg_wf B L" using bal by (simp add: balanced_def)
  let ?M = "lg_upd j (\<lambda>_. (True, 1, False, 0)) L"
  have refs: "lg_refs B (lg_open j b fd L) i = lg_refs B L i + (if i = j then 1 else 0)" for i
    using refs_set_fd [of B ?M b fd "int j" i] wf b by (auto simp: lg_open_def)
  show ?thesis
  proof (rule balancedI)
    fix i :: nat assume i: "i < 64"
    show "slot_balanced (lg_refs B (lg_open j b fd L) i) (lg_slots (lg_open j b fd L) ! i)"
      using slots_upd [OF wf i] balancedD [OF bal i] refs [of i] j
      by (cases "lg_slots L ! i") (auto simp: lg_open_def split: if_splits)
  qed (use wf in \<open>simp add: lg_open_def\<close>)
qed

lemma balanced_dup [inv_intros]:
  assumes bal: "balanced B L" and b: "b \<in> B" "fd < nat (lg_size L b)" "\<not> (0 \<le> lg_map L b ! fd \<and> lg_map L b ! fd < 64)"
    and i: "i < 64" "fst (lg_slots L ! i)"
  shows "balanced B (lg_dup i b fd L)"
proof -
  have wf: "lg_wf B L" using bal by (simp add: balanced_def)
  have refs: "lg_refs B (lg_dup i b fd L) j = lg_refs B L j + (if i = j then 1 else 0)" if "j < 64" for j
    using refs_set_fd [OF wf b(1,2), of "int i" j] b(3) that by (auto simp: lg_dup_def split: if_splits)
  show ?thesis
  proof (rule balancedI)
    fix j :: nat assume j: "j < 64"
    show "slot_balanced (lg_refs B (lg_dup i b fd L) j) (lg_slots (lg_dup i b fd L) ! j)"
      using slots_upd [of B "lg_set_fd b fd (int i) L" j i add_ref] wf j balancedD [OF bal j] refs [OF j] i
      by (cases "lg_slots L ! j") (auto simp: lg_dup_def split: if_splits)
  qed (use wf in \<open>simp add: lg_dup_def\<close>)
qed

lemma balanced_release [inv_intros]:
  assumes bal: "balanced B L" and b: "b \<in> B" "fd < nat (lg_size L b)" "lg_map L b ! fd = int i"
    and i: "i < 64" "\<not> fst (snd (snd (lg_slots L ! i)))"
  shows "balanced B (lg_release i b fd copy pid L)"
proof -
  have wf: "lg_wf B L" using bal by (simp add: balanced_def)
  have used: "fst (lg_slots L ! i)" using balanced_used [OF bal b i(1)] .
  let ?M = "lg_upd i (park pid) L"
  have refs: "lg_refs B (lg_set_fd b fd (-1) ?M) j + (if j = i then 1 else 0) = lg_refs B L j" for j
    using refs_set_fd [of B ?M b fd "-1" j] wf b by auto
  show ?thesis
  proof (rule balancedI)
    fix j :: nat assume j: "j < 64"
    have park: "lg_slots ?M ! j = (if i = j then park pid (lg_slots L ! j) else lg_slots L ! j)"
      using slots_upd [OF wf j] .
    have copied: "lg_slots (lg_upd i add_ref ?M) ! j = (if i = j then add_ref (park pid (lg_slots L ! j)) else lg_slots L ! j)"
      using slots_upd [of B ?M j i add_ref] wf j park by (cases "i = j") simp_all
    show "slot_balanced (lg_refs B (lg_release i b fd copy pid L) j) (lg_slots (lg_release i b fd copy pid L) ! j)"
      using park copied balancedD [OF bal j] refs [of j] i used
      by (cases "lg_slots L ! j") (auto simp: lg_release_def split: if_splits)
  qed (use wf in \<open>simp add: lg_release_def\<close>)
qed

lemma balanced_obtain [inv_intros]:
  assumes bal: "balanced B L" and b: "b \<in> B" "fd < nat (lg_size L b)" "lg_map L b ! fd = -1"
    and i: "i < 64" "fst (lg_slots L ! i)" "fst (snd (snd (lg_slots L ! i)))"
  shows "balanced B (lg_obtain i b fd L)"
proof -
  have wf: "lg_wf B L" using bal by (simp add: balanced_def)
  have refs: "lg_refs B (lg_obtain i b fd L) j = lg_refs B L j + (if i = j then 1 else 0)" for j
    using refs_set_fd [OF wf b(1,2), of "int i" j] b(3) by (auto simp: lg_obtain_def)
  show ?thesis
  proof (rule balancedI)
    fix j :: nat assume j: "j < 64"
    show "slot_balanced (lg_refs B (lg_obtain i b fd L) j) (lg_slots (lg_obtain i b fd L) ! j)"
      using slots_upd [of B "lg_set_fd b fd (int i) L" j i unpark] wf j balancedD [OF bal j] refs [of j] i
      by (cases "lg_slots L ! j") (auto simp: lg_obtain_def split: if_splits)
  qed (use wf in \<open>simp add: lg_obtain_def\<close>)
qed

lemma balanced_fold_close:
  assumes "balanced B L" "b \<in> B" "\<forall>fd\<in>set fds. fd < nat (lg_size L b)"
  shows "balanced B (fold (lg_close_fd b) fds L)"
  using assms
proof (induction fds arbitrary: L)
  case (Cons fd fds)
  have "lg_size (lg_close_fd b fd L) = lg_size L" by (simp add: lg_close_fd_def Let_def)
  with Cons show ?case by (simp add: balanced_close_fd)
qed simp

text \<open>A slot nobody refers to may be emptied.\<close>

definition lg_free :: "nat \<Rightarrow> ledger \<Rightarrow> ledger" where
  "lg_free i = lg_upd i (\<lambda>_. (False, 0, False, 0))"

lemma balanced_free [inv_intros]:
  assumes "balanced B L" "\<not> fst (lg_slots L ! i)" "i < 64"
  shows "balanced B (lg_free i L)"
proof (rule balancedI)
  have wf: "lg_wf B L" using assms by (simp add: balanced_def)
  then show "lg_wf B (lg_free i L)" by (simp add: lg_free_def)
  fix j :: nat assume j: "j < 64"
  show "slot_balanced (lg_refs B (lg_free i L) j) (lg_slots (lg_free i L) ! j)"
    using slots_upd [OF wf j] balancedD [OF assms(1) j] assms(2)
    by (cases "lg_slots L ! j") (auto simp: lg_free_def)
qed

lemma lg_free_upd: "i < length (lg_slots L) \<Longrightarrow> lg_free i (lg_upd i f L) = lg_free i L"
  by (simp add: lg_free_def lg_upd_def)

lemma balanced_opened:
  "balanced B L \<Longrightarrow> set bs \<subseteq> B \<Longrightarrow> balanced B (L\<lparr>lg_opened := bs\<rparr>)"
  by (simp add: balanced_def lg_wf_def lg_refs_def)

lemma balanced_next:
  "balanced B L \<Longrightarrow> 0 < n \<Longrightarrow> n < 2 ^ 31 \<Longrightarrow> balanced B (L\<lparr>lg_next := n\<rparr>)"
  by (simp add: balanced_def lg_wf_def lg_refs_def)

lemma balanced_wf: "balanced B L \<Longrightarrow> lg_wf B L"
  by (simp add: balanced_def)

lemma lg_upd_same: "f (lg_slots L ! i) = lg_slots L ! i \<Longrightarrow> lg_upd i f L = L"
  by (cases "i < length (lg_slots L)") (simp_all add: lg_upd_def list_update_beyond)

lemma lg_upd_cong: "f (lg_slots L ! i) = g (lg_slots L ! i) \<Longrightarrow> lg_upd i f L = lg_upd i g L"
  by (simp add: lg_upd_def)

lemma lg_free_eq: "f (lg_slots L ! i) = (False, 0, False, 0) \<Longrightarrow> lg_upd i f L = lg_free i L"
  by (simp add: lg_free_def lg_upd_def)

end
