(* ===== verification/Ipc_Recv.thy ===== *)
theory Ipc_Recv
  imports Ipc_Select
begin

text \<open>
  The receive path: RECV (task/ipc_tcp.c), RECVFROM (task/ipc_dgram.c), RECVMSG
  (task/ipc_msg.c) and \<open>tn_service_pending_recv\<close> (task/ipc_dispatch.c), which re-runs the
  handler of a parked receive when data arrives.  Lengths of 16 bits in the code are natural
  numbers here: a pbuf holds at most 65535 bytes and \<open>req_len\<close> is clipped to that.
\<close>

abbreviation (input) MSG_OOB :: u32 where "MSG_OOB \<equiv> 1"
abbreviation (input) MSG_PEEK :: u32 where "MSG_PEEK \<equiv> 2"
abbreviation (input) MSG_TRUNC :: u32 where "MSG_TRUNC \<equiv> 0x10"
abbreviation (input) MSG_DONTWAIT :: u32 where "MSG_DONTWAIT \<equiv> 0x80"

definition has_flag :: "int \<Rightarrow> u32 \<Rightarrow> bool" where
  "has_flag flags f = (to_ULONG flags AND f \<noteq> 0)"

definition clip_len :: "int \<Rightarrow> nat" where
  "clip_len len = (if len > 0xFFFF then 0xFFFF else nat len)"

text \<open>\<open>pbuf_copy_partial(p, dst, len, off)\<close>\<close>

definition pbuf_copy_partial :: "bytes \<Rightarrow> ptr \<Rightarrow> nat \<Rightarrow> nat \<Rightarrow> mem \<Rightarrow> mem" where
  "pbuf_copy_partial p dst len off m = store_bytes m dst (take len (drop off p))"

text \<open>Take the packet at the head off the queue and release it.\<close>

definition rx_discard :: "env \<Rightarrow> nat \<Rightarrow> TnDaemon \<Rightarrow> TnDaemon" where
  "rx_discard E i d =
     tn_rxpkt_put E (lwdo E (PbufFree (pk_p (hd (s_rx (slot_of d i))))) (upd_slot i rx_pop_slot d))"

text \<open>An empty queue on a live socket: EWOULDBLOCK, or park the request.\<close>

definition recv_wait :: "nat \<Rightarrow> ptr \<Rightarrow> int \<Rightarrow> TnDaemon \<Rightarrow> TnDaemon \<times> action" where
  "recv_wait i imsg flags d =
     (if s_is_nonblocking (slot_of d i) \<or> has_flag flags MSG_DONTWAIT
      then answer imsg (-1) EWOULDBLOCK d
      else tn_slot_park_recv i imsg d)"

section \<open>RECV\<close>

text \<open>MSG_PEEK on a stream: copy from the queued packets until \<open>req_len\<close> bytes are there.\<close>

fun recv_peek :: "bool \<Rightarrow> nat \<Rightarrow> ptr \<Rightarrow> TnRxPacket list \<Rightarrow> nat \<Rightarrow> mem \<Rightarrow> mem \<times> nat" where
  "recv_peek at_head req_len buf [] copied m = (m, copied)"
| "recv_peek at_head req_len buf (pk # pks) copied m =
     (if copied < req_len
      then let off = (if at_head then pk_offset pk else 0);
               avail = length (pk_p pk) - off;
               chunk = (if avail < req_len - copied then avail else req_len - copied)
           in recv_peek False req_len buf pks (copied + chunk)
                (pbuf_copy_partial (pk_p pk) (buf + word_of_nat copied) chunk off m)
      else (m, copied))"

definition recv_stream_take :: "env \<Rightarrow> nat \<Rightarrow> ptr \<Rightarrow> nat \<Rightarrow> TnDaemon \<Rightarrow> TnDaemon \<times> nat" where
  "recv_stream_take E i buf req_len d =
     (let pkt = hd (s_rx (slot_of d i));
          avail = length (pk_p pkt) - pk_offset pkt;
          to_copy = (if avail < req_len then avail else req_len);
          off = pk_offset pkt + to_copy;
          d1 = d\<lparr>d_mem := pbuf_copy_partial (pk_p pkt) buf to_copy (pk_offset pkt) (d_mem d)\<rparr>;
          d2 = upd_slot i (\<lambda>s. s\<lparr>s_rx := pkt\<lparr>pk_offset := off\<rparr> # tl (s_rx s)\<rparr>) d1;
          pcb = s_tcp_pcb (slot_of d2 i);
          d3 = (if pcb \<noteq> NULL then lwdo E (TcpRecved pcb to_copy) d2 else d2)
      in (if off \<ge> length (pk_p pkt) then rx_discard E i d3 else d3, to_copy))"

definition recv_stream_empty :: "nat \<Rightarrow> ptr \<Rightarrow> int \<Rightarrow> TnDaemon \<Rightarrow> TnDaemon \<times> action" where
  "recv_stream_empty i imsg flags d =
     (let s = slot_of d i in
      if s_shut_rd s \<or> s_tcp_state s = TCP_PEER_CLOSED then answer imsg 0 0 d
      else if s_tcp_state s = TCP_ERROR
      then answer imsg (-1) (if s_last_error s \<noteq> 0 then s_last_error s else ECONNRESET)
             (upd_slot i (\<lambda>s. s\<lparr>s_last_error := 0\<rparr>) d)
      else if s_tcp_state s \<noteq> TCP_CONNECTING \<and> s_tcp_state s \<noteq> TCP_ESTABLISHED
      then answer imsg (-1) ENOTCONN d
      else recv_wait i imsg flags d)"

text \<open>A datagram is copied from its start and, without MSG_PEEK, leaves the queue whole.\<close>

definition recv_dgram_take :: "env \<Rightarrow> nat \<Rightarrow> ptr \<Rightarrow> nat \<Rightarrow> bool \<Rightarrow> TnDaemon \<Rightarrow> TnDaemon \<times> nat" where
  "recv_dgram_take E i buf req_len peek d =
     (let pkt = hd (s_rx (slot_of d i));
          avail = length (pk_p pkt);
          to_copy = (if avail < req_len then avail else req_len);
          d1 = d\<lparr>d_mem := pbuf_copy_partial (pk_p pkt) buf to_copy 0 (d_mem d)\<rparr>
      in (if peek then d1 else rx_discard E i d1, to_copy))"

definition tn_ipc_cmd_recv :: "env \<Rightarrow> ptr \<Rightarrow> nat \<Rightarrow> TnDaemon \<Rightarrow> TnDaemon \<times> action" where
  "tn_ipc_cmd_recv E imsg i d =
     (let m = d_msgs d imsg; buf = im_ptrs m 0; len = im_args m 1; flags = im_args m 2;
          s = slot_of d i in
      if buf = NULL \<or> len < 0 then answer imsg (-1) EBADF d
      else if has_flag flags MSG_OOB then answer imsg (-1) EOPNOTSUPP d
      else if s_type s = SOCK_STREAM then
        (if s_rx s \<noteq> [] then
           (if has_flag flags MSG_PEEK
            then let (m1, copied) = recv_peek True (clip_len len) buf (s_rx s) 0 (d_mem d)
                 in answer imsg (int copied) 0 (d\<lparr>d_mem := m1\<rparr>)
            else let (d1, to_copy) = recv_stream_take E i buf (clip_len len) d
                 in answer imsg (int to_copy) 0 d1)
         else recv_stream_empty i imsg flags d)
      else if s_type s = SOCK_DGRAM \<or> s_type s = SOCK_RAW then
        (if s_rx s \<noteq> []
         then let (d1, to_copy) = recv_dgram_take E i buf (clip_len len) (has_flag flags MSG_PEEK) d
              in answer imsg (int to_copy) 0 d1
         else recv_wait i imsg flags d)
      else answer imsg (-1) EOPNOTSUPP d)"

section \<open>RECVFROM\<close>

definition recvfrom_take :: "env \<Rightarrow> nat \<Rightarrow> ptr \<Rightarrow> nat \<Rightarrow> bool \<Rightarrow> ptr \<Rightarrow> ptr \<Rightarrow> u16 \<Rightarrow> TnDaemon \<Rightarrow> TnDaemon \<times> nat" where
  "recvfrom_take E i buf req_len peek from fromlen port d =
     (let pkt = hd (s_rx (slot_of d i));
          avail = length (pk_p pkt);
          to_copy = (if avail < req_len then avail else req_len);
          m1 = pbuf_copy_partial (pk_p pkt) buf to_copy 0 (d_mem d);
          d1 = d\<lparr>d_mem := tn_store_client_sockaddr m1 from fromlen port (pk_src_ip pkt)\<rparr>
      in (if peek then d1 else rx_discard E i d1, to_copy))"

definition tn_ipc_cmd_recvfrom :: "env \<Rightarrow> ptr \<Rightarrow> nat \<Rightarrow> TnDaemon \<Rightarrow> TnDaemon \<times> action" where
  "tn_ipc_cmd_recvfrom E imsg i d =
     (let m = d_msgs d imsg; buf = im_ptrs m 0; len = im_args m 1; flags = im_args m 2;
          from = im_ptrs m 1; fromlen = im_ptrs m 2; s = slot_of d i in
      if buf = NULL \<or> len < 0 then answer imsg (-1) EBADF d
      else if has_flag flags MSG_OOB then answer imsg (-1) EOPNOTSUPP d
      else if s_type s = SOCK_STREAM then
        (let (d1, ret) = tn_ipc_cmd_recv E imsg i d
         in if ret = REPLY_NOW \<and> im_result (d_msgs d1 imsg) \<ge> 0 \<and> fromlen \<noteq> NULL
            then (d1\<lparr>d_mem := store_u32 (d_mem d1) fromlen 0\<rparr>, ret) else (d1, ret))
      else if s_type s = SOCK_DGRAM \<or> s_type s = SOCK_RAW then
        (if s_rx s \<noteq> []
         then let (d1, to_copy) = recvfrom_take E i buf (clip_len len) (has_flag flags MSG_PEEK) from fromlen
                    (if s_type s = SOCK_DGRAM then pk_src_port (hd (s_rx s)) else 0) d
              in answer imsg (int to_copy) 0 d1
         else recv_wait i imsg flags d)
      else answer imsg (-1) EOPNOTSUPP d)"

section \<open>RECVMSG\<close>

text \<open>
  The client's \<open>msghdr\<close> (28 bytes: name, namelen, iov, iovlen, control, controllen, flags) and
  its \<open>iovec\<close> array (8 bytes per entry) are read byte-wise from client memory.
\<close>

definition tn_msg_iov_get :: "mem \<Rightarrow> ptr \<Rightarrow> nat \<Rightarrow> ptr \<times> u32" where
  "tn_msg_iov_get m iov i =
     (load_u32 m (iov + word_of_nat (8 * i)), load_u32 m (iov + word_of_nat (8 * i + 4)))"

record msghdr =
  mh_name :: ptr
  mh_namelen :: u32
  mh_iov :: ptr
  mh_iovlen :: u32
  mh_control :: ptr

definition msghdr_get :: "mem \<Rightarrow> ptr \<Rightarrow> msghdr" where
  "msghdr_get m u = \<lparr>mh_name = load_u32 m u, mh_namelen = load_u32 m (u + 4), mh_iov = load_u32 m (u + 8),
     mh_iovlen = load_u32 m (u + 12), mh_control = load_u32 m (u + 16)\<rparr>"

definition store_namelen :: "ptr \<Rightarrow> u32 \<Rightarrow> mem \<Rightarrow> mem" where
  "store_namelen u v m = store_u32 m (u + 4) v"

definition store_controllen :: "ptr \<Rightarrow> u32 \<Rightarrow> mem \<Rightarrow> mem" where
  "store_controllen u v m = store_u32 m (u + 20) v"

definition store_msg_flags :: "ptr \<Rightarrow> u32 \<Rightarrow> mem \<Rightarrow> mem" where
  "store_msg_flags u v m = store_u32 m (u + 24) v"

text \<open>The space the vector offers, a 32-bit sum; \<open>None\<close> for a non-empty entry at \<open>NULL\<close>.\<close>

fun iov_space :: "mem \<Rightarrow> ptr \<Rightarrow> nat list \<Rightarrow> u32 \<Rightarrow> u32 option" where
  "iov_space m iov [] tot = Some tot"
| "iov_space m iov (k # ks) tot =
     (let (base, len) = tn_msg_iov_get m iov k in
      if len > 0 \<and> base = NULL then None else iov_space m iov ks (tot + len))"

text \<open>
  The inner loop that spreads the bytes \<open>bs\<close> of one packet over the vector from entry \<open>cur\<close>,
  offset \<open>off\<close>; gives memory, bytes copied and the new cursor.  Entries are re-read each
  time, so a buffer that overlays the vector is handled as the code handles it.
\<close>

function scatter :: "bytes \<Rightarrow> ptr \<Rightarrow> nat \<Rightarrow> nat \<Rightarrow> u32 \<Rightarrow> mem \<Rightarrow> mem \<times> nat \<times> nat \<times> u32" where
  "scatter bs iov n cur off m =
     (if bs = [] \<or> n \<le> cur then (m, 0, cur, off)
      else let v = tn_msg_iov_get m iov cur;
               rem_space = snd v - off;
               space = (if rem_space > 0xFFFF then 0xFFFF else unat rem_space)
           in if space = 0 then scatter bs iov n (cur + 1) 0 m
              else let chunk = (if length bs < space then length bs else space);
                       r = scatter (drop chunk bs) iov n cur (off + word_of_nat chunk)
                             (store_bytes m (fst v + off) (take chunk bs))
                   in (fst r, chunk + fst (snd r), snd (snd r)))"
  by pat_completeness auto
termination
  by (relation "measures [\<lambda>(bs, iov, n, cur, off, m). n - cur, \<lambda>(bs, iov, n, cur, off, m). length bs]")
     (auto simp: Let_def split: if_splits)

declare scatter.simps [simp del]

fun recvmsg_peek :: "bool \<Rightarrow> TnRxPacket list \<Rightarrow> ptr \<Rightarrow> nat \<Rightarrow> u32 \<Rightarrow> nat \<Rightarrow> u32 \<Rightarrow> u32 \<Rightarrow> mem \<Rightarrow> mem \<times> u32" where
  "recvmsg_peek at_head [] iov n space cur ioff tot m = (m, tot)"
| "recvmsg_peek at_head (pk # pks) iov n space cur ioff tot m =
     (if n \<le> cur \<or> space \<le> tot then (m, tot)
      else let off = (if at_head then pk_offset pk else 0);
               (m1, c, cur1, ioff1) = scatter (drop off (pk_p pk)) iov n cur ioff m
           in recvmsg_peek False pks iov n space cur1 ioff1 (tot + word_of_nat c) m1)"

text \<open>
  The consuming loop.  A packet that is not exhausted stays at the head; the inner loop then
  stopped because the vector is full, which ends the loop too.
\<close>

fun recvmsg_consume ::
  "env \<Rightarrow> nat \<Rightarrow> TnRxPacket list \<Rightarrow> ptr \<Rightarrow> nat \<Rightarrow> u32 \<Rightarrow> nat \<Rightarrow> u32 \<Rightarrow> u32 \<Rightarrow> TnDaemon \<Rightarrow> TnDaemon \<times> u32" where
  "recvmsg_consume E i [] iov n space cur ioff tot d = (d, tot)"
| "recvmsg_consume E i (pk # pks) iov n space cur ioff tot d =
     (if n \<le> cur \<or> space \<le> tot then (d, tot)
      else let (m1, c, cur1, ioff1) = scatter (drop (pk_offset pk) (pk_p pk)) iov n cur ioff (d_mem d);
               d1 = upd_slot i (\<lambda>s. s\<lparr>s_rx := pk\<lparr>pk_offset := pk_offset pk + c\<rparr> # pks\<rparr>) (d\<lparr>d_mem := m1\<rparr>);
               pcb = s_tcp_pcb (slot_of d1 i);
               d2 = (if c > 0 \<and> pcb \<noteq> NULL then lwdo E (TcpRecved pcb c) d1 else d1)
           in if pk_offset pk + c \<ge> length (pk_p pk)
              then recvmsg_consume E i pks iov n space cur1 ioff1 (tot + word_of_nat c)
                     (lwdos E [PbufFree (pk_p pk), FreeRxPkt] (upd_slot i rx_pop_slot d2))
              else (d2, tot + word_of_nat c))"

definition recvmsg_stream :: "env \<Rightarrow> ptr \<Rightarrow> nat \<Rightarrow> ptr \<Rightarrow> msghdr \<Rightarrow> int \<Rightarrow> u32 \<Rightarrow> TnDaemon \<Rightarrow> TnDaemon \<times> action" where
  "recvmsg_stream E imsg i u mh flags space d =
     (let s = slot_of d i;
          clear_name = (\<lambda>d. if mh_name mh \<noteq> NULL then d\<lparr>d_mem := store_namelen u 0 (d_mem d)\<rparr> else d) in
      if s_rx s \<noteq> [] then
        (let (d1, tot) =
           (if has_flag flags MSG_PEEK
            then let (m1, t) = recvmsg_peek True (s_rx s) (mh_iov mh) (unat (mh_iovlen mh)) space 0 0 0 (d_mem d)
                 in (d\<lparr>d_mem := m1\<rparr>, t)
            else recvmsg_consume E i (s_rx s) (mh_iov mh) (unat (mh_iovlen mh)) space 0 0 0 d)
         in answer imsg (to_LONG tot) 0 (clear_name d1))
      else if s_shut_rd s \<or> s_tcp_state s = TCP_PEER_CLOSED then answer imsg 0 0 (clear_name d)
      else if s_tcp_state s = TCP_ERROR then answer imsg (-1) ECONNRESET d
      else if s_tcp_state s \<noteq> TCP_CONNECTING \<and> s_tcp_state s \<noteq> TCP_ESTABLISHED then answer imsg (-1) ENOTCONN d
      else recv_wait i imsg flags d)"

definition recvmsg_dgram :: "env \<Rightarrow> ptr \<Rightarrow> nat \<Rightarrow> ptr \<Rightarrow> msghdr \<Rightarrow> int \<Rightarrow> TnDaemon \<Rightarrow> TnDaemon \<times> action" where
  "recvmsg_dgram E imsg i u mh flags d =
     (let s = slot_of d i; pkt = hd (s_rx s) in
      if s_rx s \<noteq> [] then
        (let (m1, c, cur1, ioff1) = scatter (pk_p pkt) (mh_iov mh) (unat (mh_iovlen mh)) 0 0 (d_mem d);
             m2 = (if length (pk_p pkt) > c then store_msg_flags u MSG_TRUNC m1 else m1);
             m3 = (if mh_name mh \<noteq> NULL \<and> mh_namelen mh \<ge> 16
                   then store_namelen u 16 (tn_sockin_store_bytes m2 (mh_name mh) 2
                          (if s_type s = SOCK_DGRAM then pk_src_port pkt else 0) (pk_src_ip pkt))
                   else m2);
             d1 = d\<lparr>d_mem := m3\<rparr>;
             d2 = (if has_flag flags MSG_PEEK then d1
                   else lwdos E [PbufFree (pk_p pkt), FreeRxPkt] (upd_slot i rx_pop_slot d1))
         in answer imsg (int c) 0 d2)
      else recv_wait i imsg flags d)"

definition tn_ipc_cmd_recvmsg :: "env \<Rightarrow> ptr \<Rightarrow> nat \<Rightarrow> TnDaemon \<Rightarrow> TnDaemon \<times> action" where
  "tn_ipc_cmd_recvmsg E imsg i d =
     (let u = im_ptrs (d_msgs d imsg) 0; flags = im_args (d_msgs d imsg) 1;
          mh = msghdr_get (d_mem d) u; s = slot_of d i in
      if u = NULL then answer imsg (-1) EINVAL d
      else if has_flag flags MSG_OOB then answer imsg (-1) EOPNOTSUPP d
      else if mh_iov mh = NULL \<or> mh_iovlen mh = 0 \<or> mh_iovlen mh > 1024 then answer imsg (-1) EINVAL d
      else case iov_space (d_mem d) (mh_iov mh) [0..<unat (mh_iovlen mh)] 0 of
        None \<Rightarrow> answer imsg (-1) EFAULT d
      | Some space \<Rightarrow>
          let m1 = store_msg_flags u 0 (d_mem d);
              d1 = d\<lparr>d_mem := (if mh_control mh \<noteq> NULL then store_controllen u 0 m1 else m1)\<rparr>
          in if s_type s = SOCK_STREAM then recvmsg_stream E imsg i u mh flags space d1
             else if s_type s = SOCK_DGRAM \<or> s_type s = SOCK_RAW then recvmsg_dgram E imsg i u mh flags d1
             else answer imsg (-1) EOPNOTSUPP d1)"

section \<open>Parked receives\<close>

abbreviation (input) CMD_RECVFROM :: int where "CMD_RECVFROM \<equiv> 9"
abbreviation (input) CMD_RECV :: int where "CMD_RECV \<equiv> 10"
abbreviation (input) CMD_RECVMSG :: int where "CMD_RECVMSG \<equiv> 26"

definition run_recv :: "env \<Rightarrow> ptr \<Rightarrow> nat \<Rightarrow> TnDaemon \<Rightarrow> TnDaemon \<times> action" where
  "run_recv E imsg i d =
     (let cmd = im_cmd (d_msgs d imsg) in
      if cmd = CMD_RECV then tn_ipc_cmd_recv E imsg i d
      else if cmd = CMD_RECVFROM then tn_ipc_cmd_recvfrom E imsg i d
      else if cmd = CMD_RECVMSG then tn_ipc_cmd_recvmsg E imsg i d
      else answer imsg (-1) EINVAL d)"

definition tn_service_pending_recv :: "env \<Rightarrow> nat \<Rightarrow> TnDaemon \<Rightarrow> TnDaemon" where
  "tn_service_pending_recv E i d =
     (let imsg = s_pending_recv_msg (slot_of d i) in
      if imsg = NULL then d
      else let (d1, action) = run_recv E imsg i d
           in if action = REPLY_NOW
              then ReplyMsg imsg (upd_slot i (\<lambda>s. s\<lparr>s_pending_recv_msg := NULL, s_recv_deadline_tick := 0\<rparr>) d1)
              else d1)"

end
