(* ===== verification/Tcp_Callbacks.thy ===== *)
theory Tcp_Callbacks
  imports Ipc_Recv
begin

text \<open>
  The callbacks tolunnet registers with lwIP (task/ipc_tcp.c lines 17-439, task/ipc_dgram.c
  lines 36-135) and \<open>tn_drain_loopback\<close> (task/netif_mgr.c), which lets lwIP deliver what is
  queued on the loopback interfaces.
\<close>

section \<open>Writing to the send buffer\<close>

definition tn_tcp_iov_get :: "mem \<Rightarrow> ptr \<Rightarrow> nat \<Rightarrow> ptr \<times> u32" where
  "tn_tcp_iov_get m iov i =
     (load_u32 m (iov + word_of_nat (8 * i)), load_u32 m (iov + word_of_nat (8 * i + 4)))"

text \<open>The entry that holds stream byte \<open>pos\<close>, and its stream offset; \<open>None\<close> is ERR_VAL.\<close>

function iov_find :: "mem \<Rightarrow> ptr \<Rightarrow> nat \<Rightarrow> int \<Rightarrow> nat \<Rightarrow> int \<Rightarrow> (nat \<times> int) option" where
  "iov_find m iov iovcnt pos vi vbase =
     (if vi \<ge> iovcnt then None
      else if pos - vbase < to_LONG (snd (tn_tcp_iov_get m iov vi)) then Some (vi, vbase)
      else iov_find m iov iovcnt pos (vi + 1) (vbase + to_LONG (snd (tn_tcp_iov_get m iov vi))))"
  by pat_completeness auto
termination
  by (relation "measure (\<lambda>(m, iov, iovcnt, pos, vi, vbase). iovcnt - vi)") auto

declare iov_find.simps [simp del]

text \<open>Where the bytes from stream position \<open>pos\<close> are: the entry cursor, the address and how many.\<close>

definition write_src :: "mem \<Rightarrow> ptr \<Rightarrow> ptr \<Rightarrow> nat \<Rightarrow> int \<Rightarrow> int \<Rightarrow> nat \<Rightarrow> int \<Rightarrow> (nat \<times> int \<times> ptr \<times> int) option" where
  "write_src m buf iov iovcnt len pos vi vbase =
     (if iov = NULL then Some (vi, vbase, buf + word_of_int pos, len - pos)
      else case iov_find m iov iovcnt pos vi vbase of
        None \<Rightarrow> None
      | Some (vi1, vbase1) \<Rightarrow>
          let v = tn_tcp_iov_get m iov vi1
          in Some (vi1, vbase1, fst v + word_of_int (pos - vbase1), to_LONG (snd v) - (pos - vbase1)))"

lemma iov_find_left:
  "iov_find m iov n pos vi vbase = Some (vi1, vbase1) \<Longrightarrow>
   pos - vbase1 < to_LONG (snd (tn_tcp_iov_get m iov vi1))"
  by (induction m iov n pos vi vbase rule: iov_find.induct)
     (subst (asm) (2) iov_find.simps, auto split: if_splits)

lemma write_src_left:
  "write_src m buf iov n len pos vi vbase = Some (vi1, vbase1, src, left) \<Longrightarrow> pos < len \<Longrightarrow> 0 < left"
  by (auto simp: write_src_def Let_def dest: iov_find_left split: if_splits option.splits)

definition write_chunk :: "int \<Rightarrow> u16 \<Rightarrow> int" where
  "write_chunk left snd_buf =
     (let chunk = (if left > 0xFFFF then 0xFFFF else left)
      in if chunk > uint snd_buf then uint snd_buf else chunk)"

lemma write_chunk_pos: "0 < left \<Longrightarrow> snd_buf \<noteq> 0 \<Longrightarrow> 0 < write_chunk left snd_buf"
  using uint_ge_0 [of snd_buf] by (auto simp: write_chunk_def Let_def less_le uint_0_iff)

text \<open>
  \<open>tn_tcp_write_some\<close>: gives the lwIP error and the new stream position.  Every round queues
  at least one byte, so the loop ends.
\<close>

function tn_tcp_write_some ::
  "env \<Rightarrow> ptr \<Rightarrow> ptr \<Rightarrow> ptr \<Rightarrow> nat \<Rightarrow> int \<Rightarrow> nat \<Rightarrow> int \<Rightarrow> int \<Rightarrow> TnDaemon \<Rightarrow> TnDaemon \<times> int \<times> int" where
  "tn_tcp_write_some E pcb buf iov iovcnt len vi vbase pos d =
     (if len \<le> pos then (d, ERR_OK, pos)
      else if tp_snd_buf (lw_tcp (d_lw d) pcb) = 0 then (d, ERR_MEM, pos)
      else case write_src (d_mem d) buf iov iovcnt len pos vi vbase of
        None \<Rightarrow> (d, ERR_VAL, pos)
      | Some (vi1, vbase1, src, left) \<Rightarrow>
          let chunk = write_chunk left (tp_snd_buf (lw_tcp (d_lw d) pcb));
              r = lwcall E (TcpWrite pcb (load_bytes (d_mem d) src (nat chunk))) d
          in if snd r \<noteq> ERR_OK then (fst r, snd r, pos)
             else tn_tcp_write_some E pcb buf iov iovcnt len vi1 vbase1 (pos + chunk) (fst r))"
  by pat_completeness auto
termination
proof (relation "measure (\<lambda>(E, pcb, buf, iov, iovcnt, len, vi, vbase, pos, d). nat (len - pos))", goal_cases)
  case (2 E pcb buf iov iovcnt len vi vbase pos d x vi1 y vbase1 z src left chunk r)
  then have "0 < chunk"
    using write_src_left [of "d_mem d" buf iov iovcnt len pos vi vbase vi1 vbase1 src left]
      write_chunk_pos [of left "tp_snd_buf (lw_tcp (d_lw d) pcb)"] by simp
  with 2 show ?case by simp
qed simp

declare tn_tcp_write_some.simps [simp del]

definition tn_tcp_write_errno :: "int \<Rightarrow> int" where
  "tn_tcp_write_errno werr =
     (if werr = ERR_CONN \<or> werr = ERR_CLSD then ENOTCONN
      else if werr = ERR_ARG \<or> werr = ERR_VAL then EINVAL else ENOBUFS)"

section \<open>Parked sends\<close>

definition tn_tcp_resume_send :: "env \<Rightarrow> nat \<Rightarrow> TnDaemon \<Rightarrow> TnDaemon" where
  "tn_tcp_resume_send E i d =
     (let s = slot_of d i; imsg = s_pending_send_msg s; m = d_msgs d imsg in
      if imsg = NULL then d
      else if s_shut_wr s then tn_slot_reply_send i EPIPE True d
      else if s_tcp_pcb s = NULL then tn_slot_reply_send i ECONNRESET True d
      else let r = tn_tcp_write_some E (s_tcp_pcb s) (im_ptrs m 0) (s_send_iov s) (unat (s_send_iovcnt s))
                     (im_args m 1) 0 0 (s_send_done s) d;
               werr = fst (snd r); done_pos = snd (snd r);
               d2 = (if done_pos \<noteq> s_send_done s then lwdo E (TcpOutput (s_tcp_pcb s)) (fst r) else fst r);
               d3 = upd_slot i (\<lambda>s. s\<lparr>s_send_done := done_pos\<rparr>) d2
           in if werr = ERR_MEM then d3
              else tn_slot_reply_send i (tn_tcp_write_errno werr) True d3)"

definition slot_idx_ok :: "int \<Rightarrow> bool" where
  "slot_idx_ok k = (0 \<le> k \<and> k < int TN_MAX_GLOBAL_SOCKETS)"

definition tn_tcp_poll_cb :: "env \<Rightarrow> int \<Rightarrow> ptr \<Rightarrow> TnDaemon \<Rightarrow> TnDaemon" where
  "tn_tcp_poll_cb E arg pcb d =
     (let s = slot_of d (nat arg) in
      if slot_idx_ok arg \<and> s_in_use s \<and> s_tcp_pcb s = pcb \<and> s_pending_send_msg s \<noteq> NULL
      then tn_tcp_resume_send E (nat arg) d else d)"

definition tn_tcp_sent_cb :: "env \<Rightarrow> int \<Rightarrow> ptr \<Rightarrow> TnDaemon \<Rightarrow> TnDaemon" where
  "tn_tcp_sent_cb E arg pcb d =
     (let i = nat arg; s = slot_of d i in
      if slot_idx_ok arg \<and> s_in_use s \<and> s_tcp_pcb s = pcb
      then tn_record_socket_event i FD_WRITE (tn_signal_socket i
             (if s_pending_send_msg s \<noteq> NULL then tn_tcp_resume_send E i d else d))
      else d)"

section \<open>Receiving\<close>

text \<open>lwIP's \<open>CLOSING\<close> is state 8 and \<open>TIME_WAIT\<close> state 10.\<close>

definition tn_tcp_pcb_finished :: "lwip \<Rightarrow> ptr \<Rightarrow> bool" where
  "tn_tcp_pcb_finished l pcb = (tp_state (lw_tcp l pcb) = 8 \<or> tp_state (lw_tcp l pcb) = 10)"

definition tn_tcp_detach_finished :: "env \<Rightarrow> nat \<Rightarrow> ptr \<Rightarrow> TnDaemon \<Rightarrow> TnDaemon" where
  "tn_tcp_detach_finished E i pcb d =
     tn_slot_reply_send i EPIPE True
       (upd_slot i (\<lambda>s. s\<lparr>s_tcp_pcb := NULL, s_shut_wr := True\<rparr>)
         (lwdos E [TcpArg pcb ArgNull, TcpRecv pcb CbNull, TcpSent pcb CbNull, TcpErr pcb CbNull,
                   TcpPoll pcb CbNull 0] d))"

text \<open>The result is 0, or -1 with the segment still owned by the caller.\<close>

definition tn_tcp_queue_clone :: "env \<Rightarrow> nat \<Rightarrow> bytes \<Rightarrow> bool \<Rightarrow> TnDaemon \<Rightarrow> TnDaemon \<times> int" where
  "tn_tcp_queue_clone E i p capped d =
     (if capped \<and> s_rx_count (slot_of d i) \<ge> TN_MAX_RX_QUEUE_PER_SOCKET then (d, -1)
      else let (d1, q) = lwcall E (PbufClone p) d in
        if q = 0 then (d1, -1)
        else let (d2, rc) = (if capped then tn_rx_queue_push E i (Some p) None 0 d1
                             else tn_rx_queue_push_nocap E i (Some p) None 0 d1)
             in if rc \<noteq> 0 then (lwdo E (PbufFree p) d2, -1) else (lwdo E (PbufFree p) d2, 0))"

text \<open>Wake the owner and run the parked receive: the common tail of the callbacks.\<close>

definition notify_recv :: "env \<Rightarrow> nat \<Rightarrow> u32 \<Rightarrow> TnDaemon \<Rightarrow> TnDaemon" where
  "notify_recv E i ev d =
     (let d1 = tn_record_socket_event i ev (tn_signal_socket i d)
      in if s_pending_recv_msg (slot_of d1 i) \<noteq> NULL then tn_service_pending_recv E i d1 else d1)"

definition free_opt :: "env \<Rightarrow> bytes option \<Rightarrow> TnDaemon \<Rightarrow> TnDaemon" where
  "free_opt E p d = (case p of Some bs \<Rightarrow> lwdo E (PbufFree bs) d | None \<Rightarrow> d)"

definition tn_tcp_recv_cb :: "env \<Rightarrow> int \<Rightarrow> ptr \<Rightarrow> bytes option \<Rightarrow> TnDaemon \<Rightarrow> TnDaemon \<times> int" where
  "tn_tcp_recv_cb E arg pcb p d =
     (let i = nat arg; s = slot_of d i in
      if \<not> slot_idx_ok arg then (free_opt E p d, ERR_OK)
      else if \<not> s_in_use s \<or> s_tcp_pcb s \<noteq> pcb then (free_opt E p d, ERR_OK)
      else case p of
        None \<Rightarrow>
          let d1 = upd_slot i (\<lambda>s. s\<lparr>s_tcp_state := TCP_PEER_CLOSED\<rparr>) d;
              d2 = (if tn_tcp_pcb_finished (d_lw d1) pcb then tn_tcp_detach_finished E i pcb d1 else d1)
          in (notify_recv E i (FD_CLOSE OR FD_READ) d2, ERR_OK)
      | Some bs \<Rightarrow>
          if s_shut_rd s then (lwdos E [TcpRecved pcb (length bs), PbufFree bs] d, ERR_OK)
          else let (d1, rc) = tn_tcp_queue_clone E i bs True d in
            if rc = 0 then (notify_recv E i FD_READ d1, ERR_OK)
            else if tn_tcp_pcb_finished (d_lw d1) pcb then
              (let (d2, rc2) = tn_tcp_queue_clone E i bs False d1 in
               if rc2 \<noteq> 0 then (lwdo E (PbufFree bs) d2, ERR_OK)
               else (notify_recv E i FD_READ d2, ERR_OK))
            else (d1, ERR_MEM))"

section \<open>Connection events\<close>

definition tcp_nagle_disable :: "ptr \<Rightarrow> TnDaemon \<Rightarrow> TnDaemon" where
  "tcp_nagle_disable pcb = upd_tcp pcb (\<lambda>p. p\<lparr>tp_flags := tp_flags p OR 0x40\<rparr>)"

text \<open>Answer a blocked connect.\<close>

definition reply_connect :: "nat \<Rightarrow> int \<Rightarrow> int \<Rightarrow> TnDaemon \<Rightarrow> TnDaemon" where
  "reply_connect i r e d =
     (let cmsg = s_pending_connect_msg (slot_of d i) in
      upd_slot i (\<lambda>s. s\<lparr>s_pending_connect_msg := NULL\<rparr>) (ReplyMsg cmsg (set_reply cmsg r e d)))"

definition tn_tcp_connected_cb :: "env \<Rightarrow> int \<Rightarrow> ptr \<Rightarrow> TnDaemon \<Rightarrow> TnDaemon" where
  "tn_tcp_connected_cb E arg pcb d =
     (let i = nat arg; s = slot_of d i in
      if \<not> slot_idx_ok arg \<or> \<not> s_in_use s \<or> s_tcp_pcb s \<noteq> pcb then d
      else let d1 = upd_slot i (\<lambda>s. s\<lparr>s_tcp_state := TCP_ESTABLISHED\<rparr>) (tcp_nagle_disable pcb d);
               d2 = tn_record_socket_event i (FD_CONNECT OR FD_WRITE) (tn_signal_socket i d1)
           in if s_pending_connect_msg (slot_of d2 i) \<noteq> NULL then reply_connect i 0 0 d2 else d2)"

definition tcp_err_errno :: "TnTcpState \<Rightarrow> int \<Rightarrow> int" where
  "tcp_err_errno st err =
     (if st = TCP_CONNECTING then (if err = ERR_ABRT then ETIMEDOUT else ECONNREFUSED)
      else (if err = ERR_ABRT then ECONNABORTED else ECONNRESET))"

definition tn_tcp_err_cb :: "env \<Rightarrow> int \<Rightarrow> int \<Rightarrow> TnDaemon \<Rightarrow> TnDaemon" where
  "tn_tcp_err_cb E arg err d =
     (let i = nat arg; s = slot_of d i; eno = tcp_err_errno (s_tcp_state s) err;
          service = (\<lambda>d. if s_pending_recv_msg (slot_of d i) \<noteq> NULL then tn_service_pending_recv E i d else d) in
      if \<not> slot_idx_ok arg \<or> \<not> s_in_use s then d
      else let d1 = upd_slot i (\<lambda>s. s\<lparr>s_tcp_pcb := NULL\<rparr>) d in
        if err = ERR_CLSD \<and> s_tcp_state s \<noteq> TCP_CONNECTING
        then service (tn_slot_reply_send i EPIPE True
               (tn_record_socket_event i FD_CLOSE (tn_signal_socket i
                 (upd_slot i (\<lambda>s. s\<lparr>s_tcp_state := TCP_PEER_CLOSED, s_last_error := 0\<rparr>) d1))))
        else let d2 = tn_record_socket_event i FD_ERROR (tn_signal_socket i
                   (upd_slot i (\<lambda>s. s\<lparr>s_tcp_state := TCP_ERROR, s_last_error := eno\<rparr>) d1));
                 d3 = (if s_pending_connect_msg (slot_of d2 i) \<noteq> NULL
                       then upd_slot i (\<lambda>s. s\<lparr>s_last_error := 0\<rparr>) (reply_connect i (-1) eno d2) else d2)
             in service (tn_slot_reply_send i eno True d3))"

section \<open>Accepting\<close>

text \<open>Use the descriptor the client proposed when it is free, else the first free one.\<close>

definition claim_fd :: "ptr \<Rightarrow> int \<Rightarrow> nat \<Rightarrow> TnDaemon \<Rightarrow> TnDaemon \<times> int" where
  "claim_fd base fd slot_idx d =
     (if 0 \<le> fd \<and> fd < sb_dtablesize (d_bases d base) \<and> sb_fd_map (d_bases d base) ! nat fd = -1
      then (set_fd base (nat fd) (int slot_idx) d, fd)
      else tn_fd_alloc base (int slot_idx) d)"

text \<open>What an accepted socket takes over from the listening one.\<close>

definition inherit_opts :: "slot_opts \<Rightarrow> slot_opts \<Rightarrow> slot_opts" where
  "inherit_opts l n = n\<lparr>opt_nodelay := True, opt_keepalive := opt_keepalive l,
     opt_linger_onoff := opt_linger_onoff l, opt_linger_linger := opt_linger_linger l,
     opt_sndbuf := opt_sndbuf l, opt_rcvbuf := opt_rcvbuf l, opt_oobinline := opt_oobinline l,
     opt_mss := opt_mss l, opt_keepidle := opt_keepidle l, opt_keepintvl := opt_keepintvl l,
     opt_keepcnt := opt_keepcnt l\<rparr>"

definition inherit_pcb :: "slot_opts \<Rightarrow> tcp_pcb \<Rightarrow> tcp_pcb" where
  "inherit_pcb l p =
     (let p1 = p\<lparr>tp_flags := tp_flags p OR 0x40\<rparr>;
          p2 = (if opt_keepidle l > 0 then p1\<lparr>tp_keep_idle := to_ULONG (opt_keepidle l) * 1000\<rparr> else p1);
          p3 = (if opt_keepintvl l > 0 then p2\<lparr>tp_keep_intvl := to_ULONG (opt_keepintvl l) * 1000\<rparr> else p2);
          p4 = (if opt_keepcnt l > 0 then p3\<lparr>tp_keep_cnt := to_ULONG (opt_keepcnt l)\<rparr> else p3)
      in if opt_mss l > 0 \<and> opt_mss l < tp_mss p4 then p4\<lparr>tp_mss := opt_mss l\<rparr> else p4)"

text \<open>Bind the connection to its new slot: options, callbacks, peer address for the client.\<close>

definition adopt_pcb :: "env \<Rightarrow> ptr \<Rightarrow> nat \<Rightarrow> nat \<Rightarrow> ptr \<Rightarrow> TnDaemon \<Rightarrow> TnDaemon" where
  "adopt_pcb E imsg i j pcb d =
     (let lo = s_opts (slot_of d i); m = d_msgs d imsg;
          d1 = upd_slot j (\<lambda>s. s\<lparr>s_tcp_pcb := pcb, s_opts := inherit_opts lo (s_opts s)\<rparr>) d;
          d2 = upd_tcp pcb (inherit_pcb lo) d1;
          d3 = lwdos E [TcpArg pcb (ArgSlot j), TcpRecv pcb Cb_tcp_recv, TcpSent pcb Cb_tcp_sent,
                        TcpErr pcb Cb_tcp_err] d2;
          p = lw_tcp (d_lw d3) pcb
      in d3\<lparr>d_mem := tn_store_client_sockaddr (d_mem d3) (im_ptrs m 0) (im_ptrs m 1) (tp_remote_port p) (tp_remote_ip p)\<rparr>)"

text \<open>\<open>imsg->result\<close>, \<open>imsg->err_no\<close> and \<open>ReplyMsg\<close>.\<close>

definition reply_to :: "ptr \<Rightarrow> int \<Rightarrow> int \<Rightarrow> TnDaemon \<Rightarrow> TnDaemon" where
  "reply_to imsg r e d = ReplyMsg imsg (set_reply imsg r e d)"

definition accept_deliver :: "env \<Rightarrow> nat \<Rightarrow> ptr \<Rightarrow> TnDaemon \<Rightarrow> TnDaemon \<times> int" where
  "accept_deliver E i newpcb d =
     (let imsg = s_pending_accept_msg (slot_of d i); m = d_msgs d imsg; base = im_socket_base m;
          d1 = upd_slot i (\<lambda>s. s\<lparr>s_pending_accept_msg := NULL\<rparr>) d in
      case tn_slot_alloc base (im_client_task m) AF_INET SOCK_STREAM 0 d1 of
        (d2, None) \<Rightarrow> (reply_to imsg (-1) ENFILE (lwdo E (TcpAbort newpcb) d2), ERR_ABRT)
      | (d2, Some j) \<Rightarrow>
          let (d3, fd) = claim_fd base (im_args m 3) j d2 in
          if fd < 0
          then (reply_to imsg (-1) EMFILE (lwdo E (TcpAbort newpcb) (tn_slot_free E j d3)), ERR_ABRT)
          else let d4 = adopt_pcb E imsg i j newpcb (upd_slot j (\<lambda>s. s\<lparr>s_tcp_state := TCP_ESTABLISHED\<rparr>) d3);
                   d5 = set_reply imsg fd 0 d4
               in (ReplyMsg imsg (tn_record_socket_event j FD_WRITE d5), ERR_OK))"

definition tn_tcp_accept_cb :: "env \<Rightarrow> int \<Rightarrow> ptr \<Rightarrow> int \<Rightarrow> TnDaemon \<Rightarrow> TnDaemon \<times> int" where
  "tn_tcp_accept_cb E arg newpcb err d =
     (let i = nat arg; s = slot_of d i in
      if \<not> slot_idx_ok arg then (d, ERR_VAL)
      else if \<not> s_in_use s \<or> s_tcp_state s \<noteq> TCP_LISTENING then (d, ERR_VAL)
      else if err \<noteq> ERR_OK \<or> newpcb = NULL then (d, ERR_VAL)
      else if s_pending_accept_msg s \<noteq> NULL then accept_deliver E i newpcb d
      else if s_accept_count s \<ge> s_listen_backlog s then (lwdo E (TcpAbort newpcb) d, ERR_ABRT)
      else let (d1, rc) = tn_accept_queue_push E i newpcb d in
        if rc \<noteq> 0 then (lwdo E (TcpAbort newpcb) d1, ERR_ABRT)
        else (tn_record_socket_event i FD_ACCEPT (tn_signal_socket i d1), ERR_OK))"

section \<open>Datagrams\<close>

definition tn_dgram_rcvbuf_full :: "TnSocketSlot \<Rightarrow> bytes \<Rightarrow> bool" where
  "tn_dgram_rcvbuf_full s p =
     (if opt_rcvbuf (s_opts s) = 0 \<or> s_rx s = [] then False
      else queued_bytes (s_rx s) + length p > unat (to_ULONG (opt_rcvbuf (s_opts s))))"

definition tn_udp_recv_cb :: "env \<Rightarrow> int \<Rightarrow> bytes option \<Rightarrow> u32 \<Rightarrow> u16 \<Rightarrow> TnDaemon \<Rightarrow> TnDaemon" where
  "tn_udp_recv_cb E arg p addr port d =
     (let i = nat arg; s = slot_of d i in
      if \<not> slot_idx_ok arg \<or> \<not> s_in_use s then free_opt E p d
      else case p of
        None \<Rightarrow> d
      | Some bs \<Rightarrow>
          if s_rx_count s \<ge> TN_MAX_RX_QUEUE_PER_SOCKET \<or> tn_dgram_rcvbuf_full s bs
          then lwdo E (PbufFree bs) d
          else let (d1, q) = lwcall E (PbufClone bs) d;
                   d2 = lwdo E (PbufFree bs) d1
               in if q = 0 then d2
                  else let (d3, rc) = tn_rx_queue_push E i (Some bs) (Some addr) port d2 in
                    if rc \<noteq> 0 then lwdo E (PbufFree bs) d3 else notify_recv E i FD_READ d3)"

definition tn_raw_recv_cb :: "env \<Rightarrow> int \<Rightarrow> bytes option \<Rightarrow> u32 \<Rightarrow> TnDaemon \<Rightarrow> TnDaemon" where
  "tn_raw_recv_cb E arg p addr d =
     (let i = nat arg; s = slot_of d i in
      if \<not> slot_idx_ok arg \<or> \<not> s_in_use s then d
      else case p of
        None \<Rightarrow> d
      | Some bs \<Rightarrow>
          if s_rx_count s \<ge> TN_MAX_RX_QUEUE_PER_SOCKET \<or> tn_dgram_rcvbuf_full s bs then d
          else let (d1, q) = lwcall E (PbufClone bs) d in
            if q = 0 then d1
            else let (d2, rc) = tn_rx_queue_push E i (Some bs) (Some addr) 0 d1 in
              if rc \<noteq> 0 then lwdo E (PbufFree bs) d2 else notify_recv E i FD_READ d2)"

section \<open>Delivering loopback traffic\<close>

fun run_event :: "env \<Rightarrow> lwevent \<Rightarrow> TnDaemon \<Rightarrow> TnDaemon \<times> int" where
  "run_event E (EvTcpRecv a pcb p) d = tn_tcp_recv_cb E a pcb p d"
| "run_event E (EvTcpSent a pcb n) d = (tn_tcp_sent_cb E a pcb d, ERR_OK)"
| "run_event E (EvTcpPoll a pcb) d = (tn_tcp_poll_cb E a pcb d, ERR_OK)"
| "run_event E (EvTcpConnected a pcb) d = (tn_tcp_connected_cb E a pcb d, ERR_OK)"
| "run_event E (EvTcpErr a err) d = (tn_tcp_err_cb E a err d, ERR_OK)"
| "run_event E (EvTcpAccept a pcb err) d = tn_tcp_accept_cb E a pcb err d"
| "run_event E (EvQueuedRecv e pcb p) d = tn_tcp_queued_recv_cb E e pcb p d"
| "run_event E (EvQueuedErr e) d = (tn_tcp_queued_err_cb E e d, ERR_OK)"
| "run_event E (EvUdpRecv a p addr port) d = (tn_udp_recv_cb E a p addr port d, ERR_OK)"
| "run_event E (EvRawRecv a p addr) d = (tn_raw_recv_cb E a p addr d, 0)"

fun run_events :: "env \<Rightarrow> lwevent list \<Rightarrow> TnDaemon \<Rightarrow> TnDaemon" where
  "run_events E [] d = d"
| "run_events E (e # es) d =
     (let (d1, r) = run_event E e d in run_events E es (lwdo E (CbReturn r) d1))"

text \<open>At most 64 passes over the interfaces; the loop ends after a pass that found nothing.\<close>

fun drain_passes :: "env \<Rightarrow> nat \<Rightarrow> TnDaemon \<Rightarrow> TnDaemon" where
  "drain_passes E 0 d = d"
| "drain_passes E (Suc guard) d =
     (case ev_poll E (d_lw d) of
        None \<Rightarrow> d
      | Some (evs, l) \<Rightarrow> drain_passes E guard (run_events E evs (d\<lparr>d_lw := l\<rparr>)))"

definition tn_drain_loopback :: "env \<Rightarrow> TnDaemon \<Rightarrow> TnDaemon" where
  "tn_drain_loopback E d = drain_passes E 64 d"

end
