(* ===== verification/Ipc_Tcp.thy ===== *)
theory Ipc_Tcp
  imports Tcp_Callbacks
begin

text \<open>
  The connection handlers (task/ipc_tcp.c: LISTEN, ACCEPT, CONNECT, SEND, SHUTDOWN), the
  datagram handlers (task/ipc_dgram.c: BIND, SENDTO) and SENDMSG (task/ipc_msg.c).
\<close>

section \<open>LISTEN and ACCEPT\<close>

definition clip_backlog :: "int \<Rightarrow> nat" where
  "clip_backlog backlog =
     (if backlog \<le> 0 then 1 else if backlog > int TN_ACCEPT_QUEUE_MAX then TN_ACCEPT_QUEUE_MAX else nat backlog)"

definition tn_ipc_cmd_listen :: "env \<Rightarrow> ptr \<Rightarrow> nat \<Rightarrow> TnDaemon \<Rightarrow> TnDaemon \<times> action" where
  "tn_ipc_cmd_listen E imsg i d =
     (let s = slot_of d i; bl = clip_backlog (im_args (d_msgs d imsg) 1) in
      if s_type s \<noteq> SOCK_STREAM \<or> s_tcp_pcb s = NULL then answer imsg (-1) EOPNOTSUPP d
      else if s_tcp_state s = TCP_LISTENING
      then answer imsg 0 0 (upd_slot i (\<lambda>s. s\<lparr>s_listen_backlog := bl\<rparr>) d)
      else let (d1, lp) = lwcall E (TcpListen (s_tcp_pcb s) bl) d; lpcb = word_of_int lp in
        if lp = 0 then answer imsg (-1) ENOBUFS d1
        else answer imsg 0 0 (lwdos E [TcpArg lpcb (ArgSlot i), TcpAccept lpcb Cb_tcp_accept]
               (upd_slot i (\<lambda>s. s\<lparr>s_tcp_pcb := lpcb, s_tcp_state := TCP_LISTENING, s_listen_backlog := bl\<rparr>) d1)))"

definition accept_events :: "nat \<Rightarrow> TnDaemon \<Rightarrow> TnDaemon" where
  "accept_events j d =
     (let d1 = tn_record_socket_event j FD_WRITE d; s1 = slot_of d1 j in
      if s_rx_count s1 > 0 \<or> s_tcp_state s1 = TCP_PEER_CLOSED
      then let d2 = tn_record_socket_event j FD_READ d1
           in if s_tcp_state (slot_of d2 j) = TCP_PEER_CLOSED then tn_record_socket_event j FD_CLOSE d2 else d2
      else d1)"

text \<open>Move a queued connection with its early data into slot \<open>j\<close>.\<close>

definition accept_adopt :: "env \<Rightarrow> ptr \<Rightarrow> nat \<Rightarrow> nat \<Rightarrow> TnAcceptEntry \<Rightarrow> TnDaemon \<Rightarrow> TnDaemon" where
  "accept_adopt E imsg i j ent d =
     (let d1 = upd_slot j (\<lambda>s. s\<lparr>s_tcp_state := (if ae_peer_closed ent then TCP_PEER_CLOSED else TCP_ESTABLISHED),
                 s_rx := ae_early_rx ent, s_rx_count := ae_early_rx_count ent\<rparr>) d
      in lwdo E (FreeEntry (ae_addr ent)) (accept_events j (adopt_pcb E imsg i j (ae_new_pcb ent) d1)))"

definition tn_ipc_cmd_accept :: "env \<Rightarrow> ptr \<Rightarrow> nat \<Rightarrow> TnDaemon \<Rightarrow> TnDaemon \<times> action" where
  "tn_ipc_cmd_accept E imsg i d =
     (let m = d_msgs d imsg; base = im_socket_base m; s = slot_of d i in
      if s_tcp_state s \<noteq> TCP_LISTENING then answer imsg (-1) EINVAL d
      else if s_accept s \<noteq> [] then
        (case tn_accept_queue_pop_entry i d of
           (d1, None) \<Rightarrow> answer imsg (-1) EWOULDBLOCK d1
         | (d1, Some ent) \<Rightarrow>
             (case tn_slot_alloc base (im_client_task m) AF_INET SOCK_STREAM 0 d1 of
                (d2, None) \<Rightarrow> answer imsg (-1) ENFILE (tn_accept_entry_free E ent True d2)
              | (d2, Some j) \<Rightarrow>
                  let (d3, fd) = claim_fd base (im_args m 3) j d2 in
                  if fd < 0
                  then answer imsg (-1) EMFILE (tn_accept_entry_free E ent True (tn_slot_free E j d3))
                  else answer imsg fd 0 (accept_adopt E imsg i j ent d3)))
      else if s_is_nonblocking s then answer imsg (-1) EWOULDBLOCK d
      else (upd_slot i (\<lambda>s. s\<lparr>s_pending_accept_msg := imsg\<rparr>) d, DEFER))"

section \<open>CONNECT\<close>

definition connect_errno :: "int \<Rightarrow> int" where
  "connect_errno cerr =
     (if cerr = ERR_RTE then ENETUNREACH else if cerr = ERR_USE then EADDRINUSE
      else if cerr = ERR_BUF \<or> cerr = ERR_MEM then ENOBUFS
      else if cerr = ERR_ARG \<or> cerr = ERR_VAL then EINVAL else ECONNREFUSED)"

text \<open>The states a stream connect refuses; 0 lets it proceed.\<close>

definition connect_refusal :: "TnSocketSlot \<Rightarrow> u16 \<Rightarrow> int" where
  "connect_refusal s family =
     (case s_tcp_state s of
        TCP_LISTENING \<Rightarrow> EOPNOTSUPP
      | TCP_CONNECTING \<Rightarrow> EALREADY
      | TCP_ESTABLISHED \<Rightarrow> EISCONN
      | TCP_PEER_CLOSED \<Rightarrow> EISCONN
      | TCP_ERROR \<Rightarrow> (if s_last_error s \<noteq> 0 then s_last_error s else EINVAL)
      | TCP_CLOSED \<Rightarrow> (if s_tcp_pcb s = NULL then EINVAL else if family \<noteq> 2 then EAFNOSUPPORT else 0))"

definition connect_stream :: "env \<Rightarrow> ptr \<Rightarrow> nat \<Rightarrow> u16 \<Rightarrow> u16 \<Rightarrow> u32 \<Rightarrow> TnDaemon \<Rightarrow> TnDaemon \<times> action" where
  "connect_stream E imsg i family port addr d =
     (let s = slot_of d i; eno = connect_refusal s family;
          d0 = (if s_tcp_state s = TCP_ERROR then upd_slot i (\<lambda>s. s\<lparr>s_last_error := 0\<rparr>) d else d) in
      if eno \<noteq> 0 then answer imsg (-1) eno d0
      else let d1 = upd_slot i (\<lambda>s. s\<lparr>s_tcp_state := TCP_CONNECTING,
                      s_pending_connect_msg := (if s_is_nonblocking s then NULL else imsg)\<rparr>) d0;
               pcb = s_tcp_pcb s;
               (d2, cerr) = lwcall E (TcpConnect pcb addr port)
                              (lwdos E [TcpRecv pcb Cb_tcp_recv, TcpSent pcb Cb_tcp_sent] d1)
           in if cerr \<noteq> ERR_OK
              then answer imsg (-1) (connect_errno cerr)
                     (upd_slot i (\<lambda>s. s\<lparr>s_pending_connect_msg := NULL, s_tcp_state := TCP_CLOSED\<rparr>) d2)
              else let d3 = tn_drain_loopback E (lwdo E (TcpOutput pcb) d2)
                   in if s_is_nonblocking (slot_of d3 i) then answer imsg (-1) EINPROGRESS d3
                      else (d3, DEFER))"

definition tn_ipc_cmd_connect :: "env \<Rightarrow> ptr \<Rightarrow> nat \<Rightarrow> TnDaemon \<Rightarrow> TnDaemon \<times> action" where
  "tn_ipc_cmd_connect E imsg i d =
     (let m = d_msgs d imsg; sin_ptr = im_ptrs m 0; s = slot_of d i;
          (family, port, addr) = tn_sockin_load_bytes (d_mem d) sin_ptr in
      if sin_ptr = NULL then answer imsg (-1) EBADF d
      else if im_args m 1 < 16 then answer imsg (-1) EINVAL d
      else if s_type s = SOCK_STREAM then connect_stream E imsg i family port addr d
      else if s_type s = SOCK_DGRAM \<and> s_udp_pcb s \<noteq> NULL
      then answer imsg 0 0 (lwdo E (UdpConnect (s_udp_pcb s) addr port) d)
      else if s_type s = SOCK_RAW \<and> s_raw_pcb s \<noteq> NULL
      then answer imsg 0 0 (lwdo E (RawConnect (s_raw_pcb s) addr) d)
      else answer imsg (-1) EINVAL d)"

section \<open>SEND\<close>

text \<open>
  The write loop of \<open>tn_tcp_send_stream\<close>: write, output and drain twice, and go on while the
  drains make room.  Gives the last lwIP error and the bytes queued.
\<close>

definition send_flush :: "env \<Rightarrow> nat \<Rightarrow> TnDaemon \<Rightarrow> TnDaemon" where
  "send_flush E i d =
     (let d1 = tn_drain_loopback E (lwdo E (TcpOutput (s_tcp_pcb (slot_of d i))) d) in
      if s_tcp_pcb (slot_of d1 i) = NULL then d1
      else tn_drain_loopback E (lwdo E (TcpOutput (s_tcp_pcb (slot_of d1 i))) d1))"

lemma write_some_full:
  "pos < snd (snd (tn_tcp_write_some E pcb buf iov n len vi vbase pos d)) \<Longrightarrow> pos < len"
  by (subst (asm) tn_tcp_write_some.simps) (auto split: if_splits)

function send_loop :: "env \<Rightarrow> nat \<Rightarrow> ptr \<Rightarrow> ptr \<Rightarrow> nat \<Rightarrow> int \<Rightarrow> int \<Rightarrow> TnDaemon \<Rightarrow> TnDaemon \<times> int \<times> int" where
  "send_loop E i buf iov iovcnt len pos d =
     (let r = tn_tcp_write_some E (s_tcp_pcb (slot_of d i)) buf iov iovcnt len 0 0 pos d;
          werr = fst (snd r); pos1 = snd (snd r) in
      if pos1 > pos
      then let d2 = send_flush E i (fst r)
           in if s_tcp_pcb (slot_of d2 i) = NULL \<or> werr \<noteq> ERR_MEM then (d2, werr, pos1)
              else send_loop E i buf iov iovcnt len pos1 d2
      else (fst r, werr, pos1))"
  by pat_completeness auto
termination
  by (relation "measure (\<lambda>(E, i, buf, iov, iovcnt, len, pos, d). nat (len - pos))")
     (auto dest: write_some_full)

declare send_loop.simps [simp del]

definition send_deadline :: "TnDaemon \<Rightarrow> slot_opts \<Rightarrow> u32" where
  "send_deadline d os =
     (if opt_sndtimeo_secs os > 0 \<or> opt_sndtimeo_micro os > 0
      then let t = d_mainloop_ticks d + timeo_ticks (opt_sndtimeo_secs os) (opt_sndtimeo_micro os)
           in if t = 0 then 1 else t
      else 0)"

definition send_park :: "env \<Rightarrow> ptr \<Rightarrow> nat \<Rightarrow> ptr \<Rightarrow> nat \<Rightarrow> int \<Rightarrow> int \<Rightarrow> TnDaemon \<Rightarrow> TnDaemon \<times> action" where
  "send_park E imsg i iov iovcnt len pos d =
     (let d1 = upd_slot i (\<lambda>s. s\<lparr>s_pending_send_msg := imsg, s_send_done := pos, s_send_iov := iov,
                 s_send_iovcnt := word_of_nat iovcnt, s_send_deadline_tick := send_deadline d (s_opts s)\<rparr>) d;
          d2 = upd_msg imsg (\<lambda>m. m\<lparr>im_args := (im_args m)(1 := len)\<rparr>) d1
      in (lwdo E (TcpPoll (s_tcp_pcb (slot_of d2 i)) Cb_tcp_poll 1) d2, DEFER))"

definition send_finish :: "env \<Rightarrow> ptr \<Rightarrow> nat \<Rightarrow> ptr \<Rightarrow> nat \<Rightarrow> int \<Rightarrow> bool \<Rightarrow> TnDaemon \<times> int \<times> int \<Rightarrow> TnDaemon \<times> action" where
  "send_finish E imsg i iov iovcnt len nonblock r =
     (let d = fst r; werr = fst (snd r); pos = snd (snd r);
          partial_or = (\<lambda>e. answer imsg (if pos > 0 then pos else -1) (if pos > 0 then 0 else e) d) in
      if s_tcp_pcb (slot_of d i) = NULL then partial_or ECONNRESET
      else if werr = ERR_OK \<or> (werr = ERR_MEM \<and> nonblock \<and> pos > 0) then answer imsg pos 0 d
      else if werr \<noteq> ERR_MEM then partial_or (tn_tcp_write_errno werr)
      else if nonblock then answer imsg (-1) EWOULDBLOCK d
      else send_park E imsg i iov iovcnt len pos d)"

definition tn_tcp_send_stream :: "env \<Rightarrow> ptr \<Rightarrow> nat \<Rightarrow> ptr \<Rightarrow> ptr \<Rightarrow> nat \<Rightarrow> int \<Rightarrow> int \<Rightarrow> TnDaemon \<Rightarrow> TnDaemon \<times> action" where
  "tn_tcp_send_stream E imsg i buf iov iovcnt len flags d =
     (let s = slot_of d i; nonblock = (s_is_nonblocking s \<or> has_flag flags MSG_DONTWAIT) in
      if s_shut_wr s then answer imsg (-1) EPIPE d
      else if s_tcp_state s = TCP_ERROR
      then answer imsg (-1) (if s_last_error s \<noteq> 0 then s_last_error s else EPIPE)
             (upd_slot i (\<lambda>s. s\<lparr>s_last_error := 0\<rparr>) d)
      else if s_tcp_pcb s = NULL \<or> (s_tcp_state s \<noteq> TCP_ESTABLISHED \<and> s_tcp_state s \<noteq> TCP_PEER_CLOSED)
      then answer imsg (-1) ENOTCONN d
      else if s_pending_send_msg s \<noteq> NULL then answer imsg (-1) (if nonblock then EWOULDBLOCK else EALREADY) d
      else send_finish E imsg i iov iovcnt len nonblock (send_loop E i buf iov iovcnt len 0 d))"

definition send_errno :: "int \<Rightarrow> int" where
  "send_errno e = (if e = ERR_MEM then ENOBUFS else EHOSTUNREACH)"

text \<open>\<open>pbuf_alloc\<close> and the send call; the pbuf is freed by the sender in every case.\<close>

definition pbuf_send :: "env \<Rightarrow> bytes \<Rightarrow> lwcall \<Rightarrow> TnDaemon \<Rightarrow> TnDaemon \<times> int option" where
  "pbuf_send E bs c d =
     (let (d1, p) = lwcall E (PbufAlloc (length bs)) d in
      if p = 0 then (d1, None)
      else let (d2, err) = lwcall E c d1 in (lwdo E (PbufFree bs) d2, Some err))"

definition udp_connected :: "udp_pcb \<Rightarrow> bool" where
  "udp_connected p = (up_remote_ip p \<noteq> 0 \<and> up_remote_port p \<noteq> 0)"

definition tn_ipc_cmd_send :: "env \<Rightarrow> ptr \<Rightarrow> nat \<Rightarrow> TnDaemon \<Rightarrow> TnDaemon \<times> action" where
  "tn_ipc_cmd_send E imsg i d =
     (let m = d_msgs d imsg; buf = im_ptrs m 0; len = im_args m 1; flags = im_args m 2; s = slot_of d i;
          bs = load_bytes (d_mem d) buf (clip_len len) in
      if buf = NULL \<or> len < 0 then answer imsg (-1) EBADF d
      else if s_type s = SOCK_STREAM then tn_tcp_send_stream E imsg i buf NULL 0 len flags d
      else if s_type s = SOCK_DGRAM \<and> s_udp_pcb s \<noteq> NULL then
        (let p = lw_udp (d_lw d) (s_udp_pcb s) in
         if \<not> udp_connected p then answer imsg (-1) EDESTADDRREQ d
         else if len > 65507 then answer imsg (-1) EMSGSIZE d
         else case pbuf_send E bs (UdpSendto (s_udp_pcb s) bs (up_remote_ip p) (up_remote_port p)) d of
           (d1, None) \<Rightarrow> answer imsg (-1) ENOBUFS d1
         | (d1, Some err) \<Rightarrow>
             if err \<noteq> ERR_OK then answer imsg (-1) (send_errno err) d1
             else answer imsg (int (length bs)) 0 (tn_drain_loopback E d1))
      else if s_type s = SOCK_RAW \<and> s_raw_pcb s \<noteq> NULL then
        (if rp_remote_ip (lw_raw (d_lw d) (s_raw_pcb s)) = 0 then answer imsg (-1) EDESTADDRREQ d
         else if len > 65535 then answer imsg (-1) EMSGSIZE d
         else case pbuf_send E bs (RawSend (s_raw_pcb s) bs) d of
           (d1, None) \<Rightarrow> answer imsg (-1) ENOBUFS d1
         | (d1, Some err) \<Rightarrow>
             if err \<noteq> ERR_OK then answer imsg (-1) (send_errno err) d1
             else answer imsg (int (length bs)) 0 d1)
      else answer imsg (-1) EOPNOTSUPP d)"

section \<open>SHUTDOWN\<close>

definition shutdown_rdwr :: "env \<Rightarrow> nat \<Rightarrow> TnDaemon \<Rightarrow> TnDaemon" where
  "shutdown_rdwr E i d =
     (let d1 = tn_rx_queue_drain_with_recved E i d; closing = s_tcp_pcb (slot_of d1 i);
          d2 = lwdos E [TcpArg closing ArgNull, TcpRecv closing CbNull, TcpSent closing CbNull,
                        TcpErr closing CbNull, TcpPoll closing CbNull 0] d1;
          d3 = upd_slot i (\<lambda>s. s\<lparr>s_tcp_pcb := NULL, s_tcp_state := TCP_CLOSED\<rparr>) d2;
          (d4, serr) = lwcall E (TcpClose closing) d3;
          d5 = (if serr \<noteq> ERR_OK then lwdo E (TcpAbort closing) d4 else d4)
      in tn_slot_reply_send i EPIPE True d5)"

definition tn_ipc_cmd_shutdown :: "env \<Rightarrow> ptr \<Rightarrow> nat \<Rightarrow> TnDaemon \<Rightarrow> TnDaemon \<times> action" where
  "tn_ipc_cmd_shutdown E imsg i d =
     (let how = im_args (d_msgs d imsg) 1; s = slot_of d i;
          shut_rx = (how = 0 \<or> how = 2); shut_tx = (how = 1 \<or> how = 2) in
      if s_type s \<noteq> SOCK_STREAM then answer imsg (-1) ENOTCONN d
      else if how < 0 \<or> how > 2 then answer imsg (-1) EINVAL d
      else if s_tcp_state s = TCP_LISTENING then answer imsg (-1) ENOTCONN d
      else let d1 = upd_slot i (\<lambda>s. s\<lparr>s_shut_rd := s_shut_rd s \<or> shut_rx, s_shut_wr := s_shut_wr s \<or> shut_tx\<rparr>) d in
        if s_tcp_pcb s = NULL \<or> s_tcp_state s = TCP_CLOSED then answer imsg 0 0 d1
        else if shut_rx \<and> shut_tx then answer imsg 0 0 (shutdown_rdwr E i d1)
        else if \<not> shut_tx then answer imsg 0 0 (tn_rx_queue_drain_with_recved E i d1)
        else let (d2, serr) = lwcall E (TcpShutdown (s_tcp_pcb s) False True) d1 in
          if serr \<noteq> ERR_OK then answer imsg (-1) ECONNRESET d2 else answer imsg 0 0 d2)"

section \<open>BIND and SENDTO\<close>

text \<open>\<open>ip_set_option(pcb, SOF_REUSEADDR)\<close> when the socket asked for it.\<close>

definition bind_pcb :: "env \<Rightarrow> nat \<Rightarrow> u32 \<Rightarrow> u16 \<Rightarrow> TnDaemon \<Rightarrow> (TnDaemon \<times> int) + int" where
  "bind_pcb E i addr port d =
     (let s = slot_of d i; reuse = opt_reuseaddr (s_opts s) in
      if s_type s = SOCK_STREAM then
        (if s_tcp_pcb s = NULL then Inr EBADF
         else Inl (lwcall E (TcpBind (s_tcp_pcb s) addr port)
                (if reuse then upd_tcp (s_tcp_pcb s) (\<lambda>p. p\<lparr>tp_so_options := tp_so_options p OR 4\<rparr>) d else d)))
      else if s_type s = SOCK_DGRAM then
        (if s_udp_pcb s = NULL then Inr EBADF
         else Inl (lwcall E (UdpBind (s_udp_pcb s) addr port)
                (if reuse then upd_udp (s_udp_pcb s) (\<lambda>p. p\<lparr>up_so_options := up_so_options p OR 4\<rparr>) d else d)))
      else if s_type s = SOCK_RAW then
        (if s_raw_pcb s = NULL then Inr EBADF else Inl (lwcall E (RawBind (s_raw_pcb s) addr) d))
      else Inr EOPNOTSUPP)"

definition tn_ipc_cmd_bind :: "env \<Rightarrow> ptr \<Rightarrow> nat \<Rightarrow> TnDaemon \<Rightarrow> TnDaemon \<times> action" where
  "tn_ipc_cmd_bind E imsg i d =
     (let m = d_msgs d imsg; sin_ptr = im_ptrs m 0;
          (family, port, addr) = tn_sockin_load_bytes (d_mem d) sin_ptr in
      if sin_ptr = NULL then answer imsg (-1) EBADF d
      else if to_ULONG (im_args m 1) < 16 then answer imsg (-1) EINVAL d
      else if family \<noteq> 2 then answer imsg (-1) EAFNOSUPPORT d
      else case bind_pcb E i addr port d of
        Inr e \<Rightarrow> answer imsg (-1) e d
      | Inl (d1, berr) \<Rightarrow>
          if berr \<noteq> ERR_OK then answer imsg (-1) (if berr = ERR_USE then EADDRINUSE else EINVAL) d1
          else answer imsg 0 0 d1)"

text \<open>
  The destination of a datagram: the given address on an unconnected socket, the connected
  peer when none is given; anything else is an error.
\<close>

definition dgram_dst :: "bool \<Rightarrow> 'a option \<Rightarrow> 'a \<Rightarrow> 'a + int" where
  "dgram_dst connected to peer =
     (case to of
        Some a \<Rightarrow> (if connected then Inr EISCONN else Inl a)
      | None \<Rightarrow> (if connected then Inl peer else Inr EDESTADDRREQ))"

definition sendto_udp :: "env \<Rightarrow> ptr \<Rightarrow> ptr \<Rightarrow> (u32 \<times> u16) option \<Rightarrow> nat \<Rightarrow> bytes \<Rightarrow> TnDaemon \<Rightarrow> TnDaemon \<times> action" where
  "sendto_udp E imsg pcb to len bs d =
     (let p = lw_udp (d_lw d) pcb in
      case dgram_dst (udp_connected p) to (up_remote_ip p, up_remote_port p) of
        Inr e \<Rightarrow> answer imsg (-1) e d
      | Inl (ip, port) \<Rightarrow>
          if len > 65507 then answer imsg (-1) EMSGSIZE d
          else case pbuf_send E bs (UdpSendto pcb bs ip port) d of
            (d1, None) \<Rightarrow> answer imsg (-1) ENOBUFS d1
          | (d1, Some err) \<Rightarrow>
              let d2 = tn_drain_loopback E d1
              in if err \<noteq> ERR_OK then answer imsg (-1) (send_errno err) d2
                 else answer imsg (int (length bs)) 0 d2)"

definition sendto_raw :: "env \<Rightarrow> ptr \<Rightarrow> ptr \<Rightarrow> u32 option \<Rightarrow> bytes \<Rightarrow> TnDaemon \<Rightarrow> TnDaemon \<times> action" where
  "sendto_raw E imsg pcb to bs d =
     (let peer = rp_remote_ip (lw_raw (d_lw d) pcb) in
      case dgram_dst (peer \<noteq> 0) to peer of
        Inr e \<Rightarrow> answer imsg (-1) e d
      | Inl ip \<Rightarrow>
          (case pbuf_send E bs (RawSendto pcb bs ip) d of
             (d1, None) \<Rightarrow> answer imsg (-1) ENOBUFS d1
           | (d1, Some err) \<Rightarrow>
               let d2 = tn_drain_loopback E d1
               in if err \<noteq> ERR_OK then answer imsg (-1) (send_errno err) d2
                  else answer imsg (int (length bs)) 0 d2))"

definition tn_ipc_cmd_sendto :: "env \<Rightarrow> ptr \<Rightarrow> nat \<Rightarrow> TnDaemon \<Rightarrow> TnDaemon \<times> action" where
  "tn_ipc_cmd_sendto E imsg i d =
     (let m = d_msgs d imsg; buf = im_ptrs m 0; len = im_args m 1; to = im_ptrs m 1; s = slot_of d i;
          bs = load_bytes (d_mem d) buf (clip_len len);
          (family, port, addr) = tn_sockin_load_bytes (d_mem d) to in
      if buf = NULL \<or> len < 0 then answer imsg (-1) EBADF d
      else if s_type s = SOCK_STREAM then tn_ipc_cmd_send E imsg i d
      else if s_type s = SOCK_DGRAM \<and> s_udp_pcb s \<noteq> NULL
      then sendto_udp E imsg (s_udp_pcb s) (if to \<noteq> NULL then Some (addr, port) else None) (nat len) bs d
      else if s_type s = SOCK_RAW \<and> s_raw_pcb s \<noteq> NULL
      then sendto_raw E imsg (s_raw_pcb s) (if to \<noteq> NULL then Some addr else None) bs d
      else answer imsg (-1) EOPNOTSUPP d)"

section \<open>SENDMSG\<close>

text \<open>The total length of the vector, or the errno of the first entry that is refused.\<close>

fun iov_total :: "mem \<Rightarrow> ptr \<Rightarrow> nat list \<Rightarrow> u32 \<Rightarrow> u32 + int" where
  "iov_total m iov [] tot = Inl tot"
| "iov_total m iov (k # ks) tot =
     (let (base, len) = tn_msg_iov_get m iov k in
      if len > 0 \<and> base = NULL then Inr EFAULT
      else if len > 0x7FFFFFFF - tot then Inr EINVAL
      else iov_total m iov ks (tot + len))"

text \<open>The bytes of the vector, at most \<open>send_len\<close> of them.\<close>

fun iov_gather :: "mem \<Rightarrow> ptr \<Rightarrow> nat list \<Rightarrow> nat \<Rightarrow> bytes" where
  "iov_gather m iov [] room = []"
| "iov_gather m iov (k # ks) room =
     (if room = 0 then []
      else let (base, len) = tn_msg_iov_get m iov k;
               chunk = (if unat len > room then room else unat len)
           in load_bytes m base chunk @ iov_gather m iov ks (room - chunk))"

definition sendmsg_raw :: "env \<Rightarrow> ptr \<Rightarrow> ptr \<Rightarrow> u32 option \<Rightarrow> bytes \<Rightarrow> TnDaemon \<Rightarrow> TnDaemon \<times> action" where
  "sendmsg_raw E imsg pcb to bs d =
     (let dst = (case to of Some a \<Rightarrow> a | None \<Rightarrow> rp_remote_ip (lw_raw (d_lw (fst (lwcall E (PbufAlloc (length bs)) d))) pcb)) in
      case pbuf_send E bs (RawSendto pcb bs dst) d of
        (d1, None) \<Rightarrow> answer imsg (-1) ENOBUFS d1
      | (d1, Some err) \<Rightarrow>
          if err \<noteq> ERR_OK then answer imsg (-1) (send_errno err) d1
          else answer imsg (int (length bs)) 0 d1)"

definition sendmsg_stream :: "env \<Rightarrow> ptr \<Rightarrow> nat \<Rightarrow> msghdr \<Rightarrow> int \<Rightarrow> u32 \<Rightarrow> TnDaemon \<Rightarrow> TnDaemon \<times> action" where
  "sendmsg_stream E imsg i mh flags tot d =
     (if mh_iovlen mh = 1
      then let (base, len) = tn_msg_iov_get (d_mem d) (mh_iov mh) 0
           in tn_ipc_cmd_send E imsg i
                (upd_msg imsg (\<lambda>m. m\<lparr>im_ptrs := (im_ptrs m)(0 := base),
                    im_args := (im_args m)(1 := to_LONG len, 2 := flags)\<rparr>) d)
      else tn_tcp_send_stream E imsg i NULL (mh_iov mh) (unat (mh_iovlen mh)) (to_LONG tot) flags d)"

definition tn_ipc_cmd_sendmsg :: "env \<Rightarrow> ptr \<Rightarrow> nat \<Rightarrow> TnDaemon \<Rightarrow> TnDaemon \<times> action" where
  "tn_ipc_cmd_sendmsg E imsg i d =
     (let u = im_ptrs (d_msgs d imsg) 0; flags = im_args (d_msgs d imsg) 1;
          mh = msghdr_get (d_mem d) u; s = slot_of d i; ks = [0..<unat (mh_iovlen mh)] in
      if u = NULL then answer imsg (-1) EINVAL d
      else if has_flag flags MSG_OOB then answer imsg (-1) EOPNOTSUPP d
      else if mh_iov mh = NULL \<or> mh_iovlen mh = 0 \<or> mh_iovlen mh > 1024 then answer imsg (-1) EINVAL d
      else case iov_total (d_mem d) (mh_iov mh) ks 0 of
        Inr e \<Rightarrow> answer imsg (-1) e d
      | Inl tot \<Rightarrow>
          if mh_name mh \<noteq> NULL \<and> mh_namelen mh < 16 then answer imsg (-1) EINVAL d
          else let (family, port, addr) = tn_sockin_load_bytes (d_mem d) (mh_name mh);
                   have_to = (mh_name mh \<noteq> NULL) in
            if s_type s = SOCK_STREAM then sendmsg_stream E imsg i mh flags tot d
            else if s_type s = SOCK_DGRAM \<and> s_udp_pcb s \<noteq> NULL
            then sendto_udp E imsg (s_udp_pcb s) (if have_to then Some (addr, port) else None) (unat tot)
                   (iov_gather (d_mem d) (mh_iov mh) ks (unat tot)) d
            else if s_type s = SOCK_RAW \<and> s_raw_pcb s \<noteq> NULL
            then sendmsg_raw E imsg (s_raw_pcb s) (if have_to then Some addr else None)
                   (iov_gather (d_mem d) (mh_iov mh) ks (if tot > 0xFFFF then 0xFFFF else unat tot)) d
            else answer imsg (-1) EOPNOTSUPP d)"

end
