(* ===== verification/Ipc_Netdb.thy ===== *)
theory Ipc_Netdb
  imports Ipc_Tcp
begin

text \<open>
  Deferred host lookups (task/ipc_netdb.c): the GETHOSTBYNAME handler, the completion callback
  of lwIP's resolver, and the cancellation of a closing opener's requests; and the ROUTECTL
  handler (task/ipc_route.c).
\<close>

section \<open>Strings of the client\<close>

text \<open>A C string in client memory; the code never looks past the bound passed here.\<close>

definition load_cstr :: "mem \<Rightarrow> ptr \<Rightarrow> nat \<Rightarrow> bytes" where
  "load_cstr m p n = takeWhile (\<lambda>b. b \<noteq> 0) (load_bytes m p n)"

definition to_lower :: "u8 \<Rightarrow> u8" where
  "to_lower c = (if 65 \<le> c \<and> c \<le> 90 then c + 32 else c)"

section \<open>Deferred lookups\<close>

definition TN_DNS_PENDING_MAX :: nat where "TN_DNS_PENDING_MAX = 8"

definition dns_drop_record :: "nat \<Rightarrow> TnDaemon \<Rightarrow> TnDaemon" where
  "dns_drop_record p d =
     d\<lparr>d_dns_pending := (d_dns_pending d)[p := (d_dns_pending d ! p)\<lparr>dp_in_use := False, dp_imsg := NULL, dp_base := NULL\<rparr>],
       d_dns_pending_count := (if d_dns_pending_count d > 0 then d_dns_pending_count d - 1 else d_dns_pending_count d)\<rparr>"

definition dns_cancel_one :: "ptr \<Rightarrow> bool \<Rightarrow> nat \<Rightarrow> TnDaemon \<Rightarrow> TnDaemon" where
  "dns_cancel_one base reply p d =
     (let rec0 = d_dns_pending d ! p; pending = dp_imsg rec0 in
      if dp_in_use rec0 \<and> dp_base rec0 = base
      then let d1 = dns_drop_record p d
           in if pending \<noteq> NULL
              then let d2 = set_reply pending 0 ECONNABORTED d1 in if reply then ReplyMsg pending d2 else d2
              else d1
      else d)"

definition tn_dns_cancel_for_base2 :: "ptr \<Rightarrow> bool \<Rightarrow> TnDaemon \<Rightarrow> TnDaemon" where
  "tn_dns_cancel_for_base2 base reply d = fold (dns_cancel_one base reply) [0..<length (d_dns_pending d)] d"

definition tn_dns_cancel_for_base :: "ptr \<Rightarrow> TnDaemon \<Rightarrow> TnDaemon" where
  "tn_dns_cancel_for_base base = tn_dns_cancel_for_base2 base True"

text \<open>
  The record holds at most 63 characters.  The names agree, up to ASCII case, in all
  characters before the first NUL or in their first 63.
\<close>

definition tn_dns_name_matches :: "bytes \<Rightarrow> bytes option \<Rightarrow> bool" where
  "tn_dns_name_matches rec_name name =
     (case name of None \<Rightarrow> False
      | Some n \<Rightarrow> take 63 (map to_lower rec_name) = take 63 (map to_lower n))"

definition hostent_data_ptr :: "env \<Rightarrow> ptr \<Rightarrow> int" where
  "hostent_data_ptr E base = to_LONG (base + ev_hostent_off E)"

definition tn_ipc_fill_hostent_now :: "ptr \<Rightarrow> bytes \<Rightarrow> u32 \<Rightarrow> TnDaemon \<Rightarrow> TnDaemon" where
  "tn_ipc_fill_hostent_now base name addr =
     upd_base base (\<lambda>b. b\<lparr>sb_hostent_addr := addr, sb_hostent_name := take 63 name, sb_hostent_valid := True\<rparr>)"

definition tn_dns_found_cb :: "env \<Rightarrow> bytes option \<Rightarrow> u32 option \<Rightarrow> ptr \<Rightarrow> TnDaemon \<Rightarrow> TnDaemon" where
  "tn_dns_found_cb E name ipaddr imsg d =
     (if imsg = NULL then d
      else case first_idx (\<lambda>r. dp_in_use r \<and> dp_imsg r = imsg \<and> tn_dns_name_matches (dp_name r) name) (d_dns_pending d) of
        None \<Rightarrow> d\<lparr>d_dns_late_replies := d_dns_late_replies d + 1\<rparr>
      | Some p \<Rightarrow>
          let base = dp_base (d_dns_pending d ! p); d1 = dns_drop_record p d in
          if base = NULL then ReplyMsg imsg d1
          else case ipaddr of
            Some a \<Rightarrow> ReplyMsg imsg (set_reply imsg (hostent_data_ptr E base) 0
                        (tn_ipc_fill_hostent_now base (case name of Some n \<Rightarrow> n | None \<Rightarrow> []) a d1))
          | None \<Rightarrow> ReplyMsg imsg (set_reply imsg 0 ENOENT d1))"

definition dns_register :: "ptr \<Rightarrow> ptr \<Rightarrow> bytes \<Rightarrow> nat \<Rightarrow> TnDaemon \<Rightarrow> TnDaemon" where
  "dns_register imsg base name p d =
     d\<lparr>d_dns_pending := (d_dns_pending d)[p := \<lparr>dp_imsg = imsg, dp_base = base, dp_name = take 63 name,
         dp_tick = d_mainloop_ticks d, dp_in_use = True\<rparr>],
       d_dns_pending_count := (if d_dns_pending_count d < word_of_nat TN_DNS_PENDING_MAX
                               then d_dns_pending_count d + 1 else d_dns_pending_count d)\<rparr>"

definition dns_limit :: "TnDaemon \<Rightarrow> nat" where
  "dns_limit d = (if d_dns_pending_max d > 0 \<and> d_dns_pending_max d \<le> TN_DNS_PENDING_MAX
                  then d_dns_pending_max d else TN_DNS_PENDING_MAX)"

definition dns_defer :: "ptr \<Rightarrow> ptr \<Rightarrow> bytes \<Rightarrow> TnDaemon \<Rightarrow> TnDaemon \<times> action" where
  "dns_defer imsg base name d =
     (let recs = take (dns_limit d) (d_dns_pending d) in
      if first_idx (\<lambda>r. dp_in_use r \<and> dp_name r = name) recs \<noteq> None then answer imsg 0 EAGAIN d
      else case first_idx (\<lambda>r. \<not> dp_in_use r) recs of
        Some p \<Rightarrow> (dns_register imsg base name p d, DEFER)
      | None \<Rightarrow> answer imsg 0 EAGAIN d)"

text \<open>lwIP refuses names of more than 255 characters, so 256 bytes are all that matters.\<close>

definition tn_ipc_cmd_gethostbyname :: "env \<Rightarrow> ptr \<Rightarrow> TnDaemon \<Rightarrow> TnDaemon \<times> action" where
  "tn_ipc_cmd_gethostbyname E imsg d =
     (let base = im_socket_base (d_msgs d imsg); p = im_ptrs (d_msgs d imsg) 0;
          name = load_cstr (d_mem d) p 256 in
      if base = NULL \<or> p = NULL \<or> name = [] then answer imsg 0 ENOENT d
      else case ev_aton E name of
        Some a \<Rightarrow> answer imsg (hostent_data_ptr E base) 0 (tn_ipc_fill_hostent_now base name a d)
      | None \<Rightarrow>
          let (d1, derr) = lwcall E (DnsGethostbyname name) d in
          if derr = ERR_OK
          then answer imsg (hostent_data_ptr E base) 0
                 (tn_ipc_fill_hostent_now base name (ev_dns_addr E (d_lw d1) name) d1)
          else if derr = ERR_INPROGRESS then dns_defer imsg base name d1
          else answer imsg 0 ENOENT d1)"

section \<open>ROUTECTL\<close>

definition route_info_bytes :: "TnRoute \<Rightarrow> bytes" where
  "route_info_bytes r = be_of_u16 16 @ [1, 0] @ be_of_u32 (rt_dest r) @ be_of_u32 (rt_mask r) @ be_of_u32 (rt_gw r)"

fun route_list :: "TnRoute list \<Rightarrow> ptr \<Rightarrow> int \<Rightarrow> nat list \<Rightarrow> int \<Rightarrow> mem \<Rightarrow> mem \<times> int" where
  "route_list rs out cap [] count m = (m, count)"
| "route_list rs out cap (i # idxs) count m =
     (if count < cap then
        (case tn_route_at rs (int i) of
           Some r \<Rightarrow> route_list rs out cap idxs (count + 1)
                       (store_bytes m (out + word_of_int (16 * count)) (route_info_bytes r))
         | None \<Rightarrow> route_list rs out cap idxs count m)
      else (m, count))"

definition tn_ipc_cmd_routectl :: "ptr \<Rightarrow> TnDaemon \<Rightarrow> TnDaemon \<times> action" where
  "tn_ipc_cmd_routectl imsg d =
     (let m = d_msgs d imsg; op = im_args m 0; out = im_ptrs m 0; cap = im_args m 4 in
      if op = 0 then
        (if out = NULL \<or> cap \<le> 0 then answer imsg (-1) EINVAL d
         else let (m1, count) = route_list (d_routes d) out cap [0..<TN_MAX_ROUTES] 0 (d_mem d)
              in answer imsg count 0 (d\<lparr>d_mem := m1\<rparr>))
      else if op = 1 then
        (let (rs, rc, eno) = tn_route_add (to_ULONG (im_args m 1)) (to_ULONG (im_args m 2)) (to_ULONG (im_args m 3)) (d_routes d)
         in answer imsg rc eno (d\<lparr>d_routes := rs\<rparr>))
      else if op = 2 then
        (let (rs, rc, eno) = tn_route_delete (to_ULONG (im_args m 1)) (to_ULONG (im_args m 2)) (d_routes d)
         in answer imsg rc eno (d\<lparr>d_routes := rs\<rparr>))
      else answer imsg (-1) EINVAL d)"

end
