(* ===== verification/Ipc_Socket.thy ===== *)
theory Ipc_Socket
  imports Ipc_Netdb
begin

text \<open>
  The socket control handlers (task/ipc_socket.c): OPEN, CLOSE, SOCKET, CLOSESOCKET, DUP2,
  RELEASESOCKET, OBTAINSOCKET, IOCTL, GETSOCKNAME, GETPEERNAME; the reaping of dead clients
  (task/daemon_main.c) and the STOP and CANCEL handlers (task/ipc_status.c).
\<close>

section \<open>CLOSE and reaping\<close>

definition unregister_base :: "ptr \<Rightarrow> TnDaemon \<Rightarrow> TnDaemon" where
  "unregister_base base d =
     (case first_idx (\<lambda>b. b = base) (d_open_bases d) of
        None \<Rightarrow> d
      | Some k \<Rightarrow> d\<lparr>d_open_bases := (d_open_bases d)[k := NULL],
                   d_open_base_count := (if d_open_base_count d > 0 then d_open_base_count d - 1 else d_open_base_count d)\<rparr>)"

definition close_fd :: "env \<Rightarrow> ptr \<Rightarrow> nat \<Rightarrow> TnDaemon \<Rightarrow> TnDaemon" where
  "close_fd E base fd d =
     (let slot_idx = sb_fd_map (d_bases d base) ! fd in
      if 0 \<le> slot_idx \<and> slot_idx < int TN_MAX_GLOBAL_SOCKETS \<and> s_in_use (slot_of d (nat slot_idx))
      then tn_slot_unref E (nat slot_idx) (set_fd base fd (-1) d) else d)"

definition close_base :: "env \<Rightarrow> ptr \<Rightarrow> TnDaemon \<Rightarrow> TnDaemon" where
  "close_base E base d =
     (let d1 = (if base \<noteq> NULL then tn_recv_cancel_for_base base (tn_dns_cancel_for_base base d) else d);
          d2 = unregister_base base d1
      in if base \<noteq> NULL
         then tn_slot_clear_owner_base base (tn_selector_disarm_all_for_base base
                (fold (close_fd E base) [0..<nat (sb_dtablesize (d_bases d2 base))] d2))
         else d2)"

definition tn_ipc_cmd_close :: "env \<Rightarrow> ptr \<Rightarrow> TnDaemon \<Rightarrow> TnDaemon \<times> action" where
  "tn_ipc_cmd_close E imsg d = answer imsg 0 0 (close_base E (im_socket_base (d_msgs d imsg)) d)"

text \<open>Reap one registry entry; the close message is a local of the daemon and has no address here.\<close>

definition reap_slot_msgs :: "ptr \<Rightarrow> TnDaemon \<Rightarrow> TnDaemon" where
  "reap_slot_msgs base d =
     d\<lparr>d_sockets := map (\<lambda>s. if s_in_use s \<and> s_owner_base s = base
          then s\<lparr>s_pending_connect_msg := NULL, s_pending_accept_msg := NULL, s_pending_recv_msg := NULL\<rparr> else s)
        (d_sockets d)\<rparr>"

definition reap_one :: "env \<Rightarrow> nat \<Rightarrow> TnDaemon \<Rightarrow> TnDaemon" where
  "reap_one E b d =
     (let base = d_open_bases d ! b in
      if base = NULL \<or> (sb_owner_task (d_bases d base) \<noteq> NULL \<and> ev_task_alive E (d_lw d) (sb_owner_task (d_bases d base)))
      then d
      else let d1 = close_base E base (reap_slot_msgs base
                      (tn_recv_cancel_for_base2 base False (tn_dns_cancel_for_base2 base False d)))
           in if d_lib_open_cnt d1 > 0 then d1\<lparr>d_lib_open_cnt := d_lib_open_cnt d1 - 1\<rparr> else d1)"

definition tn_reap_dead_clients :: "env \<Rightarrow> TnDaemon \<Rightarrow> TnDaemon" where
  "tn_reap_dead_clients E d = fold (reap_one E) [0..<length (d_open_bases d)] d"

section \<open>OPEN\<close>

definition register_base :: "ptr \<Rightarrow> TnDaemon \<Rightarrow> TnDaemon option" where
  "register_base base d =
     (case first_idx (\<lambda>b. b = NULL) (d_open_bases d) of
        None \<Rightarrow> None
      | Some k \<Rightarrow> Some (d\<lparr>d_open_bases := (d_open_bases d)[k := base],
                   d_open_base_count := (if d_open_base_count d < TN_CLIENT_BASES_MAX then d_open_base_count d + 1
                                         else d_open_base_count d)\<rparr>))"

definition tn_ipc_cmd_open :: "env \<Rightarrow> ptr \<Rightarrow> TnDaemon \<Rightarrow> TnDaemon \<times> action" where
  "tn_ipc_cmd_open E imsg d =
     (let base = im_socket_base (d_msgs d imsg);
          d1 = (if base \<noteq> NULL \<and> d_hostname d \<noteq> []
                then upd_base base (\<lambda>b. b\<lparr>sb_hostname := take 31 (d_hostname d)\<rparr>) d else d) in
      if base = NULL \<or> first_idx (\<lambda>b. b = base) (d_open_bases d1) \<noteq> None then answer imsg 0 0 d1
      else case register_base base d1 of
        Some d2 \<Rightarrow> answer imsg 0 0 d2
      | None \<Rightarrow>
          let d2 = tn_reap_dead_clients E d1 in
          case register_base base d2 of
            Some d3 \<Rightarrow> answer imsg 0 0 d3
          | None \<Rightarrow> answer imsg (-1) ENFILE d2)"

section \<open>SOCKET and CLOSESOCKET\<close>

text \<open>0 or the errno for a domain, type and protocol.\<close>

definition socket_refusal :: "int \<Rightarrow> int \<Rightarrow> int \<Rightarrow> int" where
  "socket_refusal domain type protocol =
     (if domain \<noteq> AF_INET then EAFNOSUPPORT
      else if type = SOCK_STREAM then (if protocol \<noteq> 0 \<and> protocol \<noteq> IPPROTO_TCP then EPROTONOSUPPORT else 0)
      else if type = SOCK_DGRAM then (if protocol \<noteq> 0 \<and> protocol \<noteq> IPPROTO_UDP then EPROTONOSUPPORT else 0)
      else if type = SOCK_RAW then (if protocol \<noteq> IPPROTO_ICMP \<and> protocol \<noteq> IPPROTO_RAW then EPROTONOSUPPORT else 0)
      else ESOCKTNOSUPPORT)"

text \<open>The preferred descriptor when it is free, else the first free one.\<close>

definition pick_fd :: "TnSocketBase \<Rightarrow> int \<Rightarrow> nat option" where
  "pick_fd b pref_fd =
     (if 0 \<le> pref_fd \<and> pref_fd < sb_dtablesize b \<and> sb_fd_map b ! nat pref_fd = -1 then Some (nat pref_fd)
      else first_idx (\<lambda>v. v = -1) (take (nat (sb_dtablesize b)) (sb_fd_map b)))"

text \<open>Create the protocol control block of slot \<open>j\<close>; the flag tells success.\<close>

definition socket_pcb :: "env \<Rightarrow> nat \<Rightarrow> int \<Rightarrow> int \<Rightarrow> TnDaemon \<Rightarrow> TnDaemon \<times> bool" where
  "socket_pcb E j type protocol d =
     (if type = SOCK_DGRAM then
        (let (d1, p) = lwcall E UdpNew d; pcb = word_of_int p; d2 = upd_slot j (\<lambda>s. s\<lparr>s_udp_pcb := pcb\<rparr>) d1
         in if pcb = NULL then (d2, False) else (lwdo E (UdpRecv pcb (ArgSlot j)) d2, True))
      else if type = SOCK_STREAM then
        (let (d1, p) = lwcall E TcpNew d; pcb = word_of_int p; d2 = upd_slot j (\<lambda>s. s\<lparr>s_tcp_pcb := pcb\<rparr>) d1
         in if pcb = NULL then (d2, False)
            else (lwdos E [TcpArg pcb (ArgSlot j), TcpErr pcb Cb_tcp_err] d2, True))
      else
        (let (d1, p) = lwcall E (RawNew (word_of_int protocol)) d; pcb = word_of_int p;
             d2 = upd_slot j (\<lambda>s. s\<lparr>s_raw_pcb := pcb\<rparr>) d1
         in if pcb = NULL then (d2, False)
            else let d3 = lwdo E (RawRecv pcb (ArgSlot j)) d2
                 in (if protocol = IPPROTO_RAW then upd_raw pcb (\<lambda>p. p\<lparr>rp_flags := rp_flags p OR 2\<rparr>) d3 else d3, True)))"

definition tn_ipc_cmd_socket :: "env \<Rightarrow> ptr \<Rightarrow> TnDaemon \<Rightarrow> TnDaemon \<times> action" where
  "tn_ipc_cmd_socket E imsg d =
     (let m = d_msgs d imsg; domain = im_args m 0; type = im_args m 1; protocol = im_args m 2;
          base = im_socket_base m; refusal = socket_refusal domain type protocol in
      if refusal \<noteq> 0 then answer imsg (-1) refusal d
      else case (if base \<noteq> NULL then pick_fd (d_bases d base) (im_args m 3) else None) of
        None \<Rightarrow> answer imsg (-1) EMFILE d
      | Some fd \<Rightarrow>
          (case tn_slot_alloc base (im_client_task m) domain type protocol d of
             (d1, None) \<Rightarrow> answer imsg (-1) ENFILE d1
           | (d1, Some j) \<Rightarrow>
               let (d2, ok) = socket_pcb E j type protocol d1 in
               if \<not> ok then answer imsg (-1) ENOBUFS (tn_slot_free E j d2)
               else let d3 = set_fd base fd (int j) d2;
                        d4 = (if type = SOCK_DGRAM \<or> type = SOCK_RAW then tn_record_socket_event j FD_WRITE d3 else d3)
                    in answer imsg (int fd) 0 d4))"

definition tn_ipc_cmd_closesocket :: "env \<Rightarrow> ptr \<Rightarrow> nat \<Rightarrow> TnDaemon \<Rightarrow> TnDaemon \<times> action" where
  "tn_ipc_cmd_closesocket E imsg i d =
     (let m = d_msgs d imsg; base = im_socket_base m; s = slot_of d i in
      if base = NULL then answer imsg (-1) EBADF d
      else let d1 = (if s_pending_recv_msg s \<noteq> NULL \<and> im_socket_base (d_msgs d (s_pending_recv_msg s)) = base
                     then tn_slot_reply_recv i EBADF True d else d);
               s1 = slot_of d1 i;
               d2 = (if s_pending_send_msg s1 \<noteq> NULL \<and> im_socket_base (d_msgs d1 (s_pending_send_msg s1)) = base
                     then tn_slot_reply_send i EBADF True d1 else d1)
           in answer imsg 0 0 (tn_slot_unref E i (set_fd base (nat (im_args m 0)) (-1) d2)))"

section \<open>DUP2, RELEASESOCKET, OBTAINSOCKET\<close>

definition tn_ipc_cmd_dup2 :: "env \<Rightarrow> ptr \<Rightarrow> nat \<Rightarrow> TnDaemon \<Rightarrow> TnDaemon \<times> action" where
  "tn_ipc_cmd_dup2 E imsg i d =
     (let m = d_msgs d imsg; base = im_socket_base m; old_fd = im_args m 0; new_fd = im_args m 1 in
      if base = NULL \<or> new_fd < 0 \<or> new_fd \<ge> sb_dtablesize (d_bases d base) then answer imsg (-1) EBADF d
      else if old_fd = new_fd then answer imsg new_fd 0 d
      else let d1 = close_fd E base (nat new_fd) d
           in answer imsg new_fd 0 (tn_slot_ref i (set_fd base (nat new_fd) (int i) d1)))"

definition park_id_taken :: "TnDaemon \<Rightarrow> int \<Rightarrow> bool" where
  "park_id_taken d pid = list_ex (\<lambda>s. s_in_use s \<and> s_is_parked s \<and> s_park_id s = pid) (d_sockets d)"

text \<open>\<open>next_park_id++\<close> in 32-bit arithmetic, back to 1 when it is not positive.\<close>

definition next_id :: "int \<Rightarrow> int" where
  "next_id n = (let n1 = to_LONG (to_ULONG (n + 1)) in if n1 \<le> 0 then 1 else n1)"

text \<open>The UNIQUE_ID loop with a bound on its rounds.\<close>

fun unique_park_id :: "nat \<Rightarrow> TnDaemon \<Rightarrow> (TnDaemon \<times> int) option" where
  "unique_park_id 0 d = None"
| "unique_park_id (Suc fuel) d =
     (let n = d_next_park_id d; d1 = d\<lparr>d_next_park_id := next_id n\<rparr>
      in if park_id_taken d1 n then unique_park_id fuel d1 else Some (d1, n))"

definition park_slot :: "nat \<Rightarrow> ptr \<Rightarrow> int \<Rightarrow> bool \<Rightarrow> int \<Rightarrow> TnDaemon \<Rightarrow> TnDaemon" where
  "park_slot i base fd copy pid d =
     (let d1 = upd_slot i (\<lambda>s. s\<lparr>s_is_parked := True, s_park_id := pid\<rparr>) d
      in if copy then tn_slot_ref i d1 else set_fd base (nat fd) (-1) d1)"

text \<open>\<open>None\<close> only when the loop above ran out of rounds.  \<open>BOOL\<close> is a 16-bit type.\<close>

definition tn_ipc_cmd_releasesocket :: "nat \<Rightarrow> ptr \<Rightarrow> nat \<Rightarrow> TnDaemon \<Rightarrow> (TnDaemon \<times> action) option" where
  "tn_ipc_cmd_releasesocket fuel imsg i d =
     (let m = d_msgs d imsg; base = im_socket_base m; fd = im_args m 0; req_id = im_args m 1;
          copy = ((word_of_int (im_args m 2) :: u16) \<noteq> 0) in
      if base = NULL then Some (answer imsg (-1) EBADF d)
      else if s_is_parked (slot_of d i) then Some (answer imsg (-1) EBUSY d)
      else if req_id = -1 then
        map_option (\<lambda>(d1, pid). answer imsg pid 0 (park_slot i base fd copy pid d1)) (unique_park_id fuel d)
      else if req_id < 0 then Some (answer imsg (-1) EINVAL d)
      else if park_id_taken d req_id then Some (answer imsg (-1) EADDRINUSE d)
      else Some (answer imsg req_id 0 (park_slot i base fd copy req_id d)))"

text \<open>0 or the errno when a parked socket does not match the request.\<close>

definition obtain_refusal :: "TnSocketSlot \<Rightarrow> int \<Rightarrow> int \<Rightarrow> int \<Rightarrow> int" where
  "obtain_refusal s domain type protocol =
     (if domain \<noteq> 0 \<and> s_domain s \<noteq> domain then EPROTOTYPE
      else if type \<noteq> 0 \<and> s_type s \<noteq> type then EPROTOTYPE
      else if protocol \<noteq> 0 \<and> s_protocol s \<noteq> 0 \<and> s_protocol s \<noteq> protocol then EPROTONOSUPPORT else 0)"

definition tn_ipc_cmd_obtainsocket :: "ptr \<Rightarrow> TnDaemon \<Rightarrow> TnDaemon \<times> action" where
  "tn_ipc_cmd_obtainsocket imsg d =
     (let m = d_msgs d imsg; base = im_socket_base m; pid = im_args m 0 in
      if base = NULL then answer imsg (-1) EINVAL d
      else case first_idx (\<lambda>s. s_in_use s \<and> s_is_parked s \<and> s_park_id s = pid) (d_sockets d) of
        None \<Rightarrow> answer imsg (-1) ENOENT d
      | Some i \<Rightarrow>
          let refusal = obtain_refusal (slot_of d i) (im_args m 1) (im_args m 2) (im_args m 3) in
          if refusal \<noteq> 0 then answer imsg (-1) refusal d
          else case pick_fd (d_bases d base) (im_args m 4) of
            None \<Rightarrow> answer imsg (-1) EMFILE d
          | Some fd \<Rightarrow>
              answer imsg (int fd) 0
                (upd_slot i (\<lambda>s. s\<lparr>s_is_parked := False, s_park_id := 0, s_owner_base := base,
                    s_owner_task := im_client_task m\<rparr>) (set_fd base fd (int i) d)))"

section \<open>Names\<close>

definition sock_local :: "lwip \<Rightarrow> TnSocketSlot \<Rightarrow> u16 \<times> u32" where
  "sock_local l s =
     (if s_type s = SOCK_STREAM \<and> s_tcp_pcb s \<noteq> NULL
      then (tp_local_port (lw_tcp l (s_tcp_pcb s)), tp_local_ip (lw_tcp l (s_tcp_pcb s)))
      else if s_type s = SOCK_DGRAM \<and> s_udp_pcb s \<noteq> NULL
      then (up_local_port (lw_udp l (s_udp_pcb s)), up_local_ip (lw_udp l (s_udp_pcb s)))
      else if s_type s = SOCK_RAW \<and> s_raw_pcb s \<noteq> NULL
      then (word_of_int (s_protocol s), rp_local_ip (lw_raw l (s_raw_pcb s)))
      else (0, 0))"

definition sock_peer :: "lwip \<Rightarrow> TnSocketSlot \<Rightarrow> (u16 \<times> u32) option" where
  "sock_peer l s =
     (if s_type s = SOCK_STREAM \<and> s_tcp_pcb s \<noteq> NULL
      then (if s_tcp_state s \<noteq> TCP_ESTABLISHED \<and> s_tcp_state s \<noteq> TCP_CONNECTING then None
            else Some (tp_remote_port (lw_tcp l (s_tcp_pcb s)), tp_remote_ip (lw_tcp l (s_tcp_pcb s))))
      else if s_type s = SOCK_DGRAM \<and> s_udp_pcb s \<noteq> NULL
      then (if up_remote_port (lw_udp l (s_udp_pcb s)) = 0 then None
            else Some (up_remote_port (lw_udp l (s_udp_pcb s)), up_remote_ip (lw_udp l (s_udp_pcb s))))
      else if s_type s = SOCK_RAW \<and> s_raw_pcb s \<noteq> NULL then Some (0, rp_remote_ip (lw_raw l (s_raw_pcb s)))
      else None)"

definition put_name :: "ptr \<Rightarrow> ptr \<Rightarrow> u16 \<times> u32 \<Rightarrow> mem \<Rightarrow> mem" where
  "put_name sin_ptr namelen a m = store_u32 (tn_sockin_store_bytes m sin_ptr 2 (fst a) (snd a)) namelen 16"

definition tn_ipc_cmd_getsockname :: "ptr \<Rightarrow> nat \<Rightarrow> TnDaemon \<Rightarrow> TnDaemon \<times> action" where
  "tn_ipc_cmd_getsockname imsg i d =
     (let sin_ptr = im_ptrs (d_msgs d imsg) 0; namelen = im_ptrs (d_msgs d imsg) 1 in
      if sin_ptr = NULL \<or> namelen = NULL then answer imsg (-1) EBADF d
      else if load_u32 (d_mem d) namelen < 16 then answer imsg (-1) EINVAL d
      else answer imsg 0 0 (d\<lparr>d_mem := put_name sin_ptr namelen (sock_local (d_lw d) (slot_of d i)) (d_mem d)\<rparr>))"

definition tn_ipc_cmd_getpeername :: "ptr \<Rightarrow> nat \<Rightarrow> TnDaemon \<Rightarrow> TnDaemon \<times> action" where
  "tn_ipc_cmd_getpeername imsg i d =
     (let sin_ptr = im_ptrs (d_msgs d imsg) 0; namelen = im_ptrs (d_msgs d imsg) 1 in
      if sin_ptr = NULL \<or> namelen = NULL then answer imsg (-1) EBADF d
      else if load_u32 (d_mem d) namelen < 16 then answer imsg (-1) EINVAL d
      else case sock_peer (d_lw d) (slot_of d i) of
        None \<Rightarrow> answer imsg (-1) ENOTCONN d
      | Some a \<Rightarrow> answer imsg 0 0 (d\<lparr>d_mem := put_name sin_ptr namelen a (d_mem d)\<rparr>))"

section \<open>STOP and CANCEL\<close>

definition tn_ipc_cmd_stop :: "env \<Rightarrow> ptr \<Rightarrow> TnDaemon \<Rightarrow> TnDaemon \<times> action" where
  "tn_ipc_cmd_stop E imsg d =
     (let d0 = set_reply imsg 0 0 d;
          d1 = (if d_lib_open_cnt d0 > 0 then tn_reap_dead_clients E d0 else d0) in
      if d_lib_open_cnt d1 > 0 then answer imsg (-1) EBUSY d1
      else if d_stop_msg d1 \<noteq> NULL then answer imsg (-1) EALREADY d1
      else (d1\<lparr>d_stop_msg := imsg, d_running := False\<rparr>, DEFER))"

definition cancel_slot :: "nat \<Rightarrow> ptr \<Rightarrow> TnDaemon \<Rightarrow> TnDaemon" where
  "cancel_slot i target d =
     (let s = slot_of d i;
          f = (if s_pending_recv_msg s = target then (\<lambda>s. s\<lparr>s_pending_recv_msg := NULL\<rparr>)
               else if s_pending_connect_msg s = target then (\<lambda>s. s\<lparr>s_pending_connect_msg := NULL\<rparr>)
               else (\<lambda>s. s\<lparr>s_pending_accept_msg := NULL\<rparr>))
      in reply_to target (-1) EINTR (upd_slot i f d))"

definition tn_ipc_cmd_cancel :: "ptr \<Rightarrow> TnDaemon \<Rightarrow> TnDaemon \<times> action" where
  "tn_ipc_cmd_cancel imsg d =
     (let target = to_ULONG (im_args (d_msgs d imsg) 0) in
      case first_idx (\<lambda>s. s_in_use s \<and> (s_pending_recv_msg s = target \<or> s_pending_connect_msg s = target \<or>
               s_pending_accept_msg s = target)) (d_sockets d) of
        Some i \<Rightarrow> answer imsg 0 0 (cancel_slot i target d)
      | None \<Rightarrow>
          let (d1, found) = tn_slot_cancel_parked_send target d in
          if found then answer imsg 0 0 d1
          else case first_idx (\<lambda>r. dp_in_use r \<and> dp_imsg r = target) (d_dns_pending d1) of
            Some p \<Rightarrow> answer imsg 0 0 (reply_to target (-1) EINTR (dns_drop_record p d1))
          | None \<Rightarrow> answer imsg 0 0 d1)"

end
