(* ===== verification/Ipc_Sockopt.thy ===== *)
theory Ipc_Sockopt
  imports Ipc_Socket "HOL-Library.Signed_Division"
begin

text \<open>
  SETSOCKOPT (task/ipc_setsockopt.c), GETSOCKOPT (task/ipc_getsockopt.c) and IOCTL
  (task/ipc_socket.c).  A set operation gives the new state and an errno, 0 for success.
\<close>

section \<open>SETSOCKOPT\<close>

abbreviation (input) SOL_SOCKET :: int where "SOL_SOCKET \<equiv> 0xffff"
abbreviation (input) SO_REUSEADDR :: int where "SO_REUSEADDR \<equiv> 4"
abbreviation (input) SO_KEEPALIVE :: int where "SO_KEEPALIVE \<equiv> 8"
abbreviation (input) SO_BROADCAST :: int where "SO_BROADCAST \<equiv> 0x20"
abbreviation (input) SO_LINGER :: int where "SO_LINGER \<equiv> 0x80"
abbreviation (input) SO_OOBINLINE :: int where "SO_OOBINLINE \<equiv> 0x100"
abbreviation (input) SO_SNDBUF :: int where "SO_SNDBUF \<equiv> 0x1001"
abbreviation (input) SO_RCVBUF :: int where "SO_RCVBUF \<equiv> 0x1002"
abbreviation (input) SO_SNDTIMEO :: int where "SO_SNDTIMEO \<equiv> 0x1005"
abbreviation (input) SO_RCVTIMEO :: int where "SO_RCVTIMEO \<equiv> 0x1006"
abbreviation (input) SO_ERROR :: int where "SO_ERROR \<equiv> 0x1007"
abbreviation (input) SO_TYPE :: int where "SO_TYPE \<equiv> 0x1008"
abbreviation (input) SO_EVENTMASK :: int where "SO_EVENTMASK \<equiv> 0x2001"
abbreviation (input) IPPROTO_IP :: int where "IPPROTO_IP \<equiv> 0"
abbreviation (input) IP_HDRINCL :: int where "IP_HDRINCL \<equiv> 2"
abbreviation (input) IP_TOS :: int where "IP_TOS \<equiv> 3"
abbreviation (input) IP_TTL :: int where "IP_TTL \<equiv> 4"
abbreviation (input) IP_MULTICAST_TTL :: int where "IP_MULTICAST_TTL \<equiv> 10"
abbreviation (input) IP_MULTICAST_LOOP :: int where "IP_MULTICAST_LOOP \<equiv> 11"
abbreviation (input) IP_ADD_MEMBERSHIP :: int where "IP_ADD_MEMBERSHIP \<equiv> 12"
abbreviation (input) IP_DROP_MEMBERSHIP :: int where "IP_DROP_MEMBERSHIP \<equiv> 13"
abbreviation (input) TCP_NODELAY :: int where "TCP_NODELAY \<equiv> 1"
abbreviation (input) TCP_MAXSEG :: int where "TCP_MAXSEG \<equiv> 2"
abbreviation (input) TCP_KEEPIDLE :: int where "TCP_KEEPIDLE \<equiv> 3"
abbreviation (input) TCP_KEEPINTVL :: int where "TCP_KEEPINTVL \<equiv> 4"
abbreviation (input) TCP_KEEPCNT :: int where "TCP_KEEPCNT \<equiv> 5"
abbreviation (input) SOF_REUSEADDR :: u8 where "SOF_REUSEADDR \<equiv> 4"
abbreviation (input) SOF_KEEPALIVE :: u8 where "SOF_KEEPALIVE \<equiv> 8"
abbreviation (input) SOF_BROADCAST :: u8 where "SOF_BROADCAST \<equiv> 0x20"

definition TCP_MSS :: int where "TCP_MSS = 1460"

definition tn_load_opt_int :: "mem \<Rightarrow> ptr \<Rightarrow> int" where
  "tn_load_opt_int m p = to_LONG (load_u32 m p)"

definition upd_opts :: "nat \<Rightarrow> (slot_opts \<Rightarrow> slot_opts) \<Rightarrow> TnDaemon \<Rightarrow> TnDaemon" where
  "upd_opts i f = upd_slot i (\<lambda>s. s\<lparr>s_opts := f (s_opts s)\<rparr>)"

definition set_bits :: "bool \<Rightarrow> 'a::len word \<Rightarrow> 'a word \<Rightarrow> 'a word" where
  "set_bits on f v = (if on then v OR f else v AND NOT f)"

text \<open>Write to a control block of the slot that exists.\<close>

definition with_tcp :: "nat \<Rightarrow> (tcp_pcb \<Rightarrow> tcp_pcb) \<Rightarrow> TnDaemon \<Rightarrow> TnDaemon" where
  "with_tcp i f d = (if s_tcp_pcb (slot_of d i) \<noteq> NULL then upd_tcp (s_tcp_pcb (slot_of d i)) f d else d)"

definition with_udp :: "nat \<Rightarrow> (udp_pcb \<Rightarrow> udp_pcb) \<Rightarrow> TnDaemon \<Rightarrow> TnDaemon" where
  "with_udp i f d = (if s_udp_pcb (slot_of d i) \<noteq> NULL then upd_udp (s_udp_pcb (slot_of d i)) f d else d)"

definition with_raw :: "nat \<Rightarrow> (raw_pcb \<Rightarrow> raw_pcb) \<Rightarrow> TnDaemon \<Rightarrow> TnDaemon" where
  "with_raw i f d = (if s_raw_pcb (slot_of d i) \<noteq> NULL then upd_raw (s_raw_pcb (slot_of d i)) f d else d)"

text \<open>A pcb that is not a listening one (which has fewer fields).\<close>

definition with_conn_tcp :: "nat \<Rightarrow> (tcp_pcb \<Rightarrow> tcp_pcb) \<Rightarrow> TnDaemon \<Rightarrow> TnDaemon" where
  "with_conn_tcp i f d = (if s_tcp_state (slot_of d i) \<noteq> TCP_LISTENING then with_tcp i f d else d)"

text \<open>A timeout option: a \<open>timeval\<close>, or milliseconds in an int; \<open>None\<close> for a short buffer.\<close>

definition load_timeo :: "mem \<Rightarrow> ptr \<Rightarrow> int \<Rightarrow> (u32 \<times> u32) option" where
  "load_timeo m p optlen =
     (if optlen \<ge> 8 then Some (load_u32 m p, load_u32 m (p + 4))
      else if optlen \<ge> 4
      then let ms = tn_load_opt_int m p in Some (to_ULONG (ms sdiv 1000), to_ULONG ((ms smod 1000) * 1000))
      else None)"

definition rearm_tick :: "TnDaemon \<Rightarrow> u32 \<Rightarrow> u32 \<Rightarrow> u32" where
  "rearm_tick d secs micro = (if secs > 0 \<or> micro > 0 then d_mainloop_ticks d + timeo_ticks secs micro else 0)"

definition set_rcvtimeo :: "nat \<Rightarrow> u32 \<Rightarrow> u32 \<Rightarrow> TnDaemon \<Rightarrow> TnDaemon" where
  "set_rcvtimeo i secs micro d =
     (let d1 = upd_opts i (\<lambda>os. os\<lparr>opt_rcvtimeo_secs := secs, opt_rcvtimeo_micro := micro\<rparr>) d
      in if s_pending_recv_msg (slot_of d1 i) \<noteq> NULL
         then upd_slot i (\<lambda>s. s\<lparr>s_recv_deadline_tick := rearm_tick d1 secs micro\<rparr>) d1 else d1)"

definition set_sndtimeo :: "nat \<Rightarrow> u32 \<Rightarrow> u32 \<Rightarrow> TnDaemon \<Rightarrow> TnDaemon" where
  "set_sndtimeo i secs micro d =
     (let d1 = upd_opts i (\<lambda>os. os\<lparr>opt_sndtimeo_secs := secs, opt_sndtimeo_micro := micro\<rparr>) d
      in if s_pending_send_msg (slot_of d1 i) \<noteq> NULL
         then upd_slot i (\<lambda>s. s\<lparr>s_send_deadline_tick := rearm_tick d1 secs micro\<rparr>) d1 else d1)"

definition set_socket_opt :: "nat \<Rightarrow> int \<Rightarrow> ptr \<Rightarrow> int \<Rightarrow> TnDaemon \<Rightarrow> TnDaemon \<times> int" where
  "set_socket_opt i optname optval optlen d =
     (let v = tn_load_opt_int (d_mem d) optval; on = (v \<noteq> 0); short = (d, EINVAL) in
      if optname = SO_BROADCAST then
        (if optlen < 4 then short
         else (with_udp i (\<lambda>p. p\<lparr>up_so_options := set_bits on SOF_BROADCAST (up_so_options p)\<rparr>)
                 (upd_opts i (\<lambda>os. os\<lparr>opt_broadcast := on\<rparr>) d), 0))
      else if optname = SO_KEEPALIVE then
        (if optlen < 4 then short
         else (with_tcp i (\<lambda>p. p\<lparr>tp_so_options := set_bits on SOF_KEEPALIVE (tp_so_options p)\<rparr>)
                 (upd_opts i (\<lambda>os. os\<lparr>opt_keepalive := on\<rparr>) d), 0))
      else if optname = SO_REUSEADDR then
        (if optlen < 4 then short
         else (with_udp i (\<lambda>p. p\<lparr>up_so_options := set_bits on SOF_REUSEADDR (up_so_options p)\<rparr>)
                (with_tcp i (\<lambda>p. p\<lparr>tp_so_options := set_bits on SOF_REUSEADDR (tp_so_options p)\<rparr>)
                 (upd_opts i (\<lambda>os. os\<lparr>opt_reuseaddr := on\<rparr>) d)), 0))
      else if optname = SO_LINGER then
        (if optlen < 8 then short
         else (upd_opts i (\<lambda>os. os\<lparr>opt_linger_onoff := v,
                 opt_linger_linger := tn_load_opt_int (d_mem d) (optval + 4)\<rparr>) d, 0))
      else if optname = SO_SNDBUF then
        (if optlen < 4 then short else (upd_opts i (\<lambda>os. os\<lparr>opt_sndbuf := v\<rparr>) d, 0))
      else if optname = SO_RCVBUF then
        (if optlen < 4 then short else (upd_opts i (\<lambda>os. os\<lparr>opt_rcvbuf := v\<rparr>) d, 0))
      else if optname = SO_OOBINLINE then
        (if optlen < 4 then short else (upd_opts i (\<lambda>os. os\<lparr>opt_oobinline := on\<rparr>) d, 0))
      else if optname = SO_RCVTIMEO then
        (case load_timeo (d_mem d) optval optlen of
           None \<Rightarrow> short | Some (secs, micro) \<Rightarrow> (set_rcvtimeo i secs micro d, 0))
      else if optname = SO_SNDTIMEO then
        (case load_timeo (d_mem d) optval optlen of
           None \<Rightarrow> short | Some (secs, micro) \<Rightarrow> (set_sndtimeo i secs micro d, 0))
      else if optname = SO_EVENTMASK then (if optlen < 4 then short else (d, 0))
      else (d, ENOPROTOOPT))"

text \<open>The largest MSS that may be requested.\<close>

definition mss_limit :: "lwip \<Rightarrow> TnSocketSlot \<Rightarrow> int" where
  "mss_limit l s =
     (if s_tcp_pcb s \<noteq> NULL \<and> (s_tcp_state s = TCP_ESTABLISHED \<or> s_tcp_state s = TCP_PEER_CLOSED)
      then uint (tp_mss (lw_tcp l (s_tcp_pcb s)))
      else if opt_mss (s_opts s) \<noteq> 0 then uint (opt_mss (s_opts s)) else TCP_MSS)"

definition keep_secs_ok :: "int \<Rightarrow> bool" where
  "keep_secs_ok v = (0 < v \<and> to_ULONG v \<le> 0xFFFFFFFF div 1000)"

definition set_tcp_opt :: "nat \<Rightarrow> int \<Rightarrow> ptr \<Rightarrow> int \<Rightarrow> TnDaemon \<Rightarrow> TnDaemon \<times> int" where
  "set_tcp_opt i optname optval optlen d =
     (let v = tn_load_opt_int (d_mem d) optval; s = slot_of d i; short = (d, EINVAL) in
      if s_type s \<noteq> SOCK_STREAM then (d, ENOPROTOOPT)
      else if optname = TCP_NODELAY then
        (if optlen < 4 then short
         else (with_conn_tcp i (\<lambda>p. p\<lparr>tp_flags := set_bits (v \<noteq> 0) 0x40 (tp_flags p)\<rparr>)
                 (upd_opts i (\<lambda>os. os\<lparr>opt_nodelay := (v \<noteq> 0)\<rparr>) d), 0))
      else if optname = TCP_MAXSEG then
        (if optlen < 4 \<or> v < 1 \<or> v > mss_limit (d_lw d) s then short
         else (with_conn_tcp i (\<lambda>p. p\<lparr>tp_mss := word_of_int v\<rparr>)
                 (upd_opts i (\<lambda>os. os\<lparr>opt_mss := word_of_int v\<rparr>) d), 0))
      else if optname = TCP_KEEPIDLE then
        (if optlen < 4 \<or> \<not> keep_secs_ok v then short
         else (with_conn_tcp i (\<lambda>p. p\<lparr>tp_keep_idle := to_ULONG v * 1000\<rparr>)
                 (upd_opts i (\<lambda>os. os\<lparr>opt_keepidle := v\<rparr>) d), 0))
      else if optname = TCP_KEEPINTVL then
        (if optlen < 4 \<or> \<not> keep_secs_ok v then short
         else (with_conn_tcp i (\<lambda>p. p\<lparr>tp_keep_intvl := to_ULONG v * 1000\<rparr>)
                 (upd_opts i (\<lambda>os. os\<lparr>opt_keepintvl := v\<rparr>) d), 0))
      else if optname = TCP_KEEPCNT then
        (if optlen < 4 \<or> v \<le> 0 then short
         else (with_conn_tcp i (\<lambda>p. p\<lparr>tp_keep_cnt := to_ULONG v\<rparr>)
                 (upd_opts i (\<lambda>os. os\<lparr>opt_keepcnt := v\<rparr>) d), 0))
      else (d, ENOPROTOOPT))"

text \<open>\<open>tn_mcast_find\<close>: a free record, or the slot's record of a join.\<close>

definition tn_mcast_find :: "TnDaemon \<Rightarrow> nat option \<Rightarrow> u32 \<Rightarrow> u32 \<Rightarrow> nat option" where
  "tn_mcast_find d slot_idx grp ifa =
     first_idx (\<lambda>j. case slot_idx of
        None \<Rightarrow> \<not> mj_in_use j
      | Some i \<Rightarrow> mj_in_use j \<and> mj_slot j = i mod 256 \<and> mj_grp j = grp \<and> mj_ifa j = ifa) (d_mcast_joins d)"

definition mcast_errno :: "int \<Rightarrow> int" where
  "mcast_errno err = (if err = ERR_MEM then ENOBUFS else EINVAL)"

definition add_membership :: "env \<Rightarrow> nat \<Rightarrow> u32 \<Rightarrow> u32 \<Rightarrow> TnDaemon \<Rightarrow> TnDaemon \<times> int" where
  "add_membership E i grp ifa d =
     (case tn_mcast_find d None 0 0 of
        None \<Rightarrow> (d, ENOBUFS)
      | Some k \<Rightarrow>
          let (d1, err) = lwcall E (IgmpJoin ifa grp) d in
          if err \<noteq> ERR_OK then (d1, mcast_errno err)
          else (d1\<lparr>d_mcast_joins := (d_mcast_joins d1)[k :=
                 \<lparr>mj_in_use = True, mj_slot = i mod 256, mj_grp = grp, mj_ifa = ifa\<rparr>]\<rparr>, 0))"

definition drop_membership :: "env \<Rightarrow> nat \<Rightarrow> u32 \<Rightarrow> u32 \<Rightarrow> TnDaemon \<Rightarrow> TnDaemon \<times> int" where
  "drop_membership E i grp ifa d =
     (let (d1, err) = lwcall E (IgmpLeave ifa grp) d in
      if err \<noteq> ERR_OK then (d1, mcast_errno err)
      else case tn_mcast_find d1 (Some i) grp ifa of
        None \<Rightarrow> (d1, 0)
      | Some k \<Rightarrow> (d1\<lparr>d_mcast_joins := (d_mcast_joins d1)[k := (d_mcast_joins d1 ! k)\<lparr>mj_in_use := False\<rparr>]\<rparr>, 0))"

definition set_ip_opt :: "env \<Rightarrow> nat \<Rightarrow> int \<Rightarrow> ptr \<Rightarrow> int \<Rightarrow> TnDaemon \<Rightarrow> TnDaemon \<times> int" where
  "set_ip_opt E i optname optval optlen d =
     (let v = tn_load_opt_int (d_mem d) optval; b = word_of_int v :: u8; short = (d, EINVAL);
          byte = (if optlen \<ge> 4 then b else d_mem d optval) in
      if optname = IP_TOS then
        (if optlen < 4 then short
         else (with_raw i (\<lambda>p. p\<lparr>rp_tos := b\<rparr>) (with_udp i (\<lambda>p. p\<lparr>up_tos := b\<rparr>)
                 (with_tcp i (\<lambda>p. p\<lparr>tp_tos := b\<rparr>) (upd_opts i (\<lambda>os. os\<lparr>opt_tos := b\<rparr>) d))), 0))
      else if optname = IP_TTL then
        (if optlen < 4 then short
         else (with_raw i (\<lambda>p. p\<lparr>rp_ttl := b\<rparr>) (with_udp i (\<lambda>p. p\<lparr>up_ttl := b\<rparr>)
                 (with_tcp i (\<lambda>p. p\<lparr>tp_ttl := b\<rparr>) (upd_opts i (\<lambda>os. os\<lparr>opt_ttl := b\<rparr>) d))), 0))
      else if optname = IP_HDRINCL then
        (if s_type (slot_of d i) \<noteq> SOCK_RAW then (d, ENOPROTOOPT)
         else if optlen < 4 then short
         else (with_raw i (\<lambda>p. p\<lparr>rp_flags := set_bits (v \<noteq> 0) 2 (rp_flags p)\<rparr>)
                 (upd_opts i (\<lambda>os. os\<lparr>opt_hdrincl := (v \<noteq> 0)\<rparr>) d), 0))
      else if optname = IP_MULTICAST_TTL then
        (if optlen < 1 then short
         else (with_raw i (\<lambda>p. p\<lparr>rp_mcast_ttl := byte\<rparr>) (with_udp i (\<lambda>p. p\<lparr>up_mcast_ttl := byte\<rparr>)
                 (upd_opts i (\<lambda>os. os\<lparr>opt_multicast_ttl := byte\<rparr>) d)), 0))
      else if optname = IP_MULTICAST_LOOP then
        (if optlen < 1 then short
         else let on = (if optlen \<ge> 4 then v \<noteq> 0 else d_mem d optval \<noteq> 0)
              in (with_udp i (\<lambda>p. p\<lparr>up_flags := set_bits on 8 (up_flags p)\<rparr>)
                   (upd_opts i (\<lambda>os. os\<lparr>opt_multicast_loop := (if on then 1 else 0)\<rparr>) d), 0))
      else if optname = IP_ADD_MEMBERSHIP then
        (if optlen < 8 then short
         else add_membership E i (load_u32 (d_mem d) optval) (load_u32 (d_mem d) (optval + 4)) d)
      else if optname = IP_DROP_MEMBERSHIP then
        (if optlen < 8 then short
         else drop_membership E i (load_u32 (d_mem d) optval) (load_u32 (d_mem d) (optval + 4)) d)
      else (d, ENOPROTOOPT))"

definition tn_ipc_cmd_setsockopt :: "env \<Rightarrow> ptr \<Rightarrow> nat \<Rightarrow> TnDaemon \<Rightarrow> TnDaemon \<times> action" where
  "tn_ipc_cmd_setsockopt E imsg i d =
     (let m = d_msgs d imsg; level = im_args m 1; optname = im_args m 2; optlen = im_args m 3; optval = im_ptrs m 0 in
      if optval = NULL then answer imsg (-1) EBADF d
      else let (d1, e) =
             (if level = SOL_SOCKET then set_socket_opt i optname optval optlen d
              else if level = IPPROTO_TCP then set_tcp_opt i optname optval optlen d
              else if level = IPPROTO_IP then set_ip_opt E i optname optval optlen d
              else (d, EINVAL))
           in answer imsg (if e = 0 then 0 else -1) e d1)"

section \<open>GETSOCKOPT\<close>

text \<open>
  The value of an option: \<open>OptInt\<close> and \<open>OptBytes\<close> with the bytes stored, or the errno.  A
  value is stored only when the client buffer holds it.
\<close>

datatype opt_value = OptInt int | OptBytes bytes | OptErr int

abbreviation (input) opt_flag :: "bool \<Rightarrow> opt_value" where "opt_flag b \<equiv> OptInt (if b then 1 else 0)"

definition get_timeo :: "u32 \<Rightarrow> u32 \<Rightarrow> u32 \<Rightarrow> opt_value" where
  "get_timeo secs micro olen =
     (if olen \<ge> 8 then OptBytes (be_of_u32 secs @ be_of_u32 micro)
      else OptInt (to_LONG (secs * 1000 + micro div 1000)))"

definition get_socket_opt :: "TnSocketSlot \<Rightarrow> int \<Rightarrow> u32 \<Rightarrow> opt_value" where
  "get_socket_opt s optname olen =
     (let os = s_opts s in
      if optname = SO_BROADCAST then opt_flag (opt_broadcast os)
      else if optname = SO_KEEPALIVE then opt_flag (opt_keepalive os)
      else if optname = SO_REUSEADDR then opt_flag (opt_reuseaddr os)
      else if optname = SO_LINGER
      then OptBytes (be_of_u32 (to_ULONG (opt_linger_onoff os)) @ be_of_u32 (to_ULONG (opt_linger_linger os)))
      else if optname = SO_ERROR then OptInt (s_last_error s)
      else if optname = SO_SNDBUF then OptInt (if opt_sndbuf os \<noteq> 0 then opt_sndbuf os else TCP_SND_BUF)
      else if optname = SO_RCVBUF then OptInt (if opt_rcvbuf os \<noteq> 0 then opt_rcvbuf os else TCP_WND)
      else if optname = SO_TYPE then OptInt (s_type s)
      else if optname = SO_OOBINLINE then opt_flag (opt_oobinline os)
      else if optname = SO_RCVTIMEO then get_timeo (opt_rcvtimeo_secs os) (opt_rcvtimeo_micro os) olen
      else if optname = SO_SNDTIMEO then get_timeo (opt_sndtimeo_secs os) (opt_sndtimeo_micro os) olen
      else OptErr ENOPROTOOPT)"

definition get_tcp_opt :: "lwip \<Rightarrow> TnSocketSlot \<Rightarrow> int \<Rightarrow> opt_value" where
  "get_tcp_opt l s optname =
     (let os = s_opts s; p = lw_tcp l (s_tcp_pcb s);
          live = (s_tcp_state s \<noteq> TCP_LISTENING \<and> s_tcp_pcb s \<noteq> NULL) in
      if s_type s \<noteq> SOCK_STREAM then OptErr ENOPROTOOPT
      else if optname = TCP_NODELAY then opt_flag (opt_nodelay os)
      else if optname = TCP_MAXSEG
      then OptInt (if s_tcp_state s = TCP_LISTENING then (if opt_mss os \<noteq> 0 then uint (opt_mss os) else TCP_MSS)
                   else if s_tcp_pcb s \<noteq> NULL then uint (tp_mss p) else TCP_MSS)
      else if optname = TCP_KEEPIDLE then OptInt (if live then to_LONG (tp_keep_idle p div 1000) else opt_keepidle os)
      else if optname = TCP_KEEPINTVL then OptInt (if live then to_LONG (tp_keep_intvl p div 1000) else opt_keepintvl os)
      else if optname = TCP_KEEPCNT then OptInt (if live then to_LONG (tp_keep_cnt p) else opt_keepcnt os)
      else OptErr ENOPROTOOPT)"

definition get_ip_opt :: "lwip \<Rightarrow> TnSocketSlot \<Rightarrow> int \<Rightarrow> opt_value" where
  "get_ip_opt l s optname =
     (let os = s_opts s in
      if optname = IP_TOS then OptInt (uint (opt_tos os))
      else if optname = IP_TTL then OptInt (uint (opt_ttl os))
      else if optname = IP_HDRINCL
      then (if s_type s \<noteq> SOCK_RAW then OptErr ENOPROTOOPT
            else opt_flag (if s_raw_pcb s \<noteq> NULL then rp_flags (lw_raw l (s_raw_pcb s)) AND 2 \<noteq> 0 else opt_hdrincl os))
      else if optname = IP_MULTICAST_TTL then OptInt (uint (opt_multicast_ttl os))
      else if optname = IP_MULTICAST_LOOP then OptInt (uint (opt_multicast_loop os))
      else OptErr ENOPROTOOPT)"

definition opt_bytes :: "opt_value \<Rightarrow> bytes" where
  "opt_bytes v = (case v of OptInt n \<Rightarrow> be_of_u32 (to_ULONG n) | OptBytes bs \<Rightarrow> bs | OptErr e \<Rightarrow> [])"

text \<open>Reading \<open>SO_ERROR\<close> clears it.\<close>

definition tn_ipc_cmd_getsockopt :: "ptr \<Rightarrow> nat \<Rightarrow> TnDaemon \<Rightarrow> TnDaemon \<times> action" where
  "tn_ipc_cmd_getsockopt imsg i d =
     (let m = d_msgs d imsg; level = im_args m 1; optname = im_args m 2; optval = im_ptrs m 0; optlen = im_ptrs m 1;
          s = slot_of d i; olen = load_u32 (d_mem d) optlen in
      if optval = NULL then answer imsg (-1) EBADF d
      else if optlen = NULL then answer imsg (-1) EINVAL d
      else let v = (if level = SOL_SOCKET then get_socket_opt s optname olen
                    else if level = IPPROTO_TCP then get_tcp_opt (d_lw d) s optname
                    else if level = IPPROTO_IP then get_ip_opt (d_lw d) s optname
                    else OptErr EINVAL) in
        case v of
          OptErr e \<Rightarrow> answer imsg (-1) e d
        | _ \<Rightarrow>
            if olen < word_of_nat (length (opt_bytes v)) then answer imsg (-1) EINVAL d
            else let d1 = d\<lparr>d_mem := store_u32 (store_bytes (d_mem d) optval (opt_bytes v)) optlen (word_of_nat (length (opt_bytes v)))\<rparr>
                 in answer imsg 0 0 (if level = SOL_SOCKET \<and> optname = SO_ERROR
                                     then upd_slot i (\<lambda>s. s\<lparr>s_last_error := 0\<rparr>) d1 else d1))"

section \<open>IOCTL\<close>

abbreviation (input) FIONBIO :: u32 where "FIONBIO \<equiv> 0x8004667E"
abbreviation (input) FIONREAD :: u32 where "FIONREAD \<equiv> 0x4004667F"
abbreviation (input) SIOCATMARK :: u32 where "SIOCATMARK \<equiv> 0x40047307"
abbreviation (input) TN_SIOCGARP :: u32 where "TN_SIOCGARP \<equiv> 0xC2696926"
abbreviation (input) SIOCADDRT :: u32 where "SIOCADDRT \<equiv> 0x8030720A"
abbreviation (input) SIOCDELRT :: u32 where "SIOCDELRT \<equiv> 0x8030720B"
abbreviation (input) SIOCGIFCONF :: u32 where "SIOCGIFCONF \<equiv> 0xC0086924"
abbreviation (input) OSIOCGIFCONF :: u32 where "OSIOCGIFCONF \<equiv> 0xC0086914"
abbreviation (input) SIOCGIFFLAGS :: u32 where "SIOCGIFFLAGS \<equiv> 0xC0206911"
abbreviation (input) SIOCGIFADDR :: u32 where "SIOCGIFADDR \<equiv> 0xC0206921"
abbreviation (input) OSIOCGIFADDR :: u32 where "OSIOCGIFADDR \<equiv> 0xC020690D"
abbreviation (input) SIOCGIFNETMASK :: u32 where "SIOCGIFNETMASK \<equiv> 0xC0206925"
abbreviation (input) OSIOCGIFNETMASK :: u32 where "OSIOCGIFNETMASK \<equiv> 0xC0206915"
abbreviation (input) SIOCGIFBRDADDR :: u32 where "SIOCGIFBRDADDR \<equiv> 0xC0206923"
abbreviation (input) OSIOCGIFBRDADDR :: u32 where "OSIOCGIFBRDADDR \<equiv> 0xC0206912"
abbreviation (input) SIOCGIFMTU :: u32 where "SIOCGIFMTU \<equiv> 0xC0206933"

definition fionread_total :: "TnRxPacket list \<Rightarrow> u32" where
  "fionread_total pks = word_of_nat (sum_list (map (\<lambda>pk. length (pk_p pk) - pk_offset pk) pks))"

definition if_num :: "netif \<Rightarrow> nat" where
  "if_num n = (if ni_name n = (101, 116) then (case ni_unit n of Some u \<Rightarrow> u | None \<Rightarrow> 0) else 0)"

definition standard_name :: "netif \<Rightarrow> bytes" where
  "standard_name n =
     (if ni_name n = (101, 116) then [101, 116, 104, 48 + word_of_nat (if_num n)]
      else [fst (ni_name n), snd (ni_name n), 48])"

definition lwip_name :: "netif \<Rightarrow> bytes" where
  "lwip_name n = [fst (ni_name n), snd (ni_name n), 48 + word_of_nat (if_num n)]"

fun ifconf_loop :: "ptr \<Rightarrow> int \<Rightarrow> int \<Rightarrow> netif list \<Rightarrow> mem \<Rightarrow> mem \<times> int" where
  "ifconf_loop ifr space written [] m = (m, written)"
| "ifconf_loop ifr space written (n # ns) m =
     (if ifr \<noteq> NULL \<and> space \<ge> 32
      then let nm = standard_name n;
               m1 = store_bytes m ifr (nm @ replicate (16 - length nm) 0);
               m2 = tn_sockin_store_bytes m1 (ifr + 16) 2 0 (ni_ip n)
           in ifconf_loop (ifr + 32) (space - 32) (written + 32) ns m2
      else ifconf_loop ifr space written ns m)"

definition find_netif :: "env \<Rightarrow> lwip \<Rightarrow> bytes \<Rightarrow> netif option" where
  "find_netif E l name =
     (case first_idx (\<lambda>n. map to_lower name = map to_lower (standard_name n) \<or>
                          map to_lower name = map to_lower (lwip_name n)) (ev_netifs E l) of
        Some k \<Rightarrow> Some (ev_netifs E l ! k)
      | None \<Rightarrow>
          if name = [] then (case ev_default E l of Some n \<Rightarrow> Some n
                             | None \<Rightarrow> (case ev_netifs E l of [] \<Rightarrow> None | n # _ \<Rightarrow> Some n))
          else None)"

definition if_flags :: "netif \<Rightarrow> u16" where
  "if_flags n = (if ni_up n then 1 else 0) OR (if ni_link_up n \<or> ni_up n then 0x40 else 0) OR
     (if ni_broadcast n then 2 else 0) OR (if ni_igmp n then 0x8000 else 0)"

definition ioctl_if :: "u32 \<Rightarrow> ptr \<Rightarrow> netif \<Rightarrow> mem \<Rightarrow> mem" where
  "ioctl_if req ifr n m =
     (if req = SIOCGIFFLAGS then store_bytes m (ifr + 16) (be_of_u16 (if_flags n))
      else if req = SIOCGIFADDR \<or> req = OSIOCGIFADDR then tn_sockin_store_bytes m (ifr + 16) 2 0 (ni_ip n)
      else if req = SIOCGIFNETMASK \<or> req = OSIOCGIFNETMASK then tn_sockin_store_bytes m (ifr + 16) 2 0 (ni_mask n)
      else if req = SIOCGIFBRDADDR \<or> req = OSIOCGIFBRDADDR
      then tn_sockin_store_bytes m (ifr + 16) 2 0 (ni_ip n OR NOT (ni_mask n))
      else store_u32 m (ifr + 16) (ucast (ni_mtu n)))"

definition ioctl_arp :: "env \<Rightarrow> ptr \<Rightarrow> ptr \<Rightarrow> TnDaemon \<Rightarrow> TnDaemon \<times> action" where
  "ioctl_arp E imsg argp d =
     (let (family, port, addr) = tn_sockin_load_bytes (d_mem d) argp in
      if family \<noteq> 2 \<or> addr = 0 then answer imsg (-1) EINVAL d
      else case ev_arp E (d_lw d) addr of
        None \<Rightarrow> answer imsg (-1) ENXIO d
      | Some mac \<Rightarrow>
          if list_all (\<lambda>b. b = 0) mac then answer imsg (-1) ENXIO d
          else answer imsg 0 0 (d\<lparr>d_mem :=
            store_u32 (store_bytes (d_mem d) (argp + 16) ([0, 0] @ take 6 mac @ replicate 8 0)) (argp + 32) 2\<rparr>))"

definition tn_ipc_cmd_ioctl :: "env \<Rightarrow> ptr \<Rightarrow> nat \<Rightarrow> TnDaemon \<Rightarrow> TnDaemon \<times> action" where
  "tn_ipc_cmd_ioctl E imsg i d =
     (let m = d_msgs d imsg; req = to_ULONG (im_args m 1); argp = im_ptrs m 0 in
      if argp = NULL then answer imsg (-1) EINVAL d
      else if req = FIONBIO
      then answer imsg 0 0 (upd_slot i (\<lambda>s. s\<lparr>s_is_nonblocking := (load_u32 (d_mem d) argp \<noteq> 0)\<rparr>) d)
      else if req = FIONREAD
      then answer imsg 0 0 (d\<lparr>d_mem := store_u32 (d_mem d) argp (fionread_total (s_rx (slot_of d i)))\<rparr>)
      else if req = SIOCATMARK then answer imsg 0 0 (d\<lparr>d_mem := store_u32 (d_mem d) argp 0\<rparr>)
      else if req = TN_SIOCGARP then ioctl_arp E imsg argp d
      else if req = SIOCADDRT \<or> req = SIOCDELRT then answer imsg (-1) ENOSYS d
      else if req = SIOCGIFCONF \<or> req = OSIOCGIFCONF
      then let (m1, written) = ifconf_loop (load_u32 (d_mem d) (argp + 4)) (to_LONG (load_u32 (d_mem d) argp)) 0
                                 (ev_netifs E (d_lw d)) (d_mem d)
           in answer imsg 0 0 (d\<lparr>d_mem := store_u32 m1 argp (to_ULONG written)\<rparr>)
      else if List.member [SIOCGIFFLAGS, SIOCGIFADDR, OSIOCGIFADDR, SIOCGIFNETMASK, OSIOCGIFNETMASK,
                           SIOCGIFBRDADDR, OSIOCGIFBRDADDR, SIOCGIFMTU] req
      then (case find_netif E (d_lw d) (load_cstr (d_mem d) argp 16) of
              None \<Rightarrow> answer imsg (-1) ENXIO d
            | Some n \<Rightarrow> answer imsg 0 0 (d\<lparr>d_mem := ioctl_if req argp n (d_mem d)\<rparr>))
      else answer imsg (-1) EINVAL d)"

end
