(* ===== verification/Ipc_Status.thy ===== *)
theory Ipc_Status
  imports Ipc_Sockopt
begin

text \<open>
  The SYSLOG and ENUMSOCKETS handlers (task/ipc_status.c).  Structures in client memory have
  the layout of the 68000 ABI, where longwords are aligned to two bytes.
\<close>

section \<open>SYSLOG\<close>

definition TN_SYSLOG_MSG_MAX :: int where "TN_SYSLOG_MSG_MAX = 200"

text \<open>The line goes to the log; the client sees the number of characters taken.\<close>

definition tn_ipc_cmd_syslog :: "ptr \<Rightarrow> TnDaemon \<Rightarrow> TnDaemon \<times> action" where
  "tn_ipc_cmd_syslog imsg d =
     (let m = d_msgs d imsg; src = im_ptrs m 0; len = im_args m 1; tier = im_args m 2 in
      if src = NULL \<or> len < 0 \<or> tier < 1 \<or> tier > 2 then answer imsg (-1) EINVAL d
      else let line = load_cstr (d_mem d) src (nat (if len > TN_SYSLOG_MSG_MAX - 1 then TN_SYSLOG_MSG_MAX - 1 else len));
               n = length line
           in answer imsg (int (if im_args m 0 \<ge> 0 \<and> n > 0 \<and> line ! (n - 1) = 10 then n - 1 else n)) 0 d)"

section \<open>ENUMSOCKETS\<close>

fun tcp_state_code :: "TnTcpState \<Rightarrow> u8" where
  "tcp_state_code TCP_CLOSED = 0"
| "tcp_state_code TCP_CONNECTING = 1"
| "tcp_state_code TCP_ESTABLISHED = 2"
| "tcp_state_code TCP_LISTENING = 3"
| "tcp_state_code TCP_PEER_CLOSED = 4"
| "tcp_state_code TCP_ERROR = 5"

text \<open>Local port, remote port, local and remote address and free send buffer of a socket.\<close>

record sock_ends =
  se_lport :: u16
  se_rport :: u16
  se_lip :: u32
  se_rip :: u32
  se_send_q :: u32

definition sock_info :: "lwip \<Rightarrow> TnSocketSlot \<Rightarrow> sock_ends" where
  "sock_info l s =
     (if s_type s = SOCK_STREAM \<and> s_tcp_pcb s \<noteq> NULL
      then let p = lw_tcp l (s_tcp_pcb s); conn = (s_tcp_state s \<noteq> TCP_LISTENING)
           in \<lparr>se_lport = tp_local_port p, se_rport = (if conn then tp_remote_port p else 0), se_lip = tp_local_ip p,
              se_rip = tp_remote_ip p, se_send_q = (if conn then ucast (tp_snd_buf p) else 0)\<rparr>
      else if s_type s = SOCK_DGRAM \<and> s_udp_pcb s \<noteq> NULL
      then let p = lw_udp l (s_udp_pcb s)
           in \<lparr>se_lport = up_local_port p, se_rport = up_remote_port p, se_lip = up_local_ip p, se_rip = up_remote_ip p, se_send_q = 0\<rparr>
      else if s_type s = SOCK_RAW \<and> s_raw_pcb s \<noteq> NULL
      then let p = lw_raw l (s_raw_pcb s)
           in \<lparr>se_lport = word_of_int (s_protocol s), se_rport = 0, se_lip = rp_local_ip p, se_rip = rp_remote_ip p, se_send_q = 0\<rparr>
      else \<lparr>se_lport = 0, se_rport = 0, se_lip = 0, se_rip = 0, se_send_q = 0\<rparr>)"

definition info_v2_bytes :: "lwip \<Rightarrow> TnSocketSlot \<Rightarrow> bytes" where
  "info_v2_bytes l s =
     (let e = sock_info l s
      in be_of_u16 50 @ [2, word_of_int (s_type s), tcp_state_code (s_tcp_state s), 0] @
         be_of_u16 (se_lport e) @ be_of_u16 (se_rport e) @ be_of_u32 (se_lip e) @ replicate 12 0 @
         be_of_u32 (se_rip e) @ replicate 12 0 @ be_of_u32 (word_of_nat (s_rx_count s)) @ be_of_u32 (se_send_q e))"

definition info_v1_bytes :: "lwip \<Rightarrow> TnSocketSlot \<Rightarrow> bytes" where
  "info_v1_bytes l s =
     (let e = sock_info l s
      in [word_of_int (s_type s), tcp_state_code (s_tcp_state s)] @ be_of_u16 (se_lport e) @ be_of_u16 (se_rport e) @
         be_of_u32 (se_lip e) @ be_of_u32 (se_rip e) @ be_of_u32 (word_of_nat (s_rx_count s)) @ be_of_u32 (se_send_q e))"

text \<open>The loop over the slots: write the entries of the used ones while there is room.\<close>

fun enum_loop :: "(TnSocketSlot \<Rightarrow> bytes) \<Rightarrow> int \<Rightarrow> ptr \<Rightarrow> int \<Rightarrow> TnSocketSlot list \<Rightarrow> int \<Rightarrow> mem \<Rightarrow> mem \<times> int" where
  "enum_loop enc width out max_entries [] count m = (m, count)"
| "enum_loop enc width out max_entries (s # ss) count m =
     (if count \<ge> max_entries then (m, count)
      else if s_in_use s
      then enum_loop enc width out max_entries ss (count + 1) (store_bytes m (out + word_of_int (width * count)) (enc s))
      else enum_loop enc width out max_entries ss count m)"

definition tn_ipc_cmd_enumsockets :: "ptr \<Rightarrow> TnDaemon \<Rightarrow> TnDaemon \<times> action" where
  "tn_ipc_cmd_enumsockets imsg d =
     (let m = d_msgs d imsg; max_entries = im_args m 0; out = im_ptrs m 0 in
      if out = NULL \<or> max_entries \<le> 0 then answer imsg (-1) EINVAL d
      else let (m1, count) =
             (if im_args m 2 = 50 then enum_loop (info_v2_bytes (d_lw d)) 50 out max_entries (d_sockets d) 0 (d_mem d)
              else enum_loop (info_v1_bytes (d_lw d)) 22 out max_entries (d_sockets d) 0 (d_mem d))
           in answer imsg count 0 (d\<lparr>d_mem := m1\<rparr>))"

end
