(* ===== verification/Ipc_Dispatch.thy ===== *)
theory Ipc_Dispatch
  imports Ipc_Status
begin

text \<open>
  The request dispatcher (task/ipc_dispatch.c): the handler table with its guards,
  \<open>tn_handle_ipc\<close> and the message loop of the daemon (task/daemon_main.c).  The handlers that
  report statistics or change the configuration (GETSTATUS, RECONFIG, GETSTATS, IFCTL) are the
  parameter \<open>ext\<close>, indexed by the command.
\<close>

section \<open>The handler table\<close>

definition TN_IPC_CMDS :: int where "TN_IPC_CMDS = 37"

definition needs_base :: "int \<Rightarrow> bool" where
  "needs_base cmd = (0 \<le> cmd \<and> cmd \<le> 17 \<or> cmd = 20 \<or> cmd = 21 \<or> 25 \<le> cmd \<and> cmd \<le> 30 \<or> cmd = 36)"

definition needs_fd :: "int \<Rightarrow> bool" where
  "needs_fd cmd = (3 \<le> cmd \<and> cmd \<le> 17 \<or> cmd = 21 \<or> 25 \<le> cmd \<and> cmd \<le> 27)"

definition has_handler :: "int \<Rightarrow> bool" where
  "has_handler cmd = (cmd \<noteq> 19)"

type_synonym ext_handlers = "int \<Rightarrow> ptr \<Rightarrow> TnDaemon \<Rightarrow> TnDaemon \<times> action"

text \<open>
  The handler of a command; \<open>i\<close> is the slot found for a command that needs a descriptor.
  The rounds given to the UNIQUE_ID loop of RELEASESOCKET are one more than there are slots.
\<close>

definition handler :: "env \<Rightarrow> ext_handlers \<Rightarrow> int \<Rightarrow> ptr \<Rightarrow> nat \<Rightarrow> TnDaemon \<Rightarrow> (TnDaemon \<times> action) option" where
  "handler E ext cmd imsg i d =
     (if cmd = 0 then Some (tn_ipc_cmd_open E imsg d)
      else if cmd = 1 then Some (tn_ipc_cmd_close E imsg d)
      else if cmd = 2 then Some (tn_ipc_cmd_socket E imsg d)
      else if cmd = 3 then Some (tn_ipc_cmd_bind E imsg i d)
      else if cmd = 4 then Some (tn_ipc_cmd_listen E imsg i d)
      else if cmd = 5 then Some (tn_ipc_cmd_accept E imsg i d)
      else if cmd = 6 then Some (tn_ipc_cmd_connect E imsg i d)
      else if cmd = 7 then Some (tn_ipc_cmd_sendto E imsg i d)
      else if cmd = 8 then Some (tn_ipc_cmd_send E imsg i d)
      else if cmd = 9 then Some (tn_ipc_cmd_recvfrom E imsg i d)
      else if cmd = 10 then Some (tn_ipc_cmd_recv E imsg i d)
      else if cmd = 11 then Some (tn_ipc_cmd_shutdown E imsg i d)
      else if cmd = 12 then Some (tn_ipc_cmd_setsockopt E imsg i d)
      else if cmd = 13 then Some (tn_ipc_cmd_getsockopt imsg i d)
      else if cmd = 14 then Some (tn_ipc_cmd_getsockname imsg i d)
      else if cmd = 15 then Some (tn_ipc_cmd_getpeername imsg i d)
      else if cmd = 16 then Some (tn_ipc_cmd_ioctl E imsg i d)
      else if cmd = 17 then Some (tn_ipc_cmd_closesocket E imsg i d)
      else if cmd = 18 then Some (tn_ipc_cmd_gethostbyname E imsg d)
      else if cmd = 20 then Some (tn_ipc_cmd_waitselect imsg d)
      else if cmd = 21 then Some (tn_ipc_cmd_dup2 E imsg i d)
      else if cmd = 24 then Some (tn_ipc_cmd_enumsockets imsg d)
      else if cmd = 25 then Some (tn_ipc_cmd_sendmsg E imsg i d)
      else if cmd = 26 then Some (tn_ipc_cmd_recvmsg E imsg i d)
      else if cmd = 27 then tn_ipc_cmd_releasesocket (Suc (length (d_sockets d))) imsg i d
      else if cmd = 28 then Some (tn_ipc_cmd_obtainsocket imsg d)
      else if cmd = 29 then Some (tn_ipc_cmd_select_arm imsg d)
      else if cmd = 30 then Some (tn_ipc_cmd_select_disarm imsg d)
      else if cmd = 32 then Some (tn_ipc_cmd_routectl imsg d)
      else if cmd = 34 then Some (tn_ipc_cmd_stop E imsg d)
      else if cmd = 35 then Some (tn_ipc_cmd_cancel imsg d)
      else if cmd = 36 then Some (tn_ipc_cmd_syslog imsg d)
      else Some (ext cmd imsg d))"

definition count_call :: "int \<Rightarrow> TnDaemon \<Rightarrow> TnDaemon" where
  "count_call cmd d =
     (if cmd < 32 then d\<lparr>d_ipc_calls := (d_ipc_calls d)[nat cmd := d_ipc_calls d ! nat cmd + 1]\<rparr> else d)"

text \<open>The flag tells whether the caller is to reply; \<open>None\<close> is a handler that does not return.\<close>

definition tn_handle_ipc :: "env \<Rightarrow> ext_handlers \<Rightarrow> ptr \<Rightarrow> TnDaemon \<Rightarrow> (TnDaemon \<times> bool) option" where
  "tn_handle_ipc E ext imsg d =
     (if imsg = NULL then Some (d, False)
      else let d0 = set_reply imsg 0 0 d; cmd = im_cmd (d_msgs d0 imsg); base = im_socket_base (d_msgs d0 imsg);
               refuse = (\<lambda>e d. Some (set_reply imsg (-1) e d, True)) in
        if cmd < 0 \<or> cmd \<ge> TN_IPC_CMDS then refuse ENOSYS d0
        else let d1 = count_call cmd d0;
                 slot = tn_slot_lookup d1 base (im_args (d_msgs d1 imsg) 0) in
          if \<not> has_handler cmd then refuse ENOSYS d1
          else if needs_base cmd \<and> base = NULL then refuse EINVAL d1
          else if needs_fd cmd \<and> slot = None then refuse EBADF d1
          else case handler E ext cmd imsg (case slot of Some i \<Rightarrow> i | None \<Rightarrow> 0) d1 of
            None \<Rightarrow> None
          | Some (d2, action) \<Rightarrow>
              if action = REPLY_NOW then Some (d2, True)
              else Some (d2\<lparr>d_deferred_replies := d_deferred_replies d2 + 1\<rparr>, False))"

text \<open>The loop over the messages at the IPC port, and the drain after it.\<close>

fun serve_messages :: "env \<Rightarrow> ext_handlers \<Rightarrow> ptr list \<Rightarrow> TnDaemon \<Rightarrow> TnDaemon option" where
  "serve_messages E ext [] d = Some (tn_drain_loopback E d)"
| "serve_messages E ext (msg # msgs) d =
     (case tn_handle_ipc E ext msg d of
        None \<Rightarrow> None
      | Some (d1, reply) \<Rightarrow> serve_messages E ext msgs (if reply then ReplyMsg msg d1 else d1))"

end
