(* ===== verification/Ledger_View.thy ===== *)
theory Ledger_View
  imports Ledger Ipc_Dispatch
begin

text \<open>
  The ledger that a daemon state denotes, and the operations that leave it alone: everything
  that moves data, answers requests or talks to lwIP without opening, sharing, parking or
  closing a socket.
\<close>

named_theorems view_simps \<open>operations that leave the reference ledger alone\<close>

definition rcv :: "TnSocketSlot \<Rightarrow> ledger_slot" where
  "rcv s = (s_in_use s, s_ref_count s, s_is_parked s, s_park_id s)"

definition ledger_of :: "TnDaemon \<Rightarrow> ledger" where
  "ledger_of d = \<lparr>lg_slots = map rcv (d_sockets d), lg_map = (\<lambda>b. sb_fd_map (d_bases d b)),
     lg_size = (\<lambda>b. sb_dtablesize (d_bases d b)), lg_owner = (\<lambda>m. im_socket_base (d_msgs d m)),
     lg_opened = d_open_bases d, lg_next = d_next_park_id d\<rparr>"

section \<open>Primitive updates\<close>

lemma view_fields [simp]:
  "lg_slots (ledger_of d) = map rcv (d_sockets d)"
  "lg_map (ledger_of d) b = sb_fd_map (d_bases d b)"
  "lg_size (ledger_of d) b = sb_dtablesize (d_bases d b)"
  "lg_owner (ledger_of d) m = im_socket_base (d_msgs d m)"
  "lg_opened (ledger_of d) = d_open_bases d"
  "lg_next (ledger_of d) = d_next_park_id d"
  by (simp_all add: ledger_of_def)

lemma view_upd_slot [view_simps]:
  assumes "\<And>s. rcv (f s) = rcv s"
  shows "ledger_of (upd_slot i f d) = ledger_of d"
proof -
  have "map rcv ((d_sockets d)[i := f (slot_of d i)]) = map rcv (d_sockets d)"
    using assms by (cases "i < length (d_sockets d)") (simp_all add: map_update list_update_same_conv list_update_beyond)
  then show ?thesis by (simp add: ledger_of_def sockets_upd_slot)
qed

lemma view_upd_msg [view_simps]:
  assumes "\<And>m. im_socket_base (f m) = im_socket_base m"
  shows "ledger_of (upd_msg p f d) = ledger_of d"
  using assms by (auto simp: ledger_of_def msgs_upd_msg)

lemma view_upd_base [view_simps]:
  assumes "\<And>b. sb_fd_map (f b) = sb_fd_map b" "\<And>b. sb_dtablesize (f b) = sb_dtablesize b"
  shows "ledger_of (upd_base p f d) = ledger_of d"
  using assms by (auto simp: ledger_of_def bases_upd_base)

lemma view_sockets_map [view_simps]:
  assumes "\<And>s. rcv (f s) = rcv s"
  shows "ledger_of (d\<lparr>d_sockets := map f (d_sockets d)\<rparr>) = ledger_of d"
  using assms by (simp add: ledger_of_def comp_def)

lemma view_updates [view_simps]:
  "ledger_of (d\<lparr>d_hostname := x_hostname\<rparr>) = ledger_of d"
  "ledger_of (d\<lparr>d_selectors := x_selectors\<rparr>) = ledger_of d"
  "ledger_of (d\<lparr>d_selector_count := x_selector_count\<rparr>) = ledger_of d"
  "ledger_of (d\<lparr>d_ipc_calls := x_ipc_calls\<rparr>) = ledger_of d"
  "ledger_of (d\<lparr>d_deferred_replies := x_deferred_replies\<rparr>) = ledger_of d"
  "ledger_of (d\<lparr>d_sigio_sent := x_sigio_sent\<rparr>) = ledger_of d"
  "ledger_of (d\<lparr>d_selector_wakeups := x_selector_wakeups\<rparr>) = ledger_of d"
  "ledger_of (d\<lparr>d_mainloop_ticks := x_mainloop_ticks\<rparr>) = ledger_of d"
  "ledger_of (d\<lparr>d_rx_high_water := x_rx_high_water\<rparr>) = ledger_of d"
  "ledger_of (d\<lparr>d_rxfree := x_rxfree\<rparr>) = ledger_of d"
  "ledger_of (d\<lparr>d_dns_late_replies := x_dns_late_replies\<rparr>) = ledger_of d"
  "ledger_of (d\<lparr>d_dns_pending := x_dns_pending\<rparr>) = ledger_of d"
  "ledger_of (d\<lparr>d_dns_pending_count := x_dns_pending_count\<rparr>) = ledger_of d"
  "ledger_of (d\<lparr>d_dns_pending_max := x_dns_pending_max\<rparr>) = ledger_of d"
  "ledger_of (d\<lparr>d_open_base_count := x_open_base_count\<rparr>) = ledger_of d"
  "ledger_of (d\<lparr>d_mcast_joins := x_mcast_joins\<rparr>) = ledger_of d"
  "ledger_of (d\<lparr>d_slot_free_hook := x_slot_free_hook\<rparr>) = ledger_of d"
  "ledger_of (d\<lparr>d_running := x_running\<rparr>) = ledger_of d"
  "ledger_of (d\<lparr>d_stop_msg := x_stop_msg\<rparr>) = ledger_of d"
  "ledger_of (d\<lparr>d_lib_open_cnt := x_lib_open_cnt\<rparr>) = ledger_of d"
  "ledger_of (d\<lparr>d_routes := x_routes\<rparr>) = ledger_of d"
  "ledger_of (d\<lparr>d_mem := x_mem\<rparr>) = ledger_of d"
  "ledger_of (d\<lparr>d_lw := x_lw\<rparr>) = ledger_of d"
  "ledger_of (d\<lparr>d_fx := x_fx\<rparr>) = ledger_of d"
  by (simp_all add: ledger_of_def)

lemma rcv_update [simp]:
  "rcv (s\<lparr>s_owner_base := a\<rparr>) = rcv s" "rcv (s\<lparr>s_owner_task := b\<rparr>) = rcv s" "rcv (s\<lparr>s_tcp_state := c\<rparr>) = rcv s"
  "rcv (s\<lparr>s_is_nonblocking := e\<rparr>) = rcv s" "rcv (s\<lparr>s_shut_wr := f\<rparr>) = rcv s" "rcv (s\<lparr>s_shut_rd := g\<rparr>) = rcv s"
  "rcv (s\<lparr>s_opts := h\<rparr>) = rcv s" "rcv (s\<lparr>s_last_error := i\<rparr>) = rcv s" "rcv (s\<lparr>s_rx_count := j\<rparr>) = rcv s"
  "rcv (s\<lparr>s_udp_pcb := k\<rparr>) = rcv s" "rcv (s\<lparr>s_tcp_pcb := l\<rparr>) = rcv s" "rcv (s\<lparr>s_raw_pcb := m\<rparr>) = rcv s"
  "rcv (s\<lparr>s_rx := n\<rparr>) = rcv s" "rcv (s\<lparr>s_accept := ac\<rparr>) = rcv s" "rcv (s\<lparr>s_accept_count := p\<rparr>) = rcv s"
  "rcv (s\<lparr>s_listen_backlog := q\<rparr>) = rcv s" "rcv (s\<lparr>s_pending_connect_msg := r\<rparr>) = rcv s"
  "rcv (s\<lparr>s_pending_accept_msg := t\<rparr>) = rcv s" "rcv (s\<lparr>s_pending_recv_msg := u\<rparr>) = rcv s"
  "rcv (s\<lparr>s_recv_deadline_tick := v\<rparr>) = rcv s" "rcv (s\<lparr>s_pending_send_msg := w\<rparr>) = rcv s"
  "rcv (s\<lparr>s_send_deadline_tick := x\<rparr>) = rcv s" "rcv (s\<lparr>s_send_done := y\<rparr>) = rcv s"
  "rcv (s\<lparr>s_send_iov := z\<rparr>) = rcv s" "rcv (s\<lparr>s_send_iovcnt := aa\<rparr>) = rcv s"
  by (simp_all add: rcv_def)

text \<open>A fold of steps that leave the ledger alone leaves it alone.\<close>

lemma view_fold: "(\<And>x d. ledger_of (f x d) = ledger_of d) \<Longrightarrow> ledger_of (fold f xs d) = ledger_of d"
  by (induction xs arbitrary: d) simp_all

lemma view_set_reply [view_simps]: "ledger_of (set_reply m r e d) = ledger_of d"
  by (simp add: set_reply_def view_simps Let_def case_prod_unfold split: option.split)

lemma view_ReplyMsg [view_simps]: "ledger_of (ReplyMsg m d) = ledger_of d"
  by (simp add: ReplyMsg_def view_simps Let_def case_prod_unfold split: option.split)

lemma view_Signal [view_simps]: "ledger_of (Signal t s d) = ledger_of d"
  by (simp add: Signal_def view_simps Let_def case_prod_unfold split: option.split)

lemma view_lwcall [view_simps]: "ledger_of (fst (lwcall E c d)) = ledger_of d"
  by (simp add: lwcall_def view_simps Let_def case_prod_unfold split: option.split)

lemma view_lwdo [view_simps]: "ledger_of (lwdo E c d) = ledger_of d"
  by (simp add: lwdo_def view_simps Let_def case_prod_unfold split: option.split)

lemma view_lwdos [view_simps]: "ledger_of (lwdos E cs d) = ledger_of d"
  by (induction cs arbitrary: d) (simp_all add: view_simps)

lemma view_upd_tcp [view_simps]: "ledger_of (upd_tcp p f d) = ledger_of d"
  by (simp add: upd_tcp_def view_simps Let_def case_prod_unfold split: option.split)

lemma view_upd_udp [view_simps]: "ledger_of (upd_udp p f d) = ledger_of d"
  by (simp add: upd_udp_def view_simps Let_def case_prod_unfold split: option.split)

lemma view_upd_raw [view_simps]: "ledger_of (upd_raw p f d) = ledger_of d"
  by (simp add: upd_raw_def view_simps Let_def case_prod_unfold split: option.split)

section \<open>The slot table\<close>

lemma view_rxpkt_get [view_simps]: "ledger_of (fst (tn_rxpkt_get E d)) = ledger_of d"
  by (simp add: tn_rxpkt_get_def view_simps Let_def case_prod_unfold split: option.split)

lemma view_rxpkt_put [view_simps]: "ledger_of (tn_rxpkt_put E d) = ledger_of d"
  by (simp add: tn_rxpkt_put_def view_simps Let_def case_prod_unfold split: option.split)

lemma view_free_pkts [view_simps]: "ledger_of (free_pkts E pks d) = ledger_of d"
  by (induction pks arbitrary: d) (simp_all add: view_simps)

lemma view_rx_push_ex [view_simps]: "ledger_of (fst (tn_rx_queue_push_ex E i p a q c d)) = ledger_of d"
  by (simp add: tn_rx_queue_push_ex_def view_simps Let_def case_prod_unfold split: option.split)

lemma view_rx_push [view_simps]: "ledger_of (fst (tn_rx_queue_push E i p a q d)) = ledger_of d"
  by (simp add: tn_rx_queue_push_def view_simps Let_def case_prod_unfold split: option.split)

lemma view_rx_push_nocap [view_simps]: "ledger_of (fst (tn_rx_queue_push_nocap E i p a q d)) = ledger_of d"
  by (simp add: tn_rx_queue_push_nocap_def view_simps Let_def case_prod_unfold split: option.split)

lemma view_rx_pop [view_simps]: "ledger_of (fst (tn_rx_queue_pop i d)) = ledger_of d"
  by (simp add: tn_rx_queue_pop_def rx_pop_slot_def view_simps)

lemma view_rx_drain [view_simps]: "ledger_of (tn_rx_queue_drain E i d) = ledger_of d"
  by (simp add: tn_rx_queue_drain_def rx_clear_slot_def view_simps)

lemma view_recved_free [view_simps]: "ledger_of (recved_free_pkts E pcb pks d) = ledger_of d"
  by (induction pks arbitrary: d) (simp_all add: view_simps)

lemma view_rx_drain_recved [view_simps]: "ledger_of (tn_rx_queue_drain_with_recved E i d) = ledger_of d"
  by (simp add: tn_rx_queue_drain_with_recved_def rx_clear_slot_def view_simps)

lemma view_entry_free [view_simps]: "ledger_of (tn_accept_entry_free E ent a d) = ledger_of d"
  by (simp add: tn_accept_entry_free_def view_simps Let_def case_prod_unfold split: option.split)

lemma view_queue_remove [view_simps]: "ledger_of (tn_accept_queue_remove E i a d) = ledger_of d"
  by (simp add: tn_accept_queue_remove_def view_simps Let_def case_prod_unfold split: option.split)

lemma view_queue_push [view_simps]: "ledger_of (fst (tn_accept_queue_push E i p d)) = ledger_of d"
  by (simp add: tn_accept_queue_push_def view_simps Let_def case_prod_unfold split: option.split)

lemma view_queue_pop [view_simps]: "ledger_of (fst (tn_accept_queue_pop_entry i d)) = ledger_of d"
  by (simp add: tn_accept_queue_pop_entry_def view_simps Let_def case_prod_unfold split: option.split)

lemma view_free_entries [view_simps]: "ledger_of (free_entries E es d) = ledger_of d"
  by (induction es arbitrary: d) (simp_all add: view_simps)

lemma view_accept_drain [view_simps]: "ledger_of (tn_accept_queue_drain E i d) = ledger_of d"
  by (simp add: tn_accept_queue_drain_def view_simps Let_def case_prod_unfold split: option.split)

lemma view_upd_entry [view_simps]: "ledger_of (upd_entry i k f d) = ledger_of d"
  by (simp add: upd_entry_def view_simps Let_def case_prod_unfold split: option.split)

lemma view_queued_recv [view_simps]: "ledger_of (fst (tn_tcp_queued_recv_cb E a pcb p d)) = ledger_of d"
  by (simp add: tn_tcp_queued_recv_cb_def view_simps Let_def case_prod_unfold split: option.split)

lemma view_queued_err [view_simps]: "ledger_of (tn_tcp_queued_err_cb E a d) = ledger_of d"
  by (simp add: tn_tcp_queued_err_cb_def view_simps Let_def case_prod_unfold split: option.split)

lemma view_record_event [view_simps]: "ledger_of (tn_record_socket_event i ev d) = ledger_of d"
  by (simp add: tn_record_socket_event_def view_simps Let_def case_prod_unfold split: option.split)

lemma view_park_recv [view_simps]: "ledger_of (fst (tn_slot_park_recv i m d)) = ledger_of d"
  by (simp add: tn_slot_park_recv_def view_simps Let_def case_prod_unfold split: option.split)

lemma view_reply_send [view_simps]: "ledger_of (tn_slot_reply_send i e r d) = ledger_of d"
  by (simp add: tn_slot_reply_send_def view_simps Let_def case_prod_unfold split: option.split)

lemma view_cancel_send [view_simps]: "ledger_of (fst (tn_slot_cancel_parked_send m d)) = ledger_of d"
  by (simp add: tn_slot_cancel_parked_send_def view_simps Let_def case_prod_unfold split: option.split)

lemma view_reply_recv [view_simps]: "ledger_of (tn_slot_reply_recv i e r d) = ledger_of d"
  by (simp add: tn_slot_reply_recv_def view_simps Let_def case_prod_unfold split: option.split)

lemma view_check_timeouts [view_simps]: "ledger_of (tn_slot_check_recv_timeouts d) = ledger_of d"
  by (simp add: tn_slot_check_recv_timeouts_def slot_check_timeouts_def view_simps view_fold Let_def)

lemma view_recv_cancel2 [view_simps]: "ledger_of (tn_recv_cancel_for_base2 b r d) = ledger_of d"
  by (simp add: tn_recv_cancel_for_base2_def slot_cancel_for_base_def view_simps view_fold Let_def)

lemma view_recv_cancel [view_simps]: "ledger_of (tn_recv_cancel_for_base b d) = ledger_of d"
  by (simp add: tn_recv_cancel_for_base_def view_simps Let_def case_prod_unfold split: option.split)

lemma view_clear_owner [view_simps]: "ledger_of (tn_slot_clear_owner_base b d) = ledger_of d"
  by (simp add: tn_slot_clear_owner_base_def view_simps Let_def case_prod_unfold split: option.split)

lemma view_mcast_leave [view_simps]: "ledger_of (tn_mcast_leave_all E i d) = ledger_of d"
  by (simp add: tn_mcast_leave_all_def mcast_leave_one_def view_simps view_fold Let_def)

lemma view_free_tcp [view_simps]: "ledger_of (slot_free_tcp E i d) = ledger_of d"
  by (simp add: slot_free_tcp_def view_simps Let_def case_prod_unfold split: option.split)

lemma view_free_pcbs [view_simps]: "ledger_of (slot_free_pcbs E i d) = ledger_of d"
  by (simp add: slot_free_pcbs_def view_simps Let_def case_prod_unfold split: option.split)

lemma view_free_pending [view_simps]: "ledger_of (slot_free_pending i d) = ledger_of d"
  by (simp add: slot_free_pending_def slot_free_connect_def slot_free_accept_def slot_free_recv_def view_simps Let_def)

section \<open>Selectors\<close>

lemma view_resync [view_simps]: "ledger_of (tn_selector_count_resync d) = ledger_of d"
  by (simp add: tn_selector_count_resync_def view_simps Let_def case_prod_unfold split: option.split)

lemma view_disarm_sel [view_simps]: "ledger_of (disarm_selector k d) = ledger_of d"
  by (simp add: disarm_selector_def view_simps Let_def case_prod_unfold split: option.split)

lemma view_signal_sel [view_simps]: "ledger_of (signal_selector i k d) = ledger_of d"
  by (simp add: signal_selector_def view_simps Let_def case_prod_unfold split: option.split)

lemma view_sigio [view_simps]: "ledger_of (signal_sigio i d) = ledger_of d"
  by (simp add: signal_sigio_def view_simps Let_def case_prod_unfold split: option.split)

lemma view_signal_socket [view_simps]: "ledger_of (tn_signal_socket i d) = ledger_of d"
  by (simp add: tn_signal_socket_def view_simps view_fold Let_def)

lemma view_arm_sel [view_simps]: "ledger_of (arm_selector b t n r w e k d) = ledger_of d"
  by (simp add: arm_selector_def view_simps Let_def case_prod_unfold split: option.split)

lemma view_select_arm [view_simps]: "ledger_of (fst (tn_ipc_cmd_select_arm m d)) = ledger_of d"
  by (simp add: tn_ipc_cmd_select_arm_def view_simps Let_def case_prod_unfold split: option.split)

lemma view_disarm_step [view_simps]: "ledger_of (disarm_step b k d) = ledger_of d"
  by (simp add: disarm_step_def view_simps Let_def case_prod_unfold split: option.split)

lemma view_select_disarm [view_simps]: "ledger_of (fst (tn_ipc_cmd_select_disarm m d)) = ledger_of d"
  by (simp add: tn_ipc_cmd_select_disarm_def view_simps view_fold Let_def)

lemma view_disarm_all [view_simps]: "ledger_of (tn_selector_disarm_all_for_base b d) = ledger_of d"
  by (simp add: tn_selector_disarm_all_for_base_def view_simps view_fold)

lemma view_waitselect [view_simps]: "ledger_of (fst (tn_ipc_cmd_waitselect m d)) = ledger_of d"
  by (simp add: tn_ipc_cmd_waitselect_def view_simps Let_def case_prod_unfold split: option.split)

section \<open>Receiving\<close>

lemma view_rx_discard [view_simps]: "ledger_of (rx_discard E i d) = ledger_of d"
  by (simp add: rx_discard_def rx_pop_slot_def view_simps)

lemma view_recv_wait [view_simps]: "ledger_of (fst (recv_wait i m f d)) = ledger_of d"
  by (simp add: recv_wait_def view_simps Let_def case_prod_unfold split: option.split)

lemma view_stream_take [view_simps]: "ledger_of (fst (recv_stream_take E i b n d)) = ledger_of d"
  by (simp add: recv_stream_take_def view_simps Let_def case_prod_unfold split: option.split)

lemma view_stream_empty [view_simps]: "ledger_of (fst (recv_stream_empty i m f d)) = ledger_of d"
  by (simp add: recv_stream_empty_def view_simps Let_def case_prod_unfold split: option.split)

lemma view_dgram_take [view_simps]: "ledger_of (fst (recv_dgram_take E i b n pk d)) = ledger_of d"
  by (simp add: recv_dgram_take_def view_simps Let_def case_prod_unfold split: option.split)

lemma view_recv [view_simps]: "ledger_of (fst (tn_ipc_cmd_recv E m i d)) = ledger_of d"
  by (simp add: tn_ipc_cmd_recv_def view_simps Let_def case_prod_unfold split: option.split)

lemma view_recvfrom_take [view_simps]: "ledger_of (fst (recvfrom_take E i b n pk f fl p d)) = ledger_of d"
  by (simp add: recvfrom_take_def view_simps Let_def case_prod_unfold split: option.split)

lemma view_recvfrom [view_simps]: "ledger_of (fst (tn_ipc_cmd_recvfrom E m i d)) = ledger_of d"
  by (simp add: tn_ipc_cmd_recvfrom_def view_simps Let_def case_prod_unfold split: option.split)

lemma view_consume [view_simps]: "ledger_of (fst (recvmsg_consume E i pks iov n sp c off tot d)) = ledger_of d"
  by (induction pks arbitrary: c off tot d)
     (simp_all add: view_simps rx_pop_slot_def Let_def case_prod_unfold)

lemma view_recvmsg_stream [view_simps]: "ledger_of (fst (recvmsg_stream E m i u mh f sp d)) = ledger_of d"
  by (simp add: recvmsg_stream_def view_simps Let_def case_prod_unfold split: option.split)

lemma view_recvmsg_dgram [view_simps]: "ledger_of (fst (recvmsg_dgram E m i u mh f d)) = ledger_of d"
  by (simp add: recvmsg_dgram_def rx_pop_slot_def view_simps Let_def case_prod_unfold)

lemma view_recvmsg [view_simps]: "ledger_of (fst (tn_ipc_cmd_recvmsg E m i d)) = ledger_of d"
  by (simp add: tn_ipc_cmd_recvmsg_def view_simps Let_def case_prod_unfold split: option.split)

lemma view_run_recv [view_simps]: "ledger_of (fst (run_recv E m i d)) = ledger_of d"
  by (simp add: run_recv_def view_simps Let_def case_prod_unfold split: option.split)

lemma view_service [view_simps]: "ledger_of (tn_service_pending_recv E i d) = ledger_of d"
  by (simp add: tn_service_pending_recv_def view_simps Let_def case_prod_unfold split: option.split)

section \<open>lwIP callbacks other than accept\<close>

lemma view_write_some [view_simps]: "ledger_of (fst (tn_tcp_write_some E pcb buf iov n len vi vb pos d)) = ledger_of d"
  by (induction E pcb buf iov n len vi vb pos d rule: tn_tcp_write_some.induct)
     (subst tn_tcp_write_some.simps, simp add: view_simps Let_def split: option.split)

lemma view_resume_send [view_simps]: "ledger_of (tn_tcp_resume_send E i d) = ledger_of d"
  by (simp add: tn_tcp_resume_send_def view_simps Let_def case_prod_unfold split: option.split)

lemma view_poll_cb [view_simps]: "ledger_of (tn_tcp_poll_cb E a pcb d) = ledger_of d"
  by (simp add: tn_tcp_poll_cb_def view_simps Let_def case_prod_unfold split: option.split)

lemma view_sent_cb [view_simps]: "ledger_of (tn_tcp_sent_cb E a pcb d) = ledger_of d"
  by (simp add: tn_tcp_sent_cb_def view_simps Let_def case_prod_unfold split: option.split)

lemma view_detach [view_simps]: "ledger_of (tn_tcp_detach_finished E i pcb d) = ledger_of d"
  by (simp add: tn_tcp_detach_finished_def view_simps Let_def case_prod_unfold split: option.split)

lemma view_queue_clone [view_simps]: "ledger_of (fst (tn_tcp_queue_clone E i p c d)) = ledger_of d"
  by (simp add: tn_tcp_queue_clone_def view_simps Let_def case_prod_unfold split: option.split)

lemma view_notify [view_simps]: "ledger_of (notify_recv E i ev d) = ledger_of d"
  by (simp add: notify_recv_def view_simps Let_def case_prod_unfold split: option.split)

lemma view_free_opt [view_simps]: "ledger_of (free_opt E p d) = ledger_of d"
  by (simp add: free_opt_def view_simps Let_def case_prod_unfold split: option.split)

lemma view_recv_cb [view_simps]: "ledger_of (fst (tn_tcp_recv_cb E a pcb p d)) = ledger_of d"
  by (simp add: tn_tcp_recv_cb_def view_simps Let_def case_prod_unfold split: option.split)

lemma view_reply_connect [view_simps]: "ledger_of (reply_connect i r e d) = ledger_of d"
  by (simp add: reply_connect_def view_simps Let_def case_prod_unfold split: option.split)

lemma view_connected_cb [view_simps]: "ledger_of (tn_tcp_connected_cb E a pcb d) = ledger_of d"
  by (simp add: tn_tcp_connected_cb_def tcp_nagle_disable_def view_simps Let_def)

lemma view_err_cb [view_simps]: "ledger_of (tn_tcp_err_cb E a e d) = ledger_of d"
  by (simp add: tn_tcp_err_cb_def view_simps Let_def case_prod_unfold split: option.split)

lemma view_adopt [view_simps]: "ledger_of (adopt_pcb E m i j pcb d) = ledger_of d"
  by (simp add: adopt_pcb_def view_simps Let_def case_prod_unfold split: option.split)

lemma view_reply_to [view_simps]: "ledger_of (reply_to m r e d) = ledger_of d"
  by (simp add: reply_to_def view_simps Let_def case_prod_unfold split: option.split)

lemma view_udp_cb [view_simps]: "ledger_of (tn_udp_recv_cb E a p ip port d) = ledger_of d"
  by (simp add: tn_udp_recv_cb_def view_simps Let_def case_prod_unfold split: option.split)

lemma view_raw_cb [view_simps]: "ledger_of (tn_raw_recv_cb E a p ip d) = ledger_of d"
  by (simp add: tn_raw_recv_cb_def view_simps Let_def case_prod_unfold split: option.split)

section \<open>Handlers\<close>

lemma view_listen [view_simps]: "ledger_of (fst (tn_ipc_cmd_listen E m i d)) = ledger_of d"
  by (simp add: tn_ipc_cmd_listen_def view_simps Let_def case_prod_unfold split: option.split)

lemma view_accept_adopt [view_simps]: "ledger_of (accept_adopt E m i j ent d) = ledger_of d"
  by (simp add: accept_adopt_def accept_events_def view_simps Let_def)

lemma view_send_park [view_simps]: "ledger_of (fst (send_park E m i iov n len pos d)) = ledger_of d"
  by (simp add: send_park_def view_simps Let_def case_prod_unfold split: option.split)

lemma view_send_finish [view_simps]: "ledger_of (fst (send_finish E m i iov n len nb r)) = ledger_of (fst r)"
  by (simp add: send_finish_def view_simps Let_def)

lemma view_shutdown [view_simps]: "ledger_of (fst (tn_ipc_cmd_shutdown E m i d)) = ledger_of d"
  by (simp add: tn_ipc_cmd_shutdown_def shutdown_rdwr_def view_simps Let_def case_prod_unfold)

lemma view_bind [view_simps]: "ledger_of (fst (tn_ipc_cmd_bind E m i d)) = ledger_of d"
  by (simp add: tn_ipc_cmd_bind_def bind_pcb_def view_simps Let_def case_prod_unfold split: sum.split)

lemma view_pbuf_send [view_simps]: "ledger_of (fst (pbuf_send E bs c d)) = ledger_of d"
  by (simp add: pbuf_send_def view_simps Let_def case_prod_unfold split: option.split)

lemma view_sendmsg_raw [view_simps]: "ledger_of (fst (sendmsg_raw E m pcb t bs d)) = ledger_of d"
  by (simp add: sendmsg_raw_def view_simps Let_def case_prod_unfold split: option.split)

lemma view_dns_drop [view_simps]: "ledger_of (dns_drop_record p d) = ledger_of d"
  by (simp add: dns_drop_record_def view_simps Let_def case_prod_unfold split: option.split)

lemma view_dns_cancel2 [view_simps]: "ledger_of (tn_dns_cancel_for_base2 b r d) = ledger_of d"
  by (simp add: tn_dns_cancel_for_base2_def dns_cancel_one_def view_simps view_fold Let_def)

lemma view_dns_cancel [view_simps]: "ledger_of (tn_dns_cancel_for_base b d) = ledger_of d"
  by (simp add: tn_dns_cancel_for_base_def view_simps Let_def case_prod_unfold split: option.split)

lemma view_hostent [view_simps]: "ledger_of (tn_ipc_fill_hostent_now b n a d) = ledger_of d"
  by (simp add: tn_ipc_fill_hostent_now_def view_simps Let_def case_prod_unfold split: option.split)

lemma view_dns_found [view_simps]: "ledger_of (tn_dns_found_cb E n a m d) = ledger_of d"
  by (simp add: tn_dns_found_cb_def view_simps Let_def case_prod_unfold split: option.split)

lemma view_gethostbyname [view_simps]: "ledger_of (fst (tn_ipc_cmd_gethostbyname E m d)) = ledger_of d"
  by (simp add: tn_ipc_cmd_gethostbyname_def dns_defer_def dns_register_def view_simps Let_def case_prod_unfold split: option.split)

lemma view_routectl [view_simps]: "ledger_of (fst (tn_ipc_cmd_routectl m d)) = ledger_of d"
  by (simp add: tn_ipc_cmd_routectl_def view_simps Let_def case_prod_unfold split: option.split)

lemma view_getsockname [view_simps]: "ledger_of (fst (tn_ipc_cmd_getsockname m i d)) = ledger_of d"
  by (simp add: tn_ipc_cmd_getsockname_def view_simps Let_def case_prod_unfold split: option.split)

lemma view_getpeername [view_simps]: "ledger_of (fst (tn_ipc_cmd_getpeername m i d)) = ledger_of d"
  by (simp add: tn_ipc_cmd_getpeername_def view_simps Let_def case_prod_unfold split: option.split)

lemma view_cancel [view_simps]: "ledger_of (fst (tn_ipc_cmd_cancel m d)) = ledger_of d"
  by (simp add: tn_ipc_cmd_cancel_def cancel_slot_def view_simps Let_def case_prod_unfold split: option.split)

lemma view_with_tcp [view_simps]: "ledger_of (with_tcp i f d) = ledger_of d"
  by (simp add: with_tcp_def view_simps Let_def case_prod_unfold split: option.split)

lemma view_with_udp [view_simps]: "ledger_of (with_udp i f d) = ledger_of d"
  by (simp add: with_udp_def view_simps Let_def case_prod_unfold split: option.split)

lemma view_with_raw [view_simps]: "ledger_of (with_raw i f d) = ledger_of d"
  by (simp add: with_raw_def view_simps Let_def case_prod_unfold split: option.split)

lemma view_with_conn [view_simps]: "ledger_of (with_conn_tcp i f d) = ledger_of d"
  by (simp add: with_conn_tcp_def view_simps Let_def case_prod_unfold split: option.split)

lemma view_upd_opts [view_simps]: "ledger_of (upd_opts i f d) = ledger_of d"
  by (simp add: upd_opts_def view_simps Let_def case_prod_unfold split: option.split)

lemma view_rcvtimeo [view_simps]: "ledger_of (set_rcvtimeo i s u d) = ledger_of d"
  by (simp add: set_rcvtimeo_def view_simps Let_def case_prod_unfold split: option.split)

lemma view_sndtimeo [view_simps]: "ledger_of (set_sndtimeo i s u d) = ledger_of d"
  by (simp add: set_sndtimeo_def view_simps Let_def case_prod_unfold split: option.split)

lemma view_socket_opt [view_simps]: "ledger_of (fst (set_socket_opt i oname v n d)) = ledger_of d"
  by (simp add: set_socket_opt_def view_simps Let_def case_prod_unfold split: option.split)

lemma view_tcp_opt [view_simps]: "ledger_of (fst (set_tcp_opt i oname v n d)) = ledger_of d"
  by (simp add: set_tcp_opt_def view_simps Let_def case_prod_unfold split: option.split)

lemma view_add_member [view_simps]: "ledger_of (fst (add_membership E i g a d)) = ledger_of d"
  by (simp add: add_membership_def view_simps Let_def case_prod_unfold split: option.split)

lemma view_drop_member [view_simps]: "ledger_of (fst (drop_membership E i g a d)) = ledger_of d"
  by (simp add: drop_membership_def view_simps Let_def case_prod_unfold split: option.split)

lemma view_ip_opt [view_simps]: "ledger_of (fst (set_ip_opt E i oname v n d)) = ledger_of d"
  by (simp add: set_ip_opt_def view_simps Let_def case_prod_unfold split: option.split)

lemma view_setsockopt [view_simps]: "ledger_of (fst (tn_ipc_cmd_setsockopt E m i d)) = ledger_of d"
  by (simp add: tn_ipc_cmd_setsockopt_def view_simps Let_def case_prod_unfold split: option.split)

lemma view_getsockopt [view_simps]: "ledger_of (fst (tn_ipc_cmd_getsockopt m i d)) = ledger_of d"
  by (simp add: tn_ipc_cmd_getsockopt_def view_simps Let_def split: opt_value.split)

lemma view_ioctl [view_simps]: "ledger_of (fst (tn_ipc_cmd_ioctl E m i d)) = ledger_of d"
  by (simp add: tn_ipc_cmd_ioctl_def ioctl_arp_def view_simps Let_def case_prod_unfold split: option.split)

lemma view_syslog [view_simps]: "ledger_of (fst (tn_ipc_cmd_syslog m d)) = ledger_of d"
  by (simp add: tn_ipc_cmd_syslog_def view_simps Let_def case_prod_unfold split: option.split)

lemma view_enumsockets [view_simps]: "ledger_of (fst (tn_ipc_cmd_enumsockets m d)) = ledger_of d"
  by (simp add: tn_ipc_cmd_enumsockets_def view_simps Let_def case_prod_unfold split: option.split)

lemma view_count_call [view_simps]: "ledger_of (count_call c d) = ledger_of d"
  by (simp add: count_call_def view_simps Let_def case_prod_unfold split: option.split)

end
