(* ===== verification/Refcount.thy ===== *)
theory Refcount
  imports Ledger_View Fixtures
begin

text \<open>
  Reference counting of sockets.  The operations that open, share, park and close sockets
  refine the operations of the reference ledger, so every request, every lwIP callback and the
  reaping of dead clients keeps the ledger balanced: a slot lives exactly as long as a
  descriptor names it or it is parked, and no descriptor names a dead slot.
\<close>

abbreviation bal :: "ptr set \<Rightarrow> TnDaemon \<Rightarrow> bool" where
  "bal B d \<equiv> balanced B (ledger_of d)"

section \<open>Refinement of the ledger operations\<close>

lemma view_upd_slot_ref:
  assumes "\<And>s. rcv (f s) = g (rcv s)" "i < length (d_sockets d)"
  shows "ledger_of (upd_slot i f d) = lg_upd i g (ledger_of d)"
  using assms by (simp add: ledger_of_def lg_upd_def sockets_upd_slot map_update)

lemma view_set_fd: "ledger_of (set_fd b fd v d) = lg_set_fd b fd v (ledger_of d)"
  by (auto simp: ledger_of_def lg_set_fd_def set_fd_def bases_upd_base)

lemma sockets_set_fd [simp]: "d_sockets (set_fd b fd v d) = d_sockets d"
  by (simp add: set_fd_def)

lemma view_slot_free:
  assumes "i < 64" "length (d_sockets d) = 64" "s_in_use (slot_of d i)"
  shows "ledger_of (tn_slot_free E i d) = lg_free i (ledger_of d)"
proof -
  let ?d = "slot_free_pending i (tn_accept_queue_drain E i (tn_rx_queue_drain E i (slot_free_pcbs E i d)))"
  have "ledger_of ?d = ledger_of d" by (simp add: view_simps)
  then have "length (d_sockets ?d) = 64" using assms(2) by (metis length_map view_fields(1))
  then show ?thesis using assms
    by (simp add: tn_slot_free_def TN_MAX_GLOBAL_SOCKETS_def lg_free_def view_simps rcv_def
        view_upd_slot_ref [where g = "\<lambda>_. (False, 0, False, 0)"])
qed

lemma view_slot_unref:
  assumes "i < 64" "length (d_sockets d) = 64"
  shows "ledger_of (tn_slot_unref E i d) = lg_upd i drop_ref (ledger_of d)"
proof -
  let ?dec = "upd_slot i (\<lambda>s. s\<lparr>s_ref_count := s_ref_count s - 1\<rparr>) d"
  have dec: "ledger_of ?dec = lg_upd i (\<lambda>(u, n, p). (u, n - 1, p)) (ledger_of d)"
    using assms by (intro view_upd_slot_ref) (auto simp: rcv_def)
  have slot: "lg_slots (ledger_of d) ! i = rcv (slot_of d i)" using assms by simp
  note unref = tn_slot_unref_def TN_MAX_GLOBAL_SOCKETS_def Let_def
  consider "\<not> s_in_use (slot_of d i)" | "s_in_use (slot_of d i)" "s_ref_count (slot_of d i) < 0"
    | "s_in_use (slot_of d i)" "s_ref_count (slot_of d i) = 0 \<or> s_ref_count (slot_of d i) = 1"
    | "s_in_use (slot_of d i)" "s_ref_count (slot_of d i) > 1" by linarith
  then show ?thesis
  proof cases
    case 3
    have "lg_upd i drop_ref (ledger_of d) = lg_free i (ledger_of d)"
      using 3 slot by (intro lg_free_eq) (auto simp: rcv_def)
    then show ?thesis
      using 3 assms by (auto simp: unref view_slot_free dec lg_free_upd)
  next
    case 4
    have "lg_upd i drop_ref (ledger_of d) = lg_upd i (\<lambda>(u, n, p). (u, n - 1, p)) (ledger_of d)"
      using 4 slot by (intro lg_upd_cong) (auto simp: rcv_def)
    then show ?thesis using 4 assms by (simp add: unref dec)
  qed (use assms slot in \<open>simp_all add: unref lg_upd_same rcv_def\<close>)
qed

lemma bal_length: "bal B d \<Longrightarrow> length (d_sockets d) = 64"
  using wf_length [of B "ledger_of d"] by (simp add: balanced_wf)

lemma bal_owner: "bal B d \<Longrightarrow> im_socket_base (d_msgs d m) \<in> B"
  using balanced_wf [of B "ledger_of d"] by (simp add: lg_wf_def)

lemma bal_table: "bal B d \<Longrightarrow> b \<in> B \<Longrightarrow> length (sb_fd_map (d_bases d b)) = nat (sb_dtablesize (d_bases d b))"
  using balanced_wf [of B "ledger_of d"] by (simp add: lg_wf_def)

section \<open>Closing\<close>

lemma view_close_fd:
  assumes "length (d_sockets d) = 64"
  shows "ledger_of (close_fd E b fd d) = lg_close_fd b fd (ledger_of d)"
  using assms by (auto simp: close_fd_def lg_close_fd_def Let_def TN_MAX_GLOBAL_SOCKETS_def view_slot_unref
      view_set_fd rcv_def)

lemma bal_close_fd [inv_intros]:
  assumes "bal B d" "b \<in> B" "fd < nat (sb_dtablesize (d_bases d b))"
  shows "bal B (close_fd E b fd d)"
  using assms by (simp add: view_close_fd bal_length balanced_close_fd)

lemma size_close_fd [simp]:
  assumes "length (d_sockets d) = 64"
  shows "sb_dtablesize (d_bases (close_fd E b fd d) a) = sb_dtablesize (d_bases d a)"
proof -
  have "lg_size (ledger_of (close_fd E b fd d)) a = lg_size (ledger_of d) a"
    by (simp only: view_close_fd [OF assms]) (simp add: lg_close_fd_def Let_def)
  then show ?thesis by simp
qed

lemma bal_close_fds:
  assumes "bal B d" "b \<in> B" "\<forall>fd\<in>set fds. fd < nat (sb_dtablesize (d_bases d b))"
  shows "bal B (fold (close_fd E b) fds d)"
  using assms
proof (induction fds arbitrary: d)
  case (Cons fd fds)
  then show ?case by (simp add: bal_close_fd bal_length)
qed simp

lemma set_update_null: "set xs \<subseteq> B \<Longrightarrow> x \<in> B \<Longrightarrow> set (xs[k := x]) \<subseteq> B"
  using set_update_subset_insert [of xs k x] by blast

lemma bal_opened:
  assumes "bal B d" "b \<in> B"
  shows "bal B (d\<lparr>d_open_bases := (d_open_bases d)[k := b], d_open_base_count := n\<rparr>)"
proof -
  have "ledger_of (d\<lparr>d_open_bases := (d_open_bases d)[k := b], d_open_base_count := n\<rparr>) =
      ledger_of d\<lparr>lg_opened := (d_open_bases d)[k := b]\<rparr>" by (simp add: ledger_of_def)
  moreover have "set ((d_open_bases d)[k := b]) \<subseteq> B"
    using assms balanced_wf [OF assms(1)] by (intro set_update_null) (simp_all add: lg_wf_def)
  ultimately show ?thesis using assms by (simp add: balanced_opened)
qed

lemma bal_unregister [inv_intros]: "bal B d \<Longrightarrow> bal B (unregister_base b d)"
  using balanced_wf [of B "ledger_of d"]
  by (auto simp: unregister_base_def lg_wf_def intro: bal_opened split: option.split)

lemma bal_close_base [inv_intros]:
  assumes "bal B d" "b \<in> B"
  shows "bal B (close_base E b d)"
proof -
  let ?d1 = "if b \<noteq> NULL then tn_recv_cancel_for_base b (tn_dns_cancel_for_base b d) else d"
  have "bal B (unregister_base b ?d1)" using assms by (intro bal_unregister) (simp add: view_simps)
  then show ?thesis using assms(2) by (auto simp: close_base_def Let_def view_simps intro: bal_close_fds)
qed


lemma opened_unchanged: "ledger_of d1 = ledger_of d \<Longrightarrow> d_open_bases d1 = d_open_bases d"
  by (metis view_fields(5))

lemma opened_close_fds:
  "bal B d \<Longrightarrow> b \<in> B \<Longrightarrow> \<forall>fd\<in>set fds. fd < nat (sb_dtablesize (d_bases d b)) \<Longrightarrow>
   d_open_bases (fold (close_fd E b) fds d) = d_open_bases d"
proof (induction fds arbitrary: d)
  case (Cons fd fds)
  have "lg_opened (ledger_of (close_fd E b fd d)) = lg_opened (ledger_of d)"
    by (simp only: view_close_fd [OF bal_length [OF Cons.prems(1)]]) (simp add: lg_close_fd_def Let_def)
  then show ?case using Cons by (simp add: bal_close_fd bal_length)
qed simp

lemma opened_close_base:
  assumes "bal B d" "b \<in> B"
  shows "length (d_open_bases (close_base E b d)) = length (d_open_bases d)"
proof -
  let ?d1 = "if b \<noteq> NULL then tn_recv_cancel_for_base b (tn_dns_cancel_for_base b d) else d"
  have d1: "bal B ?d1" "d_open_bases ?d1 = d_open_bases d"
    using assms opened_unchanged [of ?d1 d] by (simp_all add: view_simps)
  then have "bal B (unregister_base b ?d1)" by (intro bal_unregister)
  moreover have "length (d_open_bases (unregister_base b ?d1)) = length (d_open_bases d)"
    unfolding d1(2) [symmetric] by (simp add: unregister_base_def split: option.split)
  moreover have "d_open_bases (tn_slot_clear_owner_base b (tn_selector_disarm_all_for_base b d2)) = d_open_bases d2" for d2
    by (rule opened_unchanged) (simp add: view_simps)
  ultimately show ?thesis
    using assms(2) by (cases "b = NULL") (simp_all add: close_base_def Let_def opened_close_fds [where B = B])
qed

lemma bal_reap_step:
  assumes "bal B d" "b < length (d_open_bases d)"
  shows "bal B (reap_one E b d) \<and> length (d_open_bases (reap_one E b d)) = length (d_open_bases d)"
proof -
  let ?base = "d_open_bases d ! b"
  let ?d1 = "reap_slot_msgs ?base (tn_recv_cancel_for_base2 ?base False (tn_dns_cancel_for_base2 ?base False d))"
  have base: "?base \<in> B"
    using assms balanced_wf [of B "ledger_of d"] nth_mem [of b "d_open_bases d"] by (auto simp: lg_wf_def)
  have view: "ledger_of ?d1 = ledger_of d" by (simp add: reap_slot_msgs_def view_simps)
  then have "bal B ?d1" "length (d_open_bases ?d1) = length (d_open_bases d)"
    using assms(1) opened_unchanged [OF view] by simp_all
  then show ?thesis
    using base assms(1) by (simp add: reap_one_def Let_def view_simps bal_close_base opened_close_base)
qed

lemma bal_reap [inv_intros]: "bal B d \<Longrightarrow> bal B (tn_reap_dead_clients E d)"
proof -
  assume "bal B d"
  then have "bal B (fold (reap_one E) bs d) \<and> length (d_open_bases (fold (reap_one E) bs d)) = length (d_open_bases d)"
    if "\<forall>b\<in>set bs. b < length (d_open_bases d)" for bs
    using that
  proof (induction bs rule: rev_induct)
    case (snoc b bs)
    then show ?case using bal_reap_step [of B "fold (reap_one E) bs d" b E] by simp
  qed simp
  then show ?thesis by (simp add: tn_reap_dead_clients_def)
qed

section \<open>Opening\<close>

lemma bal_register: "register_base b d = Some d1 \<Longrightarrow> bal B d \<Longrightarrow> b \<in> B \<Longrightarrow> bal B d1"
  by (auto simp: register_base_def intro: bal_opened split: option.splits)

lemma view_alloc:
  assumes "tn_slot_alloc b t af ty pr d = (d1, Some j)" "length (d_sockets d) = 64"
  shows "ledger_of d1 = lg_upd j (\<lambda>_. (True, 1, False, 0)) (ledger_of d)" "j < 64"
    "\<not> fst (lg_slots (ledger_of d) ! j)" "length (d_sockets d1) = 64"
  using assms first_idx_SomeD [of "\<lambda>s. \<not> s_in_use s" "d_sockets d" j]
  by (auto simp: tn_slot_alloc_def rcv_def tn_init_socket_slot_def
      view_upd_slot_ref [where g = "\<lambda>_. (True, 1, False, 0)"] split: option.splits)

lemma alloc_none: "tn_slot_alloc b t af ty pr d = (d1, None) \<Longrightarrow> d1 = d"
  by (auto simp: tn_slot_alloc_def split: option.splits)

text \<open>A slot was allocated in a balanced state: binding it to a free descriptor or freeing it balances again.\<close>

definition allocated :: "ptr set \<Rightarrow> nat \<Rightarrow> ledger \<Rightarrow> TnDaemon \<Rightarrow> bool" where
  "allocated B j L d = (balanced B L \<and> j < 64 \<and> \<not> fst (lg_slots L ! j) \<and> ledger_of d = lg_upd j (\<lambda>_. (True, 1, False, 0)) L)"

lemma allocated_alloc:
  "tn_slot_alloc b t af ty pr d = (d1, Some j) \<Longrightarrow> bal B d \<Longrightarrow> allocated B j (ledger_of d) d1"
  using view_alloc [of b t af ty pr d d1 j] bal_length [of B d] by (simp add: allocated_def)

lemma allocated_cong: "allocated B j L d \<Longrightarrow> ledger_of d1 = ledger_of d \<Longrightarrow> allocated B j L d1"
  by (simp add: allocated_def)

lemma allocated_slot:
  assumes "allocated B j L d"
  shows "length (d_sockets d) = 64" "j < 64" "s_in_use (slot_of d j)"
proof -
  have len: "length (lg_slots L) = 64" using assms wf_length [of B L] by (simp add: allocated_def balanced_wf)
  have "map rcv (d_sockets d) = (lg_slots L)[j := (True, 1, False, 0)]"
    using assms by (simp add: allocated_def lg_upd_def flip: view_fields(1))
  then have "length (map rcv (d_sockets d)) = 64" "map rcv (d_sockets d) ! j = (True, 1, False, 0)"
    using len assms by (simp_all add: allocated_def)
  then show "length (d_sockets d) = 64" "j < 64" "s_in_use (slot_of d j)" using assms by (simp_all add: allocated_def rcv_def)
qed

lemma bal_alloc_free:
  assumes "allocated B j L d"
  shows "bal B (tn_slot_free E j d)"
proof -
  have "ledger_of (tn_slot_free E j d) = lg_free j (lg_upd j (\<lambda>_. (True, 1, False, 0)) L)"
    using allocated_slot [OF assms] assms by (simp add: view_slot_free) (simp add: allocated_def)
  also have "\<dots> = lg_free j L"
    using assms wf_length [of B L] by (simp add: lg_free_upd allocated_def balanced_wf)
  finally show ?thesis using assms by (simp add: allocated_def balanced_free)
qed

lemma bal_alloc_bind:
  assumes "allocated B j L d" "b \<in> B" "fd < nat (sb_dtablesize (d_bases d b))" "sb_fd_map (d_bases d b) ! fd = -1"
  shows "bal B (set_fd b fd (int j) d)"
proof -
  have L: "balanced B L" "j < 64" "\<not> fst (lg_slots L ! j)" "ledger_of d = lg_upd j (\<lambda>_. (True, 1, False, 0)) L"
    using assms(1) by (simp_all add: allocated_def)
  have "lg_map L b = sb_fd_map (d_bases d b)" "lg_size L b = sb_dtablesize (d_bases d b)"
    using view_fields(2,3) [of d b] L(4) by simp_all
  moreover have "ledger_of (set_fd b fd (int j) d) = lg_open j b fd L"
    by (simp add: view_set_fd lg_open_def L(4))
  ultimately show ?thesis using assms L by (simp add: balanced_open)
qed

text \<open>Binding the slot to the descriptor the client proposed, or to the first free one.\<close>

lemma fd_alloc_cases:
  assumes "tn_fd_alloc b k d = (d1, fd)"
  obtains "d1 = d" "fd = -1"
  | f where "fd = int f" "d1 = set_fd b f k d" "f < nat (sb_dtablesize (d_bases d b))" "sb_fd_map (d_bases d b) ! f = -1"
  using assms that first_idx_SomeD [of "\<lambda>v. v = -1" "take (nat (sb_dtablesize (d_bases d b))) (sb_fd_map (d_bases d b))"]
  by (auto simp: tn_fd_alloc_def split: if_splits option.splits)

lemma claim_fd_cases:
  assumes "claim_fd b p j d = (d1, fd)"
  obtains "d1 = d" "fd = -1"
  | f where "fd = int f" "d1 = set_fd b f (int j) d" "f < nat (sb_dtablesize (d_bases d b))" "sb_fd_map (d_bases d b) ! f = -1"
proof (cases "0 \<le> p \<and> p < sb_dtablesize (d_bases d b) \<and> sb_fd_map (d_bases d b) ! nat p = -1")
  case True
  then show thesis using assms that(2) [of "nat p"] by (auto simp: claim_fd_def)
next
  case False
  then have "tn_fd_alloc b (int j) d = (d1, fd)" using assms by (auto simp: claim_fd_def)
  then show thesis by (cases rule: fd_alloc_cases) (use that in auto)
qed

lemma bal_claim:
  assumes "allocated B j L d" "claim_fd b p j d = (d1, fd)" "b \<in> B"
  shows "fd < 0 \<Longrightarrow> allocated B j L d1" "0 \<le> fd \<Longrightarrow> bal B d1"
  using assms(2) by (cases rule: claim_fd_cases; use assms in \<open>simp add: bal_alloc_bind\<close>)+

lemma bal_accept_deliver [inv_intros]:
  assumes "bal B d"
  shows "bal B (fst (accept_deliver E i pcb d))"
proof -
  let ?m = "s_pending_accept_msg (slot_of d i)"
  let ?d1 = "upd_slot i (\<lambda>s. s\<lparr>s_pending_accept_msg := NULL\<rparr>) d"
  have d1: "bal B ?d1" using assms by (simp add: view_simps)
  have b: "im_socket_base (d_msgs d ?m) \<in> B" using bal_owner [OF assms] .
  obtain d2 jo where alloc: "tn_slot_alloc (im_socket_base (d_msgs d ?m)) (im_client_task (d_msgs d ?m)) AF_INET SOCK_STREAM 0 ?d1 = (d2, jo)"
    by fastforce
  show ?thesis
  proof (cases jo)
    case None
    with alloc have "d2 = ?d1" by (auto dest: alloc_none)
    then show ?thesis using alloc None d1 by (simp add: accept_deliver_def Let_def view_simps)
  next
    case (Some j)
    then have al: "allocated B j (ledger_of ?d1) d2" using alloc d1 by (intro allocated_alloc) auto
    obtain d3 fd where claim: "claim_fd (im_socket_base (d_msgs d ?m)) (im_args (d_msgs d ?m) 3) j d2 = (d3, fd)" by fastforce
    show ?thesis
      using alloc Some claim bal_claim [OF al claim b] bal_alloc_free [of B j "ledger_of ?d1" d3 E]
      by (auto simp: accept_deliver_def Let_def view_simps)
  qed
qed

lemma bal_accept_cb [inv_intros]: "bal B d \<Longrightarrow> bal B (fst (tn_tcp_accept_cb E a pcb e d))"
  by (simp add: tn_tcp_accept_cb_def view_simps Let_def case_prod_unfold bal_accept_deliver)

lemma bal_run_event: "bal B d \<Longrightarrow> bal B (fst (run_event E e d))"
  by (cases e) (simp_all add: view_simps bal_accept_cb)

lemma bal_run_events: "bal B d \<Longrightarrow> bal B (run_events E es d)"
  by (induction es arbitrary: d) (simp_all add: view_simps bal_run_event case_prod_unfold Let_def)

lemma bal_drain [inv_intros]: "bal B d \<Longrightarrow> bal B (tn_drain_loopback E d)"
proof -
  have "bal B d \<Longrightarrow> bal B (drain_passes E n d)" for n d
    by (induction n arbitrary: d) (simp_all add: view_simps bal_run_events split: option.split)
  then show "bal B d \<Longrightarrow> bal B (tn_drain_loopback E d)" by (simp add: tn_drain_loopback_def)
qed

section \<open>Handlers\<close>

lemma bal_accept [inv_intros]:
  assumes "bal B d"
  shows "bal B (fst (tn_ipc_cmd_accept E m i d))"
proof -
  let ?b = "im_socket_base (d_msgs d m)" and ?t = "im_client_task (d_msgs d m)"
  obtain d1 eo where pop: "tn_accept_queue_pop_entry i d = (d1, eo)" by fastforce
  have "ledger_of d1 = ledger_of d" using view_queue_pop [of i d] by (simp add: pop)
  then have d1: "bal B d1" using assms by simp
  obtain d2 jo where alloc: "tn_slot_alloc ?b ?t AF_INET SOCK_STREAM 0 d1 = (d2, jo)" by fastforce
  show ?thesis
  proof (cases jo)
    case None
    with alloc have "d2 = d1" by (auto dest: alloc_none)
    then show ?thesis
      using alloc None pop d1 assms
      by (auto simp: tn_ipc_cmd_accept_def Let_def view_simps split: option.splits)
  next
    case (Some j)
    then have al: "allocated B j (ledger_of d1) d2" using alloc d1 by (intro allocated_alloc) auto
    obtain d3 fd where claim: "claim_fd ?b (im_args (d_msgs d m) 3) j d2 = (d3, fd)" by fastforce
    show ?thesis
      using alloc pop Some claim bal_claim [OF al claim bal_owner [OF assms]] bal_alloc_free [of B j "ledger_of d1" d3 E] d1 assms
      by (auto simp: tn_ipc_cmd_accept_def Let_def view_simps split: option.splits)
  qed
qed

lemma bal_open [inv_intros]:
  assumes "bal B d"
  shows "bal B (fst (tn_ipc_cmd_open E m d))"
proof -
  let ?b = "im_socket_base (d_msgs d m)"
  let ?d1 = "if ?b \<noteq> NULL \<and> d_hostname d \<noteq> [] then upd_base ?b (\<lambda>b. b\<lparr>sb_hostname := take 31 (d_hostname d)\<rparr>) d else d"
  have "bal B ?d1" using assms by (simp add: view_simps)
  then have "bal B ?d1" "bal B (tn_reap_dead_clients E ?d1)" by (simp_all only: bal_reap)
  then show ?thesis
    unfolding tn_ipc_cmd_open_def Let_def
    by (auto simp: view_simps bal_owner [OF assms] simp del: if_split split: option.splits dest: bal_register)
qed

lemma view_socket_pcb: "ledger_of (fst (socket_pcb E j ty pr d)) = ledger_of d"
  by (simp add: socket_pcb_def view_simps Let_def case_prod_unfold)

lemma pick_fd_SomeD:
  "pick_fd b p = Some fd \<Longrightarrow> fd < nat (sb_dtablesize b) \<and> sb_fd_map b ! fd = -1"
  using first_idx_SomeD [of "\<lambda>v. v = -1" "take (nat (sb_dtablesize b)) (sb_fd_map b)" fd]
  by (auto simp: pick_fd_def split: if_splits)

lemma bal_socket [inv_intros]:
  assumes "bal B d"
  shows "bal B (fst (tn_ipc_cmd_socket E m d))"
proof -
  let ?m = "d_msgs d m"
  let ?pick = "if im_socket_base ?m \<noteq> NULL then pick_fd (d_bases d (im_socket_base ?m)) (im_args ?m 3) else None"
  consider "socket_refusal (im_args ?m 0) (im_args ?m 1) (im_args ?m 2) \<noteq> 0 \<or> ?pick = None"
    | fd where "socket_refusal (im_args ?m 0) (im_args ?m 1) (im_args ?m 2) = 0" "?pick = Some fd" by blast
  then show ?thesis
  proof cases
    case 1
    then show ?thesis using assms by (auto simp: tn_ipc_cmd_socket_def Let_def view_simps)
  next
    case (2 fd)
    let ?b = "im_socket_base ?m"
    have fd: "fd < nat (sb_dtablesize (d_bases d ?b))" "sb_fd_map (d_bases d ?b) ! fd = -1"
      using 2(2) pick_fd_SomeD by (auto split: if_splits)
    obtain d1 jo where alloc: "tn_slot_alloc ?b (im_client_task ?m) (im_args ?m 0) (im_args ?m 1) (im_args ?m 2) d = (d1, jo)"
      by fastforce
    show ?thesis
    proof (cases jo)
      case None
      with alloc have "d1 = d" by (auto dest: alloc_none)
      then show ?thesis using alloc None 2 assms by (simp add: tn_ipc_cmd_socket_def Let_def view_simps)
    next
      case (Some j)
      obtain d2 ok where pcb: "socket_pcb E j (im_args ?m 1) (im_args ?m 2) d1 = (d2, ok)" by fastforce
      have "ledger_of d2 = ledger_of d1"
        using view_socket_pcb [of E j "im_args ?m 1" "im_args ?m 2" d1] unfolding pcb by simp
      with allocated_alloc [OF alloc [unfolded Some] assms] have al: "allocated B j (ledger_of d) d2"
        by (rule allocated_cong)
      then have "ledger_of d2 = lg_upd j (\<lambda>_. (True, 1, False, 0)) (ledger_of d)" by (simp add: allocated_def)
      then have "sb_fd_map (d_bases d2 ?b) = sb_fd_map (d_bases d ?b)" "sb_dtablesize (d_bases d2 ?b) = sb_dtablesize (d_bases d ?b)"
        using view_fields(2,3) [of d2 ?b] by simp_all
      then have bind: "bal B (set_fd ?b fd (int j) d2)" using fd by (intro bal_alloc_bind [OF al bal_owner [OF assms]]) simp_all
      show ?thesis
        using bind bal_alloc_free [OF al, of E] 2(1) pcb unfolding tn_ipc_cmd_socket_def Let_def 2(2) alloc Some
        by (simp add: view_simps)
    qed
  qed
qed

text \<open>What the dispatcher knows of a command that needs a descriptor.\<close>

lemma lookup_SomeD:
  assumes "tn_slot_lookup d b fd = Some i"
  shows "0 \<le> fd" "nat fd < nat (sb_dtablesize (d_bases d b))" "sb_fd_map (d_bases d b) ! nat fd = int i" "i < 64"
    "s_in_use (slot_of d i)"
  using assms by (auto simp: tn_slot_lookup_def Let_def TN_MAX_GLOBAL_SOCKETS_def split: if_splits)

lemma bal_closesocket [inv_intros]:
  assumes "bal B d" "tn_slot_lookup d (im_socket_base (d_msgs d m)) (im_args (d_msgs d m) 0) = Some i"
  shows "bal B (fst (tn_ipc_cmd_closesocket E m i d))"
proof -
  let ?b = "im_socket_base (d_msgs d m)" and ?fd = "nat (im_args (d_msgs d m) 0)"
  have close: "bal B (tn_slot_unref E i (set_fd ?b ?fd (-1) d2))" if "ledger_of d2 = ledger_of d" for d2
  proof -
    note fd = lookup_SomeD [OF assms(2)]
    have len: "length (d_sockets d2) = 64" using bal_length [of B d2] that assms(1) by simp
    have "lg_close_fd ?b ?fd (ledger_of d) = lg_upd i drop_ref (lg_set_fd ?b ?fd (-1) (ledger_of d))"
      using fd bal_length [OF assms(1)] by (simp add: lg_close_fd_def Let_def rcv_def)
    then have "ledger_of (tn_slot_unref E i (set_fd ?b ?fd (-1) d2)) = lg_close_fd ?b ?fd (ledger_of d)"
      using len fd(4) that by (simp add: view_slot_unref view_set_fd)
    then show ?thesis using balanced_close_fd [OF assms(1) bal_owner [OF assms(1)], of ?fd m] fd by simp
  qed
  show ?thesis
    using assms(1) by (auto simp: tn_ipc_cmd_closesocket_def Let_def view_simps intro!: close)
qed

lemma bal_dup2 [inv_intros]:
  assumes "bal B d" "tn_slot_lookup d (im_socket_base (d_msgs d m)) (im_args (d_msgs d m) 0) = Some i"
  shows "bal B (fst (tn_ipc_cmd_dup2 E m i d))"
proof -
  let ?b = "im_socket_base (d_msgs d m)" and ?old = "im_args (d_msgs d m) 0" and ?new = "im_args (d_msgs d m) 1"
  note old = lookup_SomeD [OF assms(2)]
  have dup: "bal B (tn_slot_ref i (set_fd ?b (nat ?new) (int i) (close_fd E ?b (nat ?new) d)))"
    if new: "0 \<le> ?new" "?new < sb_dtablesize (d_bases d ?b)" "?old \<noteq> ?new"
  proof -
    let ?d1 = "close_fd E ?b (nat ?new) d"
    have len: "length (d_sockets d) = 64" by (rule bal_length [OF assms(1)])
    have bal1: "bal B ?d1" using assms(1) bal_owner new by (intro bal_close_fd) auto
    have view: "ledger_of ?d1 = lg_close_fd ?b (nat ?new) (ledger_of d)" by (rule view_close_fd [OF len])
    have map_eq: "lg_map (ledger_of ?d1) ?b = (if 0 \<le> sb_fd_map (d_bases d ?b) ! nat ?new \<and> sb_fd_map (d_bases d ?b) ! nat ?new < 64 \<and>
        s_in_use (slot_of d (nat (sb_fd_map (d_bases d ?b) ! nat ?new))) then (sb_fd_map (d_bases d ?b))[nat ?new := -1] else sb_fd_map (d_bases d ?b))"
      using len by (simp only: view) (auto simp: lg_close_fd_def Let_def lg_set_fd_def rcv_def)
    have tab: "length (sb_fd_map (d_bases d ?b)) = nat (sb_dtablesize (d_bases d ?b))"
      by (rule bal_table [OF assms(1) bal_owner [OF assms(1)]])
    have "lg_map (ledger_of ?d1) ?b ! nat ?old = int i" using map_eq old new by (simp split: if_splits)
    then have used: "fst (lg_slots (ledger_of ?d1) ! i)"
      using bal1 bal_owner [OF assms(1)] old len by (intro balanced_used [of B _ ?b "nat ?old"]) simp_all
    have free: "\<not> (0 \<le> lg_map (ledger_of ?d1) ?b ! nat ?new \<and> lg_map (ledger_of ?d1) ?b ! nat ?new < 64)"
      using map_eq tab new balanced_used [OF assms(1) bal_owner [OF assms(1)], of "nat ?new" m "nat (sb_fd_map (d_bases d ?b) ! nat ?new)"] len
      by (auto simp: rcv_def)
    have len1: "length (d_sockets ?d1) = 64" by (rule bal_length [OF bal1])
    have "ledger_of (tn_slot_ref i (set_fd ?b (nat ?new) (int i) ?d1)) = lg_dup i ?b (nat ?new) (ledger_of ?d1)"
      using used len1 old(4) view_upd_slot_ref [of "\<lambda>s. s\<lparr>s_ref_count := s_ref_count s + 1\<rparr>" "\<lambda>(u, n, p). (u, n + 1, p)" i]
      by (simp add: tn_slot_ref_def lg_dup_def view_set_fd rcv_def) (auto intro: lg_upd_cong simp: rcv_def)
    then show ?thesis
      using bal1 bal_owner [OF assms(1)] new free used old(4) len by (simp add: balanced_dup del: view_fields(1,2))
  qed
  show ?thesis using assms(1) dup by (auto simp: tn_ipc_cmd_dup2_def Let_def view_simps)
qed

lemma bal_obtain [inv_intros]:
  assumes "bal B d"
  shows "bal B (fst (tn_ipc_cmd_obtainsocket m d))"
proof -
  let ?b = "im_socket_base (d_msgs d m)"
  have take: "bal B (upd_slot i (\<lambda>s. s\<lparr>s_is_parked := False, s_park_id := 0, s_owner_base := b, s_owner_task := t\<rparr>) (set_fd ?b fd (int i) d))"
    if i: "i < length (d_sockets d)" "s_in_use (slot_of d i)" "s_is_parked (slot_of d i)"
      and fd: "pick_fd (d_bases d ?b) p = Some fd" for i fd p b t
  proof -
    have "ledger_of (upd_slot i (\<lambda>s. s\<lparr>s_is_parked := False, s_park_id := 0, s_owner_base := b, s_owner_task := t\<rparr>) (set_fd ?b fd (int i) d)) =
        lg_obtain i ?b fd (ledger_of d)"
      using i(1) by (simp add: lg_obtain_def view_upd_slot_ref [where g = unpark] view_set_fd rcv_def)
    moreover have "balanced B (lg_obtain i ?b fd (ledger_of d))"
      using assms pick_fd_SomeD [OF fd] i bal_owner [OF assms] bal_length [OF assms]
      by (intro balanced_obtain) (simp_all add: rcv_def)
    ultimately show ?thesis by simp
  qed
  show ?thesis
    using assms by (auto simp: tn_ipc_cmd_obtainsocket_def Let_def view_simps split: option.split
        intro!: take dest: first_idx_SomeD(1,2))
qed

lemma next_id_range: "0 < next_id n \<and> next_id n < 2 ^ 31"
  using sint_lt [of "word_of_int (n + 1) :: u32"] by (simp add: next_id_def Let_def)

lemma unique_park_id_view:
  "unique_park_id fuel d = Some (d1, pid) \<Longrightarrow> \<exists>n>0. n < 2 ^ 31 \<and> d1 = d\<lparr>d_next_park_id := n\<rparr>"
proof (induction fuel arbitrary: d)
  case (Suc fuel)
  then show ?case using next_id_range [of "d_next_park_id d"] by (fastforce simp: Let_def split: if_splits)
qed simp

lemma bal_next: "bal B d \<Longrightarrow> 0 < n \<Longrightarrow> n < 2 ^ 31 \<Longrightarrow> bal B (d\<lparr>d_next_park_id := n\<rparr>)"
  using balanced_next [of B "ledger_of d" n] by (simp add: ledger_of_def)

lemma bal_park_slot:
  assumes "bal B d" "b \<in> B" "nat fd < nat (sb_dtablesize (d_bases d b))" "sb_fd_map (d_bases d b) ! nat fd = int i" "i < 64"
    "\<not> s_is_parked (slot_of d i)" "s_in_use (slot_of d i)"
  shows "bal B (park_slot i b fd copy pid d)"
proof -
  have len: "length (d_sockets d) = 64" by (rule bal_length [OF assms(1)])
  let ?p = "upd_slot i (\<lambda>s. s\<lparr>s_is_parked := True, s_park_id := pid\<rparr>) d"
  have p: "ledger_of ?p = lg_upd i (park pid) (ledger_of d)"
    using len assms(5) by (simp add: view_upd_slot_ref [where g = "park pid"] rcv_def)
  have "ledger_of (tn_slot_ref i ?p) = lg_upd i add_ref (ledger_of ?p)"
    using assms len view_upd_slot_ref [of "\<lambda>s. s\<lparr>s_ref_count := s_ref_count s + 1\<rparr>" "\<lambda>(u, n, p). (u, n + 1, p)" i ?p]
    by (simp add: tn_slot_ref_def rcv_def) (auto intro!: lg_upd_cong simp: rcv_def)
  then have "ledger_of (park_slot i b fd copy pid d) = lg_release i b (nat fd) copy pid (ledger_of d)"
    by (simp add: park_slot_def Let_def lg_release_def p view_set_fd)
  moreover have "balanced B (lg_release i b (nat fd) copy pid (ledger_of d))"
    using assms len by (intro balanced_release) (simp_all add: rcv_def)
  ultimately show ?thesis by simp
qed

lemma bal_release [inv_intros]:
  assumes "bal B d" "tn_slot_lookup d (im_socket_base (d_msgs d m)) (im_args (d_msgs d m) 0) = Some i"
    "tn_ipc_cmd_releasesocket fuel m i d = Some (d1, a)"
  shows "bal B d1"
proof -
  note fd = lookup_SomeD [OF assms(2)]
  show ?thesis
    using assms(1,3) fd bal_owner [OF assms(1), of m]
    by (auto simp: tn_ipc_cmd_releasesocket_def Let_def view_simps split: if_splits
        dest!: unique_park_id_view intro!: bal_park_slot bal_next)
qed

section \<open>Handlers that pump the loopback interface\<close>

lemma bal_connect [inv_intros]: "bal B d \<Longrightarrow> bal B (fst (tn_ipc_cmd_connect E m i d))"
  by (simp add: tn_ipc_cmd_connect_def connect_stream_def view_simps Let_def case_prod_unfold bal_drain)

lemma bal_send_loop: "bal B d \<Longrightarrow> bal B (fst (send_loop E i buf iov n len pos d))"
proof (induction E i buf iov n len pos d rule: send_loop.induct)
  case (1 E i buf iov n len pos d)
  have "bal B (send_flush E i d1)" if "bal B d1" for d1
    using that by (simp add: send_flush_def Let_def view_simps bal_drain)
  then show ?case using 1 by (subst send_loop.simps) (simp add: view_simps Let_def)
qed

lemma bal_send_stream: "bal B d \<Longrightarrow> bal B (fst (tn_tcp_send_stream E m i buf iov n len fl d))"
  by (simp add: tn_tcp_send_stream_def Let_def view_simps bal_send_loop)

lemma bal_send [inv_intros]: "bal B d \<Longrightarrow> bal B (fst (tn_ipc_cmd_send E m i d))"
  by (simp add: tn_ipc_cmd_send_def Let_def view_simps bal_send_stream bal_drain case_prod_unfold split: option.split)

lemma bal_sendto_udp: "bal B d \<Longrightarrow> bal B (fst (sendto_udp E m pcb a len bs d))"
  by (simp add: sendto_udp_def Let_def view_simps bal_drain case_prod_unfold split: option.split sum.split)

lemma bal_sendto [inv_intros]: "bal B d \<Longrightarrow> bal B (fst (tn_ipc_cmd_sendto E m i d))"
  by (simp add: tn_ipc_cmd_sendto_def sendto_raw_def Let_def view_simps bal_drain bal_send bal_sendto_udp case_prod_unfold
      split: option.split sum.split)

lemma bal_sendmsg [inv_intros]: "bal B d \<Longrightarrow> bal B (fst (tn_ipc_cmd_sendmsg E m i d))"
  by (simp add: tn_ipc_cmd_sendmsg_def sendmsg_stream_def Let_def view_simps bal_send bal_sendto_udp bal_send_stream case_prod_unfold
      split: sum.split)

lemma bal_close [inv_intros]: "bal B d \<Longrightarrow> bal B (fst (tn_ipc_cmd_close E m d))"
  by (simp add: tn_ipc_cmd_close_def view_simps bal_close_base bal_owner)

lemma bal_stop [inv_intros]: "bal B d \<Longrightarrow> bal B (fst (tn_ipc_cmd_stop E m d))"
  by (simp add: tn_ipc_cmd_stop_def Let_def view_simps bal_reap)

section \<open>Requests\<close>

text \<open>The reporting and configuration handlers open and close no socket.\<close>

definition ext_keeps_refs :: "ext_handlers \<Rightarrow> bool" where
  "ext_keeps_refs ext = (\<forall>cmd m d. ledger_of (fst (ext cmd m d)) = ledger_of d)"

lemmas bal_handlers = bal_open bal_close bal_socket bal_accept bal_connect bal_send bal_sendto bal_sendmsg
  bal_obtain bal_stop

lemma bal_handler:
  assumes "bal B d" "ext_keeps_refs ext" "handler E ext cmd m i d = Some (d1, a)"
    "needs_fd cmd \<Longrightarrow> tn_slot_lookup d (im_socket_base (d_msgs d m)) (im_args (d_msgs d m) 0) = Some i"
  shows "bal B d1"
proof (cases "cmd = 27 \<or> cmd = 17 \<or> cmd = 21")
  case True
  then have "tn_slot_lookup d (im_socket_base (d_msgs d m)) (im_args (d_msgs d m) 0) = Some i"
    using assms(4) by (auto simp: needs_fd_def)
  note fd_handlers = bal_release [OF assms(1) this] bal_closesocket [OF assms(1) this, of E] bal_dup2 [OF assms(1) this, of E]
  show ?thesis using True assms(3) fd_handlers by (auto simp: handler_def)
next
  case False
  have "d1 = fst (the (handler E ext cmd m i d))" using assms(3) by simp
  moreover have "bal B (fst (the (handler E ext cmd m i d)))"
    using False assms(1,2) by (simp add: handler_def view_simps ext_keeps_refs_def bal_handlers)
  ultimately show ?thesis by simp
qed

lemma bal_handle_ipc:
  assumes "bal B d" "ext_keeps_refs ext" "tn_handle_ipc E ext m d = Some (d1, r)"
  shows "bal B d1"
proof (cases "m = NULL")
  case False
  let ?d0 = "count_call (im_cmd (d_msgs d m)) (set_reply m 0 0 d)"
  have d0: "bal B ?d0" using assms(1) by (simp add: view_simps)
  have msg: "d_msgs ?d0 m = (d_msgs d m)\<lparr>im_result := 0, im_err_no := 0\<rparr>" by (simp add: count_call_def msgs_set_reply)
  let ?i = "\<lambda>slot. case slot of Some i \<Rightarrow> i | None \<Rightarrow> 0"
  let ?slot = "tn_slot_lookup ?d0 (im_socket_base (d_msgs d m)) (im_args (d_msgs d m) 0)"
  have h: "bal B d2" if "handler E ext (im_cmd (d_msgs d m)) m (?i ?slot) ?d0 = Some (d2, a)"
      "needs_fd (im_cmd (d_msgs d m)) \<Longrightarrow> ?slot \<noteq> None" for d2 a
    using that by (intro bal_handler [OF d0 assms(2) that(1)]) (auto simp: msg)
  have msg0: "d_msgs (set_reply m 0 0 d) m = (d_msgs d m)\<lparr>im_result := 0, im_err_no := 0\<rparr>" by (simp add: msgs_set_reply)
  show ?thesis
    using assms False h unfolding tn_handle_ipc_def Let_def msg0
    by (auto simp: view_simps msg split: if_splits option.splits prod.splits)
qed (use assms in \<open>simp add: tn_handle_ipc_def\<close>)

end
