(* ===== verification/Park_Id.thy ===== *)
theory Park_Id
  imports Refcount
begin

text \<open>
  The UNIQUE_ID loop of RELEASESOCKET: the ids it tries are distinct until the 31-bit counter
  has gone round, every id it rejects belongs to a parked socket, so it ends within one round
  more than there are slots, with an id no parked socket has.
\<close>

section \<open>The ids that are tried\<close>

lemma to_LONG_ULONG_small: "- (2 ^ 31) \<le> n \<Longrightarrow> n < 2 ^ 31 \<Longrightarrow> to_LONG (to_ULONG n) = n"
  by (simp add: signed_of_int signed_take_bit_int_eq_self)

lemma next_id_succ: "0 < n \<Longrightarrow> n < 2 ^ 31 - 1 \<Longrightarrow> next_id n = n + 1"
  using to_LONG_ULONG_small [of "n + 1"] by (simp add: next_id_def)

lemma next_id_wrap: "next_id (2 ^ 31 - 1) = 1"
  by (simp add: next_id_def)

definition nth_id :: "int \<Rightarrow> nat \<Rightarrow> int" where
  "nth_id n k = (if n + int k < 2 ^ 31 then n + int k else n + int k - (2 ^ 31 - 1))"

lemma nth_id_range: "0 < n \<Longrightarrow> n < 2 ^ 31 \<Longrightarrow> k < 2 ^ 31 - 1 \<Longrightarrow> 0 < nth_id n k \<and> nth_id n k < 2 ^ 31"
  by (auto simp: nth_id_def)

lemma next_id_iter:
  assumes "0 < n" "n < 2 ^ 31" "k < 2 ^ 31 - 1"
  shows "(next_id ^^ k) n = nth_id n k"
  using assms(3)
proof (induction k)
  case 0
  then show ?case using assms by (simp add: nth_id_def)
next
  case (Suc k)
  then have IH: "(next_id ^^ k) n = nth_id n k" by simp
  have r: "0 < nth_id n k" "nth_id n k < 2 ^ 31" using nth_id_range [of n k] assms Suc by auto
  show ?case
  proof (cases "nth_id n k = 2 ^ 31 - 1")
    case True
    then have "n + int k = 2 ^ 31 - 1 \<or> int k = 2 * (2 ^ 31 - 1) - n" by (auto simp: nth_id_def split: if_splits)
    then have "n + int k = 2 ^ 31 - 1" using Suc.prems assms by auto
    then show ?thesis using IH next_id_wrap True by (simp add: nth_id_def)
  next
    case False
    then have "next_id (nth_id n k) = nth_id n k + 1" using r by (intro next_id_succ) auto
    then show ?thesis using IH False by (auto simp: nth_id_def)
  qed
qed

lemma nth_id_inj: "n < 2 ^ 31 \<Longrightarrow> inj_on (nth_id n) {..<2 ^ 31 - 1}"
  by (rule inj_onI) (auto simp: nth_id_def split: if_splits)

section \<open>Termination and freshness\<close>

lemma unique_park_id_None:
  "unique_park_id fuel d = None \<Longrightarrow> k < fuel \<Longrightarrow> park_id_taken d ((next_id ^^ k) (d_next_park_id d))"
proof (induction fuel arbitrary: d k)
  case (Suc fuel)
  let ?d1 = "d\<lparr>d_next_park_id := next_id (d_next_park_id d)\<rparr>"
  have taken: "park_id_taken ?d1 = park_id_taken d" by (simp add: park_id_taken_def fun_eq_iff)
  from Suc.prems(1) have hd: "park_id_taken d (d_next_park_id d)" and rest: "unique_park_id fuel ?d1 = None"
    by (auto simp: Let_def taken split: if_splits)
  show ?case
  proof (cases k)
    case (Suc j)
    then show ?thesis using Suc.IH [OF rest, of j] Suc.prems(2) by (simp add: taken funpow_swap1)
  qed (use hd in simp)
qed simp

text \<open>Distinct taken ids sit in distinct slots.\<close>

lemma taken_ids_bound:
  assumes "inj_on f {..<n}" "\<And>k. k < n \<Longrightarrow> park_id_taken d (f k)"
  shows "n \<le> length (d_sockets d)"
proof -
  have "f ` {..<n} \<subseteq> s_park_id ` set (d_sockets d)"
    using assms(2) by (force simp: park_id_taken_def list_ex_iff)
  then have "card (f ` {..<n}) \<le> card (s_park_id ` set (d_sockets d))" by (intro card_mono) simp_all
  also have "\<dots> \<le> length (d_sockets d)" using card_image_le [OF finite_set, of s_park_id "d_sockets d"] card_length [of "d_sockets d"] by linarith
  finally show ?thesis using assms(1) by (simp add: card_image)
qed

lemma unique_park_id_returns:
  assumes "0 < d_next_park_id d" "d_next_park_id d < 2 ^ 31" "length (d_sockets d) < 2 ^ 31 - 1"
  shows "unique_park_id (Suc (length (d_sockets d))) d \<noteq> None"
proof
  assume none: "unique_park_id (Suc (length (d_sockets d))) d = None"
  let ?n = "d_next_park_id d" and ?N = "Suc (length (d_sockets d))"
  have "Suc (length (d_sockets d)) \<le> length (d_sockets d)"
  proof (rule taken_ids_bound)
    show "inj_on (nth_id ?n) {..<?N}" using nth_id_inj [OF assms(2)] by (rule inj_on_subset) (use assms(3) in auto)
    show "park_id_taken d (nth_id ?n k)" if "k < ?N" for k
      using unique_park_id_None [OF none that] next_id_iter [OF assms(1,2), of k] that assms(3) by simp
  qed
  then show False by simp
qed

lemma unique_park_id_fresh:
  "unique_park_id fuel d = Some (d1, pid) \<Longrightarrow> 0 < d_next_park_id d \<Longrightarrow>
   \<not> park_id_taken d pid \<and> 0 < pid \<and> (\<exists>n>0. d1 = d\<lparr>d_next_park_id := n\<rparr>)"
proof (induction fuel arbitrary: d)
  case (Suc fuel)
  let ?d1 = "d\<lparr>d_next_park_id := next_id (d_next_park_id d)\<rparr>"
  have taken: "park_id_taken ?d1 = park_id_taken d" by (simp add: park_id_taken_def fun_eq_iff)
  have pos: "0 < next_id (d_next_park_id d)" by (simp add: next_id_def Let_def)
  show ?case
  proof (cases "park_id_taken d (d_next_park_id d)")
    case True
    then show ?thesis using Suc.IH [of ?d1] Suc.prems pos by (auto simp: Let_def taken)
  next
    case False
    then show ?thesis using Suc.prems pos by (auto simp: Let_def taken)
  qed
qed simp

section \<open>Releasing and obtaining a socket\<close>

lemma release_success:
  assumes "tn_ipc_cmd_releasesocket fuel m i d = Some (d1, a)" "0 \<le> im_result (d_msgs d1 m)" "0 < d_next_park_id d"
  obtains pid n where "\<not> park_id_taken d pid" "0 \<le> pid" "a = REPLY_NOW" "im_socket_base (d_msgs d m) \<noteq> NULL"
    "\<not> s_is_parked (slot_of d i)"
    "d1 = set_reply m pid 0 (park_slot i (im_socket_base (d_msgs d m)) (im_args (d_msgs d m) 0)
        ((word_of_int (im_args (d_msgs d m) 2) :: u16) \<noteq> 0) pid (d\<lparr>d_next_park_id := n\<rparr>))"
proof -
  consider (id) d2 pid where "unique_park_id fuel d = Some (d2, pid)" "im_args (d_msgs d m) 1 = -1"
      "im_socket_base (d_msgs d m) \<noteq> NULL" "\<not> s_is_parked (slot_of d i)"
    | (req) "0 \<le> im_args (d_msgs d m) 1" "\<not> park_id_taken d (im_args (d_msgs d m) 1)"
      "im_socket_base (d_msgs d m) \<noteq> NULL" "\<not> s_is_parked (slot_of d i)"
    using assms(1,2) by (auto simp: tn_ipc_cmd_releasesocket_def Let_def msgs_set_reply split: if_splits)
  then show thesis
  proof cases
    case id
    then show thesis
      using assms(1) unique_park_id_fresh [OF id(1) assms(3)] that [of pid]
      by (auto simp: tn_ipc_cmd_releasesocket_def Let_def)
  next
    case req
    then show thesis
      using assms(1) that [of "im_args (d_msgs d m) 1" "d_next_park_id d"]
      by (auto simp: tn_ipc_cmd_releasesocket_def Let_def)
  qed
qed

text \<open>
  A RELEASESOCKET request that asks for a unique id always returns: the loop of the code
  finds, within one round more than there are slots, a positive id that no parked socket has,
  parks the socket under it and answers with it.
\<close>

theorem release_unique_id_returns:
  assumes "0 < d_next_park_id d" "d_next_park_id d < 2 ^ 31" "length (d_sockets d) = 64" "i < 64"
    and "im_socket_base (d_msgs d m) \<noteq> NULL" "\<not> s_is_parked (slot_of d i)" "im_args (d_msgs d m) 1 = -1"
  shows "\<exists>d1 pid. tn_ipc_cmd_releasesocket 65 m i d = Some (d1, REPLY_NOW) \<and> 0 < pid \<and> \<not> park_id_taken d pid \<and>
     im_result (d_msgs d1 m) = pid \<and> im_err_no (d_msgs d1 m) = 0 \<and>
     s_is_parked (slot_of d1 i) \<and> s_park_id (slot_of d1 i) = pid"
proof -
  obtain d2 pid where u: "unique_park_id 65 d = Some (d2, pid)"
    using unique_park_id_returns [OF assms(1,2)] assms(3) by auto
  then obtain n where d2: "d2 = d\<lparr>d_next_park_id := n\<rparr>" "\<not> park_id_taken d pid" "0 < pid"
    using unique_park_id_fresh [OF u assms(1)] by blast
  then show ?thesis
    using u assms by (auto simp: tn_ipc_cmd_releasesocket_def Let_def park_slot_def tn_slot_ref_def msgs_set_reply)
qed

definition release_daemon :: TnDaemon where
  "release_daemon =
     (set_fd 0x100 3 0 (upd_slot 0 (\<lambda>_. tn_init_socket_slot 0x100 0x500 2 SOCK_STREAM 0) daemon0))\<lparr>d_msgs :=
        (\<lambda>_. msg0)(0x10 := msg0\<lparr>im_cmd := 27, im_args := (\<lambda>_. 0)(0 := 3, 1 := -1)\<rparr>,
                  0x20 := msg0\<lparr>im_cmd := 28, im_socket_base := 0x200, im_args := (\<lambda>_. 0)(0 := 1, 4 := 5)\<rparr>)\<rparr>"

lemma release_daemon_simps [simp]:
  "d_next_park_id release_daemon = 1" "length (d_sockets release_daemon) = 64"
  "slot_of release_daemon 0 = tn_init_socket_slot 0x100 0x500 2 SOCK_STREAM 0"
  "d_msgs release_daemon = (\<lambda>_. msg0)(0x10 := msg0\<lparr>im_cmd := 27, im_args := (\<lambda>_. 0)(0 := 3, 1 := -1)\<rparr>,
     0x20 := msg0\<lparr>im_cmd := 28, im_socket_base := 0x200, im_args := (\<lambda>_. 0)(0 := 1, 4 := 5)\<rparr>)"
  by (simp_all add: release_daemon_def set_fd_def)

theorem release_unique_id_returns_witness:
  "\<exists>d1 pid. tn_ipc_cmd_releasesocket 65 0x10 0 release_daemon = Some (d1, REPLY_NOW) \<and> 0 < pid \<and>
     \<not> park_id_taken release_daemon pid \<and> im_result (d_msgs d1 0x10) = pid \<and> im_err_no (d_msgs d1 0x10) = 0 \<and>
     s_is_parked (slot_of d1 0) \<and> s_park_id (slot_of d1 0) = pid"
  using release_unique_id_returns [of release_daemon 0 "0x10"]
  by (simp add: msg0_def tn_init_socket_slot_def)

lemma park_slot_frame [simp]:
  "d_msgs (park_slot i b fd copy pid d) = d_msgs d" "length (d_sockets (park_slot i b fd copy pid d)) = length (d_sockets d)"
  by (simp_all add: park_slot_def tn_slot_ref_def set_fd_def Let_def)

lemma park_slot_slot:
  "j < length (d_sockets d) \<Longrightarrow> slot_of (park_slot i b fd False pid d) j =
     (if j = i then (slot_of d i)\<lparr>s_is_parked := True, s_park_id := pid\<rparr> else slot_of d j)"
  by (simp add: park_slot_def slot_of_upd_slot Let_def)

lemma lookup_new_fd:
  assumes "b \<noteq> NULL" "fd < nat (sb_dtablesize (d_bases d b))" "\<not> sb_fd_map_null (d_bases d b)" "i < 64"
    "s_in_use (slot_of d i)" "sb_fd_map (d_bases d b) ! fd = int i"
  shows "tn_slot_lookup d b (int fd) = Some i"
  using assms by (simp add: tn_slot_lookup_def Let_def TN_MAX_GLOBAL_SOCKETS_def)

text \<open>The scan of OBTAINSOCKET finds the slot that was parked under a free id.\<close>

lemma find_parked:
  assumes "\<not> park_id_taken d pid" "i < length (d_sockets d)" "s_in_use (slot_of d i)"
  shows "first_idx (\<lambda>s. s_in_use s \<and> s_is_parked s \<and> s_park_id s = pid) (d_sockets (park_slot i b fd False pid d)) = Some i"
  using assms by (auto simp: first_idx_Some park_slot_slot park_id_taken_def list_ex_iff)

text \<open>
  C19. Releasing a socket and obtaining it again hands over exactly that socket: once
  RELEASESOCKET has parked it under an id, the old descriptor is dead, and OBTAINSOCKET with
  that id binds the same slot to a descriptor of the other opener, with its connection,
  queues and options as they were; only the owner changes.
\<close>

theorem release_obtain_roundtrip:
  assumes rel: "tn_ipc_cmd_releasesocket fuel m i d = Some (d1, a)" "im_result (d_msgs d1 m) = pid" "0 \<le> pid"
      "0 < d_next_park_id d" "(word_of_int (im_args (d_msgs d m) 2) :: u16) = 0"
    and fd0: "tn_slot_lookup d (im_socket_base (d_msgs d m)) (im_args (d_msgs d m) 0) = Some i"
      "i < length (d_sockets d)" "im_args (d_msgs d m) 0 < int (length (sb_fd_map (d_bases d (im_socket_base (d_msgs d m)))))"
    and req: "im_args (d_msgs d m2) 0 = pid" "im_args (d_msgs d m2) 1 = 0" "im_args (d_msgs d m2) 2 = 0" "im_args (d_msgs d m2) 3 = 0"
      "im_socket_base (d_msgs d m2) = b2" "b2 \<noteq> NULL" "\<not> sb_fd_map_null (d_bases d b2)"
    and fd: "pick_fd (d_bases d1 b2) (im_args (d_msgs d m2) 4) = Some fd" "fd < length (sb_fd_map (d_bases d b2))"
  shows "tn_slot_lookup d1 (im_socket_base (d_msgs d m)) (im_args (d_msgs d m) 0) = None \<and>
     (\<exists>d2. tn_ipc_cmd_obtainsocket m2 d1 = (d2, REPLY_NOW) \<and>
       im_result (d_msgs d2 m2) = int fd \<and> im_err_no (d_msgs d2 m2) = 0 \<and> tn_slot_lookup d2 b2 (int fd) = Some i \<and>
       slot_of d2 i = (slot_of d i)\<lparr>s_is_parked := False, s_park_id := 0, s_owner_base := b2,
                                   s_owner_task := im_client_task (d_msgs d m2)\<rparr>)"
proof -
  let ?b = "im_socket_base (d_msgs d m)" and ?fd = "im_args (d_msgs d m) 0"
  have "0 \<le> im_result (d_msgs d1 m)" using rel by simp
  then obtain q n where free: "\<not> park_id_taken d q"
    and "d1 = set_reply m q 0 (park_slot i ?b ?fd ((word_of_int (im_args (d_msgs d m) 2) :: u16) \<noteq> 0) q (d\<lparr>d_next_park_id := n\<rparr>))"
    by (rule release_success [OF rel(1) _ rel(4)])
  then have d1: "d1 = set_reply m q 0 (park_slot i ?b ?fd False q (d\<lparr>d_next_park_id := n\<rparr>))" by (simp only: rel(5) simp_thms)
  have q: "q = pid" using rel(2) by (simp add: d1 msgs_set_reply)
  have bases: "d_bases d1 = (d_bases d)(?b := (d_bases d ?b)\<lparr>sb_fd_map := (sb_fd_map (d_bases d ?b))[nat ?fd := -1]\<rparr>)"
    by (simp add: d1 park_slot_def set_fd_def bases_upd_base Let_def)
  have args: "im_args (d_msgs d1 k) = im_args (d_msgs d k)" "im_socket_base (d_msgs d1 k) = im_socket_base (d_msgs d k)"
    "im_client_task (d_msgs d1 k) = im_client_task (d_msgs d k)" for k
    by (simp_all add: d1 msgs_set_reply)
  note old = lookup_SomeD [OF fd0(1)]
  have dead: "tn_slot_lookup d1 ?b ?fd = None" using fd0(3) old by (simp add: tn_slot_lookup_def bases Let_def)
  have len: "length (d_sockets d1) = length (d_sockets d)" by (simp add: d1)
  have slot: "slot_of d1 i = (slot_of d i)\<lparr>s_is_parked := True, s_park_id := pid\<rparr>"
    using fd0(2) by (simp add: d1 park_slot_slot q)
  have "park_id_taken (d\<lparr>d_next_park_id := n\<rparr>) pid = park_id_taken d pid" by (simp add: park_id_taken_def)
  then have found: "first_idx (\<lambda>s. s_in_use s \<and> s_is_parked s \<and> s_park_id s = pid) (d_sockets d1) = Some i"
    using find_parked [of "d\<lparr>d_next_park_id := n\<rparr>" pid i ?b ?fd] free fd0(2) old(5) by (simp add: d1 q)
  let ?d2 = "set_reply m2 (int fd) 0 (upd_slot i (\<lambda>s. s\<lparr>s_is_parked := False, s_park_id := 0, s_owner_base := b2,
      s_owner_task := im_client_task (d_msgs d m2)\<rparr>) (set_fd b2 fd (int i) d1))"
  have got: "tn_ipc_cmd_obtainsocket m2 d1 = (?d2, REPLY_NOW)"
    using req found fd(1) by (simp add: tn_ipc_cmd_obtainsocket_def args Let_def obtain_refusal_def)
  have "fd < nat (sb_dtablesize (d_bases d1 b2))" using pick_fd_SomeD [OF fd(1)] by simp
  moreover have "fd < length (sb_fd_map (d_bases d1 b2))" "\<not> sb_fd_map_null (d_bases d1 b2)"
    using fd(2) req(7) by (auto simp: bases)
  ultimately have "tn_slot_lookup ?d2 b2 (int fd) = Some i"
    using req(6) old(4,5) fd0(2) slot len by (intro lookup_new_fd) (simp_all add: set_fd_def bases_upd_base)
  moreover have "slot_of ?d2 i = (slot_of d i)\<lparr>s_is_parked := False, s_park_id := 0, s_owner_base := b2,
      s_owner_task := im_client_task (d_msgs d m2)\<rparr>"
    using fd0(2) slot len by simp
  ultimately show ?thesis
    using dead got by (intro conjI exI [of _ ?d2]) (simp_all add: msgs_set_reply)
qed

theorem release_obtain_roundtrip_witness:
  "\<exists>d1 d2. tn_ipc_cmd_releasesocket 65 0x10 0 release_daemon = Some (d1, REPLY_NOW) \<and>
     tn_ipc_cmd_obtainsocket 0x20 d1 = (d2, REPLY_NOW) \<and> im_result (d_msgs d2 0x20) = 5 \<and>
     tn_slot_lookup d2 0x200 5 = Some 0 \<and> s_owner_base (slot_of d2 0) = 0x200"
proof -
  have "case tn_ipc_cmd_releasesocket 65 0x10 0 release_daemon of None \<Rightarrow> False
    | Some (d1, a) \<Rightarrow> a = REPLY_NOW \<and> im_result (d_msgs d1 0x10) = 1 \<and> pick_fd (d_bases d1 0x200) 5 = Some 5" by code_simp
  then obtain d1 where d1: "tn_ipc_cmd_releasesocket 65 0x10 0 release_daemon = Some (d1, REPLY_NOW)" "im_result (d_msgs d1 0x10) = 1"
      "pick_fd (d_bases d1 0x200) 5 = Some 5"
    by (auto split: option.splits)
  have "tn_slot_lookup release_daemon 0x100 3 = Some 0" by code_simp
  moreover have "length (sb_fd_map (d_bases release_daemon b)) = 64" "\<not> sb_fd_map_null (d_bases release_daemon b)" for b
    by (simp_all add: release_daemon_def set_fd_def bases_upd_base base0_def)
  ultimately show ?thesis
    using d1 release_obtain_roundtrip [OF d1(1,2), of "0x20" "0x200" 5] by (auto simp: msg0_def)
qed

end
