(* ===== verification/Daemon_Reach.thy ===== *)
theory Daemon_Reach
  imports Park_Id
begin

text \<open>
  The daemon as a transition system: requests, lwIP callbacks, resolver answers, timer ticks,
  reaping, and what clients do to the state they share with it.  Reachable states keep the
  reference ledger balanced, and every request returns.
\<close>

section \<open>The descriptor table of a client\<close>

definition TN_MAX_FDS_PER_TASK :: int where "TN_MAX_FDS_PER_TASK = 128"

text \<open>
  SBTC_DTABLESIZE of the client library: the table is replaced by one of the clipped size;
  the errno is EINVAL when an open descriptor would not fit, ENOMEM when the new arrays
  cannot be allocated.
\<close>

definition set_dtablesize :: "bool \<Rightarrow> int \<Rightarrow> TnSocketBase \<Rightarrow> TnSocketBase + int" where
  "set_dtablesize alloc_ok size0 b =
     (let size1 = (if size0 < 4 then 4 else size0);
          newsize = (if size1 > TN_MAX_FDS_PER_TASK then TN_MAX_FDS_PER_TASK else size1);
          n = nat newsize; old = nat (sb_dtablesize b) in
      if newsize \<le> sb_dtablesize b \<and> list_ex (\<lambda>v. 0 \<le> v) (drop n (sb_fd_map b)) then Inr EINVAL
      else if newsize = sb_dtablesize b then Inl b
      else if \<not> alloc_ok then Inr ENOMEM
      else Inl (b\<lparr>sb_fd_map := take n (sb_fd_map b) @ replicate (n - old) (-1),
                  sb_events := take n (sb_events b) @ replicate (n - old) 0,
                  sb_event_masks := take n (sb_event_masks b) @ replicate (n - old) 0,
                  sb_dtablesize := newsize\<rparr>))"

lemma set_dtablesize_table:
  assumes "set_dtablesize alloc_ok size0 b = Inl b1" "length (sb_fd_map b) = nat (sb_dtablesize b)"
  shows "length (sb_fd_map b1) = nat (sb_dtablesize b1)"
    and "count_if (\<lambda>v. v = int i) (sb_fd_map b1) = count_if (\<lambda>v. v = int i) (sb_fd_map b)"
proof -
  show "length (sb_fd_map b1) = nat (sb_dtablesize b1)"
    using assms by (auto simp: set_dtablesize_def Let_def split: if_splits)
  have cut: "count_if (\<lambda>v. v = int i) (take n xs) = count_if (\<lambda>v. v = int i) xs"
    if "\<not> list_ex (\<lambda>v. 0 \<le> v) (drop n xs)" for n xs
  proof -
    have "count_if (\<lambda>v. v = int i) (drop n xs) = 0" using that by (auto simp: count_if_0 list_ex_iff)
    then show ?thesis using count_if_append [of "\<lambda>v. v = int i" "take n xs" "drop n xs"] by simp
  qed
  have fill: "count_if (\<lambda>v. v = int i) (replicate k (- 1)) = 0" for k by (simp add: count_if_0)
  show "count_if (\<lambda>v. v = int i) (sb_fd_map b1) = count_if (\<lambda>v. v = int i) (sb_fd_map b)"
    using assms by (auto simp: set_dtablesize_def Let_def cut fill split: if_splits)
qed

section \<open>The transition system\<close>

text \<open>
  A state from which the daemon starts: the openers \<open>B\<close> have fresh descriptor tables, address 0
  holds none, messages belong to openers and nobody is registered.
\<close>

definition boot_ok :: "ptr set \<Rightarrow> TnDaemon \<Rightarrow> bool" where
  "boot_ok B d = (finite B \<and> NULL \<in> B \<and> sb_fd_map (d_bases d NULL) = [] \<and>
     (\<forall>b\<in>B. sb_fd_map (d_bases d b) = replicate (nat (sb_dtablesize (d_bases d b))) (-1)) \<and>
     (\<forall>m. im_socket_base (d_msgs d m) \<in> B) \<and> set (d_open_bases d) \<subseteq> B)"

text \<open>
  The steps.  \<open>Request\<close> is one turn of the message loop; \<open>Callback\<close> is lwIP delivering an event;
  \<open>Stack\<close> is lwIP's own progress.  A client writes its memory, prepares messages, changes the
  fields of its base other than the table, and resizes the table.
\<close>

inductive daemon_reach :: "env \<Rightarrow> ext_handlers \<Rightarrow> ptr set \<Rightarrow> TnDaemon \<Rightarrow> bool"
  for E :: env and ext :: ext_handlers and B :: "ptr set" where
  Boot: "boot_ok B d \<Longrightarrow> daemon_reach E ext B (tn_slot_table_init E d)"
| Request: "daemon_reach E ext B d \<Longrightarrow> tn_handle_ipc E ext m d = Some (d1, r) \<Longrightarrow>
    daemon_reach E ext B (if r then ReplyMsg m d1 else d1)"
| Callback: "daemon_reach E ext B d \<Longrightarrow> daemon_reach E ext B (fst (run_event E e d))"
| Drain: "daemon_reach E ext B d \<Longrightarrow> daemon_reach E ext B (tn_drain_loopback E d)"
| Resolved: "daemon_reach E ext B d \<Longrightarrow> daemon_reach E ext B (tn_dns_found_cb E name addr m d)"
| Tick: "daemon_reach E ext B d \<Longrightarrow> daemon_reach E ext B (d\<lparr>d_mainloop_ticks := d_mainloop_ticks d + 1\<rparr>)"
| Timeouts: "daemon_reach E ext B d \<Longrightarrow> daemon_reach E ext B (tn_slot_check_recv_timeouts d)"
| Reap: "daemon_reach E ext B d \<Longrightarrow> daemon_reach E ext B (tn_reap_dead_clients E d)"
| Stack: "daemon_reach E ext B d \<Longrightarrow> daemon_reach E ext B (d\<lparr>d_lw := l\<rparr>)"
| Memory: "daemon_reach E ext B d \<Longrightarrow> daemon_reach E ext B (d\<lparr>d_mem := mem\<rparr>)"
| Message: "daemon_reach E ext B d \<Longrightarrow> im_socket_base g \<in> B \<Longrightarrow> daemon_reach E ext B (upd_msg m (\<lambda>_. g) d)"
| Base: "daemon_reach E ext B d \<Longrightarrow> sb_fd_map g = sb_fd_map (d_bases d b) \<Longrightarrow> sb_dtablesize g = sb_dtablesize (d_bases d b) \<Longrightarrow>
    daemon_reach E ext B (upd_base b (\<lambda>_. g) d)"
| Resize: "daemon_reach E ext B d \<Longrightarrow> b \<noteq> NULL \<Longrightarrow> b \<in> B \<Longrightarrow> set_dtablesize ok n (d_bases d b) = Inl g \<Longrightarrow>
    daemon_reach E ext B (upd_base b (\<lambda>_. g) d)"

section \<open>The invariant\<close>

lemma bal_boot:
  assumes "boot_ok B d"
  shows "bal B (tn_slot_table_init E d)"
proof -
  let ?d = "tn_slot_table_init E d"
  have msgs: "d_bases ?d = d_bases d" "d_msgs ?d = d_msgs d" "d_open_bases ?d = d_open_bases d"
      "d_sockets ?d = replicate 64 null_slot" "d_next_park_id ?d = 1"
    by (simp_all add: tn_slot_table_init_def Let_def case_prod_unfold TN_MAX_GLOBAL_SOCKETS_def)
  have "lg_refs B (ledger_of ?d) i = 0" for i
    using assms by (auto simp: lg_refs_def msgs boot_ok_def count_if_0)
  then show ?thesis
    using assms by (intro balancedI) (auto simp: lg_wf_def msgs boot_ok_def rcv_def null_slot_def)
qed

lemma bal_message:
  assumes "bal B d" "im_socket_base g \<in> B"
  shows "bal B (upd_msg m (\<lambda>_. g) d)"
  using assms by (auto simp: balanced_def lg_wf_def lg_refs_def msgs_upd_msg upd_msg_def ledger_of_def)

lemma bal_base:
  assumes "bal B d" "sb_fd_map g = sb_fd_map (d_bases d b)" "sb_dtablesize g = sb_dtablesize (d_bases d b)"
  shows "bal B (upd_base b (\<lambda>_. g) d)"
proof -
  have "ledger_of (upd_base b (\<lambda>_. g) d) = ledger_of d" using assms(2,3) by (auto simp: ledger_of_def bases_upd_base)
  then show ?thesis using assms(1) by simp
qed

lemma bal_resize:
  assumes "bal B d" "b \<noteq> NULL" "b \<in> B" "set_dtablesize ok n (d_bases d b) = Inl g"
  shows "bal B (upd_base b (\<lambda>_. g) d)"
proof (rule balancedI)
  note table = set_dtablesize_table [OF assms(4) bal_table [OF assms(1,3)]]
  let ?L = "ledger_of (upd_base b (\<lambda>_. g) d)"
  have refs: "lg_refs B ?L i = lg_refs B (ledger_of d) i" for i
    using table(2) by (auto simp: lg_refs_def bases_upd_base intro: sum.cong)
  show "lg_wf B ?L" using balanced_wf [OF assms(1)] table(1) assms(2) by (auto simp: lg_wf_def bases_upd_base)
  show "slot_balanced (lg_refs B ?L i) (lg_slots ?L ! i)" if "i < 64" for i
    using balancedD [OF assms(1) that] by (simp add: refs)
qed

lemma reach_balanced: "daemon_reach E ext B d \<Longrightarrow> ext_keeps_refs ext \<Longrightarrow> bal B d"
proof (induction rule: daemon_reach.induct)
  case (Request d m d1 r)
  then show ?case using bal_handle_ipc [of B d ext E m d1 r] by (simp add: view_simps)
qed (simp_all add: bal_boot bal_run_event bal_drain bal_reap bal_message bal_base bal_resize view_simps)

section \<open>Properties of reachable states\<close>


text \<open>A booted daemon with two openers, and a SOCKET request of the first.\<close>

definition boot_daemon :: TnDaemon where
  "boot_daemon = daemon0\<lparr>d_bases := (\<lambda>_. base0)(0 := base0\<lparr>sb_fd_map := [], sb_dtablesize := 0\<rparr>),
     d_msgs := (\<lambda>_. msg0)(0x10 := msg0\<lparr>im_cmd := 2, im_args := (\<lambda>_. 0)(0 := 2, 1 := SOCK_STREAM, 3 := -1)\<rparr>)\<rparr>"

definition ext0 :: ext_handlers where
  "ext0 cmd m d = answer m 0 0 d"

lemma boot_daemon_ok: "boot_ok {0, 0x100, 0x200} boot_daemon"
  by (simp add: boot_ok_def boot_daemon_def base0_def msg0_def)

lemma ext0_keeps_refs: "ext_keeps_refs ext0"
  by (simp add: ext_keeps_refs_def ext0_def view_simps)

definition socket_daemon :: TnDaemon where
  "socket_daemon = ReplyMsg 0x10 (fst (the (tn_handle_ipc env0 ext0 0x10 (tn_slot_table_init env0 boot_daemon))))"

lemma socket_daemon_reach: "daemon_reach env0 ext0 {0, 0x100, 0x200} socket_daemon"
proof -
  have "case tn_handle_ipc env0 ext0 0x10 (tn_slot_table_init env0 boot_daemon) of None \<Rightarrow> False | Some (d1, r) \<Rightarrow> r"
    by code_simp
  then obtain d1 where "tn_handle_ipc env0 ext0 0x10 (tn_slot_table_init env0 boot_daemon) = Some (d1, True)"
    by (auto split: option.splits)
  then show ?thesis
    using daemon_reach.Request [OF daemon_reach.Boot [OF boot_daemon_ok, of env0 ext0], of "0x10" d1 True]
    by (simp add: socket_daemon_def)
qed

lemma socket_daemon_slot: "s_in_use (slot_of socket_daemon 0) \<and> \<not> s_is_parked (slot_of socket_daemon 0)"
  by code_simp


text \<open>
  C18. Every request returns: in a reachable state \<open>tn_handle_ipc\<close> has a result for every
  message, also for RELEASESOCKET with its search for a unique id.
\<close>

theorem handle_ipc_returns:
  assumes "daemon_reach E ext B d" "ext_keeps_refs ext"
  shows "\<exists>d1 r. tn_handle_ipc E ext m d = Some (d1, r)"
proof -
  have bal: "bal B d" using reach_balanced [OF assms] .
  let ?d0 = "count_call (im_cmd (d_msgs d m)) (set_reply m 0 0 d)"
  have "bal B ?d0" using bal by (simp add: view_simps)
  then have "0 < d_next_park_id ?d0" "d_next_park_id ?d0 < 2 ^ 31" "length (d_sockets ?d0) = 64"
    using balanced_wf [of B "ledger_of ?d0"] by (simp_all add: lg_wf_def)
  then have "unique_park_id (Suc (length (d_sockets ?d0))) ?d0 \<noteq> None" by (intro unique_park_id_returns) simp_all
  then have "\<exists>p. handler E ext cmd m i ?d0 = Some p" for cmd i
    by (auto simp: handler_def tn_ipc_cmd_releasesocket_def Let_def)
  then obtain p where "\<And>cmd i. handler E ext cmd m i ?d0 = Some (p cmd i)" by metis
  moreover have "d_msgs (set_reply m 0 0 d) m = (d_msgs d m)\<lparr>im_result := 0, im_err_no := 0\<rparr>" by (simp add: msgs_set_reply)
  ultimately have "tn_handle_ipc E ext m d \<noteq> None" by (simp add: tn_handle_ipc_def Let_def case_prod_unfold del: not_None_eq)
  then show ?thesis by auto
qed

theorem handle_ipc_returns_witness:
  "\<exists>d1 r. tn_handle_ipc env0 ext0 0x10 socket_daemon = Some (d1, r)"
  using handle_ipc_returns [OF socket_daemon_reach ext0_keeps_refs] by blast

end
