(* ===== verification/Slot_Inv.thy ===== *)
theory Slot_Inv
  imports Daemon_Reach
begin

text \<open>
  The well-formedness of slots: the queue counters agree with the queues, an accept queue and
  its backlog never exceed 8 entries, a connection that waits in an accept queue never
  holds more than 32 segments, and only the head of a receive queue can be partly read.  Every operation of the daemon keeps it.
\<close>

named_theorems ok_simps \<open>operations that keep slots well-formed\<close>

definition fresh :: "TnRxPacket \<Rightarrow> bool" where
  "fresh pk = (pk_offset pk = 0)"

definition entry_ok :: "TnAcceptEntry \<Rightarrow> bool" where
  "entry_ok e = (ae_early_rx_count e = length (ae_early_rx e) \<and> length (ae_early_rx e) \<le> TN_MAX_RX_QUEUE_PER_SOCKET \<and>
     list_all fresh (ae_early_rx e))"

definition slot_ok :: "TnSocketSlot \<Rightarrow> bool" where
  "slot_ok s = (s_rx_count s = length (s_rx s) \<and> s_accept_count s = length (s_accept s) \<and>
     length (s_accept s) \<le> TN_ACCEPT_QUEUE_MAX \<and> s_listen_backlog s \<le> TN_ACCEPT_QUEUE_MAX \<and> list_all entry_ok (s_accept s) \<and>
     list_all fresh (tl (s_rx s)))"

definition slots_ok :: "TnDaemon \<Rightarrow> bool" where
  "slots_ok d = list_all slot_ok (d_sockets d)"

section \<open>Primitive updates\<close>

lemma slots_okD: "slots_ok d \<Longrightarrow> i < length (d_sockets d) \<Longrightarrow> slot_ok (slot_of d i)"
  by (simp add: slots_ok_def list_all_length)

lemma ok_upd_slot:
  assumes "slots_ok d" "i < length (d_sockets d) \<Longrightarrow> slot_ok (slot_of d i) \<Longrightarrow> slot_ok (f (slot_of d i))"
  shows "slots_ok (upd_slot i f d)"
proof -
  have "slot_ok ((d_sockets d)[i := f (slot_of d i)] ! n)" if "n < length (d_sockets d)" for n
    using assms that slots_okD [of d n] by (cases "n = i") (simp_all add: slots_okD)
  then show ?thesis by (simp add: slots_ok_def list_all_length sockets_upd_slot)
qed

lemma ok_upd_slot_all [ok_simps]:
  "slots_ok d \<Longrightarrow> (\<And>s. slot_ok s \<Longrightarrow> slot_ok (f s)) \<Longrightarrow> slots_ok (upd_slot i f d)"
  by (rule ok_upd_slot)

lemma ok_upd_msg [ok_simps]: "slots_ok (upd_msg p f d) = slots_ok d"
  by (simp add: slots_ok_def)

lemma ok_upd_base [ok_simps]: "slots_ok (upd_base p g d) = slots_ok d"
  by (simp add: slots_ok_def)

lemma ok_sockets_map [ok_simps]:
  "slots_ok d \<Longrightarrow> (\<And>s. slot_ok s \<Longrightarrow> slot_ok (f s)) \<Longrightarrow> slots_ok (d\<lparr>d_sockets := map f (d_sockets d)\<rparr>)"
  by (simp add: slots_ok_def list_all_length)

lemma ok_updates [ok_simps]:
  "slots_ok (d\<lparr>d_next_park_id := x_next_park_id\<rparr>) = slots_ok d"
  "slots_ok (d\<lparr>d_hostname := x_hostname\<rparr>) = slots_ok d"
  "slots_ok (d\<lparr>d_selectors := x_selectors\<rparr>) = slots_ok d"
  "slots_ok (d\<lparr>d_selector_count := x_selector_count\<rparr>) = slots_ok d"
  "slots_ok (d\<lparr>d_ipc_calls := x_ipc_calls\<rparr>) = slots_ok d"
  "slots_ok (d\<lparr>d_deferred_replies := x_deferred_replies\<rparr>) = slots_ok d"
  "slots_ok (d\<lparr>d_sigio_sent := x_sigio_sent\<rparr>) = slots_ok d"
  "slots_ok (d\<lparr>d_selector_wakeups := x_selector_wakeups\<rparr>) = slots_ok d"
  "slots_ok (d\<lparr>d_mainloop_ticks := x_mainloop_ticks\<rparr>) = slots_ok d"
  "slots_ok (d\<lparr>d_rx_high_water := x_rx_high_water\<rparr>) = slots_ok d"
  "slots_ok (d\<lparr>d_rxfree := x_rxfree\<rparr>) = slots_ok d"
  "slots_ok (d\<lparr>d_dns_late_replies := x_dns_late_replies\<rparr>) = slots_ok d"
  "slots_ok (d\<lparr>d_dns_pending := x_dns_pending\<rparr>) = slots_ok d"
  "slots_ok (d\<lparr>d_dns_pending_count := x_dns_pending_count\<rparr>) = slots_ok d"
  "slots_ok (d\<lparr>d_dns_pending_max := x_dns_pending_max\<rparr>) = slots_ok d"
  "slots_ok (d\<lparr>d_open_bases := x_open_bases\<rparr>) = slots_ok d"
  "slots_ok (d\<lparr>d_open_base_count := x_open_base_count\<rparr>) = slots_ok d"
  "slots_ok (d\<lparr>d_mcast_joins := x_mcast_joins\<rparr>) = slots_ok d"
  "slots_ok (d\<lparr>d_slot_free_hook := x_slot_free_hook\<rparr>) = slots_ok d"
  "slots_ok (d\<lparr>d_running := x_running\<rparr>) = slots_ok d"
  "slots_ok (d\<lparr>d_stop_msg := x_stop_msg\<rparr>) = slots_ok d"
  "slots_ok (d\<lparr>d_lib_open_cnt := x_lib_open_cnt\<rparr>) = slots_ok d"
  "slots_ok (d\<lparr>d_routes := x_routes\<rparr>) = slots_ok d"
  "slots_ok (d\<lparr>d_bases := x_bases\<rparr>) = slots_ok d"
  "slots_ok (d\<lparr>d_msgs := x_msgs\<rparr>) = slots_ok d"
  "slots_ok (d\<lparr>d_mem := x_mem\<rparr>) = slots_ok d"
  "slots_ok (d\<lparr>d_lw := x_lw\<rparr>) = slots_ok d"
  "slots_ok (d\<lparr>d_fx := x_fx\<rparr>) = slots_ok d"
  by (simp_all add: slots_ok_def)

lemma slot_ok_update [simp]:
  "slot_ok (s\<lparr>s_in_use := a\<rparr>) = slot_ok s" "slot_ok (s\<lparr>s_owner_base := b\<rparr>) = slot_ok s"
  "slot_ok (s\<lparr>s_owner_task := c\<rparr>) = slot_ok s" "slot_ok (s\<lparr>s_domain := e\<rparr>) = slot_ok s"
  "slot_ok (s\<lparr>s_type := f\<rparr>) = slot_ok s" "slot_ok (s\<lparr>s_protocol := g\<rparr>) = slot_ok s"
  "slot_ok (s\<lparr>s_tcp_state := h\<rparr>) = slot_ok s" "slot_ok (s\<lparr>s_is_nonblocking := i\<rparr>) = slot_ok s"
  "slot_ok (s\<lparr>s_shut_wr := j\<rparr>) = slot_ok s" "slot_ok (s\<lparr>s_shut_rd := k\<rparr>) = slot_ok s"
  "slot_ok (s\<lparr>s_opts := l\<rparr>) = slot_ok s" "slot_ok (s\<lparr>s_last_error := m\<rparr>) = slot_ok s"
  "slot_ok (s\<lparr>s_ref_count := n\<rparr>) = slot_ok s" "slot_ok (s\<lparr>s_udp_pcb := p\<rparr>) = slot_ok s"
  "slot_ok (s\<lparr>s_tcp_pcb := q\<rparr>) = slot_ok s" "slot_ok (s\<lparr>s_raw_pcb := r\<rparr>) = slot_ok s"
  "slot_ok (s\<lparr>s_pending_connect_msg := t\<rparr>) = slot_ok s" "slot_ok (s\<lparr>s_pending_accept_msg := u\<rparr>) = slot_ok s"
  "slot_ok (s\<lparr>s_pending_recv_msg := v\<rparr>) = slot_ok s" "slot_ok (s\<lparr>s_recv_deadline_tick := w\<rparr>) = slot_ok s"
  "slot_ok (s\<lparr>s_pending_send_msg := x\<rparr>) = slot_ok s" "slot_ok (s\<lparr>s_send_deadline_tick := y\<rparr>) = slot_ok s"
  "slot_ok (s\<lparr>s_send_done := z\<rparr>) = slot_ok s" "slot_ok (s\<lparr>s_send_iov := aa\<rparr>) = slot_ok s"
  "slot_ok (s\<lparr>s_send_iovcnt := ab\<rparr>) = slot_ok s" "slot_ok (s\<lparr>s_park_id := ac\<rparr>) = slot_ok s"
  "slot_ok (s\<lparr>s_is_parked := ad\<rparr>) = slot_ok s"
  by (simp_all add: slot_ok_def)

lemma list_all_tl: "list_all P xs \<Longrightarrow> list_all P (tl xs)"
  by (cases xs) simp_all

lemma fresh_new [simp]: "fresh \<lparr>pk_p = bs, pk_offset = 0, pk_src_ip = a, pk_src_port = p\<rparr>"
  by (simp add: fresh_def)

lemma slot_ok_queues [simp]:
  "slot_ok s \<Longrightarrow> slot_ok (rx_pop_slot s)" "slot_ok s \<Longrightarrow> slot_ok (rx_clear_slot s)"
  "slot_ok s \<Longrightarrow> fresh pk \<Longrightarrow> slot_ok (s\<lparr>s_rx := s_rx s @ [pk], s_rx_count := Suc (s_rx_count s)\<rparr>)"
  "slot_ok s \<Longrightarrow> slot_ok (s\<lparr>s_accept := [], s_accept_count := 0\<rparr>)"
  "slot_ok s \<Longrightarrow> slot_ok (s\<lparr>s_accept := tl (s_accept s), s_accept_count := s_accept_count s - Suc 0\<rparr>)"
  by (cases "s_rx s"; auto simp: slot_ok_def rx_pop_slot_def rx_clear_slot_def list_all_tl)+

lemma ok_fold: "(\<And>x d. slots_ok d \<Longrightarrow> slots_ok (f x d)) \<Longrightarrow> slots_ok d \<Longrightarrow> slots_ok (fold f xs d)"
  by (induction xs arbitrary: d) simp_all

lemma ok_set_reply [ok_simps]: "slots_ok d \<Longrightarrow> slots_ok (set_reply m r e d)"
  by (simp add: set_reply_def ok_simps Let_def case_prod_unfold split: option.split)

lemma ok_ReplyMsg [ok_simps]: "slots_ok d \<Longrightarrow> slots_ok (ReplyMsg m d)"
  by (simp add: ReplyMsg_def ok_simps Let_def case_prod_unfold split: option.split)

lemma ok_Signal [ok_simps]: "slots_ok d \<Longrightarrow> slots_ok (Signal t s d)"
  by (simp add: Signal_def ok_simps Let_def case_prod_unfold split: option.split)

lemma ok_lwcall [ok_simps]: "slots_ok d \<Longrightarrow> slots_ok (fst (lwcall E c d))"
  by (simp add: lwcall_def ok_simps Let_def case_prod_unfold split: option.split)

lemma ok_lwdo [ok_simps]: "slots_ok d \<Longrightarrow> slots_ok (lwdo E c d)"
  by (simp add: lwdo_def ok_simps Let_def case_prod_unfold split: option.split)

lemma ok_lwdos [ok_simps]: "slots_ok d \<Longrightarrow> slots_ok (lwdos E cs d)"
  by (induction cs arbitrary: d) (simp_all add: ok_simps)

lemma ok_upd_tcp [ok_simps]: "slots_ok d \<Longrightarrow> slots_ok (upd_tcp p f d)"
  by (simp add: upd_tcp_def ok_simps Let_def case_prod_unfold split: option.split)

lemma ok_upd_udp [ok_simps]: "slots_ok d \<Longrightarrow> slots_ok (upd_udp p f d)"
  by (simp add: upd_udp_def ok_simps Let_def case_prod_unfold split: option.split)

lemma ok_upd_raw [ok_simps]: "slots_ok d \<Longrightarrow> slots_ok (upd_raw p f d)"
  by (simp add: upd_raw_def ok_simps Let_def case_prod_unfold split: option.split)

section \<open>The slot table\<close>

lemma ok_rxpkt_get [ok_simps]: "slots_ok d \<Longrightarrow> slots_ok (fst (tn_rxpkt_get E d))"
  by (simp add: tn_rxpkt_get_def ok_simps Let_def case_prod_unfold split: option.split)

lemma ok_rxpkt_put [ok_simps]: "slots_ok d \<Longrightarrow> slots_ok (tn_rxpkt_put E d)"
  by (simp add: tn_rxpkt_put_def ok_simps Let_def case_prod_unfold split: option.split)

lemma ok_free_pkts [ok_simps]: "slots_ok d \<Longrightarrow> slots_ok (free_pkts E pks d)"
  by (induction pks arbitrary: d) (simp_all add: ok_simps)

lemma ok_rx_push_ex [ok_simps]: "slots_ok d \<Longrightarrow> slots_ok (fst (tn_rx_queue_push_ex E i p a q c d))"
  by (simp add: tn_rx_queue_push_ex_def ok_simps Let_def case_prod_unfold split: option.split)

lemma ok_rx_push [ok_simps]: "slots_ok d \<Longrightarrow> slots_ok (fst (tn_rx_queue_push E i p a q d))"
  by (simp add: tn_rx_queue_push_def ok_simps Let_def case_prod_unfold split: option.split)

lemma ok_rx_push_nocap [ok_simps]: "slots_ok d \<Longrightarrow> slots_ok (fst (tn_rx_queue_push_nocap E i p a q d))"
  by (simp add: tn_rx_queue_push_nocap_def ok_simps Let_def case_prod_unfold split: option.split)

lemma ok_rx_pop [ok_simps]: "slots_ok d \<Longrightarrow> slots_ok (fst (tn_rx_queue_pop i d))"
  by (simp add: tn_rx_queue_pop_def ok_simps)

lemma ok_rx_drain [ok_simps]: "slots_ok d \<Longrightarrow> slots_ok (tn_rx_queue_drain E i d)"
  by (simp add: tn_rx_queue_drain_def ok_simps)

lemma ok_recved_free [ok_simps]: "slots_ok d \<Longrightarrow> slots_ok (recved_free_pkts E pcb pks d)"
  by (induction pks arbitrary: d) (simp_all add: ok_simps)

lemma ok_rx_drain_recved [ok_simps]: "slots_ok d \<Longrightarrow> slots_ok (tn_rx_queue_drain_with_recved E i d)"
  by (simp add: tn_rx_queue_drain_with_recved_def ok_simps)

lemma ok_entry_free [ok_simps]: "slots_ok d \<Longrightarrow> slots_ok (tn_accept_entry_free E ent a d)"
  by (simp add: tn_accept_entry_free_def ok_simps Let_def case_prod_unfold split: option.split)

lemma ok_queue_remove [ok_simps]:
  assumes "slots_ok d"
  shows "slots_ok (tn_accept_queue_remove E i a d)"
proof (cases "first_idx (\<lambda>e. ae_addr e = a) (s_accept (slot_of d i))")
  case (Some k)
  have k: "k < length (s_accept (slot_of d i))" using first_idx_SomeD(1) [OF Some] .
  have "slots_ok (upd_slot i (\<lambda>s. s\<lparr>s_accept := take k (s_accept s) @ drop (Suc k) (s_accept s),
      s_accept_count := s_accept_count s - 1\<rparr>) d)"
    using assms k by (intro ok_upd_slot)
      (auto simp: slot_ok_def list_all_iff dest: in_set_takeD in_set_dropD)
  then show ?thesis using Some by (simp add: tn_accept_queue_remove_def ok_simps Let_def)
qed (use assms in \<open>simp add: tn_accept_queue_remove_def\<close>)

lemma ok_queue_push [ok_simps]:
  "slots_ok d \<Longrightarrow> s_accept_count (slot_of d i) < s_listen_backlog (slot_of d i) \<Longrightarrow> slots_ok (fst (tn_accept_queue_push E i p d))"
  by (auto simp: tn_accept_queue_push_def ok_lwcall Let_def case_prod_unfold slot_ok_def entry_ok_def
      intro!: ok_lwdo ok_upd_slot)

lemma ok_queue_pop [ok_simps]: "slots_ok d \<Longrightarrow> slots_ok (fst (tn_accept_queue_pop_entry i d))"
  by (simp add: tn_accept_queue_pop_entry_def ok_simps Let_def case_prod_unfold split: option.split)

lemma ok_free_entries [ok_simps]: "slots_ok d \<Longrightarrow> slots_ok (free_entries E es d)"
  by (induction es arbitrary: d) (simp_all add: ok_simps)

lemma ok_accept_drain [ok_simps]: "slots_ok d \<Longrightarrow> slots_ok (tn_accept_queue_drain E i d)"
  by (simp add: tn_accept_queue_drain_def ok_simps Let_def case_prod_unfold split: option.split)

lemma ok_upd_entry [ok_simps]:
  assumes "slots_ok d" "\<And>e. e = s_accept (slot_of d i) ! k \<Longrightarrow> entry_ok e \<Longrightarrow> entry_ok (f e)"
  shows "slots_ok (upd_entry i k f d)"
  unfolding upd_entry_def
proof (rule ok_upd_slot [OF assms(1)])
  assume ok: "slot_ok (slot_of d i)"
  have "list_all entry_ok ((s_accept (slot_of d i))[k := f (s_accept (slot_of d i) ! k)])"
  proof (cases "k < length (s_accept (slot_of d i))")
    case True
    then show ?thesis using ok assms(2) by (auto simp: slot_ok_def list_all_length nth_list_update)
  qed (use ok in \<open>simp add: slot_ok_def list_update_beyond\<close>)
  then show "slot_ok ((slot_of d i)\<lparr>s_accept := (s_accept (slot_of d i))[k := f (s_accept (slot_of d i) ! k)]\<rparr>)"
    using ok by (simp add: slot_ok_def)
qed

lemma entry_ok_append:
  "entry_ok e \<Longrightarrow> ae_early_rx_count e < TN_MAX_RX_QUEUE_PER_SOCKET \<Longrightarrow> fresh pk \<Longrightarrow>
   entry_ok (e\<lparr>ae_early_rx := ae_early_rx e @ [pk], ae_early_rx_count := Suc (ae_early_rx_count e)\<rparr>)"
  by (simp add: entry_ok_def)

lemma entry_ok_update [simp]:
  "entry_ok (e\<lparr>ae_peer_closed := c\<rparr>) = entry_ok e" "entry_ok (e\<lparr>ae_new_pcb := p\<rparr>) = entry_ok e"
  by (simp_all add: entry_ok_def)

lemma ok_queued_recv [ok_simps]:
  assumes "slots_ok d"
  shows "slots_ok (fst (tn_tcp_queued_recv_cb E a pcb p d))"
proof (cases "find_entry d a")
  case (Some ik)
  obtain i k where ik: "ik = (i, k)" by force
  show ?thesis
  proof (cases p)
    case None
    then show ?thesis using assms Some ik by (auto simp: tn_tcp_queued_recv_cb_def Let_def intro!: ok_upd_entry)
  next
    case (Some bs)
    then show ?thesis
      using assms \<open>find_entry d a = Some ik\<close> ik
      by (auto simp: tn_tcp_queued_recv_cb_def Let_def case_prod_unfold not_le intro!: ok_upd_entry ok_lwdo ok_lwcall ok_rxpkt_put
          ok_rxpkt_get entry_ok_append)
  qed
qed (use assms in \<open>simp add: tn_tcp_queued_recv_cb_def ok_simps split: option.split\<close>)

lemma ok_queued_err [ok_simps]: "slots_ok d \<Longrightarrow> slots_ok (tn_tcp_queued_err_cb E a d)"
  by (auto simp: tn_tcp_queued_err_cb_def split: option.split intro!: ok_queue_remove ok_upd_entry)

lemma ok_record_event [ok_simps]: "slots_ok d \<Longrightarrow> slots_ok (tn_record_socket_event i ev d)"
  by (simp add: tn_record_socket_event_def ok_simps Let_def case_prod_unfold split: option.split)

lemma ok_park_recv [ok_simps]: "slots_ok d \<Longrightarrow> slots_ok (fst (tn_slot_park_recv i m d))"
  by (simp add: tn_slot_park_recv_def ok_simps Let_def case_prod_unfold split: option.split)

lemma ok_reply_send [ok_simps]: "slots_ok d \<Longrightarrow> slots_ok (tn_slot_reply_send i e r d)"
  by (simp add: tn_slot_reply_send_def ok_simps Let_def case_prod_unfold split: option.split)

lemma ok_cancel_send [ok_simps]: "slots_ok d \<Longrightarrow> slots_ok (fst (tn_slot_cancel_parked_send m d))"
  by (simp add: tn_slot_cancel_parked_send_def ok_simps Let_def case_prod_unfold split: option.split)

lemma ok_reply_recv [ok_simps]: "slots_ok d \<Longrightarrow> slots_ok (tn_slot_reply_recv i e r d)"
  by (simp add: tn_slot_reply_recv_def ok_simps Let_def case_prod_unfold split: option.split)

lemma ok_check_timeouts [ok_simps]: "slots_ok d \<Longrightarrow> slots_ok (tn_slot_check_recv_timeouts d)"
  by (simp add: tn_slot_check_recv_timeouts_def slot_check_timeouts_def ok_simps ok_fold Let_def)

lemma ok_recv_cancel2 [ok_simps]: "slots_ok d \<Longrightarrow> slots_ok (tn_recv_cancel_for_base2 b r d)"
  by (simp add: tn_recv_cancel_for_base2_def slot_cancel_for_base_def ok_simps ok_fold Let_def)

lemma ok_recv_cancel [ok_simps]: "slots_ok d \<Longrightarrow> slots_ok (tn_recv_cancel_for_base b d)"
  by (simp add: tn_recv_cancel_for_base_def ok_simps Let_def case_prod_unfold split: option.split)

lemma ok_clear_owner [ok_simps]: "slots_ok d \<Longrightarrow> slots_ok (tn_slot_clear_owner_base b d)"
  by (simp add: tn_slot_clear_owner_base_def ok_simps Let_def case_prod_unfold split: option.split)

lemma ok_mcast_leave [ok_simps]: "slots_ok d \<Longrightarrow> slots_ok (tn_mcast_leave_all E i d)"
  by (simp add: tn_mcast_leave_all_def mcast_leave_one_def ok_simps ok_fold Let_def)

lemma ok_free_tcp [ok_simps]: "slots_ok d \<Longrightarrow> slots_ok (slot_free_tcp E i d)"
  by (simp add: slot_free_tcp_def ok_simps Let_def case_prod_unfold split: option.split)

lemma ok_free_pcbs [ok_simps]: "slots_ok d \<Longrightarrow> slots_ok (slot_free_pcbs E i d)"
  by (simp add: slot_free_pcbs_def ok_simps Let_def case_prod_unfold split: option.split)

lemma ok_free_pending [ok_simps]: "slots_ok d \<Longrightarrow> slots_ok (slot_free_pending i d)"
  by (simp add: slot_free_pending_def slot_free_connect_def slot_free_accept_def slot_free_recv_def ok_simps Let_def)

section \<open>Selectors\<close>

lemma ok_resync [ok_simps]: "slots_ok d \<Longrightarrow> slots_ok (tn_selector_count_resync d)"
  by (simp add: tn_selector_count_resync_def ok_simps Let_def case_prod_unfold split: option.split)

lemma ok_disarm_sel [ok_simps]: "slots_ok d \<Longrightarrow> slots_ok (disarm_selector k d)"
  by (simp add: disarm_selector_def ok_simps Let_def case_prod_unfold split: option.split)

lemma ok_signal_sel [ok_simps]: "slots_ok d \<Longrightarrow> slots_ok (signal_selector i k d)"
  by (simp add: signal_selector_def ok_simps Let_def case_prod_unfold split: option.split)

lemma ok_sigio [ok_simps]: "slots_ok d \<Longrightarrow> slots_ok (signal_sigio i d)"
  by (simp add: signal_sigio_def ok_simps Let_def case_prod_unfold split: option.split)

lemma ok_signal_socket [ok_simps]: "slots_ok d \<Longrightarrow> slots_ok (tn_signal_socket i d)"
  by (simp add: tn_signal_socket_def ok_simps ok_fold Let_def)

lemma ok_arm_sel [ok_simps]: "slots_ok d \<Longrightarrow> slots_ok (arm_selector b t n r w e k d)"
  by (simp add: arm_selector_def ok_simps Let_def case_prod_unfold split: option.split)

lemma ok_select_arm [ok_simps]: "slots_ok d \<Longrightarrow> slots_ok (fst (tn_ipc_cmd_select_arm m d))"
  by (simp add: tn_ipc_cmd_select_arm_def ok_simps Let_def case_prod_unfold split: option.split)

lemma ok_disarm_step [ok_simps]: "slots_ok d \<Longrightarrow> slots_ok (disarm_step b k d)"
  by (simp add: disarm_step_def ok_simps Let_def case_prod_unfold split: option.split)

lemma ok_select_disarm [ok_simps]: "slots_ok d \<Longrightarrow> slots_ok (fst (tn_ipc_cmd_select_disarm m d))"
  by (simp add: tn_ipc_cmd_select_disarm_def ok_simps ok_fold Let_def)

lemma ok_disarm_all [ok_simps]: "slots_ok d \<Longrightarrow> slots_ok (tn_selector_disarm_all_for_base b d)"
  by (simp add: tn_selector_disarm_all_for_base_def ok_simps ok_fold)

lemma ok_waitselect [ok_simps]: "slots_ok d \<Longrightarrow> slots_ok (fst (tn_ipc_cmd_waitselect m d))"
  by (simp add: tn_ipc_cmd_waitselect_def ok_simps Let_def case_prod_unfold split: option.split)

section \<open>Receiving\<close>

lemma ok_rx_discard [ok_simps]: "slots_ok d \<Longrightarrow> slots_ok (rx_discard E i d)"
  by (simp add: rx_discard_def ok_simps)

lemma ok_recv_wait [ok_simps]: "slots_ok d \<Longrightarrow> slots_ok (fst (recv_wait i m f d))"
  by (simp add: recv_wait_def ok_simps Let_def case_prod_unfold split: option.split)

lemma ok_rx_head:
  "slots_ok d \<Longrightarrow> s_rx (slot_of d i) \<noteq> [] \<Longrightarrow> slots_ok (upd_slot i (\<lambda>s. s\<lparr>s_rx := pk # tl (s_rx s)\<rparr>) d)"
  by (rule ok_upd_slot) (auto simp: slot_ok_def)

lemma ok_stream_take [ok_simps]:
  "slots_ok d \<Longrightarrow> s_rx (slot_of d i) \<noteq> [] \<Longrightarrow> slots_ok (fst (recv_stream_take E i b n d))"
  by (simp add: recv_stream_take_def ok_simps ok_rx_head Let_def)

lemma ok_stream_empty [ok_simps]: "slots_ok d \<Longrightarrow> slots_ok (fst (recv_stream_empty i m f d))"
  by (simp add: recv_stream_empty_def ok_simps Let_def case_prod_unfold split: option.split)

lemma ok_dgram_take [ok_simps]: "slots_ok d \<Longrightarrow> slots_ok (fst (recv_dgram_take E i b n pk d))"
  by (simp add: recv_dgram_take_def ok_simps Let_def case_prod_unfold split: option.split)

lemma ok_recv [ok_simps]: "slots_ok d \<Longrightarrow> slots_ok (fst (tn_ipc_cmd_recv E m i d))"
  by (simp add: tn_ipc_cmd_recv_def ok_simps Let_def case_prod_unfold split: option.split)

lemma ok_recvfrom_take [ok_simps]: "slots_ok d \<Longrightarrow> slots_ok (fst (recvfrom_take E i b n pk f fl p d))"
  by (simp add: recvfrom_take_def ok_simps Let_def case_prod_unfold split: option.split)

lemma ok_recvfrom [ok_simps]: "slots_ok d \<Longrightarrow> slots_ok (fst (tn_ipc_cmd_recvfrom E m i d))"
  by (simp add: tn_ipc_cmd_recvfrom_def ok_simps Let_def case_prod_unfold split: option.split)

lemma ok_consume [ok_simps]:
  "slots_ok d \<Longrightarrow> (i < length (d_sockets d) \<Longrightarrow> s_rx (slot_of d i) = pks) \<Longrightarrow>
   slots_ok (fst (recvmsg_consume E i pks iov n sp c off tot d))"
proof (induction pks arbitrary: c off tot d)
  case (Cons pk pks)
  obtain m1 k cur1 off1 where sc: "scatter (drop (pk_offset pk) (pk_p pk)) iov n c off (d_mem d) = (m1, k, cur1, off1)"
    using prod_cases4 by blast
  let ?d1 = "upd_slot i (\<lambda>s. s\<lparr>s_rx := pk\<lparr>pk_offset := pk_offset pk + k\<rparr> # pks\<rparr>) (d\<lparr>d_mem := m1\<rparr>)"
  have d1: "slots_ok ?d1" using Cons.prems by (intro ok_upd_slot) (auto simp: ok_simps slot_ok_def)
  have rx: "s_rx (slot_of ?d1 i) = pk\<lparr>pk_offset := pk_offset pk + k\<rparr> # pks" if "i < length (d_sockets d)" using that by simp
  let ?d2 = "if 0 < k \<and> s_tcp_pcb (slot_of ?d1 i) \<noteq> NULL then lwdo E (TcpRecved (s_tcp_pcb (slot_of ?d1 i)) k) ?d1 else ?d1"
  have d2: "slots_ok ?d2" "d_sockets ?d2 = d_sockets ?d1" using d1 by (simp_all add: ok_simps)
  let ?d3 = "lwdos E [PbufFree (pk_p pk), FreeRxPkt] (upd_slot i rx_pop_slot ?d2)"
  have "slots_ok ?d3" using d2(1) by (simp only: ok_lwdos ok_upd_slot_all slot_ok_queues)
  moreover have "s_rx (slot_of ?d3 i) = pks" if "i < length (d_sockets ?d3)"
    using that rx d2(2) by (simp add: rx_pop_slot_def)
  ultimately show ?case using Cons.IH [of ?d3] d2(1) Cons.prems(1) by (simp add: sc Let_def)
qed simp

lemma ok_recvmsg_stream [ok_simps]: "slots_ok d \<Longrightarrow> slots_ok (fst (recvmsg_stream E m i u mh f sp d))"
  by (simp add: recvmsg_stream_def ok_simps Let_def case_prod_unfold split: option.split)

lemma ok_recvmsg_dgram [ok_simps]: "slots_ok d \<Longrightarrow> slots_ok (fst (recvmsg_dgram E m i u mh f d))"
  by (simp add: recvmsg_dgram_def ok_simps Let_def case_prod_unfold)

lemma ok_recvmsg [ok_simps]: "slots_ok d \<Longrightarrow> slots_ok (fst (tn_ipc_cmd_recvmsg E m i d))"
  by (simp add: tn_ipc_cmd_recvmsg_def ok_simps Let_def case_prod_unfold split: option.split)

lemma ok_run_recv [ok_simps]: "slots_ok d \<Longrightarrow> slots_ok (fst (run_recv E m i d))"
  by (simp add: run_recv_def ok_simps Let_def case_prod_unfold split: option.split)

lemma ok_service [ok_simps]: "slots_ok d \<Longrightarrow> slots_ok (tn_service_pending_recv E i d)"
  by (simp add: tn_service_pending_recv_def ok_simps Let_def case_prod_unfold split: option.split)

section \<open>lwIP callbacks other than accept\<close>

lemma ok_write_some [ok_simps]: "slots_ok d \<Longrightarrow> slots_ok (fst (tn_tcp_write_some E pcb buf iov n len vi vb pos d))"
  by (induction E pcb buf iov n len vi vb pos d rule: tn_tcp_write_some.induct)
     (subst tn_tcp_write_some.simps, simp add: ok_simps Let_def split: option.split)

lemma ok_resume_send [ok_simps]: "slots_ok d \<Longrightarrow> slots_ok (tn_tcp_resume_send E i d)"
  by (simp add: tn_tcp_resume_send_def ok_simps Let_def case_prod_unfold split: option.split)

lemma ok_poll_cb [ok_simps]: "slots_ok d \<Longrightarrow> slots_ok (tn_tcp_poll_cb E a pcb d)"
  by (simp add: tn_tcp_poll_cb_def ok_simps Let_def case_prod_unfold split: option.split)

lemma ok_sent_cb [ok_simps]: "slots_ok d \<Longrightarrow> slots_ok (tn_tcp_sent_cb E a pcb d)"
  by (simp add: tn_tcp_sent_cb_def ok_simps Let_def case_prod_unfold split: option.split)

lemma ok_detach [ok_simps]: "slots_ok d \<Longrightarrow> slots_ok (tn_tcp_detach_finished E i pcb d)"
  by (simp add: tn_tcp_detach_finished_def ok_simps Let_def case_prod_unfold split: option.split)

lemma ok_queue_clone [ok_simps]: "slots_ok d \<Longrightarrow> slots_ok (fst (tn_tcp_queue_clone E i p c d))"
  by (simp add: tn_tcp_queue_clone_def ok_simps Let_def case_prod_unfold split: option.split)

lemma ok_notify [ok_simps]: "slots_ok d \<Longrightarrow> slots_ok (notify_recv E i ev d)"
  by (simp add: notify_recv_def ok_simps Let_def case_prod_unfold split: option.split)

lemma ok_free_opt [ok_simps]: "slots_ok d \<Longrightarrow> slots_ok (free_opt E p d)"
  by (simp add: free_opt_def ok_simps Let_def case_prod_unfold split: option.split)

lemma ok_recv_cb [ok_simps]: "slots_ok d \<Longrightarrow> slots_ok (fst (tn_tcp_recv_cb E a pcb p d))"
  by (simp add: tn_tcp_recv_cb_def ok_simps Let_def case_prod_unfold split: option.split)

lemma ok_reply_connect [ok_simps]: "slots_ok d \<Longrightarrow> slots_ok (reply_connect i r e d)"
  by (simp add: reply_connect_def ok_simps Let_def case_prod_unfold split: option.split)

lemma ok_connected_cb [ok_simps]: "slots_ok d \<Longrightarrow> slots_ok (tn_tcp_connected_cb E a pcb d)"
  by (simp add: tn_tcp_connected_cb_def tcp_nagle_disable_def ok_simps Let_def)

lemma ok_err_cb [ok_simps]: "slots_ok d \<Longrightarrow> slots_ok (tn_tcp_err_cb E a e d)"
  by (simp add: tn_tcp_err_cb_def ok_simps Let_def case_prod_unfold split: option.split)

lemma ok_adopt [ok_simps]: "slots_ok d \<Longrightarrow> slots_ok (adopt_pcb E m i j pcb d)"
  by (simp add: adopt_pcb_def ok_simps Let_def case_prod_unfold split: option.split)

lemma ok_reply_to [ok_simps]: "slots_ok d \<Longrightarrow> slots_ok (reply_to m r e d)"
  by (simp add: reply_to_def ok_simps Let_def case_prod_unfold split: option.split)

lemma ok_udp_cb [ok_simps]: "slots_ok d \<Longrightarrow> slots_ok (tn_udp_recv_cb E a p ip port d)"
  by (simp add: tn_udp_recv_cb_def ok_simps Let_def case_prod_unfold split: option.split)

lemma ok_raw_cb [ok_simps]: "slots_ok d \<Longrightarrow> slots_ok (tn_raw_recv_cb E a p ip d)"
  by (simp add: tn_raw_recv_cb_def ok_simps Let_def case_prod_unfold split: option.split)

section \<open>Handlers\<close>

lemma slot_ok_backlog [simp]: "slot_ok s \<Longrightarrow> slot_ok (s\<lparr>s_listen_backlog := clip_backlog n\<rparr>)"
  by (auto simp: slot_ok_def clip_backlog_def TN_ACCEPT_QUEUE_MAX_def)

lemma ok_listen [ok_simps]: "slots_ok d \<Longrightarrow> slots_ok (fst (tn_ipc_cmd_listen E m i d))"
  by (simp add: tn_ipc_cmd_listen_def ok_simps Let_def case_prod_unfold)

lemma ok_accept_adopt [ok_simps]:
  assumes "slots_ok d" "entry_ok ent"
  shows "slots_ok (accept_adopt E m i j ent d)"
proof -
  have "slot_ok (s\<lparr>s_tcp_state := st, s_rx := ae_early_rx ent, s_rx_count := ae_early_rx_count ent\<rparr>)" if "slot_ok s" for s st
    using that assms(2) by (simp add: slot_ok_def entry_ok_def list_all_tl)
  then show ?thesis using assms(1) by (simp add: accept_adopt_def accept_events_def ok_simps Let_def)
qed

lemma ok_send_park [ok_simps]: "slots_ok d \<Longrightarrow> slots_ok (fst (send_park E m i iov n len pos d))"
  by (simp add: send_park_def ok_simps Let_def case_prod_unfold split: option.split)

lemma ok_send_finish [ok_simps]: "slots_ok (fst r) \<Longrightarrow> slots_ok (fst (send_finish E m i iov n len nb r))"
  by (simp add: send_finish_def ok_simps Let_def)

lemma ok_shutdown [ok_simps]: "slots_ok d \<Longrightarrow> slots_ok (fst (tn_ipc_cmd_shutdown E m i d))"
  by (simp add: tn_ipc_cmd_shutdown_def shutdown_rdwr_def ok_simps Let_def case_prod_unfold)

lemma ok_bind [ok_simps]: "slots_ok d \<Longrightarrow> slots_ok (fst (tn_ipc_cmd_bind E m i d))"
  by (simp add: tn_ipc_cmd_bind_def bind_pcb_def ok_simps Let_def case_prod_unfold split: sum.split)

lemma ok_pbuf_send [ok_simps]: "slots_ok d \<Longrightarrow> slots_ok (fst (pbuf_send E bs c d))"
  by (simp add: pbuf_send_def ok_simps Let_def case_prod_unfold split: option.split)

lemma ok_sendmsg_raw [ok_simps]: "slots_ok d \<Longrightarrow> slots_ok (fst (sendmsg_raw E m pcb t bs d))"
  by (simp add: sendmsg_raw_def ok_simps Let_def case_prod_unfold split: option.split)

lemma ok_dns_drop [ok_simps]: "slots_ok d \<Longrightarrow> slots_ok (dns_drop_record p d)"
  by (simp add: dns_drop_record_def ok_simps Let_def case_prod_unfold split: option.split)

lemma ok_dns_cancel2 [ok_simps]: "slots_ok d \<Longrightarrow> slots_ok (tn_dns_cancel_for_base2 b r d)"
  by (simp add: tn_dns_cancel_for_base2_def dns_cancel_one_def ok_simps ok_fold Let_def)

lemma ok_dns_cancel [ok_simps]: "slots_ok d \<Longrightarrow> slots_ok (tn_dns_cancel_for_base b d)"
  by (simp add: tn_dns_cancel_for_base_def ok_simps Let_def case_prod_unfold split: option.split)

lemma ok_hostent [ok_simps]: "slots_ok d \<Longrightarrow> slots_ok (tn_ipc_fill_hostent_now b n a d)"
  by (simp add: tn_ipc_fill_hostent_now_def ok_simps Let_def case_prod_unfold split: option.split)

lemma ok_dns_found [ok_simps]: "slots_ok d \<Longrightarrow> slots_ok (tn_dns_found_cb E n a m d)"
  by (simp add: tn_dns_found_cb_def ok_simps Let_def case_prod_unfold split: option.split)

lemma ok_gethostbyname [ok_simps]: "slots_ok d \<Longrightarrow> slots_ok (fst (tn_ipc_cmd_gethostbyname E m d))"
  by (simp add: tn_ipc_cmd_gethostbyname_def dns_defer_def dns_register_def ok_simps Let_def case_prod_unfold split: option.split)

lemma ok_routectl [ok_simps]: "slots_ok d \<Longrightarrow> slots_ok (fst (tn_ipc_cmd_routectl m d))"
  by (simp add: tn_ipc_cmd_routectl_def ok_simps Let_def case_prod_unfold split: option.split)

lemma ok_getsockname [ok_simps]: "slots_ok d \<Longrightarrow> slots_ok (fst (tn_ipc_cmd_getsockname m i d))"
  by (simp add: tn_ipc_cmd_getsockname_def ok_simps Let_def case_prod_unfold split: option.split)

lemma ok_getpeername [ok_simps]: "slots_ok d \<Longrightarrow> slots_ok (fst (tn_ipc_cmd_getpeername m i d))"
  by (simp add: tn_ipc_cmd_getpeername_def ok_simps Let_def case_prod_unfold split: option.split)

lemma ok_cancel [ok_simps]: "slots_ok d \<Longrightarrow> slots_ok (fst (tn_ipc_cmd_cancel m d))"
  by (simp add: tn_ipc_cmd_cancel_def cancel_slot_def ok_simps Let_def case_prod_unfold split: option.split)

lemma ok_with_tcp [ok_simps]: "slots_ok d \<Longrightarrow> slots_ok (with_tcp i f d)"
  by (simp add: with_tcp_def ok_simps Let_def case_prod_unfold split: option.split)

lemma ok_with_udp [ok_simps]: "slots_ok d \<Longrightarrow> slots_ok (with_udp i f d)"
  by (simp add: with_udp_def ok_simps Let_def case_prod_unfold split: option.split)

lemma ok_with_raw [ok_simps]: "slots_ok d \<Longrightarrow> slots_ok (with_raw i f d)"
  by (simp add: with_raw_def ok_simps Let_def case_prod_unfold split: option.split)

lemma ok_with_conn [ok_simps]: "slots_ok d \<Longrightarrow> slots_ok (with_conn_tcp i f d)"
  by (simp add: with_conn_tcp_def ok_simps Let_def case_prod_unfold split: option.split)

lemma ok_upd_opts [ok_simps]: "slots_ok d \<Longrightarrow> slots_ok (upd_opts i f d)"
  by (simp add: upd_opts_def ok_simps Let_def case_prod_unfold split: option.split)

lemma ok_rcvtimeo [ok_simps]: "slots_ok d \<Longrightarrow> slots_ok (set_rcvtimeo i s u d)"
  by (simp add: set_rcvtimeo_def ok_simps Let_def case_prod_unfold split: option.split)

lemma ok_sndtimeo [ok_simps]: "slots_ok d \<Longrightarrow> slots_ok (set_sndtimeo i s u d)"
  by (simp add: set_sndtimeo_def ok_simps Let_def case_prod_unfold split: option.split)

lemma ok_socket_opt [ok_simps]: "slots_ok d \<Longrightarrow> slots_ok (fst (set_socket_opt i oname v n d))"
  by (simp add: set_socket_opt_def ok_simps Let_def case_prod_unfold split: option.split)

lemma ok_tcp_opt [ok_simps]: "slots_ok d \<Longrightarrow> slots_ok (fst (set_tcp_opt i oname v n d))"
  by (simp add: set_tcp_opt_def ok_simps Let_def case_prod_unfold split: option.split)

lemma ok_add_member [ok_simps]: "slots_ok d \<Longrightarrow> slots_ok (fst (add_membership E i g a d))"
  by (simp add: add_membership_def ok_simps Let_def case_prod_unfold split: option.split)

lemma ok_drop_member [ok_simps]: "slots_ok d \<Longrightarrow> slots_ok (fst (drop_membership E i g a d))"
  by (simp add: drop_membership_def ok_simps Let_def case_prod_unfold split: option.split)

lemma ok_ip_opt [ok_simps]: "slots_ok d \<Longrightarrow> slots_ok (fst (set_ip_opt E i oname v n d))"
  by (simp add: set_ip_opt_def ok_simps Let_def case_prod_unfold split: option.split)

lemma ok_setsockopt [ok_simps]: "slots_ok d \<Longrightarrow> slots_ok (fst (tn_ipc_cmd_setsockopt E m i d))"
  by (simp add: tn_ipc_cmd_setsockopt_def ok_simps Let_def case_prod_unfold split: option.split)

lemma ok_getsockopt [ok_simps]: "slots_ok d \<Longrightarrow> slots_ok (fst (tn_ipc_cmd_getsockopt m i d))"
  by (simp add: tn_ipc_cmd_getsockopt_def ok_simps Let_def split: opt_value.split)

lemma ok_ioctl [ok_simps]: "slots_ok d \<Longrightarrow> slots_ok (fst (tn_ipc_cmd_ioctl E m i d))"
  by (simp add: tn_ipc_cmd_ioctl_def ioctl_arp_def ok_simps Let_def case_prod_unfold split: option.split)

lemma ok_syslog [ok_simps]: "slots_ok d \<Longrightarrow> slots_ok (fst (tn_ipc_cmd_syslog m d))"
  by (simp add: tn_ipc_cmd_syslog_def ok_simps Let_def case_prod_unfold split: option.split)

lemma ok_enumsockets [ok_simps]: "slots_ok d \<Longrightarrow> slots_ok (fst (tn_ipc_cmd_enumsockets m d))"
  by (simp add: tn_ipc_cmd_enumsockets_def ok_simps Let_def case_prod_unfold split: option.split)

lemma ok_count_call [ok_simps]: "slots_ok d \<Longrightarrow> slots_ok (count_call c d)"
  by (simp add: count_call_def ok_simps Let_def case_prod_unfold split: option.split)

section \<open>Operations that open, share, park and close sockets\<close>

lemma ok_set_fd [ok_simps]: "slots_ok (set_fd b fd v d) = slots_ok d"
  by (simp add: slots_ok_def)

lemma rx_upd_slot:
  assumes "\<And>s. s_rx (f s) = s_rx s"
  shows "map s_rx (d_sockets (upd_slot i f d)) = map s_rx (d_sockets d)"
  using assms by (cases "i < length (d_sockets d)")
    (simp_all add: sockets_upd_slot map_update list_update_same_conv list_update_beyond)

lemma rx_slot_free_pending: "map s_rx (d_sockets (slot_free_pending i d)) = map s_rx (d_sockets d)"
  by (simp add: slot_free_pending_def slot_free_connect_def slot_free_accept_def slot_free_recv_def
      tn_slot_reply_recv_def tn_slot_reply_send_def rx_upd_slot Let_def)

lemma ok_slot_free [ok_simps]: "slots_ok d \<Longrightarrow> slots_ok (tn_slot_free E i d)"
proof -
  assume ok: "slots_ok d"
  let ?d = "slot_free_pending i (tn_accept_queue_drain E i (tn_rx_queue_drain E i (slot_free_pcbs E i d)))"
  have "slots_ok ?d" using ok by (simp add: ok_simps)
  moreover have "s_rx (slot_of ?d i) = []" if "i < length (d_sockets ?d)"
  proof -
    let ?q = "tn_rx_queue_drain E i (slot_free_pcbs E i d)"
    have rx: "map s_rx (d_sockets ?d) = map s_rx (d_sockets ?q)"
      by (simp add: rx_slot_free_pending tn_accept_queue_drain_def rx_upd_slot)
    have "i < length (d_sockets ?q)" using that map_eq_imp_length_eq [OF rx] by simp
    then show ?thesis using arg_cong [OF rx, of "\<lambda>xs. xs ! i"] that by (simp add: tn_rx_queue_drain_def rx_clear_slot_def)
  qed
  ultimately show ?thesis
    using ok by (auto simp: tn_slot_free_def Let_def slot_ok_def intro!: ok_upd_slot)
qed

lemma ok_slot_unref [ok_simps]: "slots_ok d \<Longrightarrow> slots_ok (tn_slot_unref E i d)"
  by (simp add: tn_slot_unref_def ok_simps Let_def)

lemma ok_slot_ref [ok_simps]: "slots_ok d \<Longrightarrow> slots_ok (tn_slot_ref i d)"
  by (simp add: tn_slot_ref_def ok_simps)

lemma ok_close_fd [ok_simps]: "slots_ok d \<Longrightarrow> slots_ok (close_fd E b fd d)"
  by (simp add: close_fd_def ok_simps Let_def)

lemma ok_close_base [ok_simps]: "slots_ok d \<Longrightarrow> slots_ok (close_base E b d)"
  by (simp add: close_base_def unregister_base_def ok_simps ok_fold Let_def split: option.split)

lemma ok_reap [ok_simps]: "slots_ok d \<Longrightarrow> slots_ok (tn_reap_dead_clients E d)"
  by (simp add: tn_reap_dead_clients_def reap_one_def reap_slot_msgs_def ok_simps ok_fold Let_def)

lemma ok_alloc [ok_simps]: "slots_ok d \<Longrightarrow> slots_ok (fst (tn_slot_alloc b t af ty pr d))"
  by (simp add: tn_slot_alloc_def ok_simps slot_ok_def tn_init_socket_slot_def split: option.split)

lemma ok_claim [ok_simps]: "slots_ok d \<Longrightarrow> slots_ok (fst (claim_fd b p j d))"
  by (simp add: claim_fd_def tn_fd_alloc_def ok_simps split: option.split)

lemma ok_accept_deliver [ok_simps]: "slots_ok d \<Longrightarrow> slots_ok (fst (accept_deliver E i pcb d))"
  by (simp add: accept_deliver_def ok_simps Let_def case_prod_unfold split: option.split)

lemma ok_accept_cb [ok_simps]: "slots_ok d \<Longrightarrow> slots_ok (fst (tn_tcp_accept_cb E a pcb e d))"
  by (simp add: tn_tcp_accept_cb_def ok_simps Let_def case_prod_unfold not_le)

lemma ok_run_event [ok_simps]: "slots_ok d \<Longrightarrow> slots_ok (fst (run_event E e d))"
  by (cases e) (simp_all add: ok_simps)

lemma ok_run_events [ok_simps]: "slots_ok d \<Longrightarrow> slots_ok (run_events E es d)"
  by (induction es arbitrary: d) (simp_all add: ok_simps case_prod_unfold Let_def)

lemma ok_drain [ok_simps]: "slots_ok d \<Longrightarrow> slots_ok (tn_drain_loopback E d)"
proof -
  have "slots_ok d \<Longrightarrow> slots_ok (drain_passes E n d)" for n d
    by (induction n arbitrary: d) (simp_all add: ok_simps split: option.split)
  then show "slots_ok d \<Longrightarrow> slots_ok (tn_drain_loopback E d)" by (simp add: tn_drain_loopback_def)
qed

lemma ok_accept [ok_simps]:
  assumes "slots_ok d" "i < length (d_sockets d)"
  shows "slots_ok (fst (tn_ipc_cmd_accept E m i d))"
proof -
  have "entry_ok (hd (s_accept (slot_of d i)))" if "s_accept (slot_of d i) \<noteq> []"
    using slots_okD [OF assms] that by (cases "s_accept (slot_of d i)") (simp_all add: slot_ok_def)
  then have "entry_ok ent" if "snd (tn_accept_queue_pop_entry i d) = Some ent" for ent
    using that by (auto simp: tn_accept_queue_pop_entry_def split: if_splits)
  then show ?thesis using assms(1) by (simp add: tn_ipc_cmd_accept_def ok_simps Let_def case_prod_unfold split: option.split)
qed

lemma ok_open [ok_simps]: "slots_ok d \<Longrightarrow> slots_ok (fst (tn_ipc_cmd_open E m d))"
  by (simp add: tn_ipc_cmd_open_def register_base_def ok_simps Let_def split: option.split)

lemma ok_socket [ok_simps]: "slots_ok d \<Longrightarrow> slots_ok (fst (tn_ipc_cmd_socket E m d))"
proof -
  have "slots_ok d \<Longrightarrow> slots_ok (fst (socket_pcb E j ty pr d))" for j ty pr d
    by (simp add: socket_pcb_def ok_simps Let_def case_prod_unfold)
  then show "slots_ok d \<Longrightarrow> slots_ok (fst (tn_ipc_cmd_socket E m d))"
    by (simp add: tn_ipc_cmd_socket_def ok_simps Let_def case_prod_unfold split: option.split)
qed

lemma ok_closesocket [ok_simps]: "slots_ok d \<Longrightarrow> slots_ok (fst (tn_ipc_cmd_closesocket E m i d))"
  by (simp add: tn_ipc_cmd_closesocket_def ok_simps Let_def)

lemma ok_dup2 [ok_simps]: "slots_ok d \<Longrightarrow> slots_ok (fst (tn_ipc_cmd_dup2 E m i d))"
  by (simp add: tn_ipc_cmd_dup2_def ok_simps Let_def)

lemma ok_obtain [ok_simps]: "slots_ok d \<Longrightarrow> slots_ok (fst (tn_ipc_cmd_obtainsocket m d))"
  by (simp add: tn_ipc_cmd_obtainsocket_def ok_simps Let_def split: option.split)

lemma ok_park_slot [ok_simps]: "slots_ok d \<Longrightarrow> slots_ok (park_slot i b fd copy pid d)"
  by (simp add: park_slot_def ok_simps Let_def)

lemma ok_release [ok_simps]: "slots_ok d \<Longrightarrow> tn_ipc_cmd_releasesocket fuel m i d = Some (d1, a) \<Longrightarrow> slots_ok d1"
  by (auto simp: tn_ipc_cmd_releasesocket_def Let_def ok_simps split: if_splits dest!: unique_park_id_view)

lemma ok_connect [ok_simps]: "slots_ok d \<Longrightarrow> slots_ok (fst (tn_ipc_cmd_connect E m i d))"
  by (simp add: tn_ipc_cmd_connect_def connect_stream_def ok_simps Let_def case_prod_unfold)

lemma ok_send_loop [ok_simps]: "slots_ok d \<Longrightarrow> slots_ok (fst (send_loop E i buf iov n len pos d))"
proof (induction E i buf iov n len pos d rule: send_loop.induct)
  case (1 E i buf iov n len pos d)
  have "slots_ok (send_flush E i d1)" if "slots_ok d1" for d1
    using that by (simp add: send_flush_def Let_def ok_simps)
  then show ?case using 1 by (subst send_loop.simps) (simp add: ok_simps Let_def)
qed

lemma ok_send_stream [ok_simps]: "slots_ok d \<Longrightarrow> slots_ok (fst (tn_tcp_send_stream E m i buf iov n len fl d))"
  by (simp add: tn_tcp_send_stream_def Let_def ok_simps)

lemma ok_send [ok_simps]: "slots_ok d \<Longrightarrow> slots_ok (fst (tn_ipc_cmd_send E m i d))"
  by (simp add: tn_ipc_cmd_send_def Let_def ok_simps case_prod_unfold split: option.split)

lemma ok_sendto_udp [ok_simps]: "slots_ok d \<Longrightarrow> slots_ok (fst (sendto_udp E m pcb a len bs d))"
  by (simp add: sendto_udp_def Let_def ok_simps case_prod_unfold split: option.split sum.split)

lemma ok_sendto [ok_simps]: "slots_ok d \<Longrightarrow> slots_ok (fst (tn_ipc_cmd_sendto E m i d))"
  by (simp add: tn_ipc_cmd_sendto_def sendto_raw_def Let_def ok_simps case_prod_unfold split: option.split sum.split)

lemma ok_sendmsg_stream: "slots_ok d \<Longrightarrow> slots_ok (fst (sendmsg_stream E m i mh fl tot d))"
  by (simp add: sendmsg_stream_def ok_simps case_prod_unfold Let_def)

lemma ok_sendmsg [ok_simps]: "slots_ok d \<Longrightarrow> slots_ok (fst (tn_ipc_cmd_sendmsg E m i d))"
  by (simp add: tn_ipc_cmd_sendmsg_def ok_sendmsg_stream ok_sendmsg_raw ok_sendto_udp ok_set_reply Let_def case_prod_unfold
      split: sum.split)

lemma ok_close [ok_simps]: "slots_ok d \<Longrightarrow> slots_ok (fst (tn_ipc_cmd_close E m d))"
  by (simp add: tn_ipc_cmd_close_def ok_simps)

lemma ok_stop [ok_simps]: "slots_ok d \<Longrightarrow> slots_ok (fst (tn_ipc_cmd_stop E m d))"
  by (simp add: tn_ipc_cmd_stop_def Let_def ok_simps)

section \<open>Requests and reachable states\<close>

text \<open>The reporting and configuration handlers keep slots well-formed.\<close>

definition ext_keeps_slots :: "ext_handlers \<Rightarrow> bool" where
  "ext_keeps_slots ext = (\<forall>cmd m d. slots_ok d \<longrightarrow> slots_ok (fst (ext cmd m d)))"

lemma ok_handler:
  assumes "slots_ok d" "ext_keeps_slots ext" "handler E ext cmd m i d = Some (d1, a)"
    "needs_fd cmd \<Longrightarrow> i < length (d_sockets d)"
  shows "slots_ok d1"
proof (cases "cmd = 27")
  case True
  then show ?thesis using assms(1,3) by (auto simp: handler_def intro: ok_release)
next
  case False
  have "d1 = fst (the (handler E ext cmd m i d))" using assms(3) by simp
  moreover have "i < length (d_sockets d)" if "cmd = 5" using assms(4) that by (simp add: needs_fd_def)
  then have "slots_ok (fst (the (handler E ext cmd m i d)))"
    using False assms(1,2) by (simp add: handler_def ok_simps ext_keeps_slots_def)
  ultimately show ?thesis by simp
qed

lemma ok_handle_ipc:
  assumes "slots_ok d" "length (d_sockets d) = 64" "ext_keeps_slots ext" "tn_handle_ipc E ext m d = Some (d1, r)"
  shows "slots_ok d1"
proof (cases "m = NULL")
  case False
  let ?e = "count_call (im_cmd (d_msgs d m)) (set_reply m 0 0 d)"
  let ?slot = "tn_slot_lookup ?e (im_socket_base (d_msgs d m)) (im_args (d_msgs d m) 0)"
  have e: "slots_ok ?e" "d_sockets ?e = d_sockets d" using assms(1) by (simp_all add: ok_simps count_call_def)
  have msgs: "d_msgs (set_reply m 0 0 d) m = (d_msgs d m)\<lparr>im_result := 0, im_err_no := 0\<rparr>"
    "d_msgs ?e m = (d_msgs d m)\<lparr>im_result := 0, im_err_no := 0\<rparr>" by (simp_all add: count_call_def msgs_set_reply)
  have "slots_ok d2" if "handler E ext (im_cmd (d_msgs d m)) m (case ?slot of Some i \<Rightarrow> i | None \<Rightarrow> 0) ?e = Some (d2, a)" for d2 a
    by (rule ok_handler [OF e(1) assms(3) that]) (use lookup_SomeD(4) assms(2) e(2) in \<open>auto split: option.split\<close>)
  then show ?thesis
    using assms False unfolding tn_handle_ipc_def Let_def msgs
    by (auto simp: ok_simps msgs split: if_splits option.splits prod.splits)
qed (use assms in \<open>simp add: tn_handle_ipc_def\<close>)

lemma reach_slots_ok:
  assumes "daemon_reach E ext B d" "ext_keeps_refs ext" "ext_keeps_slots ext" "i < 64"
  shows "slot_ok (slot_of d i)" "i < length (d_sockets d)"
proof -
  have "slots_ok d"
    using assms(1)
  proof (induction rule: daemon_reach.induct)
    case (Boot d)
    then show ?case
      by (simp add: slots_ok_def tn_slot_table_init_def Let_def case_prod_unfold slot_ok_def null_slot_def list_all_iff)
  next
    case (Request d m d1 r)
    then show ?case
      using ok_handle_ipc [of d ext E m d1 r] bal_length [OF reach_balanced [OF Request.hyps(1) assms(2)]] assms(3)
      by (simp add: ok_simps)
  qed (simp_all add: ok_simps)
  moreover have "length (d_sockets d) = 64" using bal_length [OF reach_balanced [OF assms(1,2)]] .
  ultimately show "slot_ok (slot_of d i)" "i < length (d_sockets d)" using slots_okD [of d i] assms(4) by simp_all
qed

text \<open>
  C8. The queues of every slot are well-formed in every state the daemon can reach: the counters
  \<open>rx_count\<close> and \<open>accept_queue_count\<close> are the lengths of the queues, at most 8 connections wait in
  an accept queue, none of them holds more than 32 segments, and only the packet at the head of
  a receive queue has been read from.
\<close>

theorem slots_well_formed:
  assumes "daemon_reach E ext B d" "ext_keeps_refs ext" "ext_keeps_slots ext" "i < 64"
  shows "s_rx_count (slot_of d i) = length (s_rx (slot_of d i)) \<and>
     s_accept_count (slot_of d i) = length (s_accept (slot_of d i)) \<and> length (s_accept (slot_of d i)) \<le> 8 \<and>
     s_listen_backlog (slot_of d i) \<le> 8 \<and>
     (\<forall>e\<in>set (s_accept (slot_of d i)). ae_early_rx_count e = length (ae_early_rx e) \<and> length (ae_early_rx e) \<le> 32) \<and>
     (\<forall>pk\<in>set (tl (s_rx (slot_of d i))). pk_offset pk = 0)"
  using reach_slots_ok [OF assms]
  by (simp add: slot_ok_def entry_ok_def list_all_iff fresh_def TN_ACCEPT_QUEUE_MAX_def TN_MAX_RX_QUEUE_PER_SOCKET_def)

theorem slots_well_formed_witness:
  "s_rx_count (slot_of socket_daemon 0) = length (s_rx (slot_of socket_daemon 0)) \<and>
   s_accept_count (slot_of socket_daemon 0) = length (s_accept (slot_of socket_daemon 0))"
proof -
  have "ext_keeps_slots ext0" by (simp add: ext_keeps_slots_def ext0_def ok_simps)
  from slots_well_formed [OF socket_daemon_reach ext0_keeps_refs this, of 0] show ?thesis by simp
qed

end
