(* ===== verification/Stream_Props.thy ===== *)
theory Stream_Props
  imports Slot_Inv
begin

text \<open>
  Reading a stream socket.  The bytes queued on a slot form a stream; RECV hands out its
  prefixes in order, MSG_PEEK shows a prefix and takes nothing, RECVMSG consumes exactly the
  bytes it reports, and a datagram read takes exactly one datagram.
\<close>

section \<open>The stream of a slot\<close>

definition pk_rest :: "TnRxPacket \<Rightarrow> bytes" where
  "pk_rest pk = drop (pk_offset pk) (pk_p pk)"

definition stream_of :: "TnSocketSlot \<Rightarrow> bytes" where
  "stream_of s = concat (map pk_rest (s_rx s))"

lemma clip_len_bound: "clip_len n \<le> 65535"
  by (auto simp: clip_len_def)

lemma stream_head: "s_rx s = pk # pks \<Longrightarrow> stream_of s = pk_rest pk @ concat (map pk_rest pks)"
  by (simp add: stream_of_def)

lemma rx_discard_slot:
  "i < length (d_sockets d) \<Longrightarrow> slot_of (rx_discard E i d) i = rx_pop_slot (slot_of d i)"
  "j \<noteq> i \<Longrightarrow> slot_of (rx_discard E i d) j = slot_of d j" "d_msgs (rx_discard E i d) = d_msgs d"
  "d_mem (rx_discard E i d) = d_mem d" "tcp_trace p (rx_discard E i d) = tcp_trace p d"
  by (simp_all add: rx_discard_def)

text \<open>A read takes a prefix of the head packet; what remains is the rest of the stream.\<close>

lemma stream_take_spec:
  assumes "i < length (d_sockets d)" "s_rx (slot_of d i) \<noteq> []" "recv_stream_take E i buf n d = (d1, k)"
  shows "k = min n (length (pk_rest (hd (s_rx (slot_of d i)))))"
    "d_mem d1 = store_bytes (d_mem d) buf (take k (stream_of (slot_of d i)))"
    "stream_of (slot_of d1 i) = drop k (stream_of (slot_of d i))" "k \<le> length (stream_of (slot_of d i))"
    "j \<noteq> i \<Longrightarrow> slot_of d1 j = slot_of d j" "d_msgs d1 = d_msgs d" "length (d_sockets d1) = length (d_sockets d)"
    "tcp_trace q d1 = tcp_trace q d @ (if q \<noteq> NULL \<and> q = s_tcp_pcb (slot_of d i) then [TcpRecved q k] else [])"
proof -
  obtain pk pks where rx: "s_rx (slot_of d i) = pk # pks" using assms(2) by (cases "s_rx (slot_of d i)") auto
  note st = stream_head [OF rx]
  have k: "k = min n (length (pk_p pk) - pk_offset pk)"
    using assms(3) rx by (auto simp: recv_stream_take_def Let_def split: if_splits)
  then have kk: "k \<le> length (pk_rest pk)" by (simp add: pk_rest_def)
  then have tk: "take k (stream_of (slot_of d i)) = take k (drop (pk_offset pk) (pk_p pk))"
    by (simp add: st) (simp add: pk_rest_def)
  show "k = min n (length (pk_rest (hd (s_rx (slot_of d i)))))" using k rx by (simp add: pk_rest_def)
  show "k \<le> length (stream_of (slot_of d i))" using kk by (simp add: st)
  define m1 where "m1 = store_bytes (d_mem d) buf (take k (drop (pk_offset pk) (pk_p pk)))"
  define d2 where "d2 = upd_slot i (\<lambda>s. s\<lparr>s_rx := pk\<lparr>pk_offset := pk_offset pk + k\<rparr> # tl (s_rx s)\<rparr>) (d\<lparr>d_mem := m1\<rparr>)"
  define d3 where "d3 = (if s_tcp_pcb (slot_of d i) \<noteq> NULL then lwdo E (TcpRecved (s_tcp_pcb (slot_of d i)) k) d2 else d2)"
  have kmin: "k = (if length (pk_p pk) - pk_offset pk < n then length (pk_p pk) - pk_offset pk else n)" using k by auto
  have pcb: "s_tcp_pcb (slot_of d2 i) = s_tcp_pcb (slot_of d i)" using assms(1) by (simp add: d2_def)
  have "recv_stream_take E i buf n d = (if pk_offset pk + k \<ge> length (pk_p pk) then rx_discard E i d3 else d3, k)"
    unfolding recv_stream_take_def Let_def rx list.sel(1) kmin [symmetric] pbuf_copy_partial_def m1_def [symmetric]
      d2_def [symmetric] pcb d3_def [symmetric] ..
  then have d1: "d1 = (if pk_offset pk + k \<ge> length (pk_p pk) then rx_discard E i d3 else d3)" using assms(3) by simp
  have d3: "slot_of d3 i = (slot_of d i)\<lparr>s_rx := pk\<lparr>pk_offset := pk_offset pk + k\<rparr> # pks\<rparr>" "d_mem d3 = m1"
      "d_msgs d3 = d_msgs d" "length (d_sockets d3) = length (d_sockets d)" "j \<noteq> i \<Longrightarrow> slot_of d3 j = slot_of d j"
      "tcp_trace q d3 = tcp_trace q d @ (if q \<noteq> NULL \<and> q = s_tcp_pcb (slot_of d i) then [TcpRecved q k] else [])"
    using assms(1) rx by (simp_all add: d3_def d2_def)
  have pop: "slot_of d1 i = (if pk_offset pk + k \<ge> length (pk_p pk) then rx_pop_slot (slot_of d3 i) else slot_of d3 i)"
    using assms(1) d3(4) by (simp add: d1 rx_discard_slot)
  show "d_mem d1 = store_bytes (d_mem d) buf (take k (stream_of (slot_of d i)))"
    using d3(2) by (simp add: d1 rx_discard_slot tk m1_def)
  have "drop k (stream_of (slot_of d i)) = drop (pk_offset pk + k) (pk_p pk) @ concat (map pk_rest pks)"
    using kk by (simp add: st) (simp add: pk_rest_def add.commute)
  then show "stream_of (slot_of d1 i) = drop k (stream_of (slot_of d i))"
    by (simp add: pop d3(1) rx_pop_slot_def stream_of_def pk_rest_def)
  show "j \<noteq> i \<Longrightarrow> slot_of d1 j = slot_of d j" "d_msgs d1 = d_msgs d" "length (d_sockets d1) = length (d_sockets d)"
    using d3 by (simp_all add: d1 rx_discard_slot rx_discard_def)
  have "tcp_trace q d1 = tcp_trace q d3" by (simp add: d1 rx_discard_slot)
  then show "tcp_trace q d1 = tcp_trace q d @ (if q \<noteq> NULL \<and> q = s_tcp_pcb (slot_of d i) then [TcpRecved q k] else [])"
    using d3(6) by (simp only:)
qed

lemma recv_stream_run:
  assumes "i < length (d_sockets d)" "s_type (slot_of d i) = SOCK_STREAM" "s_rx (slot_of d i) \<noteq> []"
    and "im_ptrs (d_msgs d m) 0 = buf" "buf \<noteq> NULL" "im_args (d_msgs d m) 1 = len" "0 \<le> len"
    and "\<not> has_flag (im_args (d_msgs d m) 2) MSG_OOB" "\<not> has_flag (im_args (d_msgs d m) 2) MSG_PEEK"
    and "recv_stream_take E i buf (clip_len len) d = (d1, n)"
  shows "tn_ipc_cmd_recv E m i d = (set_reply m (int n) 0 d1, REPLY_NOW)"
    "load_bytes (d_mem d1) buf n = take n (stream_of (slot_of d i))"
proof -
  note spec = stream_take_spec [OF assms(1,3,10)]
  show "tn_ipc_cmd_recv E m i d = (set_reply m (int n) 0 d1, REPLY_NOW)"
    using assms by (simp add: tn_ipc_cmd_recv_def Let_def)
  have "length (take n (stream_of (slot_of d i))) = n" using spec(4) by simp
  moreover have "n \<le> 2 ^ 32" using spec(1) clip_len_bound [of len] by simp
  ultimately show "load_bytes (d_mem d1) buf n = take n (stream_of (slot_of d i))"
    using load_store_same [of "take n (stream_of (slot_of d i))" "d_mem d" buf] spec(2) by simp
qed

text \<open>
  RECV on a stream socket with queued data hands out the next bytes of the stream: the
  reply is their number, at most the requested length; the client's buffer holds exactly the
  first that many bytes of the stream, the rest of the stream stays queued, the receive window
  of the connection is credited with that number, and no other slot is touched.
\<close>

theorem recv_stream_exact:
  assumes "i < length (d_sockets d)" "s_type (slot_of d i) = SOCK_STREAM" "s_rx (slot_of d i) \<noteq> []"
    and "im_ptrs (d_msgs d m) 0 = buf" "buf \<noteq> NULL" "im_args (d_msgs d m) 1 = len" "0 \<le> len"
    and "\<not> has_flag (im_args (d_msgs d m) 2) MSG_OOB" "\<not> has_flag (im_args (d_msgs d m) 2) MSG_PEEK"
  shows "\<exists>d1 n. tn_ipc_cmd_recv E m i d = (d1, REPLY_NOW) \<and> im_result (d_msgs d1 m) = int n \<and> im_err_no (d_msgs d1 m) = 0 \<and>
     n = min (clip_len len) (length (pk_rest (hd (s_rx (slot_of d i))))) \<and>
     load_bytes (d_mem d1) buf n = take n (stream_of (slot_of d i)) \<and>
     stream_of (slot_of d1 i) = drop n (stream_of (slot_of d i)) \<and> (\<forall>j. j \<noteq> i \<longrightarrow> slot_of d1 j = slot_of d j) \<and>
     (\<forall>q. tcp_trace q d1 = tcp_trace q d @ (if q \<noteq> NULL \<and> q = s_tcp_pcb (slot_of d i) then [TcpRecved q n] else []))"
proof -
  obtain d1 n where t: "recv_stream_take E i buf (clip_len len) d = (d1, n)" by fastforce
  note spec = stream_take_spec [OF assms(1,3) t] and run = recv_stream_run [OF assms t]
  from spec run show ?thesis by (intro exI [of _ "set_reply m (int n) 0 d1"] exI [of _ n]) (simp add: msgs_set_reply)
qed

text \<open>A connected socket with two queued segments, the first of them half read, and a RECV request.\<close>

definition stream_daemon :: "int \<Rightarrow> int \<Rightarrow> TnDaemon" where
  "stream_daemon len flags = daemon0\<lparr>d_sockets := (replicate 64 null_slot)[0 := (tn_init_socket_slot 0x100 0x500 2 SOCK_STREAM 0)
       \<lparr>s_tcp_pcb := 0x7000, s_tcp_state := TCP_ESTABLISHED, s_rx_count := 2,
        s_rx := [\<lparr>pk_p = [1, 2, 3, 4], pk_offset = 1, pk_src_ip = 0, pk_src_port = 0\<rparr>,
                 \<lparr>pk_p = [5, 6], pk_offset = 0, pk_src_ip = 0, pk_src_port = 0\<rparr>]\<rparr>],
     d_msgs := (\<lambda>_. msg0\<lparr>im_ptrs := (\<lambda>_. 0x1000), im_args := (\<lambda>k. if k = 1 then len else if k = 2 then flags else 0)\<rparr>)\<rparr>"

lemma stream_daemon_simps:
  "s_type (slot_of (stream_daemon n f) 0) = SOCK_STREAM" "s_tcp_pcb (slot_of (stream_daemon n f) 0) = 0x7000"
  "s_rx (slot_of (stream_daemon n f) 0) = [\<lparr>pk_p = [1, 2, 3, 4], pk_offset = 1, pk_src_ip = 0, pk_src_port = 0\<rparr>,
                 \<lparr>pk_p = [5, 6], pk_offset = 0, pk_src_ip = 0, pk_src_port = 0\<rparr>]"
  "length (d_sockets (stream_daemon n f)) = 64" "im_ptrs (d_msgs (stream_daemon n f) m) k = 0x1000"
  "im_args (d_msgs (stream_daemon n f) m) (Suc 0) = n" "im_args (d_msgs (stream_daemon n f) m) 2 = f"
  by (simp_all add: stream_daemon_def tn_init_socket_slot_def)

theorem recv_stream_exact_witness:
  "\<exists>d1. tn_ipc_cmd_recv env0 0x900 0 (stream_daemon 2 0) = (d1, REPLY_NOW) \<and> im_result (d_msgs d1 0x900) = 2 \<and>
     load_bytes (d_mem d1) 0x1000 2 = [2, 3] \<and> stream_of (slot_of d1 0) = [4, 5, 6]"
  using recv_stream_exact [of 0 "stream_daemon 2 0" "0x900" "0x1000" 2 env0]
  by (auto simp: stream_daemon_simps has_flag_def clip_len_def stream_of_def pk_rest_def numeral_2_eq_2 [symmetric])

section \<open>Peeking\<close>

lemma recv_peek_fresh:
  assumes "list_all fresh pks" "length bs = c" "c \<le> n" "n \<le> 65535"
  shows "recv_peek h n buf pks c (store_bytes m buf bs) =
     (store_bytes m buf (bs @ take (n - c) (concat (map pk_rest pks))), c + min (n - c) (length (concat (map pk_rest pks))))"
  using assms
proof (induction pks arbitrary: c bs h)
  case (Cons pk pks)
  define k where "k = min (length (pk_p pk)) (n - c)"
  have st: "store_bytes (store_bytes m buf bs) (buf + word_of_nat c) (take k (pk_p pk)) = store_bytes m buf (bs @ take k (pk_p pk))"
    using store_bytes_append [of bs "take k (pk_p pk)" m buf] Cons.prems by (simp add: k_def)
  have "recv_peek False n buf pks (c + k) (store_bytes m buf (bs @ take k (pk_p pk))) =
      (store_bytes m buf ((bs @ take k (pk_p pk)) @ take (n - (c + k)) (concat (map pk_rest pks))),
       c + k + min (n - (c + k)) (length (concat (map pk_rest pks))))"
    using Cons.prems by (intro Cons.IH) (auto simp: k_def)
  moreover have "pk_rest pk = pk_p pk" using Cons.prems by (simp add: pk_rest_def fresh_def)
  moreover have "k = (if length (pk_p pk) < n - c then length (pk_p pk) else n - c)" by (simp add: k_def)
  ultimately show ?case
    using Cons.prems st by (auto simp: Let_def pbuf_copy_partial_def fresh_def split: if_splits)
qed simp

lemma recv_peek_queue:
  assumes "list_all fresh (tl pks)" "n \<le> 65535"
  shows "recv_peek True n buf pks 0 m =
     (store_bytes m buf (take n (concat (map pk_rest pks))), min n (length (concat (map pk_rest pks))))"
proof (cases pks)
  case (Cons pk rest)
  define k where "k = min (length (pk_rest pk)) n"
  have "k = (if length (pk_p pk) - pk_offset pk < n then length (pk_p pk) - pk_offset pk else n)"
    by (simp add: k_def pk_rest_def)
  moreover have "recv_peek False n buf rest k (store_bytes m buf (take k (pk_rest pk))) =
      (store_bytes m buf (take k (pk_rest pk) @ take (n - k) (concat (map pk_rest rest))),
       k + min (n - k) (length (concat (map pk_rest rest))))"
    using assms Cons by (intro recv_peek_fresh) (auto simp: k_def)
  ultimately show ?thesis
    by (auto simp: Cons Let_def pbuf_copy_partial_def pk_rest_def [of pk, symmetric] k_def min_def split: if_splits)
qed simp

text \<open>
  MSG_PEEK on a stream socket whose only partly read packet is the head (as in every reachable state) shows the first bytes of the stream, as many as are asked for
  and queued, across packet boundaries, and changes nothing but the client's buffer and the
  reply: a RECV that follows finds the same stream.
\<close>

theorem recv_peek_exact:
  assumes "\<forall>pk\<in>set (tl (s_rx (slot_of d i))). pk_offset pk = 0"
    and "s_type (slot_of d i) = SOCK_STREAM" "s_rx (slot_of d i) \<noteq> []"
    and "im_ptrs (d_msgs d m) 0 = buf" "buf \<noteq> NULL" "im_args (d_msgs d m) 1 = len" "0 \<le> len"
    and "\<not> has_flag (im_args (d_msgs d m) 2) MSG_OOB" "has_flag (im_args (d_msgs d m) 2) MSG_PEEK"
  shows "tn_ipc_cmd_recv E m i d =
     (set_reply m (int (min (clip_len len) (length (stream_of (slot_of d i))))) 0
        (d\<lparr>d_mem := store_bytes (d_mem d) buf (take (clip_len len) (stream_of (slot_of d i)))\<rparr>), REPLY_NOW)"
proof -
  have "list_all fresh (tl (s_rx (slot_of d i)))" using assms(1) by (simp add: list_all_iff fresh_def)
  then show ?thesis
    using assms(2-) recv_peek_queue [of "s_rx (slot_of d i)" "clip_len len" buf "d_mem d"] clip_len_bound
    by (simp add: tn_ipc_cmd_recv_def Let_def stream_of_def)
qed

theorem recv_peek_exact_witness:
  "im_result (d_msgs (fst (tn_ipc_cmd_recv env0 0x900 0 (stream_daemon 4 2))) 0x900) = 4 \<and>
   load_bytes (d_mem (fst (tn_ipc_cmd_recv env0 0x900 0 (stream_daemon 4 2)))) 0x1000 4 = [2, 3, 4, 5]"
proof -
  have "tn_ipc_cmd_recv env0 0x900 0 (stream_daemon 4 2) = (set_reply 0x900 4 0 ((stream_daemon 4 2)
      \<lparr>d_mem := store_bytes (d_mem (stream_daemon 4 2)) 0x1000 [2, 3, 4, 5]\<rparr>), REPLY_NOW)"
    using recv_peek_exact [of "stream_daemon 4 2" 0 "0x900" "0x1000" 4 env0]
    by (simp add: stream_daemon_simps has_flag_def clip_len_def stream_of_def pk_rest_def numeral_2_eq_2 [symmetric])
  moreover have "length [2, 3, 4, 5 :: u8] = 4" by simp
  ultimately show ?thesis
    using load_store_same [of "[2, 3, 4, 5]" "d_mem (stream_daemon 4 2)" "0x1000", unfolded \<open>length _ = 4\<close>] by (simp add: msgs_set_reply)
qed

section \<open>A client that reads repeatedly\<close>

text \<open>
  What any reader of a byte stream relies on: a read hands out a prefix of the stream and
  leaves the rest, and a read of a positive length from a stream that is not empty makes progress.
\<close>

fun reads :: "('n \<Rightarrow> 's \<Rightarrow> 's \<times> bytes) \<Rightarrow> 'n list \<Rightarrow> 's \<Rightarrow> 's \<times> bytes list" where
  "reads rd [] s = (s, [])"
| "reads rd (n # ns) s = (let (s1, bs) = rd n s; (s2, bss) = reads rd ns s1 in (s2, bs # bss))"

locale stream_reader =
  fixes rd :: "'n \<Rightarrow> 's \<Rightarrow> 's \<times> bytes" and str :: "'s \<Rightarrow> bytes" and live :: "'s \<Rightarrow> bool" and pos :: "'n \<Rightarrow> bool"
  assumes rd_live: "live s \<Longrightarrow> live (fst (rd n s))"
    and rd_split: "live s \<Longrightarrow> snd (rd n s) @ str (fst (rd n s)) = str s"
    and rd_progress: "live s \<Longrightarrow> pos n \<Longrightarrow> str s \<noteq> [] \<Longrightarrow> snd (rd n s) \<noteq> []"
begin

lemma reads_live: "live s \<Longrightarrow> live (fst (reads rd ns s))"
  by (induction ns arbitrary: s) (simp_all add: rd_live Let_def case_prod_unfold)

lemma reads_split: "live s \<Longrightarrow> concat (snd (reads rd ns s)) @ str (fst (reads rd ns s)) = str s"
  by (induction ns arbitrary: s) (simp_all add: rd_live rd_split Let_def case_prod_unfold)

lemma reads_all:
  assumes "live s" "list_all pos ns" "length (str s) \<le> length ns"
  shows "concat (snd (reads rd ns s)) = str s"
proof -
  have "str (fst (reads rd ns s)) = []" using assms
  proof (induction ns arbitrary: s)
    case (Cons n ns)
    let ?s1 = "fst (rd n s)"
    have sp: "snd (rd n s) @ str ?s1 = str s" using Cons.prems(1) by (rule rd_split)
    have "length (str ?s1) \<le> length ns"
    proof (cases "str s = []")
      case False
      then have "snd (rd n s) \<noteq> []" using Cons.prems by (intro rd_progress) simp_all
      then have "0 < length (snd (rd n s))" by simp
      moreover have "length (snd (rd n s)) + length (str ?s1) = length (str s)" using sp by (metis length_append)
      ultimately show ?thesis using Cons.prems(3) by (simp del: length_greater_0_conv)
    qed (use sp in simp)
    then show ?case using Cons.IH [OF rd_live [OF Cons.prems(1)]] Cons.prems by (simp add: Let_def case_prod_unfold)
  qed simp
  then show ?thesis using reads_split [OF assms(1), of ns] by simp
qed

end

text \<open>One RECV request with a buffer and a length, and the bytes its reply delivers.\<close>

definition recv_once :: "env \<Rightarrow> nat \<Rightarrow> ptr \<Rightarrow> ptr \<Rightarrow> int \<Rightarrow> TnDaemon \<Rightarrow> TnDaemon \<times> bytes" where
  "recv_once E i m buf n d =
     (let d0 = upd_msg m (\<lambda>g. g\<lparr>im_ptrs := (im_ptrs g)(0 := buf), im_args := (im_args g)(1 := n, 2 := 0)\<rparr>) d;
          (d1, act) = tn_ipc_cmd_recv E m i d0
      in (d1, if act = REPLY_NOW then load_bytes (d_mem d1) buf (nat (im_result (d_msgs d1 m))) else []))"

definition stream_live :: "nat \<Rightarrow> ptr \<Rightarrow> TnDaemon \<Rightarrow> bool" where
  "stream_live i buf d = (i < length (d_sockets d) \<and> buf \<noteq> NULL \<and> s_type (slot_of d i) = SOCK_STREAM \<and>
     list_all (\<lambda>pk. pk_rest pk \<noteq> []) (s_rx (slot_of d i)))"

lemma stream_take_live: "stream_live i buf d \<Longrightarrow> s_rx (slot_of d i) \<noteq> [] \<Longrightarrow> stream_live i buf (fst (recv_stream_take E i buf n d))"
  by (cases "s_rx (slot_of d i)")
    (auto simp: stream_live_def recv_stream_take_def rx_discard_def rx_pop_slot_def Let_def pk_rest_def)

lemma recv_empty_keeps:
  assumes "stream_live i buf d" "s_rx (slot_of d i) = []" "buf \<noteq> NULL" "im_ptrs (d_msgs d m) 0 = buf"
    "im_args (d_msgs d m) 2 = 0" "tn_ipc_cmd_recv E m i d = (d1, act)"
  shows "stream_live i buf d1" "s_rx (slot_of d1 i) = []" "act = REPLY_NOW \<Longrightarrow> im_result (d_msgs d1 m) \<le> 0"
  using assms
  by (auto simp: tn_ipc_cmd_recv_def Let_def stream_live_def recv_stream_empty_def recv_wait_def tn_slot_park_recv_def
      msgs_set_reply split: if_splits)

text \<open>RECV as a stream reader.\<close>

lemma recv_once_cases:
  assumes "stream_live i buf d"
  shows "stream_live i buf (fst (recv_once E i m buf n d))"
    "snd (recv_once E i m buf n d) @ stream_of (slot_of (fst (recv_once E i m buf n d)) i) = stream_of (slot_of d i)"
    "0 < n \<Longrightarrow> stream_of (slot_of d i) \<noteq> [] \<Longrightarrow> snd (recv_once E i m buf n d) \<noteq> []"
proof -
  define d0 where "d0 = upd_msg m (\<lambda>g. g\<lparr>im_ptrs := (im_ptrs g)(0 := buf), im_args := (im_args g)(1 := n, 2 := 0)\<rparr>) d"
  have d0: "slot_of d0 i = slot_of d i" "d_sockets d0 = d_sockets d" "im_ptrs (d_msgs d0 m) 0 = buf" "im_args (d_msgs d0 m) 1 = n"
    "im_args (d_msgs d0 m) 2 = 0" by (simp_all add: d0_def msgs_upd_msg)
  have live: "stream_live i buf d0" "buf \<noteq> NULL" "s_type (slot_of d0 i) = SOCK_STREAM" "i < length (d_sockets d0)"
    using assms by (simp_all add: stream_live_def d0(2))
  obtain d1 act where r: "tn_ipc_cmd_recv E m i d0 = (d1, act)" by force
  have once: "recv_once E i m buf n d =
      (d1, if act = REPLY_NOW then load_bytes (d_mem d1) buf (nat (im_result (d_msgs d1 m))) else [])"
    unfolding recv_once_def Let_def d0_def [symmetric] r by simp
  have "stream_live i buf d1 \<and>
      snd (recv_once E i m buf n d) @ stream_of (slot_of d1 i) = stream_of (slot_of d i) \<and>
      (0 < n \<and> stream_of (slot_of d i) \<noteq> [] \<longrightarrow> snd (recv_once E i m buf n d) \<noteq> [])"
  proof (cases "n < 0")
    case True
    then have "tn_ipc_cmd_recv E m i d0 = answer m (-1) EBADF d0" using d0 by (simp add: tn_ipc_cmd_recv_def Let_def)
    then show ?thesis using r live once True by (auto simp: d0(1) stream_live_def msgs_set_reply load_bytes_def)
  next
    case n: False
    show ?thesis
    proof (cases "s_rx (slot_of d0 i) = []")
      case True
      note k = recv_empty_keeps [OF live(1) True live(2) d0(3,5) r]
      then show ?thesis using True once by (auto simp: stream_of_def d0(1) load_bytes_def)
    next
      case False
      obtain d2 k where t: "recv_stream_take E i buf (clip_len n) d0 = (d2, k)" by force
      have fl: "\<not> has_flag (im_args (d_msgs d0 m) 2) MSG_OOB" "\<not> has_flag (im_args (d_msgs d0 m) 2) MSG_PEEK"
        by (simp_all add: d0(5) has_flag_def)
      note run = recv_stream_run [OF live(4,3) False d0(3) live(2) d0(4) _ fl t] and spec = stream_take_spec [OF live(4) False t]
      have r1: "d1 = set_reply m (int k) 0 d2" "act = REPLY_NOW" "load_bytes (d_mem d2) buf k = take k (stream_of (slot_of d0 i))"
        using run n r by simp_all
      have "snd (recv_once E i m buf n d) = take k (stream_of (slot_of d i))"
        unfolding once using r1 d0(1) by (simp add: msgs_set_reply)
      moreover have "stream_live i buf d2" using stream_take_live [OF live(1) False] t by (metis fst_conv)
      moreover have "0 < k" if "0 < n"
        using that spec(1) live(1) False by (cases "s_rx (slot_of d0 i)") (auto simp: stream_live_def clip_len_def)
      ultimately show ?thesis using r1(1) spec(3) d0(1) by (auto simp: stream_live_def)
    qed
  qed
  then show "stream_live i buf (fst (recv_once E i m buf n d))"
    "snd (recv_once E i m buf n d) @ stream_of (slot_of (fst (recv_once E i m buf n d)) i) = stream_of (slot_of d i)"
    "0 < n \<Longrightarrow> stream_of (slot_of d i) \<noteq> [] \<Longrightarrow> snd (recv_once E i m buf n d) \<noteq> []" using once by simp_all
qed

interpretation tcp_rd: stream_reader "recv_once E i m buf" "\<lambda>d. stream_of (slot_of d i)" "stream_live i buf" "\<lambda>n. 0 < n"
  for E i m buf
  by unfold_locales (simp_all add: recv_once_cases)

text \<open>
  C2. A client that issues RECV requests of any lengths on a connected socket gets the stream in
  order and without loss or duplication: the bytes of the replies, followed by what is still
  queued, are the stream as it was; and requests of positive lengths, as many as there are
  bytes, deliver all of it.
\<close>

theorem recv_sequence_exact:
  assumes "i < length (d_sockets d)" "s_type (slot_of d i) = SOCK_STREAM" "buf \<noteq> NULL"
    and "list_all (\<lambda>pk. pk_rest pk \<noteq> []) (s_rx (slot_of d i))" "reads (recv_once E i m buf) ns d = (d1, chunks)"
  shows "concat chunks @ stream_of (slot_of d1 i) = stream_of (slot_of d i) \<and>
     (list_all (\<lambda>n. 0 < n) ns \<and> length (stream_of (slot_of d i)) \<le> length ns \<longrightarrow> concat chunks = stream_of (slot_of d i))"
proof -
  have live: "stream_live i buf d" using assms by (simp add: stream_live_def)
  show ?thesis
    using tcp_rd.reads_split [OF live, of E m ns] tcp_rd.reads_all [OF live, of ns E m] assms(5) by simp
qed

theorem recv_sequence_exact_witness:
  "concat (snd (reads (recv_once env0 0 0x900 0x1000) [2, 9, 1, 1, 1] (stream_daemon 0 0))) = [2, 3, 4, 5, 6]"
  using recv_sequence_exact [of 0 "stream_daemon 0 0" "0x1000" env0 "0x900" "[2, 9, 1, 1, 1]", OF _ _ _ _ surjective_pairing]
  by (simp add: stream_daemon_simps stream_of_def pk_rest_def)

end
