(* ===== verification/Send_Props.thy ===== *)
theory Send_Props
  imports Slot_Inv Timeouts
begin

text \<open>
  Sending on a stream socket.  Whatever the send buffer of the connection accepts, lwIP is handed
  exactly the client's bytes, in order and without gap, from one buffer or from a vector, and a
  parked send goes on where it stopped.
\<close>

section \<open>The bytes of a request\<close>

text \<open>What the TCP connection \<open>p\<close> has accepted: the payloads of the writes that succeeded.\<close>

fun accepted :: "ptr \<Rightarrow> effect list \<Rightarrow> bytes" where
  "accepted p [] = []"
| "accepted p (FxCall c r # fx) =
     (case c of TcpWrite q bs \<Rightarrow> (if q = p \<and> r = ERR_OK then bs else []) | _ \<Rightarrow> []) @ accepted p fx"
| "accepted p (FxReply m # fx) = accepted p fx"
| "accepted p (FxSignal t sg # fx) = accepted p fx"

lemma accepted_append [simp]: "accepted p (fx @ fy) = accepted p fx @ accepted p fy"
  by (induction p fx rule: accepted.induct) auto

definition iov_entry :: "mem \<Rightarrow> ptr \<Rightarrow> nat \<Rightarrow> bytes" where
  "iov_entry m iov k = load_bytes m (fst (tn_tcp_iov_get m iov k)) (unat (snd (tn_tcp_iov_get m iov k)))"

definition iov_stream :: "mem \<Rightarrow> ptr \<Rightarrow> nat \<Rightarrow> bytes" where
  "iov_stream m iov n = concat (map (iov_entry m iov) [0..<n])"

definition send_data :: "mem \<Rightarrow> ptr \<Rightarrow> ptr \<Rightarrow> nat \<Rightarrow> int \<Rightarrow> bytes" where
  "send_data m buf iov n len = (if iov = NULL then load_bytes m buf (nat len) else iov_stream m iov n)"

text \<open>A vector the handlers accept: its entries are non-negative as signed lengths and sum to \<open>len\<close>.\<close>

definition iov_ok :: "mem \<Rightarrow> ptr \<Rightarrow> nat \<Rightarrow> int \<Rightarrow> bool" where
  "iov_ok m iov n len = (iov = NULL \<or>
     (list_all (\<lambda>k. snd (tn_tcp_iov_get m iov k) < 0x80000000) [0..<n] \<and> len = int (length (iov_stream m iov n))))"

lemma load_bytes_slice: "k + j \<le> n \<Longrightarrow> load_bytes m (p + word_of_nat j) k = take k (drop j (load_bytes m p n))"
  by (rule nth_equalityI) (simp_all add: load_bytes_def add.assoc)

lemma iov_stream_Suc: "iov_stream m iov (Suc k) = iov_stream m iov k @ iov_entry m iov k"
  by (simp add: iov_stream_def)

lemma iov_stream_split:
  assumes "k < n"
  obtains rest where "iov_stream m iov n = iov_stream m iov k @ iov_entry m iov k @ rest"
proof -
  have "[0..<n] = [0..<k] @ [k..<k + (n - k)]" using assms upt_add_eq_append [of 0 k "n - k"] by simp
  then have "[0..<n] = [0..<k] @ k # [Suc k..<n]" using assms by (simp add: upt_conv_Cons)
  then show ?thesis using that by (simp add: iov_stream_def)
qed

lemma signed_len: "(w::u32) < 0x80000000 \<Longrightarrow> to_LONG w = int (unat w)"
  using sint_word_of_int_small [of "uint w"] uint_ge_0 [of w] by (simp add: word_less_def del: uint_ge_0)

lemma iov_find_entry:
  assumes "iov_find m iov n pos vi vbase = Some (vi1, vbase1)" "vbase = int (length (iov_stream m iov vi))" "vbase \<le> pos"
    and "list_all (\<lambda>k. snd (tn_tcp_iov_get m iov k) < 0x80000000) [0..<n]"
  shows "vi1 < n" "vbase1 = int (length (iov_stream m iov vi1))" "vbase1 \<le> pos"
    "pos < vbase1 + int (length (iov_entry m iov vi1))"
proof -
  have "vi1 < n \<and> vbase1 = int (length (iov_stream m iov vi1)) \<and> vbase1 \<le> pos \<and>
      pos < vbase1 + int (length (iov_entry m iov vi1))"
    using assms
  proof (induction m iov n pos vi vbase rule: iov_find.induct)
    case (1 m iov n pos vi vbase)
    note ih = 1(1) and run = 1(2) and base = 1(3) and le = 1(4) and ok = 1(5)
    have vi: "vi < n" using run by (subst (asm) iov_find.simps) (simp split: if_splits)
    then have len: "to_LONG (snd (tn_tcp_iov_get m iov vi)) = int (length (iov_entry m iov vi))"
      using ok by (simp add: list_all_iff signed_len iov_entry_def)
    show ?case
    proof (cases "pos - vbase < to_LONG (snd (tn_tcp_iov_get m iov vi))")
      case True
      then have "vi1 = vi" "vbase1 = vbase" using run vi by (auto simp: iov_find.simps [of m iov n pos vi])
      then show ?thesis using vi base le len True by simp
    next
      case False
      then have "iov_find m iov n pos (vi + 1) (vbase + to_LONG (snd (tn_tcp_iov_get m iov vi))) = Some (vi1, vbase1)"
        using run vi by (subst (asm) iov_find.simps) simp
      then show ?thesis using ih [OF _ False] vi False base le len ok by (simp add: iov_stream_Suc)
    qed
  qed
  then show "vi1 < n" "vbase1 = int (length (iov_stream m iov vi1))" "vbase1 \<le> pos"
    "pos < vbase1 + int (length (iov_entry m iov vi1))" by blast+
qed

lemma iov_find_total:
  assumes "vbase = int (length (iov_stream m iov vi))" "vi \<le> n" "vbase \<le> pos" "pos < int (length (iov_stream m iov n))"
    and "list_all (\<lambda>k. snd (tn_tcp_iov_get m iov k) < 0x80000000) [0..<n]"
  shows "iov_find m iov n pos vi vbase \<noteq> None"
  using assms
proof (induction m iov n pos vi vbase rule: iov_find.induct)
  case (1 m iov n pos vi vbase)
  show ?case
  proof (cases "vi < n")
    case True
    then have "to_LONG (snd (tn_tcp_iov_get m iov vi)) = int (length (iov_entry m iov vi))"
      using 1(6) by (simp add: list_all_iff signed_len iov_entry_def)
    then show ?thesis using 1 True by (subst iov_find.simps) (auto simp: iov_stream_Suc)
  qed (use 1 in simp)
qed

section \<open>Writing\<close>

text \<open>The vector cursor of the write loop: an entry and the stream offset at which it starts.\<close>

definition cursor_ok :: "mem \<Rightarrow> ptr \<Rightarrow> nat \<Rightarrow> nat \<Rightarrow> int \<Rightarrow> int \<Rightarrow> bool" where
  "cursor_ok m iov n vi vbase pos = (iov = NULL \<or> (vi \<le> n \<and> vbase = int (length (iov_stream m iov vi)) \<and> vbase \<le> pos))"

lemma write_src_spec:
  assumes "write_src m buf iov n len pos vi vbase = Some (vi1, vbase1, src, left)"
    and "iov_ok m iov n len" "cursor_ok m iov n vi vbase pos" "0 \<le> pos" "pos < len"
  shows "cursor_ok m iov n vi1 vbase1 pos" "0 < left" "left \<le> len - pos"
    "int k \<le> left \<Longrightarrow> load_bytes m src k = take k (drop (nat pos) (send_data m buf iov n len))"
proof -
  have left: "0 < left" using write_src_left [OF assms(1,5)] .
  have "cursor_ok m iov n vi1 vbase1 pos \<and> left \<le> len - pos \<and>
      (int k \<le> left \<longrightarrow> load_bytes m src k = take k (drop (nat pos) (send_data m buf iov n len)))"
  proof (cases "iov = NULL")
    case True
    then have "src = buf + word_of_nat (nat pos)" "left = len - pos" using assms(1,4) by (simp_all add: write_src_def)
    then show ?thesis using True assms(4,5) load_bytes_slice [of k "nat pos" "nat len" m buf]
      by (auto simp: cursor_ok_def send_data_def)
  next
    case False
    have pos: "list_all (\<lambda>k. snd (tn_tcp_iov_get m iov k) < 0x80000000) [0..<n]" "len = int (length (iov_stream m iov n))"
      using assms(2) False by (simp_all add: iov_ok_def)
    obtain f: "iov_find m iov n pos vi vbase = Some (vi1, vbase1)"
      and src: "src = fst (tn_tcp_iov_get m iov vi1) + word_of_int (pos - vbase1)"
      and l: "left = to_LONG (snd (tn_tcp_iov_get m iov vi1)) - (pos - vbase1)"
      using assms(1) False by (auto simp: write_src_def Let_def split: option.splits)
    note e = iov_find_entry [OF f _ _ pos(1)]
    have c: "vbase = int (length (iov_stream m iov vi))" "vbase \<le> pos" using assms(3) False by (simp_all add: cursor_ok_def)
    note e = iov_find_entry [OF f c pos(1)]
    obtain rest where sp: "iov_stream m iov n = iov_stream m iov vi1 @ iov_entry m iov vi1 @ rest"
      using iov_stream_split [OF e(1)] .
    define j where "j = nat (pos - vbase1)"
    have j: "pos - vbase1 = int j" "nat pos = length (iov_stream m iov vi1) + j" using e by (auto simp: j_def)
    have "to_LONG (snd (tn_tcp_iov_get m iov vi1)) = int (length (iov_entry m iov vi1))"
      using pos(1) e(1) by (simp add: list_all_iff signed_len iov_entry_def)
    then have l2: "left = int (length (iov_entry m iov vi1)) - int j" using l j by simp
    have "load_bytes m src k = take k (drop j (iov_entry m iov vi1))" if "int k \<le> left"
    proof -
      have "length (iov_entry m iov vi1) = unat (snd (tn_tcp_iov_get m iov vi1))" by (simp add: iov_entry_def)
      then have "k + j \<le> unat (snd (tn_tcp_iov_get m iov vi1))" using that l2 by linarith
      then show ?thesis using load_bytes_slice [of k j "unat (snd (tn_tcp_iov_get m iov vi1))" m "fst (tn_tcp_iov_get m iov vi1)"]
        by (simp add: src j(1) iov_entry_def)
    qed
    moreover have "take k (drop (nat pos) (iov_stream m iov n)) = take k (drop j (iov_entry m iov vi1))" if "int k \<le> left"
      using that l2 by (simp add: sp j(2))
    ultimately show ?thesis using e False l2 j pos(2) sp by (auto simp: cursor_ok_def send_data_def)
  qed
  with left show "cursor_ok m iov n vi1 vbase1 pos" "0 < left" "left \<le> len - pos"
    "int k \<le> left \<Longrightarrow> load_bytes m src k = take k (drop (nat pos) (send_data m buf iov n len))" by blast+
qed

lemma write_chunk_le: "0 < left \<Longrightarrow> write_chunk left w \<le> left \<and> 0 \<le> write_chunk left w"
  using uint_ge_0 [of w] by (auto simp: write_chunk_def Let_def)

lemma cursor_mono: "cursor_ok m iov n vi vbase pos \<Longrightarrow> pos \<le> pos1 \<Longrightarrow> cursor_ok m iov n vi vbase pos1"
  by (auto simp: cursor_ok_def)

lemma take_take_drop: "a \<le> b \<Longrightarrow> take (b - a) (drop a xs) @ take (c - b) (drop b xs) = take (c - a) (drop a xs)" if "b \<le> c" for a b c
proof -
  assume "a \<le> b"
  then show ?thesis using that take_add [of "b - a" "c - b" "drop a xs"] by simp
qed

lemma write_some_spec:
  assumes "tn_tcp_write_some E pcb buf iov n len vi vbase pos d = (d1, werr, pos1)"
    and "iov_ok (d_mem d) iov n len" "cursor_ok (d_mem d) iov n vi vbase pos" "0 \<le> pos" "pos \<le> len"
  shows "pos \<le> pos1 \<and> pos1 \<le> len \<and> (werr = ERR_OK \<longleftrightarrow> pos1 = len) \<and> d_mem d1 = d_mem d \<and> d_sockets d1 = d_sockets d \<and> d_msgs d1 = d_msgs d \<and>
     replied d1 = replied d \<and> (\<forall>q. q \<noteq> pcb \<longrightarrow> tcp_trace q d1 = tcp_trace q d) \<and>
     accepted pcb (d_fx d1) = accepted pcb (d_fx d) @ take (nat pos1 - nat pos) (drop (nat pos) (send_data (d_mem d) buf iov n len))"
  using assms
proof (induction E pcb buf iov n len vi vbase pos d rule: tn_tcp_write_some.induct)
  case (1 E pcb buf iov n len vi vbase pos d)
  note ih = 1(1) and run = 1(2) and prems = 1(3-6)
  show ?case
  proof (cases "len \<le> pos \<or> tp_snd_buf (lw_tcp (d_lw d) pcb) = 0 \<or> write_src (d_mem d) buf iov n len pos vi vbase = None")
    case True
    then show ?thesis using run prems by (subst (asm) tn_tcp_write_some.simps) (auto simp: split: if_splits)
  next
    case False
    then obtain vi1 vbase1 src left where ws: "write_src (d_mem d) buf iov n len pos vi vbase = Some (vi1, vbase1, src, left)"
      by auto
    define chunk where "chunk = write_chunk left (tp_snd_buf (lw_tcp (d_lw d) pcb))"
    define bs where "bs = load_bytes (d_mem d) src (nat chunk)"
    obtain d2 r where lw: "lwcall E (TcpWrite pcb bs) d = (d2, r)" by force
    note src = write_src_spec [OF ws prems(1,2,3)]
    have lt: "pos < len" using False by simp
    have ch: "0 < chunk" "chunk \<le> left" using write_chunk_pos [OF src(2) [OF lt]] write_chunk_le [OF src(2) [OF lt]] False
      by (auto simp: chunk_def)
    have run': "(if r \<noteq> ERR_OK then (d2, r, pos) else tn_tcp_write_some E pcb buf iov n len vi1 vbase1 (pos + chunk) d2) = (d1, werr, pos1)"
      using run False by (subst (asm) tn_tcp_write_some.simps) (simp add: ws Let_def lw [unfolded bs_def chunk_def] chunk_def split: if_splits)
    have d2: "d_mem d2 = d_mem d" "d_sockets d2 = d_sockets d" "d_msgs d2 = d_msgs d" "replied d2 = replied d"
      "tcp_trace q d2 = tcp_trace q d @ (if q = pcb then [TcpWrite pcb bs] else [])" "d_fx d2 = d_fx d @ [FxCall (TcpWrite pcb bs) r]" for q
      using lw fst_conv [of d2 r] by (auto simp: lwcall_def Let_def case_prod_unfold simp del: fst_conv)
    show ?thesis
    proof (cases "r = ERR_OK")
      case True
      have le: "pos + chunk \<le> len" using ch src(3) [OF lt] by simp
      have go: "tn_tcp_write_some E pcb buf iov n len vi1 vbase1 (pos + chunk) d2 = (d1, werr, pos1)" using run' True by simp
      have bs: "bs = take (nat chunk) (drop (nat pos) (send_data (d_mem d) buf iov n len))"
        unfolding bs_def using src(4) [OF lt, of "nat chunk"] ch by simp
      have "pos + chunk \<le> pos1 \<and> pos1 \<le> len \<and> (werr = ERR_OK \<longleftrightarrow> pos1 = len) \<and> d_mem d1 = d_mem d2 \<and>
          d_sockets d1 = d_sockets d2 \<and> d_msgs d1 = d_msgs d2 \<and> replied d1 = replied d2 \<and> (\<forall>q. q \<noteq> pcb \<longrightarrow> tcp_trace q d1 = tcp_trace q d2) \<and>
          accepted pcb (d_fx d1) = accepted pcb (d_fx d2) @
            take (nat pos1 - nat (pos + chunk)) (drop (nat (pos + chunk)) (send_data (d_mem d2) buf iov n len))"
        using ih [OF _ _ ws refl refl refl chunk_def refl] lw True go lt False ch le prems d2 cursor_mono [OF src(1) [OF lt], of "pos + chunk"]
        unfolding bs_def [symmetric] by simp
      then show ?thesis
        using d2 True bs ch prems(3) take_take_drop [of "nat (pos + chunk)" "nat pos1" "nat pos" "send_data (d_mem d) buf iov n len"]
        by (auto simp: nat_add_distrib)
    next
      case r: False
      then show ?thesis using run' lt prems d2 by auto
    qed
  qed
qed

lemma cursor_start: "0 \<le> pos \<Longrightarrow> cursor_ok m iov n 0 0 pos"
  by (simp add: cursor_ok_def iov_stream_def)

text \<open>
  C3. Writing to a TCP connection hands lwIP exactly the request's bytes: from position \<open>pos\<close> up
  to the position reported, in order, whether they lie in one buffer or in a vector whose
  entries the write crosses; the write ends with ERR_OK exactly when all bytes are queued, and
  it touches no slot, message, client memory or other connection.
\<close>

theorem write_some_exact:
  assumes "tn_tcp_write_some E pcb buf iov n len 0 0 pos d = (d1, werr, pos1)" "iov_ok (d_mem d) iov n len" "0 \<le> pos" "pos \<le> len"
  shows "pos \<le> pos1 \<and> pos1 \<le> len \<and> (werr = ERR_OK \<longleftrightarrow> pos1 = len) \<and>
     accepted pcb (d_fx d1) = accepted pcb (d_fx d) @ take (nat pos1 - nat pos) (drop (nat pos) (send_data (d_mem d) buf iov n len)) \<and>
     d_mem d1 = d_mem d \<and> d_sockets d1 = d_sockets d \<and> d_msgs d1 = d_msgs d \<and> (\<forall>q. q \<noteq> pcb \<longrightarrow> tcp_trace q d1 = tcp_trace q d)"
  using write_some_spec [OF assms(1,2) cursor_start [OF assms(3)] assms(3,4)] by blast

text \<open>A vector of two entries of two and three bytes at 0x1000, and a connection that takes what it is given.\<close>

definition vector_mem :: mem where
  "vector_mem a = (if a = 0x1002 then 0x20 else if a = 0x1007 then 2 else if a = 0x100A then 0x30 else if a = 0x100F then 3
     else if a = 0x2000 then 10 else if a = 0x2001 then 11 else if a = 0x3000 then 12 else if a = 0x3001 then 13
     else if a = 0x3002 then 14 else 0)"

lemma vector_mem_ok: "iov_ok vector_mem 0x1000 2 5" "send_data vector_mem 0 0x1000 2 5 = [10, 11, 12, 13, 14]"
  by code_simp+

theorem write_some_exact_witness:
  "accepted 0x7000 (d_fx (fst (tn_tcp_write_some env0 0x7000 0 0x1000 2 5 0 0 1 (daemon0\<lparr>d_mem := vector_mem\<rparr>)))) = [11, 12, 13, 14]"
proof -
  let ?r = "tn_tcp_write_some env0 0x7000 0 0x1000 2 5 0 0 1 (daemon0\<lparr>d_mem := vector_mem\<rparr>)"
  have "snd (snd ?r) = 5" by code_simp
  moreover have "?r = (fst ?r, fst (snd ?r), snd (snd ?r))" by simp
  ultimately show ?thesis using write_some_exact [of env0 "0x7000" 0 "0x1000" 2 5 1 "daemon0\<lparr>d_mem := vector_mem\<rparr>" "fst ?r" "fst (snd ?r)" 5] vector_mem_ok
    by simp
qed

section \<open>Parked sends\<close>


definition parked_daemon :: TnDaemon where
  "parked_daemon = daemon0\<lparr>d_mem := vector_mem,
     d_sockets := (replicate 64 null_slot)[0 := (tn_init_socket_slot 0x100 0x500 2 SOCK_STREAM 0)\<lparr>s_tcp_pcb := 0x7000,
       s_tcp_state := TCP_ESTABLISHED, s_pending_send_msg := 0x900, s_send_done := 1, s_send_iov := 0x1000, s_send_iovcnt := 2\<rparr>],
     d_msgs := (\<lambda>_. msg0\<lparr>im_args := (\<lambda>k. if k = 1 then 5 else 0)\<rparr>)\<rparr>"

lemma parked_daemon_simps:
  "length (d_sockets parked_daemon) = 64" "s_pending_send_msg (slot_of parked_daemon 0) = 0x900" "\<not> s_shut_wr (slot_of parked_daemon 0)"
  "s_tcp_pcb (slot_of parked_daemon 0) = 0x7000" "im_args (d_msgs parked_daemon 0x900) (Suc 0) = 5" "im_ptrs (d_msgs parked_daemon 0x900) 0 = 0"
  "s_send_done (slot_of parked_daemon 0) = 1" "d_mem parked_daemon = vector_mem" "s_send_iov (slot_of parked_daemon 0) = 0x1000"
  "s_send_iovcnt (slot_of parked_daemon 0) = 2" "d_fx parked_daemon = []"
  by (simp_all add: parked_daemon_def tn_init_socket_slot_def msg0_def)

lemma parked_daemon_done: "s_pending_send_msg (slot_of (tn_tcp_resume_send env0 0 parked_daemon) 0) = 0"
  "im_result (d_msgs (tn_tcp_resume_send env0 0 parked_daemon) 0x900) = 5"
  by code_simp+


end
