(* ===== verification/Sockopt_Props.thy ===== *)
theory Sockopt_Props
  imports Slot_Inv Timeouts Select_Props
begin

text \<open>
  Socket options.  What SETSOCKOPT accepts, GETSOCKOPT reports; a refused request changes nothing;
  a listening control block, which has no connection part, is never written as if it had one; and
  the maximum segment size of a connection is only ever lowered.
\<close>

section \<open>Control blocks of a slot\<close>

lemma opts_simps [simp]:
  "d_lw (upd_opts i f d) = d_lw d" "d_mem (upd_opts i f d) = d_mem d" "d_msgs (upd_opts i f d) = d_msgs d"
  "d_mcast_joins (upd_opts i f d) = d_mcast_joins d" "length (d_sockets (upd_opts i f d)) = length (d_sockets d)"
  "i < length (d_sockets d) \<Longrightarrow> slot_of (upd_opts i f d) i = (slot_of d i)\<lparr>s_opts := f (s_opts (slot_of d i))\<rparr>"
  "j \<noteq> i \<Longrightarrow> slot_of (upd_opts i f d) j = slot_of d j"
  by (simp_all add: upd_opts_def)

lemma with_simps [simp]:
  "d_sockets (with_tcp i f d) = d_sockets d" "d_sockets (with_udp i g d) = d_sockets d" "d_sockets (with_raw i h d) = d_sockets d"
  "d_sockets (with_conn_tcp i f d) = d_sockets d"
  "d_mem (with_tcp i f d) = d_mem d" "d_mem (with_udp i g d) = d_mem d" "d_mem (with_raw i h d) = d_mem d" "d_mem (with_conn_tcp i f d) = d_mem d"
  "d_msgs (with_tcp i f d) = d_msgs d" "d_msgs (with_udp i g d) = d_msgs d" "d_msgs (with_raw i h d) = d_msgs d"
  "d_msgs (with_conn_tcp i f d) = d_msgs d"
  by (simp_all add: with_tcp_def with_udp_def with_raw_def with_conn_tcp_def)

lemma with_lw:
  "lw_tcp (d_lw (with_tcp i f d)) p = (if p \<noteq> NULL \<and> p = s_tcp_pcb (slot_of d i) then f (lw_tcp (d_lw d) p) else lw_tcp (d_lw d) p)"
  "lw_tcp (d_lw (with_udp i g d)) = lw_tcp (d_lw d)" "lw_tcp (d_lw (with_raw i h d)) = lw_tcp (d_lw d)"
  "lw_tcp (d_lw (with_conn_tcp i f d)) p = (if s_tcp_state (slot_of d i) \<noteq> TCP_LISTENING \<and> p \<noteq> NULL \<and> p = s_tcp_pcb (slot_of d i)
     then f (lw_tcp (d_lw d) p) else lw_tcp (d_lw d) p)"
  "lw_raw (d_lw (with_tcp i f d)) = lw_raw (d_lw d)" "lw_raw (d_lw (with_udp i g d)) = lw_raw (d_lw d)"
  "lw_raw (d_lw (with_raw i h d)) q = (if q \<noteq> NULL \<and> q = s_raw_pcb (slot_of d i) then h (lw_raw (d_lw d) q) else lw_raw (d_lw d) q)"
  by (simp_all add: with_tcp_def with_udp_def with_raw_def with_conn_tcp_def upd_tcp_def upd_udp_def upd_raw_def)

lemmas set_opt_defs = set_socket_opt_def set_tcp_opt_def set_ip_opt_def

section \<open>What an option reads as\<close>

text \<open>The value GETSOCKOPT reports for an option.\<close>

definition sock_option :: "TnDaemon \<Rightarrow> nat \<Rightarrow> int \<Rightarrow> int \<Rightarrow> u32 \<Rightarrow> opt_value" where
  "sock_option d i level optname olen =
     (if level = SOL_SOCKET then get_socket_opt (slot_of d i) optname olen
      else if level = IPPROTO_TCP then get_tcp_opt (d_lw d) (slot_of d i) optname
      else if level = IPPROTO_IP then get_ip_opt (d_lw d) (slot_of d i) optname else OptErr EINVAL)"

text \<open>The integer options that can be set, with the value an accepted \<open>v\<close> reads back as.\<close>

definition opt_norm :: "int \<Rightarrow> int \<Rightarrow> int \<Rightarrow> int option" where
  "opt_norm level optname v =
     (let flag = (if v \<noteq> 0 then 1 else 0) in
      if level = SOL_SOCKET then
        (if optname = SO_BROADCAST \<or> optname = SO_KEEPALIVE \<or> optname = SO_REUSEADDR \<or> optname = SO_OOBINLINE then Some flag
         else if optname = SO_SNDBUF then Some (if v \<noteq> 0 then v else TCP_SND_BUF)
         else if optname = SO_RCVBUF then Some (if v \<noteq> 0 then v else TCP_WND) else None)
      else if level = IPPROTO_TCP then
        (if optname = TCP_NODELAY then Some flag
         else if optname = TCP_MAXSEG \<or> optname = TCP_KEEPIDLE \<or> optname = TCP_KEEPINTVL \<or> optname = TCP_KEEPCNT then Some v else None)
      else if level = IPPROTO_IP then
        (if optname = IP_TOS \<or> optname = IP_TTL \<or> optname = IP_MULTICAST_TTL then Some (v mod 256)
         else if optname = IP_MULTICAST_LOOP \<or> optname = IP_HDRINCL then Some flag else None)
      else None)"

lemma keep_secs_exact:
  assumes "keep_secs_ok v" "v < 2 ^ 31"
  shows "to_LONG (to_ULONG v * 1000 div 1000) = v"
proof -
  have v: "0 < v" "uint (to_ULONG v) = v" using assms by (auto simp: keep_secs_ok_def uint_word_of_int_eq take_bit_int_eq_self)
  then have "v \<le> 4294967" using assms(1) by (simp add: keep_secs_ok_def word_le_def)
  then have "uint (to_ULONG v * 1000) = v * 1000" using v by (simp add: uint_mult_lem [THEN iffD1])
  then have "to_ULONG v * 1000 div 1000 = to_ULONG v" using v by (simp add: word_uint_eq_iff uint_div)
  then show ?thesis using sint_word_of_int_small [of v] v(1) assms(2) by simp
qed

lemma mss_limit_le: "mss_limit l s \<le> 65535"
  using uint_bounded [of "tp_mss (lw_tcp l (s_tcp_pcb s))"] uint_bounded [of "opt_mss (s_opts s)"]
  by (simp add: mss_limit_def TCP_MSS_def)

lemma set_bits_read [simp]: "set_bits on 2 (v::u8) AND 2 = (if on then 2 else 0)"
proof -
  have "(v OR 2) AND 2 = (2::u8)" "(v AND NOT 2) AND 2 = (0::u8)" by (rule bit_eqI; auto simp: bit_simps)+
  then show ?thesis by (simp add: set_bits_def)
qed

definition set_option :: "env \<Rightarrow> TnDaemon \<Rightarrow> nat \<Rightarrow> int \<Rightarrow> int \<Rightarrow> ptr \<Rightarrow> int \<Rightarrow> TnDaemon \<times> int" where
  "set_option E d i level optname optval optlen =
     (if level = SOL_SOCKET then set_socket_opt i optname optval optlen d
      else if level = IPPROTO_TCP then set_tcp_opt i optname optval optlen d
      else if level = IPPROTO_IP then set_ip_opt E i optname optval optlen d else (d, EINVAL))"

lemma setsockopt_run:
  assumes "im_ptrs (d_msgs d m) 0 = optval" "optval \<noteq> NULL" "im_args (d_msgs d m) 1 = level" "im_args (d_msgs d m) 2 = optname"
    "im_args (d_msgs d m) 3 = optlen" "set_option E d i level optname optval optlen = (d1, e)"
  shows "tn_ipc_cmd_setsockopt E m i d = answer m (if e = 0 then 0 else -1) e d1"
  using assms(2,6) unfolding tn_ipc_cmd_setsockopt_def Let_def assms(1,3,4,5) set_option_def [of E d i level optname optval optlen, symmetric]
  by simp

lemma load_opt_int_bound: "tn_load_opt_int m p < 2 ^ 31"
  using sint_lt [of "load_u32 m p"] by (simp add: tn_load_opt_int_def)

lemma set_socket_value:
  assumes "i < length (d_sockets d)" "4 \<le> optlen" "opt_norm SOL_SOCKET optname (tn_load_opt_int (d_mem d) optval) = Some w"
    and "set_socket_opt i optname optval optlen d = (d1, 0)"
  shows "get_socket_opt (slot_of d1 i) optname olen = OptInt w"
  using assms
  by (auto simp: opt_norm_def Let_def set_socket_opt_def get_socket_opt_def split: if_splits)

lemma set_tcp_value:
  assumes "i < length (d_sockets d)" "4 \<le> optlen" "opt_norm IPPROTO_TCP optname (tn_load_opt_int (d_mem d) optval) = Some w"
    and "set_tcp_opt i optname optval optlen d = (d1, 0)"
    and "optname = TCP_MAXSEG \<longrightarrow> s_tcp_state (slot_of d i) = TCP_LISTENING \<or> s_tcp_pcb (slot_of d i) \<noteq> NULL"
  shows "get_tcp_opt (d_lw d1) (slot_of d1 i) optname = OptInt w"
proof -
  define v where "v = tn_load_opt_int (d_mem d) optval"
  have v: "v < 2 ^ 31" using load_opt_int_bound by (simp add: v_def)
  have mss: "uint (word_of_int v :: u16) = v" "(word_of_int v :: u16) \<noteq> 0" if "1 \<le> v" "v \<le> mss_limit (d_lw d) (slot_of d i)"
  proof -
    have "v \<le> 65535" using that mss_limit_le [of "d_lw d" "slot_of d i"] by simp
    then show "uint (word_of_int v :: u16) = v" using that by (simp add: uint_word_of_int_eq take_bit_int_eq_self)
    then show "(word_of_int v :: u16) \<noteq> 0" using that by auto
  qed
  have cnt: "to_LONG (to_ULONG v) = v" if "0 < v" using that v sint_word_of_int_small [of v] by simp
  show ?thesis
    using assms keep_secs_exact [OF _ v] mss cnt
    by (auto simp: opt_norm_def Let_def set_tcp_opt_def get_tcp_opt_def with_lw v_def [symmetric] not_less split: if_splits)
qed

lemma set_ip_value:
  assumes "i < length (d_sockets d)" "4 \<le> optlen" "opt_norm IPPROTO_IP optname (tn_load_opt_int (d_mem d) optval) = Some w"
    and "set_ip_opt E i optname optval optlen d = (d1, 0)"
  shows "get_ip_opt (d_lw d1) (slot_of d1 i) optname = OptInt w"
  using assms
  by (auto simp: opt_norm_def Let_def set_ip_opt_def get_ip_opt_def with_lw uint_word_of_int_eq take_bit_eq_mod split: if_splits)

lemma sock_option_reply [simp]: "sock_option (set_reply m r e d) i level optname olen = sock_option d i level optname olen"
  by (simp add: sock_option_def)

lemma getsockopt_int:
  assumes "im_ptrs (d_msgs d g) 0 = optval" "optval \<noteq> NULL" "im_ptrs (d_msgs d g) 1 = optlen" "optlen \<noteq> NULL"
    and "im_args (d_msgs d g) 1 = level" "im_args (d_msgs d g) 2 = optname"
    and "load_u32 (d_mem d) optlen = olen" "4 \<le> olen" "sock_option d i level optname olen = OptInt w" "far4 optlen optval"
    and "tn_ipc_cmd_getsockopt g i d = (d1, act)"
  shows "act = REPLY_NOW" "im_result (d_msgs d1 g) = 0" "im_err_no (d_msgs d1 g) = 0" "load_u32 (d_mem d1) optval = to_ULONG w"
    "load_u32 (d_mem d1) optlen = 4"
proof -
  define v where "v = sock_option d i level optname olen"
  have v: "v = OptInt w" using assms(9) by (simp add: v_def)
  define m1 where "m1 = store_u32 (store_u32 (d_mem d) optval (to_ULONG w)) optlen 4"
  define d0 where "d0 = d\<lparr>d_mem := store_u32 (store_bytes (d_mem d) optval (opt_bytes v)) optlen (word_of_nat (length (opt_bytes v)))\<rparr>"
  define d2 where "d2 = (if level = SOL_SOCKET \<and> optname = SO_ERROR then upd_slot i (\<lambda>s. s\<lparr>s_last_error := 0\<rparr>) d0 else d0)"
  have "tn_ipc_cmd_getsockopt g i d = (case v of OptErr e \<Rightarrow> answer g (-1) e d
        | _ \<Rightarrow> if olen < word_of_nat (length (opt_bytes v)) then answer g (-1) EINVAL d
            else answer g 0 0 d2)"
    using assms(2,4) unfolding tn_ipc_cmd_getsockopt_def Let_def assms(1,3,5,6,7) d2_def d0_def v_def sock_option_def by simp
  then have "tn_ipc_cmd_getsockopt g i d = answer g 0 0 d2" using assms(8) by (simp add: v opt_bytes_def)
  moreover have "d_mem d2 = m1" by (simp add: d2_def d0_def v opt_bytes_def m1_def store_u32_def)
  moreover have "load_u32 m1 optval = to_ULONG w" "load_u32 m1 optlen = 4"
    using load_store_far [OF assms(10)] by (simp_all add: m1_def)
  ultimately show "act = REPLY_NOW" "im_result (d_msgs d1 g) = 0" "im_err_no (d_msgs d1 g) = 0" "load_u32 (d_mem d1) optval = to_ULONG w"
    "load_u32 (d_mem d1) optlen = 4" using assms(11) by (auto simp: msgs_set_reply)
qed

lemma set_option_frame:
  assumes "set_option E d i level optname optval optlen = (d1, e)"
  shows "d_mem d1 = d_mem d" "d_msgs d1 = d_msgs d" "length (d_sockets d1) = length (d_sockets d)"
  using assms
  by (auto simp: set_option_def set_opt_defs Let_def set_rcvtimeo_def set_sndtimeo_def add_membership_def drop_membership_def
      case_prod_unfold split: if_splits option.splits)

section \<open>Properties\<close>


text \<open>A stream socket in state \<open>st\<close>, a SETSOCKOPT request of a one-byte integer and the GETSOCKOPT for it.\<close>

definition sockopt_daemon :: "TnTcpState \<Rightarrow> int \<Rightarrow> int \<Rightarrow> u8 \<Rightarrow> TnDaemon" where
  "sockopt_daemon st level optname v = daemon0\<lparr>
     d_sockets := (replicate 64 null_slot)[0 := (tn_init_socket_slot 0x100 0x500 2 SOCK_STREAM 0)\<lparr>s_tcp_pcb := 0x7000, s_tcp_state := st\<rparr>],
     d_mem := (\<lambda>a. if a = 0x1003 then v else if a = 0x2003 then 4 else 0),
     d_msgs := (\<lambda>_. msg0\<lparr>im_args := (\<lambda>k. if k = 1 then level else if k = 2 then optname else 4), im_ptrs := (\<lambda>_. 0x1000)\<rparr>)
       (0x904 := msg0\<lparr>im_args := (\<lambda>k. if k = 1 then level else optname), im_ptrs := (\<lambda>k. if k = 0 then 0x3000 else 0x2000)\<rparr>)\<rparr>"

lemma sockopt_daemon_simps:
  "length (d_sockets (sockopt_daemon st l n v)) = 64" "s_tcp_state (slot_of (sockopt_daemon st l n v) 0) = st"
  "s_tcp_pcb (slot_of (sockopt_daemon st l n v) 0) = 0x7000" "d_lw (sockopt_daemon st l n v) = lwip0"
  "im_args (d_msgs (sockopt_daemon st l n v) 0x900) (Suc 0) = l" "im_args (d_msgs (sockopt_daemon st l n v) 0x900) 2 = n"
  "im_args (d_msgs (sockopt_daemon st l n v) 0x900) 3 = 4" "im_ptrs (d_msgs (sockopt_daemon st l n v) 0x900) 0 = 0x1000"
  "im_args (d_msgs (sockopt_daemon st l n v) 0x904) (Suc 0) = l" "im_args (d_msgs (sockopt_daemon st l n v) 0x904) 2 = n"
  "im_ptrs (d_msgs (sockopt_daemon st l n v) 0x904) 0 = 0x3000" "im_ptrs (d_msgs (sockopt_daemon st l n v) 0x904) (Suc 0) = 0x2000"
  by (simp_all add: sockopt_daemon_def tn_init_socket_slot_def daemon0_def)


text \<open>
  C22. A refused SETSOCKOPT changes nothing: when the reply is -1, no slot, no membership record
  and, at the socket and TCP levels, no lwIP control block differs from before.
\<close>

theorem setsockopt_refused:
  assumes "tn_ipc_cmd_setsockopt E m i d = (d1, act)" "im_result (d_msgs d1 m) \<noteq> 0"
  shows "im_result (d_msgs d1 m) = -1 \<and> im_err_no (d_msgs d1 m) \<noteq> 0 \<and> d_sockets d1 = d_sockets d \<and> d_mcast_joins d1 = d_mcast_joins d \<and>
     (im_args (d_msgs d m) 1 \<noteq> IPPROTO_IP \<longrightarrow> d_lw d1 = d_lw d)"
proof (cases "im_ptrs (d_msgs d m) 0 = NULL")
  case False
  obtain ds e where so: "set_option E d i (im_args (d_msgs d m) 1) (im_args (d_msgs d m) 2) (im_ptrs (d_msgs d m) 0) (im_args (d_msgs d m) 3) = (ds, e)"
    by force
  have d1: "d1 = set_reply m (if e = 0 then 0 else -1) e ds" using setsockopt_run [OF refl False refl refl refl so] assms(1) by simp
  then have e: "e \<noteq> 0" using assms(2) by (auto simp: msgs_set_reply)
  have "d_sockets ds = d_sockets d \<and> d_mcast_joins ds = d_mcast_joins d \<and> (im_args (d_msgs d m) 1 \<noteq> IPPROTO_IP \<longrightarrow> d_lw ds = d_lw d)"
    using so e by (auto simp: set_option_def set_opt_defs Let_def add_membership_def drop_membership_def case_prod_unfold
        split: if_splits option.splits)
  then show ?thesis using e by (simp add: d1 msgs_set_reply)
qed (use assms in \<open>auto simp: tn_ipc_cmd_setsockopt_def Let_def msgs_set_reply\<close>)

theorem setsockopt_refused_witness:
  "d_sockets (fst (tn_ipc_cmd_setsockopt env0 0x900 0 (sockopt_daemon TCP_ESTABLISHED 6 99 30))) =
     d_sockets (sockopt_daemon TCP_ESTABLISHED 6 99 30)"
proof -
  have "im_result (d_msgs (fst (tn_ipc_cmd_setsockopt env0 0x900 0 (sockopt_daemon TCP_ESTABLISHED 6 99 30))) 0x900) \<noteq> 0" by code_simp
  then show ?thesis using setsockopt_refused [OF surjective_pairing] by blast
qed

text \<open>
  SETSOCKOPT at the TCP level never writes the control block of a listening socket, which
  lwIP allocates without the connection fields these options live in: it only records the
  option for the connections that will be accepted.
\<close>

theorem setsockopt_listener_safe:
  assumes "s_tcp_state (slot_of d i) = TCP_LISTENING" "i < length (d_sockets d)" "im_args (d_msgs d m) 1 = IPPROTO_TCP"
    and "tn_ipc_cmd_setsockopt E m i d = (d1, act)"
  shows "d_lw d1 = d_lw d \<and> (\<exists>os. slot_of d1 i = (slot_of d i)\<lparr>s_opts := os\<rparr>) \<and> (\<forall>j. j \<noteq> i \<longrightarrow> slot_of d1 j = slot_of d j)"
proof (cases "im_ptrs (d_msgs d m) 0 = NULL")
  case False
  obtain ds e where so: "set_option E d i (im_args (d_msgs d m) 1) (im_args (d_msgs d m) 2) (im_ptrs (d_msgs d m) 0) (im_args (d_msgs d m) 3) = (ds, e)"
    by force
  have d1: "d1 = set_reply m (if e = 0 then 0 else -1) e ds" using setsockopt_run [OF refl False refl refl refl so] assms(4) by simp
  have id: "\<exists>os. s = s\<lparr>s_opts := os\<rparr>" for s :: TnSocketSlot by (intro exI [of _ "s_opts s"]) simp
  have "d_lw ds = d_lw d \<and> (\<exists>os. slot_of ds i = (slot_of d i)\<lparr>s_opts := os\<rparr>) \<and> (\<forall>j. j \<noteq> i \<longrightarrow> slot_of ds j = slot_of d j)"
    using so assms(1,2,3) by (auto simp: set_option_def set_tcp_opt_def Let_def with_conn_tcp_def id split: if_splits)
  then show ?thesis by (simp add: d1)
qed (use assms in \<open>auto simp: tn_ipc_cmd_setsockopt_def Let_def intro: exI [of _ "s_opts (slot_of d i)"]\<close>)

theorem setsockopt_listener_safe_witness:
  "d_lw (fst (tn_ipc_cmd_setsockopt env0 0x900 0 (sockopt_daemon TCP_LISTENING 6 3 30))) = lwip0"
  using setsockopt_listener_safe [of "sockopt_daemon TCP_LISTENING 6 3 30" 0 "0x900" env0, OF _ _ _ surjective_pairing]
  by (simp add: sockopt_daemon_simps)

text \<open>
  TCP_MAXSEG only lowers the segment size of a live connection: whatever TCP-level option is
  set, the size lwIP uses for the connection afterwards is between 1 and the size negotiated
  before, provided that was not 0, and no other connection is affected.
\<close>

theorem setsockopt_mss_lowered:
  assumes "s_tcp_state (slot_of d i) = TCP_ESTABLISHED \<or> s_tcp_state (slot_of d i) = TCP_PEER_CLOSED" "i < length (d_sockets d)"
    and "s_tcp_pcb (slot_of d i) = pcb" "pcb \<noteq> NULL" "0 < tp_mss (lw_tcp (d_lw d) pcb)" "im_args (d_msgs d m) 1 = IPPROTO_TCP"
    and "tn_ipc_cmd_setsockopt E m i d = (d1, act)"
  shows "0 < tp_mss (lw_tcp (d_lw d1) pcb) \<and> tp_mss (lw_tcp (d_lw d1) pcb) \<le> tp_mss (lw_tcp (d_lw d) pcb) \<and>
     (\<forall>q. q \<noteq> pcb \<longrightarrow> lw_tcp (d_lw d1) q = lw_tcp (d_lw d) q)"
proof (cases "im_ptrs (d_msgs d m) 0 = NULL")
  case False
  define v where "v = tn_load_opt_int (d_mem d) (im_ptrs (d_msgs d m) 0)"
  obtain ds e where so: "set_option E d i (im_args (d_msgs d m) 1) (im_args (d_msgs d m) 2) (im_ptrs (d_msgs d m) 0) (im_args (d_msgs d m) 3) = (ds, e)"
    by force
  have d1: "d1 = set_reply m (if e = 0 then 0 else -1) e ds" using setsockopt_run [OF refl False refl refl refl so] assms(7) by simp
  have lim: "mss_limit (d_lw d) (slot_of d i) = uint (tp_mss (lw_tcp (d_lw d) pcb))" using assms(1,3,4) by (simp add: mss_limit_def)
  have mss: "0 < (word_of_int v :: u16) \<and> word_of_int v \<le> tp_mss (lw_tcp (d_lw d) pcb)"
    if "\<not> v < 1" "\<not> uint (tp_mss (lw_tcp (d_lw d) pcb)) < v"
  proof -
    have "uint (word_of_int v :: u16) = v" using that uint_bounded [of "tp_mss (lw_tcp (d_lw d) pcb)"]
      by (simp add: uint_word_of_int_eq take_bit_int_eq_self)
    then show ?thesis using that by (simp add: word_le_def word_less_def)
  qed
  have "0 < tp_mss (lw_tcp (d_lw ds) pcb) \<and> tp_mss (lw_tcp (d_lw ds) pcb) \<le> tp_mss (lw_tcp (d_lw d) pcb) \<and>
     (\<forall>q. q \<noteq> pcb \<longrightarrow> lw_tcp (d_lw ds) q = lw_tcp (d_lw d) q)"
    using so assms(1-6) lim mss
    by (auto simp: set_option_def set_tcp_opt_def Let_def with_lw v_def [symmetric] simp del: not_less split: if_splits)
  then show ?thesis by (simp add: d1)
qed (use assms in \<open>auto simp: tn_ipc_cmd_setsockopt_def Let_def\<close>)

theorem setsockopt_mss_lowered_witness:
  "tp_mss (lw_tcp (d_lw (fst (tn_ipc_cmd_setsockopt env0 0x900 0 (sockopt_daemon TCP_ESTABLISHED 6 2 200)))) 0x7000) \<le> 1460"
  using setsockopt_mss_lowered [of "sockopt_daemon TCP_ESTABLISHED 6 2 200" 0 "0x7000" "0x900" env0, OF _ _ _ _ _ _ surjective_pairing]
  by (simp add: sockopt_daemon_simps lwip0_def)

end
