(* ===== verification/Error_Props.thy ===== *)
theory Error_Props
  imports Slot_Inv Select_Props
begin

text \<open>
  Error paths of connections.  When lwIP reports the end of a connection, every request parked on
  its socket is answered exactly once: nothing is left hanging.
\<close>

section \<open>What notifications and receives leave alone\<close>

text \<open>Notifying the owner of a slot can only clear a stale owner.\<close>

definition slot_core :: "TnSocketSlot \<Rightarrow> TnSocketSlot" where
  "slot_core s = s\<lparr>s_owner_base := NULL, s_owner_task := NULL\<rparr>"

lemma core_record [simp]: "slot_core (slot_of (tn_record_socket_event i ev d) j) = slot_core (slot_of d j)"
  by (cases "i < length (d_sockets d)"; cases "j = i")
    (simp_all add: tn_record_socket_event_def Let_def slot_core_def upd_slot_def list_update_beyond)

lemma core_signal [simp]: "slot_core (slot_of (tn_signal_socket i d) j) = slot_core (slot_of d j)"
proof -
  have "slot_core (slot_of (signal_sigio i d) j) = slot_core (slot_of d j)"
    by (cases "i < length (d_sockets d)"; cases "j = i")
      (simp_all add: signal_sigio_def Let_def slot_core_def upd_slot_def list_update_beyond)
  then show ?thesis by (simp add: tn_signal_socket_def Let_def)
qed

lemma length_signal [simp]: "length (d_sockets (tn_signal_socket i d)) = length (d_sockets d)"
    "length (d_sockets (tn_record_socket_event i ev d)) = length (d_sockets d)"
  by (simp_all add: tn_signal_socket_def signal_sigio_def tn_record_socket_event_def Let_def)

lemma replied_signal [simp]: "replied (tn_signal_socket i d) = replied d" "replied (tn_record_socket_event i ev d) = replied d"
proof -
  have "replied (fold (signal_selector i) ks d) = replied d" for ks d
    by (induction ks arbitrary: d)
      (simp_all add: signal_selector_def Let_def Signal_def disarm_selector_def tn_selector_count_resync_def)
  then show "replied (tn_signal_socket i d) = replied d" by (simp add: tn_signal_socket_def signal_sigio_def Let_def Signal_def)
  show "replied (tn_record_socket_event i ev d) = replied d"
    by (simp add: tn_record_socket_event_def Let_def Signal_def)
qed

text \<open>Two states that agree on slot \<open>i\<close> up to its owner.\<close>

lemma core_fields:
  assumes "slot_core s = slot_core t"
  shows "s_pending_recv_msg s = s_pending_recv_msg t" "s_pending_send_msg s = s_pending_send_msg t"
    "s_pending_connect_msg s = s_pending_connect_msg t" "s_pending_accept_msg s = s_pending_accept_msg t"
    "s_tcp_state s = s_tcp_state t" "s_tcp_pcb s = s_tcp_pcb t" "s_type s = s_type t" "s_rx s = s_rx t" "s_shut_rd s = s_shut_rd t"
    "s_send_done s = s_send_done t" "s_in_use s = s_in_use t" "s_last_error s = s_last_error t"
  using assms by (cases s; cases t; simp add: slot_core_def)+

text \<open>A receive handler answers the message itself, through its return value, and parks nothing but itself.\<close>

definition parked_others :: "TnSocketSlot \<Rightarrow> ptr \<times> ptr \<times> ptr \<times> ptr" where
  "parked_others s = (s_pending_connect_msg s, s_pending_accept_msg s, s_pending_send_msg s, s_tcp_pcb s)"

definition recv_keeps :: "nat \<Rightarrow> TnDaemon \<Rightarrow> TnDaemon \<Rightarrow> bool" where
  "recv_keeps i d d1 = (replied d1 = replied d \<and> length (d_sockets d1) = length (d_sockets d) \<and>
     parked_others (slot_of d1 i) = parked_others (slot_of d i))"

lemma recv_keeps_refl [simp]: "recv_keeps i d d"
  by (simp add: recv_keeps_def)

lemma recv_keeps_trans: "recv_keeps i d d1 \<Longrightarrow> recv_keeps i d1 d2 \<Longrightarrow> recv_keeps i d d2"
  by (simp add: recv_keeps_def)

lemma keeps_upd [simp]:
  "(\<And>s. parked_others (f s) = parked_others s) \<Longrightarrow> recv_keeps i d (upd_slot i f d0) = recv_keeps i d d0"
  by (cases "i < length (d_sockets d0)") (simp_all add: recv_keeps_def upd_slot_def list_update_beyond)

lemma keeps_simps [simp]:
  "recv_keeps i d (d0\<lparr>d_mem := mm\<rparr>) = recv_keeps i d d0" "recv_keeps i d (set_reply m r e d0) = recv_keeps i d d0"
  "recv_keeps i d (lwdo E c d0) = recv_keeps i d d0" "recv_keeps i d (lwdos E cs d0) = recv_keeps i d d0"
  "recv_keeps i d (tn_rxpkt_put E d0) = recv_keeps i d d0"
  by (simp_all add: recv_keeps_def)

lemma keeps_discard [simp]: "recv_keeps i d (rx_discard E i d0) = recv_keeps i d d0"
  by (simp add: rx_discard_def parked_others_def rx_pop_slot_def)

lemma keeps_wait [simp]: "recv_keeps i d (fst (recv_wait i m fl d0)) = recv_keeps i d d0"
  by (simp add: recv_wait_def tn_slot_park_recv_def Let_def parked_others_def)

lemma keeps_recv: "recv_keeps i d (fst (tn_ipc_cmd_recv E m i d))"
  by (simp add: tn_ipc_cmd_recv_def Let_def recv_stream_take_def recv_stream_empty_def recv_dgram_take_def parked_others_def case_prod_unfold)

lemma keeps_recvfrom: "recv_keeps i d (fst (tn_ipc_cmd_recvfrom E m i d))"
  using keeps_recv [of i d E m] by (simp add: tn_ipc_cmd_recvfrom_def Let_def recvfrom_take_def case_prod_unfold)

lemma keeps_consume: "recv_keeps i d d0 \<Longrightarrow> recv_keeps i d (fst (recvmsg_consume E i pks iov n sp cur ioff tot d0))"
proof (induction pks arbitrary: cur ioff tot d0)
  case (Cons pk pks)
  then show ?case by (simp add: Let_def case_prod_unfold parked_others_def rx_pop_slot_def)
qed simp

lemma keeps_recvmsg: "recv_keeps i d (fst (tn_ipc_cmd_recvmsg E m i d))"
  by (simp add: tn_ipc_cmd_recvmsg_def Let_def recvmsg_stream_def recvmsg_dgram_def parked_others_def rx_pop_slot_def keeps_consume
      case_prod_unfold split: option.split)

text \<open>On a connection that ended, no receive handler waits.\<close>

lemma ended_recv_replies:
  assumes "s_type (slot_of d i) = SOCK_STREAM" "s_tcp_state (slot_of d i) = TCP_ERROR \<or> s_tcp_state (slot_of d i) = TCP_PEER_CLOSED"
  shows "snd (tn_ipc_cmd_recv E m i d) = REPLY_NOW" "snd (tn_ipc_cmd_recvfrom E m i d) = REPLY_NOW" "snd (tn_ipc_cmd_recvmsg E m i d) = REPLY_NOW"
proof -
  show r: "snd (tn_ipc_cmd_recv E m i d) = REPLY_NOW" for m
    using assms by (auto simp: tn_ipc_cmd_recv_def Let_def recv_stream_empty_def case_prod_unfold)
  show "snd (tn_ipc_cmd_recvfrom E m i d) = REPLY_NOW"
    using assms r [of m] by (simp add: tn_ipc_cmd_recvfrom_def Let_def case_prod_unfold)
  show "snd (tn_ipc_cmd_recvmsg E m i d) = REPLY_NOW"
    using assms by (auto simp: tn_ipc_cmd_recvmsg_def Let_def recvmsg_stream_def case_prod_unfold split: option.split)
qed

lemma ended_service:
  assumes "s_type (slot_of d i) = SOCK_STREAM" "s_tcp_state (slot_of d i) = TCP_ERROR \<or> s_tcp_state (slot_of d i) = TCP_PEER_CLOSED"
    and "i < length (d_sockets d)"
  shows "s_pending_recv_msg (slot_of (tn_service_pending_recv E i d) i) = NULL"
    "replied (tn_service_pending_recv E i d) = replied d @ filter (\<lambda>m. m \<noteq> NULL) [s_pending_recv_msg (slot_of d i)]"
    "parked_others (slot_of (tn_service_pending_recv E i d) i) = parked_others (slot_of d i)"
proof -
  let ?m = "s_pending_recv_msg (slot_of d i)"
  obtain d1 act where run: "run_recv E ?m i d = (d1, act)" by force
  have "recv_keeps i d d1"
    using run keeps_recv [of i d E ?m] keeps_recvfrom [of i d E ?m] keeps_recvmsg [of i d E ?m]
    by (auto simp: run_recv_def Let_def recv_keeps_def split: if_splits)
  moreover have "act = REPLY_NOW"
    using run ended_recv_replies [OF assms(1,2), of E ?m] by (auto simp: run_recv_def Let_def split: if_splits)
  ultimately show "s_pending_recv_msg (slot_of (tn_service_pending_recv E i d) i) = NULL"
    "replied (tn_service_pending_recv E i d) = replied d @ filter (\<lambda>m. m \<noteq> NULL) [s_pending_recv_msg (slot_of d i)]"
    "parked_others (slot_of (tn_service_pending_recv E i d) i) = parked_others (slot_of d i)"
    using run assms(3) by (auto simp: tn_service_pending_recv_def Let_def ReplyMsg_def recv_keeps_def parked_others_def)
qed

section \<open>The error callback\<close>

lemma reply_send_parked:
  assumes "i < length (d_sockets d)"
  shows "s_pending_send_msg (slot_of (tn_slot_reply_send i e True d) i) = NULL"
    "replied (tn_slot_reply_send i e True d) = replied d @ filter (\<lambda>m. m \<noteq> NULL) [s_pending_send_msg (slot_of d i)]"
    "s_pending_recv_msg (slot_of (tn_slot_reply_send i e True d) i) = s_pending_recv_msg (slot_of d i)"
    "s_pending_connect_msg (slot_of (tn_slot_reply_send i e True d) i) = s_pending_connect_msg (slot_of d i)"
    "s_tcp_pcb (slot_of (tn_slot_reply_send i e True d) i) = s_tcp_pcb (slot_of d i)"
    "s_tcp_state (slot_of (tn_slot_reply_send i e True d) i) = s_tcp_state (slot_of d i)"
    "s_type (slot_of (tn_slot_reply_send i e True d) i) = s_type (slot_of d i)"
    "length (d_sockets (tn_slot_reply_send i e True d)) = length (d_sockets d)"
  using assms by (auto simp: tn_slot_reply_send_def Let_def ReplyMsg_def)

text \<open>The end of every error path: answer the parked send, then run the parked receive.\<close>

lemma finish_parked:
  assumes "i < length (d_sockets d)" "s_type (slot_of d i) = SOCK_STREAM"
    and "s_tcp_state (slot_of d i) = TCP_ERROR \<or> s_tcp_state (slot_of d i) = TCP_PEER_CLOSED"
    and "d1 = tn_slot_reply_send i e True d"
    and "d2 = (if s_pending_recv_msg (slot_of d1 i) \<noteq> NULL then tn_service_pending_recv E i d1 else d1)"
  shows "s_pending_send_msg (slot_of d2 i) = NULL \<and> s_pending_recv_msg (slot_of d2 i) = NULL \<and>
     s_pending_connect_msg (slot_of d2 i) = s_pending_connect_msg (slot_of d i) \<and> s_tcp_pcb (slot_of d2 i) = s_tcp_pcb (slot_of d i) \<and>
     replied d2 = replied d @ filter (\<lambda>m. m \<noteq> NULL) [s_pending_send_msg (slot_of d i), s_pending_recv_msg (slot_of d i)]"
proof -
  note r = reply_send_parked [OF assms(1), of e, folded assms(4)]
  have st: "s_type (slot_of d1 i) = SOCK_STREAM" "s_tcp_state (slot_of d1 i) = TCP_ERROR \<or> s_tcp_state (slot_of d1 i) = TCP_PEER_CLOSED"
    "i < length (d_sockets d1)" using assms(1-3) r by simp_all
  note sv = ended_service [OF st, of E]
  show ?thesis using r sv by (auto simp: assms(5) parked_others_def)
qed

text \<open>
  C5. When lwIP reports that a connection has ended, the socket is detached from it and every
  request parked on the socket is answered exactly once, in the order connect, send, receive: no
  client is left waiting.  (A blocked connect is only possible while connecting; a clean close
  of an established connection leaves that field alone.)
\<close>

theorem err_cb_answers_all:
  assumes "slot_idx_ok arg" "i = nat arg" "i < length (d_sockets d)" "s_in_use (slot_of d i)" "s_type (slot_of d i) = SOCK_STREAM"
    and "clean = (err = ERR_CLSD \<and> s_tcp_state (slot_of d i) \<noteq> TCP_CONNECTING)" "d1 = tn_tcp_err_cb E arg err d"
  shows "s_tcp_pcb (slot_of d1 i) = NULL \<and> s_pending_send_msg (slot_of d1 i) = NULL \<and> s_pending_recv_msg (slot_of d1 i) = NULL \<and>
     s_pending_connect_msg (slot_of d1 i) = (if clean then s_pending_connect_msg (slot_of d i) else NULL) \<and>
     replied d1 = replied d @ filter (\<lambda>m. m \<noteq> NULL) [if clean then NULL else s_pending_connect_msg (slot_of d i),
       s_pending_send_msg (slot_of d i), s_pending_recv_msg (slot_of d i)]"
proof (cases clean)
  case True
  define d0 where "d0 = tn_record_socket_event i FD_CLOSE (tn_signal_socket i
      (upd_slot i (\<lambda>s. s\<lparr>s_tcp_state := TCP_PEER_CLOSED, s_last_error := 0\<rparr>) (upd_slot i (\<lambda>s. s\<lparr>s_tcp_pcb := NULL\<rparr>) d)))"
  have "slot_core (slot_of d0 i) = slot_core ((slot_of d i)\<lparr>s_tcp_pcb := NULL, s_tcp_state := TCP_PEER_CLOSED, s_last_error := 0\<rparr>)"
    using assms(3) by (simp add: d0_def)
  note c = core_fields [OF this]
  have len: "i < length (d_sockets d0)" using assms(3) by (simp add: d0_def)
  have rep: "replied d0 = replied d" by (simp add: d0_def)
  have "d1 = (if s_pending_recv_msg (slot_of (tn_slot_reply_send i EPIPE True d0) i) \<noteq> NULL
      then tn_service_pending_recv E i (tn_slot_reply_send i EPIPE True d0) else tn_slot_reply_send i EPIPE True d0)"
    using True assms(1-4,6) unfolding assms(7) tn_tcp_err_cb_def Let_def d0_def by simp
  from finish_parked [OF len _ _ refl this] show ?thesis using c rep assms(5) True by simp
next
  case False
  have guard: "(err = ERR_CLSD \<and> s_tcp_state (slot_of d i) \<noteq> TCP_CONNECTING) = False" "(\<not> slot_idx_ok arg \<or> \<not> s_in_use (slot_of d i)) = False"
    using False assms(1,4,6) by simp_all
  define eno where "eno = tcp_err_errno (s_tcp_state (slot_of d i)) err"
  define da where "da = tn_record_socket_event i FD_ERROR (tn_signal_socket i
      (upd_slot i (\<lambda>s. s\<lparr>s_tcp_state := TCP_ERROR, s_last_error := eno\<rparr>) (upd_slot i (\<lambda>s. s\<lparr>s_tcp_pcb := NULL\<rparr>) d)))"
  define d0 where "d0 = (if s_pending_connect_msg (slot_of da i) \<noteq> NULL
      then upd_slot i (\<lambda>s. s\<lparr>s_last_error := 0\<rparr>) (reply_connect i (-1) eno da) else da)"
  have "slot_core (slot_of da i) = slot_core ((slot_of d i)\<lparr>s_tcp_pcb := NULL, s_tcp_state := TCP_ERROR, s_last_error := eno\<rparr>)"
    using assms(3) by (simp add: da_def)
  note c = core_fields [OF this]
  have len: "i < length (d_sockets da)" and rep: "replied da = replied d" using assms(3) by (simp_all add: da_def)
  have d0: "i < length (d_sockets d0)" "s_type (slot_of d0 i) = SOCK_STREAM" "s_tcp_state (slot_of d0 i) = TCP_ERROR"
    "s_tcp_pcb (slot_of d0 i) = NULL" "s_pending_connect_msg (slot_of d0 i) = NULL"
    "s_pending_send_msg (slot_of d0 i) = s_pending_send_msg (slot_of d i)" "s_pending_recv_msg (slot_of d0 i) = s_pending_recv_msg (slot_of d i)"
    "replied d0 = replied d @ filter (\<lambda>m. m \<noteq> NULL) [s_pending_connect_msg (slot_of d i)]"
    using len c rep assms(5) by (simp_all add: d0_def reply_connect_def Let_def ReplyMsg_def)
  have "d1 = (if s_pending_recv_msg (slot_of (tn_slot_reply_send i eno True d0) i) \<noteq> NULL
      then tn_service_pending_recv E i (tn_slot_reply_send i eno True d0) else tn_slot_reply_send i eno True d0)"
    unfolding assms(7) tn_tcp_err_cb_def Let_def assms(2) [symmetric] guard if_False d0_def da_def eno_def ..
  from finish_parked [OF d0(1,2) _ refl this] show ?thesis using d0 False by simp
qed

definition broken_daemon :: TnDaemon where
  "broken_daemon = daemon0\<lparr>d_sockets := (replicate 64 null_slot)[0 := (tn_init_socket_slot 0x100 0x500 2 SOCK_STREAM 0)
     \<lparr>s_tcp_pcb := 0x7000, s_tcp_state := TCP_ESTABLISHED, s_pending_send_msg := 0x900, s_pending_recv_msg := 0x904\<rparr>]\<rparr>"

theorem err_cb_answers_all_witness:
  "replied (tn_tcp_err_cb env0 0 ERR_ABRT broken_daemon) = [0x900, 0x904]"
  using err_cb_answers_all [of 0 0 broken_daemon False ERR_ABRT _ env0, OF _ _ _ _ _ _ refl]
  by (simp add: broken_daemon_def slot_idx_ok_def TN_MAX_GLOBAL_SOCKETS_def tn_init_socket_slot_def)

end
