(* ===== verification/Report_Props.thy ===== *)
theory Report_Props
  imports Slot_Inv
begin

text \<open>
  The reports a client asks for: ENUMSOCKETS and ROUTECTL LIST.  Their loops write one record after
  the other; the reference is the concatenation of the records of the used entries, cut off at
  the capacity the client gave.
\<close>

section \<open>Arrays of records\<close>

text \<open>Appending a record of \<open>w\<close> bytes to \<open>c\<close> records already written.\<close>

lemma store_record:
  assumes "\<forall>r\<in>set (rs @ [r]). length r = w" "w * length (rs @ [r]) \<le> 2 ^ 32"
  shows "store_bytes (store_bytes m out (concat rs)) (out + word_of_int (int w * int (length rs))) r =
     store_bytes m out (concat (rs @ [r]))"
proof -
  have len: "length (concat qs) = w * length qs" if "\<forall>q\<in>set qs. length q = w" for qs :: "bytes list"
    using that by (induction qs) simp_all
  have l: "length (concat rs) = w * length rs" "length r = w" using len [of rs] assms(1) by simp_all
  then have "length (concat rs) + length r \<le> 2 ^ 32" using assms(2) by simp
  from store_bytes_append [OF this, of m out] l(1) show ?thesis by simp
qed

lemma enum_loop_spec:
  assumes "\<forall>s. length (enc s) = w" "length recs = c" "\<forall>r\<in>set recs. length r = w" "int c \<le> cap" "w * (c + length ss) \<le> 2 ^ 32"
  shows "enum_loop enc (int w) out cap ss (int c) (store_bytes m out (concat recs)) =
     (store_bytes m out (concat (recs @ map enc (take (nat cap - c) (filter s_in_use ss)))),
      int (c + length (take (nat cap - c) (filter s_in_use ss))))"
  using assms
proof (induction ss arbitrary: c recs)
  case (Cons s ss)
  show ?case
  proof (cases "int c < cap \<and> s_in_use s")
    case True
    then obtain k where k: "nat cap - c = Suc k" "nat cap - Suc c = k" by (metis Suc_diff_Suc zless_nat_eq_int_zless)
    have "enum_loop enc (int w) out cap ss (int (Suc c)) (store_bytes m out (concat (recs @ [enc s]))) =
        (store_bytes m out (concat ((recs @ [enc s]) @ map enc (take k (filter s_in_use ss)))),
         int (Suc c + length (take k (filter s_in_use ss))))"
      using Cons.IH [of "recs @ [enc s]" "Suc c"] Cons.prems True k(2) by (simp add: algebra_simps)
    moreover have "store_bytes (store_bytes m out (concat recs)) (out + word_of_int (int w * int c)) (enc s) =
        store_bytes m out (concat (recs @ [enc s]))"
    proof -
      have "w * length (recs @ [enc s]) \<le> w * (c + length (s # ss))" using Cons.prems(2) by (intro mult_le_mono2) simp
      then have "w * length (recs @ [enc s]) \<le> 2 ^ 32" using Cons.prems(5) by (rule le_trans)
      then show ?thesis using store_record [of recs "enc s" w m out] Cons.prems by simp
    qed
    ultimately show ?thesis using True k(1) by (simp add: add.commute)
  next
    case False
    then show ?thesis
    proof (cases "int c < cap")
      case True
      then show ?thesis using False Cons.IH [of recs c] Cons.prems by (simp add: algebra_simps)
    qed (use Cons.prems in simp)
  qed
qed simp

lemma length_info [simp]: "length (info_v2_bytes l s) = 50" "length (info_v1_bytes l s) = 22"
  by (simp_all add: info_v2_bytes_def info_v1_bytes_def Let_def)

text \<open>
  C23. ENUMSOCKETS reports exactly the sockets in use, in slot order and as many as the client has
  room for: the reply is their number, and the client's buffer holds their records, of 50 or 22
  bytes as the request's entry size says, one after the other and nothing behind them.
\<close>

theorem enumsockets_exact:
  assumes "im_ptrs (d_msgs d m) 0 = out" "out \<noteq> NULL" "im_args (d_msgs d m) 0 = cap" "0 < cap" "length (d_sockets d) = 64"
    and "enc = (if im_args (d_msgs d m) 2 = 50 then info_v2_bytes (d_lw d) else info_v1_bytes (d_lw d))"
    and "live = take (nat cap) (filter s_in_use (d_sockets d))"
  shows "tn_ipc_cmd_enumsockets m d =
     answer m (int (length live)) 0 (d\<lparr>d_mem := store_bytes (d_mem d) out (concat (map enc live))\<rparr>)"
proof -
  have "enum_loop enc' (int w) out cap (d_sockets d) 0 (d_mem d) =
      (store_bytes (d_mem d) out (concat (map enc' live)), int (length live))" if "\<forall>s. length (enc' s) = w" "w \<le> 50" for enc' w
    using enum_loop_spec [of enc' w "[]" 0 cap "d_sockets d" out "d_mem d"] that assms(4,5,7) by simp
  from this [of "info_v2_bytes (d_lw d)" 50] this [of "info_v1_bytes (d_lw d)" 22] show ?thesis
    using assms(2,4,6) by (simp add: tn_ipc_cmd_enumsockets_def Let_def assms(1,3))
qed

definition enum_daemon :: TnDaemon where
  "enum_daemon = daemon0\<lparr>d_sockets := (replicate 64 null_slot)[0 := tn_init_socket_slot 0x100 0x500 2 SOCK_STREAM 0,
       3 := tn_init_socket_slot 0x100 0x500 2 SOCK_DGRAM 0],
     d_msgs := (\<lambda>_. msg0\<lparr>im_args := (\<lambda>k. if k = 0 then 10 else 0), im_ptrs := (\<lambda>_. 0x1000)\<rparr>)\<rparr>"

theorem enumsockets_exact_witness:
  "im_result (d_msgs (fst (tn_ipc_cmd_enumsockets 0x900 enum_daemon)) 0x900) = 2"
proof -
  have "length (take (nat 10) (filter s_in_use (d_sockets enum_daemon))) = 2" by code_simp
  then show ?thesis
    using enumsockets_exact [OF _ _ _ _ _ refl refl, of enum_daemon "0x900" "0x1000" 10] by (simp add: enum_daemon_def msgs_set_reply)
qed

section \<open>Routes\<close>

lemma length_route_info [simp]: "length (route_info_bytes r) = 16"
  by (simp add: route_info_bytes_def)

lemma route_list_spec:
  assumes "length recs = c" "\<forall>r\<in>set recs. length r = 16" "int c \<le> cap" "16 * (c + length idxs) \<le> 2 ^ 32"
    and "used = List.map_filter (\<lambda>i. tn_route_at rs (int i)) idxs"
  shows "route_list rs out cap idxs (int c) (store_bytes m out (concat recs)) =
     (store_bytes m out (concat (recs @ map route_info_bytes (take (nat cap - c) used))), int (c + length (take (nat cap - c) used)))"
  using assms
proof (induction idxs arbitrary: c recs used)
  case Nil
  then show ?case by (simp add: List.map_filter_def)
next
  case (Cons i idxs)
  show ?case
  proof (cases "int c < cap")
    case lt: True
    show ?thesis
    proof (cases "tn_route_at rs (int i)")
      case None
      then show ?thesis using lt Cons.IH [of recs c used] Cons.prems by (simp add: List.map_filter_def)
    next
      case (Some r)
      obtain k where k: "nat cap - c = Suc k" "nat cap - Suc c = k" using lt by (metis Suc_diff_Suc zless_nat_eq_int_zless)
      have used: "used = r # List.map_filter (\<lambda>i. tn_route_at rs (int i)) idxs" using Some Cons.prems(5) by (simp add: List.map_filter_def)
      have "16 * length (recs @ [route_info_bytes r]) \<le> 2 ^ 32" using Cons.prems(1,4) by simp
      then have "store_bytes (store_bytes m out (concat recs)) (out + word_of_int (16 * int c)) (route_info_bytes r) =
          store_bytes m out (concat (recs @ [route_info_bytes r]))"
        using store_record [of recs "route_info_bytes r" 16 m out] Cons.prems(1,2) by simp
      moreover have "route_list rs out cap idxs (int (Suc c)) (store_bytes m out (concat (recs @ [route_info_bytes r]))) =
          (store_bytes m out (concat ((recs @ [route_info_bytes r]) @ map route_info_bytes (take k (List.map_filter (\<lambda>i. tn_route_at rs (int i)) idxs)))),
           int (Suc c + length (take k (List.map_filter (\<lambda>i. tn_route_at rs (int i)) idxs))))"
        using Cons.IH [of "recs @ [route_info_bytes r]" "Suc c", OF _ _ _ _ refl] Cons.prems(1-4) lt k(2) by simp
      ultimately show ?thesis using lt Some k(1) by (simp add: used add.commute)
    qed
  qed (use Cons.prems in simp)
qed

lemma map_filter_agree: "(\<And>x. x \<in> set xs \<Longrightarrow> f x = g x) \<Longrightarrow> List.map_filter f xs = List.map_filter g xs"
  by (induction xs) (simp_all add: List.map_filter_def)

lemma used_routes: "List.map_filter (\<lambda>i. tn_route_at rs (int i)) [0..<length rs] = filter rt_in_use rs"
proof (induction rs rule: rev_induct)
  case (snoc r rs)
  have "List.map_filter (\<lambda>i. tn_route_at (rs @ [r]) (int i)) [0..<length rs] = List.map_filter (\<lambda>i. tn_route_at rs (int i)) [0..<length rs]"
    by (intro map_filter_agree) (simp add: tn_route_at_def nth_append)
  then show ?case using snoc by (simp add: List.map_filter_def tn_route_at_def nth_append)
qed (simp add: List.map_filter_def)

text \<open>
  ROUTECTL LIST reports exactly the routes in use, in table order and as many as the client
  has room for, one 16-byte record after the other, and leaves the table alone.
\<close>

theorem routectl_list_exact:
  assumes "im_args (d_msgs d m) 0 = 0" "im_ptrs (d_msgs d m) 0 = out" "out \<noteq> NULL" "im_args (d_msgs d m) 4 = cap" "0 < cap"
    and "length (d_routes d) = TN_MAX_ROUTES" "used = take (nat cap) (filter rt_in_use (d_routes d))"
  shows "tn_ipc_cmd_routectl m d =
     answer m (int (length used)) 0 (d\<lparr>d_mem := store_bytes (d_mem d) out (concat (map route_info_bytes used))\<rparr>)"
  using route_list_spec [of "[]" 0 cap "[0..<TN_MAX_ROUTES]", OF _ _ _ _ refl, of "d_routes d" out "d_mem d"] assms
    used_routes [of "d_routes d"] by (simp add: tn_ipc_cmd_routectl_def Let_def TN_MAX_ROUTES_def)

definition route_daemon :: TnDaemon where
  "route_daemon = daemon0\<lparr>d_routes := (replicate 16 \<lparr>rt_dest = 0, rt_mask = 0, rt_gw = 0, rt_in_use = False\<rparr>)
       [2 := \<lparr>rt_dest = 0x0A000000, rt_mask = 0xFF000000, rt_gw = 0xC0A80001, rt_in_use = True\<rparr>],
     d_msgs := (\<lambda>_. msg0\<lparr>im_args := (\<lambda>k. if k = 4 then 3 else 0), im_ptrs := (\<lambda>_. 0x1000)\<rparr>)\<rparr>"

theorem routectl_list_exact_witness:
  "im_result (d_msgs (fst (tn_ipc_cmd_routectl 0x900 route_daemon)) 0x900) = 1"
proof -
  have "length (take (nat 3) (filter rt_in_use (d_routes route_daemon))) = 1" by code_simp
  then show ?thesis
    using routectl_list_exact [OF _ _ _ _ _ _ refl, of route_daemon "0x900" "0x1000" 3]
    by (simp add: route_daemon_def msgs_set_reply TN_MAX_ROUTES_def)
qed

end
