(* ===== verification/Request_Props.thy ===== *)
theory Request_Props
  imports Error_Props
begin

text \<open>
  Requests as a whole: what the dispatcher refuses, how deferred name lookups are answered, how a
  queued connection is handed over, and two cases in which a request is answered wrongly or not at all.
\<close>

section \<open>Dispatch\<close>

text \<open>The errno with which the dispatcher itself refuses a request, if it does.\<close>

definition refusal :: "TnDaemon \<Rightarrow> TnIpcMsg \<Rightarrow> int option" where
  "refusal d g =
     (if im_cmd g < 0 \<or> im_cmd g \<ge> TN_IPC_CMDS \<or> \<not> has_handler (im_cmd g) then Some ENOSYS
      else if needs_base (im_cmd g) \<and> im_socket_base g = NULL then Some EINVAL
      else if needs_fd (im_cmd g) \<and> tn_slot_lookup d (im_socket_base g) (im_args g 0) = None then Some EBADF
      else None)"

lemma count_call_lookup: "tn_slot_lookup (count_call c d) b fd = tn_slot_lookup d b fd"
  by (simp add: tn_slot_lookup_def count_call_def Let_def)

lemma set_reply_lookup: "tn_slot_lookup (set_reply m r e d) b fd = tn_slot_lookup d b fd"
  by (simp add: tn_slot_lookup_def Let_def)

lemma dispatch_refusal:
  assumes "m \<noteq> NULL" "refusal d (d_msgs d m) = Some e"
  obtains d0 where "tn_handle_ipc E ext m d = Some (set_reply m (-1) e d0, True)"
    "d0 = set_reply m 0 0 d \<or> d0 = count_call (im_cmd (d_msgs d m)) (set_reply m 0 0 d)"
proof -
  have msg: "d_msgs (set_reply m 0 0 d) m = (d_msgs d m)\<lparr>im_result := 0, im_err_no := 0\<rparr>"
    "d_msgs (count_call c (set_reply m 0 0 d)) m = (d_msgs d m)\<lparr>im_result := 0, im_err_no := 0\<rparr>" for c
    by (simp_all add: msgs_set_reply count_call_def)
  have "\<exists>d0. (d0 = set_reply m 0 0 d \<or> d0 = count_call (im_cmd (d_msgs d m)) (set_reply m 0 0 d)) \<and>
      tn_handle_ipc E ext m d = Some (set_reply m (-1) e d0, True)"
    using assms unfolding tn_handle_ipc_def Let_def msg refusal_def
    by (auto simp: count_call_lookup set_reply_lookup split: if_splits)
  then show ?thesis using that by blast
qed

text \<open>
  C24. The dispatcher refuses a request before any handler runs: an unknown or unassigned command
  with ENOSYS, a command of an opener without a base with EINVAL, and a command on a descriptor
  that names no socket of its base with EBADF.  The client is answered with -1 at once, and
  sockets, openers, routes, client memory, lwIP and the other messages are untouched.
\<close>

theorem dispatch_refuses:
  assumes "m \<noteq> NULL" "refusal d (d_msgs d m) = Some e"
  shows "\<exists>d1. tn_handle_ipc E ext m d = Some (d1, True) \<and> im_result (d_msgs d1 m) = -1 \<and> im_err_no (d_msgs d1 m) = e \<and>
     d_sockets d1 = d_sockets d \<and> d_bases d1 = d_bases d \<and> d_routes d1 = d_routes d \<and> d_mem d1 = d_mem d \<and> d_lw d1 = d_lw d \<and>
     d_fx d1 = d_fx d \<and> (\<forall>p. p \<noteq> m \<longrightarrow> d_msgs d1 p = d_msgs d p)"
proof -
  obtain d0 where "tn_handle_ipc E ext m d = Some (set_reply m (-1) e d0, True)"
    "d0 = set_reply m 0 0 d \<or> d0 = count_call (im_cmd (d_msgs d m)) (set_reply m 0 0 d)"
    using dispatch_refusal [OF assms] by blast
  then show ?thesis by (auto simp: msgs_set_reply count_call_def)
qed

theorem dispatch_refuses_witness:
  "\<exists>d1. tn_handle_ipc env0 ext0 0x20 (daemon0\<lparr>d_msgs := (\<lambda>_. msg0\<lparr>im_cmd := 10\<rparr>)\<rparr>) = Some (d1, True) \<and> im_err_no (d_msgs d1 0x20) = EBADF"
proof -
  have "refusal (daemon0\<lparr>d_msgs := (\<lambda>_. msg0\<lparr>im_cmd := 10\<rparr>)\<rparr>) (msg0\<lparr>im_cmd := 10\<rparr>) = Some EBADF" by code_simp
  then show ?thesis using dispatch_refuses [of "0x20" "daemon0\<lparr>d_msgs := (\<lambda>_. msg0\<lparr>im_cmd := 10\<rparr>)\<rparr>" EBADF env0 ext0] by auto
qed

section \<open>Name lookups\<close>

text \<open>A deferred lookup that a resolver answer for \<open>name\<close> to message \<open>m\<close> belongs to.\<close>

definition dns_match :: "bytes option \<Rightarrow> ptr \<Rightarrow> TnDnsPending \<Rightarrow> bool" where
  "dns_match name m r = (dp_in_use r \<and> dp_imsg r = m \<and> tn_dns_name_matches (dp_name r) name)"

lemma drop_record_simps [simp]:
  "d_fx (dns_drop_record p d) = d_fx d" "d_msgs (dns_drop_record p d) = d_msgs d" "d_sockets (dns_drop_record p d) = d_sockets d"
  "d_bases (dns_drop_record p d) = d_bases d" "length (d_dns_pending (dns_drop_record p d)) = length (d_dns_pending d)"
  by (simp_all add: dns_drop_record_def)

definition dns_cleared :: "TnDnsPending \<Rightarrow> TnDnsPending" where
  "dns_cleared r = r\<lparr>dp_in_use := False, dp_imsg := NULL, dp_base := NULL\<rparr>"


text \<open>A lookup of \<open>ab\<close> by the first opener, deferred.\<close>

definition dns_daemon :: TnDaemon where
  "dns_daemon = daemon0\<lparr>d_dns_pending := (d_dns_pending daemon0)[1 := \<lparr>dp_imsg = 0x900, dp_base = 0x100, dp_name = [97, 98],
     dp_tick = 0, dp_in_use = True\<rparr>]\<rparr>"

lemma dns_daemon_pending: "d_dns_pending dns_daemon = [\<lparr>dp_imsg = 0, dp_base = 0, dp_name = [], dp_tick = 0, dp_in_use = False\<rparr>,
    \<lparr>dp_imsg = 0x900, dp_base = 0x100, dp_name = [97, 98], dp_tick = 0, dp_in_use = True\<rparr>] @
    replicate 6 \<lparr>dp_imsg = 0, dp_base = 0, dp_name = [], dp_tick = 0, dp_in_use = False\<rparr>" "d_fx dns_daemon = []"
  by (simp_all add: dns_daemon_def daemon0_def eval_nat_numeral)

lemma dns_daemon_match: "first_idx (dns_match (Some [65, 98]) 0x900) (d_dns_pending dns_daemon) = Some 1"
  unfolding dns_daemon_pending by code_simp


lemma dns_cancel_fold:
  assumes "n \<le> length (d_dns_pending d)" "base \<noteq> NULL" "d1 = fold (dns_cancel_one base True) [0..<n] d"
    and "mine = (\<lambda>r. dp_in_use r \<and> dp_base r = base)"
  shows "d_dns_pending d1 = map (\<lambda>r. if mine r then dns_cleared r else r) (take n (d_dns_pending d)) @ drop n (d_dns_pending d)"
    "replied d1 = replied d @ filter (\<lambda>p. p \<noteq> NULL) (map dp_imsg (filter mine (take n (d_dns_pending d))))"
    "d_sockets d1 = d_sockets d" "d_bases d1 = d_bases d"
proof -
  have "d_dns_pending d1 = map (\<lambda>r. if mine r then dns_cleared r else r) (take n (d_dns_pending d)) @ drop n (d_dns_pending d) \<and>
     replied d1 = replied d @ filter (\<lambda>p. p \<noteq> NULL) (map dp_imsg (filter mine (take n (d_dns_pending d)))) \<and>
     d_sockets d1 = d_sockets d \<and> d_bases d1 = d_bases d"
    using assms(1,3)
  proof (induction n arbitrary: d1)
    case (Suc n)
    define d2 where "d2 = fold (dns_cancel_one base True) [0..<n] d"
    note ih = Suc.IH [OF _ d2_def]
    have n: "n < length (d_dns_pending d)" using Suc.prems(1) by simp
    have d1: "d1 = dns_cancel_one base True n d2" using Suc.prems(2) by (simp add: d2_def)
    have at: "d_dns_pending d2 ! n = d_dns_pending d ! n" "length (d_dns_pending d2) = length (d_dns_pending d)"
      using ih n by (simp_all add: nth_append)
    have tk: "take (Suc n) (d_dns_pending d) = take n (d_dns_pending d) @ [d_dns_pending d ! n]"
      "drop n (d_dns_pending d) = d_dns_pending d ! n # drop (Suc n) (d_dns_pending d)"
      using n by (simp_all add: take_Suc_conv_app_nth Cons_nth_drop_Suc)
    have "d_dns_pending d1 = (d_dns_pending d2)[n := (if mine (d_dns_pending d ! n) then dns_cleared (d_dns_pending d ! n) else d_dns_pending d ! n)] \<and>
        replied d1 = replied d2 @ filter (\<lambda>p. p \<noteq> NULL) (if mine (d_dns_pending d ! n) then [dp_imsg (d_dns_pending d ! n)] else []) \<and>
        d_sockets d1 = d_sockets d2 \<and> d_bases d1 = d_bases d2"
      using at(1) list_update_id [of "d_dns_pending d2" n]
      by (auto simp: d1 dns_cancel_one_def Let_def assms(4) dns_cleared_def dns_drop_record_def ReplyMsg_def)
    then show ?case using ih n by (simp add: tk list_update_append)
  qed simp
  then show "d_dns_pending d1 = map (\<lambda>r. if mine r then dns_cleared r else r) (take n (d_dns_pending d)) @ drop n (d_dns_pending d)"
    "replied d1 = replied d @ filter (\<lambda>p. p \<noteq> NULL) (map dp_imsg (filter mine (take n (d_dns_pending d))))"
    "d_sockets d1 = d_sockets d" "d_bases d1 = d_bases d" by blast+
qed

text \<open>
  Cancelling the lookups of a closing opener answers each of them exactly once and forgets
  them, leaving those of other openers alone; a resolver answer that arrives afterwards for one of
  its messages touches nothing but the counter of late replies, so it never writes through the
  pointers of the opener that is gone.
\<close>

theorem dns_cancel_then_late:
  assumes "base \<noteq> NULL" "d1 = tn_dns_cancel_for_base base d" "m \<noteq> NULL"
    and "\<forall>r\<in>set (d_dns_pending d). dp_in_use r \<and> dp_imsg r = m \<longrightarrow> dp_base r = base"
  shows "replied d1 = replied d @ filter (\<lambda>p. p \<noteq> NULL) (map dp_imsg (filter (\<lambda>r. dp_in_use r \<and> dp_base r = base) (d_dns_pending d))) \<and>
     d_dns_pending d1 = map (\<lambda>r. if dp_in_use r \<and> dp_base r = base then dns_cleared r else r) (d_dns_pending d) \<and>
     tn_dns_found_cb E name ip m d1 = d1\<lparr>d_dns_late_replies := d_dns_late_replies d1 + 1\<rparr>"
proof -
  note c = dns_cancel_fold [OF order_refl assms(1) _ refl, of d1 d]
  have p: "d_dns_pending d1 = map (\<lambda>r. if dp_in_use r \<and> dp_base r = base then dns_cleared r else r) (d_dns_pending d)"
    "replied d1 = replied d @ filter (\<lambda>p. p \<noteq> NULL) (map dp_imsg (filter (\<lambda>r. dp_in_use r \<and> dp_base r = base) (d_dns_pending d)))"
    using c assms(2) by (simp_all add: tn_dns_cancel_for_base_def tn_dns_cancel_for_base2_def)
  have "first_idx (\<lambda>r. dp_in_use r \<and> dp_imsg r = m \<and> tn_dns_name_matches (dp_name r) name) (d_dns_pending d1) = None"
    unfolding first_idx_None using assms(4) by (auto simp: p(1) dns_cleared_def)
  then show ?thesis using p assms(3) by (simp add: tn_dns_found_cb_def)
qed

theorem dns_cancel_then_late_witness:
  "replied (tn_dns_cancel_for_base 0x100 dns_daemon) = [0x900]"
  using dns_cancel_then_late [where base = "0x100" and d = dns_daemon and m = "0x900" and E = env0 and name = None and ip = None, OF _ refl]
  by (simp add: dns_daemon_pending)

section \<open>Parked accepts and cancellation\<close>

text \<open>
  A second blocking ACCEPT on the same listening socket takes the place of the first: the new
  request is parked, the earlier one is neither answered nor kept anywhere, so its client waits
  forever.  (A second RECV on a socket is refused with EALREADY.)
\<close>

theorem second_accept_overwrites:
  assumes "i < length (d_sockets d)" "s_tcp_state (slot_of d i) = TCP_LISTENING" "s_accept (slot_of d i) = []"
    and "\<not> s_is_nonblocking (slot_of d i)" "s_pending_accept_msg (slot_of d i) = m1" "m1 \<noteq> m2"
  shows "tn_ipc_cmd_accept E m2 i d = (upd_slot i (\<lambda>s. s\<lparr>s_pending_accept_msg := m2\<rparr>) d, DEFER) \<and>
     s_pending_accept_msg (slot_of (fst (tn_ipc_cmd_accept E m2 i d)) i) \<noteq> m1 \<and> d_fx (fst (tn_ipc_cmd_accept E m2 i d)) = d_fx d"
  using assms by (simp add: tn_ipc_cmd_accept_def Let_def)

definition accept_daemon :: TnDaemon where
  "accept_daemon = daemon0\<lparr>d_sockets := (replicate 64 null_slot)[0 := (tn_init_socket_slot 0x100 0x500 2 SOCK_STREAM 0)
     \<lparr>s_tcp_pcb := 0x7000, s_tcp_state := TCP_LISTENING, s_listen_backlog := 2, s_pending_accept_msg := 0x900\<rparr>]\<rparr>"

theorem second_accept_overwrites_witness:
  "s_pending_accept_msg (slot_of (fst (tn_ipc_cmd_accept env0 0x904 0 accept_daemon)) 0) = 0x904 \<and>
   replied (fst (tn_ipc_cmd_accept env0 0x904 0 accept_daemon)) = []"
  using second_accept_overwrites [of 0 accept_daemon "0x900" "0x904" env0]
  by (simp add: accept_daemon_def tn_init_socket_slot_def)

text \<open>
  CANCEL does not reject a NULL target: it matches the first socket in use whose receive,
  connect or accept field is empty, clears nothing, and replies to the message at address NULL.
  (Its search among parked sends does reject NULL.)
\<close>

theorem cancel_null_replies_null:
  assumes "im_args (d_msgs d m) 0 = 0" "i < length (d_sockets d)" "s_in_use (slot_of d i)" "s_pending_recv_msg (slot_of d i) = NULL"
  shows "replied (fst (tn_ipc_cmd_cancel m d)) = replied d @ [NULL]"
proof -
  let ?P = "\<lambda>s. s_in_use s \<and> (s_pending_recv_msg s = NULL \<or> s_pending_connect_msg s = NULL \<or> s_pending_accept_msg s = NULL)"
  have "first_idx ?P (d_sockets d) \<noteq> None" unfolding first_idx_None using assms(2-4) nth_mem [OF assms(2)] by blast
  then obtain k where "first_idx ?P (d_sockets d) = Some k" by blast
  then show ?thesis using assms(1) by (simp add: tn_ipc_cmd_cancel_def Let_def cancel_slot_def reply_to_def ReplyMsg_def)
qed

theorem cancel_null_replies_null_witness: "replied (fst (tn_ipc_cmd_cancel 0x904 accept_daemon)) = [0]"
  using cancel_null_replies_null [of accept_daemon "0x904" 0]
  by (simp add: accept_daemon_def tn_init_socket_slot_def msg0_def daemon0_def)

section \<open>Handing over a queued connection\<close>

lemma adopt_slot:
  assumes "j < length (d_sockets d)" "j \<noteq> i" "d1 = accept_adopt E m i j ent d"
  shows "slot_core (slot_of d1 j) = slot_core ((slot_of d j)\<lparr>s_tcp_state := (if ae_peer_closed ent then TCP_PEER_CLOSED else TCP_ESTABLISHED),
      s_rx := ae_early_rx ent, s_rx_count := ae_early_rx_count ent, s_tcp_pcb := ae_new_pcb ent,
      s_opts := inherit_opts (s_opts (slot_of d i)) (s_opts (slot_of d j))\<rparr>)"
    "slot_core (slot_of d1 i) = slot_core (slot_of d i)"
proof -
  have ev: "slot_core (slot_of (accept_events j d') k) = slot_core (slot_of d' k)" for d' k by (simp add: accept_events_def Let_def)
  show "slot_core (slot_of d1 j) = slot_core ((slot_of d j)\<lparr>s_tcp_state := (if ae_peer_closed ent then TCP_PEER_CLOSED else TCP_ESTABLISHED),
      s_rx := ae_early_rx ent, s_rx_count := ae_early_rx_count ent, s_tcp_pcb := ae_new_pcb ent,
      s_opts := inherit_opts (s_opts (slot_of d i)) (s_opts (slot_of d j))\<rparr>)"
    "slot_core (slot_of d1 i) = slot_core (slot_of d i)"
    using assms by (simp_all add: accept_adopt_def adopt_pcb_def Let_def ev)
qed

lemma record_maps [simp]: "sb_fd_map (d_bases (tn_record_socket_event i ev d) b) = sb_fd_map (d_bases d b)"
  by (simp add: tn_record_socket_event_def Let_def bases_upd_base)

lemma adopt_maps: "sb_fd_map (d_bases (accept_adopt E m i j ent d) b) = sb_fd_map (d_bases d b)"
  by (simp add: accept_adopt_def adopt_pcb_def accept_events_def Let_def)

lemma claim_fd_free:
  assumes "base \<noteq> NULL" "\<not> sb_fd_map_null (d_bases d base)" "length (sb_fd_map (d_bases d base)) = nat (sb_dtablesize (d_bases d base))"
    and "-1 \<in> set (sb_fd_map (d_bases d base))" "j < TN_MAX_GLOBAL_SOCKETS"
  shows "0 \<le> snd (claim_fd base p j d)"
proof -
  have "first_idx (\<lambda>v. v = -1) (sb_fd_map (d_bases d base)) \<noteq> None" unfolding first_idx_None using assms(4) by blast
  then show ?thesis using assms by (auto simp: claim_fd_def tn_fd_alloc_def)
qed


definition queued_daemon :: TnDaemon where
  "queued_daemon = daemon0\<lparr>d_sockets := (replicate 64 null_slot)[0 := (tn_init_socket_slot 0x100 0x500 2 SOCK_STREAM 0)
     \<lparr>s_tcp_pcb := 0x7000, s_tcp_state := TCP_LISTENING, s_listen_backlog := 2, s_accept_count := 1,
      s_accept := [\<lparr>ae_addr = 0x8000, ae_new_pcb = 0x7100, ae_early_rx = [\<lparr>pk_p = [1, 2], pk_offset = 0, pk_src_ip = 0, pk_src_port = 0\<rparr>],
        ae_early_rx_count = 1, ae_peer_closed = False\<rparr>]\<rparr>],
     d_bases := (\<lambda>_. base0\<lparr>sb_dtablesize := 2, sb_fd_map := [-1, -1], sb_events := [0, 0], sb_event_masks := [0, 0]\<rparr>)\<rparr>"


end
