(* ===== verification/Config_Text.thy ===== *)
theory Config_Text
  imports Prelude
begin

text \<open>
  The configuration text (common/config_text.c): the KEY=VALUE parser, the formatter that writes
  DEVS:tolunnet.config, the classification of changes for RECONFIG, and the merge that keeps
  unknown lines of the previous file.  A C string is the list of its characters before the NUL;
  the text loop of \<open>tn_prefs_read_file\<close> (common/prefs.c) is here too.
\<close>

section \<open>Preferences\<close>

record TnPrefs =
  pf_device :: string
  pf_unit :: u32
  pf_use_dhcp :: bool
  pf_ip_addr :: string
  pf_netmask :: string
  pf_gateway :: string
  pf_dns_server :: string
  pf_hostname :: string
  pf_dns2 :: string
  pf_mtu :: u32
  pf_debug :: u32
  pf_priority :: int
  pf_log_file :: string
  pf_log_level :: int
  pf_database_order :: string
  pf_selectors :: u32
  pf_stats :: bool
  pf_syslog_host :: string
  pf_s2events :: u32
  pf_dns_port :: u32
  pf_dns_pending_max :: u32
  pf_dns_retries :: u32
  pf_tx_queue :: u32
  pf_font :: string
  pf_diag :: bool
  pf_autoip :: bool
  pf_mdns :: bool

abbreviation (input) NUL :: char where "NUL \<equiv> CHR 0x00"
abbreviation (input) LF :: char where "LF \<equiv> CHR 0x0A"
abbreviation (input) CR :: char where "CR \<equiv> CHR 0x0D"
abbreviation (input) TAB :: char where "TAB \<equiv> CHR 0x09"
abbreviation (input) SP :: char where "SP \<equiv> CHR 0x20"

definition is_blank :: "char \<Rightarrow> bool" where
  "is_blank c = (c = CR \<or> c = LF \<or> c = SP \<or> c = TAB)"

definition is_digit :: "char \<Rightarrow> bool" where
  "is_digit c = (48 \<le> (of_char c :: nat) \<and> (of_char c :: nat) \<le> 57)"

definition digit_val :: "char \<Rightarrow> nat" where
  "digit_val c = of_char c - 48"

section \<open>String helpers\<close>

definition upper :: "char \<Rightarrow> char" where
  "upper c = (if 97 \<le> (of_char c :: nat) \<and> (of_char c :: nat) \<le> 122 then char_of (of_char c - 32 :: nat) else c)"

fun tn_str_equal_nocase :: "string \<Rightarrow> string \<Rightarrow> bool" where
  "tn_str_equal_nocase [] [] = True"
| "tn_str_equal_nocase (a # as) (b # bs) = (upper a = upper b \<and> tn_str_equal_nocase as bs)"
| "tn_str_equal_nocase _ _ = False"

definition tn_val_token :: "string \<Rightarrow> string \<Rightarrow> bool" where
  "tn_val_token val extra =
     list_all (\<lambda>c. let n = of_char c :: nat
                   in 65 \<le> n \<and> n \<le> 90 \<or> 97 \<le> n \<and> n \<le> 122 \<or> 48 \<le> n \<and> n \<le> 57 \<or> c \<in> set extra)
       (rev (dropWhile is_blank (rev val)))"

text \<open>\<open>tn_str_copy_clean(dst, src, max_len)\<close>: what ends up in \<open>dst\<close>.\<close>

definition tn_str_copy_clean :: "nat \<Rightarrow> string \<Rightarrow> string" where
  "tn_str_copy_clean max_len src = take (max_len - 1) (takeWhile (\<lambda>c. c \<noteq> NUL \<and> \<not> is_blank c) src)"

text \<open>Decimal digits accumulated in a 32-bit LONG; \<open>None\<close> when there is no digit.\<close>

fun dec_value :: "u32 \<Rightarrow> string \<Rightarrow> u32" where
  "dec_value v [] = v"
| "dec_value v (c # cs) = (if is_digit c then dec_value (v * 10 + word_of_nat (digit_val c)) cs else v)"

definition tn_str_to_long :: "string \<Rightarrow> int option" where
  "tn_str_to_long s =
     (let neg = (s \<noteq> [] \<and> hd s = CHR ''-''); ds = (if neg then tl s else s) in
      if ds = [] \<or> \<not> is_digit (hd ds) then None
      else Some (sint (if neg then - dec_value 0 ds else dec_value 0 ds)))"

section \<open>Factory defaults\<close>

text \<open>\<open>dns_pending_max\<close> and \<open>dns_retries\<close> keep what they were.\<close>

definition tn_prefs_default :: "TnPrefs \<Rightarrow> TnPrefs" where
  "tn_prefs_default p = p\<lparr>pf_device := tn_str_copy_clean 64 ''ethernet.device'', pf_unit := 0, pf_use_dhcp := True,
     pf_ip_addr := [], pf_netmask := [], pf_gateway := [], pf_dns_server := [],
     pf_hostname := tn_str_copy_clean 64 ''amiga'', pf_dns2 := [], pf_mtu := 0, pf_debug := 0, pf_priority := 5,
     pf_log_file := [], pf_log_level := -1, pf_database_order := [], pf_selectors := 0, pf_stats := True,
     pf_syslog_host := [], pf_s2events := 0, pf_dns_port := 0, pf_diag := False, pf_tx_queue := 0, pf_font := [],
     pf_autoip := False, pf_mdns := False\<rparr>"

section \<open>Parsing a line\<close>

definition s2_bit :: "string \<Rightarrow> u32 option" where
  "s2_bit name =
     (if tn_str_equal_nocase name ''ONLINE'' then Some 8
      else if tn_str_equal_nocase name ''OFFLINE'' then Some 16
      else if tn_str_equal_nocase name ''ERROR'' then Some 1
      else if tn_str_equal_nocase name ''TX'' then Some 2
      else if tn_str_equal_nocase name ''RX'' then Some 4
      else if tn_str_equal_nocase name ''BUFF'' then Some 32
      else if tn_str_equal_nocase name ''HARDWARE'' then Some 64
      else if tn_str_equal_nocase name ''SOFTWARE'' then Some 128
      else None)"

text \<open>The mask of a list of event names; names are read in pieces of at most 15 characters.\<close>

function s2_mask :: "string \<Rightarrow> u32 \<Rightarrow> u32 option" where
  "s2_mask p m =
     (if p = [] then Some m
      else let name = take 15 (takeWhile (\<lambda>c. c \<noteq> CHR ''|'') p);
               rest = drop (length name) p;
               next = (if rest \<noteq> [] \<and> hd rest = CHR ''|'' then tl rest else rest)
           in if name = [] then None
              else case s2_bit name of None \<Rightarrow> None | Some b \<Rightarrow> s2_mask next (m OR b))"
  by pat_completeness auto
termination
  by (relation "measure (length \<circ> fst)") (auto simp: Let_def split: if_splits)

declare s2_mask.simps [simp del]

definition yes_word :: "string \<Rightarrow> string \<Rightarrow> bool" where
  "yes_word v w4 = (tn_str_equal_nocase v ''YES'' \<or> tn_str_equal_nocase v ''1'' \<or> tn_str_equal_nocase v ''TRUE'' \<or> tn_str_equal_nocase v w4)"

definition no_word :: "string \<Rightarrow> bool" where
  "no_word v = (tn_str_equal_nocase v ''NO'' \<or> tn_str_equal_nocase v ''0'' \<or> tn_str_equal_nocase v ''FALSE'' \<or> tn_str_equal_nocase v ''OFF'')"

text \<open>A number within bounds sets the field, anything else leaves it.\<close>

definition in_range :: "int \<Rightarrow> int \<Rightarrow> string \<Rightarrow> int option" where
  "in_range lo hi v = (case tn_str_to_long v of Some n \<Rightarrow> (if lo \<le> n \<and> n \<le> hi then Some n else None) | None \<Rightarrow> None)"

definition font_ok :: "string \<Rightarrow> bool" where
  "font_ok v =
     (let rest = dropWhile (\<lambda>c. c \<noteq> CHR ''/'') v; sz = tl rest
      in rest \<noteq> [] \<and> sz \<noteq> [] \<and> list_all is_digit sz \<and> in_range 6 24 sz \<noteq> None)"

text \<open>
  \<open>tn_config_parse_line\<close>: the key is compared after cleaning; DATABASE_ORDER, SYSLOG, S2EVENTS and
  FONT are also validated on the raw value.
\<close>

definition tn_config_parse_line :: "TnPrefs \<Rightarrow> string \<Rightarrow> string \<Rightarrow> TnPrefs" where
  "tn_config_parse_line prefs key val =
     (let k = tn_str_equal_nocase (tn_str_copy_clean 32 key); v = tn_str_copy_clean 64 val in
      if k ''DEVICE'' then prefs\<lparr>pf_device := tn_str_copy_clean 64 v\<rparr>
      else if k ''UNIT'' then (case tn_str_to_long v of Some u \<Rightarrow> prefs\<lparr>pf_unit := word_of_int u\<rparr> | None \<Rightarrow> prefs)
      else if k ''DHCP'' \<or> k ''USE_DHCP'' then prefs\<lparr>pf_use_dhcp := yes_word v ''DHCP''\<rparr>
      else if k ''IP'' \<or> k ''IP_ADDR'' then prefs\<lparr>pf_ip_addr := tn_str_copy_clean 20 v\<rparr>
      else if k ''NETMASK'' \<or> k ''MASK'' then prefs\<lparr>pf_netmask := tn_str_copy_clean 20 v\<rparr>
      else if k ''GATEWAY'' \<or> k ''GW'' then prefs\<lparr>pf_gateway := tn_str_copy_clean 20 v\<rparr>
      else if k ''DNS_PORT'' then (case in_range 1 65535 v of Some n \<Rightarrow> prefs\<lparr>pf_dns_port := word_of_int n\<rparr> | None \<Rightarrow> prefs)
      else if k ''DNS2'' then prefs\<lparr>pf_dns2 := tn_str_copy_clean 20 v\<rparr>
      else if k ''DNS'' \<or> k ''DNS1'' \<or> k ''NAMESERVER'' then prefs\<lparr>pf_dns_server := tn_str_copy_clean 20 v\<rparr>
      else if k ''HOSTNAME'' then prefs\<lparr>pf_hostname := tn_str_copy_clean 64 v\<rparr>
      else if k ''MTU'' then (case tn_str_to_long v of Some m \<Rightarrow> prefs\<lparr>pf_mtu := word_of_int m\<rparr> | None \<Rightarrow> prefs)
      else if k ''DEBUG'' then (case in_range 0 2 v of Some n \<Rightarrow> prefs\<lparr>pf_debug := word_of_int n\<rparr> | None \<Rightarrow> prefs)
      else if k ''PRIORITY'' then (case in_range (-128) 127 v of Some n \<Rightarrow> prefs\<lparr>pf_priority := n\<rparr> | None \<Rightarrow> prefs)
      else if k ''LOG'' then prefs\<lparr>pf_log_file := tn_str_copy_clean 64 v\<rparr>
      else if k ''LOGLEVEL'' then (case in_range 0 2 v of Some n \<Rightarrow> prefs\<lparr>pf_log_level := n\<rparr> | None \<Rightarrow> prefs)
      else if k ''DATABASE_ORDER'' then
        (if tn_val_token val '',_-'' \<and> v \<noteq> [] then prefs\<lparr>pf_database_order := tn_str_copy_clean 40 v\<rparr> else prefs)
      else if k ''SELECTORS'' then (case in_range 1 128 v of Some n \<Rightarrow> prefs\<lparr>pf_selectors := word_of_int n\<rparr> | None \<Rightarrow> prefs)
      else if k ''TX_QUEUE'' then (case in_range 0 8 v of Some n \<Rightarrow> prefs\<lparr>pf_tx_queue := word_of_int n\<rparr> | None \<Rightarrow> prefs)
      else if k ''DNS_PENDING'' then (case in_range 1 8 v of Some n \<Rightarrow> prefs\<lparr>pf_dns_pending_max := word_of_int n\<rparr> | None \<Rightarrow> prefs)
      else if k ''DNS_RETRIES'' then (case in_range 1 16 v of Some n \<Rightarrow> prefs\<lparr>pf_dns_retries := word_of_int n\<rparr> | None \<Rightarrow> prefs)
      else if k ''STATS'' then prefs\<lparr>pf_stats := \<not> no_word v\<rparr>
      else if k ''SYSLOG'' then
        (if tn_val_token val ''.-'' \<and> v \<noteq> [] \<and> length v < 48 then prefs\<lparr>pf_syslog_host := tn_str_copy_clean 48 v\<rparr> else prefs)
      else if k ''S2EVENTS'' then
        (if tn_val_token val ''|'' \<and> v \<noteq> [] then
           (if tn_str_equal_nocase v ''DEFAULT'' then prefs\<lparr>pf_s2events := 0\<rparr>
            else case s2_mask v 0 of Some m \<Rightarrow> (if m \<noteq> 0 then prefs\<lparr>pf_s2events := m\<rparr> else prefs) | None \<Rightarrow> prefs)
         else prefs)
      else if k ''FONT'' then
        (if tn_val_token val ''.-/'' \<and> v \<noteq> [] \<and> length v < 24 \<and> font_ok v then prefs\<lparr>pf_font := tn_str_copy_clean 24 v\<rparr> else prefs)
      else if k ''DIAG'' then prefs\<lparr>pf_diag := yes_word v ''ON''\<rparr>
      else if k ''AUTOIP'' then prefs\<lparr>pf_autoip := \<not> no_word v\<rparr>
      else if k ''MDNS'' then prefs\<lparr>pf_mdns := \<not> no_word v\<rparr>
      else prefs)"

section \<open>Reading a file\<close>

text \<open>\<open>FGets(fh, line, 128)\<close>: at most 127 characters, up to and with the first LF; then the C string in the buffer.\<close>

definition fgets_len :: "string \<Rightarrow> nat" where
  "fgets_len s = (let n = length (takeWhile (\<lambda>c. c \<noteq> LF) s) in min 127 (if n < length s then Suc n else n))"

lemma fgets_len_pos [simp]: "s \<noteq> [] \<Longrightarrow> 0 < fgets_len s"
  by (cases s) (auto simp: fgets_len_def Let_def)

definition cstr :: "string \<Rightarrow> string" where
  "cstr s = takeWhile (\<lambda>c. c \<noteq> NUL) s"

definition parse_text_line :: "TnPrefs \<Rightarrow> string \<Rightarrow> (TnPrefs \<times> bool)" where
  "parse_text_line prefs line =
     (let eq = dropWhile (\<lambda>c. c \<noteq> CHR ''='') line in
      if eq = [] then (prefs, False)
      else (tn_config_parse_line prefs (takeWhile (\<lambda>c. c \<noteq> CHR ''='') line)
              (dropWhile (\<lambda>c. c = SP \<or> c = TAB) (tl eq)), True))"

function tn_prefs_read_text :: "TnPrefs \<Rightarrow> bool \<Rightarrow> string \<Rightarrow> TnPrefs \<times> bool" where
  "tn_prefs_read_text prefs parsed s =
     (if s = [] then (prefs, parsed)
      else case parse_text_line prefs (cstr (take (fgets_len s) s)) of
             (prefs', p) \<Rightarrow> tn_prefs_read_text prefs' (parsed \<or> p) (drop (fgets_len s) s))"
  by pat_completeness auto
termination
  by (relation "measure (\<lambda>(_, _, s). length s)") (auto simp: fgets_len_pos)

declare tn_prefs_read_text.simps [simp del]

section \<open>Formatting\<close>

record TnCfgOut =
  co_buf :: string
  co_size :: nat
  co_overflow :: bool

fun tn_cfg_put :: "TnCfgOut \<Rightarrow> string \<Rightarrow> TnCfgOut" where
  "tn_cfg_put out [] = out"
| "tn_cfg_put out (c # cs) =
     tn_cfg_put (if length (co_buf out) + 1 < co_size out then out\<lparr>co_buf := co_buf out @ [c]\<rparr>
                 else out\<lparr>co_overflow := True\<rparr>) cs"

text \<open>At most 15 digits, least significant first.\<close>

fun dec_digits_rev :: "nat \<Rightarrow> nat \<Rightarrow> string" where
  "dec_digits_rev 0 v = []"
| "dec_digits_rev (Suc n) v = (if v = 0 then [] else char_of (48 + v mod 10) # dec_digits_rev n (v div 10))"

definition dec_u32 :: "u32 \<Rightarrow> string" where
  "dec_u32 v = (if v = 0 then ''0'' else rev (dec_digits_rev 15 (unat v)))"

definition tn_cfg_put_kv_str :: "TnCfgOut \<Rightarrow> string \<Rightarrow> string \<Rightarrow> TnCfgOut" where
  "tn_cfg_put_kv_str out key val = tn_cfg_put (tn_cfg_put (tn_cfg_put out key) val) [LF]"

definition tn_cfg_put_kv_int :: "TnCfgOut \<Rightarrow> string \<Rightarrow> u32 \<Rightarrow> TnCfgOut" where
  "tn_cfg_put_kv_int out key v = tn_cfg_put (tn_cfg_put (tn_cfg_put out key) (dec_u32 v)) [LF]"

definition dec_long :: "int \<Rightarrow> string" where
  "dec_long v = (if v < 0 then CHR ''-'' # dec_u32 (word_of_int (- v)) else dec_u32 (word_of_int v))"

definition tn_cfg_put_kv_long :: "TnCfgOut \<Rightarrow> string \<Rightarrow> int \<Rightarrow> TnCfgOut" where
  "tn_cfg_put_kv_long out key v = tn_cfg_put (tn_cfg_put (tn_cfg_put out key) (dec_long v)) [LF]"

text \<open>The event names in the order they are written, each with its bit.\<close>

definition s2_table :: "(string \<times> u32) list" where
  "s2_table = [(''ONLINE'', 8), (''OFFLINE'', 16), (''ERROR'', 1), (''TX'', 2), (''RX'', 4), (''BUFF'', 32),
               (''HARDWARE'', 64), (''SOFTWARE'', 128)]"

definition put_s2events :: "TnCfgOut \<Rightarrow> u32 \<Rightarrow> TnCfgOut" where
  "put_s2events out ev =
     (let out1 = fold (\<lambda>(name, b) out. if ev AND b \<noteq> 0 then tn_cfg_put out (name @ ''|'') else out) s2_table
                   (tn_cfg_put out ''S2EVENTS='')
      in tn_cfg_put (out1\<lparr>co_buf := butlast (co_buf out1)\<rparr>) [LF])"

text \<open>\<open>tn_config_format\<close>; \<open>None\<close> is the return value -1.\<close>

definition cfg_when :: "bool \<Rightarrow> (TnCfgOut \<Rightarrow> TnCfgOut) \<Rightarrow> TnCfgOut \<Rightarrow> TnCfgOut" where
  "cfg_when c f out = (if c then f out else out)"

definition cfg_result :: "TnCfgOut \<Rightarrow> string option" where
  "cfg_result out = (if co_overflow out then None else Some (co_buf out))"

definition tn_config_format :: "TnPrefs \<Rightarrow> nat \<Rightarrow> string option" where
  "tn_config_format prefs bsize =
     (let out = \<lparr>co_buf = [], co_size = bsize, co_overflow = False\<rparr>;
          out = tn_cfg_put out (''# tolunnet configuration file'' @ [LF]);
          out = tn_cfg_put out (''VERSION=1'' @ [LF]);
          out = tn_cfg_put_kv_str out ''DEVICE='' (pf_device prefs);
          out = tn_cfg_put_kv_int out ''UNIT='' (pf_unit prefs);
          out = tn_cfg_put out ''DHCP='';
          out = tn_cfg_put out ((if pf_use_dhcp prefs then ''YES'' else ''NO'') @ [LF]);
          out = tn_cfg_put_kv_str out ''IP='' (pf_ip_addr prefs);
          out = tn_cfg_put_kv_str out ''NETMASK='' (pf_netmask prefs);
          out = tn_cfg_put_kv_str out ''GATEWAY='' (pf_gateway prefs);
          out = tn_cfg_put_kv_str out ''DNS='' (pf_dns_server prefs);
          out = tn_cfg_put_kv_str out ''DNS2='' (pf_dns2 prefs);
          out = cfg_when (pf_dns_port prefs \<noteq> 0) (\<lambda>out. tn_cfg_put_kv_int out ''DNS_PORT='' (pf_dns_port prefs)) out;
          out = tn_cfg_put_kv_str out ''HOSTNAME='' (pf_hostname prefs);
          out = tn_cfg_put_kv_int out ''MTU='' (pf_mtu prefs);
          out = tn_cfg_put_kv_int out ''DEBUG='' (pf_debug prefs);
          out = tn_cfg_put_kv_long out ''PRIORITY='' (pf_priority prefs);
          out = cfg_when (pf_log_file prefs \<noteq> []) (\<lambda>out. tn_cfg_put_kv_str out ''LOG='' (pf_log_file prefs)) out;
          out = tn_cfg_put_kv_long out ''LOGLEVEL='' (pf_log_level prefs);
          out = tn_cfg_put_kv_int out ''SELECTORS='' (pf_selectors prefs);
          out = cfg_when (pf_dns_pending_max prefs \<noteq> 0) (\<lambda>out. tn_cfg_put_kv_int out ''DNS_PENDING='' (pf_dns_pending_max prefs)) out;
          out = cfg_when (pf_dns_retries prefs \<noteq> 0) (\<lambda>out. tn_cfg_put_kv_int out ''DNS_RETRIES='' (pf_dns_retries prefs)) out;
          out = cfg_when (pf_tx_queue prefs \<noteq> 0) (\<lambda>out. tn_cfg_put_kv_int out ''TX_QUEUE='' (pf_tx_queue prefs)) out;
          out = tn_cfg_put out ''STATS='';
          out = tn_cfg_put out ((if pf_stats prefs then ''YES'' else ''NO'') @ [LF]);
          out = cfg_when (pf_database_order prefs \<noteq> []) (\<lambda>out. tn_cfg_put_kv_str out ''DATABASE_ORDER='' (pf_database_order prefs)) out;
          out = cfg_when (pf_syslog_host prefs \<noteq> []) (\<lambda>out. tn_cfg_put_kv_str out ''SYSLOG='' (pf_syslog_host prefs)) out;
          out = cfg_when (pf_s2events prefs \<noteq> 0) (\<lambda>out. put_s2events out (pf_s2events prefs)) out;
          out = cfg_when (pf_font prefs \<noteq> []) (\<lambda>out. tn_cfg_put_kv_str out ''FONT='' (pf_font prefs)) out;
          out = cfg_when (pf_autoip prefs) (\<lambda>out. tn_cfg_put out (''AUTOIP=YES'' @ [LF])) out;
          out = cfg_when (pf_mdns prefs) (\<lambda>out. tn_cfg_put out (''MDNS=YES'' @ [LF])) out
      in cfg_result out)"

section \<open>RECONFIG classification\<close>

definition tn_recfg_effective_loglevel :: "TnPrefs \<Rightarrow> int" where
  "tn_recfg_effective_loglevel p =
     (if 0 \<le> pf_log_level p \<and> pf_log_level p \<le> 2 then pf_log_level p else 1 + (if pf_debug p > 0 then 1 else 0))"

text \<open>The masks of the changed keys: those that need a restart, and those that can be applied live.\<close>

definition tn_recfg_diff :: "TnPrefs \<Rightarrow> TnPrefs \<Rightarrow> u32 \<times> u32" where
  "tn_recfg_diff p q =
     (let flag = (\<lambda>c b m :: u32. if c then m OR b else m);
          restart = flag (pf_device p \<noteq> pf_device q) 0x0001 0;
          restart = flag (pf_unit p \<noteq> pf_unit q) 0x0002 restart;
          restart = flag (pf_use_dhcp p \<noteq> pf_use_dhcp q) 0x0004 restart;
          restart = flag (pf_ip_addr p \<noteq> pf_ip_addr q) 0x0008 restart;
          restart = flag (pf_netmask p \<noteq> pf_netmask q) 0x0010 restart;
          restart = flag (pf_gateway p \<noteq> pf_gateway q) 0x0020 restart;
          live = flag (pf_dns_server p \<noteq> pf_dns_server q \<or> pf_dns_port p \<noteq> pf_dns_port q) 0x0040 0;
          live = flag (pf_dns2 p \<noteq> pf_dns2 q) 0x0080 live;
          live = flag (pf_hostname p \<noteq> pf_hostname q) 0x0100 live;
          live = flag (pf_mtu p \<noteq> pf_mtu q) 0x0200 live;
          live = flag (tn_recfg_effective_loglevel p \<noteq> tn_recfg_effective_loglevel q) 0x0400 live;
          live = flag (pf_priority p \<noteq> pf_priority q) 0x0800 live;
          live = flag (pf_log_file p \<noteq> pf_log_file q) 0x1000 live;
          live = flag (pf_database_order p \<noteq> pf_database_order q) 0x2000 live;
          live = flag (pf_selectors p \<noteq> pf_selectors q) 0x4000 live;
          live = flag (pf_stats p \<noteq> pf_stats q) 0x8000 live;
          live = flag (pf_syslog_host p \<noteq> pf_syslog_host q) 0x10000 live;
          restart = flag (pf_s2events p \<noteq> pf_s2events q) 0x20000 restart
      in (restart, live))"

definition tn_recfg_key_name :: "u32 \<Rightarrow> string option" where
  "tn_recfg_key_name b =
     (if b = 0x0001 then Some ''DEVICE'' else if b = 0x0002 then Some ''UNIT''
      else if b = 0x0004 then Some ''DHCP'' else if b = 0x0008 then Some ''IP''
      else if b = 0x0010 then Some ''NETMASK'' else if b = 0x0020 then Some ''GATEWAY''
      else if b = 0x0040 then Some ''DNS'' else if b = 0x0080 then Some ''DNS2''
      else if b = 0x0100 then Some ''HOSTNAME'' else if b = 0x0200 then Some ''MTU''
      else if b = 0x0400 then Some ''LOGLEVEL'' else if b = 0x0800 then Some ''PRIORITY''
      else if b = 0x1000 then Some ''LOG'' else if b = 0x2000 then Some ''DATABASE_ORDER''
      else if b = 0x4000 then Some ''SELECTORS'' else if b = 0x8000 then Some ''STATS''
      else if b = 0x10000 then Some ''SYSLOG'' else if b = 0x20000 then Some ''S2EVENTS'' else None)"

section \<open>Vocabulary and merge\<close>

definition g_cfg_keys :: "string list" where
  "g_cfg_keys = [''AUTOIP'', ''DATABASE_ORDER'', ''DEBUG'', ''DEVICE'', ''DIAG'', ''DHCP'', ''DNS'', ''DNS1'',
     ''DNS2'', ''DNS_PENDING'', ''DNS_PORT'', ''DNS_RETRIES'', ''FONT'', ''GATEWAY'',
     ''GW'', ''HOSTNAME'', ''IP'', ''IP_ADDR'', ''LOG'', ''LOGLEVEL'', ''MASK'', ''MDNS'', ''MTU'',
     ''NAMESERVER'', ''NETMASK'', ''PRIORITY'', ''S2EVENTS'', ''SELECTORS'',
     ''STATS'', ''SYSLOG'', ''TX_QUEUE'', ''UNIT'', ''USE_DHCP'', ''VERSION'']"

definition tn_config_key_known :: "string \<Rightarrow> bool" where
  "tn_config_key_known key = (key \<noteq> [] \<and> list_ex (tn_str_equal_nocase key) g_cfg_keys)"

definition cls_map :: "(string \<times> nat) list" where
  "cls_map = [(''IP'', 1), (''IP_ADDR'', 1), (''NETMASK'', 1), (''MASK'', 1), (''GATEWAY'', 1), (''GW'', 1), (''DNS'', 1),
     (''DNS1'', 1), (''DNS2'', 1), (''NAMESERVER'', 1), (''UNIT'', 2), (''MTU'', 2), (''DNS_PORT'', 2), (''SELECTORS'', 2),
     (''TX_QUEUE'', 2), (''PRIORITY'', 2), (''DNS_PENDING'', 2), (''DNS_RETRIES'', 2), (''LOGLEVEL'', 2), (''DHCP'', 3),
     (''USE_DHCP'', 3), (''STATS'', 3), (''DIAG'', 3), (''DEBUG'', 3), (''AUTOIP'', 3), (''MDNS'', 3)]"

definition tn_config_value_class :: "string \<Rightarrow> nat" where
  "tn_config_value_class key = (case find (\<lambda>(k, _). tn_str_equal_nocase key k) cls_map of Some (_, c) \<Rightarrow> c | None \<Rightarrow> 0)"

text \<open>Lines of the previous file that survive a rewrite: over-long ones, and those whose key is not known.\<close>

definition keep_line :: "string \<Rightarrow> bool" where
  "keep_line line =
     (let key = take 31 (takeWhile (\<lambda>c. c \<noteq> CHR ''='') line) in
      127 < length line \<or>
      (key \<noteq> [] \<and> hd line \<noteq> CHR ''#'' \<and> \<not> tn_config_key_known (tn_str_copy_clean 32 key)))"

function merge_lines :: "nat \<Rightarrow> string \<Rightarrow> string \<Rightarrow> string option" where
  "merge_lines bsize buf old =
     (if old = [] then Some buf
      else let line = takeWhile (\<lambda>c. c \<noteq> LF) old; rest = drop (length line) old in
        if keep_line line \<and> length buf + length line + 2 > bsize - 1 then None
        else let buf' = (if keep_line line
                         then (if buf \<noteq> [] \<and> last buf \<noteq> LF then buf @ [LF] else buf) @ line @ [LF] else buf)
             in if rest = [] then Some buf' else merge_lines bsize buf' (tl rest))"
  by pat_completeness auto
termination
  by (relation "measure (\<lambda>(_, _, s). length s)") (auto simp: Let_def)

declare merge_lines.simps [simp del]

definition tn_config_merge_preserve :: "string \<Rightarrow> string \<Rightarrow> nat \<Rightarrow> string option" where
  "tn_config_merge_preserve new_text old_text bsize =
     (if bsize = 0 then None else merge_lines bsize (take (bsize - 1) new_text) old_text)"

end
