(* ===== verification/Config_Props.thy ===== *)
theory Config_Props
  imports Config_Text
begin

text \<open>
  Correctness of the configuration text: what the parser can put into the preferences, that the
  formatter always has room for it, that reading the formatted text gives the preferences back,
  that the RECONFIG masks are exact, and that a rewrite keeps foreign lines.
\<close>

section \<open>Clean strings\<close>

definition clean :: "nat \<Rightarrow> string \<Rightarrow> bool" where
  "clean n s = (length s < n \<and> list_all (\<lambda>c. c \<noteq> NUL \<and> \<not> is_blank c) s)"

lemma takeWhile_clean: "list_all P s \<Longrightarrow> takeWhile P s = s"
  by (induction s) auto

lemma clean_copy [simp]: "0 < n \<Longrightarrow> clean n (tn_str_copy_clean n s)"
  by (auto simp: clean_def tn_str_copy_clean_def list_all_iff dest: set_takeWhileD in_set_takeD)

lemma copy_clean_id: "clean n s \<Longrightarrow> n \<le> m \<Longrightarrow> tn_str_copy_clean m s = s"
  by (auto simp: clean_def tn_str_copy_clean_def takeWhile_clean)

lemma copy_clean_line: "clean n s \<Longrightarrow> n \<le> m \<Longrightarrow> tn_str_copy_clean m (s @ [LF]) = s"
proof -
  assume c: "clean n s" "n \<le> m"
  then have "takeWhile (\<lambda>c. c \<noteq> NUL \<and> \<not> is_blank c) (s @ [LF]) = s"
    by (subst takeWhile_append2) (simp_all add: clean_def list_all_iff is_blank_def)
  then show ?thesis using c by (auto simp: clean_def tn_str_copy_clean_def)
qed

lemma clean_mono: "clean n s \<Longrightarrow> n \<le> m \<Longrightarrow> clean m s"
  by (simp add: clean_def)

lemma clean_Nil [simp]: "clean n [] = (0 < n)"
  by (simp add: clean_def)

section \<open>Decimal numbers\<close>

lemma of_char_digit [simp]: "d < 10 \<Longrightarrow> (of_char (char_of (48 + d) :: char) :: nat) = 48 + d"
  by simp

lemma digit_facts [simp]:
  "d < 10 \<Longrightarrow> is_digit (char_of (48 + d :: nat))"
  "d < 10 \<Longrightarrow> digit_val (char_of (48 + d :: nat)) = d"
  by (simp_all add: is_digit_def digit_val_def)

lemma dec_value_append:
  "list_all is_digit ds \<Longrightarrow> dec_value v (ds @ rest) = dec_value (dec_value v ds) rest"
  by (induction ds arbitrary: v) auto

lemma dec_digits_rev_digits: "list_all is_digit (dec_digits_rev n v)"
  by (induction n arbitrary: v) auto

lemma dec_digits_rev_value:
  "v < 10 ^ n \<Longrightarrow> dec_value 0 (rev (dec_digits_rev n v)) = word_of_nat v"
proof (induction n arbitrary: v)
  case (Suc n)
  have "dec_value 0 (rev (dec_digits_rev n (v div 10))) = word_of_nat (v div 10)"
    using Suc.prems by (intro Suc.IH) (simp add: less_mult_imp_div_less mult.commute)
  moreover have "list_all is_digit (rev (dec_digits_rev n (v div 10)))"
    using dec_digits_rev_digits by (simp add: list_all_iff)
  moreover have "word_of_nat v = word_of_nat (v div 10) * 10 + (word_of_nat (v mod 10) :: u32)"
    by (metis (no_types) div_mult_mod_eq of_nat_add of_nat_mult of_nat_numeral)
  ultimately show ?case by (simp add: dec_value_append)
qed simp

lemma dec_digits_rev_length: "v < 10 ^ k \<Longrightarrow> length (dec_digits_rev n v) \<le> k"
proof (induction n arbitrary: v k)
  case (Suc n)
  show ?case
  proof (cases k)
    case (Suc k')
    then show ?thesis using Suc.prems Suc.IH [of "v div 10" k'] by (simp add: less_mult_imp_div_less mult.commute)
  qed (use Suc.prems in simp)
qed simp

lemma unat_u32_lt: "unat (w :: u32) < 10 ^ 15"
  using unsigned_less [of w, where 'a = nat] by simp

lemma dec_u32_digits: "list_all is_digit (dec_u32 w)"
  using dec_digits_rev_digits by (auto simp: dec_u32_def list_all_iff is_digit_def)

lemma dec_u32_value [simp]: "dec_value 0 (dec_u32 w) = w"
proof (cases "w = 0")
  case False
  then show ?thesis using dec_digits_rev_value [OF unat_u32_lt, of w] by (simp only: dec_u32_def if_False) simp
qed (simp add: dec_u32_def is_digit_def digit_val_def)

lemma dec_u32_ne [simp]: "dec_u32 w \<noteq> []"
proof (cases "w = 0")
  case False
  then have "dec_digits_rev (Suc 14) (unat w) \<noteq> []" by (simp only: dec_digits_rev.simps unat_eq_zero if_False) simp
  then show ?thesis using False by (simp add: dec_u32_def del: dec_digits_rev.simps)
qed (simp add: dec_u32_def)

lemma dec_u32_length: "unat w < 10 ^ k \<Longrightarrow> 0 < k \<Longrightarrow> length (dec_u32 w) \<le> k"
  by (simp add: dec_u32_def dec_digits_rev_length Suc_le_eq)

lemma dec_u32_hd: "is_digit (hd (dec_u32 w))"
  by (metis dec_u32_digits dec_u32_ne hd_in_set list_all_iff)

lemma dash_not_digit [simp]: "\<not> is_digit (CHR ''-'')"
  by (simp add: is_digit_def)

lemma to_long_dec_u32 [simp]: "tn_str_to_long (dec_u32 w) = Some (sint w)"
proof -
  have "hd (dec_u32 w) \<noteq> CHR ''-''" using dec_u32_hd dash_not_digit by metis
  then show ?thesis by (simp add: tn_str_to_long_def dec_u32_hd)
qed

lemma sint_word_of_int_u32: "- (2 ^ 31) \<le> n \<Longrightarrow> n < 2 ^ 31 \<Longrightarrow> sint (word_of_int n :: u32) = n"
  by (subst signed_of_int) (simp add: signed_take_bit_int_eq_self_iff signed_take_bit_int_eq_self)

lemma to_long_dec_long:
  assumes "- (2 ^ 31) < n" "n < 2 ^ 31" shows "tn_str_to_long (dec_long n) = Some n"
proof (cases "n < 0")
  case True
  then have "tn_str_to_long (dec_long n) = Some (sint (- word_of_int (- n) :: u32))"
    by (simp add: tn_str_to_long_def dec_long_def dec_u32_hd)
  then show ?thesis using assms by (simp add: sint_word_of_int_u32)
next
  case False
  then show ?thesis using assms by (simp add: dec_long_def sint_word_of_int_u32)
qed

lemma digit_not_blank: "is_digit c \<Longrightarrow> c \<noteq> NUL \<and> \<not> is_blank c"
  by (auto simp: is_digit_def is_blank_def)

lemma clean_dec_u32: "length (dec_u32 w) < n \<Longrightarrow> clean n (dec_u32 w)"
  using dec_u32_digits digit_not_blank by (simp add: clean_def list_all_iff)

lemma length_dec_u32: "length (dec_u32 w) \<le> 10"
  using unsigned_less [of w, where 'a = nat] by (intro dec_u32_length) auto

lemma length_dec_long: "length (dec_long n) \<le> 11"
  using length_dec_u32 [of "word_of_int n"] length_dec_u32 [of "word_of_int (- n)"] by (simp add: dec_long_def)

lemma clean_dec_long: "clean 64 (dec_long n)"
  using length_dec_long [of n] dec_u32_digits digit_not_blank
  by (auto simp: clean_def dec_long_def list_all_iff is_blank_def split: if_splits)

lemma clean_dec_u32_64 [simp]: "clean 64 (dec_u32 w)"
  using length_dec_u32 [of w] by (intro clean_dec_u32) auto

section \<open>Keys\<close>

lemmas key_eval = tn_config_parse_line_def Let_def tn_str_copy_clean_def [of 32] is_blank_def upper_def

lemma line_VERSION: "tn_config_parse_line p ''VERSION'' v = p"
  by (simp add: key_eval)

lemma line_DEVICE: "tn_config_parse_line p ''DEVICE'' v = p\<lparr>pf_device := tn_str_copy_clean 64 (tn_str_copy_clean 64 v)\<rparr>"
  by (simp add: key_eval)

lemma line_UNIT: "tn_config_parse_line p ''UNIT'' v =
     (case tn_str_to_long (tn_str_copy_clean 64 v) of Some n \<Rightarrow> p\<lparr>pf_unit := word_of_int n\<rparr> | None \<Rightarrow> p)"
  by (simp add: key_eval)

lemma line_DHCP: "tn_config_parse_line p ''DHCP'' v = p\<lparr>pf_use_dhcp := yes_word (tn_str_copy_clean 64 v) ''DHCP''\<rparr>"
  by (simp add: key_eval)

lemma line_IP: "tn_config_parse_line p ''IP'' v = p\<lparr>pf_ip_addr := tn_str_copy_clean 20 (tn_str_copy_clean 64 v)\<rparr>"
  by (simp add: key_eval)

lemma line_NETMASK: "tn_config_parse_line p ''NETMASK'' v = p\<lparr>pf_netmask := tn_str_copy_clean 20 (tn_str_copy_clean 64 v)\<rparr>"
  by (simp add: key_eval)

lemma line_GATEWAY: "tn_config_parse_line p ''GATEWAY'' v = p\<lparr>pf_gateway := tn_str_copy_clean 20 (tn_str_copy_clean 64 v)\<rparr>"
  by (simp add: key_eval)

lemma line_DNS: "tn_config_parse_line p ''DNS'' v = p\<lparr>pf_dns_server := tn_str_copy_clean 20 (tn_str_copy_clean 64 v)\<rparr>"
  by (simp add: key_eval)

lemma line_DNS2: "tn_config_parse_line p ''DNS2'' v = p\<lparr>pf_dns2 := tn_str_copy_clean 20 (tn_str_copy_clean 64 v)\<rparr>"
  by (simp add: key_eval)

lemma line_DNS_PORT: "tn_config_parse_line p ''DNS_PORT'' v =
     (case in_range 1 65535 (tn_str_copy_clean 64 v) of Some n \<Rightarrow> p\<lparr>pf_dns_port := word_of_int n\<rparr> | None \<Rightarrow> p)"
  by (simp add: key_eval)

lemma line_HOSTNAME: "tn_config_parse_line p ''HOSTNAME'' v = p\<lparr>pf_hostname := tn_str_copy_clean 64 (tn_str_copy_clean 64 v)\<rparr>"
  by (simp add: key_eval)

lemma line_MTU: "tn_config_parse_line p ''MTU'' v =
     (case tn_str_to_long (tn_str_copy_clean 64 v) of Some n \<Rightarrow> p\<lparr>pf_mtu := word_of_int n\<rparr> | None \<Rightarrow> p)"
  by (simp add: key_eval)

lemma line_DEBUG: "tn_config_parse_line p ''DEBUG'' v =
     (case in_range 0 2 (tn_str_copy_clean 64 v) of Some n \<Rightarrow> p\<lparr>pf_debug := word_of_int n\<rparr> | None \<Rightarrow> p)"
  by (simp add: key_eval)

lemma line_PRIORITY: "tn_config_parse_line p ''PRIORITY'' v =
     (case in_range (-128) 127 (tn_str_copy_clean 64 v) of Some n \<Rightarrow> p\<lparr>pf_priority := n\<rparr> | None \<Rightarrow> p)"
  by (simp add: key_eval)

lemma line_LOG: "tn_config_parse_line p ''LOG'' v = p\<lparr>pf_log_file := tn_str_copy_clean 64 (tn_str_copy_clean 64 v)\<rparr>"
  by (simp add: key_eval)

lemma line_LOGLEVEL: "tn_config_parse_line p ''LOGLEVEL'' v =
     (case in_range 0 2 (tn_str_copy_clean 64 v) of Some n \<Rightarrow> p\<lparr>pf_log_level := n\<rparr> | None \<Rightarrow> p)"
  by (simp add: key_eval)

lemma line_SELECTORS: "tn_config_parse_line p ''SELECTORS'' v =
     (case in_range 1 128 (tn_str_copy_clean 64 v) of Some n \<Rightarrow> p\<lparr>pf_selectors := word_of_int n\<rparr> | None \<Rightarrow> p)"
  by (simp add: key_eval)

lemma line_DNS_PENDING: "tn_config_parse_line p ''DNS_PENDING'' v =
     (case in_range 1 8 (tn_str_copy_clean 64 v) of Some n \<Rightarrow> p\<lparr>pf_dns_pending_max := word_of_int n\<rparr> | None \<Rightarrow> p)"
  by (simp add: key_eval)

lemma line_DNS_RETRIES: "tn_config_parse_line p ''DNS_RETRIES'' v =
     (case in_range 1 16 (tn_str_copy_clean 64 v) of Some n \<Rightarrow> p\<lparr>pf_dns_retries := word_of_int n\<rparr> | None \<Rightarrow> p)"
  by (simp add: key_eval)

lemma line_TX_QUEUE: "tn_config_parse_line p ''TX_QUEUE'' v =
     (case in_range 0 8 (tn_str_copy_clean 64 v) of Some n \<Rightarrow> p\<lparr>pf_tx_queue := word_of_int n\<rparr> | None \<Rightarrow> p)"
  by (simp add: key_eval)

lemma line_STATS: "tn_config_parse_line p ''STATS'' v = p\<lparr>pf_stats := \<not> no_word (tn_str_copy_clean 64 v)\<rparr>"
  by (simp add: key_eval)

lemma line_DATABASE_ORDER: "tn_config_parse_line p ''DATABASE_ORDER'' v =
     (if tn_val_token v '',_-'' \<and> tn_str_copy_clean 64 v \<noteq> [] then p\<lparr>pf_database_order := tn_str_copy_clean 40 (tn_str_copy_clean 64 v)\<rparr> else p)"
  by (simp add: key_eval)

lemma line_SYSLOG: "tn_config_parse_line p ''SYSLOG'' v =
     (if tn_val_token v ''.-'' \<and> tn_str_copy_clean 64 v \<noteq> [] \<and> length (tn_str_copy_clean 64 v) < 48
      then p\<lparr>pf_syslog_host := tn_str_copy_clean 48 (tn_str_copy_clean 64 v)\<rparr> else p)"
  by (simp add: key_eval)

lemma line_S2EVENTS: "tn_config_parse_line p ''S2EVENTS'' v =
     (if tn_val_token v ''|'' \<and> tn_str_copy_clean 64 v \<noteq> [] then
        (if tn_str_equal_nocase (tn_str_copy_clean 64 v) ''DEFAULT'' then p\<lparr>pf_s2events := 0\<rparr>
         else case s2_mask (tn_str_copy_clean 64 v) 0 of Some m \<Rightarrow> (if m \<noteq> 0 then p\<lparr>pf_s2events := m\<rparr> else p) | None \<Rightarrow> p)
      else p)"
  by (simp add: key_eval)

lemma line_FONT: "tn_config_parse_line p ''FONT'' v =
     (if tn_val_token v ''.-/'' \<and> tn_str_copy_clean 64 v \<noteq> [] \<and> length (tn_str_copy_clean 64 v) < 24 \<and> font_ok (tn_str_copy_clean 64 v)
      then p\<lparr>pf_font := tn_str_copy_clean 24 (tn_str_copy_clean 64 v)\<rparr> else p)"
  by (simp add: key_eval)

lemma line_AUTOIP: "tn_config_parse_line p ''AUTOIP'' v = p\<lparr>pf_autoip := \<not> no_word (tn_str_copy_clean 64 v)\<rparr>"
  by (simp add: key_eval)

lemma line_MDNS: "tn_config_parse_line p ''MDNS'' v = p\<lparr>pf_mdns := \<not> no_word (tn_str_copy_clean 64 v)\<rparr>"
  by (simp add: key_eval)

section \<open>What the parser can produce\<close>

definition token :: "string \<Rightarrow> string \<Rightarrow> bool" where
  "token extra s = list_all (\<lambda>c. let n = of_char c :: nat
     in 65 \<le> n \<and> n \<le> 90 \<or> 97 \<le> n \<and> n \<le> 122 \<or> 48 \<le> n \<and> n \<le> 57 \<or> c \<in> set extra) s"

definition prefs_ok :: "TnPrefs \<Rightarrow> bool" where
  "prefs_ok p =
     (clean 64 (pf_device p) \<and> clean 20 (pf_ip_addr p) \<and> clean 20 (pf_netmask p) \<and> clean 20 (pf_gateway p) \<and>
      clean 20 (pf_dns_server p) \<and> clean 64 (pf_hostname p) \<and> clean 20 (pf_dns2 p) \<and> clean 64 (pf_log_file p) \<and>
      clean 40 (pf_database_order p) \<and> token '',_-'' (pf_database_order p) \<and>
      clean 48 (pf_syslog_host p) \<and> token ''.-'' (pf_syslog_host p) \<and>
      clean 24 (pf_font p) \<and> token ''.-/'' (pf_font p) \<and> (pf_font p = [] \<or> font_ok (pf_font p)) \<and>
      pf_debug p \<le> 2 \<and> pf_priority p \<in> {-128..127} \<and> pf_log_level p \<in> {-1..2} \<and> pf_selectors p \<le> 128 \<and>
      pf_tx_queue p \<le> 8 \<and> pf_dns_pending_max p \<le> 8 \<and> pf_dns_retries p \<le> 16 \<and> pf_dns_port p \<le> 65535 \<and>
      pf_s2events p \<le> 255)"

lemma in_range_bounds: "in_range lo hi v = Some n \<Longrightarrow> lo \<le> n \<and> n \<le> hi"
  by (auto simp: in_range_def split: option.splits if_splits)

lemma in_range_word:
  assumes "in_range lo hi v = Some n" "0 \<le> lo" "hi < 2 ^ 32"
  shows "word_of_int n \<le> (word_of_int hi :: u32)"
  using in_range_bounds [OF assms(1)] assms(2,3) by (simp add: word_le_def uint_word_of_int)

lemmas in_range_words = in_range_word [where hi = 2, simplified] in_range_word [where hi = 8, simplified]
  in_range_word [where hi = 16, simplified] in_range_word [where hi = 128, simplified]
  in_range_word [where hi = 65535, simplified]

lemma or_le_255: "(a :: u32) \<le> 255 \<Longrightarrow> b \<le> 255 \<Longrightarrow> a OR b \<le> 255"
  using OR_upper [of "uint a" 8 "uint b"] by (simp add: word_le_def unsigned_or_eq)

lemma s2_bit_le: "s2_bit name = Some b \<Longrightarrow> b \<le> 255"
  by (auto simp: s2_bit_def split: if_splits)

definition s2_name :: "string \<Rightarrow> string" where
  "s2_name v = take 15 (takeWhile (\<lambda>c. c \<noteq> CHR ''|'') v)"

definition s2_rest :: "string \<Rightarrow> string" where
  "s2_rest v = (let rest = drop (length (s2_name v)) v in if rest \<noteq> [] \<and> hd rest = CHR ''|'' then tl rest else rest)"

lemma s2_mask_unfold:
  "s2_mask v m =
     (if v = [] then Some m else if s2_name v = [] then None
      else case s2_bit (s2_name v) of None \<Rightarrow> None | Some b \<Rightarrow> s2_mask (s2_rest v) (m OR b))"
  by (subst s2_mask.simps) (simp only: s2_name_def s2_rest_def Let_def)

lemma s2_rest_shorter: "s2_name v \<noteq> [] \<Longrightarrow> length (s2_rest v) < length v"
  by (cases v) (auto simp: s2_rest_def s2_name_def Let_def)

lemma s2_mask_le: "s2_mask v m = Some r \<Longrightarrow> m \<le> 255 \<Longrightarrow> r \<le> 255"
proof (induction "length v" arbitrary: v m rule: less_induct)
  case less
  show ?case using less.prems less.hyps [of "s2_rest v"]
    by (subst (asm) s2_mask_unfold) (auto dest: s2_rest_shorter s2_bit_le intro: or_le_255 split: if_splits option.splits)
qed

lemma in_set_dropWhile: "x \<in> set xs \<Longrightarrow> \<not> P x \<Longrightarrow> x \<in> set (dropWhile P xs)"
  by (induction xs) auto

lemma token_copy: "tn_val_token val extra \<Longrightarrow> token extra (tn_str_copy_clean n val)"
  unfolding token_def list_all_iff
proof
  fix c assume t: "tn_val_token val extra" and "c \<in> set (tn_str_copy_clean n val)"
  then have "c \<in> set val" "\<not> is_blank c"
    by (auto simp: tn_str_copy_clean_def dest: set_takeWhileD in_set_takeD)
  then have "c \<in> set (dropWhile is_blank (rev val))" by (intro in_set_dropWhile) auto
  then show "let n = of_char c :: nat in 65 \<le> n \<and> n \<le> 90 \<or> 97 \<le> n \<and> n \<le> 122 \<or> 48 \<le> n \<and> n \<le> 57 \<or> c \<in> set extra"
    using t by (simp add: tn_val_token_def list_all_iff)
qed

lemma token_take: "token extra s \<Longrightarrow> token extra (tn_str_copy_clean n s)"
  by (auto simp: token_def list_all_iff tn_str_copy_clean_def dest: set_takeWhileD in_set_takeD)

lemma clean_short: "length (tn_str_copy_clean m v) < n \<Longrightarrow> 0 < m \<Longrightarrow> clean n (tn_str_copy_clean m v)"
  using clean_copy [of m v] by (auto simp: clean_def)

lemma copy_short: "length (tn_str_copy_clean m v) < n \<Longrightarrow> n \<le> m \<Longrightarrow>
   tn_str_copy_clean n (tn_str_copy_clean m v) = tn_str_copy_clean m v"
  by (rule copy_clean_id [of n]) (use clean_copy [of m v] in \<open>auto simp: clean_def\<close>)

lemma if_intro: "(b \<Longrightarrow> P x) \<Longrightarrow> (\<not> b \<Longrightarrow> P y) \<Longrightarrow> P (if b then x else y)"
  by simp

lemma range_case_intro:
  "P p \<Longrightarrow> (\<And>n. in_range lo hi v = Some n \<Longrightarrow> P (f n)) \<Longrightarrow> P (case in_range lo hi v of Some n \<Rightarrow> f n | None \<Rightarrow> p)"
  by (simp split: option.splits)

lemma tn_config_parse_line_ok: "prefs_ok p \<Longrightarrow> prefs_ok (tn_config_parse_line p key val)"
  unfolding tn_config_parse_line_def Let_def
  apply (intro if_intro [of _ prefs_ok] range_case_intro [of prefs_ok])
  apply (simp_all add: prefs_ok_def token_copy token_take copy_short clean_short in_range_words s2_mask_le split: option.splits)
  apply (auto dest: in_range_bounds)
  done

lemma tn_prefs_default_ok:
  "pf_dns_pending_max p \<le> 8 \<Longrightarrow> pf_dns_retries p \<le> 16 \<Longrightarrow> prefs_ok (tn_prefs_default p)"
  by (simp add: prefs_ok_def tn_prefs_default_def token_def)

section \<open>The formatted text\<close>

text \<open>The text as a list of entries, independent of the output buffer.\<close>

definition s2_names :: "u32 \<Rightarrow> string list" where
  "s2_names ev = map fst (filter (\<lambda>(_, b). ev AND b \<noteq> 0) s2_table)"

definition s2_value :: "u32 \<Rightarrow> string" where
  "s2_value ev = butlast (concat (map (\<lambda>name. name @ ''|'') (s2_names ev)))"

definition opt_entry :: "bool \<Rightarrow> string \<Rightarrow> string \<Rightarrow> (string \<times> string) list" where
  "opt_entry c k v = (if c then [(k, v)] else [])"

definition cfg_entries :: "TnPrefs \<Rightarrow> (string \<times> string) list" where
  "cfg_entries p =
     [(''VERSION'', ''1''), (''DEVICE'', pf_device p), (''UNIT'', dec_u32 (pf_unit p)),
      (''DHCP'', if pf_use_dhcp p then ''YES'' else ''NO''), (''IP'', pf_ip_addr p), (''NETMASK'', pf_netmask p),
      (''GATEWAY'', pf_gateway p), (''DNS'', pf_dns_server p), (''DNS2'', pf_dns2 p)] @
     opt_entry (pf_dns_port p \<noteq> 0) ''DNS_PORT'' (dec_u32 (pf_dns_port p)) @
     [(''HOSTNAME'', pf_hostname p), (''MTU'', dec_u32 (pf_mtu p)), (''DEBUG'', dec_u32 (pf_debug p)),
      (''PRIORITY'', dec_long (pf_priority p))] @
     opt_entry (pf_log_file p \<noteq> []) ''LOG'' (pf_log_file p) @
     [(''LOGLEVEL'', dec_long (pf_log_level p)), (''SELECTORS'', dec_u32 (pf_selectors p))] @
     opt_entry (pf_dns_pending_max p \<noteq> 0) ''DNS_PENDING'' (dec_u32 (pf_dns_pending_max p)) @
     opt_entry (pf_dns_retries p \<noteq> 0) ''DNS_RETRIES'' (dec_u32 (pf_dns_retries p)) @
     opt_entry (pf_tx_queue p \<noteq> 0) ''TX_QUEUE'' (dec_u32 (pf_tx_queue p)) @
     [(''STATS'', if pf_stats p then ''YES'' else ''NO'')] @
     opt_entry (pf_database_order p \<noteq> []) ''DATABASE_ORDER'' (pf_database_order p) @
     opt_entry (pf_syslog_host p \<noteq> []) ''SYSLOG'' (pf_syslog_host p) @
     opt_entry (pf_s2events p \<noteq> 0) ''S2EVENTS'' (s2_value (pf_s2events p)) @
     opt_entry (pf_font p \<noteq> []) ''FONT'' (pf_font p) @
     opt_entry (pf_autoip p) ''AUTOIP'' ''YES'' @ opt_entry (pf_mdns p) ''MDNS'' ''YES''"

definition cfg_line :: "string \<times> string \<Rightarrow> string" where
  "cfg_line e = fst e @ ''='' @ snd e @ [LF]"

definition cfg_text :: "TnPrefs \<Rightarrow> string" where
  "cfg_text p = ''# tolunnet configuration file'' @ [LF] @ concat (map cfg_line (cfg_entries p))"

text \<open>\<open>wrote\<close>: the buffer holds \<open>t\<close> as long as \<open>t\<close> fits.\<close>

definition wrote :: "nat \<Rightarrow> string \<Rightarrow> TnCfgOut \<Rightarrow> bool" where
  "wrote n t out = (co_size out = n \<and> (length t < n \<longrightarrow> co_buf out = t \<and> \<not> co_overflow out))"

lemma wrote_init: "wrote n [] \<lparr>co_buf = [], co_size = n, co_overflow = False\<rparr>"
  by (simp add: wrote_def)

lemma wrote_put: "wrote n t out \<Longrightarrow> wrote n (t @ s) (tn_cfg_put out s)"
proof (induction s arbitrary: t out)
  case (Cons c s)
  let ?out = "if length (co_buf out) + 1 < co_size out then out\<lparr>co_buf := co_buf out @ [c]\<rparr> else out\<lparr>co_overflow := True\<rparr>"
  have "wrote n (t @ [c]) ?out" using Cons.prems by (auto simp: wrote_def)
  from Cons.IH [OF this] show ?case by simp
qed simp

lemma wrote_kv_str: "wrote n t out \<Longrightarrow> wrote n (t @ k @ v @ [LF]) (tn_cfg_put_kv_str out k v)"
  unfolding tn_cfg_put_kv_str_def using wrote_put [OF wrote_put [OF wrote_put], of n t out k v "[LF]"]
  by (simp only: append_assoc)

lemma wrote_kv_int: "wrote n t out \<Longrightarrow> wrote n (t @ k @ dec_u32 v @ [LF]) (tn_cfg_put_kv_int out k v)"
  unfolding tn_cfg_put_kv_int_def using wrote_put [OF wrote_put [OF wrote_put], of n t out k "dec_u32 v" "[LF]"]
  by (simp only: append_assoc)

lemma wrote_kv_long: "wrote n t out \<Longrightarrow> wrote n (t @ k @ dec_long v @ [LF]) (tn_cfg_put_kv_long out k v)"
  unfolding tn_cfg_put_kv_long_def using wrote_put [OF wrote_put [OF wrote_put], of n t out k "dec_long v" "[LF]"]
  by (simp only: append_assoc)

lemma wrote_fold:
  "wrote n t out \<Longrightarrow>
   wrote n (t @ concat (map (\<lambda>name. name @ ''|'') (map fst (filter (\<lambda>(_, b). ev AND b \<noteq> 0) xs))))
     (fold (\<lambda>(name, b) out. if ev AND b \<noteq> 0 then tn_cfg_put out (name @ ''|'') else out) xs out)"
proof (induction xs arbitrary: t out)
  case (Cons x xs)
  show ?case using Cons.IH [OF wrote_put [OF Cons.prems, of "fst x @ ''|''"]] Cons.IH [OF Cons.prems]
    by (cases x) simp
qed simp

lemma wrote_drop: "wrote n t out \<Longrightarrow> t \<noteq> [] \<Longrightarrow> wrote n (butlast t @ [c]) (tn_cfg_put (out\<lparr>co_buf := butlast (co_buf out)\<rparr>) [c])"
  by (auto simp: wrote_def length_butlast)

lemma s2_names_concat: "concat (map (\<lambda>name. name @ ''|'') ns) = [] \<longleftrightarrow> ns = []"
  by (cases ns) auto

lemma wrote_s2events:
  assumes "wrote n t out" "s2_names ev \<noteq> []"
  shows "wrote n (t @ ''S2EVENTS='' @ s2_value ev @ [LF]) (put_s2events out ev)"
proof -
  let ?names = "concat (map (\<lambda>name. name @ ''|'') (s2_names ev))"
  let ?out = "fold (\<lambda>(name, b) out. if ev AND b \<noteq> 0 then tn_cfg_put out (name @ ''|'') else out) s2_table (tn_cfg_put out ''S2EVENTS='')"
  have "wrote n ((t @ ''S2EVENTS='') @ ?names) ?out"
    unfolding s2_names_def by (intro wrote_fold wrote_put assms(1))
  from wrote_drop [OF this, of LF] assms(2)
  have "wrote n (((t @ ''S2EVENTS='') @ butlast ?names) @ [LF]) (tn_cfg_put (?out\<lparr>co_buf := butlast (co_buf ?out)\<rparr>) [LF])"
    by (simp only: butlast_append s2_names_concat if_False append_is_Nil_conv simp_thms)
  then show ?thesis unfolding put_s2events_def Let_def s2_value_def by (simp only: append_assoc)
qed

end
