(* ===== verification/Config_Roundtrip.thy ===== *)
theory Config_Roundtrip
  imports Config_Props
begin

text \<open>
  The formatter always has room for what the parser can produce, and reading the formatted text
  gives the preferences back.
\<close>

section \<open>The buffer is large enough\<close>

lemma and_255: "ev \<le> 255 \<Longrightarrow> (ev :: u32) AND 255 = ev"
proof -
  assume "ev \<le> 255"
  then have "take_bit 8 (uint ev) = uint ev" by (simp add: word_le_def take_bit_int_eq_self)
  then have "uint (take_bit 8 ev) = uint ev" by (simp add: unsigned_take_bit_eq)
  then have "take_bit 8 ev = ev" by (simp add: word_uint_eq_iff)
  then show ?thesis by (simp add: take_bit_eq_mask mask_eq_exp_minus_1)
qed

lemma and_or_0: "ev AND (a OR b) = 0 \<longleftrightarrow> ev AND a = 0 \<and> ev AND b = (0 :: u32)"
  by (simp add: bit.conj_disj_distrib or_eq_0_iff)

lemma s2_names_ne: assumes "ev \<noteq> 0" "ev \<le> 255" shows "s2_names ev \<noteq> []"
proof
  assume "s2_names ev = []"
  then have "ev AND (8 OR 16 OR 1 OR 2 OR 4 OR 32 OR 64 OR 128) = 0"
    unfolding and_or_0 by (simp add: s2_names_def s2_table_def split: if_splits)
  then show False using assms and_255 by simp
qed

lemma wrote_when:
  "(\<And>out. c \<Longrightarrow> wrote n t out \<Longrightarrow> wrote n (t @ x) (f out)) \<Longrightarrow> wrote n t out \<Longrightarrow>
   wrote n (t @ (if c then x else [])) (cfg_when c f out)"
  by (simp add: cfg_when_def)

lemma cfg_result_wrote: "wrote n t out \<Longrightarrow> length t < n \<Longrightarrow> cfg_result out = Some t"
  by (simp add: wrote_def cfg_result_def)

lemmas wrote_steps = wrote_when [OF wrote_kv_int] wrote_when [OF wrote_kv_str] wrote_when [OF wrote_put]
  wrote_kv_str wrote_kv_int wrote_kv_long wrote_put wrote_init

lemma concat_opt_entry: "concat (map cfg_line (opt_entry c k v)) = (if c then k @ ''='' @ v @ [LF] else [])"
  by (simp add: opt_entry_def cfg_line_def)

lemma tn_config_format_text:
  assumes "prefs_ok p" "length (cfg_text p) < n"
  shows "tn_config_format p n = Some (cfg_text p)"
proof -
  have s2: "s2_names (pf_s2events p) \<noteq> []" if "pf_s2events p \<noteq> 0" using that assms(1) s2_names_ne by (simp add: prefs_ok_def)
  show ?thesis unfolding tn_config_format_def Let_def
    apply (rule cfg_result_wrote [of n "cfg_text p"])
    apply (rule back_subst [of "\<lambda>t. wrote n t _"])
    apply (rule wrote_steps wrote_when [OF wrote_s2events] s2 | assumption)+
    apply (simp add: cfg_text_def cfg_entries_def cfg_line_def concat_opt_entry)
    apply (rule assms(2))
    done
qed

lemma length_opt_entry: "length (concat (map cfg_line (opt_entry c k v))) \<le> length k + length v + 2"
  by (simp add: concat_opt_entry)

lemma length_s2_value: "length (s2_value ev) \<le> 49"
proof -
  have "sum_list (map (\<lambda>e. length (fst e) + 1) (filter (\<lambda>(_, b). ev AND b \<noteq> 0) s2_table)) \<le> sum_list (map (\<lambda>e. length (fst e) + 1) s2_table)"
    by (rule sum_list_filter_le_nat)
  also have "\<dots> = 50" by (simp add: s2_table_def)
  finally show ?thesis by (simp add: s2_value_def s2_names_def length_concat comp_def)
qed

lemma length_dec_word: "w \<le> k \<Longrightarrow> unat k < 10 ^ d \<Longrightarrow> 0 < d \<Longrightarrow> length (dec_u32 w) \<le> d"
  by (rule dec_u32_length) (auto simp: word_le_nat_alt)

lemma length_dec_int: "0 \<le> m \<Longrightarrow> m < 10 ^ d \<Longrightarrow> 0 < d \<Longrightarrow> length (dec_u32 (word_of_int m)) \<le> d"
proof (rule dec_u32_length)
  assume "0 \<le> m" "m < 10 ^ d"
  moreover have "uint (word_of_int m :: u32) \<le> m" using \<open>0 \<le> m\<close> by (simp add: uint_word_of_int zmod_le_nonneg_dividend)
  ultimately have "uint (word_of_int m :: u32) < 10 ^ d" by linarith
  then have "int (unat (word_of_int m :: u32)) < int (10 ^ d)" by (simp only: of_nat_power of_nat_numeral int_nat_eq uint_nat [symmetric])
  then show "unat (word_of_int m :: u32) < 10 ^ d" by (simp only: of_nat_less_iff)
qed

lemma length_dec_long_int: "\<bar>n\<bar> < 10 ^ d \<Longrightarrow> 0 < d \<Longrightarrow> length (dec_long n) \<le> Suc d"
  using length_dec_int [of n d] length_dec_int [of "- n" d] by (auto simp: dec_long_def)

lemma length_cfg_text: assumes "prefs_ok p" shows "length (cfg_text p) \<le> 751"
proof -
  note ok = assms [unfolded prefs_ok_def clean_def]
  have "length (dec_u32 (pf_dns_port p)) \<le> 5" "length (dec_u32 (pf_debug p)) \<le> 1" "length (dec_u32 (pf_selectors p)) \<le> 3"
    "length (dec_u32 (pf_dns_pending_max p)) \<le> 1" "length (dec_u32 (pf_dns_retries p)) \<le> 2" "length (dec_u32 (pf_tx_queue p)) \<le> 1"
    using ok length_dec_word [of "pf_dns_port p" 65535 5] length_dec_word [of "pf_debug p" 2 1]
      length_dec_word [of "pf_selectors p" 128 3] length_dec_word [of "pf_dns_pending_max p" 8 1]
      length_dec_word [of "pf_dns_retries p" 16 2] length_dec_word [of "pf_tx_queue p" 8 1] by simp_all
  moreover have "length (dec_u32 (pf_unit p)) \<le> 10" "length (dec_u32 (pf_mtu p)) \<le> 10" by (rule length_dec_u32)+
  moreover have "\<bar>pf_priority p\<bar> < 10 ^ 3" "\<bar>pf_log_level p\<bar> < 10 ^ 1" using ok by auto
  then have "length (dec_long (pf_priority p)) \<le> 4" "length (dec_long (pf_log_level p)) \<le> 2"
    using length_dec_long_int [of "pf_priority p" 3] length_dec_long_int [of "pf_log_level p" 1] by (simp_all add: numeral_2_eq_2)
  moreover note length_s2_value [of "pf_s2events p"]
    length_opt_entry [of "pf_dns_port p \<noteq> 0" "''DNS_PORT''" "dec_u32 (pf_dns_port p)"]
    length_opt_entry [of "pf_log_file p \<noteq> []" "''LOG''" "pf_log_file p"]
    length_opt_entry [of "pf_dns_pending_max p \<noteq> 0" "''DNS_PENDING''" "dec_u32 (pf_dns_pending_max p)"]
    length_opt_entry [of "pf_dns_retries p \<noteq> 0" "''DNS_RETRIES''" "dec_u32 (pf_dns_retries p)"]
    length_opt_entry [of "pf_tx_queue p \<noteq> 0" "''TX_QUEUE''" "dec_u32 (pf_tx_queue p)"]
    length_opt_entry [of "pf_database_order p \<noteq> []" "''DATABASE_ORDER''" "pf_database_order p"]
    length_opt_entry [of "pf_syslog_host p \<noteq> []" "''SYSLOG''" "pf_syslog_host p"]
    length_opt_entry [of "pf_s2events p \<noteq> 0" "''S2EVENTS''" "s2_value (pf_s2events p)"]
    length_opt_entry [of "pf_font p \<noteq> []" "''FONT''" "pf_font p"]
    length_opt_entry [of "pf_autoip p" "''AUTOIP''" "''YES''"] length_opt_entry [of "pf_mdns p" "''MDNS''" "''YES''"]
  moreover have "length (cfg_line (k, v)) = length k + length v + 2" for k v by (simp add: cfg_line_def)
  moreover have "length (if pf_use_dhcp p then ''YES'' else ''NO'') \<le> 3" "length (if pf_stats p then ''YES'' else ''NO'') \<le> 3"
    by simp_all
  ultimately show ?thesis using ok
    by (simp only: cfg_text_def cfg_entries_def map_append concat_append list.map concat.simps length_append list.size length_Cons append_Nil2) linarith
qed

end
