(* ===== verification/Config_Read.thy ===== *)
theory Config_Read
  imports Config_Roundtrip
begin

text \<open>
  Reading back what was written.
\<close>

section \<open>Lines\<close>

definition key_text :: "string \<Rightarrow> bool" where
  "key_text k = (length k \<le> 31 \<and> list_all (\<lambda>c. c \<noteq> CHR ''='' \<and> c \<noteq> NUL \<and> \<not> is_blank c) k)"

lemma fgets_len_line: "LF \<notin> set l \<Longrightarrow> length l < 127 \<Longrightarrow> fgets_len (l @ LF # rest) = Suc (length l)"
proof -
  assume "LF \<notin> set l" "length l < 127"
  then have "takeWhile (\<lambda>c. c \<noteq> LF) (l @ LF # rest) = l" by (subst takeWhile_append2) auto
  then show ?thesis using \<open>length l < 127\<close> by (simp add: fgets_len_def)
qed

lemma cstr_id: "NUL \<notin> set l \<Longrightarrow> cstr l = l"
  unfolding cstr_def by (rule takeWhile_clean) (auto simp: list_all_iff)

lemma read_line:
  assumes "LF \<notin> set l" "NUL \<notin> set l" "length l < 127"
  shows "tn_prefs_read_text p b (l @ LF # rest) =
         (case parse_text_line p (l @ [LF]) of (p', b') \<Rightarrow> tn_prefs_read_text p' (b \<or> b') rest)"
  using assms by (subst tn_prefs_read_text.simps) (simp add: fgets_len_line cstr_id)

lemma parse_text_entry:
  assumes "key_text k" "clean 64 v"
  shows "parse_text_line p (k @ ''='' @ v @ [LF]) = (tn_config_parse_line p k (v @ [LF]), True)"
proof -
  let ?line = "k @ ''='' @ v @ [LF]"
  have "takeWhile (\<lambda>c. c \<noteq> CHR ''='') ?line = k" "dropWhile (\<lambda>c. c \<noteq> CHR ''='') ?line = CHR ''='' # v @ [LF]"
    using assms(1) by (simp_all add: key_text_def list_all_iff takeWhile_append2 dropWhile_append2)
  moreover have "dropWhile (\<lambda>c. c = SP \<or> c = TAB) (v @ [LF]) = v @ [LF]"
    using assms(2) by (cases v) (simp_all add: clean_def is_blank_def)
  ultimately show ?thesis by (simp add: parse_text_line_def Let_def)
qed

lemma read_entry:
  assumes "key_text k" "clean 64 v"
  shows "tn_prefs_read_text p b (cfg_line (k, v) @ rest) = tn_prefs_read_text (tn_config_parse_line p k (v @ [LF])) True rest"
proof -
  have "LF \<notin> set (k @ ''='' @ v)" "NUL \<notin> set (k @ ''='' @ v)" "length (k @ ''='' @ v) < 127"
    using assms by (auto simp: key_text_def clean_def list_all_iff is_blank_def)
  from read_line [OF this, of p b rest] show ?thesis
    using parse_text_entry [OF assms, of p] by (simp add: cfg_line_def)
qed

definition put_entry :: "string \<times> string \<Rightarrow> TnPrefs \<Rightarrow> TnPrefs" where
  "put_entry e p = tn_config_parse_line p (fst e) (snd e @ [LF])"

lemma read_entries:
  "list_all (\<lambda>e. key_text (fst e) \<and> clean 64 (snd e)) es \<Longrightarrow>
   tn_prefs_read_text p b (concat (map cfg_line es) @ rest) = tn_prefs_read_text (fold put_entry es p) (b \<or> es \<noteq> []) rest"
proof (induction es arbitrary: p b)
  case (Cons e es)
  then show ?case by (cases e) (simp add: read_entry put_entry_def)
qed simp

section \<open>The value of each entry\<close>

lemma token_line: "token extra s \<Longrightarrow> tn_val_token (s @ [LF]) extra"
  by (auto simp: tn_val_token_def token_def is_blank_def list_all_iff dest: set_dropWhileD)

lemma in_range_u32: "lo \<le> uint w \<Longrightarrow> uint w \<le> hi \<Longrightarrow> hi < 2 ^ 31 \<Longrightarrow> in_range lo hi (dec_u32 w) = Some (uint w)"
proof -
  assume a: "lo \<le> uint w" "uint w \<le> hi" "hi < 2 ^ 31"
  have "sint w = uint w" using sint_word_of_int_u32 [of "uint w"] uint_ge_0 [of w] a by simp
  then show ?thesis using a by (simp add: in_range_def)
qed

lemma in_range_long: "lo \<le> n \<Longrightarrow> n \<le> hi \<Longrightarrow> - (2 ^ 31) < lo \<Longrightarrow> hi < 2 ^ 31 \<Longrightarrow> in_range lo hi (dec_long n) = Some n"
  by (simp add: in_range_def to_long_dec_long)

lemma word_of_sint_u32: "word_of_int (sint (w :: u32)) = w"
  by simp

lemma uint_le: "w \<le> k \<Longrightarrow> uint w \<le> uint k" for w k :: u32
  by (simp add: word_le_def)

lemma uint_ge_1: "w \<noteq> 0 \<Longrightarrow> 1 \<le> uint w" for w :: u32
  using uint_ge_0 [of w] unsigned_eq_0_iff [of w, where 'a = int] by linarith

lemma clean_length: "clean n s \<Longrightarrow> length s < n"
  by (simp add: clean_def)

lemma put_clean_entries:
  "clean 64 (pf_device p) \<Longrightarrow> put_entry (''DEVICE'', pf_device p) r = r\<lparr>pf_device := pf_device p\<rparr>"
  "clean 20 (pf_ip_addr p) \<Longrightarrow> put_entry (''IP'', pf_ip_addr p) r = r\<lparr>pf_ip_addr := pf_ip_addr p\<rparr>"
  "clean 20 (pf_netmask p) \<Longrightarrow> put_entry (''NETMASK'', pf_netmask p) r = r\<lparr>pf_netmask := pf_netmask p\<rparr>"
  "clean 20 (pf_gateway p) \<Longrightarrow> put_entry (''GATEWAY'', pf_gateway p) r = r\<lparr>pf_gateway := pf_gateway p\<rparr>"
  "clean 20 (pf_dns_server p) \<Longrightarrow> put_entry (''DNS'', pf_dns_server p) r = r\<lparr>pf_dns_server := pf_dns_server p\<rparr>"
  "clean 20 (pf_dns2 p) \<Longrightarrow> put_entry (''DNS2'', pf_dns2 p) r = r\<lparr>pf_dns2 := pf_dns2 p\<rparr>"
  "clean 64 (pf_hostname p) \<Longrightarrow> put_entry (''HOSTNAME'', pf_hostname p) r = r\<lparr>pf_hostname := pf_hostname p\<rparr>"
  "clean 64 (pf_log_file p) \<Longrightarrow> put_entry (''LOG'', pf_log_file p) r = r\<lparr>pf_log_file := pf_log_file p\<rparr>"
  by (simp_all add: put_entry_def line_DEVICE line_IP line_NETMASK line_GATEWAY line_DNS line_DNS2 line_HOSTNAME line_LOG
    copy_clean_line copy_clean_id)

lemma put_number_entries:
  "put_entry (''VERSION'', ''1'') r = r"
  "put_entry (''UNIT'', dec_u32 (pf_unit p)) r = r\<lparr>pf_unit := pf_unit p\<rparr>"
  "put_entry (''MTU'', dec_u32 (pf_mtu p)) r = r\<lparr>pf_mtu := pf_mtu p\<rparr>"
  by (simp_all add: put_entry_def line_VERSION line_UNIT line_MTU copy_clean_line [of 64])

lemma put_range_entries:
  "pf_debug p \<le> 2 \<Longrightarrow> put_entry (''DEBUG'', dec_u32 (pf_debug p)) r = r\<lparr>pf_debug := pf_debug p\<rparr>"
  "pf_priority p \<in> {-128..127} \<Longrightarrow> put_entry (''PRIORITY'', dec_long (pf_priority p)) r = r\<lparr>pf_priority := pf_priority p\<rparr>"
  using in_range_u32 [of 0 "pf_debug p" 2]
  by (simp_all add: put_entry_def line_DEBUG line_PRIORITY copy_clean_line [of 64] clean_dec_long in_range_long word_le_def)

text \<open>Entries that are left out, or refused, when they hold the default.\<close>

lemma in_range_refused: "tn_str_to_long v = Some n \<Longrightarrow> n < lo \<Longrightarrow> in_range lo hi v = None"
  by (simp add: in_range_def)

lemma fold_opt_entry: "fold put_entry (opt_entry c k v) r = (if c then put_entry (k, v) r else r)"
  by (simp add: opt_entry_def)

lemma put_optional_numbers:
  "pf_dns_port p \<le> 65535 \<Longrightarrow> pf_dns_port r = 0 \<Longrightarrow>
   fold put_entry (opt_entry (pf_dns_port p \<noteq> 0) ''DNS_PORT'' (dec_u32 (pf_dns_port p))) r = r\<lparr>pf_dns_port := pf_dns_port p\<rparr>"
  "pf_tx_queue p \<le> 8 \<Longrightarrow> pf_tx_queue r = 0 \<Longrightarrow>
   fold put_entry (opt_entry (pf_tx_queue p \<noteq> 0) ''TX_QUEUE'' (dec_u32 (pf_tx_queue p))) r = r\<lparr>pf_tx_queue := pf_tx_queue p\<rparr>"
  "pf_dns_pending_max p \<le> 8 \<Longrightarrow>
   fold put_entry (opt_entry (pf_dns_pending_max p \<noteq> 0) ''DNS_PENDING'' (dec_u32 (pf_dns_pending_max p))) r =
   r\<lparr>pf_dns_pending_max := if pf_dns_pending_max p = 0 then pf_dns_pending_max r else pf_dns_pending_max p\<rparr>"
  "pf_dns_retries p \<le> 16 \<Longrightarrow>
   fold put_entry (opt_entry (pf_dns_retries p \<noteq> 0) ''DNS_RETRIES'' (dec_u32 (pf_dns_retries p))) r =
   r\<lparr>pf_dns_retries := if pf_dns_retries p = 0 then pf_dns_retries r else pf_dns_retries p\<rparr>"
  using uint_ge_1 [of "pf_dns_port p"] in_range_u32 [of 1 "pf_dns_port p" 65535] in_range_u32 [of 0 "pf_tx_queue p" 8]
    uint_ge_1 [of "pf_dns_pending_max p"] in_range_u32 [of 1 "pf_dns_pending_max p" 8]
    uint_ge_1 [of "pf_dns_retries p"] in_range_u32 [of 1 "pf_dns_retries p" 16]
  by (simp_all add: fold_opt_entry put_entry_def line_DNS_PORT line_TX_QUEUE line_DNS_PENDING line_DNS_RETRIES
      copy_clean_line [of 64] word_le_def)

lemma put_selectors:
  "pf_selectors p \<le> 128 \<Longrightarrow> pf_selectors r = 0 \<Longrightarrow>
   put_entry (''SELECTORS'', dec_u32 (pf_selectors p)) r = r\<lparr>pf_selectors := pf_selectors p\<rparr>"
  using uint_ge_1 [of "pf_selectors p"] in_range_u32 [of 1 "pf_selectors p" 128]
    in_range_refused [OF to_long_dec_u32, of "pf_selectors p" 1 128]
  by (cases "pf_selectors p = 0") (simp_all add: put_entry_def line_SELECTORS copy_clean_line [of 64] word_le_def)

lemma put_log_level:
  "pf_log_level p \<in> {-1..2} \<Longrightarrow> pf_log_level r = -1 \<Longrightarrow>
   put_entry (''LOGLEVEL'', dec_long (pf_log_level p)) r = r\<lparr>pf_log_level := pf_log_level p\<rparr>"
  using in_range_long [of 0 "pf_log_level p" 2] in_range_refused [OF to_long_dec_long, of "pf_log_level p" 0 2]
  by (cases "pf_log_level p = -1") (auto simp: put_entry_def line_LOGLEVEL copy_clean_line [of 64] clean_dec_long)

lemma put_flags:
  "put_entry (''DHCP'', if pf_use_dhcp p then ''YES'' else ''NO'') r = r\<lparr>pf_use_dhcp := pf_use_dhcp p\<rparr>"
  "put_entry (''STATS'', if pf_stats p then ''YES'' else ''NO'') r = r\<lparr>pf_stats := pf_stats p\<rparr>"
  "\<not> pf_autoip r \<Longrightarrow> fold put_entry (opt_entry (pf_autoip p) ''AUTOIP'' ''YES'') r = r\<lparr>pf_autoip := pf_autoip p\<rparr>"
  "\<not> pf_mdns r \<Longrightarrow> fold put_entry (opt_entry (pf_mdns p) ''MDNS'' ''YES'') r = r\<lparr>pf_mdns := pf_mdns p\<rparr>"
  by (simp_all add: fold_opt_entry put_entry_def line_DHCP line_STATS line_AUTOIP line_MDNS yes_word_def no_word_def
    tn_str_copy_clean_def is_blank_def upper_def)

lemma put_tokens:
  "clean 40 (pf_database_order p) \<Longrightarrow> token '',_-'' (pf_database_order p) \<Longrightarrow> pf_database_order r = [] \<Longrightarrow>
   fold put_entry (opt_entry (pf_database_order p \<noteq> []) ''DATABASE_ORDER'' (pf_database_order p)) r =
   r\<lparr>pf_database_order := pf_database_order p\<rparr>"
  "clean 48 (pf_syslog_host p) \<Longrightarrow> token ''.-'' (pf_syslog_host p) \<Longrightarrow> pf_syslog_host r = [] \<Longrightarrow>
   fold put_entry (opt_entry (pf_syslog_host p \<noteq> []) ''SYSLOG'' (pf_syslog_host p)) r = r\<lparr>pf_syslog_host := pf_syslog_host p\<rparr>"
  "clean 24 (pf_font p) \<Longrightarrow> token ''.-/'' (pf_font p) \<Longrightarrow> pf_font p = [] \<or> font_ok (pf_font p) \<Longrightarrow> pf_font r = [] \<Longrightarrow>
   fold put_entry (opt_entry (pf_font p \<noteq> []) ''FONT'' (pf_font p)) r = r\<lparr>pf_font := pf_font p\<rparr>"
  "clean 64 (pf_log_file p) \<Longrightarrow> pf_log_file r = [] \<Longrightarrow>
   fold put_entry (opt_entry (pf_log_file p \<noteq> []) ''LOG'' (pf_log_file p)) r = r\<lparr>pf_log_file := pf_log_file p\<rparr>"
  by (auto simp add: fold_opt_entry put_entry_def line_DATABASE_ORDER line_SYSLOG line_FONT line_LOG token_line
    copy_clean_line copy_clean_id clean_length)

section \<open>S2EVENTS\<close>

lemma single_bit: "(ev :: u32) AND 2 ^ n = 0 \<or> ev AND 2 ^ n = 2 ^ n"
  by (cases "bit ev n") (auto intro!: bit_eqI simp: bit_and_iff bit_exp_iff)

definition single :: "u32 \<Rightarrow> bool" where
  "single b = (\<exists>n. b = 2 ^ n)"

definition or_bits :: "(string \<times> u32) list \<Rightarrow> u32 \<Rightarrow> u32" where
  "or_bits = fold (\<lambda>(_, b) m. m OR b)"

lemma or_bits_start: "or_bits xs m = m OR or_bits xs 0"
proof (induction xs arbitrary: m)
  case (Cons x xs)
  show ?case using Cons [of "m OR snd x"] Cons [of "snd x"] by (cases x) (simp add: or_bits_def or.assoc)
qed (simp add: or_bits_def)

lemma or_bits_filter:
  "list_all (\<lambda>(_, b). single b) xs \<Longrightarrow> or_bits (filter (\<lambda>(_, b). ev AND b \<noteq> 0) xs) 0 = ev AND or_bits xs 0"
proof (induction xs)
  case (Cons x xs)
  obtain name b where x: "x = (name, b)" by (cases x)
  have "or_bits ((name, b) # ys) 0 = b OR or_bits ys 0" for ys
    using or_bits_start [of ys b] by (simp add: or_bits_def)
  moreover have "ev AND b = 0 \<or> ev AND b = b" using Cons.prems single_bit by (auto simp: x single_def)
  ultimately show ?case using Cons by (auto simp: x bit.conj_disj_distrib)
qed (simp add: or_bits_def)

lemma s2_table_single: "list_all (\<lambda>(_, b). single b) s2_table"
proof -
  have "single (2 ^ n)" for n by (auto simp: single_def)
  from this [of 0] this [of 1] this [of 2] this [of 3] this [of 4] this [of 5] this [of 6] this [of 7]
  show ?thesis by (simp add: s2_table_def)
qed

lemma s2_mask_join:
  "xs \<noteq> [] \<Longrightarrow> list_all (\<lambda>(name, b). name \<noteq> [] \<and> length name \<le> 15 \<and> CHR ''|'' \<notin> set name \<and> s2_bit name = Some b) xs \<Longrightarrow>
   s2_mask (butlast (concat (map (\<lambda>name. name @ ''|'') (map fst xs)))) m = Some (or_bits xs m)"
proof (induction xs arbitrary: m)
  case (Cons x xs)
  obtain name b where x: "x = (name, b)" by (cases x)
  have name: "name \<noteq> []" "length name \<le> 15" "CHR ''|'' \<notin> set name" "s2_bit name = Some b" using Cons.prems x by auto
  have tw: "takeWhile (\<lambda>c. c \<noteq> CHR ''|'') (name @ CHR ''|'' # w) = name" "takeWhile (\<lambda>c. c \<noteq> CHR ''|'') (name @ []) = name" for w
    using name(3) by (subst takeWhile_append2; auto)+
  show ?case
  proof (cases "xs = []")
    case True
    have "s2_name name = name" using name(2) tw(2) by (simp only: s2_name_def append_Nil2 take_all)
    moreover from this have "s2_rest name = []" by (simp add: s2_rest_def)
    moreover have "butlast (concat (map (\<lambda>name. name @ ''|'') (map fst (x # xs)))) = name" using True by (simp add: x)
    ultimately show ?thesis using name True
      by (subst s2_mask_unfold) (simp add: x or_bits_def s2_mask.simps [of "[]"])
  next
    case False
    let ?w = "butlast (concat (map (\<lambda>name. name @ ''|'') (map fst xs)))"
    have "butlast (concat (map (\<lambda>name. name @ ''|'') (map fst (x # xs)))) = name @ CHR ''|'' # ?w"
      using False by (simp add: x butlast_append s2_names_concat del: map_map)
    then show ?thesis using name tw(1) [of ?w] Cons.IH [OF False, of "m OR b"] Cons.prems(2)
      by (subst s2_mask_unfold) (simp add: x s2_name_def s2_rest_def Let_def or_bits_def)
  qed
qed simp

lemma s2_table_names:
  "list_all (\<lambda>(name, b). name \<noteq> [] \<and> length name \<le> 15 \<and> CHR ''|'' \<notin> set name \<and> s2_bit name = Some b) s2_table"
  by (simp add: s2_table_def s2_bit_def upper_def)

lemma s2_mask_value: assumes "ev \<noteq> 0" "ev \<le> 255" shows "s2_mask (s2_value ev) 0 = Some ev"
proof -
  let ?xs = "filter (\<lambda>(_, b). ev AND b \<noteq> 0) s2_table"
  have "?xs \<noteq> []" using s2_names_ne [OF assms] by (auto simp: s2_names_def)
  moreover have "list_all (\<lambda>(name, b). name \<noteq> [] \<and> length name \<le> 15 \<and> CHR ''|'' \<notin> set name \<and> s2_bit name = Some b) ?xs"
    using s2_table_names by (simp add: list_all_iff)
  moreover have "or_bits s2_table 0 = 255" by (simp add: or_bits_def s2_table_def)
  ultimately show ?thesis using s2_mask_join [of ?xs 0] or_bits_filter [OF s2_table_single, of ev] and_255 [OF assms(2)]
    by (simp add: s2_value_def s2_names_def)
qed

lemma s2_value_chars: "c \<in> set (s2_value ev) \<Longrightarrow> c = CHR ''|'' \<or> c \<in> set (concat (map fst s2_table))"
  by (auto simp: s2_value_def s2_names_def split: if_splits dest!: in_set_butlastD)

lemma s2_value_token: "token ''|'' (s2_value ev)" "clean 64 (s2_value ev)"
proof -
  have c: "list_all (\<lambda>c. (c = CHR ''|'' \<or> 65 \<le> (of_char c :: nat) \<and> (of_char c :: nat) \<le> 90)) (s2_value ev)"
    unfolding list_all_iff by (auto dest!: s2_value_chars simp: s2_table_def)
  then show "token ''|'' (s2_value ev)" by (auto simp: token_def list_all_iff Let_def)
  have "c = CHR ''|'' \<or> 65 \<le> (of_char c :: nat) \<and> (of_char c :: nat) \<le> 90 \<Longrightarrow> c \<noteq> NUL \<and> \<not> is_blank c" for c
    by (auto simp: is_blank_def)
  with c length_s2_value [of ev] show "clean 64 (s2_value ev)" by (auto simp: clean_def list_all_iff)
qed
lemma nocase_map: "tn_str_equal_nocase a b = (map upper a = map upper b)"
  by (induction a b rule: tn_str_equal_nocase.induct) auto

lemma s2_mask_default: assumes "tn_str_equal_nocase v ''DEFAULT''" shows "s2_mask v m = None"
proof -
  have up: "map upper v = ''DEFAULT''" using assms by (simp add: nocase_map upper_def)
  have "upper c \<noteq> CHR ''|''" if "c \<in> set v" for c
  proof -
    have "upper c \<in> set ''DEFAULT''" using that by (simp flip: up)
    then show ?thesis by auto
  qed
  from this [of "CHR ''|''"] have "CHR ''|'' \<notin> set v" by (auto simp: upper_def)
  then have tw: "takeWhile (\<lambda>c. c \<noteq> CHR ''|'') v = v" by (intro takeWhile_clean) (auto simp: list_all_iff)
  have len: "length v = 7" using arg_cong [OF up, of length] by simp
  have name: "s2_name v = v" unfolding s2_name_def tw by (rule take_all) (simp add: len)
  have "list_all (\<lambda>e. map upper (fst e) \<noteq> ''DEFAULT'') s2_table" by (simp add: s2_table_def upper_def)
  then have "s2_bit v = None" by (simp add: s2_bit_def nocase_map up s2_table_def)
  moreover have "v \<noteq> []" using len by auto
  ultimately show ?thesis by (subst s2_mask_unfold) (simp add: name)
qed

lemma put_s2_entry:
  assumes "pf_s2events p \<le> 255" "pf_s2events r = 0"
  shows "fold put_entry (opt_entry (pf_s2events p \<noteq> 0) ''S2EVENTS'' (s2_value (pf_s2events p))) r = r\<lparr>pf_s2events := pf_s2events p\<rparr>"
proof (cases "pf_s2events p = 0")
  case False
  let ?v = "s2_value (pf_s2events p)"
  have m: "s2_mask ?v 0 = Some (pf_s2events p)" using s2_mask_value [OF False assms(1)] .
  then have "\<not> tn_str_equal_nocase ?v ''DEFAULT''" using s2_mask_default by fastforce
  moreover have "?v \<noteq> []" using m False by (auto simp: s2_mask.simps [of "[]"])
  ultimately show ?thesis using m False s2_value_token [of "pf_s2events p"]
    by (simp add: fold_opt_entry put_entry_def line_S2EVENTS token_line copy_clean_line)
qed (use assms in \<open>simp add: fold_opt_entry\<close>)

section \<open>The round trip\<close>

text \<open>What the text does not carry: DIAG, and DNS_PENDING and DNS_RETRIES at their default.\<close>

definition read_back :: "TnPrefs \<Rightarrow> TnPrefs \<Rightarrow> TnPrefs" where
  "read_back q p = p\<lparr>pf_diag := False,
     pf_dns_pending_max := if pf_dns_pending_max p = 0 then pf_dns_pending_max q else pf_dns_pending_max p,
     pf_dns_retries := if pf_dns_retries p = 0 then pf_dns_retries q else pf_dns_retries p\<rparr>"

lemma fold_entries:
  assumes "prefs_ok p" shows "fold put_entry (cfg_entries p) (tn_prefs_default q) = read_back q p"
proof -
  note ok = assms [unfolded prefs_ok_def]
  show ?thesis using ok
    by (simp add: cfg_entries_def put_clean_entries put_number_entries put_range_entries put_optional_numbers put_selectors
      put_log_level put_flags put_tokens put_s2_entry tn_prefs_default_def read_back_def)
qed

lemma list_all_opt_entry: "P (k, v) \<Longrightarrow> list_all P (opt_entry c k v)"
  by (simp add: opt_entry_def)

lemma cfg_entries_readable:
  assumes "prefs_ok p" shows "list_all (\<lambda>e. key_text (fst e) \<and> clean 64 (snd e)) (cfg_entries p)"
proof -
  note ok = assms [unfolded prefs_ok_def]
  have "clean 64 (pf_ip_addr p)" "clean 64 (pf_netmask p)" "clean 64 (pf_gateway p)" "clean 64 (pf_dns_server p)" "clean 64 (pf_dns2 p)"
    "clean 64 (pf_database_order p)" "clean 64 (pf_syslog_host p)" "clean 64 (pf_font p)"
    using ok by (auto elim: clean_mono)
  moreover have "clean 64 ''YES''" "clean 64 ''NO''" "clean 64 ''1''" by (simp_all add: clean_def is_blank_def)
  ultimately show ?thesis using ok
    by (simp add: cfg_entries_def list_all_opt_entry key_text_def is_blank_def clean_dec_long s2_value_token)
qed

lemma read_cfg_text_rest:
  assumes "prefs_ok p"
  shows "tn_prefs_read_text (tn_prefs_default q) False (cfg_text p @ rest) = tn_prefs_read_text (read_back q p) True rest"
proof -
  let ?h = "''# tolunnet configuration file''"
  have "tn_prefs_read_text r False (?h @ LF # rest) = tn_prefs_read_text r False rest" for r rest
    by (subst read_line) (simp_all add: parse_text_line_def Let_def)
  moreover have "cfg_entries p \<noteq> []" by (simp add: cfg_entries_def)
  ultimately show ?thesis using read_entries [OF cfg_entries_readable [OF assms]] fold_entries [OF assms]
    by (simp add: cfg_text_def)
qed

lemma read_cfg_text:
  assumes "prefs_ok p"
  shows "tn_prefs_read_text (tn_prefs_default q) False (cfg_text p) = (read_back q p, True)"
  using read_cfg_text_rest [OF assms, of q "[]"] by (simp add: tn_prefs_read_text.simps [of _ _ "[]"])

lemma tn_prefs_read_text_ok: "prefs_ok p \<Longrightarrow> prefs_ok (fst (tn_prefs_read_text p b s))"
proof (induction p b s rule: tn_prefs_read_text.induct)
  case (1 p b s)
  have "prefs_ok (fst (parse_text_line p l))" for l
    using 1(2) by (simp add: parse_text_line_def Let_def tn_config_parse_line_ok)
  from this [of "cstr (take (fgets_len s) s)"] show ?case
    using 1 by (subst tn_prefs_read_text.simps) (auto split: prod.splits)
qed

text \<open>
  C26. Whatever the configuration file holds, the preferences loaded from it are formatted within the
  768-byte buffer \<open>tn_prefs_save\<close> gives the formatter (751 characters at most), and loading the
  formatted text gives the same preferences back.  The exceptions are exact: DIAG is not written, and
  DNS_PENDING and DNS_RETRIES, when never set, keep what the loading side had.
\<close>
theorem config_roundtrip:
  assumes "pf_dns_pending_max q \<le> 8" "pf_dns_retries q \<le> 16"
  shows "\<exists>t. tn_config_format (fst (tn_prefs_read_text (tn_prefs_default q) False file)) 768 = Some t \<and> length t \<le> 751 \<and>
    tn_prefs_read_text (tn_prefs_default q') False t = (read_back q' (fst (tn_prefs_read_text (tn_prefs_default q) False file)), True)"
proof -
  let ?p = "fst (tn_prefs_read_text (tn_prefs_default q) False file)"
  have ok: "prefs_ok ?p" by (intro tn_prefs_read_text_ok tn_prefs_default_ok assms)
  then have "length (cfg_text ?p) < 768" using length_cfg_text [OF ok] by simp
  then show ?thesis using tn_config_format_text [OF ok, of 768] read_cfg_text [OF ok, of q'] length_cfg_text [OF ok] by blast
qed

definition sample_prefs :: TnPrefs where
  "sample_prefs = \<lparr>pf_device = [], pf_unit = 0, pf_use_dhcp = True, pf_ip_addr = [], pf_netmask = [], pf_gateway = [],
     pf_dns_server = [], pf_hostname = [], pf_dns2 = [], pf_mtu = 0, pf_debug = 0, pf_priority = 0, pf_log_file = [],
     pf_log_level = 0, pf_database_order = [], pf_selectors = 0, pf_stats = True, pf_syslog_host = [], pf_s2events = 0,
     pf_dns_port = 0, pf_dns_pending_max = 8, pf_dns_retries = 4, pf_tx_queue = 0, pf_font = [], pf_diag = True,
     pf_autoip = False, pf_mdns = False\<rparr>"

theorem config_roundtrip_witness:
  "\<exists>t. tn_config_format (fst (tn_prefs_read_text (tn_prefs_default sample_prefs) False
        (''IP=10.0.0.2'' @ [LF] @ ''S2EVENTS=TX|RX'' @ [LF] @ ''FONT=topaz/11''))) 768 = Some t \<and> length t \<le> 751 \<and>
    tn_prefs_read_text (tn_prefs_default sample_prefs) False t =
      (read_back sample_prefs (fst (tn_prefs_read_text (tn_prefs_default sample_prefs) False
        (''IP=10.0.0.2'' @ [LF] @ ''S2EVENTS=TX|RX'' @ [LF] @ ''FONT=topaz/11''))), True)"
  by (rule config_roundtrip) (simp_all add: sample_prefs_def)

end
