(* ===== verification/Config_Merge.thy ===== *)
theory Config_Merge
  imports Config_Read
begin

text \<open>
  The rewrite that keeps foreign lines: \<open>tn_config_merge_preserve\<close> against a reference definition on
  lines, and the lines of the formatter's own text.
\<close>

section \<open>Lines of a text\<close>

function text_lines :: "string \<Rightarrow> string list" where
  "text_lines s =
     (if s = [] then []
      else let line = takeWhile (\<lambda>c. c \<noteq> LF) s; rest = drop (length line) s
           in line # (if rest = [] then [] else text_lines (tl rest)))"
  by pat_completeness auto
termination
  by (relation "measure length") (auto simp: Let_def)

declare text_lines.simps [simp del]

definition lines_text :: "string list \<Rightarrow> string" where
  "lines_text ls = concat (map (\<lambda>l. l @ [LF]) ls)"

definition kept_lines :: "string \<Rightarrow> string list" where
  "kept_lines old = filter keep_line (text_lines old)"

lemma lines_text_Nil [simp]: "lines_text [] = []"
  by (simp add: lines_text_def)

lemma text_lines_Nil [simp]: "text_lines [] = []"
  by (simp add: text_lines.simps)

lemma text_lines_line: "LF \<notin> set l \<Longrightarrow> text_lines (l @ LF # rest) = l # text_lines rest"
proof -
  assume "LF \<notin> set l"
  then have "takeWhile (\<lambda>c. c \<noteq> LF) (l @ LF # rest) = l" by (subst takeWhile_append2) auto
  then show ?thesis by (subst text_lines.simps) (simp add: Let_def)
qed

lemma text_lines_lines_text: "list_all (\<lambda>l. LF \<notin> set l) ls \<Longrightarrow> text_lines (lines_text ls @ rest) = ls @ text_lines rest"
  by (induction ls) (simp_all add: lines_text_def text_lines_line)

lemma text_lines_LF_free: "list_all (\<lambda>l. LF \<notin> set l) (text_lines s)"
proof (induction s rule: text_lines.induct)
  case (1 s)
  then show ?case by (subst text_lines.simps) (auto simp: Let_def dest: set_takeWhileD)
qed

lemma length_text_lines: "length (lines_text (text_lines s)) \<le> Suc (length s)"
proof (induction s rule: text_lines.induct)
  case (1 s)
  show ?case
  proof (cases "s = []")
    case False
    let ?l = "takeWhile (\<lambda>c. c \<noteq> LF) s"
    have "length ?l \<le> length s" by (rule length_takeWhile_le)
    then show ?thesis using 1 [OF False refl refl] False
      by (subst text_lines.simps) (auto simp: Let_def lines_text_def)
  qed (simp add: lines_text_def)
qed

lemma length_kept: "length (lines_text (kept_lines s)) \<le> Suc (length s)"
proof -
  have "length (lines_text (filter P ls)) \<le> length (lines_text ls)" for P and ls
    by (induction ls) (auto simp: lines_text_def)
  then show ?thesis using length_text_lines [of s] order_trans by (fastforce simp: kept_lines_def)
qed

section \<open>The merge\<close>

lemma merge_lines_unfold:
  "merge_lines n buf old =
     (if old = [] then Some buf
      else let line = takeWhile (\<lambda>c. c \<noteq> LF) old; rest = drop (length line) old in
        if keep_line line \<and> length buf + length line + 2 > n - 1 then None
        else let buf' = (if keep_line line then (if buf \<noteq> [] \<and> last buf \<noteq> LF then buf @ [LF] else buf) @ line @ [LF] else buf)
             in if rest = [] then Some buf' else merge_lines n buf' (tl rest))"
  by (rule merge_lines.simps)

lemma merge_lines_exact:
  assumes "buf = [] \<or> last buf = LF"
  shows "merge_lines n buf old =
     (if kept_lines old = [] then Some buf
      else if length buf + length (lines_text (kept_lines old)) + 1 \<le> n - 1
           then Some (buf @ lines_text (kept_lines old)) else None)"
  using assms
proof (induction n buf old rule: merge_lines.induct)
  case (1 n buf old)
  let ?l = "takeWhile (\<lambda>c. c \<noteq> LF) old" and ?r = "drop (length (takeWhile (\<lambda>c. c \<noteq> LF) old)) old"
  let ?buf = "if keep_line ?l then buf @ ?l @ [LF] else buf"
  show ?case
  proof (cases "old = []")
    case False
    have kept: "kept_lines old = (if keep_line ?l then [?l] else []) @ (if ?r = [] then [] else kept_lines (tl ?r))"
      using False by (subst kept_lines_def, subst text_lines.simps) (simp add: Let_def kept_lines_def)
    have step: "merge_lines n buf old =
        (if keep_line ?l \<and> length buf + length ?l + 2 > n - 1 then None
         else if ?r = [] then Some ?buf else merge_lines n ?buf (tl ?r))"
      using False 1(2) by (subst merge_lines_unfold) (auto simp: Let_def)
    show ?thesis
    proof (cases "keep_line ?l \<and> length buf + length ?l + 2 > n - 1")
      case True
      then show ?thesis unfolding step kept by (auto simp: lines_text_def)
    next
      case fits: False
      have IH: "merge_lines n ?buf (tl ?r) =
         (if kept_lines (tl ?r) = [] then Some ?buf
          else if length ?buf + length (lines_text (kept_lines (tl ?r))) + 1 \<le> n - 1
               then Some (?buf @ lines_text (kept_lines (tl ?r))) else None)" if "?r \<noteq> []"
        using 1(1) [OF False refl refl fits refl that] 1(2) by (auto split: if_splits)
      show ?thesis unfolding step kept using fits IH by (auto simp: lines_text_def)
    qed
  qed (simp add: kept_lines_def merge_lines.simps)
qed

section \<open>The formatter's own lines are known\<close>

lemma cfg_line_not_kept:
  assumes "key_text k" "k \<noteq> []" "hd k \<noteq> CHR ''#''" "tn_config_key_known k" "length k + length v < 127"
  shows "\<not> keep_line (k @ ''='' @ v)"
proof -
  have "takeWhile (\<lambda>c. c \<noteq> CHR ''='') (k @ ''='' @ v) = k"
    using assms(1) by (subst takeWhile_append2) (auto simp: key_text_def list_all_iff)
  moreover have "tn_str_copy_clean 32 k = k"
    using assms(1) by (intro copy_clean_id [of 32]) (auto simp: key_text_def clean_def list_all_iff)
  ultimately show ?thesis using assms by (simp add: keep_line_def Let_def key_text_def)
qed

lemma key_known_listed: "k \<noteq> [] \<Longrightarrow> k \<in> set g_cfg_keys \<Longrightarrow> tn_config_key_known k"
  by (auto simp: tn_config_key_known_def list_ex_iff nocase_map)

lemma cfg_entries_known: "list_all (\<lambda>e. tn_config_key_known (fst e) \<and> fst e \<noteq> [] \<and> hd (fst e) \<noteq> CHR ''#'') (cfg_entries p)"
  by (simp add: cfg_entries_def list_all_opt_entry key_known_listed g_cfg_keys_def)

lemma cfg_text_lines:
  "cfg_text p = lines_text (''# tolunnet configuration file'' # map (\<lambda>e. fst e @ ''='' @ snd e) (cfg_entries p))"
  by (simp add: cfg_text_def lines_text_def cfg_line_def [abs_def] comp_def)

lemma key_text_LF: "key_text k \<Longrightarrow> LF \<notin> set k"
  unfolding key_text_def list_all_iff is_blank_def by blast

lemma clean_LF: "clean n v \<Longrightarrow> LF \<notin> set v"
  unfolding clean_def list_all_iff is_blank_def by blast

lemma entry_lines_LF_free:
  "list_all (\<lambda>e. key_text (fst e) \<and> clean 64 (snd e)) es \<Longrightarrow> list_all (\<lambda>l. LF \<notin> set l) (map (\<lambda>e. fst e @ ''='' @ snd e) es)"
proof (induction es)
  case (Cons e es)
  then show ?case using key_text_LF [of "fst e"] clean_LF [of 64 "snd e"] by simp
qed simp

lemma entry_lines_not_kept:
  "list_all (\<lambda>e. key_text (fst e) \<and> clean 64 (snd e)) es \<Longrightarrow>
   list_all (\<lambda>e. tn_config_key_known (fst e) \<and> fst e \<noteq> [] \<and> hd (fst e) \<noteq> CHR ''#'') es \<Longrightarrow>
   filter keep_line (map (\<lambda>e. fst e @ ''='' @ snd e) es) = []"
proof (induction es)
  case (Cons e es)
  then have "length (fst e) + length (snd e) < 127" by (simp add: key_text_def clean_def)
  then have "\<not> keep_line (fst e @ ''='' @ snd e)" using Cons.prems by (intro cfg_line_not_kept) simp_all
  then show ?case using Cons by simp
qed simp

abbreviation (input) own_lines :: "TnPrefs \<Rightarrow> string list" where
  "own_lines p \<equiv> ''# tolunnet configuration file'' # map (\<lambda>e. fst e @ ''='' @ snd e) (cfg_entries p)"

lemma text_lines_own: "prefs_ok p \<Longrightarrow> text_lines (cfg_text p @ rest) = own_lines p @ text_lines rest"
  using text_lines_lines_text [of "own_lines p" rest] entry_lines_LF_free [OF cfg_entries_readable, of p]
  by (simp only: cfg_text_lines) simp

lemma own_not_kept: "prefs_ok p \<Longrightarrow> filter keep_line (own_lines p) = []"
proof -
  have "\<not> keep_line ''# tolunnet configuration file''" by (simp add: keep_line_def Let_def)
  then show "filter keep_line (own_lines p) = []" if "prefs_ok p"
    using entry_lines_not_kept [OF cfg_entries_readable cfg_entries_known, OF that] by (simp only: filter.simps if_False)
qed

lemma lines_text_last: "ls \<noteq> [] \<Longrightarrow> lines_text ls \<noteq> [] \<and> last (lines_text ls) = LF"
  by (induction ls rule: rev_induct) (simp_all add: lines_text_def)

lemma cfg_text_last: "cfg_text p \<noteq> []" "last (cfg_text p) = LF"
  using lines_text_last [of "own_lines p", OF list.distinct(2)] by (simp_all only: cfg_text_lines simp_thms)

lemma kept_lines_again: assumes "prefs_ok p" shows "kept_lines (cfg_text p @ lines_text (kept_lines old)) = kept_lines old"
proof -
  have "list_all (\<lambda>l. LF \<notin> set l) (kept_lines old)" using text_lines_LF_free [of old] by (simp add: kept_lines_def list_all_iff)
  from text_lines_lines_text [OF this, of "[]"] have "text_lines (lines_text (kept_lines old)) = kept_lines old" by simp
  moreover have "filter keep_line (kept_lines old) = kept_lines old" by (simp add: kept_lines_def)
  ultimately show ?thesis using own_not_kept [OF assms] text_lines_own [OF assms]
    by (simp only: kept_lines_def [of "cfg_text p @ _"] filter_append append_Nil)
qed

end
