(* ===== verification/Prefs_Store.thy ===== *)
theory Prefs_Store
  imports Config_Merge
begin

text \<open>
  Loading and saving the preferences (common/prefs.c) and the file replacement
  (common/safe_replace.c).  AmigaDOS is a parameter: a record of the calls the code makes on a disk
  state of any type.  A disk history, newest state first, records the state after every call, and
  for Write the states a power cut inside the call may leave; every state of a history is one the
  next start may find.
\<close>

section \<open>AmigaDOS calls\<close>

datatype open_result = Opened string | NotFound | OpenError

record 'f Dos =
  d_open :: "'f \<Rightarrow> string \<Rightarrow> open_result"
  d_date :: "'f \<Rightarrow> string \<Rightarrow> int option"
  d_compare_dates :: "int \<Rightarrow> int \<Rightarrow> int"
  d_lock :: "'f \<Rightarrow> string \<Rightarrow> bool"
  d_delete :: "string \<Rightarrow> 'f \<Rightarrow> 'f \<times> bool"
  d_rename :: "string \<Rightarrow> string \<Rightarrow> 'f \<Rightarrow> 'f \<times> bool"
  d_create :: "string \<Rightarrow> 'f \<Rightarrow> 'f \<times> bool"
  d_write :: "string \<Rightarrow> string \<Rightarrow> 'f \<Rightarrow> 'f list \<times> 'f \<times> bool"
  d_close :: "string \<Rightarrow> 'f \<Rightarrow> 'f \<times> bool"

type_synonym 'f disk = "'f list"

definition call :: "('f \<Rightarrow> 'f \<times> bool) \<Rightarrow> 'f disk \<Rightarrow> 'f disk \<times> bool" where
  "call f h = (case f (hd h) of (g, ok) \<Rightarrow> (g # h, ok))"

definition call_write :: "('f \<Rightarrow> 'f list \<times> 'f \<times> bool) \<Rightarrow> 'f disk \<Rightarrow> 'f disk \<times> bool" where
  "call_write f h = (case f (hd h) of (mid, g, ok) \<Rightarrow> (g # rev mid @ h, ok))"

section \<open>safe\_replace.c\<close>

definition tn_safe_replace :: "'f Dos \<Rightarrow> string \<Rightarrow> string \<Rightarrow> string \<Rightarrow> 'f disk \<Rightarrow> 'f disk \<times> bool" where
  "tn_safe_replace dos tmp path bak h =
     (let (h, _) = call (d_delete dos bak) h;
          (h, had) = call (d_rename dos path bak) h;
          (h, moved) = call (d_rename dos tmp path) h
      in if \<not> moved
         then let h = (if had then fst (call (d_rename dos bak path) h) else h);
                  (h, _) = call (d_delete dos tmp) h
              in (h, False)
         else (h, True))"

section \<open>prefs.c: saving\<close>

definition tmp_name :: "string \<Rightarrow> string" where "tmp_name path = take 250 path @ ''_tmp''"
definition bak_name :: "string \<Rightarrow> string" where "bak_name path = take 255 path @ ''.bak''"

definition previous_text :: "'f Dos \<Rightarrow> string \<Rightarrow> 'f \<Rightarrow> string" where
  "previous_text dos path f = (case d_open dos f path of Opened c \<Rightarrow> cstr (take 1023 c) | _ \<Rightarrow> [])"

definition tn_prefs_write_one :: "'f Dos \<Rightarrow> string \<Rightarrow> string \<Rightarrow> 'f disk \<Rightarrow> 'f disk \<times> bool" where
  "tn_prefs_write_one dos path text h =
     (case tn_config_merge_preserve text (previous_text dos path (hd h)) 2048 of
        None \<Rightarrow> (h, False)
      | Some merged \<Rightarrow>
          (let tmp = tmp_name path; (h, made) = call (d_create dos tmp) h
           in if \<not> made then (h, False)
              else let (h, written) = call_write (d_write dos tmp merged) h
                   in if \<not> written
                      then let (h, _) = call (d_close dos tmp) h; (h, _) = call (d_delete dos tmp) h in (h, False)
                      else let (h, closed) = call (d_close dos tmp) h
                           in if \<not> closed then let (h, _) = call (d_delete dos tmp) h in (h, False)
                              else tn_safe_replace dos tmp path (bak_name path) h))"

datatype TnPrefsSaveMode = TN_PREFS_USE | TN_PREFS_SAVE

definition TN_CONFIG_FILE_DEVS :: string where "TN_CONFIG_FILE_DEVS = ''DEVS:tolunnet.config''"
definition TN_PREFS_FILE_ENVARC :: string where "TN_PREFS_FILE_ENVARC = ''ENVARC:tolunnet.prefs''"
definition TN_PREFS_FILE_ENV :: string where "TN_PREFS_FILE_ENV = ''ENV:tolunnet.prefs''"

definition tn_prefs_save :: "'f Dos \<Rightarrow> TnPrefs \<Rightarrow> TnPrefsSaveMode \<Rightarrow> 'f disk \<Rightarrow> 'f disk \<times> bool" where
  "tn_prefs_save dos prefs mode h =
     (case tn_config_format prefs 768 of
        None \<Rightarrow> (h, False)
      | Some text \<Rightarrow>
          (if mode = TN_PREFS_SAVE
           then case tn_prefs_write_one dos TN_CONFIG_FILE_DEVS text h of
                  (h, False) \<Rightarrow> (h, False)
                | (h, True) \<Rightarrow>
                    (fst (tn_prefs_write_one dos TN_PREFS_FILE_ENV text
                            (fst (tn_prefs_write_one dos TN_PREFS_FILE_ENVARC text h))), True)
           else (fst (tn_prefs_write_one dos TN_PREFS_FILE_ENV text h), True)))"

section \<open>prefs.c: loading\<close>

text \<open>
  The legacy image: \<open>junk\<close> is what the uninitialised local struct holds, \<open>overlay\<close> the bytes read
  over a struct (68000 layout: hostname at 150, 460 bytes in all).
\<close>

definition tn_prefs_read_blob :: "(TnPrefs \<Rightarrow> string \<Rightarrow> TnPrefs) \<Rightarrow> TnPrefs \<Rightarrow> TnPrefs \<Rightarrow> string \<Rightarrow> TnPrefs \<times> bool" where
  "tn_prefs_read_blob overlay junk prefs c =
     (let bytes = take 460 c in
      if 150 \<le> length bytes then (overlay (tn_prefs_default junk) bytes, True) else (prefs, False))"

definition control_char :: "char \<Rightarrow> bool" where
  "control_char c = ((of_char c :: nat) < 32 \<and> c \<noteq> TAB \<and> c \<noteq> CR \<and> c \<noteq> LF)"

text \<open>With a one-byte file the second header byte is the uninitialised \<open>hdr1\<close>.\<close>

definition tn_prefs_read_file ::
    "(TnPrefs \<Rightarrow> string \<Rightarrow> TnPrefs) \<Rightarrow> TnPrefs \<Rightarrow> char \<Rightarrow> TnPrefs \<Rightarrow> string \<Rightarrow> TnPrefs \<times> bool" where
  "tn_prefs_read_file overlay junk hdr1 prefs c =
     (if c = [] then (prefs, False)
      else if control_char (hd c) \<or> control_char (if 2 \<le> length c then c ! 1 else hdr1)
           then tn_prefs_read_blob overlay junk prefs c
           else tn_prefs_read_text prefs False c)"

text \<open>\<open>tn_prefs_open_recover\<close>: the name that was opened and its content.\<close>

definition tn_prefs_open_recover :: "'f Dos \<Rightarrow> string \<Rightarrow> 'f \<Rightarrow> (string \<times> string) option" where
  "tn_prefs_open_recover dos path f =
     (case d_open dos f path of
        Opened c \<Rightarrow> Some (path, c)
      | OpenError \<Rightarrow> None
      | NotFound \<Rightarrow>
          (let tmp = take 255 path @ ''_tmp''; bak = take 255 path @ ''.bak'' in
           case d_open dos f tmp of
             Opened c \<Rightarrow> Some (tmp, c)
           | _ \<Rightarrow> (case d_open dos f bak of Opened c \<Rightarrow> Some (bak, c) | _ \<Rightarrow> None)))"

definition open_plain :: "'f Dos \<Rightarrow> string \<Rightarrow> 'f \<Rightarrow> (string \<times> string) option" where
  "open_plain dos path f = (case d_open dos f path of Opened c \<Rightarrow> Some (path, c) | _ \<Rightarrow> None)"

definition examined :: "'f Dos \<Rightarrow> 'f \<Rightarrow> (string \<times> string) option \<Rightarrow> (int \<times> string) option" where
  "examined dos f fh =
     (case fh of None \<Rightarrow> None
      | Some (name, c) \<Rightarrow> (case d_date dos f name of Some d \<Rightarrow> Some (d, c) | None \<Rightarrow> None))"

definition tn_prefs_load ::
    "'f Dos \<Rightarrow> (TnPrefs \<Rightarrow> string \<Rightarrow> TnPrefs) \<Rightarrow> TnPrefs \<Rightarrow> char \<Rightarrow> TnPrefs \<Rightarrow> 'f \<Rightarrow> TnPrefs \<times> bool" where
  "tn_prefs_load dos overlay junk hdr1 prefs f =
     (let readf = tn_prefs_read_file overlay junk hdr1;
          prefs = tn_prefs_default prefs;
          devs = examined dos f (tn_prefs_open_recover dos TN_CONFIG_FILE_DEVS f);
          env = examined dos f (open_plain dos TN_PREFS_FILE_ENV f);
          (prefs, loaded) =
            (case (devs, env) of
               (Some (dd, dc), Some (de, ec)) \<Rightarrow> (if 0 < d_compare_dates dos de dd then readf prefs ec else readf prefs dc)
             | (Some (_, dc), None) \<Rightarrow> readf prefs dc
             | (None, Some (_, ec)) \<Rightarrow> readf prefs ec
             | (None, None) \<Rightarrow> (prefs, False))
      in if loaded then (prefs, True)
         else let (prefs, loaded) =
                    (case tn_prefs_open_recover dos TN_PREFS_FILE_ENVARC f of
                       Some (_, c) \<Rightarrow> readf prefs c | None \<Rightarrow> (prefs, False))
              in if loaded then (prefs, True)
                 else case open_plain dos ''DEVS:tolunet.config'' f of
                        Some (_, c) \<Rightarrow> readf prefs c | None \<Rightarrow> (prefs, False))"

definition tn_prefs_any_store_exists :: "'f Dos \<Rightarrow> 'f \<Rightarrow> bool" where
  "tn_prefs_any_store_exists dos f = list_ex (d_lock dos f) [TN_CONFIG_FILE_DEVS, TN_PREFS_FILE_ENV, TN_PREFS_FILE_ENVARC]"

end
