(* ===== verification/Prefs_Props.thy ===== *)
theory Prefs_Props
  imports Prefs_Store
begin

text \<open>
  Saving is crash safe: in every state the disk goes through, the loader's recovery finds either the
  old configuration or the new one; a rewrite keeps foreign lines and is stable.
\<close>

section \<open>What the code relies on from AmigaDOS\<close>

text \<open>
  A call touches only the names it is given; DeleteFile removes or does nothing; Rename moves the
  file to a name that is free, or does nothing; a file created, written and closed without error
  holds what was written.
\<close>

definition others_same :: "'f Dos \<Rightarrow> string set \<Rightarrow> 'f \<Rightarrow> 'f \<Rightarrow> bool" where
  "others_same dos names f g = (\<forall>q. q \<notin> names \<longrightarrow> d_open dos g q = d_open dos f q)"

definition dos_ok :: "'f Dos \<Rightarrow> bool" where
  "dos_ok dos =
     ((\<forall>p f g ok. d_delete dos p f = (g, ok) \<longrightarrow>
         others_same dos {p} f g \<and> d_open dos g p = (if ok then NotFound else d_open dos f p)) \<and>
      (\<forall>a b f g ok. d_rename dos a b f = (g, ok) \<longrightarrow>
         (if ok then d_open dos f b = NotFound \<and> others_same dos {a, b} f g \<and>
                     d_open dos g b = d_open dos f a \<and> d_open dos g a = NotFound
          else others_same dos {} f g)) \<and>
      (\<forall>p f g ok. d_create dos p f = (g, ok) \<longrightarrow> others_same dos {p} f g) \<and>
      (\<forall>p t f mid g ok. d_write dos p t f = (mid, g, ok) \<longrightarrow>
         list_all (others_same dos {p} f) mid \<and> others_same dos {p} f g \<and> (ok \<longrightarrow> d_open dos g p = Opened t)) \<and>
      (\<forall>p f g ok. d_close dos p f = (g, ok) \<longrightarrow>
         others_same dos {p} f g \<and> (ok \<longrightarrow> d_open dos g p = d_open dos f p)))"

section \<open>Effects of the calls on three names\<close>

text \<open>The content of the target, its temporary and its backup.\<close>

definition view :: "'f Dos \<Rightarrow> string \<Rightarrow> 'f \<Rightarrow> open_result \<times> open_result \<times> open_result" where
  "view dos path f = (d_open dos f path, d_open dos f (tmp_name path), d_open dos f (bak_name path))"

definition recovered :: "'f Dos \<Rightarrow> string \<Rightarrow> 'f \<Rightarrow> string option" where
  "recovered dos path f = map_option snd (tn_prefs_open_recover dos path f)"

definition view_recovers :: "open_result \<times> open_result \<times> open_result \<Rightarrow> string option" where
  "view_recovers v =
     (case v of (p, t, b) \<Rightarrow>
        (case p of Opened c \<Rightarrow> Some c | OpenError \<Rightarrow> None
         | NotFound \<Rightarrow> (case t of Opened c \<Rightarrow> Some c | _ \<Rightarrow> (case b of Opened c \<Rightarrow> Some c | _ \<Rightarrow> None))))"

lemma recovered_view: "length path \<le> 250 \<Longrightarrow> recovered dos path f = view_recovers (view dos path f)"
  by (simp add: recovered_def tn_prefs_open_recover_def view_def view_recovers_def tmp_name_def bak_name_def Let_def
      split: open_result.splits)

lemma names_distinct: "length path \<le> 250 \<Longrightarrow> path \<noteq> tmp_name path \<and> path \<noteq> bak_name path \<and> tmp_name path \<noteq> bak_name path"
  by (simp add: tmp_name_def bak_name_def)

text \<open>States in which the recovery finds one of two texts.\<close>

definition holds :: "'f Dos \<Rightarrow> string \<Rightarrow> string \<Rightarrow> string \<Rightarrow> 'f \<Rightarrow> bool" where
  "holds dos path old new f = (recovered dos path f = Some old \<or> recovered dos path f = Some new)"

lemma view_delete:
  assumes "dos_ok dos" "length path \<le> 250" "view dos path f = (p, t, b)"
  shows "d_delete dos (bak_name path) f = (g, r) \<Longrightarrow> view dos path g = (p, t, if r then NotFound else b)"
    and "d_delete dos (tmp_name path) f = (g, r) \<Longrightarrow> view dos path g = (p, if r then NotFound else t, b)"
  using assms names_distinct [OF assms(2)] by (auto simp: dos_ok_def others_same_def view_def)

lemma view_rename_out:
  assumes "dos_ok dos" "length path \<le> 250" "view dos path f = (p, t, b)" "d_rename dos path (bak_name path) f = (g, r)"
  shows "view dos path g = (if r then (NotFound, t, p) else (p, t, b))"
proof -
  have "if r then others_same dos {path, bak_name path} f g \<and> d_open dos g (bak_name path) = d_open dos f path \<and> d_open dos g path = NotFound
        else others_same dos {} f g"
    using assms(1,4) by (auto simp: dos_ok_def)
  then show ?thesis using assms(3) names_distinct [OF assms(2)] by (auto simp: others_same_def view_def)
qed

lemma view_rename_in:
  assumes "dos_ok dos" "length path \<le> 250" "view dos path f = (p, t, b)" "d_rename dos (tmp_name path) path f = (g, r)"
  shows "view dos path g = (if r then (t, NotFound, b) else (p, t, b)) \<and> (r \<longrightarrow> p = NotFound)"
proof -
  have "if r then d_open dos f path = NotFound \<and> others_same dos {tmp_name path, path} f g \<and> d_open dos g path = d_open dos f (tmp_name path) \<and>
          d_open dos g (tmp_name path) = NotFound
        else others_same dos {} f g"
    using assms(1,4) by (auto simp: dos_ok_def)
  then show ?thesis using assms(3) names_distinct [OF assms(2)] by (auto simp: others_same_def view_def split: if_splits)
qed

lemma view_rename_back:
  assumes "dos_ok dos" "length path \<le> 250" "view dos path f = (p, t, b)" "d_rename dos (bak_name path) path f = (g, r)"
  shows "view dos path g = (if r then (b, t, NotFound) else (p, t, b))"
proof -
  have "if r then others_same dos {bak_name path, path} f g \<and> d_open dos g path = d_open dos f (bak_name path) \<and>
          d_open dos g (bak_name path) = NotFound
        else others_same dos {} f g"
    using assms(1,4) by (auto simp: dos_ok_def)
  then show ?thesis using assms(3) names_distinct [OF assms(2)] by (auto simp: others_same_def view_def)
qed

text \<open>Writing the temporary touches neither the target nor the backup.\<close>

lemma view_others:
  assumes "length path \<le> 250" "view dos path f = (p, t, b)" "others_same dos {tmp_name path} f g"
  shows "view dos path g = (p, d_open dos g (tmp_name path), b)"
  using assms(2,3) names_distinct [OF assms(1)] by (auto simp: others_same_def view_def)

section \<open>The replacement\<close>

lemma safe_replace_holds:
  assumes "dos_ok dos" "length path \<le> 250" "view dos path (hd h) = (Opened c, Opened m, b)"
    and run: "tn_safe_replace dos (tmp_name path) path (bak_name path) h = (h', r)"
  shows "\<exists>new. h' = new @ h \<and> (\<forall>g\<in>set new. holds dos path c m g) \<and> (r \<longrightarrow> recovered dos path (hd h') = Some m)"
proof -
  obtain f1 r1 where 1: "d_delete dos (bak_name path) (hd h) = (f1, r1)" by fastforce
  obtain f2 r2 where 2: "d_rename dos path (bak_name path) f1 = (f2, r2)" by fastforce
  obtain f3 r3 where 3: "d_rename dos (tmp_name path) path f2 = (f3, r3)" by fastforce
  obtain f4 r4 where 4: "d_rename dos (bak_name path) path f3 = (f4, r4)" by fastforce
  obtain f5 r5 where 5: "d_delete dos (tmp_name path) (if r2 then f4 else f3) = (f5, r5)" by fastforce
  note v1 = view_delete(1) [OF assms(1-3) 1]
  note v2 = view_rename_out [OF assms(1,2) v1 2]
  have v3: "view dos path f3 = (if r3 then (Opened m, NotFound, Opened c)
       else if r2 then (NotFound, Opened m, Opened c) else (Opened c, Opened m, if r1 then NotFound else b))" "r3 \<Longrightarrow> r2"
    using view_rename_in [OF assms(1,2) _ 3] v2 by (cases r2; auto split: if_splits)+
  have v4: "view dos path f4 = (if r4 then (Opened c, Opened m, NotFound) else (NotFound, Opened m, Opened c))" if "\<not> r3" "r2"
    using view_rename_back [OF assms(1,2) _ 4] v3 that by auto
  have v5: "holds dos path c m f5" if "\<not> r3"
    using view_delete(2) [OF assms(1,2) _ 5] v3 v4 that
    by (cases r2; cases r4; cases r5) (auto simp: holds_def recovered_view [OF assms(2)] view_recovers_def)
  show ?thesis using run 1 2 3 4 5 v1 v2 v3 v4 v5
    by (auto simp: tn_safe_replace_def call_def Let_def holds_def recovered_view [OF assms(2)] view_recovers_def split: if_splits)
qed

lemma holds_target:
  "length path \<le> 250 \<Longrightarrow> view dos path g = (Opened c, t, b) \<Longrightarrow> holds dos path c m g"
  by (simp add: holds_def recovered_view view_recovers_def)

lemma dos_okD:
  assumes "dos_ok dos"
  shows "d_delete dos p f = (g, r) \<Longrightarrow> others_same dos {p} f g"
    and "d_create dos p f = (g, r) \<Longrightarrow> others_same dos {p} f g"
    and "d_write dos p t f = (mid, g, r) \<Longrightarrow>
      list_all (others_same dos {p} f) mid \<and> others_same dos {p} f g \<and> (r \<longrightarrow> d_open dos g p = Opened t)"
    and "d_close dos p f = (g, r) \<Longrightarrow> others_same dos {p} f g \<and> (r \<longrightarrow> d_open dos g p = d_open dos f p)"
  using assms unfolding dos_ok_def by metis+

lemma write_one_holds:
  assumes "dos_ok dos" "length path \<le> 250" "d_open dos (hd h) path = Opened c"
    and merged: "tn_config_merge_preserve text (cstr (take 1023 c)) 2048 = Some m"
    and run: "tn_prefs_write_one dos path text h = (h', r)"
  shows "\<exists>new. h' = new @ h \<and> (\<forall>g\<in>set new. holds dos path c m g) \<and> (r \<longrightarrow> recovered dos path (hd h') = Some m)"
proof -
  let ?tmp = "tmp_name path"
  obtain t b where v: "view dos path (hd h) = (Opened c, t, b)" using assms(3) by (simp add: view_def)
  obtain g1 r1 where 1: "d_create dos ?tmp (hd h) = (g1, r1)" by fastforce
  obtain mid g2 r2 where 2: "d_write dos ?tmp m g1 = (mid, g2, r2)" by (metis prod_cases3)
  obtain g3 r3 where 3: "d_close dos ?tmp g2 = (g3, r3)" by fastforce
  obtain g4 r4 where 4: "d_delete dos ?tmp g3 = (g4, r4)" by fastforce
  have same: "others_same dos {?tmp} (hd h) g1" "list_all (others_same dos {?tmp} g1) mid" "others_same dos {?tmp} g1 g2"
    "others_same dos {?tmp} g2 g3" "others_same dos {?tmp} g3 g4"
    "r2 \<longrightarrow> d_open dos g2 ?tmp = Opened m" "r3 \<longrightarrow> d_open dos g3 ?tmp = d_open dos g2 ?tmp"
    using dos_okD(2) [OF assms(1) 1] dos_okD(3) [OF assms(1) 2] dos_okD(4) [OF assms(1) 3] dos_okD(1) [OF assms(1) 4] by blast+
  note v1 = view_others [OF assms(2) v same(1)]
  note v2 = view_others [OF assms(2) v1 same(3)]
  note v3 = view_others [OF assms(2) v2 same(4)]
  note v4 = view_others [OF assms(2) v3 same(5)]
  have mid: "\<forall>g\<in>set mid. holds dos path c m g"
    using same(2) view_others [OF assms(2) v1] holds_target [OF assms(2)] by (metis list_all_iff)
  note target = holds_target [OF assms(2) v1, of m] holds_target [OF assms(2) v2, of m] holds_target [OF assms(2) v3, of m]
    holds_target [OF assms(2) v4, of m]
  show ?thesis
  proof (cases "r1 \<and> r2 \<and> r3")
    case True
    let ?h = "g3 # g2 # rev mid @ g1 # h"
    have rep: "tn_safe_replace dos ?tmp path (bak_name path) ?h = (h', r)"
      using run True 1 2 3 assms(3) merged by (simp add: tn_prefs_write_one_def previous_text_def call_def call_write_def Let_def)
    have "view dos path (hd ?h) = (Opened c, Opened m, b)" using v3 same(6,7) True by simp
    from safe_replace_holds [OF assms(1,2) this rep] obtain new where
      "h' = new @ ?h" "\<forall>g\<in>set new. holds dos path c m g" "r \<longrightarrow> recovered dos path (hd h') = Some m" by blast
    then show ?thesis using mid target by (intro exI [of _ "new @ g3 # g2 # rev mid @ [g1]"]) auto
  next
    case False
    then show ?thesis using run 1 2 3 4 assms(3) merged mid target
      by (auto simp: tn_prefs_write_one_def previous_text_def call_def call_write_def Let_def split: if_splits)
  qed
qed

section \<open>Frames\<close>

definition extends :: "'f Dos \<Rightarrow> string set \<Rightarrow> 'f disk \<Rightarrow> 'f disk \<Rightarrow> bool" where
  "extends dos names h h' = (\<exists>new. h' = new @ h \<and> (\<forall>g\<in>set new. others_same dos names (hd h) g))"

lemma extends_refl [simp]: "extends dos names h h"
  by (simp add: extends_def)

lemma extends_trans: "extends dos names h h1 \<Longrightarrow> extends dos names h1 h2 \<Longrightarrow> extends dos names h h2"
  unfolding extends_def
proof (elim exE conjE)
  fix n1 n2 assume "h1 = n1 @ h" "\<forall>g\<in>set n1. others_same dos names (hd h) g" "h2 = n2 @ h1" "\<forall>g\<in>set n2. others_same dos names (hd h1) g"
  then show "\<exists>new. h2 = new @ h \<and> (\<forall>g\<in>set new. others_same dos names (hd h) g)"
    by (intro exI [of _ "n2 @ n1"]) (cases n1; auto simp: others_same_def)
qed

lemma others_same_mono: "others_same dos a f g \<Longrightarrow> a \<subseteq> b \<Longrightarrow> others_same dos b f g"
  by (auto simp: others_same_def)

lemma extends_call:
  "(\<And>f g r. op f = (g, r) \<Longrightarrow> others_same dos a f g) \<Longrightarrow> a \<subseteq> names \<Longrightarrow> extends dos names h (fst (call op h))"
  by (auto simp: extends_def call_def intro: others_same_mono split: prod.splits)

lemma dos_ok_rename: "dos_ok dos \<Longrightarrow> d_rename dos a b f = (g, r) \<Longrightarrow> others_same dos {a, b} f g"
  unfolding dos_ok_def by (metis others_same_mono empty_subsetI)

lemma extends_write:
  "dos_ok dos \<Longrightarrow> p \<in> names \<Longrightarrow> extends dos names h (fst (call_write (d_write dos p t) h))"
  using dos_okD(3) [of dos p t] others_same_mono [of dos "{p}" _ _ names]
  by (fastforce simp: extends_def call_write_def list_all_iff split: prod.splits)

lemma extends_calls:
  assumes "dos_ok dos"
  shows "p \<in> names \<Longrightarrow> extends dos names h (fst (call (d_delete dos p) h))"
    and "p \<in> names \<Longrightarrow> extends dos names h (fst (call (d_create dos p) h))"
    and "p \<in> names \<Longrightarrow> extends dos names h (fst (call (d_close dos p) h))"
    and "p \<in> names \<Longrightarrow> q \<in> names \<Longrightarrow> extends dos names h (fst (call (d_rename dos p q) h))"
proof -
  show "extends dos names h (fst (call (d_delete dos p) h))" if "p \<in> names"
    using that dos_okD(1) [OF assms] by (intro extends_call [where a = "{p}"]) auto
  show "extends dos names h (fst (call (d_create dos p) h))" if "p \<in> names"
    using that dos_okD(2) [OF assms] by (intro extends_call [where a = "{p}"]) auto
  show "extends dos names h (fst (call (d_close dos p) h))" if "p \<in> names"
    using that dos_okD(4) [OF assms] by (intro extends_call [where a = "{p}"]) auto
  show "extends dos names h (fst (call (d_rename dos p q) h))" if "p \<in> names" "q \<in> names"
    using that dos_ok_rename [OF assms] by (intro extends_call [where a = "{p, q}"]) auto
qed

lemma fst_case_prod: "fst (case x of (h, r) \<Rightarrow> F h r) = fst (F (fst x) (snd x))"
  by (cases x) simp

lemma safe_replace_extends:
  assumes "dos_ok dos" "{tmp, path, bak} \<subseteq> names"
  shows "extends dos names h (fst (tn_safe_replace dos tmp path bak h))"
  using assms unfolding tn_safe_replace_def Let_def fst_case_prod
  by (auto simp: fst_case_prod intro!: extends_trans [OF _ extends_calls(4)] extends_trans [OF _ extends_calls(1)] extends_calls)

lemma write_one_extends:
  assumes "dos_ok dos" "{tmp_name path, path, bak_name path} \<subseteq> names"
  shows "extends dos names h (fst (tn_prefs_write_one dos path text h))"
  using assms unfolding tn_prefs_write_one_def Let_def fst_case_prod
  by (auto simp: fst_case_prod split: option.splits intro!: extends_trans [OF _ safe_replace_extends]
      extends_trans [OF _ extends_calls(3)] extends_trans [OF _ extends_calls(1)] extends_trans [OF _ extends_write] extends_calls)

section \<open>The rewrite\<close>

abbreviation (input) rewritten :: "TnPrefs \<Rightarrow> string \<Rightarrow> string" where
  "rewritten p old \<equiv> cfg_text p @ lines_text (kept_lines old)"

lemma merge_exact:
  assumes "prefs_ok p" "length old \<le> 1023"
  shows "tn_config_merge_preserve (cfg_text p) old 2048 = Some (rewritten p old)"
proof -
  have "take (2048 - 1) (cfg_text p) = cfg_text p" using length_cfg_text [OF assms(1)] by simp
  moreover have "length (cfg_text p) + length (lines_text (kept_lines old)) + 1 \<le> 2048 - 1"
    using length_cfg_text [OF assms(1)] length_kept [of old] assms(2) by linarith
  ultimately show ?thesis unfolding tn_config_merge_preserve_def
    by (simp add: merge_lines_exact cfg_text_last)
qed

lemma cfg_text_fits: "prefs_ok p \<Longrightarrow> tn_config_format p 768 = Some (cfg_text p)"
  using tn_config_format_text [of p 768] length_cfg_text [of p] by simp



section \<open>A save is crash safe\<close>

lemma devs_short: "length TN_CONFIG_FILE_DEVS \<le> 250"
  by (simp add: TN_CONFIG_FILE_DEVS_def)

lemma mirror_names_distinct:
  "q \<in> {tmp_name TN_PREFS_FILE_ENV, TN_PREFS_FILE_ENV, bak_name TN_PREFS_FILE_ENV} \<union>
       {tmp_name TN_PREFS_FILE_ENVARC, TN_PREFS_FILE_ENVARC, bak_name TN_PREFS_FILE_ENVARC} \<Longrightarrow>
   q \<notin> {TN_CONFIG_FILE_DEVS, tmp_name TN_CONFIG_FILE_DEVS, bak_name TN_CONFIG_FILE_DEVS}"
  by (auto simp: tmp_name_def bak_name_def TN_PREFS_FILE_ENV_def TN_PREFS_FILE_ENVARC_def TN_CONFIG_FILE_DEVS_def)

lemma recovered_other:
  assumes "others_same dos names f g" "names \<inter> {path, tmp_name path, bak_name path} = {}" "length path \<le> 250"
  shows "recovered dos path g = recovered dos path f"
proof -
  have "view dos path g = view dos path f" using assms(1,2) by (auto simp: others_same_def view_def)
  then show ?thesis by (simp add: recovered_view [OF assms(3)])
qed

definition mirrors :: "string set" where
  "mirrors = {tmp_name TN_PREFS_FILE_ENV, TN_PREFS_FILE_ENV, bak_name TN_PREFS_FILE_ENV} \<union>
       {tmp_name TN_PREFS_FILE_ENVARC, TN_PREFS_FILE_ENVARC, bak_name TN_PREFS_FILE_ENVARC}"

lemma mirrors_keep:
  assumes "extends dos mirrors h h'"
  shows "\<forall>g\<in>set h'. g \<in> set h \<or> recovered dos TN_CONFIG_FILE_DEVS g = recovered dos TN_CONFIG_FILE_DEVS (hd h)"
    and "recovered dos TN_CONFIG_FILE_DEVS (hd h') = recovered dos TN_CONFIG_FILE_DEVS (hd h)"
proof -
  obtain new where new: "h' = new @ h" "\<forall>g\<in>set new. others_same dos mirrors (hd h) g" using assms by (auto simp: extends_def)
  have disj: "mirrors \<inter> {TN_CONFIG_FILE_DEVS, tmp_name TN_CONFIG_FILE_DEVS, bak_name TN_CONFIG_FILE_DEVS} = {}"
    using mirror_names_distinct by (auto simp: mirrors_def)
  then have same: "recovered dos TN_CONFIG_FILE_DEVS g = recovered dos TN_CONFIG_FILE_DEVS (hd h)" if "g \<in> set new" for g
    using new that recovered_other devs_short by metis
  then show "\<forall>g\<in>set h'. g \<in> set h \<or> recovered dos TN_CONFIG_FILE_DEVS g = recovered dos TN_CONFIG_FILE_DEVS (hd h)" using new by auto
  show "recovered dos TN_CONFIG_FILE_DEVS (hd h') = recovered dos TN_CONFIG_FILE_DEVS (hd h)" using new same by (cases new) auto
qed

lemma mirror_writes:
  assumes "dos_ok dos"
  shows "extends dos mirrors h (fst (tn_prefs_write_one dos TN_PREFS_FILE_ENV text h))"
    and "extends dos mirrors h (fst (tn_prefs_write_one dos TN_PREFS_FILE_ENVARC text h))"
  by (rule write_one_extends [OF assms], auto simp: mirrors_def)+

lemma save_history:
  assumes "dos_ok dos" "prefs_ok p" "d_open dos f TN_CONFIG_FILE_DEVS = Opened c"
    and run: "tn_prefs_save dos p mode [f] = (h, r)"
  shows "(\<forall>g\<in>set h. holds dos TN_CONFIG_FILE_DEVS c (rewritten p (cstr (take 1023 c))) g) \<and>
    (mode = TN_PREFS_SAVE \<and> r \<longrightarrow> recovered dos TN_CONFIG_FILE_DEVS (hd h) = Some (rewritten p (cstr (take 1023 c))))"
proof -
  let ?D = TN_CONFIG_FILE_DEVS and ?m = "rewritten p (cstr (take 1023 c))" and ?w = "tn_prefs_write_one dos"
  have "length (cstr (take 1023 c)) \<le> 1023"
    using length_takeWhile_le [of _ "take 1023 c"] by (simp add: cstr_def order_trans)
  note m = merge_exact [OF assms(2) this]
  note fmt = cfg_text_fits [OF assms(2)]
  have start: "recovered dos ?D f = Some c" using assms(3) by (simp add: recovered_def tn_prefs_open_recover_def)
  show ?thesis
  proof (cases mode)
    case TN_PREFS_USE
    then have "h = fst (?w TN_PREFS_FILE_ENV (cfg_text p) [f])" using run fmt by (simp add: tn_prefs_save_def)
    then have "extends dos mirrors [f] h" using mirror_writes [OF assms(1)] by simp
    then show ?thesis using mirrors_keep(1) start TN_PREFS_USE by (fastforce simp: holds_def)
  next
    case TN_PREFS_SAVE
    obtain h1 r1 where 1: "?w ?D (cfg_text p) [f] = (h1, r1)" by fastforce
    from write_one_holds [OF assms(1) devs_short _ m 1] assms(3) obtain new where
      new: "h1 = new @ [f]" "\<forall>g\<in>set new. holds dos ?D c ?m g" "r1 \<longrightarrow> recovered dos ?D (hd h1) = Some ?m" by auto
    have h1: "\<forall>g\<in>set h1. holds dos ?D c ?m g" using new start by (auto simp: holds_def)
    show ?thesis
    proof (cases r1)
      case False
      then show ?thesis using run fmt 1 h1 TN_PREFS_SAVE by (simp add: tn_prefs_save_def)
    next
      case True
      let ?h2 = "fst (?w TN_PREFS_FILE_ENVARC (cfg_text p) h1)"
      have h: "h = fst (?w TN_PREFS_FILE_ENV (cfg_text p) ?h2)" using run fmt 1 True TN_PREFS_SAVE by (simp add: tn_prefs_save_def)
      have "extends dos mirrors h1 h" unfolding h by (rule extends_trans [OF mirror_writes(2) mirror_writes(1), OF assms(1) assms(1)])
      note keep = mirrors_keep [OF this]
      show ?thesis using keep h1 new(3) True by (fastforce simp: holds_def)
    qed
  qed
qed

lemma save_recovers:
  "dos_ok dos \<Longrightarrow> prefs_ok p \<Longrightarrow> d_open dos f TN_CONFIG_FILE_DEVS = Opened c \<Longrightarrow>
   tn_prefs_save dos p TN_PREFS_SAVE [f] = (h, True) \<Longrightarrow>
   map_option snd (tn_prefs_open_recover dos TN_CONFIG_FILE_DEVS (hd h)) = Some (rewritten p (cstr (take 1023 c)))"
  using save_history [of dos p f c TN_PREFS_SAVE h True] by (simp add: recovered_def)


section \<open>A concrete disk\<close>

text \<open>A disk as a map from names to contents on which every call succeeds when it can; a power cut may halve a Write.\<close>

definition map_dos :: "(string \<Rightarrow> string option) Dos" where
  "map_dos = \<lparr>d_open = (\<lambda>f p. case f p of Some c \<Rightarrow> Opened c | None \<Rightarrow> NotFound),
     d_date = (\<lambda>f p. Some 0), d_compare_dates = (\<lambda>a b. b - a), d_lock = (\<lambda>f p. f p \<noteq> None),
     d_delete = (\<lambda>p f. (f(p := None), f p \<noteq> None)),
     d_rename = (\<lambda>a b f. if f a \<noteq> None \<and> f b = None then (f(b := f a, a := None), True) else (f, False)),
     d_create = (\<lambda>p f. (f(p := Some []), True)),
     d_write = (\<lambda>p t f. ([f(p := Some (take (length t div 2) t))], f(p := Some t), True)),
     d_close = (\<lambda>p f. (f, True))\<rparr>"

lemma map_dos_calls:
  "d_open map_dos f p = (case f p of Some c \<Rightarrow> Opened c | None \<Rightarrow> NotFound)"
  "call (d_create map_dos p) h = ((hd h)(p := Some []) # h, True)"
  "call_write (d_write map_dos p t) h = ((hd h)(p := Some t) # (hd h)(p := Some (take (length t div 2) t)) # h, True)"
  "call (d_close map_dos p) h = (hd h # h, True)"
  "call (d_delete map_dos p) h = ((hd h)(p := None) # h, hd h p \<noteq> None)"
  "call (d_rename map_dos a b) h =
     (if hd h a \<noteq> None \<and> hd h b = None then ((hd h)(b := hd h a, a := None) # h, True) else (hd h # h, False))"
  by (simp_all add: map_dos_def call_def call_write_def)

lemma map_dos_ok: "dos_ok map_dos"
  unfolding dos_ok_def by (intro conjI; auto simp: map_dos_def others_same_def split: if_splits)

lemma map_dos_save:
  assumes "prefs_ok p" "f TN_CONFIG_FILE_DEVS = Some c"
  shows "\<exists>h. tn_prefs_save map_dos p TN_PREFS_SAVE [f] = (h, True)"
proof -
  let ?D = TN_CONFIG_FILE_DEVS
  have "length (cstr (take 1023 c)) \<le> 1023"
    using length_takeWhile_le [of _ "take 1023 c"] by (simp add: cstr_def order_trans)
  note m = merge_exact [OF assms(1) this]
  have nd: "?D \<noteq> tmp_name ?D" "?D \<noteq> bak_name ?D" "tmp_name ?D \<noteq> bak_name ?D" using names_distinct [OF devs_short] by auto
  have "snd (tn_prefs_write_one map_dos ?D (cfg_text p) [f])"
    unfolding tn_prefs_write_one_def using m nd assms(2)
    by (simp add: previous_text_def map_dos_calls tn_safe_replace_def Let_def)
  then obtain h1 where "tn_prefs_write_one map_dos ?D (cfg_text p) [f] = (h1, True)" by (metis (full_types) prod.collapse)
  then show ?thesis unfolding tn_prefs_save_def cfg_text_fits [OF assms(1)] by simp
qed

lemma sample_ok: "prefs_ok (tn_prefs_default sample_prefs)"
  by (rule tn_prefs_default_ok) (simp_all add: sample_prefs_def)


section \<open>Limits of the protocol\<close>

text \<open>
  A power cut between the two Renames leaves no target, and the complete text only under the temporary
  name.  The next save writes over that very name, and does not read it as the previous text: a
  second power cut during its Write makes the recovery load half a configuration.
\<close>

lemma interrupted_twice:
  assumes "d_open map_dos f path = NotFound" "length path \<le> 250" "tn_config_merge_preserve text [] 2048 = Some m"
  shows "\<exists>g\<in>set (fst (tn_prefs_write_one map_dos path text [f])).
           map_option snd (tn_prefs_open_recover map_dos path g) = Some (take (length m div 2) m)"
proof -
  let ?g = "f(tmp_name path := Some [], tmp_name path := Some (take (length m div 2) m))"
  have ext: "\<exists>new. fst (tn_safe_replace map_dos (tmp_name path) path (bak_name path) h) = new @ h" for h
    using safe_replace_extends [OF map_dos_ok subset_refl] by (metis extends_def)
  have f: "f path = None" using assms(1) by (simp add: map_dos_def split: option.splits)
  have "?g \<in> set (fst (tn_prefs_write_one map_dos path text [f]))"
    using ext [of "[f(tmp_name path := Some [], tmp_name path := Some m), f(tmp_name path := Some [], tmp_name path := Some m), ?g, f(tmp_name path := Some []), f]"]
      assms(1,3) by (auto simp: tn_prefs_write_one_def previous_text_def map_dos_calls(2-4) Let_def)
  moreover have "recovered map_dos path ?g = Some (take (length m div 2) m)"
    using f names_distinct [OF assms(2)] by (simp add: recovered_view [OF assms(2)] view_def view_recovers_def map_dos_def)
  ultimately show ?thesis unfolding recovered_def by blast
qed

text \<open>
  Only the first 1023 characters of the previous file are merged: a foreign line behind them is lost
  by the next save.
\<close>

lemma previous_text_truncated:
  assumes "length front = 1022" "LF \<notin> set front" "NUL \<notin> set front"
  shows "previous_text map_dos path [path \<mapsto> front @ [LF] @ ''KEEP=1''] = front @ [LF]"
  using assms by (simp add: previous_text_def map_dos_calls cstr_id)

end
