(* ===== verification/Prefs_Load.thy ===== *)
theory Prefs_Load
  imports Prefs_Props
begin

text \<open>
  Loading: foreign lines have no effect, so that what a successful save leaves on the disk loads as
  the preferences that were saved; and which store the loader prefers.
\<close>

section \<open>Foreign lines\<close>

lemma nocase_refl [simp]: "tn_str_equal_nocase k k"
  by (simp add: nocase_map)

lemma unknown_key: "\<not> tn_config_key_known k \<Longrightarrow> x \<in> set g_cfg_keys \<Longrightarrow> x \<noteq> [] \<Longrightarrow> \<not> tn_str_equal_nocase k x"
  by (cases k; cases x) (auto simp: tn_config_key_known_def list_ex_iff)

lemma parse_unknown:
  assumes "\<not> tn_config_key_known (tn_str_copy_clean 32 k)"
  shows "tn_config_parse_line p k v = p"
  unfolding tn_config_parse_line_def Let_def using unknown_key [OF assms] by (simp add: g_cfg_keys_def)

lemma copy_clean_take: "tn_str_copy_clean 32 (take 31 k) = tn_str_copy_clean 32 k"
proof -
  have "take n (takeWhile P (take n k)) = take n (takeWhile P k)" for n and P :: "char \<Rightarrow> bool"
    by (induction k arbitrary: n) (auto simp: take_Cons split: nat.splits)
  from this [of 31] show ?thesis by (simp add: tn_str_copy_clean_def)
qed

lemma parse_text_foreign:
  assumes "keep_line l" "length l \<le> 127" "tail = [] \<or> tail = [LF]"
  shows "fst (parse_text_line p (l @ tail)) = p"
proof (cases "CHR ''='' \<in> set l")
  case True
  have tw: "takeWhile (\<lambda>c. c \<noteq> CHR ''='') (l @ tail) = takeWhile (\<lambda>c. c \<noteq> CHR ''='') l"
    using True by (intro takeWhile_append1) auto
  have "\<not> tn_config_key_known (tn_str_copy_clean 32 (takeWhile (\<lambda>c. c \<noteq> CHR ''='') l))"
    using assms(1,2) by (simp add: keep_line_def Let_def copy_clean_take)
  then show ?thesis by (simp add: parse_text_line_def Let_def tw parse_unknown)
next
  case False
  then have "dropWhile (\<lambda>c. c \<noteq> CHR ''='') (l @ tail) = []"
    unfolding dropWhile_eq_Nil_conv using assms(3) by (elim disjE) auto
  then show ?thesis by (simp add: parse_text_line_def Let_def)
qed

lemma read_foreign_line:
  assumes "keep_line l" "length l \<le> 127" "LF \<notin> set l" "NUL \<notin> set l"
  shows "tn_prefs_read_text p True (l @ LF # rest) = tn_prefs_read_text p True rest"
proof (cases "length l < 127")
  case True
  then show ?thesis using parse_text_foreign [OF assms(1,2), of "[LF]" p] read_line [OF assms(3,4) True, of p True rest]
    by (auto split: prod.splits)
next
  case False
  then have len: "length l = 127" using assms(2) by simp
  have "takeWhile (\<lambda>c. c \<noteq> LF) (l @ LF # rest) = l" using assms(3) by (subst takeWhile_append2) auto
  then have "fgets_len (l @ LF # rest) = 127" by (simp add: fgets_len_def len)
  then have "tn_prefs_read_text p True (l @ LF # rest) = tn_prefs_read_text p True (LF # rest)"
    using parse_text_foreign [OF assms(1,2), of "[]" p] cstr_id [OF assms(4)] len
    by (subst tn_prefs_read_text.simps) (auto split: prod.splits)
  moreover have "tn_prefs_read_text p True ([] @ LF # rest) = tn_prefs_read_text p True rest"
    by (subst read_line) (simp_all add: parse_text_line_def Let_def)
  ultimately show ?thesis by simp
qed

lemma read_foreign_lines:
  "list_all (\<lambda>l. keep_line l \<and> length l \<le> 127 \<and> LF \<notin> set l \<and> NUL \<notin> set l) ls \<Longrightarrow>
   tn_prefs_read_text p True (lines_text ls) = (p, True)"
proof (induction ls)
  case Nil
  show ?case by (subst tn_prefs_read_text.simps) simp
next
  case (Cons l ls)
  then show ?case using read_foreign_line [of l p "lines_text ls"] by (simp add: lines_text_def)
qed

section \<open>Loading what was saved\<close>

text \<open>A previous file whose lines are at most 127 characters and that holds no NUL.\<close>

definition plain_file :: "string \<Rightarrow> bool" where
  "plain_file c = (length c \<le> 1023 \<and> NUL \<notin> set c \<and> list_all (\<lambda>l. length l \<le> 127) (text_lines c))"

lemma text_lines_chars: "l \<in> set (text_lines s) \<Longrightarrow> x \<in> set l \<Longrightarrow> x \<in> set s"
proof (induction s arbitrary: l rule: text_lines.induct)
  case (1 s)
  let ?n = "length (takeWhile (\<lambda>c. c \<noteq> LF) s)"
  have s: "s \<noteq> []" using 1(2) by auto
  then consider "l = takeWhile (\<lambda>c. c \<noteq> LF) s" | "drop ?n s \<noteq> []" "l \<in> set (text_lines (tl (drop ?n s)))"
    using 1(2) by (subst (asm) text_lines.simps) (auto simp: Let_def split: if_splits)
  then show ?case
  proof cases
    case 2
    then have "x \<in> set (tl (drop ?n s))" using 1(1) [OF s refl refl] 1(3) by blast
    then show ?thesis by (metis in_set_dropD list.sel(2) list.set_sel(2) tl_drop)
  qed (use 1(3) in \<open>auto dest: set_takeWhileD\<close>)
qed

lemma read_rewritten:
  assumes "prefs_ok p" "plain_file c"
  shows "tn_prefs_read_text (tn_prefs_default q) False (rewritten p c) = (read_back q p, True)"
proof -
  have "list_all (\<lambda>l. keep_line l \<and> length l \<le> 127 \<and> LF \<notin> set l \<and> NUL \<notin> set l) (kept_lines c)"
    using assms(2) text_lines_LF_free [of c] text_lines_chars [of _ c NUL]
    by (auto simp: kept_lines_def plain_file_def list_all_iff)
  then show ?thesis using read_foreign_lines read_cfg_text_rest [OF assms(1)] by simp
qed

lemma read_file_rewritten:
  assumes "prefs_ok p" "plain_file c"
  shows "tn_prefs_read_file overlay junk hdr1 (tn_prefs_default q) (rewritten p c) = (read_back q p, True)"
  unfolding tn_prefs_read_file_def read_rewritten [OF assms] by (simp add: cfg_text_def control_char_def)



section \<open>Which store is preferred\<close>

text \<open>
  The dos.library documentation of CompareDates: the result is positive when the second date is
  the later one.  With that order the loader takes ENV: when DEVS: is the newer file.
\<close>

lemma load_takes_the_older:
  assumes "\<And>a b. 0 < d_compare_dates dos a b \<longleftrightarrow> a < b"
    and "d_open dos f TN_CONFIG_FILE_DEVS = Opened dc" "d_date dos f TN_CONFIG_FILE_DEVS = Some dd"
    and "d_open dos f TN_PREFS_FILE_ENV = Opened ec" "d_date dos f TN_PREFS_FILE_ENV = Some de"
    and "de < dd" "tn_prefs_read_file overlay junk hdr1 (tn_prefs_default q) ec = (p, True)"
  shows "tn_prefs_load dos overlay junk hdr1 q f = (p, True)"
  using assms by (simp add: tn_prefs_load_def tn_prefs_open_recover_def open_plain_def examined_def Let_def)

end
