(* ===== verification/Ipc_Reconfig.thy ===== *)
theory Ipc_Reconfig
  imports Ipc_Status Prefs_Load
begin

text \<open>
  RECONFIG (task/ipc\_status.c), with the live configuration of task/netif\_mgr.c, the log file of
  common/log.c and the syslog target of task/syslog.c.  The configuration side of \<open>TnDaemon\<close> and of the
  modules' static variables is a record of its own; log output is not modelled.
\<close>

section \<open>Configuration state\<close>

record TnConf =
  cf_prefs :: TnPrefs
  cf_log_level :: int
  cf_task_pri :: int
  cf_log_file :: "string option"
  cf_stats_enabled :: bool
  cf_stats_tick_base :: u32
  cf_s2_counters :: "u32 list"
  cf_syslog_host :: string
  cf_syslog_armed :: bool
  cf_syslog_pcb :: bool
  cf_dns_port :: u16
  cf_dns_server :: "nat \<Rightarrow> u32 option"
  cf_netif_hostname :: bool
  cf_mdns_name :: string
  cf_netif_mtu :: u16

text \<open>
  netif\_set\_hostname keeps the pointer it is given: \<open>cf_netif_hostname\<close> tells whether the interface names the
  host name buffer of the preferences, whose contents it then shows.
\<close>

definition netif_hostname :: "TnConf \<Rightarrow> string option" where
  "netif_hostname cf = (if cf_netif_hostname cf then Some (pf_hostname (cf_prefs cf)) else None)"

text \<open>What the system answers: Open of a log file, udp\_new, ip4addr\_aton, dns\_gethostbyname (0 OK, -5 in progress),
  and whether the mDNS responder runs on the interface.\<close>

record conf_env =
  ce_open_log :: "string \<Rightarrow> bool"
  ce_udp_new :: bool
  ce_aton :: "string \<Rightarrow> u32 option"
  ce_resolve :: "string \<Rightarrow> int"
  ce_mdns_active :: bool

section \<open>Log file, syslog target, live keys\<close>

definition tn_log_close_file :: "TnConf \<Rightarrow> TnConf" where
  "tn_log_close_file cf = cf\<lparr>cf_log_file := None\<rparr>"

definition tn_log_open_file :: "conf_env \<Rightarrow> string \<Rightarrow> TnConf \<Rightarrow> TnConf \<times> bool" where
  "tn_log_open_file ce path cf =
     (let cf = cf\<lparr>cf_log_file := None\<rparr> in
      if path = [] then (cf, False)
      else if ce_open_log ce path then (cf\<lparr>cf_log_file := Some path\<rparr>, True) else (cf, False))"

definition tn_syslog_shutdown :: "TnConf \<Rightarrow> TnConf" where
  "tn_syslog_shutdown cf = cf\<lparr>cf_syslog_pcb := False, cf_syslog_armed := False, cf_syslog_host := []\<rparr>"

definition tn_syslog_apply :: "conf_env \<Rightarrow> string \<Rightarrow> TnConf \<Rightarrow> TnConf \<times> bool" where
  "tn_syslog_apply ce host cf =
     (if host = [] then (tn_syslog_shutdown cf, True)
      else if \<not> cf_syslog_pcb cf \<and> \<not> ce_udp_new ce then (cf, False)
      else let h = tn_str_copy_clean 48 host; cf = cf\<lparr>cf_syslog_pcb := True, cf_syslog_host := h\<rparr> in
        if ce_aton ce h \<noteq> None then (cf\<lparr>cf_syslog_armed := True\<rparr>, True)
        else let r = ce_resolve ce h in
          (cf\<lparr>cf_syslog_armed := (r = 0)\<rparr>, r = 0 \<or> r = -5))"

definition tn_apply_live_config :: "conf_env \<Rightarrow> TnConf \<Rightarrow> TnConf" where
  "tn_apply_live_config ce cf =
     (let p = cf_prefs cf;
          cf = (if pf_dns_port p \<noteq> 0 then cf\<lparr>cf_dns_port := ucast (pf_dns_port p)\<rparr> else cf);
          cf = (case (if pf_dns_server p = [] then None else ce_aton ce (pf_dns_server p)) of
                  Some a \<Rightarrow> cf\<lparr>cf_dns_server := (cf_dns_server cf)(0 := Some a)\<rparr> | None \<Rightarrow> cf);
          cf = (case (if pf_dns2 p = [] then None else ce_aton ce (pf_dns2 p)) of
                  Some a \<Rightarrow> cf\<lparr>cf_dns_server := (cf_dns_server cf)(1 := Some a)\<rparr> | None \<Rightarrow> cf);
          cf = (if pf_hostname p \<noteq> []
                then let cf = cf\<lparr>cf_netif_hostname := True\<rparr> in
                     if pf_mdns p \<and> ce_mdns_active ce then cf\<lparr>cf_mdns_name := pf_hostname p\<rparr> else cf
                else cf)
      in if 576 \<le> pf_mtu p \<and> pf_mtu p \<le> 1500 \<and> cf_netif_mtu cf \<noteq> 0 \<and> pf_mtu p < ucast (cf_netif_mtu cf)
         then cf\<lparr>cf_netif_mtu := ucast (pf_mtu p)\<rparr> else cf)"

section \<open>RECONFIG\<close>

definition reconfig_log :: "conf_env \<Rightarrow> u32 \<Rightarrow> TnConf \<Rightarrow> TnConf \<times> u32" where
  "reconfig_log ce live cf =
     (if live AND 0x1000 = 0 then (cf, 0)
      else if pf_log_file (cf_prefs cf) = [] then (tn_log_close_file cf, 0)
      else case tn_log_open_file ce (pf_log_file (cf_prefs cf)) cf of (cf, ok) \<Rightarrow> (cf, if ok then 0 else 0x1000))"

definition reconfig_selectors :: "env \<Rightarrow> u32 \<Rightarrow> TnPrefs \<Rightarrow> TnDaemon \<Rightarrow> TnDaemon \<times> u32" where
  "reconfig_selectors E live p d =
     (let want = (if pf_selectors p > 0 then unat (pf_selectors p) else TN_MAX_SELECTORS) in
      if live AND 0x4000 = 0 \<or> want \<le> length (d_selectors d) then (d, 0)
      else case tn_selector_table_grow E want d of (d, ok) \<Rightarrow> (d, if ok then 0 else 0x4000))"

definition reconfig_stats :: "u32 \<Rightarrow> TnDaemon \<Rightarrow> TnConf \<Rightarrow> TnDaemon \<times> TnConf" where
  "reconfig_stats live d cf =
     (if live AND 0x8000 = 0 then (d, cf)
      else (d\<lparr>d_ipc_calls := replicate (length (d_ipc_calls d)) 0, d_deferred_replies := 0, d_sigio_sent := 0,
              d_selector_wakeups := 0, d_rx_high_water := 0\<rparr>,
            cf\<lparr>cf_stats_enabled := pf_stats (cf_prefs cf), cf_stats_tick_base := d_mainloop_ticks d,
               cf_s2_counters := replicate (length (cf_s2_counters cf)) 0\<rparr>))"

definition reconfig_syslog :: "conf_env \<Rightarrow> u32 \<Rightarrow> TnConf \<Rightarrow> TnConf \<times> u32" where
  "reconfig_syslog ce live cf =
     (if live AND 0x10000 = 0 then (cf, 0)
      else case tn_syslog_apply ce (pf_syslog_host (cf_prefs cf)) cf of (cf, ok) \<Rightarrow> (cf, if ok then 0 else 0x10000))"

definition reconfig_response :: "u32 \<Rightarrow> u32 \<Rightarrow> u32 \<Rightarrow> bytes" where
  "reconfig_response applied restart failed =
     be_of_u16 16 @ be_of_u16 1 @ be_of_u32 applied @ be_of_u32 restart @ be_of_u32 failed"

definition tn_ipc_cmd_reconfig ::
    "env \<Rightarrow> conf_env \<Rightarrow> 'f Dos \<Rightarrow> (TnPrefs \<Rightarrow> string \<Rightarrow> TnPrefs) \<Rightarrow> TnPrefs \<Rightarrow> char \<Rightarrow> 'f \<Rightarrow> ptr \<Rightarrow>
     TnDaemon \<Rightarrow> TnConf \<Rightarrow> (TnDaemon \<times> TnConf) \<times> action" where
  "tn_ipc_cmd_reconfig E ce dos overlay junk hdr1 f imsg d cf =
     (let old = cf_prefs cf;
          (p, loaded) = tn_prefs_load dos overlay junk hdr1 old f;
          cf = cf\<lparr>cf_prefs := p\<rparr>;
          (restart, live) = tn_recfg_diff old p;
          cf = (if live AND 0x400 \<noteq> 0 then cf\<lparr>cf_log_level := tn_recfg_effective_loglevel p\<rparr> else cf);
          cf = (if live AND 0x800 \<noteq> 0 then cf\<lparr>cf_task_pri := pf_priority p\<rparr> else cf);
          (cf, failed_log) = reconfig_log ce live cf;
          (d, failed_sel) = reconfig_selectors E live p d;
          (d, cf) = reconfig_stats live d cf;
          (cf, failed_sys) = reconfig_syslog ce live cf;
          cf = tn_apply_live_config ce cf;
          failed = failed_log OR failed_sel OR failed_sys;
          applied = live AND NOT failed;
          m = d_msgs d imsg;
          d = upd_msg imsg (\<lambda>x. x\<lparr>im_args := (im_args x)(0 := sint applied, 1 := sint restart, 2 := sint failed)\<rparr>) d;
          d = (if im_ptrs m 0 \<noteq> NULL \<and> 16 \<le> im_args m 4
               then d\<lparr>d_mem := store_bytes (d_mem d) (im_ptrs m 0) (reconfig_response applied restart failed)\<rparr> else d);
          (d, a) = answer imsg (if loaded then 0 else -1) (if loaded then 0 else ENOENT) d
      in ((d, cf), a))"

end
