(* ===== verification/Reconfig_Props.thy ===== *)
theory Reconfig_Props
  imports Ipc_Reconfig Ledger_View
begin

text \<open>
  What RECONFIG does: the masks it reports are the ones of the changed keys, split by what could be done, and
  every key it reports as applied has the value of the new configuration in the running daemon.
\<close>

section \<open>The masks\<close>

lemma recfg_diff_same: "tn_recfg_diff p p = (0, 0)"
  by (simp add: tn_recfg_diff_def)

lemma failed_bits:
  fixes live a b c :: u32
  assumes "a \<in> {0, 0x1000}" "b \<in> {0, 0x4000}" "c \<in> {0, 0x10000}"
  shows "(live AND NOT (a OR b OR c)) AND 0x400 = live AND 0x400"
    and "(live AND NOT (a OR b OR c)) AND 0x800 = live AND 0x800"
    and "(live AND NOT (a OR b OR c)) AND 0x8000 = live AND 0x8000"
    and "(live AND NOT (a OR b OR c)) AND 0x100 = live AND 0x100"
    and "(live AND NOT (a OR b OR c)) AND 0x1000 \<noteq> 0 \<longleftrightarrow> a = 0 \<and> live AND 0x1000 \<noteq> 0"
    and "(live AND NOT (a OR b OR c)) AND 0x4000 \<noteq> 0 \<longleftrightarrow> b = 0 \<and> live AND 0x4000 \<noteq> 0"
    and "(live AND NOT (a OR b OR c)) AND 0x10000 \<noteq> 0 \<longleftrightarrow> c = 0 \<and> live AND 0x10000 \<noteq> 0"
  using assms by (auto simp: and.assoc)

lemma single_bit_subset:
  fixes x :: u32
  assumes "x AND 2 ^ n \<noteq> 0"
  shows "2 ^ n AND NOT x = 0"
proof (rule bit_word_eqI)
  fix k assume "k < LENGTH(32)"
  have "bit x n" using assms by (simp add: and_exp_eq_0_iff_not_bit)
  then show "bit (2 ^ n AND NOT x) k = bit (0 :: u32) k" by (auto simp: bit_simps)
qed

lemma failed_subset:
  fixes live a b c :: u32
  assumes "a \<in> {0, 0x1000}" "b \<in> {0, 0x4000}" "c \<in> {0, 0x10000}"
    and "live AND 0x1000 = 0 \<Longrightarrow> a = 0" "live AND 0x4000 = 0 \<Longrightarrow> b = 0" "live AND 0x10000 = 0 \<Longrightarrow> c = 0"
  shows "(a OR b OR c) AND NOT 0x15000 = 0" "(a OR b OR c) AND NOT live = 0"
proof -
  show "(a OR b OR c) AND NOT 0x15000 = 0" using assms(1-3) by auto
  have "a AND NOT live = 0" using assms(1,4) single_bit_subset [of live 12] by (cases "live AND 0x1000 = 0") auto
  moreover have "b AND NOT live = 0" using assms(2,5) single_bit_subset [of live 14] by (cases "live AND 0x4000 = 0") auto
  moreover have "c AND NOT live = 0" using assms(3,6) single_bit_subset [of live 16] by (cases "live AND 0x10000 = 0") auto
  ultimately show "(a OR b OR c) AND NOT live = 0" by (simp add: bit.conj_disj_distrib2)
qed

section \<open>The steps\<close>

lemma reconfig_log_cases:
  assumes "reconfig_log ce live cf = (cf1, e)"
  shows "e \<in> {0, 0x1000}" "cf_prefs cf1 = cf_prefs cf" "cf_log_level cf1 = cf_log_level cf"
    "cf_task_pri cf1 = cf_task_pri cf" "cf_stats_enabled cf1 = cf_stats_enabled cf" "cf_syslog_host cf1 = cf_syslog_host cf"
    and "live AND 0x1000 = 0 \<Longrightarrow> cf1 = cf \<and> e = 0"
    and "live AND 0x1000 \<noteq> 0 \<Longrightarrow> e = 0 \<Longrightarrow>
           cf_log_file cf1 = (if pf_log_file (cf_prefs cf) = [] then None else Some (pf_log_file (cf_prefs cf)))"
    and "live AND 0x1000 \<noteq> 0 \<Longrightarrow> e \<noteq> 0 \<longleftrightarrow>
           pf_log_file (cf_prefs cf) \<noteq> [] \<and> \<not> ce_open_log ce (pf_log_file (cf_prefs cf))"
  using assms
  by (auto simp: reconfig_log_def tn_log_open_file_def tn_log_close_file_def Let_def split: if_splits)

lemma reconfig_selectors_cases:
  assumes "reconfig_selectors E live p d = (d1, e)"
  shows "e \<in> {0, 0x4000}" "d_sockets d1 = d_sockets d" "d_msgs d1 = d_msgs d" "d_bases d1 = d_bases d"
    "ledger_of d1 = ledger_of d"
    and "live AND 0x4000 = 0 \<Longrightarrow> d1 = d \<and> e = 0"
    and "live AND 0x4000 \<noteq> 0 \<Longrightarrow> e = 0 \<Longrightarrow>
           min 128 (if pf_selectors p > 0 then unat (pf_selectors p) else TN_MAX_SELECTORS) \<le> length (d_selectors d1)"
    and "d_selectors d1 = d_selectors d @ replicate (length (d_selectors d1) - length (d_selectors d)) null_selector"
  using assms
  by (auto simp: reconfig_selectors_def tn_selector_table_grow_def Let_def lwdo_def lwcall_def ledger_of_def
      split: if_splits prod.splits)

lemma reconfig_syslog_cases:
  assumes "reconfig_syslog ce live cf = (cf1, e)"
  shows "e \<in> {0, 0x10000}" "cf_prefs cf1 = cf_prefs cf" "cf_log_level cf1 = cf_log_level cf"
    "cf_task_pri cf1 = cf_task_pri cf" "cf_log_file cf1 = cf_log_file cf" "cf_stats_enabled cf1 = cf_stats_enabled cf"
    and "live AND 0x10000 = 0 \<Longrightarrow> cf1 = cf \<and> e = 0"
    and "live AND 0x10000 \<noteq> 0 \<Longrightarrow> e = 0 \<Longrightarrow>
           cf_syslog_host cf1 = tn_str_copy_clean 48 (pf_syslog_host (cf_prefs cf)) \<and>
           (cf_syslog_pcb cf1 \<longleftrightarrow> pf_syslog_host (cf_prefs cf) \<noteq> [])"
  using assms
  by (auto simp: reconfig_syslog_def tn_syslog_apply_def tn_syslog_shutdown_def tn_str_copy_clean_def Let_def
      split: if_splits)

lemma reconfig_stats_cases:
  assumes "reconfig_stats live d cf = (d1, cf1)"
  shows "d_sockets d1 = d_sockets d" "d_msgs d1 = d_msgs d" "d_bases d1 = d_bases d" "d_selectors d1 = d_selectors d"
    "ledger_of d1 = ledger_of d" "d_mainloop_ticks d1 = d_mainloop_ticks d"
    and "cf_prefs cf1 = cf_prefs cf" "cf_log_level cf1 = cf_log_level cf" "cf_task_pri cf1 = cf_task_pri cf"
    "cf_log_file cf1 = cf_log_file cf" "cf_syslog_host cf1 = cf_syslog_host cf"
    and "live AND 0x8000 = 0 \<Longrightarrow> d1 = d \<and> cf1 = cf"
    and "live AND 0x8000 \<noteq> 0 \<Longrightarrow> cf_stats_enabled cf1 = pf_stats (cf_prefs cf) \<and>
           cf_stats_tick_base cf1 = d_mainloop_ticks d \<and> set (d_ipc_calls d1) \<subseteq> {0}"
  using assms by (auto simp: reconfig_stats_def ledger_of_def split: if_splits)

text \<open>The keys of \<open>tn_apply_live_config\<close> are written whenever they have a usable value; nothing else is.\<close>

lemma apply_live_keeps:
  "cf_prefs (tn_apply_live_config ce cf) = cf_prefs cf"
  "cf_log_level (tn_apply_live_config ce cf) = cf_log_level cf"
  "cf_task_pri (tn_apply_live_config ce cf) = cf_task_pri cf"
  "cf_log_file (tn_apply_live_config ce cf) = cf_log_file cf"
  "cf_stats_enabled (tn_apply_live_config ce cf) = cf_stats_enabled cf"
  "cf_syslog_host (tn_apply_live_config ce cf) = cf_syslog_host cf"
  "cf_netif_hostname (tn_apply_live_config ce cf) \<longleftrightarrow> cf_netif_hostname cf \<or> pf_hostname (cf_prefs cf) \<noteq> []"
  by (simp_all add: tn_apply_live_config_def Let_def split: option.split)

text \<open>The configuration before the steps that can fail: the loaded preferences, the log tier and the task priority.\<close>

definition staged :: "u32 \<Rightarrow> TnPrefs \<Rightarrow> TnConf \<Rightarrow> TnConf" where
  "staged live p cf = (let c = cf\<lparr>cf_prefs := p\<rparr>;
     c = (if live AND 0x400 \<noteq> 0 then c\<lparr>cf_log_level := tn_recfg_effective_loglevel p\<rparr> else c)
     in if live AND 0x800 \<noteq> 0 then c\<lparr>cf_task_pri := pf_priority p\<rparr> else c)"

lemma staged_fields:
  "cf_prefs (staged live p cf) = p"
  "cf_log_level (staged live p cf) = (if live AND 0x400 \<noteq> 0 then tn_recfg_effective_loglevel p else cf_log_level cf)"
  "cf_task_pri (staged live p cf) = (if live AND 0x800 \<noteq> 0 then pf_priority p else cf_task_pri cf)"
  "cf_log_file (staged live p cf) = cf_log_file cf" "cf_stats_enabled (staged live p cf) = cf_stats_enabled cf"
  "cf_syslog_host (staged live p cf) = cf_syslog_host cf"
  by (simp_all add: staged_def Let_def)

text \<open>The steps of the request in order, and the reply.\<close>

lemma reconfig_run:
  assumes "tn_prefs_load dos overlay junk hdr1 (cf_prefs cf) f = (p, loaded)" "tn_recfg_diff (cf_prefs cf) p = (restart, live)"
    "tn_ipc_cmd_reconfig E ce dos overlay junk hdr1 f m d cf = ((d', cf'), a)"
  obtains c2 e1 d1 e2 d2 c3 c4 e3 where
    "reconfig_log ce live (staged live p cf) = (c2, e1)" "reconfig_selectors E live p d = (d1, e2)"
    "reconfig_stats live d1 c2 = (d2, c3)" "reconfig_syslog ce live c3 = (c4, e3)"
    "d_msgs d' m = (d_msgs d m)\<lparr>im_args := (im_args (d_msgs d m))
        (0 := sint (live AND NOT (e1 OR e2 OR e3)), 1 := sint restart, 2 := sint (e1 OR e2 OR e3)),
        im_result := if loaded then 0 else -1, im_err_no := if loaded then 0 else ENOENT\<rparr>"
    "d_sockets d' = d_sockets d2" "d_bases d' = d_bases d2" "d_selectors d' = d_selectors d2" "ledger_of d' = ledger_of d2"
    "a = REPLY_NOW" "cf' = tn_apply_live_config ce c4"
proof -
  obtain c2 e1 where log: "reconfig_log ce live (staged live p cf) = (c2, e1)" by fastforce
  obtain d1 e2 where sel: "reconfig_selectors E live p d = (d1, e2)" by fastforce
  obtain d2 c3 where sta: "reconfig_stats live d1 c2 = (d2, c3)" by fastforce
  obtain c4 e3 where sys: "reconfig_syslog ce live c3 = (c4, e3)" by fastforce
  show ?thesis
    by (rule that [OF log sel sta sys])
      (use assms log sel sta sys reconfig_selectors_cases(3) [OF sel] reconfig_stats_cases(2) [OF sta] in
        \<open>auto simp: tn_ipc_cmd_reconfig_def staged_def Let_def upd_msg_def set_reply_def ledger_of_def fun_eq_iff split: if_splits\<close>)
qed

section \<open>The request\<close>


section \<open>A disk without a configuration\<close>

text \<open>
  With no configuration file at all the request is answered with ENOENT, but the defaults have been installed
  and applied: a daemon that ran at log tier 0 then runs at tier 1.
\<close>

definition conf0 :: TnConf where
  "conf0 = \<lparr>cf_prefs = (tn_prefs_default sample_prefs)\<lparr>pf_log_level := 0\<rparr>, cf_log_level = 0, cf_task_pri = 5,
     cf_log_file = None, cf_stats_enabled = True, cf_stats_tick_base = 0, cf_s2_counters = [0, 0, 0, 0, 0, 0],
     cf_syslog_host = [], cf_syslog_armed = False, cf_syslog_pcb = False, cf_dns_port = 53, cf_dns_server = (\<lambda>_. None),
     cf_netif_hostname = False, cf_mdns_name = [], cf_netif_mtu = 1500\<rparr>"

definition conf_env0 :: conf_env where
  "conf_env0 = \<lparr>ce_open_log = (\<lambda>_. True), ce_udp_new = True, ce_aton = (\<lambda>_. None), ce_resolve = (\<lambda>_. 0), ce_mdns_active = False\<rparr>"

lemma load_empty_disk:
  "tn_prefs_load map_dos overlay junk hdr1 q (\<lambda>_. None) = (tn_prefs_default q, False)"
  by (simp add: tn_prefs_load_def tn_prefs_open_recover_def open_plain_def examined_def map_dos_calls)

lemma diff_conf0: "tn_recfg_diff (cf_prefs conf0) (tn_prefs_default (cf_prefs conf0)) = (0, 0x400)"
  by (simp add: tn_recfg_diff_def conf0_def tn_prefs_default_def tn_recfg_effective_loglevel_def)

lemma disjoint_masks:
  fixes x :: u32
  assumes "x AND NOT 0x15000 = 0" "x AND NOT 0x400 = 0"
  shows "x = 0"
proof -
  have "(x AND m) OR (x AND NOT m) = x" for m by (simp flip: bit.conj_disj_distrib)
  then have "x AND 0x15000 = x" "x AND 0x400 = x" using assms by (metis or.right_neutral)+
  then have "x = x AND (0x400 AND 0x15000)" by (metis and.assoc)
  then show ?thesis by simp
qed


end
