(* ===== verification/Inet.thy ===== *)
theory Inet
  imports Config_Roundtrip
begin

text \<open>
  Internet addresses as text: the parser behind inet\_addr (common/inet\_parse.c), the printers
  (Inet\_NtoA of lib/lib\_vectors.c, \<open>ip_to_str\<close> of task/netif\_mgr.c) and the classful helpers.
  The 68000 is big-endian, so ntohl is the identity.
\<close>

section \<open>inet\_parse.c\<close>

definition digit_in :: "nat \<Rightarrow> char \<Rightarrow> nat option" where
  "digit_in radix c =
     (let n = of_char c :: nat;
          d = (if 48 \<le> n \<and> n \<le> 57 then Some (n - 48)
               else if radix = 16 \<and> 97 \<le> n \<and> n \<le> 102 then Some (n - 97 + 10)
               else if radix = 16 \<and> 65 \<le> n \<and> n \<le> 70 then Some (n - 65 + 10)
               else None)
      in case d of None \<Rightarrow> None | Some v \<Rightarrow> if radix \<le> v then None else Some v)"

text \<open>The inner loop: \<open>None\<close> when the part does not fit 32 bits.\<close>

fun part_digits :: "nat \<Rightarrow> u32 \<Rightarrow> nat \<Rightarrow> string \<Rightarrow> (u32 \<times> nat \<times> string) option" where
  "part_digits radix num digits [] = Some (num, digits, [])"
| "part_digits radix num digits (c # p) =
     (case digit_in radix c of
        None \<Rightarrow> Some (num, digits, c # p)
      | Some d \<Rightarrow>
          (let lim = 0xFFFFFFFF div word_of_nat radix; lim_rem = 0xFFFFFFFF mod word_of_nat radix :: u32 in
           if num > lim \<or> (num = lim \<and> word_of_nat d > lim_rem) then None
           else part_digits radix (num * word_of_nat radix + word_of_nat d) (Suc digits) p))"

definition parse_part :: "string \<Rightarrow> (u32 \<times> string) option" where
  "parse_part p =
     (let (radix, digits, p') =
            (if p \<noteq> [] \<and> hd p = CHR ''0''
             then (if tl p \<noteq> [] \<and> (hd (tl p) = CHR ''x'' \<or> hd (tl p) = CHR ''X'') then (16, 0, drop 2 p) else (8, 1, tl p))
             else (10, 0, p))
      in case part_digits radix 0 digits p' of
           None \<Rightarrow> None
         | Some (num, n, rest) \<Rightarrow> if n = 0 then None else Some (num, rest))"

fun parse_parts :: "nat \<Rightarrow> string \<Rightarrow> (u32 list \<times> string) option" where
  "parse_parts 0 p = Some ([], p)"
| "parse_parts (Suc room) p =
     (if p = [] then Some ([], [])
      else case parse_part p of
             None \<Rightarrow> None
           | Some (num, rest) \<Rightarrow>
               (if rest = [] then Some ([num], [])
                else if hd rest = CHR ''.''
                then (if tl rest = [] then None
                      else case parse_parts room (tl rest) of None \<Rightarrow> None | Some (vs, r) \<Rightarrow> Some (num # vs, r))
                else None))"

definition tn_inet_addr_parse_ex :: "string \<Rightarrow> u32 option" where
  "tn_inet_addr_parse_ex cp =
     (if cp = [] then None
      else case parse_parts 4 cp of
             None \<Rightarrow> None
           | Some (val, rest) \<Rightarrow>
               (if rest \<noteq> [] then None
                else case val of
                  [a] \<Rightarrow> Some a
                | [a, b] \<Rightarrow> if a > 0xFF \<or> b > 0xFFFFFF then None else Some (push_bit 24 a OR (b AND 0xFFFFFF))
                | [a, b, c] \<Rightarrow>
                    if a > 0xFF \<or> b > 0xFF \<or> c > 0xFFFF then None
                    else Some (push_bit 24 a OR push_bit 16 (b AND 0xFF) OR (c AND 0xFFFF))
                | [a, b, c, d] \<Rightarrow>
                    if a > 0xFF \<or> b > 0xFF \<or> c > 0xFF \<or> d > 0xFF then None
                    else Some (push_bit 24 a OR push_bit 16 (b AND 0xFF) OR push_bit 8 (c AND 0xFF) OR (d AND 0xFF))
                | _ \<Rightarrow> None))"

definition tn_inet_addr_parse :: "string \<Rightarrow> u32" where
  "tn_inet_addr_parse cp = (case tn_inet_addr_parse_ex cp of None \<Rightarrow> 0xFFFFFFFF | Some a \<Rightarrow> a)"

section \<open>Printing\<close>

definition octet :: "nat \<Rightarrow> u32 \<Rightarrow> u32" where
  "octet k ip = drop_bit (8 * k) ip AND 0xFF"

text \<open>Inet\_NtoA and inet\_ntop: RawDoFmt prints each octet in decimal.\<close>

definition tn_lvo_inet_ntoa :: "u32 \<Rightarrow> string" where
  "tn_lvo_inet_ntoa ip =
     dec_u32 (octet 3 ip) @ ''.'' @ dec_u32 (octet 2 ip) @ ''.'' @ dec_u32 (octet 1 ip) @ ''.'' @ dec_u32 (octet 0 ip)"

definition tn_lvo_inet_ntop :: "int \<Rightarrow> u32 \<Rightarrow> int \<Rightarrow> int + string" where
  "tn_lvo_inet_ntop af ip sz =
     (if af \<noteq> 2 then Inl EAFNOSUPPORT else if sz < 16 then Inl ENOSPC else Inr (tn_lvo_inet_ntoa ip))"

definition tn_lvo_inet_pton :: "int \<Rightarrow> string \<Rightarrow> int \<times> u32 option" where
  "tn_lvo_inet_pton af src =
     (if af \<noteq> 2 then (-1, None)
      else case tn_inet_addr_parse_ex src of Some a \<Rightarrow> (1, Some a) | None \<Rightarrow> (0, None))"

text \<open>\<open>ip_to_str\<close>: the digits of an octet are produced last first.\<close>

function octet_digits :: "nat \<Rightarrow> string" where
  "octet_digits v = (if v = 0 then [] else char_of (48 + v mod 10) # octet_digits (v div 10))"
  by auto
termination
  by (relation "measure id") auto

declare octet_digits.simps [simp del]

definition octet_str :: "nat \<Rightarrow> string" where
  "octet_str v = rev (if v = 0 then ''0'' else octet_digits v)"

definition ip_to_str :: "u32 \<Rightarrow> string" where
  "ip_to_str ip =
     octet_str (unat (octet 3 ip)) @ ''.'' @ octet_str (unat (octet 2 ip)) @ ''.'' @
     octet_str (unat (octet 1 ip)) @ ''.'' @ octet_str (unat (octet 0 ip))"

section \<open>Classful helpers\<close>

definition tn_lvo_inet_lnaof :: "u32 \<Rightarrow> u32" where
  "tn_lvo_inet_lnaof val =
     (if val AND 0x80000000 = 0 then val AND 0x00FFFFFF
      else if val AND 0xC0000000 = 0x80000000 then val AND 0x0000FFFF
      else val AND 0x000000FF)"

definition tn_lvo_inet_netof :: "u32 \<Rightarrow> u32" where
  "tn_lvo_inet_netof val =
     (if val AND 0x80000000 = 0 then drop_bit 24 val AND 0xFF
      else if val AND 0xC0000000 = 0x80000000 then drop_bit 16 val AND 0xFFFF
      else drop_bit 8 val AND 0xFFFFFF)"

definition tn_lvo_inet_makeaddr :: "u32 \<Rightarrow> u32 \<Rightarrow> u32" where
  "tn_lvo_inet_makeaddr n h =
     (if n < 128 then push_bit 24 n OR (h AND 0x00FFFFFF)
      else if n < 65536 then push_bit 16 n OR (h AND 0x0000FFFF)
      else push_bit 8 n OR (h AND 0x000000FF))"

definition tn_lvo_inet_network :: "string \<Rightarrow> u32" where
  "tn_lvo_inet_network cp = (let addr = tn_inet_addr_parse cp in if addr = 0xFFFFFFFF then 0xFFFFFFFF else addr)"

definition tn_lvo_in_localaddr :: "u32 \<Rightarrow> bool" where
  "tn_lvo_in_localaddr ip = (drop_bit 24 ip = 127 \<or> drop_bit 24 ip = 10)"

definition tn_lvo_in_canforward :: "u32 \<Rightarrow> bool" where
  "tn_lvo_in_canforward ip = (\<not> (drop_bit 24 ip = 127 \<or> (224 \<le> drop_bit 24 ip \<and> drop_bit 24 ip \<le> 255)))"

end
