(* ===== verification/Inet_Props.thy ===== *)
theory Inet_Props
  imports Inet
begin

text \<open>
  The address parser rejects exactly the numbers that do not fit, reads back what the printers write,
  and the classful helpers split and join an address.
\<close>

section \<open>Octets and classes\<close>

lemma mask_FF: "(0xFF :: u32) = mask 8" "(0xFFFF :: u32) = mask 16" "(0xFFFFFF :: u32) = mask 24"
  by (simp_all add: mask_eq_exp_minus_1)

lemma quad_join:
  "push_bit 24 (octet 3 ip) OR push_bit 16 (octet 2 ip AND 0xFF) OR push_bit 8 (octet 1 ip AND 0xFF) OR (octet 0 ip AND 0xFF) = ip"
  unfolding octet_def mask_FF
  apply (rule bit_word_eqI)
  subgoal for n by (cases "n < 8"; cases "n < 16"; cases "n < 24") (auto simp: bit_simps)
  done

lemma unat_drop_bit: "unat (drop_bit n x :: u32) = unat x div 2 ^ n"
proof -
  have "take_bit 32 (unat x) = unat x" using unsigned_less [of x, where 'a = nat] by (simp add: take_bit_nat_eq_self)
  then show ?thesis by (simp add: unsigned_drop_bit_eq flip: drop_bit_eq_div)
qed

lemma bit_unat: "bit (x :: u32) n \<longleftrightarrow> odd (unat x div 2 ^ n)"
  by (simp only: bit_iff_odd [symmetric]) (simp add: bit_simps bit_imp_le_length)

lemma class_a: "x AND 0x80000000 = 0 \<longleftrightarrow> unat (x :: u32) < 2 ^ 31"
proof -
  have "(0x80000000 :: u32) = 2 ^ 31" by simp
  then have "x AND 0x80000000 = 0 \<longleftrightarrow> \<not> bit x 31" by (simp only: and_exp_eq_0_iff_not_bit)
  moreover have "unat x < 2 ^ 32" using unsigned_less [of x, where 'a = nat] by simp
  then have "unat x div 2 ^ 31 < 2" by simp
  ultimately show ?thesis unfolding bit_unat by (auto simp: less_2_cases_iff)
qed

lemma class_b: "2 ^ 31 \<le> unat x \<Longrightarrow> x AND 0xC0000000 = 0x80000000 \<longleftrightarrow> unat (x :: u32) < 3 * 2 ^ 30"
proof -
  assume a: "2 ^ 31 \<le> unat x"
  have l: "unat x < 2 ^ 32" using unsigned_less [of x, where 'a = nat] by simp
  have b31: "bit x 31" proof -
    have "unat x div 2 ^ 31 = 1" using a l by simp
    then show ?thesis unfolding bit_unat by simp
  qed
  have "bit (2 ^ 31 :: u32) n \<longleftrightarrow> n = 31" "bit (2 ^ 31 OR 2 ^ 30 :: u32) n \<longleftrightarrow> n = 31 \<or> n = 30" for n
    unfolding bit_or_iff bit_exp_iff by (auto simp: possible_bit_def)
  then have c: "bit (0x80000000 :: u32) n \<longleftrightarrow> n = 31" "bit (0xC0000000 :: u32) n \<longleftrightarrow> n = 31 \<or> n = 30" for n
    by simp_all
  have "x AND 0xC0000000 = 0x80000000 \<longleftrightarrow> \<not> bit x 30"
    unfolding bit_eq_iff [of "x AND 0xC0000000" "0x80000000"] bit_and_iff c using b31
    by (auto simp: possible_bit_def dest: spec [of _ 30])
  moreover have "unat x div 2 ^ 30 = 2 \<or> unat x div 2 ^ 30 = 3" using a l by auto
  ultimately show ?thesis unfolding bit_unat by auto
qed

lemma join_split: "n \<le> 32 \<Longrightarrow> push_bit n (drop_bit n x) OR (x AND mask n) = (x :: u32)"
  by (rule bit_word_eqI) (auto simp: bit_simps)

lemma drop_mask: "n + m = 32 \<Longrightarrow> drop_bit n x AND mask m = drop_bit n (x :: u32)"
  by (rule bit_word_eqI) (auto simp: bit_simps dest: bit_imp_le_length)

lemma makeaddr_split: "tn_lvo_inet_makeaddr (tn_lvo_inet_netof x) (tn_lvo_inet_lnaof x) = x"
proof -
  have l: "unat x < 2 ^ 32" using unsigned_less [of x, where 'a = nat] by simp
  note d = drop_mask [of 24 8 x] drop_mask [of 16 16 x] drop_mask [of 8 24 x]
  note defs = tn_lvo_inet_makeaddr_def tn_lvo_inet_netof_def tn_lvo_inet_lnaof_def mask_FF
  consider "unat x < 2 ^ 31" | "2 ^ 31 \<le> unat x" "unat x < 3 * 2 ^ 30" | "3 * 2 ^ 30 \<le> unat x" by linarith
  then show ?thesis
  proof cases
    case 1
    then have "drop_bit 24 x < 128" by (simp add: word_less_nat_alt unat_drop_bit)
    then show ?thesis using 1 d join_split [of 24 x] class_a [of x] by (simp add: defs)
  next
    case 2
    then have "\<not> drop_bit 16 x < 128" "drop_bit 16 x < 65536" using l by (auto simp: word_less_nat_alt unat_drop_bit)
    then show ?thesis using 2 d join_split [of 16 x] class_a [of x] class_b [of x] by (simp add: defs)
  next
    case 3
    then have "\<not> drop_bit 8 x < 128" "\<not> drop_bit 8 x < 65536" using l by (auto simp: word_less_nat_alt unat_drop_bit)
    then show ?thesis using 3 d join_split [of 8 x] class_a [of x] class_b [of x] by (simp add: defs)
  qed
qed

section \<open>Numbers that do not fit are rejected\<close>

definition radix_ok :: "nat \<Rightarrow> bool" where "radix_ok r = (r = 8 \<or> r = 10 \<or> r = 16)"
lemma nat_guard: assumes "d < r" shows "(M div r < n \<or> n = M div r \<and> M mod r < d) \<longleftrightarrow> M < n * r + (d :: nat)"
proof -
  have M: "M = (M div r) * r + M mod r" "M mod r < r" using assms by auto
  consider "M div r < n" | "n = M div r" | "n < M div r" by linarith
  then show ?thesis
  proof cases
    case 1
    then have "Suc (M div r) * r \<le> n * r" by (intro mult_right_mono) auto
    then have "M < n * r" using M by (metis add.commute add_less_cancel_left mult_Suc order_less_le_trans)
    then show ?thesis using 1 by simp
  next
    case 3
    then have "Suc n * r \<le> (M div r) * r" by (intro mult_right_mono) auto
    then have "n * r + d < (M div r) * r" using assms by simp
    then show ?thesis using M(1) 3 by linarith
  next
    case 2
    then have "M < n * r + d \<longleftrightarrow> M mod r < d" using M(1) by (metis add_less_cancel_left)
    then show ?thesis using 2 by simp
  qed
qed

lemma word_guard:
  assumes "radix_ok r" "d < r"
  shows "((num :: u32) > 0xFFFFFFFF div word_of_nat r \<or> num = 0xFFFFFFFF div word_of_nat r \<and> word_of_nat d > (0xFFFFFFFF mod word_of_nat r :: u32))
     \<longleftrightarrow> 2 ^ 32 \<le> unat num * r + d"
proof -
  have "unat (word_of_nat r :: u32) = r" "unat (word_of_nat d :: u32) = d" using assms by (auto simp: radix_ok_def unat_of_nat)
  then have "?thesis \<longleftrightarrow> (((2 ^ 32 - 1) div r < unat num \<or> unat num = (2 ^ 32 - 1) div r \<and> (2 ^ 32 - 1) mod r < d) \<longleftrightarrow> 2 ^ 32 \<le> unat num * r + d)"
    by (simp add: word_less_nat_alt unat_div unat_mod word_unat_eq_iff)
  moreover have "(2 ^ 32 - 1 < unat num * r + d) = (2 ^ 32 \<le> unat num * r + d)" by auto
  ultimately show ?thesis using nat_guard [OF assms(2), of "2 ^ 32 - 1" "unat num"] by simp
qed

fun radix_val :: "nat \<Rightarrow> nat \<Rightarrow> string \<Rightarrow> nat" where
  "radix_val r acc [] = acc"
| "radix_val r acc (c # cs) = radix_val r (acc * r + the (digit_in r c)) cs"

lemma radix_val_mono: "0 < r \<Longrightarrow> acc \<le> radix_val r acc ds"
proof (induction ds arbitrary: acc)
  case (Cons c ds)
  have "acc \<le> acc * r + the (digit_in r c)" using Cons.prems by (simp add: trans_le_add1)
  also have "\<dots> \<le> radix_val r (acc * r + the (digit_in r c)) ds" using Cons by blast
  finally show ?case by simp
qed simp

lemma digit_in_less: "digit_in r c = Some d \<Longrightarrow> d < r"
  by (auto simp: digit_in_def Let_def split: if_splits)

lemma part_digits_exact:
  assumes "radix_ok r" "rest = [] \<or> digit_in r (hd rest) = None"
  shows "list_all (\<lambda>c. digit_in r c \<noteq> None) ds \<Longrightarrow>
    part_digits r num n (ds @ rest) =
      (if radix_val r (unat num) ds < 2 ^ 32 then Some (word_of_nat (radix_val r (unat num) ds), n + length ds, rest) else None)"
proof (induction ds arbitrary: num n)
  case Nil
  have "part_digits r num n rest = Some (num, n, rest)" using assms(2) by (cases rest) auto
  then show ?case using unsigned_less [of num, where 'a = nat] by simp
next
  case (Cons c ds)
  then obtain d where d: "digit_in r c = Some d" by auto
  then have less: "d < r" by (rule digit_in_less)
  have r: "0 < r" using less by simp
  show ?case
  proof (cases "2 ^ 32 \<le> unat num * r + d")
    case True
    then have "2 ^ 32 \<le> radix_val r (unat num * r + d) ds" using radix_val_mono [OF r] order_trans by blast
    then show ?thesis using True word_guard [OF assms(1) less, of num] d by (simp add: Let_def)
  next
    case False
    have "unat (num * word_of_nat r + word_of_nat d) = unat num * r + d"
    proof -
      have "num * word_of_nat r + word_of_nat d = word_of_nat (unat num * r + d)" by simp
      then show ?thesis using False by (simp add: unat_of_nat del: of_nat_add of_nat_mult)
    qed
    then show ?thesis using False word_guard [OF assms(1) less, of num] d Cons.IH [of "num * word_of_nat r + word_of_nat d" "Suc n"] Cons.prems
      by (auto simp: Let_def)
  qed
qed

section \<open>Printed addresses\<close>

lemma radix_val_append: "radix_val r acc (xs @ ys) = radix_val r (radix_val r acc xs) ys"
  by (induction xs arbitrary: acc) auto

lemma digit_in_10: "d < 10 \<Longrightarrow> digit_in 10 (char_of (48 + d :: nat)) = Some d"
  by (simp add: digit_in_def Let_def)

lemma radix_val_dec: "v < 10 ^ n \<Longrightarrow> radix_val 10 0 (rev (dec_digits_rev n v)) = v"
proof (induction n arbitrary: v)
  case (Suc n)
  have "radix_val 10 0 (rev (dec_digits_rev n (v div 10))) = v div 10"
    using Suc.prems by (intro Suc.IH) (simp add: less_mult_imp_div_less mult.commute)
  then show ?case by (simp add: radix_val_append digit_in_10)
qed simp

lemma radix_val_u32: "radix_val 10 0 (dec_u32 w) = unat w"
proof (cases "w = 0")
  case False
  then show ?thesis using radix_val_dec [OF unat_u32_lt, of w] by (simp only: dec_u32_def if_False)
qed (simp add: dec_u32_def digit_in_def Let_def)

lemma dec_u32_digit_in: "list_all (\<lambda>c. digit_in 10 c \<noteq> None) (dec_u32 w)"
  using dec_u32_digits [of w] by (auto simp: list_all_iff digit_in_def is_digit_def Let_def)

lemma dec_digits_rev_last: "0 < v \<Longrightarrow> v < 10 ^ n \<Longrightarrow> dec_digits_rev n v \<noteq> [] \<and> last (dec_digits_rev n v) \<noteq> CHR ''0''"
proof (induction n arbitrary: v)
  case (Suc n)
  show ?case
  proof (cases "v div 10 = 0")
    case True
    then have "v mod 10 = v" by simp
    moreover have "char_of (48 + v) \<noteq> CHR ''0''"
    proof
      assume "char_of (48 + v) = CHR ''0''"
      from arg_cong [OF this, of "of_char :: char \<Rightarrow> nat"] show False using True Suc.prems by simp
    qed
    ultimately show ?thesis using True Suc.prems by (cases n) simp_all
  next
    case False
    then show ?thesis using Suc.prems Suc.IH [of "v div 10"] by (simp add: less_mult_imp_div_less mult.commute)
  qed
qed simp

lemma dec_u32_hd_nonzero: "w \<noteq> 0 \<Longrightarrow> hd (dec_u32 w) \<noteq> CHR ''0''"
proof -
  assume "w \<noteq> 0"
  then have "dec_digits_rev 15 (unat w) \<noteq> [] \<and> last (dec_digits_rev 15 (unat w)) \<noteq> CHR ''0''"
    by (intro dec_digits_rev_last unat_u32_lt) (simp add: unat_gt_0)
  then show ?thesis using \<open>w \<noteq> 0\<close> by (simp add: dec_u32_def hd_rev del: dec_digits_rev.simps)
qed

lemma parse_part_dec:
  assumes "rest = [] \<or> hd rest = CHR ''.''"
  shows "parse_part (dec_u32 w @ rest) = Some (w, rest)"
proof -
  have stop: "rest = [] \<or> digit_in r (hd rest) = None" for r using assms by (auto simp: digit_in_def Let_def)
  show ?thesis
  proof (cases "w = 0")
    case True
    have "part_digits 8 0 1 rest = Some (0, 1, rest)"
      using part_digits_exact [OF _ stop, of 8 "[]" 0 1] by (simp add: radix_ok_def)
    then show ?thesis using True assms by (auto simp: parse_part_def dec_u32_def Let_def)
  next
    case False
    have "part_digits 10 0 0 (dec_u32 w @ rest) = Some (w, length (dec_u32 w), rest)"
      using part_digits_exact [where r = 10 and num = 0 and n = 0 and ds = "dec_u32 w", OF _ stop dec_u32_digit_in] unsigned_less [of w, where 'a = nat]
      by (simp add: radix_ok_def radix_val_u32)
    then show ?thesis using dec_u32_hd_nonzero [OF False] by (simp add: parse_part_def hd_append)
  qed
qed

lemma octet_le: "octet k ip \<le> 0xFF"
proof -
  have "unat (octet k ip) = take_bit 8 (unat (drop_bit (8 * k) ip))"
    unfolding octet_def mask_FF by (simp add: unsigned_take_bit_eq flip: take_bit_eq_mask)
  then show ?thesis by (simp add: word_le_nat_alt less_Suc_eq_le flip: take_bit_eq_mod) (simp add: take_bit_eq_mod)
qed

lemma octet_length: "length (dec_u32 (octet k ip)) \<le> 3"
  using octet_le [of k ip] by (intro dec_u32_length) (simp_all add: word_le_nat_alt)

lemma parse_part_ntoa: "parse_part (dec_u32 w @ CHR ''.'' # rest) = Some (w, CHR ''.'' # rest)" "parse_part (dec_u32 w) = Some (w, [])"
  using parse_part_dec [of "CHR ''.'' # rest" w] parse_part_dec [of "[]" w] by simp_all

lemma octet_digits_dec: "v < 10 ^ n \<Longrightarrow> octet_digits v = dec_digits_rev n v"
proof (induction n arbitrary: v)
  case (Suc n)
  then show ?case by (subst octet_digits.simps) (simp add: less_mult_imp_div_less mult.commute)
qed (simp add: octet_digits.simps)

lemma octet_str_dec: "octet_str (unat w) = dec_u32 w"
  using octet_digits_dec [OF unat_u32_lt, of w] by (simp add: octet_str_def dec_u32_def unat_eq_0 del: dec_digits_rev.simps)

lemma parse_ntoa: "tn_inet_addr_parse_ex (tn_lvo_inet_ntoa ip) = Some ip"
proof -
  have "parse_parts 4 (tn_lvo_inet_ntoa ip) = Some ([octet 3 ip, octet 2 ip, octet 1 ip, octet 0 ip], [])"
    by (simp add: tn_lvo_inet_ntoa_def numeral_eq_Suc parse_part_ntoa)
  moreover have "\<not> octet k ip > 0xFF" for k using octet_le by (simp add: not_less)
  ultimately show ?thesis
    using quad_join [of ip] by (simp add: tn_inet_addr_parse_ex_def) (simp add: tn_lvo_inet_ntoa_def)
qed

lemma length_ntoa: "length (tn_lvo_inet_ntoa ip) \<le> 15"
  using octet_length [of 3 ip] octet_length [of 2 ip] octet_length [of 1 ip] octet_length [of 0 ip]
  by (simp add: tn_lvo_inet_ntoa_def)

text \<open>
  C31. Printing and parsing are inverse: for every 32-bit address Inet\_NtoA and the daemon's own
  \<open>ip_to_str\<close> write the same text, it fits the 16-byte buffer inet\_ntop asks for, and inet\_addr's
  parser reads the same address back from it.
\<close>
theorem inet_roundtrip:
  "tn_inet_addr_parse_ex (tn_lvo_inet_ntoa ip) = Some ip \<and> length (tn_lvo_inet_ntoa ip) + 1 \<le> 16 \<and>
   ip_to_str ip = tn_lvo_inet_ntoa ip"
  using parse_ntoa [of ip] length_ntoa [of ip] by (simp add: ip_to_str_def tn_lvo_inet_ntoa_def octet_str_dec)

end
