(* ===== verification/Http_Url.thy ===== *)
theory Http_Url
  imports Config_Text
begin

text \<open>
  The HTTP client's text handling (common/http\_url.c): URLs, redirects, response headers and the
  chunked transfer decoder, with the body writer of cmds/TolunnetGet.c that drives it.  A C string
  is the list of its characters before the NUL.
\<close>

section \<open>URLs\<close>

definition is_space :: "char \<Rightarrow> bool" where
  "is_space c = (c = SP \<or> c = TAB \<or> c = CR \<or> c = LF)"

definition to_lower_ascii :: "char \<Rightarrow> char" where
  "to_lower_ascii c = (if 65 \<le> (of_char c :: nat) \<and> (of_char c :: nat) \<le> 90 then char_of (of_char c + 32 :: nat) else c)"

text \<open>\<open>ci_strncmp(s, lit, strlen(lit)) == 0\<close>: the text starts with the literal, up to case.\<close>

fun ci_prefix :: "string \<Rightarrow> string \<Rightarrow> bool" where
  "ci_prefix s [] = True"
| "ci_prefix [] (_ # _) = False"
| "ci_prefix (a # as) (b # bs) = (to_lower_ascii a = to_lower_ascii b \<and> ci_prefix as bs)"

datatype scheme = TN_SCHEME_HTTP | TN_SCHEME_HTTPS

record TnUrl =
  u_scheme :: scheme
  u_host :: string
  u_port :: nat
  u_path :: string

text \<open>The port digits; \<open>None\<close> as soon as the value passes 65535.\<close>

fun url_port :: "nat \<Rightarrow> string \<Rightarrow> (nat \<times> string) option" where
  "url_port v [] = Some (v, [])"
| "url_port v (c # p) =
     (if is_digit c then (let v' = v * 10 + digit_val c in if v' > 65535 then None else url_port v' p) else Some (v, c # p))"

definition tn_http_parse_url :: "string \<Rightarrow> TnUrl option" where
  "tn_http_parse_url url_str =
     (let p = dropWhile is_space url_str;
          (sch, p) = (if ci_prefix p ''https://'' then (TN_SCHEME_HTTPS, drop 8 p)
                      else if ci_prefix p ''http://'' then (TN_SCHEME_HTTP, drop 7 p)
                      else (TN_SCHEME_HTTP, p));
          host = takeWhile (\<lambda>c. c \<noteq> CHR '':'' \<and> c \<noteq> CHR ''/'') p;
          p = drop (length host) p
      in if length host > 127 \<or> host = [] then None
         else case (if p \<noteq> [] \<and> hd p = CHR '':''
                    then (if tl p = [] \<or> \<not> is_digit (hd (tl p)) then None else url_port 0 (tl p))
                    else Some (80, p)) of
                None \<Rightarrow> None
              | Some (port, p) \<Rightarrow>
                  (if p \<noteq> [] \<and> hd p = CHR ''/''
                   then (let path = takeWhile (\<lambda>c. \<not> is_space c) p in
                         if length path > 255 then None
                         else Some \<lparr>u_scheme = sch, u_host = host, u_port = port, u_path = path\<rparr>)
                   else if p = [] then Some \<lparr>u_scheme = sch, u_host = host, u_port = port, u_path = ''/''\<rparr>
                   else None))"

definition tn_http_resolve_redirect :: "TnUrl \<Rightarrow> string \<Rightarrow> TnUrl option" where
  "tn_http_resolve_redirect current location =
     (let loc = dropWhile is_space location; word = takeWhile (\<lambda>c. \<not> is_space c) loc in
      if ci_prefix loc ''http://'' \<or> ci_prefix loc ''https://'' then tn_http_parse_url loc
      else if loc \<noteq> [] \<and> hd loc = CHR ''/''
      then (if length word > 255 then None else Some (current\<lparr>u_path := word\<rparr>))
      else let base = (if CHR ''/'' \<in> set (u_path current)
                       then rev (dropWhile (\<lambda>c. c \<noteq> CHR ''/'') (rev (u_path current))) else ''/'')
           in if length base \<ge> 256 \<or> length base + length word \<ge> 256 then None
              else Some (current\<lparr>u_path := base @ word\<rparr>))"

section \<open>Response headers\<close>

record TnHdrInfo =
  h_status_code :: int
  h_content_length :: int
  h_is_chunked :: bool
  h_accept_ranges :: bool
  h_location :: string

text \<open>The offset behind the first occurrence of a separator.\<close>

fun find_end :: "string \<Rightarrow> nat \<Rightarrow> string \<Rightarrow> nat option" where
  "find_end sep i [] = None"
| "find_end sep i (c # s) = (if take (length sep) (c # s) = sep then Some (i + length sep) else find_end sep (Suc i) s)"

definition skip_blanks :: "string \<Rightarrow> string" where
  "skip_blanks s = dropWhile (\<lambda>c. c = SP \<or> c = TAB) s"

fun dec_i32 :: "u32 \<Rightarrow> string \<Rightarrow> u32" where
  "dec_i32 v [] = v"
| "dec_i32 v (c # s) = (if is_digit c then dec_i32 (v * 10 + word_of_nat (digit_val c)) s else v)"

text \<open>
  One header line: \<open>line\<close> is the text from the start of the line to the end of the buffer, \<open>n\<close> its
  length without the line end; the values are read from the text, not limited to the line.
\<close>

definition header_line :: "TnHdrInfo \<Rightarrow> string \<Rightarrow> nat \<Rightarrow> TnHdrInfo" where
  "header_line out line n =
     (if 15 \<le> n \<and> ci_prefix line ''content-length:''
      then out\<lparr>h_content_length := sint (dec_i32 0 (skip_blanks (drop 15 line)))\<rparr>
      else if 18 \<le> n \<and> ci_prefix line ''transfer-encoding:''
      then (if ci_prefix (skip_blanks (drop 18 line)) ''chunked'' then out\<lparr>h_is_chunked := True\<rparr> else out)
      else if 9 \<le> n \<and> ci_prefix line ''location:''
      then (let val = skip_blanks (drop 9 line); start = length line - length val
            in out\<lparr>h_location := take 255 (takeWhile (\<lambda>c. \<not> is_space c) (take (n - start) val))\<rparr>)
      else if 14 \<le> n \<and> ci_prefix line ''accept-ranges:''
      then (if ci_prefix (skip_blanks (drop 14 line)) ''bytes'' then out\<lparr>h_accept_ranges := True\<rparr> else out)
      else out)"

text \<open>The lines of the header block; \<open>room\<close> is the number of characters left in it.\<close>

function header_lines :: "TnHdrInfo \<Rightarrow> nat \<Rightarrow> string \<Rightarrow> TnHdrInfo" where
  "header_lines out room line =
     (let n = length (takeWhile (\<lambda>c. c \<noteq> LF \<and> c \<noteq> NUL) line) in
      if room = 0 \<or> n \<ge> room \<or> n \<ge> length line \<or> line ! n = NUL then out
      else let m = (if 0 < n \<and> line ! (n - 1) = CR then n - 1 else n)
           in header_lines (header_line out line m) (room - Suc n) (drop (Suc n) line))"
  by pat_completeness auto
termination
  by (relation "measure (\<lambda>(_, room, _). room)") auto

declare header_lines.simps [simp del]

definition status_code :: "string \<Rightarrow> nat \<Rightarrow> int" where
  "status_code buf end_offset =
     (if \<not> ci_prefix buf ''HTTP/'' then -1
      else let i = length (takeWhile (\<lambda>c. c \<noteq> SP \<and> c \<noteq> NUL) buf); sp = dropWhile (\<lambda>c. c = SP) (drop i buf) in
        if i \<ge> length buf \<or> buf ! i = NUL \<or> i \<ge> end_offset then -1
        else case take 3 sp of
               [a, b, c] \<Rightarrow>
                 (if is_digit a \<and> is_digit b \<and> is_digit c
                  then int (digit_val a * 100 + digit_val b * 10 + digit_val c) else -1)
             | _ \<Rightarrow> -1)"

text \<open>\<open>buf\<close> holds the bytes of the buffer and \<open>len\<close> is the count given with it; string functions stop at a NUL.\<close>

definition tn_http_parse_headers :: "string \<Rightarrow> nat \<Rightarrow> (nat \<times> TnHdrInfo) option" where
  "tn_http_parse_headers buf len =
     (if len = 0 then None
      else case (case find_end [CR, LF, CR, LF] 0 (take len buf) of Some e \<Rightarrow> Some e | None \<Rightarrow> find_end [LF, LF] 0 (take len buf)) of
             None \<Rightarrow> None
           | Some e \<Rightarrow>
               Some (e, header_lines \<lparr>h_status_code = status_code buf e, h_content_length = -1, h_is_chunked = False,
                                      h_accept_ranges = False, h_location = []\<rparr> e buf))"

section \<open>Chunked transfer coding\<close>

datatype chunk_state = TN_CHUNK_STATE_SIZE | TN_CHUNK_STATE_DATA | TN_CHUNK_STATE_CRLF | TN_CHUNK_STATE_DONE | TN_CHUNK_STATE_ERROR

record TnChunkState =
  c_state :: chunk_state
  c_size :: int
  c_rem :: int
  c_ext :: bool

definition tn_chunk_init :: TnChunkState where
  "tn_chunk_init = \<lparr>c_state = TN_CHUNK_STATE_SIZE, c_size = 0, c_rem = 0, c_ext = False\<rparr>"

definition hex_val :: "char \<Rightarrow> int option" where
  "hex_val c =
     (let n = of_char c :: int in
      if 48 \<le> n \<and> n \<le> 57 then Some (n - 48)
      else if 97 \<le> n \<and> n \<le> 102 then Some (n - 97 + 10)
      else if 65 \<le> n \<and> n \<le> 70 then Some (n - 65 + 10)
      else None)"

text \<open>
  The loop of \<open>tn_chunk_feed\<close> on the rest of the input: the state, the count consumed so far and the
  slice of chunk data handed out.  A call in the error state consumes nothing.
\<close>

fun feed_loop :: "TnChunkState \<Rightarrow> nat \<Rightarrow> string \<Rightarrow> TnChunkState \<times> nat \<times> string" where
  "feed_loop st pos [] = (st, pos, [])"
| "feed_loop st pos (c # rest) =
     (case c_state st of
        TN_CHUNK_STATE_SIZE \<Rightarrow>
          (if c = CHR '';'' then feed_loop (st\<lparr>c_ext := True\<rparr>) (Suc pos) rest
           else if hex_val c \<noteq> None \<and> \<not> c_ext st
           then (if c_size st > 0x07FFFFF then (st\<lparr>c_state := TN_CHUNK_STATE_ERROR\<rparr>, Suc pos, [])
                 else feed_loop (st\<lparr>c_size := push_bit 4 (c_size st) OR the (hex_val c)\<rparr>) (Suc pos) rest)
           else if c = LF
           then (if c_size st = 0 then (st\<lparr>c_ext := False, c_state := TN_CHUNK_STATE_DONE\<rparr>, Suc pos, [])
                 else (st\<lparr>c_ext := False, c_rem := c_size st, c_state := TN_CHUNK_STATE_DATA\<rparr>, Suc pos, []))
           else feed_loop st (Suc pos) rest)
      | TN_CHUNK_STATE_DATA \<Rightarrow>
          (let avail = int (length (c # rest)); tk = (if avail < c_rem st then avail else c_rem st) in
           if tk < 0 then (st\<lparr>c_state := TN_CHUNK_STATE_ERROR\<rparr>, pos, [])
           else let st' = st\<lparr>c_rem := c_rem st - tk\<rparr>
                in (if c_rem st' = 0 then st'\<lparr>c_state := TN_CHUNK_STATE_CRLF\<rparr> else st', pos + nat tk, take (nat tk) (c # rest)))
      | TN_CHUNK_STATE_CRLF \<Rightarrow>
          (if c = LF then feed_loop (st\<lparr>c_size := 0, c_state := TN_CHUNK_STATE_SIZE\<rparr>) (Suc pos) rest
           else feed_loop st (Suc pos) rest)
      | TN_CHUNK_STATE_DONE \<Rightarrow> (st, pos + length (c # rest), [])
      | TN_CHUNK_STATE_ERROR \<Rightarrow> (st, 0, []))"

definition tn_chunk_feed :: "TnChunkState \<Rightarrow> string \<Rightarrow> TnChunkState \<times> nat \<times> string" where
  "tn_chunk_feed st inp = feed_loop st 0 inp"

lemma feed_loop_out_le: "feed_loop st pos xs = (st', m, out) \<Longrightarrow> out \<noteq> [] \<Longrightarrow> pos < m"
  by (induction st pos xs rule: feed_loop.induct)
     (auto simp: Let_def split: chunk_state.splits if_splits)

text \<open>
  \<open>get_feed_body\<close> of TolunnetGet: chunk data goes to the output until the input is used up or the last
  chunk was seen.  \<open>wr\<close> tells whether a Write of a piece succeeds after what was written before.
\<close>

function get_feed_chunked :: "(string \<Rightarrow> string \<Rightarrow> bool) \<Rightarrow> TnChunkState \<Rightarrow> string \<Rightarrow> string \<Rightarrow> int \<times> TnChunkState \<times> string" where
  "get_feed_chunked wr st written buf =
     (if buf = [] \<or> c_state st = TN_CHUNK_STATE_DONE then (0, st, written)
      else case tn_chunk_feed st buf of
        (st', consumed, piece) \<Rightarrow>
          (if c_state st' = TN_CHUNK_STATE_ERROR then (-2, st', written)
           else if piece \<noteq> [] \<and> \<not> wr written piece then (-1, st', written)
           else if consumed = 0 \<and> piece = [] then (-2, st', written)
           else get_feed_chunked wr st' (written @ piece) (drop consumed buf)))"
  by pat_completeness auto
termination
  by (relation "measure (\<lambda>(_, _, _, buf). length buf)") (auto simp: tn_chunk_feed_def dest: feed_loop_out_le [OF sym])

declare get_feed_chunked.simps [simp del]

definition get_feed_body :: "(string \<Rightarrow> string \<Rightarrow> bool) \<Rightarrow> TnChunkState \<Rightarrow> bool \<Rightarrow> string \<Rightarrow> string \<Rightarrow> int \<times> TnChunkState \<times> string" where
  "get_feed_body wr st chunked written buf =
     (if chunked then get_feed_chunked wr st written buf
      else if buf \<noteq> [] then (if wr written buf then (0, st, written @ buf) else (-1, st, written))
      else (0, st, written))"

end
