(* ===== verification/Http_Props.thy ===== *)
theory Http_Props
  imports Http_Url
begin

text \<open>
  The chunk decoder against a byte-at-a-time reference: the body that is written does not depend on
  how the stream is cut into reads, and a body in chunked coding is decoded exactly.
\<close>

section \<open>Reference decoder\<close>

definition chunk_byte :: "char \<Rightarrow> TnChunkState \<times> string \<Rightarrow> TnChunkState \<times> string" where
  "chunk_byte c s =
     (case s of (st, out) \<Rightarrow>
       (case c_state st of
          TN_CHUNK_STATE_SIZE \<Rightarrow>
            (if c = CHR '';'' then st\<lparr>c_ext := True\<rparr>
             else if hex_val c \<noteq> None \<and> \<not> c_ext st
             then (if c_size st > 0x07FFFFF then st\<lparr>c_state := TN_CHUNK_STATE_ERROR\<rparr>
                   else st\<lparr>c_size := c_size st * 16 + the (hex_val c)\<rparr>)
             else if c = LF
             then (if c_size st = 0 then st\<lparr>c_ext := False, c_state := TN_CHUNK_STATE_DONE\<rparr>
                   else st\<lparr>c_ext := False, c_rem := c_size st, c_state := TN_CHUNK_STATE_DATA\<rparr>)
             else st, out)
        | TN_CHUNK_STATE_DATA \<Rightarrow>
            (st\<lparr>c_rem := c_rem st - 1, c_state := if c_rem st = 1 then TN_CHUNK_STATE_CRLF else TN_CHUNK_STATE_DATA\<rparr>, out @ [c])
        | TN_CHUNK_STATE_CRLF \<Rightarrow> (if c = LF then st\<lparr>c_size := 0, c_state := TN_CHUNK_STATE_SIZE\<rparr> else st, out)
        | TN_CHUNK_STATE_DONE \<Rightarrow> (st, out)
        | TN_CHUNK_STATE_ERROR \<Rightarrow> (st, out)))"

definition chunk_decode :: "TnChunkState \<Rightarrow> string \<Rightarrow> string \<Rightarrow> TnChunkState \<times> string" where
  "chunk_decode st out xs = fold chunk_byte xs (st, out)"

definition chunk_wf :: "TnChunkState \<Rightarrow> bool" where
  "chunk_wf st = (0 \<le> c_size st \<and> (c_state st = TN_CHUNK_STATE_DATA \<longrightarrow> 0 < c_rem st))"

lemma hex_val_range: "hex_val c = Some v \<Longrightarrow> 0 \<le> v \<and> v < 16"
  by (auto simp: hex_val_def Let_def split: if_splits)

lemma push_or: "0 \<le> v \<Longrightarrow> v < 16 \<Longrightarrow> push_bit 4 n OR v = n * 16 + (v :: int)"
proof -
  assume "0 \<le> v" "v < 16"
  then have v: "v = take_bit 4 v" by (simp add: take_bit_int_eq_self)
  have "push_bit 4 n AND v = 0" by (subst v) (auto intro!: bit_eqI simp: bit_simps)
  then show ?thesis by (simp add: push_bit_eq_mult disjunctive_add_eq_or [symmetric])
qed

lemma chunk_decode_Nil [simp]: "chunk_decode st out [] = (st, out)"
  by (simp add: chunk_decode_def)

lemma chunk_decode_Cons: "chunk_decode st out (c # xs) = (case chunk_byte c (st, out) of (st', out') \<Rightarrow> chunk_decode st' out' xs)"
  by (simp add: chunk_decode_def split: prod.splits)

lemma chunk_decode_append: "chunk_decode st out (xs @ ys) = (case chunk_decode st out xs of (st', out') \<Rightarrow> chunk_decode st' out' ys)"
  by (simp add: chunk_decode_def split: prod.splits)

lemma chunk_decode_final:
  "c_state st = TN_CHUNK_STATE_DONE \<or> c_state st = TN_CHUNK_STATE_ERROR \<Longrightarrow> chunk_decode st out xs = (st, out)"
  by (induction xs) (auto simp: chunk_decode_Cons chunk_byte_def)

lemma chunk_byte_wf: "chunk_wf st \<Longrightarrow> chunk_wf (fst (chunk_byte c (st, out)))"
  using hex_val_range [of c] by (auto simp: chunk_byte_def chunk_wf_def split: chunk_state.splits)

lemma chunk_decode_data:
  "c_state st = TN_CHUNK_STATE_DATA \<Longrightarrow> 0 < c_rem st \<Longrightarrow> int (length xs) \<le> c_rem st \<Longrightarrow>
   chunk_decode st out xs =
     (st\<lparr>c_rem := c_rem st - int (length xs),
         c_state := if c_rem st = int (length xs) then TN_CHUNK_STATE_CRLF else TN_CHUNK_STATE_DATA\<rparr>, out @ xs)"
proof (induction xs arbitrary: st out)
  case (Cons c xs)
  show ?case
  proof (cases "c_rem st = 1")
    case True
    then show ?thesis using Cons.prems by (simp add: chunk_decode_Cons chunk_byte_def)
  next
    case False
    let ?st = "st\<lparr>c_rem := c_rem st - 1, c_state := TN_CHUNK_STATE_DATA\<rparr>"
    have "chunk_decode st out (c # xs) = chunk_decode ?st (out @ [c]) xs"
      using Cons.prems False by (simp add: chunk_decode_Cons chunk_byte_def)
    then show ?thesis using Cons.IH [of ?st "out @ [c]"] Cons.prems False by simp
  qed
qed simp

section \<open>One call of the decoder\<close>

definition feed_spec :: "TnChunkState \<Rightarrow> nat \<Rightarrow> string \<Rightarrow> TnChunkState \<times> nat \<times> string \<Rightarrow> bool" where
  "feed_spec st pos xs r =
     (case r of (st', m, piece) \<Rightarrow>
        pos \<le> m \<and> m - pos \<le> length xs \<and> (xs \<noteq> [] \<longrightarrow> pos < m) \<and> chunk_wf st' \<and>
        (\<forall>out. chunk_decode st out xs = chunk_decode st' (out @ piece) (drop (m - pos) xs)))"

lemma feed_spec_step:
  assumes "feed_spec st1 (Suc pos) xs r" "\<And>out. chunk_byte c (st, out) = (st1, out)"
  shows "feed_spec st pos (c # xs) r"
proof -
  obtain st' m piece where r: "r = (st', m, piece)" by (metis prod_cases3)
  have "pos < m" "m - pos = Suc (m - Suc pos)" using assms(1) by (auto simp: r feed_spec_def)
  then show ?thesis using assms by (auto simp: r feed_spec_def chunk_decode_Cons)
qed

lemma feed_spec_stop:
  assumes "\<And>out. chunk_byte c (st, out) = (st1, out)" "chunk_wf st1"
  shows "feed_spec st pos (c # xs) (st1, Suc pos, [])"
  using assms by (simp add: feed_spec_def chunk_decode_Cons)

lemma feed_data_spec:
  assumes "c_state st = TN_CHUNK_STATE_DATA" "chunk_wf st"
  shows "feed_spec st pos (c # xs) (feed_loop st pos (c # xs))"
proof -
  let ?tk = "nat (min (int (length (c # xs))) (c_rem st))"
  let ?st = "st\<lparr>c_rem := c_rem st - int ?tk, c_state := if c_rem st = int ?tk then TN_CHUNK_STATE_CRLF else TN_CHUNK_STATE_DATA\<rparr>"
  have rem: "0 < c_rem st" using assms by (simp add: chunk_wf_def)
  have run: "feed_loop st pos (c # xs) = (?st, pos + ?tk, take ?tk (c # xs))"
    using assms rem by (auto simp: Let_def min_def)
  have "chunk_decode st out (take ?tk (c # xs)) = (?st, out @ take ?tk (c # xs))" for out
    using chunk_decode_data [OF assms(1) rem, of "take ?tk (c # xs)" out] rem by auto
  then have "chunk_decode st out (take ?tk (c # xs) @ drop ?tk (c # xs)) = chunk_decode ?st (out @ take ?tk (c # xs)) (drop ?tk (c # xs))" for out
    unfolding chunk_decode_append by simp
  then show ?thesis unfolding run using rem assms by (auto simp: feed_spec_def chunk_wf_def)
qed

lemma feed_loop_spec:
  "chunk_wf st \<Longrightarrow> c_state st \<noteq> TN_CHUNK_STATE_ERROR \<Longrightarrow> feed_spec st pos xs (feed_loop st pos xs)"
proof (induction st pos xs rule: feed_loop.induct)
  case (1 st pos)
  then show ?case by (simp add: feed_spec_def)
next
  case (2 st pos c xs)
  show ?case
  proof (cases "c_state st")
    case TN_CHUNK_STATE_SIZE
    note IH = 2(1-3) [OF this]
    let ?sz = "push_bit 4 (c_size st) OR the (hex_val c)"
    have sz: "hex_val c \<noteq> None \<Longrightarrow> ?sz = c_size st * 16 + the (hex_val c) \<and> 0 \<le> ?sz"
      using hex_val_range [of c] push_or 2(6) by (auto simp: chunk_wf_def)
    consider "c = CHR '';''" | "c \<noteq> CHR '';''" "hex_val c \<noteq> None \<and> \<not> c_ext st" "c_size st > 0x07FFFFF"
      | "c \<noteq> CHR '';''" "hex_val c \<noteq> None \<and> \<not> c_ext st" "\<not> c_size st > 0x07FFFFF"
      | "c \<noteq> CHR '';''" "\<not> (hex_val c \<noteq> None \<and> \<not> c_ext st)" "c = LF" | "c \<noteq> CHR '';''" "\<not> (hex_val c \<noteq> None \<and> \<not> c_ext st)" "c \<noteq> LF"
      by blast
    then show ?thesis
    proof cases
      case 1
      show ?thesis using IH(1) [OF 1] 2(6,7) TN_CHUNK_STATE_SIZE 1
        by (auto intro!: feed_spec_step simp: chunk_byte_def chunk_wf_def)
    next
      case c: 2
      then show ?thesis using 2(6) TN_CHUNK_STATE_SIZE by (auto intro!: feed_spec_stop simp: chunk_byte_def chunk_wf_def)
    next
      case 3
      then show ?thesis using IH(2) [OF 3] 2(6,7) TN_CHUNK_STATE_SIZE sz
        by (auto intro!: feed_spec_step simp: chunk_byte_def chunk_wf_def)
    next
      case 4
      then show ?thesis using 2(6) TN_CHUNK_STATE_SIZE by (auto intro!: feed_spec_stop simp: chunk_byte_def chunk_wf_def)
    next
      case 5
      then show ?thesis using IH(3) [OF 5] 2(6,7) TN_CHUNK_STATE_SIZE
        by (auto intro!: feed_spec_step simp: chunk_byte_def chunk_wf_def)
    qed
  next
    case TN_CHUNK_STATE_CRLF
    then show ?thesis using 2(4,5) 2(6,7) by (auto intro!: feed_spec_step simp: chunk_byte_def chunk_wf_def)
  next
    case TN_CHUNK_STATE_DONE
    then show ?thesis using 2 chunk_decode_final by (simp add: feed_spec_def)
  qed (use 2 feed_data_spec in \<open>auto simp del: feed_loop.simps\<close>)
qed

lemma feed_loop_piece: "feed_loop st pos xs = (st', m, piece) \<Longrightarrow> piece \<noteq> [] \<Longrightarrow> c_state st' \<noteq> TN_CHUNK_STATE_ERROR"
  by (induction st pos xs rule: feed_loop.induct)
     (auto simp: Let_def split: chunk_state.splits if_splits)

lemma chunk_decode_wf: "chunk_wf st \<Longrightarrow> chunk_wf (fst (chunk_decode st w xs))"
proof (induction xs arbitrary: st w)
  case (Cons c xs)
  then show ?case using chunk_byte_wf [OF Cons.prems, of c w] by (auto simp: chunk_decode_Cons split: prod.splits)
qed simp

section \<open>The body writer\<close>

lemma get_feed_chunked_decode:
  "chunk_wf st \<Longrightarrow> c_state st \<noteq> TN_CHUNK_STATE_ERROR \<Longrightarrow>
   get_feed_chunked (\<lambda>_ _. True) st w buf =
     (case chunk_decode st w buf of (st', w') \<Rightarrow> (if c_state st' = TN_CHUNK_STATE_ERROR then -2 else 0, st', w'))"
proof (induction "length buf" arbitrary: st w buf rule: less_induct)
  case less
  show ?case
  proof (cases "buf = [] \<or> c_state st = TN_CHUNK_STATE_DONE")
    case True
    then show ?thesis using less.prems chunk_decode_final by (subst get_feed_chunked.simps) auto
  next
    case False
    obtain st' m piece where r: "feed_loop st 0 buf = (st', m, piece)" by (metis prod_cases3)
    have spec: "m \<le> length buf" "0 < m" "chunk_wf st'" "chunk_decode st w buf = chunk_decode st' (w @ piece) (drop m buf)"
      using feed_loop_spec [OF less.prems, of 0 buf] False by (auto simp: r feed_spec_def)
    show ?thesis
    proof (cases "c_state st' = TN_CHUNK_STATE_ERROR")
      case True
      have "piece = []" using feed_loop_piece [OF r] True by blast
      then show ?thesis using False r spec True chunk_decode_final by (subst get_feed_chunked.simps) (auto simp: tn_chunk_feed_def)
    next
      case ok: False
      have "length (drop m buf) < length buf" using spec False by auto
      note IH = less.hyps [OF this spec(3) ok, of "w @ piece"]
      show ?thesis using False r spec ok IH by (subst get_feed_chunked.simps) (auto simp: tn_chunk_feed_def)
    qed
  qed
qed

lemma get_feed_segments:
  "chunk_wf st \<Longrightarrow> c_state st \<noteq> TN_CHUNK_STATE_ERROR \<Longrightarrow>
   c_state (fst (chunk_decode st w (concat bufs))) \<noteq> TN_CHUNK_STATE_ERROR \<Longrightarrow>
   fold (\<lambda>buf (st, w). snd (get_feed_body (\<lambda>_ _. True) st True w buf)) bufs (st, w) = chunk_decode st w (concat bufs)"
proof (induction bufs arbitrary: st w)
  case (Cons buf bufs)
  obtain st' w' where d: "chunk_decode st w buf = (st', w')" by fastforce
  have "c_state st' \<noteq> TN_CHUNK_STATE_ERROR"
    using Cons.prems(3) chunk_decode_final [of st'] by (auto simp: chunk_decode_append d)
  moreover have "chunk_wf st'" using chunk_decode_wf [OF Cons.prems(1), of w buf] by (simp add: d)
  ultimately show ?case using Cons by (simp add: get_feed_body_def get_feed_chunked_decode d chunk_decode_append)
qed simp

section \<open>Bodies in chunked coding\<close>

text \<open>A chunk as it is sent: hexadecimal size, extension, data.\<close>

fun hex_num :: "int \<Rightarrow> string \<Rightarrow> int" where
  "hex_num n [] = n"
| "hex_num n (c # cs) = hex_num (n * 16 + the (hex_val c)) cs"

definition chunk_ok :: "string \<times> string \<times> string \<Rightarrow> bool" where
  "chunk_ok ch =
     (case ch of (sz, ext, data) \<Rightarrow>
        list_all (\<lambda>c. hex_val c \<noteq> None) sz \<and> hex_num 0 sz = int (length data) \<and> data \<noteq> [] \<and> length data \<le> 0x7FFFFFF \<and>
        (ext = [] \<or> (hd ext = CHR '';'' \<and> LF \<notin> set ext)))"

definition chunk_text :: "string \<times> string \<times> string \<Rightarrow> string" where
  "chunk_text ch = (case ch of (sz, ext, data) \<Rightarrow> sz @ ext @ [CR, LF] @ data @ [CR, LF])"

definition body_text :: "(string \<times> string \<times> string) list \<Rightarrow> string \<Rightarrow> string" where
  "body_text chs trailer = concat (map chunk_text chs) @ ''0'' @ [CR, LF] @ trailer"

lemma hex_num_mono: "list_all (\<lambda>c. hex_val c \<noteq> None) sz \<Longrightarrow> 0 \<le> n \<Longrightarrow> n \<le> hex_num n sz"
proof (induction sz arbitrary: n)
  case (Cons c sz)
  then have "0 \<le> the (hex_val c)" using hex_val_range by fastforce
  then have n: "n \<le> n * 16 + the (hex_val c)" using Cons.prems(2) by linarith
  also have "\<dots> \<le> hex_num (n * 16 + the (hex_val c)) sz" using Cons n by simp
  finally show ?case by simp
qed simp

lemma hex_not_special: "hex_val c \<noteq> None \<Longrightarrow> c \<noteq> CHR '';'' \<and> c \<noteq> LF"
proof -
  have "hex_val (CHR '';'') = None" "hex_val LF = None" by (simp_all add: hex_val_def)
  then show "hex_val c \<noteq> None \<Longrightarrow> c \<noteq> CHR '';'' \<and> c \<noteq> LF" by metis
qed

lemma decode_size:
  "c_state st = TN_CHUNK_STATE_SIZE \<Longrightarrow> \<not> c_ext st \<Longrightarrow> 0 \<le> c_size st \<Longrightarrow> list_all (\<lambda>c. hex_val c \<noteq> None) sz \<Longrightarrow>
   hex_num (c_size st) sz \<le> 0x7FFFFFF \<Longrightarrow> chunk_decode st out sz = (st\<lparr>c_size := hex_num (c_size st) sz\<rparr>, out)"
proof (induction sz arbitrary: st)
  case (Cons c sz)
  let ?n = "c_size st * 16 + the (hex_val c)"
  have v: "0 \<le> the (hex_val c)" using hex_val_range Cons.prems(4) by fastforce
  have "?n \<le> hex_num ?n sz" using hex_num_mono Cons.prems v by simp
  then have "c_size st \<le> 0x07FFFFF" using Cons.prems v by simp
  then have "chunk_byte c (st, out) = (st\<lparr>c_size := ?n\<rparr>, out)"
    using Cons.prems hex_not_special by (simp add: chunk_byte_def)
  then show ?case using Cons.IH [of "st\<lparr>c_size := ?n\<rparr>"] Cons.prems v by (simp add: chunk_decode_Cons)
qed simp

lemma decode_ext:
  "c_state st = TN_CHUNK_STATE_SIZE \<Longrightarrow> c_ext st \<Longrightarrow> LF \<notin> set ext \<Longrightarrow> chunk_decode st out ext = (st, out)"
proof (induction ext)
  case (Cons c ext)
  have "st\<lparr>c_ext := True\<rparr> = st" using Cons.prems(2) by (cases st) simp
  then have "chunk_byte c (st, out) = (st, out)" using Cons.prems by (auto simp: chunk_byte_def)
  then show ?case using Cons by (simp add: chunk_decode_Cons)
qed simp

lemma decode_size_end:
  assumes "c_state st = TN_CHUNK_STATE_SIZE" "\<not> c_ext st" "ext = [] \<or> (hd ext = CHR '';'' \<and> LF \<notin> set ext)" "c_size st \<noteq> 0"
  shows "chunk_decode st out (ext @ [CR, LF]) = (st\<lparr>c_rem := c_size st, c_state := TN_CHUNK_STATE_DATA\<rparr>, out)"
proof (cases ext)
  case Nil
  then show ?thesis using assms by (simp add: chunk_decode_Cons chunk_byte_def hex_val_def Let_def)
next
  case (Cons c e)
  let ?st = "st\<lparr>c_ext := True\<rparr>"
  have "chunk_decode st out (ext @ [CR, LF]) = chunk_decode ?st out (e @ [CR, LF])"
    using assms Cons by (simp add: chunk_decode_Cons chunk_byte_def)
  also have "\<dots> = chunk_decode ?st out [CR, LF]"
    using decode_ext [of ?st e out] assms Cons by (simp add: chunk_decode_append)
  finally show ?thesis using assms by (simp add: chunk_decode_Cons chunk_byte_def)
qed

lemma decode_chunk:
  assumes "chunk_ok ch" "c_state st = TN_CHUNK_STATE_SIZE" "\<not> c_ext st" "c_size st = 0"
  shows "\<exists>st'. chunk_decode st out (chunk_text ch) = (st', out @ snd (snd ch)) \<and>
           c_state st' = TN_CHUNK_STATE_SIZE \<and> \<not> c_ext st' \<and> c_size st' = 0"
proof -
  obtain sz ext data where ch: "ch = (sz, ext, data)" by (metis prod_cases3)
  note ok = assms(1) [unfolded ch chunk_ok_def prod.case]
  let ?n = "int (length data)"
  let ?st1 = "st\<lparr>c_size := ?n\<rparr>" and ?st2 = "st\<lparr>c_size := ?n, c_rem := ?n, c_state := TN_CHUNK_STATE_DATA\<rparr>"
  let ?st3 = "st\<lparr>c_size := ?n, c_rem := 0, c_state := TN_CHUNK_STATE_CRLF\<rparr>"
  have "chunk_decode st out sz = (?st1, out)" using decode_size [of st sz out] ok assms by simp
  moreover have "chunk_decode ?st1 out (ext @ [CR, LF]) = (?st2, out)"
    using decode_size_end [of ?st1 ext out] ok assms by simp
  moreover have "chunk_decode ?st2 out data = (?st3, out @ data)"
    using chunk_decode_data [of ?st2 data out] ok by simp
  moreover have "chunk_text ch = sz @ (ext @ [CR, LF]) @ data @ [CR, LF]" by (simp add: ch chunk_text_def)
  ultimately have "chunk_decode st out (chunk_text ch) = chunk_decode ?st3 (out @ data) [CR, LF]"
    by (simp only: chunk_decode_append prod.case)
  then show ?thesis using assms by (simp add: ch chunk_decode_Cons chunk_byte_def)
qed

lemma decode_body:
  assumes "list_all chunk_ok chs" "c_state st = TN_CHUNK_STATE_SIZE" "\<not> c_ext st" "c_size st = 0"
  shows "\<exists>st'. chunk_decode st out (body_text chs trailer) = (st', out @ concat (map (snd \<circ> snd) chs)) \<and> c_state st' = TN_CHUNK_STATE_DONE"
  using assms
proof (induction chs arbitrary: st out)
  case Nil
  then show ?case
    by (simp add: body_text_def chunk_decode_Cons chunk_byte_def hex_val_def Let_def chunk_decode_final)
next
  case (Cons ch chs)
  then obtain st' where 1: "chunk_decode st out (chunk_text ch) = (st', out @ snd (snd ch))"
    "c_state st' = TN_CHUNK_STATE_SIZE" "\<not> c_ext st'" "c_size st' = 0" using decode_chunk [of ch st out] by auto
  have "body_text (ch # chs) trailer = chunk_text ch @ body_text chs trailer" by (simp add: body_text_def)
  then show ?case using Cons.IH [of st' "out @ snd (snd ch)"] Cons.prems 1 by (simp add: chunk_decode_append)
qed

text \<open>
  C32. A body in chunked coding is written out exactly, however the network cuts the stream: for every
  list of non-empty chunks of up to 0x7FFFFFF bytes with any hexadecimal spelling of the size and any
  extension, and for every way to split the stream into reads, feeding the reads one after the other
  writes the concatenation of the chunks' data and ends in the final state.
\<close>
theorem chunked_body_exact:
  assumes "list_all chunk_ok chs" "concat bufs = body_text chs trailer"
  shows "\<exists>st. fold (\<lambda>buf (st, w). snd (get_feed_body (\<lambda>_ _. True) st True w buf)) bufs (tn_chunk_init, []) =
      (st, concat (map (snd \<circ> snd) chs)) \<and> c_state st = TN_CHUNK_STATE_DONE"
proof -
  have "c_state tn_chunk_init = TN_CHUNK_STATE_SIZE" "\<not> c_ext tn_chunk_init" "c_size tn_chunk_init = 0" "chunk_wf tn_chunk_init"
    by (simp_all add: tn_chunk_init_def chunk_wf_def)
  then show ?thesis using decode_body [OF assms(1), of tn_chunk_init "[]" trailer] get_feed_segments [of tn_chunk_init "[]" bufs] assms(2)
    by auto
qed

theorem chunked_body_exact_witness:
  "\<exists>st. fold (\<lambda>buf (st, w). snd (get_feed_body (\<lambda>_ _. True) st True w buf))
      [''0'', ''3;x'' @ [CR], [LF] @ ''ab'', ''c'' @ [CR, LF] @ ''0'' @ [CR, LF]] (tn_chunk_init, []) = (st, ''abc'') \<and>
    c_state st = TN_CHUNK_STATE_DONE"
  using chunked_body_exact [of "[(''03'', '';x'', ''abc'')]" "[''0'', ''3;x'' @ [CR], [LF] @ ''ab'', ''c'' @ [CR, LF] @ ''0'' @ [CR, LF]]" "[]"]
  by (simp add: chunk_ok_def body_text_def chunk_text_def hex_val_def Let_def)

end
