(* ===== verification/Csprng.thy ===== *)
theory Csprng
  imports Prelude
begin

text \<open>
  Random numbers, initial sequence numbers and the millisecond clock (common/tn\_csprng.c,
  task/timers.c).  The hardware values \<open>tn_rand_init\<close> gathers are its arguments.
\<close>

section \<open>SipHash-2-4\<close>

type_synonym u64 = "64 word"

definition ROTL64 :: "u64 \<Rightarrow> nat \<Rightarrow> u64" where
  "ROTL64 x b = push_bit b x OR drop_bit (64 - b) x"

definition load_le64 :: "u8 list \<Rightarrow> u64" where
  "load_le64 bs = fold (\<lambda>(i, b) r. r OR push_bit (8 * i) (ucast b)) (enumerate 0 bs) 0"

type_synonym sip = "u64 \<times> u64 \<times> u64 \<times> u64"

definition SIPROUND :: "sip \<Rightarrow> sip" where
  "SIPROUND v =
     (let (v0, v1, v2, v3) = v;
          v0 = v0 + v1; v1 = ROTL64 v1 13; v1 = v1 XOR v0; v0 = ROTL64 v0 32;
          v2 = v2 + v3; v3 = ROTL64 v3 16; v3 = v3 XOR v2;
          v0 = v0 + v3; v3 = ROTL64 v3 21; v3 = v3 XOR v0;
          v2 = v2 + v1; v1 = ROTL64 v1 17; v1 = v1 XOR v2; v2 = ROTL64 v2 32
      in (v0, v1, v2, v3))"

definition sip_block :: "u64 \<Rightarrow> sip \<Rightarrow> sip" where
  "sip_block m v =
     (let (v0, v1, v2, v3) = v; (v0, v1, v2, v3) = SIPROUND (SIPROUND (v0, v1, v2, v3 XOR m)) in (v0 XOR m, v1, v2, v3))"

fun sip_blocks :: "nat \<Rightarrow> u8 list \<Rightarrow> sip \<Rightarrow> sip" where
  "sip_blocks 0 data v = v"
| "sip_blocks (Suc n) data v = sip_blocks n (drop 8 data) (sip_block (load_le64 (take 8 data)) v)"

definition tn_siphash24 :: "u8 list \<Rightarrow> u8 list \<Rightarrow> u64" where
  "tn_siphash24 key data =
     (let k0 = load_le64 (take 8 key); k1 = load_le64 (take 8 (drop 8 key));
          v = (0x736f6d6570736575 XOR k0, 0x646f72616e646f6d XOR k1, 0x6c7967656e657261 XOR k0, 0x7465646279746573 XOR k1);
          n = length data div 8;
          b = push_bit 56 (word_of_nat (length data)) OR load_le64 (drop (8 * n) data);
          (v0, v1, v2, v3) = sip_block b (sip_blocks n data v);
          (v0, v1, v2, v3) = SIPROUND (SIPROUND (SIPROUND (SIPROUND (v0, v1, v2 XOR 0xff, v3))))
      in v0 XOR v1 XOR v2 XOR v3)"

section \<open>The generator\<close>

record TnCsprng =
  g_key :: "u8 list"
  g_counter :: u64

definition tn_csprng_init :: "u8 list \<Rightarrow> TnCsprng" where
  "tn_csprng_init key = \<lparr>g_key = take 16 key, g_counter = 0\<rparr>"

definition le64_bytes :: "u64 \<Rightarrow> u8 list" where
  "le64_bytes c = map (\<lambda>i. ucast (drop_bit (8 * i) c)) [0..<8]"

definition tn_csprng_next :: "TnCsprng \<Rightarrow> TnCsprng \<times> u32" where
  "tn_csprng_next g = (g\<lparr>g_counter := g_counter g + 1\<rparr>, ucast (tn_siphash24 (g_key g) (le64_bytes (g_counter g))))"

definition tn_tcp_isn_compute :: "u8 list \<Rightarrow> u32 \<Rightarrow> u16 \<Rightarrow> u32 \<Rightarrow> u16 \<Rightarrow> u32 \<Rightarrow> u32" where
  "tn_tcp_isn_compute key laddr lport raddr rport clock_ms =
     (let tuple = [ucast (drop_bit 24 laddr), ucast (drop_bit 16 laddr), ucast (drop_bit 8 laddr), ucast laddr,
                   ucast (drop_bit 24 raddr), ucast (drop_bit 16 raddr), ucast (drop_bit 8 raddr), ucast raddr,
                   ucast (drop_bit 8 lport), ucast lport, ucast (drop_bit 8 rport), ucast rport]
      in ucast (tn_siphash24 key tuple) + push_bit 8 clock_ms)"

section \<open>Seeding\<close>

definition hash32 :: "u32 \<Rightarrow> u32" where
  "hash32 x =
     (let x = x XOR drop_bit 16 x; x = x * 0x85ebca6b; x = x XOR drop_bit 13 x; x = x * 0xc2b2ae35
      in x XOR drop_bit 16 x)"

definition be32_bytes :: "u32 \<Rightarrow> u8 list" where
  "be32_bytes w = [ucast (drop_bit 24 w), ucast (drop_bit 16 w), ucast (drop_bit 8 w), ucast w]"

text \<open>The entropy words: system time, E-clock, free memory and the two halves of the MAC address.\<close>

definition mac_words :: "u8 list \<Rightarrow> u32 \<times> u32" where
  "mac_words mac =
     (if mac = [] then (0, 0)
      else (push_bit 24 (ucast (mac ! 0)) OR push_bit 16 (ucast (mac ! 1)) OR push_bit 8 (ucast (mac ! 2)) OR ucast (mac ! 3),
            push_bit 8 (ucast (mac ! 4)) OR ucast (mac ! 5)))"

definition rand_key :: "u32 \<Rightarrow> u32 \<Rightarrow> u32 \<Rightarrow> u32 \<Rightarrow> u32 \<Rightarrow> u32 \<Rightarrow> u8 list \<Rightarrow> u8 list" where
  "rand_key secs micro ev_lo ev_hi chip fast mac =
     (let (macw0, macw1) = mac_words mac in
      concat (map be32_bytes
        [hash32 secs, hash32 (micro XOR 0x9e3779b9), hash32 ev_lo, hash32 (ev_hi XOR 0x85ebca6b),
         hash32 chip, hash32 fast, hash32 macw0, hash32 (macw1 XOR 0xc2b2ae35)]))"

definition tn_rand_init :: "u32 \<Rightarrow> u32 \<Rightarrow> u32 \<Rightarrow> u32 \<Rightarrow> u32 \<Rightarrow> u32 \<Rightarrow> u8 list \<Rightarrow> TnCsprng \<times> u8 list" where
  "tn_rand_init secs micro ev_lo ev_hi chip fast mac =
     (let key = rand_key secs micro ev_lo ev_hi chip fast mac in (tn_csprng_init key, drop 16 key))"

section \<open>The clock\<close>

definition tn_eclock_to_ms :: "u32 \<times> u32 \<Rightarrow> u32 \<times> u32 \<Rightarrow> u32 \<Rightarrow> u32" where
  "tn_eclock_to_ms cur boot freq =
     (let freq = (if freq = 0 then 709379 else freq);
          cur_ticks = push_bit 32 (ucast (fst cur)) OR ucast (snd cur) :: u64;
          boot_ticks = push_bit 32 (ucast (fst boot)) OR ucast (snd boot) :: u64
      in if cur_ticks < boot_ticks then 0
         else ucast (((cur_ticks - boot_ticks) * 1000) div ucast freq))"

text \<open>\<open>sys_now\<close>: \<open>timer\<close> is the open timer's boot clock and stored frequency, \<open>read\<close> what ReadEClock gives.\<close>

definition sys_now :: "((u32 \<times> u32) \<times> u32) option \<Rightarrow> (u32 \<times> u32) \<times> u32 \<Rightarrow> u32" where
  "sys_now timer read =
     (case timer of None \<Rightarrow> 0
      | Some (boot, stored) \<Rightarrow>
          (let (cur, freq) = read; freq = (if freq = 0 then (if stored \<noteq> 0 then stored else 709379) else freq)
           in tn_eclock_to_ms cur boot freq))"

section \<open>Properties\<close>

text \<open>The mixing step loses nothing: it has an inverse.\<close>

definition unhash32 :: "u32 \<Rightarrow> u32" where
  "unhash32 x =
     (let x = x XOR drop_bit 16 x; x = x * 0x7ed1b41d; x = x XOR drop_bit 13 x XOR drop_bit 26 x; x = x * 0xa5cb9243
      in x XOR drop_bit 16 x)"

lemma xorshift_16: "(x XOR drop_bit 16 x) XOR drop_bit 16 (x XOR drop_bit 16 x) = (x :: u32)"
  by (rule bit_word_eqI) (auto simp: bit_simps dest: bit_imp_le_length)

lemma xorshift_13:
  "(x XOR drop_bit 13 x) XOR drop_bit 13 (x XOR drop_bit 13 x) XOR drop_bit 26 (x XOR drop_bit 13 x) = (x :: u32)"
  by (rule bit_word_eqI) (auto simp: bit_simps dest: bit_imp_le_length)

lemma odd_factors: "x * 0x85ebca6b * 0xa5cb9243 = (x :: u32)" "x * 0xc2b2ae35 * 0x7ed1b41d = (x :: u32)"
proof -
  have "word_of_int (0x85ebca6b * 0xa5cb9243) = (word_of_int 1 :: u32)" "word_of_int (0xc2b2ae35 * 0x7ed1b41d) = (word_of_int 1 :: u32)"
    unfolding word_of_int_eq_iff by (simp_all add: take_bit_eq_mod)
  then have "(0x85ebca6b * 0xa5cb9243 :: u32) = 1" "(0xc2b2ae35 * 0x7ed1b41d :: u32) = 1" by simp_all
  then show "x * 0x85ebca6b * 0xa5cb9243 = x" "x * 0xc2b2ae35 * 0x7ed1b41d = x" by (simp_all only: mult.assoc mult_1_right)
qed

lemma unhash32_hash32: "unhash32 (hash32 x) = x"
  unfolding unhash32_def hash32_def Let_def xorshift_16 odd_factors xorshift_13 ..

lemma be32_bytes_inj: "be32_bytes x = be32_bytes y \<Longrightarrow> x = y"
proof (rule bit_word_eqI)
  fix n assume e: "be32_bytes x = be32_bytes y" and "n < LENGTH(32)"
  have "bit (ucast (drop_bit k x) :: u8) m = bit (ucast (drop_bit k y) :: u8) m" if "k \<in> {0, 8, 16, 24}" for k m
    using e that by (auto simp: be32_bytes_def)
  moreover have "n div 8 < 4" using \<open>n < LENGTH(32)\<close> by (simp add: less_mult_imp_div_less)
  then have "8 * (n div 8) \<in> {0, 8, 16, 24}" by auto
  ultimately have "bit (ucast (drop_bit (8 * (n div 8)) x) :: u8) (n mod 8) = bit (ucast (drop_bit (8 * (n div 8)) y) :: u8) (n mod 8)" by blast
  then have "bit x (8 * (n div 8) + n mod 8) = bit y (8 * (n div 8) + n mod 8)" by (simp add: bit_simps)
  then show "bit x n = bit y n" by simp
qed

lemma hash32_inj: "hash32 x = hash32 y \<Longrightarrow> x = y"
  by (metis unhash32_hash32)

lemma xor_inj: "x XOR k = y XOR k \<Longrightarrow> x = (y :: u32)"
  by (metis xor.assoc xor_self_eq xor.right_neutral)

lemma be32_append: "be32_bytes x @ xs = be32_bytes y @ ys \<Longrightarrow> x = y \<and> xs = ys"
  using be32_bytes_inj [of x y] by (simp add: append_eq_append_conv be32_bytes_def)

lemma bytes_join_inj:
  fixes a b c d :: u8
  assumes "push_bit 24 (ucast a) OR push_bit 16 (ucast b) OR push_bit 8 (ucast c) OR ucast d =
     (push_bit 24 (ucast a') OR push_bit 16 (ucast b') OR push_bit 8 (ucast c') OR ucast d' :: u32)"
  shows "a = a' \<and> b = b' \<and> c = c' \<and> d = d'"
proof -
  let ?l = "push_bit 24 (ucast a) OR push_bit 16 (ucast b) OR push_bit 8 (ucast c) OR ucast d :: u32"
  let ?r = "push_bit 24 (ucast a') OR push_bit 16 (ucast b') OR push_bit 8 (ucast c') OR ucast d' :: u32"
  have e: "bit ?l n = bit ?r n" for n using assms by simp
  have no: "bit (w :: u8) k = False" if "8 \<le> k" for w k using that bit_imp_le_length [of w k] by auto
  have "a = a'" apply (rule bit_word_eqI) subgoal for n using e [of "n + 24"] by (simp add: bit_simps no) done
  moreover have "b = b'" apply (rule bit_word_eqI) subgoal for n using e [of "n + 16"] by (simp add: bit_simps no) done
  moreover have "c = c'" apply (rule bit_word_eqI) subgoal for n using e [of "n + 8"] by (simp add: bit_simps no) done
  moreover have "d = d'" apply (rule bit_word_eqI) subgoal for n using e [of "n + 0"] by (simp add: bit_simps no) done
  ultimately show ?thesis by simp
qed

lemma mac_words_inj: "length m = 6 \<Longrightarrow> length m' = 6 \<Longrightarrow> mac_words m = mac_words m' \<Longrightarrow> m = m'"
  using bytes_join_inj [of "m ! 0" "m ! 1" "m ! 2" "m ! 3"] bytes_join_inj [of 0 0 "m ! 4" "m ! 5" 0 0 "m' ! 4" "m' ! 5"]
  by (auto simp: mac_words_def list_eq_iff_nth_eq less_Suc_eq numeral_eq_Suc split: if_splits)

text \<open>
  Seeding loses no entropy: different system time, E-clock, free memory or MAC address give a
  different 32-byte key pool.
\<close>
theorem rand_key_injective:
  assumes "length mac = 6" "length mac' = 6"
    and "rand_key secs micro ev_lo ev_hi chip fast mac = rand_key secs' micro' ev_lo' ev_hi' chip' fast' mac'"
  shows "(secs, micro, ev_lo, ev_hi, chip, fast, mac) = (secs', micro', ev_lo', ev_hi', chip', fast', mac')"
proof -
  obtain a b a' b' where m: "mac_words mac = (a, b)" "mac_words mac' = (a', b')" by (metis surj_pair)
  have "hash32 secs = hash32 secs' \<and> hash32 (micro XOR 0x9e3779b9) = hash32 (micro' XOR 0x9e3779b9) \<and> hash32 ev_lo = hash32 ev_lo' \<and>
     hash32 (ev_hi XOR 0x85ebca6b) = hash32 (ev_hi' XOR 0x85ebca6b) \<and> hash32 chip = hash32 chip' \<and> hash32 fast = hash32 fast' \<and>
     hash32 a = hash32 a' \<and> hash32 (b XOR 0xc2b2ae35) = hash32 (b' XOR 0xc2b2ae35)"
    using assms(3) by (auto simp: rand_key_def m dest!: be32_append be32_bytes_inj)
  then show ?thesis using mac_words_inj [OF assms(1,2)] m by (auto dest!: hash32_inj xor_inj)
qed

theorem rand_key_injective_witness:
  "rand_key 1 2 3 4 5 6 [1, 2, 3, 4, 5, 6] \<noteq> rand_key 1 2 3 4 5 6 [1, 2, 3, 4, 5, 7]"
  using rand_key_injective [of "[1, 2, 3, 4, 5, 6]" "[1, 2, 3, 4, 5, 7]" 1 2 3 4 5 6 1 2 3 4 5 6] by auto

text \<open>Two connections on the same addresses and ports in the same millisecond get the same number.\<close>

lemma isn_clock: "tn_tcp_isn_compute key la lp ra rp (t + dt) = tn_tcp_isn_compute key la lp ra rp t + 256 * dt"
  by (simp add: tn_tcp_isn_compute_def Let_def push_bit_eq_mult algebra_simps)

lemma ticks_value: "unat (push_bit 32 (ucast hi) OR ucast lo :: u64) = unat (hi :: u32) * 2 ^ 32 + unat (lo :: u32)"
proof -
  have h: "unat hi < 2 ^ 32" "unat lo < 2 ^ 32" using unsigned_less [of hi, where 'a = nat] unsigned_less [of lo, where 'a = nat] by simp_all
  have "push_bit 32 (ucast hi) AND (ucast lo :: u64) = 0"
    by (rule bit_word_eqI) (auto simp: bit_simps dest: bit_imp_le_length)
  then have "push_bit 32 (ucast hi) OR ucast lo = (push_bit 32 (ucast hi) + ucast lo :: u64)" by (simp add: disjunctive_add_eq_or)
  also have "\<dots> = word_of_nat (unat hi * 2 ^ 32 + unat lo)" by (simp add: push_bit_eq_mult)
  finally have "unat (push_bit 32 (ucast hi) OR ucast lo :: u64) = (unat hi * 2 ^ 32 + unat lo) mod 2 ^ LENGTH(64)"
    by (simp only: unat_of_nat)
  then show ?thesis using h by simp
qed

lemma unat_ucast_64: "unat (ucast (w :: u32) :: u64) = unat w"
  using unsigned_less [of w, where 'a = nat] by (simp add: unsigned_ucast_eq take_bit_nat_eq_self)

definition ticks :: "u32 \<times> u32 \<Rightarrow> nat" where
  "ticks t = unat (fst t) * 2 ^ 32 + unat (snd t)"

text \<open>
  The millisecond clock is exact: with a clock that has not gone backwards, and for the 800 years
  before 64 bits are exceeded, the result is the whole number of milliseconds since boot, modulo 2^32.
\<close>
theorem eclock_exact:
  assumes "ticks boot \<le> ticks cur" "(ticks cur - ticks boot) * 1000 < 2 ^ 64" "freq \<noteq> 0"
  shows "tn_eclock_to_ms cur boot freq = word_of_nat ((ticks cur - ticks boot) * 1000 div unat freq)"
proof -
  let ?c = "push_bit 32 (ucast (fst cur)) OR ucast (snd cur) :: u64" and ?b = "push_bit 32 (ucast (fst boot)) OR ucast (snd boot) :: u64"
  have u: "unat ?c = ticks cur" "unat ?b = ticks boot" by (simp_all add: ticks_value ticks_def)
  have "?b \<le> ?c" using assms(1) by (simp add: word_le_nat_alt u)
  then have d: "unat (?c - ?b) = ticks cur - ticks boot" by (simp add: unat_sub u)
  have "unat ((?c - ?b) * 1000) = (ticks cur - ticks boot) * 1000"
  proof -
    have "unat (w * 1000) = unat w * 1000" if "unat w * 1000 < 2 ^ 64" for w :: u64
      using that unat_mult_lem [of w 1000] by simp
    from this [of "?c - ?b"] show ?thesis using assms(2) d by simp
  qed
  then have "unat ((?c - ?b) * 1000 div ucast freq) = (ticks cur - ticks boot) * 1000 div unat freq"
    by (simp only: unat_div unat_ucast_64)
  then have "ucast ((?c - ?b) * 1000 div ucast freq) = (word_of_nat ((ticks cur - ticks boot) * 1000 div unat freq) :: u32)"
    by (metis of_nat_unat)
  then show ?thesis using assms(3) \<open>?b \<le> ?c\<close> by (simp add: tn_eclock_to_ms_def Let_def)
qed

theorem eclock_exact_witness: "tn_eclock_to_ms (1, 0) (0, 4294967295) 1000 = 1"
  using eclock_exact [of "(0, 4294967295)" "(1, 0)" 1000] by (simp add: ticks_def)

end
