(* ===== verification/Lib_Base.thy ===== *)
theory Lib_Base
  imports Task_Ctx "HOL-Library.Monad_Syntax"
begin

text \<open>
  The client side of the library (lib/lib\_vectors.c): the fields of \<open>TnSocketBase\<close> that the library code
  itself reads or writes, and the part of Exec it runs on.  What the rest of the system does (the daemon
  answering a message or writing client memory, signals, the clock) is a list of rounds of events: every
  Exec call that looks outside takes the next round, a waiting call takes rounds until its condition
  holds, and \<open>None\<close> says that the rounds are used up and the caller is still waiting.  Every interleaving
  of the client with the daemon is such a list.
\<close>

section \<open>Events and misuse\<close>

datatype event =
    DaemonReply ptr TnIpcMsg
  | DaemonWrite ptr bytes
  | DaemonSetFd nat int
  | DaemonSetEvents nat u32
  | SetSignals u32
  | TimePasses u32
  | TimerOpens

text \<open>What the library must never do; the primitives record it.\<close>

datatype fault = SendOwned ptr | SendFreed ptr | FreeOwned ptr | FreeTwice ptr | TimerBusy

section \<open>The base and its surroundings\<close>

text \<open>
  \<open>lb_msg\<close> is the address of the embedded message; \<open>lb_orphan\<close> the chain of abandoned messages, newest
  first; an error pointer is \<open>None\<close> when it points to the field of the base.  \<open>w_owned\<close> are the messages sent and
  not yet replied, \<open>w_port\<close> the reply port, \<open>w_heap\<close> the addresses AllocVec will return (\<open>NULL\<close> for a failure).
\<close>

record TnLib =
  lb_msg :: ptr
  lb_base :: ptr
  lb_owner_task :: ptr
  lb_tolunnet_port :: bool
  lb_ipc_timeout_ms :: u32
  lb_ipc_timeouts :: u32
  lb_orphan :: "ptr list"
  lb_cancel_msg :: ptr
  lb_errno_ptr :: "ptr option"
  lb_task_errno :: int
  lb_errno_width :: nat
  lb_herrno_ptr :: "ptr option"
  lb_task_herrno :: int
  lb_sig_io :: u32
  lb_sig_urg :: u32
  lb_sig_int :: u32
  lb_sig_event :: u32
  lb_sig_select :: u32
  lb_dtablesize :: int
  lb_fd_map :: "int list"
  lb_events :: "u32 list"
  lb_event_masks :: "u32 list"
  lb_fd_callback :: ptr
  lb_log_stat :: int
  lb_log_tag_ptr :: ptr
  lb_log_facility :: int
  lb_log_mask :: int
  lb_udp_checksum :: int
  lb_ip_default_ttl :: int
  lb_hostname :: string
  lb_domain_name :: string
  lb_netent_idx :: nat
  lb_servent_idx :: nat
  lb_protoent_idx :: nat
  lb_gse_last_fd :: int
  w_msgs :: "ptr \<Rightarrow> TnIpcMsg"
  w_owned :: "ptr list"
  w_port :: "ptr list"
  w_heap :: "ptr list"
  w_freed :: "ptr list"
  w_reply_sig :: u32
  w_tm_sig :: u32
  w_signals :: u32
  w_ticks :: u32
  w_daemon :: bool
  w_timer_ok :: bool
  w_timer_sent :: bool
  w_mem :: mem
  w_fdcb :: "ptr \<Rightarrow> int \<Rightarrow> int \<Rightarrow> int"
  w_fdcb_calls :: "(int \<times> int) list"
  w_faults :: "fault list"
  w_rounds :: "event list list"

section \<open>errno\<close>

definition tn_set_errno_val :: "int \<Rightarrow> TnLib \<Rightarrow> TnLib" where
  "tn_set_errno_val err c =
     (let c = c\<lparr>lb_task_errno := err\<rparr> in
      case lb_errno_ptr c of None \<Rightarrow> c
      | Some p \<Rightarrow>
          if p = NULL then c
          else if lb_errno_width c = 1 then c\<lparr>w_mem := store_bytes (w_mem c) p [word_of_int err]\<rparr>
          else if lb_errno_width c = 2 then c\<lparr>w_mem := store_bytes (w_mem c) p (be_of_u16 (word_of_int err))\<rparr>
          else c\<lparr>w_mem := store_u32 (w_mem c) p (word_of_int err)\<rparr>)"

definition tn_set_herrno_val :: "int \<Rightarrow> TnLib \<Rightarrow> TnLib" where
  "tn_set_herrno_val herr c =
     (let c = c\<lparr>lb_task_herrno := herr\<rparr> in
      case lb_herrno_ptr c of None \<Rightarrow> c
      | Some p \<Rightarrow> if p = NULL then c else c\<lparr>w_mem := store_u32 (w_mem c) p (word_of_int herr)\<rparr>)"

definition tn_set_enosys :: "TnLib \<Rightarrow> int \<times> TnLib" where
  "tn_set_enosys c = (-1, tn_set_errno_val ENOSYS c)"

section \<open>Exec\<close>

fun apply_event :: "event \<Rightarrow> TnLib \<Rightarrow> TnLib" where
  "apply_event (DaemonReply p m) c =
     (if p \<in> set (w_owned c)
      then c\<lparr>w_owned := remove1 p (w_owned c), w_port := w_port c @ [p], w_msgs := (w_msgs c)(p := m),
             w_signals := w_signals c OR w_reply_sig c\<rparr>
      else c)"
| "apply_event (DaemonWrite p bs) c = c\<lparr>w_mem := store_bytes (w_mem c) p bs\<rparr>"
| "apply_event (DaemonSetFd fd i) c = c\<lparr>lb_fd_map := (lb_fd_map c)[fd := i]\<rparr>"
| "apply_event (DaemonSetEvents fd e) c = c\<lparr>lb_events := (lb_events c)[fd := e]\<rparr>"
| "apply_event (SetSignals s) c = c\<lparr>w_signals := w_signals c OR s\<rparr>"
| "apply_event (TimePasses t) c = c\<lparr>w_ticks := w_ticks c + t\<rparr>"
| "apply_event TimerOpens c = c\<lparr>w_timer_ok := True\<rparr>"

text \<open>The next round happens.\<close>

definition outside :: "TnLib \<Rightarrow> TnLib option" where
  "outside c = (case w_rounds c of [] \<Rightarrow> None | r # rs \<Rightarrow> Some (fold apply_event r (c\<lparr>w_rounds := rs\<rparr>)))"

definition fault_if :: "bool \<Rightarrow> fault \<Rightarrow> TnLib \<Rightarrow> TnLib" where
  "fault_if b e c = (if b then c\<lparr>w_faults := e # w_faults c\<rparr> else c)"

definition PutMsg :: "ptr \<Rightarrow> TnLib \<Rightarrow> TnLib" where
  "PutMsg p c =
     (let c = fault_if (p \<in> set (w_owned c) \<or> p \<in> set (w_port c)) (SendOwned p) c;
          c = fault_if (p \<in> set (w_freed c)) (SendFreed p) c
      in c\<lparr>w_owned := p # w_owned c\<rparr>)"

definition GetMsg :: "TnLib \<Rightarrow> (ptr \<times> TnLib) option" where
  "GetMsg c = do {
     c \<leftarrow> outside c;
     Some (case w_port c of [] \<Rightarrow> (NULL, c) | p # ps \<Rightarrow> (p, c\<lparr>w_port := ps\<rparr>)) }"

definition AllocVec :: "TnLib \<Rightarrow> ptr \<times> TnLib" where
  "AllocVec c = (case w_heap c of [] \<Rightarrow> (NULL, c) | p # ps \<Rightarrow> (p, c\<lparr>w_heap := ps\<rparr>))"

definition FreeVec :: "ptr \<Rightarrow> TnLib \<Rightarrow> TnLib" where
  "FreeVec p c =
     (let c = fault_if (p \<in> set (w_owned c) \<or> p \<in> set (w_port c)) (FreeOwned p) c;
          c = fault_if (p \<in> set (w_freed c)) (FreeTwice p) c
      in c\<lparr>w_freed := p # w_freed c\<rparr>)"

lemma outside_rounds: "outside c = Some c1 \<Longrightarrow> length (w_rounds c1) < length (w_rounds c)"
proof -
  have "w_rounds (fold apply_event r c) = w_rounds c" for r c
  proof (induction r arbitrary: c)
    case (Cons e r)
    then show ?case by (cases e) simp_all
  qed simp
  then show "outside c = Some c1 \<Longrightarrow> length (w_rounds c1) < length (w_rounds c)"
    by (auto simp: outside_def split: list.splits)
qed

text \<open>Wait for any of the signals; the ones that are returned are cleared.\<close>

function Wait :: "u32 \<Rightarrow> TnLib \<Rightarrow> (u32 \<times> TnLib) option" where
  "Wait sigs c =
     (case outside c of None \<Rightarrow> None
      | Some c1 \<Rightarrow>
          let got = w_signals c1 AND sigs in
          if got \<noteq> 0 then Some (got, c1\<lparr>w_signals := w_signals c1 AND NOT got\<rparr>) else Wait sigs c1)"
  by pat_completeness auto
termination by (relation "measure (\<lambda>(_, c). length (w_rounds c))") (auto dest: outside_rounds)

function WaitPort :: "TnLib \<Rightarrow> TnLib option" where
  "WaitPort c = (case outside c of None \<Rightarrow> None | Some c1 \<Rightarrow> if w_port c1 \<noteq> [] then Some c1 else WaitPort c1)"
  by pat_completeness auto
termination by (relation "measure (\<lambda>c. length (w_rounds c))") (auto dest: outside_rounds)

declare Wait.simps [simp del] WaitPort.simps [simp del]

definition SetSignal :: "u32 \<Rightarrow> u32 \<Rightarrow> TnLib \<Rightarrow> TnLib" where
  "SetSignal new sigs c = c\<lparr>w_signals := (w_signals c AND NOT sigs) OR (new AND sigs)\<rparr>"

text \<open>A timer request: sent, and taken back with CheckIO, AbortIO and WaitIO, its signal cleared.\<close>

definition SendIO :: "TnLib \<Rightarrow> TnLib" where
  "SendIO c = (fault_if (w_timer_sent c) TimerBusy c)\<lparr>w_timer_sent := True\<rparr>"

definition retire_timer :: "TnLib \<Rightarrow> TnLib" where
  "retire_timer c = SetSignal 0 (w_tm_sig c) (c\<lparr>w_timer_sent := False\<rparr>)"

definition tn_ticks_now :: "TnLib \<Rightarrow> u32" where
  "tn_ticks_now c = w_ticks c"

definition tn_ensure_timer :: "TnLib \<Rightarrow> bool" where
  "tn_ensure_timer c = w_timer_ok c"

end
