(* ===== verification/Lib_Call.thy ===== *)
theory Lib_Call
  imports Lib_Base
begin

text \<open>
  The request path of the library (lib/lib\_vectors.c): \<open>tn_ipc_call\<close> with its two ways to wait (blocking on
  the embedded message, or under the reply watchdog on a heap message per call), the break signal, the
  CANCEL exchange and the chain of abandoned messages, and the release of that chain at close.
\<close>

section \<open>Termination of the loops\<close>

lemma GetMsg_rounds: "GetMsg c = Some (p, c1) \<Longrightarrow> length (w_rounds c1) < length (w_rounds c)"
  by (cases "outside c") (auto simp: GetMsg_def split: list.splits dest: outside_rounds)

lemma Wait_rounds: "Wait s c = Some (g, c1) \<Longrightarrow> length (w_rounds c1) < length (w_rounds c)"
proof (induction s c rule: Wait.induct)
  case (1 s c)
  show ?case
  proof (cases "outside c")
    case (Some c2)
    then have "w_signals c2 AND s = 0 \<Longrightarrow> length (w_rounds c1) < length (w_rounds c2)"
      using 1 by (subst (asm) (2) Wait.simps) simp
    then show ?thesis using 1(2) Some outside_rounds [OF Some]
      by (subst (asm) Wait.simps) (fastforce simp: Let_def split: if_splits)
  qed (use 1(2) in \<open>simp add: Wait.simps\<close>)
qed

lemma WaitPort_rounds: "WaitPort c = Some c1 \<Longrightarrow> length (w_rounds c1) < length (w_rounds c)"
proof (induction c rule: WaitPort.induct)
  case (1 c)
  show ?case
  proof (cases "outside c")
    case (Some c2)
    then have "w_port c2 = [] \<Longrightarrow> length (w_rounds c1) < length (w_rounds c2)"
      using 1 by (subst (asm) (2) WaitPort.simps) simp
    then show ?thesis using 1(2) Some outside_rounds [OF Some]
      by (subst (asm) WaitPort.simps) (fastforce split: if_splits)
  qed (use 1(2) in \<open>simp add: WaitPort.simps\<close>)
qed

lemma retire_rounds [simp]: "w_rounds (retire_timer c) = w_rounds c" "w_rounds (SendIO c) = w_rounds c"
  by (simp_all add: retire_timer_def SetSignal_def SendIO_def fault_if_def)

lemmas rounds_less = GetMsg_rounds Wait_rounds WaitPort_rounds

section \<open>Cancelling a request in flight\<close>

definition put_cancel :: "ptr \<Rightarrow> ptr \<Rightarrow> TnLib \<Rightarrow> TnLib" where
  "put_cancel cancel msg c =
     PutMsg cancel (c\<lparr>w_msgs := (w_msgs c)(cancel := (w_msgs c cancel)\<lparr>im_cmd := 35,
        im_client_task := lb_owner_task c, im_socket_base := lb_base c,
        im_args := (im_args (w_msgs c cancel))(0 := sint msg)\<rparr>)\<rparr>)"

text \<open>
  One lap of the drain: \<open>Some (None, c)\<close> when the bounded drain gives up because the watchdog time has
  passed, otherwise the reply taken off the port, or \<open>NULL\<close> after a wait that found none.
\<close>

definition drain_expired :: "u32 \<Rightarrow> TnLib \<Rightarrow> bool" where
  "drain_expired t0 c = (lb_ipc_timeout_ms c \<le> (tn_ticks_now c - t0) * 20)"

definition drain_lap :: "bool \<Rightarrow> u32 \<Rightarrow> TnLib \<Rightarrow> (ptr option \<times> TnLib) option" where
  "drain_lap bounded t0 c =
     (if bounded then
        (if drain_expired t0 c then Some (None, c)
         else do {
           (early, c) \<leftarrow> GetMsg c;
           if early \<noteq> NULL then Some (Some early, c)
           else do {
             (_, c) \<leftarrow> Wait (w_reply_sig c OR w_tm_sig c) (SendIO c);
             Some (Some NULL, retire_timer c) } })
      else do {
        c \<leftarrow> WaitPort c;
        (early, c) \<leftarrow> GetMsg c;
        Some (Some early, c) })"

lemma drain_lap_rounds: "drain_lap b t0 c = Some (Some e, c1) \<Longrightarrow> length (w_rounds c1) < length (w_rounds c)"
  by (auto simp: drain_lap_def bind_eq_Some_conv split: if_splits dest!: rounds_less)

text \<open>Collect the two replies; others belong to abandoned requests and are dropped.\<close>

function cancel_drain :: "bool \<Rightarrow> u32 \<Rightarrow> ptr \<Rightarrow> ptr \<Rightarrow> bool \<Rightarrow> bool \<Rightarrow> TnLib \<Rightarrow> (bool \<times> bool \<times> TnLib) option" where
  "cancel_drain bounded t0 msg cancel got_msg got_cancel c =
     (if got_msg \<and> got_cancel then Some (got_msg, got_cancel, c)
      else case drain_lap bounded t0 c of
             None \<Rightarrow> None
           | Some (None, c1) \<Rightarrow> Some (got_msg, got_cancel, c1)
           | Some (Some early, c1) \<Rightarrow>
               if early = NULL then cancel_drain bounded t0 msg cancel got_msg got_cancel c1
               else if early = msg then cancel_drain bounded t0 msg cancel True got_cancel c1
               else cancel_drain bounded t0 msg cancel got_msg (got_cancel \<or> early = cancel) c1)"
  by pat_completeness auto
termination
  by (relation "measure (\<lambda>(_, _, _, _, _, _, c). length (w_rounds c))") (auto dest!: drain_lap_rounds)

function await_embedded :: "ptr \<Rightarrow> TnLib \<Rightarrow> TnLib option" where
  "await_embedded msg c =
     (case GetMsg c of None \<Rightarrow> None
      | Some (got, c1) \<Rightarrow>
          if got = msg then Some c1
          else case WaitPort c1 of None \<Rightarrow> None | Some c2 \<Rightarrow> await_embedded msg c2)"
  by pat_completeness auto
termination by (relation "measure (\<lambda>(_, c). length (w_rounds c))") (auto dest!: rounds_less)

declare cancel_drain.simps [simp del] await_embedded.simps [simp del]

definition tn_ipc_orphan_heap :: "ptr \<Rightarrow> TnLib \<Rightarrow> TnLib" where
  "tn_ipc_orphan_heap m c = c\<lparr>lb_orphan := m # lb_orphan c\<rparr>"

text \<open>The flag tells that \<open>msg\<close> has been replied, so that its result may be read.\<close>

definition tn_ipc_cancel_inflight :: "ptr \<Rightarrow> bool \<Rightarrow> TnLib \<Rightarrow> (bool \<times> TnLib) option" where
  "tn_ipc_cancel_inflight msg may_abandon c =
     (let bounded = (may_abandon \<and> lb_ipc_timeout_ms c > 0 \<and> tn_ensure_timer c); cancel = lb_cancel_msg c in
      if cancel = NULL
      then (if may_abandon then Some (False, c) else do { c \<leftarrow> await_embedded msg c; Some (True, c) })
      else do {
        let c = put_cancel cancel msg c;
        let c = (if bounded then SetSignal 0 (w_tm_sig c) c else c);
        (got_msg, got_cancel, c) \<leftarrow> cancel_drain bounded (tn_ticks_now c) msg cancel False False c;
        Some (got_msg,
          if got_cancel then c
          else let (p, c) = AllocVec (tn_ipc_orphan_heap cancel c) in c\<lparr>lb_cancel_msg := p\<rparr>) })"

section \<open>The call\<close>

definition tn_ipc_release_heap :: "ptr \<Rightarrow> TnLib \<Rightarrow> TnLib" where
  "tn_ipc_release_heap heap_msg c =
     (if heap_msg = NULL then c
      else FreeVec heap_msg (c\<lparr>w_msgs := (w_msgs c)(lb_msg c := (w_msgs c (lb_msg c))
        \<lparr>im_args := im_args (w_msgs c heap_msg), im_ptrs := im_ptrs (w_msgs c heap_msg),
         im_result := im_result (w_msgs c heap_msg), im_err_no := im_err_no (w_msgs c heap_msg)\<rparr>)\<rparr>))"

text \<open>RECV, RECVFROM, RECVMSG, ACCEPT, CONNECT, SEND, SENDTO, SENDMSG, GETHOSTBYNAME, WAITSELECT.\<close>

definition tn_cmd_may_park :: "int \<Rightarrow> bool" where
  "tn_cmd_may_park cmd = (cmd \<in> {10, 9, 26, 5, 6, 8, 7, 25, 18, 20})"

definition break_mask :: "int \<Rightarrow> TnLib \<Rightarrow> u32" where
  "break_mask cmd c = (if tn_cmd_may_park cmd then lb_sig_int c else 0)"

text \<open>Late replies of abandoned requests are taken off the port, up to and including the first one.\<close>

function drain_late :: "TnLib \<Rightarrow> TnLib option" where
  "drain_late c =
     (case GetMsg c of None \<Rightarrow> None
      | Some (m, c1) \<Rightarrow> if m = NULL \<or> m \<in> set (lb_orphan c1) then Some c1 else drain_late c1)"
  by pat_completeness auto
termination by (relation "measure (\<lambda>c. length (w_rounds c))") (auto dest!: rounds_less)

datatype wake = Broken u32 | Replied | TimedOut

text \<open>The watchdog: a timer signal counts only when the time has really passed.\<close>

definition watchdog_expired :: "u32 \<Rightarrow> u32 \<Rightarrow> TnLib \<Rightarrow> bool" where
  "watchdog_expired t0 budget c = (budget \<le> (tn_ticks_now c - t0) * 20 + 40)"

function watchdog :: "int \<Rightarrow> u32 \<Rightarrow> u32 \<Rightarrow> TnLib \<Rightarrow> (wake \<times> TnLib) option" where
  "watchdog cmd t0 budget c =
     (case Wait (w_reply_sig c OR w_tm_sig c OR break_mask cmd c) (SendIO c) of None \<Rightarrow> None
      | Some (fired, c1) \<Rightarrow>
          let brk = fired AND break_mask cmd c1; c2 = retire_timer c1 in
          if brk \<noteq> 0 then Some (Broken brk, c2)
          else if fired AND w_reply_sig c2 \<noteq> 0 then Some (Replied, c2)
          else if watchdog_expired t0 budget c2 then Some (TimedOut, c2)
          else watchdog cmd t0 budget c2)"
  by pat_completeness auto
termination by (relation "measure (\<lambda>(_, _, _, c). length (w_rounds c))") (auto dest!: rounds_less)

declare drain_late.simps [simp del] watchdog.simps [simp del]

text \<open>Take replies off the port until it is this call's own, with at most \<open>n\<close> further waits.\<close>

fun collect :: "ptr \<Rightarrow> nat \<Rightarrow> TnLib \<Rightarrow> (bool \<times> TnLib) option" where
  "collect msg n c =
     (case GetMsg c of None \<Rightarrow> None
      | Some (got, c1) \<Rightarrow>
          if got = msg then Some (True, c1)
          else case n of 0 \<Rightarrow> Some (False, c1)
               | Suc k \<Rightarrow> (case WaitPort c1 of None \<Rightarrow> None | Some c2 \<Rightarrow> collect msg k c2))"

declare collect.simps [simp del]

definition finish_call :: "ptr \<Rightarrow> ptr \<Rightarrow> TnLib \<Rightarrow> (int \<times> TnLib) option" where
  "finish_call msg heap_msg c = do {
     (mine, c) \<leftarrow> collect msg 4 c;
     if \<not> mine \<and> heap_msg \<noteq> NULL
     then Some (-1, tn_set_errno_val ETIMEDOUT (tn_ipc_orphan_heap heap_msg (c\<lparr>lb_ipc_timeouts := lb_ipc_timeouts c + 1\<rparr>)))
     else let r = im_result (w_msgs c msg); e = im_err_no (w_msgs c msg);
              c = (if r < 0 \<and> e \<noteq> 0 then tn_set_errno_val e c else c)
          in Some (r, tn_ipc_release_heap heap_msg c) }"

text \<open>A break woke the call: cancel, and return what the daemon answered if it was first.\<close>

definition broken_call :: "bool \<Rightarrow> ptr \<Rightarrow> ptr \<Rightarrow> u32 \<Rightarrow> TnLib \<Rightarrow> (int \<times> TnLib) option" where
  "broken_call watched msg heap_msg brk c = do {
     (replied, c) \<leftarrow> tn_ipc_cancel_inflight msg (heap_msg \<noteq> NULL) (if watched then c else SetSignal brk brk c);
     let r = im_result (w_msgs c msg);
     let e = im_err_no (w_msgs c msg);
     let c = (if watched then SetSignal brk brk c else c);
     if \<not> replied then Some (-1, tn_set_errno_val EINTR (tn_ipc_orphan_heap heap_msg c))
     else let c = tn_ipc_release_heap heap_msg c in
       if watched then (if 0 \<le> r \<or> e = 0 then Some (r, c) else Some (-1, tn_set_errno_val EINTR c))
       else if \<not> (r = -1 \<and> e = EINTR) then Some (r, tn_set_errno_val e c)
       else Some (-1, tn_set_errno_val EINTR c) }"

text \<open>Address and send a message; \<open>heap_msg\<close> is \<open>NULL\<close> for the embedded one.\<close>

definition send_request :: "int \<Rightarrow> ptr \<Rightarrow> TnLib \<Rightarrow> TnLib" where
  "send_request cmd msg c =
     PutMsg msg (c\<lparr>w_msgs := (w_msgs c)(msg := (w_msgs c msg)\<lparr>im_cmd := cmd, im_client_task := lb_owner_task c,
        im_socket_base := lb_base c\<rparr>)\<rparr>)"

definition await_reply :: "int \<Rightarrow> ptr \<Rightarrow> ptr \<Rightarrow> TnLib \<Rightarrow> (int \<times> TnLib) option" where
  "await_reply cmd msg heap_msg c =
     (if heap_msg \<noteq> NULL \<and> tn_ensure_timer c then do {
        let c = SetSignal 0 (w_tm_sig c) c;
        (w, c) \<leftarrow> watchdog cmd (tn_ticks_now c) (lb_ipc_timeout_ms c) c;
        (case w of
           Broken brk \<Rightarrow> broken_call True msg heap_msg brk c
         | Replied \<Rightarrow> finish_call msg heap_msg c
         | TimedOut \<Rightarrow> do {
             (_, c) \<leftarrow> tn_ipc_cancel_inflight msg True (c\<lparr>lb_ipc_timeouts := lb_ipc_timeouts c + 1\<rparr>);
             Some (-1, tn_set_errno_val ETIMEDOUT (tn_ipc_orphan_heap heap_msg c)) }) }
      else do {
        (fired, c) \<leftarrow> Wait (w_reply_sig c OR break_mask cmd c) c;
        let brk = fired AND break_mask cmd c;
        (if brk \<noteq> 0 then broken_call False msg heap_msg brk c else finish_call msg heap_msg c) })"

definition tn_ipc_call :: "int \<Rightarrow> TnLib \<Rightarrow> (int \<times> TnLib) option" where
  "tn_ipc_call cmd c =
     (if \<not> lb_tolunnet_port c \<and> \<not> w_daemon c then Some (-1, tn_set_errno_val ENETDOWN c)
      else let c = c\<lparr>lb_tolunnet_port := True\<rparr> in
      if lb_ipc_timeout_ms c > 0 then do {
        c \<leftarrow> (if lb_orphan c \<noteq> [] then drain_late c else Some c);
        let (heap_msg, c) = AllocVec c;
        (if heap_msg = NULL then Some (-1, tn_set_errno_val ENOBUFS c)
         else let c = c\<lparr>w_msgs := (w_msgs c)(heap_msg := (w_msgs c (lb_msg c))\<lparr>im_result := 0, im_err_no := 0\<rparr>)\<rparr>
              in await_reply cmd heap_msg heap_msg (send_request cmd heap_msg c)) }
      else await_reply cmd (lb_msg c) NULL (send_request cmd (lb_msg c) c))"

section \<open>Close\<close>

fun free_all :: "ptr list \<Rightarrow> TnLib \<Rightarrow> TnLib" where
  "free_all [] c = c"
| "free_all (m # ms) c = free_all ms (FreeVec m c)"

function drain_port :: "TnLib \<Rightarrow> TnLib option" where
  "drain_port c = (case GetMsg c of None \<Rightarrow> None | Some (m, c1) \<Rightarrow> if m = NULL then Some c1 else drain_port c1)"
  by pat_completeness auto
termination by (relation "measure (\<lambda>c. length (w_rounds c))") (auto dest!: rounds_less)

declare drain_port.simps [simp del]

text \<open>The part of \<open>tn_lib_close\<close> that gives the messages back: CLOSE, the abandoned chain, the CANCEL message.\<close>

definition tn_lib_close :: "TnLib \<Rightarrow> TnLib option" where
  "tn_lib_close c = do {
     (_, c) \<leftarrow> tn_ipc_call 1 c;
     c \<leftarrow> drain_port c;
     let c = (free_all (lb_orphan c) c)\<lparr>lb_orphan := []\<rparr>;
     Some (if lb_cancel_msg c \<noteq> NULL then (FreeVec (lb_cancel_msg c) c)\<lparr>lb_cancel_msg := NULL\<rparr> else c) }"

end
