(* ===== verification/Lib_Lvo.thy ===== *)
theory Lib_Lvo
  imports Lib_Call
begin

text \<open>
  The socket vectors of the library (lib/lib\_vectors.c): each checks its arguments, fills the embedded
  message and makes the call.  The client's descriptor hook (\<open>SBTC_FDCALLBACK\<close>) is client code: a
  function of the hook address, the descriptor and the action, and every call to it is recorded.
\<close>

section \<open>Filling the message\<close>

definition fill :: "(nat \<times> int) list \<Rightarrow> (nat \<times> ptr) list \<Rightarrow> TnLib \<Rightarrow> TnLib" where
  "fill as ps c =
     (let m = w_msgs c (lb_msg c) in
      c\<lparr>w_msgs := (w_msgs c)(lb_msg c := m\<lparr>im_args := fold (\<lambda>(i, v) f. f(i := v)) as (im_args m),
                                             im_ptrs := fold (\<lambda>(i, v) f. f(i := v)) ps (im_ptrs m)\<rparr>)\<rparr>)"

definition bad :: "int \<Rightarrow> TnLib \<Rightarrow> (int \<times> TnLib) option" where
  "bad err c = Some (-1, tn_set_errno_val err c)"

section \<open>The descriptor hook\<close>

abbreviation (input) FDCB_FREE :: int where "FDCB_FREE \<equiv> 0"
abbreviation (input) FDCB_ALLOC :: int where "FDCB_ALLOC \<equiv> 1"
abbreviation (input) FDCB_CHECK :: int where "FDCB_CHECK \<equiv> 2"

definition fd_hook :: "int \<Rightarrow> int \<Rightarrow> TnLib \<Rightarrow> int \<times> TnLib" where
  "fd_hook fd action c = (w_fdcb c (lb_fd_callback c) fd action, c\<lparr>w_fdcb_calls := w_fdcb_calls c @ [(fd, action)]\<rparr>)"

text \<open>The first descriptor that is free in the table and that the hook accepts, scanning from \<open>i\<close>.\<close>

fun hook_scan :: "nat \<Rightarrow> int list \<Rightarrow> TnLib \<Rightarrow> int \<times> TnLib" where
  "hook_scan i [] c = (-1, c)"
| "hook_scan i (v # vs) c =
     (if v = -1 then (case fd_hook (int i) FDCB_CHECK c of
        (r, c1) \<Rightarrow> if r = 0 then (int i, c1) else hook_scan (Suc i) vs c1)
      else hook_scan (Suc i) vs c)"

definition preferred_fd :: "TnLib \<Rightarrow> int \<times> TnLib" where
  "preferred_fd c =
     (if lb_fd_callback c = NULL then (-1, c) else hook_scan 0 (take (nat (lb_dtablesize c)) (lb_fd_map c)) c)"

text \<open>A call that may return a new descriptor, whose allocation the hook is told.\<close>

definition allocating_call :: "int \<Rightarrow> TnLib \<Rightarrow> (int \<times> TnLib) option" where
  "allocating_call cmd c = do {
     (res, c) \<leftarrow> tn_ipc_call cmd c;
     Some (res, if 0 \<le> res \<and> lb_fd_callback c \<noteq> NULL then snd (fd_hook res FDCB_ALLOC c) else c) }"

text \<open>The table entry of a descriptor; only asked for descriptors inside the table.\<close>

definition fd_entry :: "TnLib \<Rightarrow> int \<Rightarrow> int" where
  "fd_entry c fd = (if 0 \<le> fd \<and> nat fd < length (lb_fd_map c) then lb_fd_map c ! nat fd else -1)"

section \<open>Sockets\<close>

definition tn_lvo_socket :: "int \<Rightarrow> int \<Rightarrow> int \<Rightarrow> TnLib \<Rightarrow> (int \<times> TnLib) option" where
  "tn_lvo_socket domain type protocol c =
     (let c = fill [(0, domain), (1, type), (2, protocol), (3, -1)] [] c; (fd, c) = preferred_fd c
      in allocating_call 2 (fill [(3, fd)] [] c))"

definition tn_lvo_bind :: "int \<Rightarrow> ptr \<Rightarrow> int \<Rightarrow> TnLib \<Rightarrow> (int \<times> TnLib) option" where
  "tn_lvo_bind sock name namelen c =
     (if sock < 0 then bad EBADF c else tn_ipc_call 3 (fill [(0, sock), (1, namelen)] [(0, name)] c))"

definition tn_lvo_listen :: "int \<Rightarrow> int \<Rightarrow> TnLib \<Rightarrow> (int \<times> TnLib) option" where
  "tn_lvo_listen sock backlog c =
     (if sock < 0 then bad EBADF c else tn_ipc_call 4 (fill [(0, sock), (1, backlog)] [] c))"

definition tn_lvo_accept :: "int \<Rightarrow> ptr \<Rightarrow> ptr \<Rightarrow> TnLib \<Rightarrow> (int \<times> TnLib) option" where
  "tn_lvo_accept sock addr addrlen c =
     (if sock < 0 then bad EBADF c
      else let c = fill [(0, sock), (3, -1)] [(0, addr), (1, addrlen)] c; (fd, c) = preferred_fd c
           in allocating_call 5 (fill [(3, fd)] [] c))"

definition tn_lvo_connect :: "int \<Rightarrow> ptr \<Rightarrow> int \<Rightarrow> TnLib \<Rightarrow> (int \<times> TnLib) option" where
  "tn_lvo_connect sock name namelen c =
     (if sock < 0 then bad EBADF c else tn_ipc_call 6 (fill [(0, sock), (1, namelen)] [(0, name)] c))"

definition tn_lvo_sendto :: "int \<Rightarrow> ptr \<Rightarrow> int \<Rightarrow> int \<Rightarrow> ptr \<Rightarrow> int \<Rightarrow> TnLib \<Rightarrow> (int \<times> TnLib) option" where
  "tn_lvo_sendto sock buf len flags to tolen c =
     (if sock < 0 then bad EBADF c
      else tn_ipc_call 7 (fill [(0, sock), (1, len), (2, flags), (3, tolen)] [(0, buf), (1, to)] c))"

definition tn_lvo_send :: "int \<Rightarrow> ptr \<Rightarrow> int \<Rightarrow> int \<Rightarrow> TnLib \<Rightarrow> (int \<times> TnLib) option" where
  "tn_lvo_send sock buf len flags c =
     (if sock < 0 then bad EBADF c else tn_ipc_call 8 (fill [(0, sock), (1, len), (2, flags)] [(0, buf)] c))"

definition tn_lvo_recvfrom :: "int \<Rightarrow> ptr \<Rightarrow> int \<Rightarrow> int \<Rightarrow> ptr \<Rightarrow> ptr \<Rightarrow> TnLib \<Rightarrow> (int \<times> TnLib) option" where
  "tn_lvo_recvfrom sock buf len flags addr addrlen c =
     (if sock < 0 then bad EBADF c
      else tn_ipc_call 9 (fill [(0, sock), (1, len), (2, flags)] [(0, buf), (1, addr), (2, addrlen)] c))"

definition tn_lvo_recv :: "int \<Rightarrow> ptr \<Rightarrow> int \<Rightarrow> int \<Rightarrow> TnLib \<Rightarrow> (int \<times> TnLib) option" where
  "tn_lvo_recv sock buf len flags c =
     (if sock < 0 then bad EBADF c else tn_ipc_call 10 (fill [(0, sock), (1, len), (2, flags)] [(0, buf)] c))"

definition tn_lvo_shutdown :: "int \<Rightarrow> int \<Rightarrow> TnLib \<Rightarrow> (int \<times> TnLib) option" where
  "tn_lvo_shutdown sock how c =
     (if sock < 0 then bad EBADF c else tn_ipc_call 11 (fill [(0, sock), (1, how)] [] c))"

text \<open>SO\_EVENTMASK (level SOL\_SOCKET) is kept on the client side.\<close>

definition tn_lvo_setsockopt :: "int \<Rightarrow> int \<Rightarrow> int \<Rightarrow> ptr \<Rightarrow> int \<Rightarrow> TnLib \<Rightarrow> (int \<times> TnLib) option" where
  "tn_lvo_setsockopt sock level optname optval optlen c =
     (if sock < 0 then bad EBADF c
      else if level = 0xFFFF \<and> optname = 0x2001 then
        (if optval = NULL \<or> optlen < 4 \<or> lb_dtablesize c \<le> sock then bad EINVAL c
         else Some (0, c\<lparr>lb_event_masks := (lb_event_masks c)[nat sock := load_u32 (w_mem c) optval]\<rparr>))
      else tn_ipc_call 12 (fill [(0, sock), (1, level), (2, optname), (3, optlen)] [(0, optval)] c))"

definition tn_lvo_getsockopt :: "int \<Rightarrow> int \<Rightarrow> int \<Rightarrow> ptr \<Rightarrow> ptr \<Rightarrow> TnLib \<Rightarrow> (int \<times> TnLib) option" where
  "tn_lvo_getsockopt sock level optname optval optlen c =
     (if sock < 0 then bad EBADF c
      else tn_ipc_call 13 (fill [(0, sock), (1, level), (2, optname)] [(0, optval), (1, optlen)] c))"

definition tn_lvo_getsockname :: "int \<Rightarrow> ptr \<Rightarrow> ptr \<Rightarrow> TnLib \<Rightarrow> (int \<times> TnLib) option" where
  "tn_lvo_getsockname sock name namelen c =
     (if sock < 0 then bad EBADF c else tn_ipc_call 14 (fill [(0, sock)] [(0, name), (1, namelen)] c))"

definition tn_lvo_getpeername :: "int \<Rightarrow> ptr \<Rightarrow> ptr \<Rightarrow> TnLib \<Rightarrow> (int \<times> TnLib) option" where
  "tn_lvo_getpeername sock name namelen c =
     (if sock < 0 then bad EBADF c else tn_ipc_call 15 (fill [(0, sock)] [(0, name), (1, namelen)] c))"

definition tn_lvo_ioctlsocket :: "int \<Rightarrow> u32 \<Rightarrow> ptr \<Rightarrow> TnLib \<Rightarrow> (int \<times> TnLib) option" where
  "tn_lvo_ioctlsocket sock req argp c =
     (if sock < 0 then bad EBADF c else tn_ipc_call 16 (fill [(0, sock), (1, sint req)] [(0, argp)] c))"

definition tn_lvo_closesocket :: "int \<Rightarrow> TnLib \<Rightarrow> (int \<times> TnLib) option" where
  "tn_lvo_closesocket sock c =
     (if sock < 0 then bad EBADF c
      else let c = (if lb_fd_callback c \<noteq> NULL \<and> sock < lb_dtablesize c \<and> 0 \<le> fd_entry c sock
                    then snd (fd_hook sock FDCB_FREE c) else c)
           in tn_ipc_call 17 (fill [(0, sock)] [] c))"

section \<open>Descriptors handed between tasks\<close>

definition tn_lvo_obtainsocket :: "int \<Rightarrow> int \<Rightarrow> int \<Rightarrow> int \<Rightarrow> TnLib \<Rightarrow> (int \<times> TnLib) option" where
  "tn_lvo_obtainsocket ident domain type protocol c =
     (let c = fill [(0, ident), (1, domain), (2, type), (3, protocol), (4, -1)] [] c; (fd, c) = preferred_fd c
      in allocating_call 28 (fill [(4, fd)] [] c))"

definition own_fd :: "int \<Rightarrow> TnLib \<Rightarrow> bool" where
  "own_fd sock c = (0 \<le> sock \<and> sock < lb_dtablesize c \<and> 0 \<le> fd_entry c sock)"

definition tn_lvo_releasesocket :: "int \<Rightarrow> int \<Rightarrow> TnLib \<Rightarrow> (int \<times> TnLib) option" where
  "tn_lvo_releasesocket sock ident c =
     (if \<not> own_fd sock c then bad EBADF c
      else let c = (if lb_fd_callback c \<noteq> NULL then snd (fd_hook sock FDCB_FREE c) else c)
           in tn_ipc_call 27 (fill [(0, sock), (1, ident), (2, 0)] [] c))"

definition tn_lvo_releasecopyofsocket :: "int \<Rightarrow> int \<Rightarrow> TnLib \<Rightarrow> (int \<times> TnLib) option" where
  "tn_lvo_releasecopyofsocket sock ident c =
     (if \<not> own_fd sock c then bad EBADF c else tn_ipc_call 27 (fill [(0, sock), (1, ident), (2, 1)] [] c))"

text \<open>The lowest descriptor other than \<open>old_sock\<close> that is free in the table.\<close>

definition lowest_free :: "int \<Rightarrow> TnLib \<Rightarrow> int" where
  "lowest_free old_sock c =
     (case first_idx (\<lambda>i. fd_entry c (int i) < 0 \<and> int i \<noteq> old_sock) [0..<nat (lb_dtablesize c)] of
        Some i \<Rightarrow> int i | None \<Rightarrow> -1)"

definition tn_lvo_dup2socket :: "int \<Rightarrow> int \<Rightarrow> TnLib \<Rightarrow> (int \<times> TnLib) option" where
  "tn_lvo_dup2socket old_sock new_sock c =
     (if old_sock < 0 \<or> lb_dtablesize c \<le> old_sock then bad EBADF c
      else let new = (if new_sock = -1 then lowest_free old_sock c else new_sock) in
      if new = -1 \<and> new_sock = -1 then bad EMFILE c
      else if new < 0 \<or> lb_dtablesize c \<le> new then bad EBADF c
      else if fd_entry c old_sock < 0 then bad EBADF c
      else if old_sock = new then Some (new, c)
      else let c = (if lb_fd_callback c \<noteq> NULL \<and> 0 \<le> fd_entry c new then snd (fd_hook new FDCB_FREE c) else c) in
      do {
        (res, c) \<leftarrow> tn_ipc_call 21 (fill [(0, old_sock), (1, new)] [] c);
        Some (res, if 0 \<le> res \<and> lb_fd_callback c \<noteq> NULL then snd (fd_hook new FDCB_ALLOC c) else c) })"

definition msg_call :: "int \<Rightarrow> int \<Rightarrow> ptr \<Rightarrow> int \<Rightarrow> TnLib \<Rightarrow> (int \<times> TnLib) option" where
  "msg_call cmd sock msg flags c =
     (if \<not> own_fd sock c then bad EBADF c
      else if msg = NULL then bad EINVAL c
      else if (word_of_int flags :: u32) AND 1 \<noteq> 0 then bad EOPNOTSUPP c
      else tn_ipc_call cmd (fill [(0, sock), (1, flags)] [(0, msg)] c))"

definition tn_lvo_sendmsg :: "int \<Rightarrow> ptr \<Rightarrow> int \<Rightarrow> TnLib \<Rightarrow> (int \<times> TnLib) option" where
  "tn_lvo_sendmsg sock msg flags c = msg_call 25 sock msg flags c"

definition tn_lvo_recvmsg :: "int \<Rightarrow> ptr \<Rightarrow> int \<Rightarrow> TnLib \<Rightarrow> (int \<times> TnLib) option" where
  "tn_lvo_recvmsg sock msg flags c = msg_call 26 sock msg flags c"

section \<open>Signals, errno, events\<close>

definition tn_lvo_setsocketsignals :: "u32 \<Rightarrow> u32 \<Rightarrow> u32 \<Rightarrow> TnLib \<Rightarrow> TnLib" where
  "tn_lvo_setsocketsignals int_mask io_mask urgent_mask c =
     c\<lparr>lb_sig_int := int_mask, lb_sig_io := io_mask, lb_sig_urg := urgent_mask\<rparr>"

definition tn_lvo_getdtablesize :: "TnLib \<Rightarrow> int" where
  "tn_lvo_getdtablesize c = lb_dtablesize c"

definition tn_lvo_errno :: "TnLib \<Rightarrow> int" where
  "tn_lvo_errno c =
     (case lb_errno_ptr c of None \<Rightarrow> lb_task_errno c
      | Some p \<Rightarrow>
          if p = NULL then lb_task_errno c
          else if lb_errno_width c = 1 then uint (w_mem c p)
          else if lb_errno_width c = 2 then uint (load_u16 (w_mem c) p)
          else sint (load_u32 (w_mem c) p))"

definition tn_lvo_seterrnoptr :: "ptr \<Rightarrow> int \<Rightarrow> TnLib \<Rightarrow> TnLib" where
  "tn_lvo_seterrnoptr errno_ptr sz c =
     (if errno_ptr \<noteq> NULL
      then c\<lparr>lb_errno_ptr := Some errno_ptr, lb_errno_width := (if sz = 1 \<or> sz = 2 \<or> sz = 4 then nat sz else 4)\<rparr>
      else c\<lparr>lb_errno_ptr := None, lb_errno_width := 4\<rparr>)"

text \<open>GetSocketEvents: the next descriptor with events after the last one reported, cyclically.\<close>

definition gse_check :: "TnLib \<Rightarrow> nat \<Rightarrow> nat" where
  "gse_check c fd = nat ((lb_gse_last_fd c + 1 + int fd) mod lb_dtablesize c)"

definition tn_lvo_getsocketevents :: "ptr \<Rightarrow> TnLib \<Rightarrow> int \<times> TnLib" where
  "tn_lvo_getsocketevents event_ptr c =
     (if event_ptr = NULL then (-1, tn_set_errno_val EINVAL c)
      else case first_idx (\<lambda>fd. lb_events c ! gse_check c fd \<noteq> 0) [0..<nat (lb_dtablesize c)] of
             None \<Rightarrow> (-1, c)
           | Some fd \<Rightarrow>
               let k = gse_check c fd in
               (int k, c\<lparr>w_mem := store_u32 (w_mem c) event_ptr (lb_events c ! k), lb_events := (lb_events c)[k := 0],
                         lb_gse_last_fd := int k\<rparr>))"

end
