(* ===== verification/Lib_Call_Props.thy ===== *)
theory Lib_Call_Props
  imports Lib_Call
begin

text \<open>
  Message ownership on the client side: whatever the daemon, the signals and the clock do, a request
  leaves every message either at home or on the abandoned chain, and never sends, reuses or frees a
  message the daemon still holds.
\<close>

section \<open>What the outside can do\<close>

definition home :: "ptr \<Rightarrow> TnLib \<Rightarrow> bool" where
  "home p c = (p \<notin> set (w_owned c) \<and> p \<notin> set (w_port c))"

text \<open>Messages may come back and be taken off the port; the client's own bookkeeping stays.\<close>

definition drains :: "TnLib \<Rightarrow> TnLib \<Rightarrow> bool" where
  "drains c d = (lb_msg d = lb_msg c \<and> lb_cancel_msg d = lb_cancel_msg c \<and> lb_orphan d = lb_orphan c \<and>
     lb_ipc_timeout_ms d = lb_ipc_timeout_ms c \<and> w_heap d = w_heap c \<and> w_freed d = w_freed c \<and>
     w_faults d = w_faults c \<and> w_timer_sent d = w_timer_sent c \<and>
     set (w_owned d @ w_port d) \<subseteq> set (w_owned c @ w_port c) \<and>
     (distinct (w_owned c @ w_port c) \<longrightarrow> distinct (w_owned d @ w_port d)))"

lemma drains_refl [simp]: "drains c c" by (simp add: drains_def)

lemma drains_trans: "drains a b \<Longrightarrow> drains b c \<Longrightarrow> drains a c" by (auto simp: drains_def)

lemma drains_home: "drains c d \<Longrightarrow> home p c \<Longrightarrow> home p d" by (auto simp: drains_def home_def)

lemma drains_event: "drains c (apply_event e c)"
proof (cases e)
  case (DaemonReply p m)
  then show ?thesis using set_remove1_subset [of p "w_owned c"] by (auto simp: drains_def)
qed (simp_all add: drains_def)

lemma drains_fold: "drains c (fold apply_event r c)"
proof (induction r arbitrary: c)
  case (Cons e r)
  then show ?case using drains_event drains_trans by fastforce
qed simp

lemma drains_outside: "outside c = Some d \<Longrightarrow> drains c d"
proof -
  assume "outside c = Some d"
  then obtain r rs where "d = fold apply_event r (c\<lparr>w_rounds := rs\<rparr>)" by (auto simp: outside_def split: list.splits)
  moreover have "drains c (c\<lparr>w_rounds := rs\<rparr>)" by (simp add: drains_def)
  ultimately show "drains c d" using drains_fold drains_trans by blast
qed

lemma drains_GetMsg:
  assumes "GetMsg c = Some (p, d)"
  shows "drains c d" "p \<noteq> NULL \<Longrightarrow> distinct (w_owned c @ w_port c) \<Longrightarrow> home p d"
proof -
  obtain c1 where c1: "outside c = Some c1" "(p, d) = (case w_port c1 of [] \<Rightarrow> (NULL, c1) | q # ps \<Rightarrow> (q, c1\<lparr>w_port := ps\<rparr>))"
    using assms by (cases "outside c") (auto simp: GetMsg_def)
  have "drains c1 d" using c1(2) by (auto simp: drains_def split: list.splits)
  with drains_outside [OF c1(1)] show "drains c d" by (rule drains_trans)
  show "p \<noteq> NULL \<Longrightarrow> distinct (w_owned c @ w_port c) \<Longrightarrow> home p d"
    using c1(2) drains_outside [OF c1(1)] by (auto simp: drains_def home_def split: list.splits)
qed

lemma drains_Wait: "Wait s c = Some (g, d) \<Longrightarrow> drains c d"
proof (induction s c rule: Wait.induct)
  case (1 s c)
  show ?case
  proof (cases "outside c")
    case (Some c1)
    have "drains c1 (c1\<lparr>w_signals := x\<rparr>)" for x by (simp add: drains_def)
    moreover have "w_signals c1 AND s = 0 \<Longrightarrow> drains c1 d"
      using 1 Some by (subst (asm) (2) Wait.simps) simp
    ultimately have "drains c1 d" using 1(2) Some
      by (subst (asm) Wait.simps) (auto simp: Let_def split: if_splits)
    then show ?thesis using drains_outside [OF Some] drains_trans by blast
  qed (use 1(2) in \<open>simp add: Wait.simps\<close>)
qed

lemma drains_WaitPort: "WaitPort c = Some d \<Longrightarrow> drains c d"
proof (induction c rule: WaitPort.induct)
  case (1 c)
  show ?case
  proof (cases "outside c")
    case (Some c1)
    then have "drains c1 d"
      using 1 by (subst (asm) (2) WaitPort.simps) (auto split: if_splits)
    then show ?thesis using drains_outside [OF Some] drains_trans by blast
  qed (use 1(2) in \<open>simp add: WaitPort.simps\<close>)
qed

lemma drains_timed:
  assumes "Wait s (SendIO c) = Some (g, d)" "\<not> w_timer_sent c"
  shows "drains c (retire_timer d)"
  using drains_Wait [OF assms(1)] assms(2)
  by (auto simp: drains_def SendIO_def fault_if_def retire_timer_def SetSignal_def)

lemma drains_SetSignal: "drains c (SetSignal n s c)"
  by (simp add: drains_def SetSignal_def)

lemma drains_errno: "drains c (tn_set_errno_val e c)"
  by (simp add: drains_def tn_set_errno_val_def Let_def split: option.split)

section \<open>The loops\<close>

lemma drains_lap:
  assumes "drain_lap b t0 c = Some (e, d)" "\<not> w_timer_sent c" "distinct (w_owned c @ w_port c)"
  shows "drains c d \<and> (\<forall>p. e = Some p \<and> p \<noteq> NULL \<longrightarrow> home p d) \<and> (\<not> b \<longrightarrow> e \<noteq> None)"
proof (cases b)
  case True
  show ?thesis
  proof (cases "drain_expired t0 c")
    case False
    then obtain p c1 where g: "GetMsg c = Some (p, c1)" using assms(1) True by (auto simp: drain_lap_def bind_eq_Some_conv)
    then have "\<not> w_timer_sent c1" using drains_GetMsg(1) [OF g] assms(2) by (simp add: drains_def)
    then show ?thesis using assms True False g drains_GetMsg [OF g] drains_timed drains_trans
      by (fastforce simp: drain_lap_def bind_eq_Some_conv split: if_splits)
  qed (use assms True in \<open>simp add: drain_lap_def\<close>)
next
  case False
  then obtain c1 p where w: "WaitPort c = Some c1" "GetMsg c1 = Some (p, d)" "e = Some p"
    using assms(1) by (auto simp: drain_lap_def bind_eq_Some_conv)
  moreover have "distinct (w_owned c1 @ w_port c1)" using drains_WaitPort [OF w(1)] assms(3) by (simp add: drains_def)
  ultimately show ?thesis using drains_WaitPort [OF w(1)] drains_GetMsg [OF w(2)] drains_trans by fast
qed

lemma drains_cancel_drain:
  assumes "cancel_drain b t0 m k gm gc c = Some (gm1, gc1, d)" "\<not> w_timer_sent c" "distinct (w_owned c @ w_port c)"
    "gm \<longrightarrow> home m c" "gc \<longrightarrow> home k c"
  shows "drains c d \<and> (gm1 \<longrightarrow> home m d) \<and> (gc1 \<longrightarrow> home k d) \<and> (\<not> b \<longrightarrow> gm1 \<and> gc1)"
  using assms
proof (induction b t0 m k gm gc c arbitrary: gm1 gc1 d rule: cancel_drain.induct)
  case (1 b t0 m k gm gc c)
  show ?case
  proof (cases "gm \<and> gc")
    case True
    then show ?thesis using 1(4-) by (subst (asm) cancel_drain.simps) auto
  next
    case go: False
    then obtain e c1 where lap: "drain_lap b t0 c = Some (e, c1)"
      using 1(4) by (subst (asm) cancel_drain.simps) (auto split: option.splits)
    note L = drains_lap [OF lap 1(5,6)]
    then have c1: "drains c c1" "\<not> w_timer_sent c1" "distinct (w_owned c1 @ w_port c1)" using 1(5,6) by (auto simp: drains_def)
    then have h: "gm \<longrightarrow> home m c1" "gc \<longrightarrow> home k c1" using 1(7,8) drains_home by blast+
    show ?thesis
    proof (cases e)
      case None
      then show ?thesis using 1(4) lap go c1 h L by (subst (asm) cancel_drain.simps) auto
    next
      case (Some p)
      have p: "p \<noteq> NULL \<Longrightarrow> home p c1" using L Some by blast
      note IH = 1(1,2,3) [OF go lap refl Some]
      have "drains c1 d \<and> (gm1 \<longrightarrow> home m d) \<and> (gc1 \<longrightarrow> home k d) \<and> (\<not> b \<longrightarrow> gm1 \<and> gc1)"
        using 1(4) lap Some go IH c1 h p by (subst (asm) cancel_drain.simps) (auto split: if_splits)
      then show ?thesis using c1(1) drains_trans by blast
    qed
  qed
qed

lemma drains_await_embedded:
  assumes "await_embedded m c = Some d" "distinct (w_owned c @ w_port c)" "m \<noteq> NULL"
  shows "drains c d \<and> home m d"
  using assms
proof (induction m c rule: await_embedded.induct)
  case (1 m c)
  obtain p c1 where g: "GetMsg c = Some (p, c1)"
    using 1(2) by (subst (asm) await_embedded.simps) (auto split: option.splits)
  note d1 = drains_GetMsg [OF g]
  show ?case
  proof (cases "p = m")
    case True
    then show ?thesis using 1(2-) g d1 by (subst (asm) await_embedded.simps) auto
  next
    case False
    then obtain c2 where w: "WaitPort c1 = Some c2" "await_embedded m c2 = Some d"
      using 1(2) g by (subst (asm) await_embedded.simps) (auto split: option.splits)
    have d2: "drains c c2" using d1(1) drains_WaitPort [OF w(1)] by (rule drains_trans)
    then show ?thesis using 1(1) [OF g refl False w(1,2)] 1(3,4) drains_trans [OF d2] by (simp add: drains_def)
  qed
qed

lemma drains_collect:
  assumes "collect m n c = Some (mine, d)" "distinct (w_owned c @ w_port c)" "m \<noteq> NULL"
  shows "drains c d \<and> (mine \<longrightarrow> home m d)"
  using assms
proof (induction m n c rule: collect.induct)
  case (1 m n c)
  obtain p c1 where g: "GetMsg c = Some (p, c1)"
    using 1(2) by (subst (asm) collect.simps) (auto split: option.splits)
  note d1 = drains_GetMsg [OF g]
  show ?case
  proof (cases "p = m \<or> n = 0")
    case True
    then show ?thesis using 1(2-) g d1 by (subst (asm) collect.simps) (auto split: if_splits nat.splits)
  next
    case False
    then obtain k c2 where w: "n = Suc k" "WaitPort c1 = Some c2" "collect m k c2 = Some (mine, d)"
      using 1(2) g by (subst (asm) collect.simps) (auto split: option.splits nat.splits)
    have d2: "drains c c2" using d1(1) drains_WaitPort [OF w(2)] by (rule drains_trans)
    moreover have "drains c2 d \<and> (mine \<longrightarrow> home m d)"
      using 1(1) [OF g refl _ w(1,2,3)] False 1(3,4) d2 by (auto simp: drains_def)
    ultimately show ?thesis using drains_trans by blast
  qed
qed

lemma drains_drain_late: "drain_late c = Some d \<Longrightarrow> drains c d"
proof (induction c rule: drain_late.induct)
  case (1 c)
  obtain p c1 where g: "GetMsg c = Some (p, c1)"
    using 1(2) by (subst (asm) drain_late.simps) (auto split: option.splits)
  have "drains c1 d"
    using 1 g by (subst (asm) (2) drain_late.simps) (auto split: if_splits)
  then show ?case using drains_GetMsg(1) [OF g] drains_trans by blast
qed

lemma drains_watchdog:
  assumes "watchdog cmd t0 b c = Some (w, d)" "\<not> w_timer_sent c"
  shows "drains c d"
  using assms
proof (induction cmd t0 b c rule: watchdog.induct)
  case (1 cmd t0 b c)
  obtain f c1 where w: "Wait (w_reply_sig c OR w_tm_sig c OR break_mask cmd c) (SendIO c) = Some (f, c1)"
    using 1(2) by (subst (asm) watchdog.simps) (auto split: option.splits)
  have d1: "drains c (retire_timer c1)" using drains_timed [OF w 1(3)] .
  then have "\<not> w_timer_sent (retire_timer c1)" using 1(3) by (simp add: drains_def)
  then have "drains (retire_timer c1) d"
    using 1(1) [OF w refl refl refl] 1(2) w by (subst (asm) (2) watchdog.simps) (auto simp: Let_def split: if_splits)
  then show ?case using d1 drains_trans by blast
qed

section \<open>The invariant\<close>

text \<open>
  \<open>inflight F c\<close>: between two calls the set is empty; during a call it holds the messages of the call.  Every
  message the daemon holds or has left on the port is in flight or abandoned; the embedded message, the
  CANCEL message, the abandoned ones, the freed ones and what AllocVec will return are apart.
\<close>

definition inflight :: "ptr set \<Rightarrow> TnLib \<Rightarrow> bool" where
  "inflight F c = (w_faults c = [] \<and> \<not> w_timer_sent c \<and> distinct (w_owned c @ w_port c) \<and>
     set (w_owned c @ w_port c) \<subseteq> set (lb_orphan c) \<union> F \<and>
     lb_msg c \<noteq> NULL \<and> lb_msg c \<notin> set (lb_orphan c) \<union> set (w_freed c) \<and>
     distinct (lb_orphan c) \<and> NULL \<notin> set (lb_orphan c) \<union> F \<and>
     set (w_freed c) \<inter> (set (lb_orphan c) \<union> F) = {} \<and> set (lb_orphan c) \<inter> F = {} \<and>
     (lb_cancel_msg c \<noteq> NULL \<longrightarrow> lb_cancel_msg c \<notin> insert (lb_msg c) (set (lb_orphan c) \<union> set (w_freed c))) \<and>
     distinct (filter (\<lambda>p. p \<noteq> NULL) (w_heap c)) \<and>
     (\<forall>p\<in>set (w_heap c). p \<noteq> NULL \<longrightarrow>
        p \<notin> insert (lb_msg c) (insert (lb_cancel_msg c) (set (lb_orphan c) \<union> set (w_freed c) \<union> F))))"

lemma inflight_drains: "inflight F c \<Longrightarrow> drains c d \<Longrightarrow> inflight F d"
  unfolding inflight_def drains_def by auto

lemma inflight_home: "inflight (insert p F) c \<Longrightarrow> home p c \<Longrightarrow> p \<notin> F \<Longrightarrow> inflight F c"
  unfolding inflight_def home_def by auto

lemma inflight_send:
  assumes "inflight F c" "p \<noteq> NULL" "p \<notin> F \<union> set (lb_orphan c) \<union> set (w_freed c)" "p \<notin> set (w_heap c)"
  shows "inflight (insert p F) (PutMsg p c)"
  using assms unfolding inflight_def by (auto simp: PutMsg_def fault_if_def Let_def)

lemma inflight_errno: "inflight F (tn_set_errno_val e c) = inflight F c"
  unfolding inflight_def by (simp add: tn_set_errno_val_def Let_def split: option.split)

lemma inflight_msgs: "inflight F (c\<lparr>w_msgs := x\<rparr>) = inflight F c" "inflight F (c\<lparr>lb_ipc_timeouts := y\<rparr>) = inflight F c"
  "inflight F (c\<lparr>lb_tolunnet_port := z\<rparr>) = inflight F c" "inflight F (SetSignal n s c) = inflight F c"
  unfolding inflight_def by (simp_all add: SetSignal_def)

lemma SetSignal_frame:
  "lb_msg (SetSignal n s c) = lb_msg c" "lb_cancel_msg (SetSignal n s c) = lb_cancel_msg c" "home p (SetSignal n s c) = home p c"
  "lb_ipc_timeout_ms (SetSignal n s c) = lb_ipc_timeout_ms c" "lb_orphan (SetSignal n s c) = lb_orphan c"
  by (simp_all add: SetSignal_def home_def)

lemma inflight_orphan:
  assumes "inflight (insert p F) c" "p \<notin> F" "p \<noteq> lb_msg c" "p \<noteq> lb_cancel_msg c"
  shows "inflight F (tn_ipc_orphan_heap p c)"
  using assms unfolding inflight_def by (auto simp: tn_ipc_orphan_heap_def)

lemma inflight_release:
  assumes "inflight (insert p F) c" "p \<notin> F" "p \<noteq> lb_msg c" "p \<noteq> lb_cancel_msg c" "home p c"
  shows "inflight F (tn_ipc_release_heap p c)"
  using assms unfolding inflight_def home_def by (auto simp: tn_ipc_release_heap_def FreeVec_def fault_if_def Let_def)

section \<open>The call\<close>

text \<open>A CANCEL that did not come back joins the abandoned messages and is replaced.\<close>

lemma inflight_replace_cancel:
  assumes "inflight (insert (lb_cancel_msg c) F) c" "lb_cancel_msg c \<notin> F"
    "lb_cancel_msg c \<noteq> NULL" "AllocVec (tn_ipc_orphan_heap (lb_cancel_msg c) c) = (p, d)"
  shows "inflight F (d\<lparr>lb_cancel_msg := p\<rparr>) \<and> lb_msg d = lb_msg c \<and> (p = NULL \<or> p \<notin> F)"
  using assms unfolding inflight_def
  by (cases "w_heap c") (auto simp: AllocVec_def tn_ipc_orphan_heap_def split: if_splits)

lemma cancel_inflight:
  assumes run: "tn_ipc_cancel_inflight m ab c = Some (r, d)"
    and inv: "inflight {m} c" "m \<noteq> lb_cancel_msg c"
  shows "inflight {m} d \<and> m \<noteq> lb_cancel_msg d \<and> lb_msg d = lb_msg c \<and> (r \<longrightarrow> home m d) \<and>
    (\<not> ab \<longrightarrow> r \<and> lb_orphan d = lb_orphan c) \<and> lb_ipc_timeout_ms d = lb_ipc_timeout_ms c"
proof -
  have dist: "distinct (w_owned c @ w_port c)" "m \<noteq> NULL" using inv(1) by (auto simp: inflight_def)
  let ?k = "lb_cancel_msg c" and ?b = "ab \<and> lb_ipc_timeout_ms c > 0 \<and> tn_ensure_timer c"
  show ?thesis
  proof (cases "?k = NULL")
    case True
    then show ?thesis using run inv drains_await_embedded [OF _ dist] inflight_drains [OF inv(1)]
      by (auto simp: tn_ipc_cancel_inflight_def bind_eq_Some_conv drains_def split: if_splits)
  next
    case False
    let ?c1 = "put_cancel ?k m c" let ?c2 = "if ?b then SetSignal 0 (w_tm_sig ?c1) ?c1 else ?c1"
    obtain gm gc c3 where dr: "cancel_drain ?b (tn_ticks_now ?c2) m ?k False False ?c2 = Some (gm, gc, c3)" and r: "r = gm"
      and d: "d = (if gc then c3 else let (p, c) = AllocVec (tn_ipc_orphan_heap ?k c3) in c\<lparr>lb_cancel_msg := p\<rparr>)"
      using run False by (auto simp: tn_ipc_cancel_inflight_def Let_def bind_eq_Some_conv)
    have "inflight (insert ?k {m}) ?c1" unfolding put_cancel_def
      by (rule inflight_send) (use inv False in \<open>auto simp: inflight_def\<close>)
    then have i2: "inflight (insert ?k {m}) ?c2" by (simp add: inflight_msgs)
    then have "drains ?c2 c3 \<and> (gm \<longrightarrow> home m c3) \<and> (gc \<longrightarrow> home ?k c3) \<and> (\<not> ?b \<longrightarrow> gm \<and> gc)"
      by (intro drains_cancel_drain [OF dr]) (auto simp: inflight_def)
    then have D: "drains ?c2 c3" "gm \<longrightarrow> home m c3" "gc \<longrightarrow> home ?k c3" "\<not> ?b \<longrightarrow> gm \<and> gc" by blast+
    have same: "lb_msg ?c2 = lb_msg c" "lb_cancel_msg ?c2 = ?k" "lb_orphan ?c2 = lb_orphan c"
        "lb_ipc_timeout_ms ?c2 = lb_ipc_timeout_ms c"
      by (simp_all add: put_cancel_def PutMsg_def fault_if_def Let_def SetSignal_def)
    have i3: "inflight (insert ?k {m}) c3" using i2 D(1) by (rule inflight_drains)
    have s3: "lb_msg c3 = lb_msg c" "lb_cancel_msg c3 = ?k" "lb_orphan c3 = lb_orphan c"
        "lb_ipc_timeout_ms c3 = lb_ipc_timeout_ms c" using D(1) same by (simp_all add: drains_def)
    show ?thesis
    proof (cases gc)
      case True
      then have "inflight {m} c3" using inflight_home [OF i3] D(3) inv(2) by auto
      then show ?thesis using True d r s3 D(2,4) inv(2) by auto
    next
      case gc: False
      obtain p c4 where al: "AllocVec (tn_ipc_orphan_heap (lb_cancel_msg c3) c3) = (p, c4)" by fastforce
      have "inflight {m} (c4\<lparr>lb_cancel_msg := p\<rparr>) \<and> lb_msg c4 = lb_msg c3 \<and> (p = NULL \<or> p \<notin> {m})"
        by (rule inflight_replace_cancel [OF _ _ _ al]) (use i3 s3 False inv(2) in auto)
      moreover have "d = c4\<lparr>lb_cancel_msg := p\<rparr>" using d gc al s3(2) by simp
      moreover have "home m c3 \<Longrightarrow> home m c4" "lb_ipc_timeout_ms c4 = lb_ipc_timeout_ms c3" using al
        by (auto simp: home_def AllocVec_def tn_ipc_orphan_heap_def split: list.splits)
      ultimately show ?thesis using r s3 D(2,4) gc dist(2) by (auto simp: home_def)
    qed
  qed
qed

text \<open>A call without the watchdog abandons nothing, and no call switches the watchdog.\<close>

definition same_mode :: "TnLib \<Rightarrow> TnLib \<Rightarrow> bool" where
  "same_mode c d = (lb_ipc_timeout_ms d = lb_ipc_timeout_ms c \<and> (lb_ipc_timeout_ms c = 0 \<longrightarrow> lb_orphan d = lb_orphan c))"

lemma same_mode_drains: "drains c d \<Longrightarrow> same_mode c d" by (simp add: same_mode_def drains_def)

lemma same_mode_trans: "same_mode a b \<Longrightarrow> same_mode b c \<Longrightarrow> same_mode a c" by (auto simp: same_mode_def)

lemma same_mode_parts:
  "same_mode c (tn_set_errno_val e d) = same_mode c d" "same_mode c (SetSignal n s d) = same_mode c d"
  "same_mode c (tn_ipc_release_heap h d) = same_mode c d" "same_mode c (d\<lparr>lb_ipc_timeouts := t\<rparr>) = same_mode c d"
  by (auto simp: same_mode_def tn_set_errno_val_def SetSignal_def tn_ipc_release_heap_def FreeVec_def fault_if_def Let_def
      split: option.split)

lemma same_mode_orphan: "same_mode c d \<Longrightarrow> lb_ipc_timeout_ms c \<noteq> 0 \<Longrightarrow> same_mode c (tn_ipc_orphan_heap p d)"
  by (simp add: same_mode_def tn_ipc_orphan_heap_def)

text \<open>The message of a call: the embedded one, or a heap message of its own.\<close>

definition call_msg :: "ptr \<Rightarrow> ptr \<Rightarrow> TnLib \<Rightarrow> bool" where
  "call_msg m h c = (m \<noteq> lb_cancel_msg c \<and>
     (h = NULL \<and> m = lb_msg c \<or> h = m \<and> m \<noteq> NULL \<and> m \<noteq> lb_msg c \<and> lb_ipc_timeout_ms c \<noteq> 0))"

lemma call_msg_drains: "drains c d \<Longrightarrow> call_msg m h d = call_msg m h c"
  by (simp add: call_msg_def drains_def)

lemma inflight_done:
  assumes "inflight {m} c" "call_msg m h c" "home m c"
  shows "inflight {} (tn_ipc_release_heap h c)"
proof (cases "h = NULL")
  case True
  then show ?thesis using inflight_home [of m "{}" c] assms by (simp add: tn_ipc_release_heap_def)
next
  case False
  then show ?thesis using inflight_release [of m "{}" c] assms by (auto simp: call_msg_def)
qed

lemma broken_call_safe:
  assumes "broken_call wd m h brk c = Some (r, d)" "inflight {m} c" "call_msg m h c"
  shows "inflight {} d \<and> same_mode c d"
proof -
  let ?c0 = "if wd then c else SetSignal brk brk c"
  obtain rep c1 where run: "tn_ipc_cancel_inflight m (h \<noteq> NULL) ?c0 = Some (rep, c1)"
    using assms(1) by (auto simp: broken_call_def bind_eq_Some_conv)
  have pre: "inflight {m} ?c0" "m \<noteq> lb_cancel_msg ?c0" "lb_msg ?c0 = lb_msg c" "lb_ipc_timeout_ms ?c0 = lb_ipc_timeout_ms c"
      "lb_orphan ?c0 = lb_orphan c"
    using assms(2,3) by (auto simp: inflight_msgs call_msg_def SetSignal_frame)
  note C = cancel_inflight [OF run pre(1,2)]
  let ?c2 = "if wd then SetSignal brk brk c1 else c1"
  have i2: "inflight {m} ?c2" "call_msg m h ?c2" "rep \<longrightarrow> home m ?c2" and mode: "same_mode c ?c2"
    using C assms(3) pre(3-5) by (auto simp: inflight_msgs call_msg_def SetSignal_frame same_mode_def)
  show ?thesis
  proof (cases rep)
    case True
    then have "inflight {} (tn_ipc_release_heap h ?c2)" using inflight_done i2 by blast
    then show ?thesis using assms(1) run True mode
      by (auto simp: broken_call_def Let_def inflight_errno same_mode_parts split: if_splits)
  next
    case False
    then have h: "h = m" "h \<noteq> NULL" using C i2(2) by (auto simp: call_msg_def)
    then have "inflight {} (tn_ipc_orphan_heap h ?c2)" "same_mode c (tn_ipc_orphan_heap h ?c2)"
      using inflight_orphan [of m "{}" ?c2] i2(1,2) C same_mode_orphan [OF mode] assms(3) by (auto simp: call_msg_def)
    then show ?thesis using assms(1) run False
      by (auto simp: broken_call_def Let_def inflight_errno same_mode_parts split: if_splits)
  qed
qed

text \<open>
  The last step reads the embedded message even when it has not come back; without abandoned
  messages nothing else can be on the port, and it has.
\<close>

lemma collect_embedded:
  assumes "collect m 4 c = Some (mine, d)" "inflight {m} c" "lb_orphan c = []"
  shows mine
proof -
  have only: "set (w_port x) \<subseteq> {m}" if "drains c x" for x
  proof -
    have "set (w_owned c @ w_port c) \<subseteq> {m}" using assms(2,3) by (simp add: inflight_def)
    then show ?thesis using that by (auto simp: drains_def)
  qed
  obtain p c1 where g: "GetMsg c = Some (p, c1)"
    using assms(1) by (subst (asm) collect.simps) (auto split: option.splits)
  show ?thesis
  proof (cases "p = m")
    case True
    then show ?thesis using assms(1) g by (subst (asm) collect.simps) auto
  next
    case False
    then obtain c2 where w: "WaitPort c1 = Some c2" "collect m 3 c2 = Some (mine, d)"
      using assms(1) g by (subst (asm) collect.simps) (auto simp: numeral_eq_Suc split: option.splits)
    have c2: "w_port c2 \<noteq> []" using w(1)
    proof (induction c1 rule: WaitPort.induct)
      case (1 c1)
      then show ?case by (subst (asm) (2) WaitPort.simps) (auto split: option.splits if_splits)
    qed
    obtain q c3 where g2: "GetMsg c2 = Some (q, c3)"
      using w(2) by (subst (asm) collect.simps) (auto split: option.splits)
    obtain o2 where o2: "outside c2 = Some o2" using g2 by (cases "outside c2") (auto simp: GetMsg_def)
    have "drains c o2" using drains_GetMsg(1) [OF g] drains_WaitPort [OF w(1)] drains_outside [OF o2] drains_trans by blast
    moreover have "w_port o2 \<noteq> []"
    proof -
      have "w_port x \<noteq> [] \<Longrightarrow> w_port (fold apply_event r x) \<noteq> []" for r x
      proof (induction r arbitrary: x)
        case (Cons e r)
        have "w_port (apply_event e x) \<noteq> []" using Cons.prems by (cases e) simp_all
        then show ?case using Cons.IH by simp
      qed simp
      then show ?thesis using o2 c2 by (auto simp: outside_def split: list.splits)
    qed
    ultimately have "q = m" using only [of o2] g2 o2 by (cases "w_port o2") (auto simp: GetMsg_def)
    then show ?thesis using w(2) g2 by (subst (asm) collect.simps) auto
  qed
qed

lemma finish_call_safe:
  assumes "finish_call m h c = Some (r, d)" "inflight {m} c" "call_msg m h c" "h = NULL \<longrightarrow> lb_orphan c = []"
  shows "inflight {} d \<and> same_mode c d"
proof -
  obtain mine c1 where col: "collect m 4 c = Some (mine, c1)"
    using assms(1) by (auto simp: finish_call_def bind_eq_Some_conv)
  have "distinct (w_owned c @ w_port c)" "m \<noteq> NULL" using assms(2) by (auto simp: inflight_def)
  note C = drains_collect [OF col this]
  have i1: "inflight {m} c1" "call_msg m h c1" "same_mode c c1"
    using C assms(2,3) inflight_drains call_msg_drains same_mode_drains by blast+
  show ?thesis
  proof (cases mine)
    case True
    have e: "inflight {} (tn_ipc_release_heap h (tn_set_errno_val e c1))" for e
      using inflight_done [of m "tn_set_errno_val e c1" h] i1 C True drains_errno [of c1 e] drains_home
      by (simp add: inflight_errno call_msg_drains [OF drains_errno])
    have "inflight {} (tn_ipc_release_heap h c1)" by (rule inflight_done [OF i1(1,2)]) (use C True in blast)
    then show ?thesis using assms(1) col True e i1(3)
      by (auto simp: finish_call_def Let_def same_mode_parts split: if_splits)
  next
    case False
    then have h: "h = m" "h \<noteq> NULL" using collect_embedded [OF col assms(2)] assms(3,4) by (auto simp: call_msg_def)
    moreover have "inflight {} (tn_ipc_orphan_heap m (c1\<lparr>lb_ipc_timeouts := t\<rparr>))" for t
      by (rule inflight_orphan) (use i1 h in \<open>auto simp: inflight_msgs call_msg_def\<close>)
    moreover have "same_mode c (tn_ipc_orphan_heap m (c1\<lparr>lb_ipc_timeouts := t\<rparr>))" for t
      by (rule same_mode_orphan) (use i1 h assms(3) in \<open>auto simp: same_mode_parts call_msg_def\<close>)
    ultimately show ?thesis using assms(1) col False by (auto simp: finish_call_def inflight_errno same_mode_parts)
  qed
qed

lemma await_reply_safe:
  assumes "await_reply cmd m h c = Some (r, d)" "inflight {m} c" "call_msg m h c" "h = NULL \<longrightarrow> lb_orphan c = []"
  shows "inflight {} d \<and> same_mode c d"
proof (cases "h \<noteq> NULL \<and> tn_ensure_timer c")
  case True
  let ?c0 = "SetSignal 0 (w_tm_sig c) c"
  obtain w c1 where wd: "watchdog cmd (tn_ticks_now ?c0) (lb_ipc_timeout_ms ?c0) ?c0 = Some (w, c1)"
    using assms(1) True by (auto simp: await_reply_def Let_def bind_eq_Some_conv)
  have "\<not> w_timer_sent ?c0" using assms(2) by (simp add: inflight_def SetSignal_def)
  then have dr: "drains c c1" using drains_watchdog [OF wd] drains_SetSignal drains_trans by blast
  have i1: "inflight {m} c1" "call_msg m h c1" "same_mode c c1"
    using dr assms(2,3) inflight_drains call_msg_drains same_mode_drains by blast+
  have run: "(case w of Broken brk \<Rightarrow> broken_call True m h brk c1 | Replied \<Rightarrow> finish_call m h c1
      | TimedOut \<Rightarrow> do {
          (_, c) \<leftarrow> tn_ipc_cancel_inflight m True (c1\<lparr>lb_ipc_timeouts := lb_ipc_timeouts c1 + 1\<rparr>);
          Some (-1, tn_set_errno_val ETIMEDOUT (tn_ipc_orphan_heap h c)) }) = Some (r, d)"
    using assms(1) True wd by (simp add: await_reply_def Let_def)
  show ?thesis
  proof (cases w)
    case (Broken brk)
    then show ?thesis using run broken_call_safe [OF _ i1(1,2)] same_mode_trans [OF i1(3)] by auto
  next
    case Replied
    then show ?thesis using run finish_call_safe [OF _ i1(1,2)] same_mode_trans [OF i1(3)] True by auto
  next
    case TimedOut
    let ?c2 = "c1\<lparr>lb_ipc_timeouts := lb_ipc_timeouts c1 + 1\<rparr>"
    obtain rep c3 where can: "tn_ipc_cancel_inflight m True ?c2 = Some (rep, c3)"
      and d: "d = tn_set_errno_val ETIMEDOUT (tn_ipc_orphan_heap h c3)" using run TimedOut by (auto simp: bind_eq_Some_conv)
    have h: "h = m" "m \<noteq> lb_msg c" "lb_ipc_timeout_ms c \<noteq> 0" using True assms(3) by (auto simp: call_msg_def)
    have C: "inflight {m} c3 \<and> m \<noteq> lb_cancel_msg c3 \<and> lb_msg c3 = lb_msg c1 \<and> lb_ipc_timeout_ms c3 = lb_ipc_timeout_ms c1"
      using cancel_inflight [OF can] i1(1,2) by (auto simp: inflight_msgs call_msg_def)
    have "inflight {} (tn_ipc_orphan_heap m c3)" by (rule inflight_orphan) (use C h dr in \<open>auto simp: drains_def\<close>)
    moreover have "same_mode c (tn_ipc_orphan_heap m c3)"
      using h C dr by (simp add: same_mode_def tn_ipc_orphan_heap_def drains_def)
    ultimately show ?thesis by (simp add: d h inflight_errno same_mode_parts)
  qed
next
  case False
  obtain f c1 where w: "Wait (w_reply_sig c OR break_mask cmd c) c = Some (f, c1)"
    and run: "(if f AND break_mask cmd c1 \<noteq> 0 then broken_call False m h (f AND break_mask cmd c1) c1 else finish_call m h c1) = Some (r, d)"
    using assms(1) False by (auto simp: await_reply_def Let_def bind_eq_Some_conv)
  note dr = drains_Wait [OF w]
  have i1: "inflight {m} c1" "call_msg m h c1" "same_mode c c1"
    using dr assms(2,3) inflight_drains call_msg_drains same_mode_drains by blast+
  have "h = NULL \<longrightarrow> lb_orphan c1 = []" using dr assms(4) by (simp add: drains_def)
  then show ?thesis using run broken_call_safe [OF _ i1(1,2)] finish_call_safe [OF _ i1(1,2)] same_mode_trans [OF i1(3)]
    by (auto split: if_splits)
qed

lemma inflight_alloc:
  assumes "inflight F c" "AllocVec c = (p, d)"
  shows "inflight F d" "same_mode c d" "lb_msg d = lb_msg c" "lb_orphan d = lb_orphan c" "lb_ipc_timeout_ms d = lb_ipc_timeout_ms c"
    and "p \<noteq> NULL \<Longrightarrow> p \<notin> F \<union> set (lb_orphan d) \<union> set (w_freed d) \<union> set (w_heap d) \<union> {lb_msg d, lb_cancel_msg d}"
  using assms unfolding inflight_def AllocVec_def same_mode_def by (auto split: list.splits if_splits)

lemma send_request_frame:
  "lb_msg (send_request cmd m c) = lb_msg c" "lb_cancel_msg (send_request cmd m c) = lb_cancel_msg c"
  "lb_orphan (send_request cmd m c) = lb_orphan c" "lb_ipc_timeout_ms (send_request cmd m c) = lb_ipc_timeout_ms c"
  by (simp_all add: send_request_def PutMsg_def fault_if_def Let_def)

lemma inflight_request:
  assumes "inflight {} c" "p \<noteq> NULL" "p \<notin> set (lb_orphan c) \<union> set (w_freed c) \<union> set (w_heap c)"
  shows "inflight {p} (send_request cmd p c)"
  unfolding send_request_def by (rule inflight_send) (use assms in \<open>auto simp: inflight_msgs\<close>)

lemma ipc_call_inflight:
  assumes "inflight {} c" "lb_ipc_timeout_ms c > 0 \<or> lb_orphan c = []" "tn_ipc_call cmd c = Some (r, d)"
  shows "inflight {} d \<and> same_mode c d"
proof (cases "\<not> lb_tolunnet_port c \<and> \<not> w_daemon c")
  case True
  then show ?thesis using assms same_mode_drains [OF drains_errno] by (auto simp: tn_ipc_call_def inflight_errno)
next
  case False
  let ?c = "c\<lparr>lb_tolunnet_port := True\<rparr>"
  have i: "inflight {} ?c" using assms(1) by (simp add: inflight_msgs)
  show ?thesis
  proof (cases "lb_ipc_timeout_ms c > 0")
    case True
    obtain c1 where c1: "(if lb_orphan ?c \<noteq> [] then drain_late ?c else Some ?c) = Some c1"
      using assms(3) False True by (auto simp: tn_ipc_call_def Let_def bind_eq_Some_conv split: if_splits)
    then have dr: "drains ?c c1" using drains_drain_late by (auto split: if_splits)
    obtain p c2 where al: "AllocVec c1 = (p, c2)" by fastforce
    have i2: "inflight {} c2" "same_mode c c2" "lb_ipc_timeout_ms c2 = lb_ipc_timeout_ms c"
      using inflight_alloc [OF inflight_drains [OF i dr] al] dr by (auto simp: drains_def same_mode_def)
    show ?thesis
    proof (cases "p = NULL")
      case True
      then show ?thesis using assms(3) False \<open>lb_ipc_timeout_ms c > 0\<close> c1 al i2
        by (auto simp: tn_ipc_call_def Let_def inflight_errno same_mode_parts)
    next
      case p: False
      let ?c3 = "c2\<lparr>w_msgs := (w_msgs c2)(p := (w_msgs c2 (lb_msg c2))\<lparr>im_result := 0, im_err_no := 0\<rparr>)\<rparr>"
      have run: "await_reply cmd p p (send_request cmd p ?c3) = Some (r, d)"
        using assms(3) False True c1 al p by (simp add: tn_ipc_call_def Let_def)
      have fresh: "p \<notin> set (lb_orphan c2) \<union> set (w_freed c2) \<union> set (w_heap c2) \<union> {lb_msg c2, lb_cancel_msg c2}"
        using inflight_alloc(6) [OF inflight_drains [OF i dr] al p] by simp
      have "inflight {} d \<and> same_mode (send_request cmd p ?c3) d"
      proof (rule await_reply_safe [OF run])
        show "inflight {p} (send_request cmd p ?c3)"
          by (rule inflight_request) (use i2(1) p fresh in \<open>auto simp: inflight_msgs\<close>)
        show "call_msg p p (send_request cmd p ?c3)" using p fresh True i2(3) by (simp add: call_msg_def send_request_frame)
      qed (use p in simp)
      then show ?thesis using i2(2) by (auto simp: same_mode_def send_request_frame)
    qed
  next
    case nt: False
    then have run: "await_reply cmd (lb_msg ?c) NULL (send_request cmd (lb_msg ?c) ?c) = Some (r, d)"
      using assms(3) False by (simp add: tn_ipc_call_def Let_def)
    have "inflight {} d \<and> same_mode (send_request cmd (lb_msg ?c) ?c) d"
    proof (rule await_reply_safe [OF run])
      show "inflight {lb_msg ?c} (send_request cmd (lb_msg ?c) ?c)"
        by (rule inflight_request [OF i]) (use assms(1) in \<open>auto simp: inflight_def\<close>)
      show "call_msg (lb_msg ?c) NULL (send_request cmd (lb_msg ?c) ?c)"
        using assms(1) by (auto simp: call_msg_def send_request_frame inflight_def)
    qed (use assms(2) nt in \<open>simp add: send_request_frame\<close>)
    then show ?thesis by (auto simp: same_mode_def send_request_frame)
  qed
qed

section \<open>A session\<close>

text \<open>A sequence of requests: each vector fills the arguments of the embedded message and calls.\<close>

fun session :: "(int \<times> (nat \<Rightarrow> int) \<times> (nat \<Rightarrow> ptr)) list \<Rightarrow> TnLib \<Rightarrow> (int list \<times> TnLib) option" where
  "session [] c = Some ([], c)"
| "session ((cmd, as, ps) # reqs) c =
     (case tn_ipc_call cmd (c\<lparr>w_msgs := (w_msgs c)(lb_msg c := (w_msgs c (lb_msg c))\<lparr>im_args := as, im_ptrs := ps\<rparr>)\<rparr>) of
        None \<Rightarrow> None
      | Some (r, c1) \<Rightarrow> map_option (\<lambda>(rs, c2). (r # rs, c2)) (session reqs c1))"

definition request :: "int \<times> (nat \<Rightarrow> int) \<times> (nat \<Rightarrow> ptr) \<Rightarrow> TnLib \<Rightarrow> (int \<times> TnLib) option" where
  "request = (\<lambda>(cmd, as, ps) c.
     tn_ipc_call cmd (c\<lparr>w_msgs := (w_msgs c)(lb_msg c := (w_msgs c (lb_msg c))\<lparr>im_args := as, im_ptrs := ps\<rparr>)\<rparr>))"

text \<open>
  What the owner of a channel relies on: a request made in a state that is ready leaves one that is ready, related to
  the state before it; so does every sequence of requests.
\<close>

locale request_channel =
  fixes ask :: "'q \<Rightarrow> 's \<Rightarrow> ('r \<times> 's) option"
    and run :: "'q list \<Rightarrow> 's \<Rightarrow> ('r list \<times> 's) option"
    and ready :: "'s \<Rightarrow> bool"
    and keeps :: "'s \<Rightarrow> 's \<Rightarrow> bool"
  assumes run_Nil: "run [] s = Some ([], s)"
    and run_Cons: "run (q # qs) s =
          (case ask q s of None \<Rightarrow> None | Some (r, s1) \<Rightarrow> map_option (\<lambda>(rs, s2). (r # rs, s2)) (run qs s1))"
    and ask_ready: "ready s \<Longrightarrow> ask q s = Some (r, s1) \<Longrightarrow> ready s1"
    and ask_keeps: "ready s \<Longrightarrow> ask q s = Some (r, s1) \<Longrightarrow> keeps s s1"
    and keeps_refl: "keeps s s"
    and keeps_trans: "keeps s s1 \<Longrightarrow> keeps s1 s2 \<Longrightarrow> keeps s s2"
begin

lemma run_ConsE:
  assumes "run (q # qs) s = Some (rs, s2)"
  obtains r s1 rs1 where "ask q s = Some (r, s1)" "run qs s1 = Some (rs1, s2)" "rs = r # rs1"
  using assms by (auto simp: run_Cons split: option.splits)

lemma run_ready: "run qs s = Some (rs, s1) \<Longrightarrow> ready s \<Longrightarrow> ready s1"
  by (induction qs arbitrary: s rs) (auto simp: run_Nil elim!: run_ConsE dest: ask_ready)

lemma run_keeps: "run qs s = Some (rs, s1) \<Longrightarrow> ready s \<Longrightarrow> keeps s s1"
proof (induction qs arbitrary: s rs)
  case (Cons q qs)
  obtain r s2 rs1 where a: "ask q s = Some (r, s2)" "run qs s2 = Some (rs1, s1)" using Cons.prems(1) by (rule run_ConsE)
  then have "keeps s2 s1" using Cons.IH Cons.prems(2) ask_ready by blast
  then show ?case using ask_keeps [OF Cons.prems(2) a(1)] keeps_trans by blast
qed (simp add: run_Nil keeps_refl)

lemma run_append:
  "run (qs @ ps) s = (case run qs s of None \<Rightarrow> None | Some (rs, s1) \<Rightarrow> map_option (\<lambda>(rs1, s2). (rs @ rs1, s2)) (run ps s1))"
  by (induction qs arbitrary: s)
    (auto simp: run_Nil run_Cons option.map_comp comp_def case_prod_unfold option.map_ident split: option.splits)

end

text \<open>Between two calls every message is at home or on the abandoned chain.\<close>

definition at_rest :: "TnLib \<Rightarrow> bool" where
  "at_rest c = (inflight {} c \<and> (lb_ipc_timeout_ms c > 0 \<or> lb_orphan c = []))"

lemma rest_request:
  assumes "at_rest c" "request q c = Some (r, d)"
  shows "at_rest d \<and> same_mode c d"
proof -
  obtain cmd as ps where q: "q = (cmd, as, ps)" by (cases q)
  let ?c = "c\<lparr>w_msgs := (w_msgs c)(lb_msg c := (w_msgs c (lb_msg c))\<lparr>im_args := as, im_ptrs := ps\<rparr>)\<rparr>"
  have "inflight {} d \<and> same_mode ?c d"
    by (rule ipc_call_inflight [of ?c cmd r]) (use assms q in \<open>simp_all add: at_rest_def request_def inflight_msgs\<close>)
  then have i: "inflight {} d" "same_mode c d" by (simp_all add: same_mode_def)
  then have "lb_ipc_timeout_ms d > 0 \<or> lb_orphan d = []"
    using assms(1) by (cases "lb_ipc_timeout_ms c = 0") (auto simp: at_rest_def same_mode_def word_neq_0_conv)
  then show ?thesis using i by (simp add: at_rest_def)
qed

lemma session_request:
  "session (q # qs) c =
     (case request q c of None \<Rightarrow> None | Some (r, c1) \<Rightarrow> map_option (\<lambda>(rs, c2). (r # rs, c2)) (session qs c1))"
  by (cases q) (simp add: request_def)

interpretation owner_chan: request_channel request session at_rest same_mode
  by unfold_locales (auto simp: session_request same_mode_def dest: rest_request)

lemma drains_drain_port: "drain_port c = Some d \<Longrightarrow> drains c d"
proof (induction c rule: drain_port.induct)
  case (1 c)
  obtain p c1 where g: "GetMsg c = Some (p, c1)"
    using 1(2) by (subst (asm) drain_port.simps) (auto split: option.splits)
  have "drains c1 d" using 1 g by (subst (asm) (2) drain_port.simps) (auto split: if_splits)
  then show ?case using drains_GetMsg(1) [OF g] drains_trans by blast
qed

lemma close_safe:
  assumes "inflight {} c" "lb_ipc_timeout_ms c = 0" "lb_orphan c = []" "tn_lib_close c = Some d"
  shows "w_faults d = []"
proof -
  obtain r c1 c2 where run: "tn_ipc_call 1 c = Some (r, c1)" "drain_port c1 = Some c2"
    "d = (let c = (free_all (lb_orphan c2) c2)\<lparr>lb_orphan := []\<rparr>
          in if lb_cancel_msg c \<noteq> NULL then (FreeVec (lb_cancel_msg c) c)\<lparr>lb_cancel_msg := NULL\<rparr> else c)"
    using assms(4) by (auto simp: tn_lib_close_def bind_eq_Some_conv Let_def)
  have i1: "inflight {} c1" "lb_orphan c1 = []" using ipc_call_inflight [OF assms(1) _ run(1)] assms(2,3) by (auto simp: same_mode_def)
  then have "inflight {} c2" "lb_orphan c2 = []"
    using drains_drain_port [OF run(2)] inflight_drains by (blast, simp add: drains_def)
  then show ?thesis using run(3) by (auto simp: inflight_def FreeVec_def fault_if_def Let_def)
qed

text \<open>
  C33. No request ever sends, reuses or frees a message the daemon holds.  For every base between two
  calls, every sequence of requests and every behaviour of the daemon, the signals, the clock and
  the allocator (late and missing replies, breaks, timeouts, lying timers): after the requests nothing
  has been misused, the timer request is not pending, and what the daemon still holds or has left on the port are abandoned
  messages, so the embedded message is free for the next request.  Without the reply watchdog
  nothing is abandoned at all, and closing the library frees nothing the daemon could still answer.
\<close>
theorem ipc_session_safe:
  assumes "inflight {} c" "lb_ipc_timeout_ms c > 0 \<or> lb_orphan c = []" "session reqs c = Some (rs, d)"
  shows "w_faults d = [] \<and> \<not> w_timer_sent d \<and> set (w_owned d @ w_port d) \<subseteq> set (lb_orphan d) \<and>
    lb_msg d \<notin> set (w_owned d @ w_port d) \<and> set (lb_orphan d) \<inter> set (w_freed d) = {} \<and>
    (lb_ipc_timeout_ms c = 0 \<longrightarrow> w_owned d = [] \<and> w_port d = [] \<and> (\<forall>e. tn_lib_close d = Some e \<longrightarrow> w_faults e = []))"
proof -
  have i: "inflight {} d" "same_mode c d"
    using owner_chan.run_ready [OF assms(3)] owner_chan.run_keeps [OF assms(3)] assms(1,2) by (simp_all add: at_rest_def)
  then have m: "lb_ipc_timeout_ms c = 0 \<longrightarrow> lb_orphan d = [] \<and> lb_ipc_timeout_ms d = 0"
    using assms(2) by (auto simp: same_mode_def)
  then show ?thesis using i(1) close_safe [OF i(1)] unfolding inflight_def by auto
qed

section \<open>A client\<close>

definition lib0 :: TnLib where
  "lib0 = \<lparr>lb_msg = 0x1000, lb_base = 0x100, lb_owner_task = 0x500, lb_tolunnet_port = True, lb_ipc_timeout_ms = 1000,
     lb_ipc_timeouts = 0, lb_orphan = [], lb_cancel_msg = 0x2000, lb_errno_ptr = None, lb_task_errno = 0,
     lb_errno_width = 4, lb_herrno_ptr = None, lb_task_herrno = 0, lb_sig_io = 0, lb_sig_urg = 0, lb_sig_int = 0x1000,
     lb_sig_event = 0, lb_sig_select = 0x10000, lb_dtablesize = 4, lb_fd_map = [-1, -1, -1, -1],
     lb_events = [0, 0, 0, 0], lb_event_masks = [0, 0, 0, 0], lb_fd_callback = 0, lb_log_stat = 0, lb_log_tag_ptr = 0,
     lb_log_facility = 0, lb_log_mask = 0xFF, lb_udp_checksum = 1, lb_ip_default_ttl = 64, lb_hostname = [],
     lb_domain_name = [], lb_netent_idx = 0, lb_servent_idx = 0, lb_protoent_idx = 0, lb_gse_last_fd = -1,
     w_msgs = (\<lambda>_. \<lparr>im_cmd = 0, im_client_task = 0, im_socket_base = 0, im_args = (\<lambda>_. 0), im_ptrs = (\<lambda>_. 0),
       im_result = 0, im_err_no = 0\<rparr>),
     w_owned = [], w_port = [], w_heap = [0x3000, 0x4000], w_freed = [], w_reply_sig = 1, w_tm_sig = 2, w_signals = 0,
     w_ticks = 0, w_daemon = True, w_timer_ok = True, w_timer_sent = False, w_mem = (\<lambda>_. 0), w_fdcb = (\<lambda>_ _ _. 0),
     w_fdcb_calls = [], w_faults = [], w_rounds = []\<rparr>"

text \<open>
  A RECV that the daemon does not answer within the second: the timer fires early once (the wait goes
  on), then in time; the CANCEL is answered, the RECV is not, and it is abandoned.
\<close>

definition late_rounds :: "event list list" where
  "late_rounds = [[SetSignals 2], [TimePasses 60, SetSignals 2], [DaemonReply 0x2000 (w_msgs lib0 0)], [TimePasses 60, SetSignals 2], []]"

definition lib_late :: TnLib where
  "lib_late = lib0\<lparr>w_rounds := late_rounds\<rparr>"

lemma lib_late_inflight: "inflight {} lib_late"
  by (simp add: inflight_def lib_late_def lib0_def)

theorem ipc_session_safe_witness:
  "\<exists>d. session [(10, \<lambda>_. 0, \<lambda>_. 0)] lib_late = Some ([-1], d) \<and> w_faults d = [] \<and> lb_orphan d = [0x3000] \<and> w_owned d = [0x3000]"
proof -
  have "session [(10, \<lambda>_. 0, \<lambda>_. 0)] lib_late \<noteq> None \<and>
      (\<lambda>(rs, d). rs = [-1] \<and> lb_orphan d = [0x3000] \<and> w_owned d = [0x3000]) (the (session [(10, \<lambda>_. 0, \<lambda>_. 0)] lib_late))"
    by code_simp
  then obtain d where d: "session [(10, \<lambda>_. 0, \<lambda>_. 0)] lib_late = Some ([-1], d)" "lb_orphan d = [0x3000]" "w_owned d = [0x3000]" by auto
  moreover have "w_faults d = []"
    using ipc_session_safe [OF lib_late_inflight _ d(1)] by (simp add: lib_late_def lib0_def)
  ultimately show ?thesis by blast
qed

section \<open>Where the promise ends\<close>

text \<open>
  With the watchdog off and stale replies of abandoned requests on the port, the request gives up after five
  foreign replies and uses the embedded message although the daemon still holds it: the next request sends it twice.
\<close>

definition lib_stale :: TnLib where
  "lib_stale = lib0\<lparr>lb_ipc_timeout_ms := 0, lb_orphan := [1, 2, 3, 4, 5], w_port := [1, 2, 3, 4, 5], w_signals := 1,
     w_rounds := replicate 12 [] @ [[SetSignals 1], [DaemonReply 0x1000 (w_msgs lib0 0)]]\<rparr>"

lemma embedded_sent_twice:
  "case session [(2, \<lambda>_. 0, \<lambda>_. 0), (2, \<lambda>_. 0, \<lambda>_. 0)] lib_stale of
     Some (_, d) \<Rightarrow> w_faults d = [SendOwned 0x1000] | None \<Rightarrow> False"
  by code_simp

text \<open>
  Under the watchdog a CLOSE that times out is abandoned like any request, and \<open>tn_lib_close\<close> then frees it
  while the daemon holds it.
\<close>

definition lib_closing :: TnLib where
  "lib_closing = lib0\<lparr>w_rounds := [[TimePasses 60, SetSignals 2], [DaemonReply 0x2000 (w_msgs lib0 0)], [TimePasses 60, SetSignals 2], [], []]\<rparr>"

lemma close_frees_owned:
  "case tn_lib_close lib_closing of Some d \<Rightarrow> w_faults d = [FreeOwned 0x3000] | None \<Rightarrow> False"
  by code_simp

text \<open>A break under the watchdog replaces the errno the daemon answered (here 54) by EINTR.\<close>

definition lib_broken :: TnLib where
  "lib_broken = lib0\<lparr>w_rounds := [[DaemonReply 0x3000 ((w_msgs lib0 0)\<lparr>im_result := -1, im_err_no := 54\<rparr>), SetSignals 0x1000],
     [], [DaemonReply 0x2000 (w_msgs lib0 0)], []]\<rparr>"

lemma break_hides_errno:
  "case tn_ipc_call 10 lib_broken of Some (r, d) \<Rightarrow> r = -1 \<and> lb_task_errno d = EINTR | None \<Rightarrow> False"
  by code_simp

end
