(* ===== verification/Lib_Lvo_Props.thy ===== *)
theory Lib_Lvo_Props
  imports Lib_Lvo Lib_Call_Props
begin

text \<open>
  What the vectors promise: the error a call reports is what Errno reads, whatever variable the client
  has registered; a bad descriptor costs no request; and GetSocketEvents serves the descriptors in turn.
\<close>

section \<open>errno\<close>

lemma errno_written:
  assumes "0 \<le> e" "e < 256" "lb_errno_width c \<in> {1, 2, 4}"
  shows "tn_lvo_errno (tn_set_errno_val e c) = e"
proof -
  have b: "uint (word_of_int e :: u8) = e" "uint (word_of_int e :: u16) = e" "sint (word_of_int e :: u32) = e"
    using assms(1,2) by (simp_all add: unsigned_of_int take_bit_int_eq_self signed_of_int signed_take_bit_int_eq_self)
  have l8: "store_bytes m p [v] p = v" for m p and v :: u8 by (simp add: store_bytes_def)
  have l16: "load_u16 (store_bytes m p (be_of_u16 v)) p = v" for m p v
    using load_store_same [of "be_of_u16 v" m p] by (simp add: load_u16_def)
  show ?thesis using assms(3) b by (auto simp: tn_lvo_errno_def tn_set_errno_val_def Let_def l8 l16 split: option.split)
qed

section \<open>GetSocketEvents\<close>

fun gse_calls :: "nat \<Rightarrow> ptr \<Rightarrow> TnLib \<Rightarrow> int list" where
  "gse_calls 0 p c = []"
| "gse_calls (Suc n) p c = (case tn_lvo_getsocketevents p c of (fd, c1) \<Rightarrow> fd # gse_calls n p c1)"

text \<open>The descriptors in the order they are looked at, starting behind the last one reported.\<close>

definition gse_order :: "TnLib \<Rightarrow> nat list" where
  "gse_order c = map (gse_check c) [0..<nat (lb_dtablesize c)]"

definition gse_wf :: "TnLib \<Rightarrow> bool" where
  "gse_wf c = (0 < lb_dtablesize c \<and> int (length (lb_events c)) = lb_dtablesize c \<and>
     -1 \<le> lb_gse_last_fd c \<and> lb_gse_last_fd c < lb_dtablesize c)"

lemma gse_order_rotate:
  assumes "gse_wf c"
  shows "gse_order c = rotate (nat (lb_gse_last_fd c + 1)) [0..<nat (lb_dtablesize c)]"
proof (rule nth_equalityI)
  let ?n = "nat (lb_dtablesize c)" and ?k = "nat (lb_gse_last_fd c + 1)"
  show "length (gse_order c) = length (rotate ?k [0..<?n])" by (simp add: gse_order_def)
  fix i assume "i < length (gse_order c)"
  then have i: "i < ?n" by (simp add: gse_order_def)
  have "gse_check c i = (?k + i) mod ?n"
    using assms by (simp add: gse_check_def gse_wf_def nat_mod_distrib nat_add_distrib)
  then show "gse_order c ! i = rotate ?k [0..<?n] ! i" using i by (simp add: gse_order_def nth_rotate)
qed

lemma first_idx_map: "first_idx P (map f xs) = first_idx (P \<circ> f) xs"
  by (induction xs) auto

lemma first_idx_split:
  assumes "first_idx P xs = Some i"
  shows "xs = take i xs @ xs ! i # drop (Suc i) xs" "filter P (take i xs) = []" "P (xs ! i)"
proof -
  note F = first_idx_SomeD [OF assms]
  show "xs = take i xs @ xs ! i # drop (Suc i) xs" using F(1) by (simp add: id_take_nth_drop)
  show "P (xs ! i)" by (rule F)
  show "filter P (take i xs) = []" using F(1,3) by (auto simp: filter_empty_conv in_set_conv_nth)
qed

lemma rotate_le: "k \<le> length xs \<Longrightarrow> rotate k xs = drop k xs @ take k xs"
  by (cases "k = length xs") (simp_all add: rotate_drop_take)

lemma gse_step:
  assumes wf: "gse_wf c" and p: "p \<noteq> NULL" and k: "filter (\<lambda>k. lb_events c ! k \<noteq> 0) (gse_order c) = k # ks"
  shows "\<exists>c1. tn_lvo_getsocketevents p c = (int k, c1) \<and> gse_wf c1 \<and>
    load_u32 (w_mem c1) p = lb_events c ! k \<and> filter (\<lambda>k. lb_events c1 ! k \<noteq> 0) (gse_order c1) = ks"
proof -
  let ?P = "\<lambda>k. lb_events c ! k \<noteq> 0" and ?n = "nat (lb_dtablesize c)"
  have "first_idx ?P (gse_order c) \<noteq> None" using k by (auto simp: first_idx_None filter_eq_Cons_iff)
  then obtain i where i: "first_idx ?P (gse_order c) = Some i" by auto
  note S = first_idx_split [OF i]
  have "filter ?P (take i (gse_order c) @ gse_order c ! i # drop (Suc i) (gse_order c)) = k # ks" using k S(1) by metis
  then have hd: "gse_order c ! i = k" and rest: "filter ?P (drop (Suc i) (gse_order c)) = ks" using S(2,3) by simp_all
  have i_n: "i < ?n" using first_idx_SomeD(1) [OF i] by (simp add: gse_order_def)
  moreover have "gse_check c i = k" using hd i_n by (simp add: gse_order_def)
  moreover have "k < ?n" using nth_mem [of i "gse_order c"] first_idx_SomeD(1) [OF i] hd by (auto simp: gse_order_rotate [OF wf])
  ultimately have n: "k < ?n" "gse_check c i = k" "i < ?n" by blast+
  define c1 where "c1 = c\<lparr>w_mem := store_u32 (w_mem c) p (lb_events c ! k), lb_events := (lb_events c)[k := 0], lb_gse_last_fd := int k\<rparr>"
  have run: "tn_lvo_getsocketevents p c = (int k, c1)"
    using i p n(2) unfolding tn_lvo_getsocketevents_def gse_order_def c1_def by (simp add: first_idx_map comp_def Let_def)
  have wf1: "gse_wf c1" using wf n(1) by (auto simp: gse_wf_def c1_def)
  have ord: "gse_order c1 = drop (Suc i) (gse_order c) @ take (Suc i) (gse_order c)"
  proof -
    let ?l = "nat (lb_gse_last_fd c + 1)"
    have "k = (?l + i) mod ?n" using hd n(3) by (simp add: gse_order_rotate [OF wf] nth_rotate)
    moreover have "gse_order c1 = rotate (Suc k) [0..<?n]"
      using gse_order_rotate [OF wf1] by (simp add: c1_def nat_add_distrib del: rotate_Suc)
    moreover have "rotate (Suc k) [0..<?n] = rotate (Suc (?l + i)) [0..<?n]" if "k = (?l + i) mod ?n"
      unfolding that using rotate_conv_mod [of "Suc ((?l + i) mod ?n)" "[0..<?n]"] rotate_conv_mod [of "Suc (?l + i)" "[0..<?n]"]
      by (simp add: mod_Suc_eq del: rotate_Suc)
    ultimately have "gse_order c1 = rotate (Suc (?l + i)) [0..<?n]" by metis
    also have "\<dots> = rotate (Suc i) (gse_order c)" by (simp add: gse_order_rotate [OF wf] rotate_rotate add.commute del: rotate_Suc)
    finally show ?thesis using rotate_le [of "Suc i" "gse_order c"] n(3) by (simp add: gse_order_def del: rotate_Suc)
  qed
  have "distinct (gse_order c)" by (simp add: gse_order_rotate [OF wf])
  then have dist: "k \<notin> set (take i (gse_order c))" "k \<notin> set (drop (Suc i) (gse_order c))"
    using S(1) hd by (metis distinct.simps(2) distinct_append disjoint_insert(1) list.simps(15))+
  have same: "lb_events c1 ! j = lb_events c ! j" if "j \<noteq> k" for j using that by (simp add: c1_def)
  have "k < length (lb_events c)" using n(1) wf unfolding gse_wf_def by linarith
  then have "lb_events c1 ! k = 0" by (simp add: c1_def)
  moreover have "filter (\<lambda>j. lb_events c1 ! j \<noteq> 0) xs = filter ?P xs" if "k \<notin> set xs" for xs
    using that by (intro filter_cong) (metis same)+
  ultimately have "filter (\<lambda>k. lb_events c1 ! k \<noteq> 0) (gse_order c1) = ks"
    using dist rest S(2) hd first_idx_SomeD(1) [OF i] by (simp add: ord take_Suc_conv_app_nth)
  then show ?thesis using run wf1 by (auto simp: c1_def)
qed

text \<open>
  C34. GetSocketEvents is fair: for a descriptor table with \<open>n\<close> pending descriptors, \<open>n\<close> calls report every one of
  them once, in the cyclic order that starts behind the descriptor reported last, and the next call
  reports that nothing is pending.
\<close>
theorem socket_events_fair:
  assumes "gse_wf c" "p \<noteq> NULL"
  shows "gse_calls (Suc (length (filter (\<lambda>k. lb_events c ! k \<noteq> 0) (gse_order c)))) p c =
      map int (filter (\<lambda>k. lb_events c ! k \<noteq> 0) (gse_order c)) @ [-1] \<and>
    gse_order c = rotate (nat (lb_gse_last_fd c + 1)) [0..<nat (lb_dtablesize c)]"
proof
  show "gse_order c = rotate (nat (lb_gse_last_fd c + 1)) [0..<nat (lb_dtablesize c)]"
    using assms(1) by (rule gse_order_rotate)
  define ks where "ks = filter (\<lambda>k. lb_events c ! k \<noteq> 0) (gse_order c)"
  have "gse_calls (Suc (length ks)) p c = map int ks @ [-1]" using ks_def assms(1)
  proof (induction ks arbitrary: c)
    case Nil
    then have "first_idx (\<lambda>fd. lb_events c ! gse_check c fd \<noteq> 0) [0..<nat (lb_dtablesize c)] = None"
      by (auto simp: first_idx_None gse_order_def filter_empty_conv dest: sym)
    then show ?case using assms(2) by (simp add: tn_lvo_getsocketevents_def)
  next
    case (Cons k ks)
    obtain c1 where "tn_lvo_getsocketevents p c = (int k, c1)" "gse_wf c1" "ks = filter (\<lambda>k. lb_events c1 ! k \<noteq> 0) (gse_order c1)"
      using gse_step [OF Cons.prems(2) assms(2) Cons.prems(1) [symmetric]] by auto
    then show ?case using Cons.IH [of c1] by simp
  qed
  then show "gse_calls (Suc (length (filter (\<lambda>k. lb_events c ! k \<noteq> 0) (gse_order c)))) p c =
      map int (filter (\<lambda>k. lb_events c ! k \<noteq> 0) (gse_order c)) @ [-1]" by (simp add: ks_def)
qed

theorem socket_events_fair_witness:
  "gse_calls 3 0x9000 (lib0\<lparr>lb_events := [4, 0, 1, 0], lb_gse_last_fd := 1\<rparr>) = [2, 0, -1]"
proof -
  let ?c = "lib0\<lparr>lb_events := [4, 0, 1, 0], lb_gse_last_fd := 1\<rparr>"
  have wf: "gse_wf ?c" "(0x9000 :: ptr) \<noteq> NULL" by (simp_all add: gse_wf_def lib0_def)
  have ks: "filter (\<lambda>k. lb_events ?c ! k \<noteq> 0) (gse_order ?c) = [2, 0]" by code_simp
  show ?thesis using socket_events_fair [OF wf] unfolding ks by (simp only: list.size list.map) (simp add: numeral_3_eq_3)
qed

end
