(* ===== verification/Lib_Answer.thy ===== *)
theory Lib_Answer
  imports Lib_Lvo_Props
begin

text \<open>A request that the daemon answers returns the daemon's answer, however long that takes.\<close>

lemma Wait_quiet:
  assumes "w_signals c AND s = 0"
  shows "Wait s (c\<lparr>w_rounds := replicate k [] @ rs\<rparr>) = Wait s (c\<lparr>w_rounds := rs\<rparr>)"
proof (induction k)
  case (Suc k)
  then show ?case using assms by (subst Wait.simps) (simp add: outside_def)
qed simp

lemma word_absorb: "(x :: u32) AND (x OR y) = x"
  by (rule bit_word_eqI) (auto simp: bit_simps)

lemma word_or_and_not:
  fixes x y :: u32
  assumes "x AND y = 0"
  shows "(x OR y) AND NOT y = x"
proof -
  have "x = (x AND y) OR (x AND NOT y)" by (simp flip: bit.conj_disj_distrib)
  then have "x AND NOT y = x" using assms by simp
  then show ?thesis by (simp add: bit.conj_disj_distrib2)
qed

text \<open>
  A request that is answered returns the answer.  Without the watchdog and with nothing abandoned, however
  many rounds pass before the daemon replies, the call returns the result of the daemon's reply; a
  negative result with an error number makes Errno report that number, any other leaves errno alone;
  the embedded message has come back and nothing is pending.
\<close>
theorem ipc_call_answer:
  assumes "inflight {} c" "lb_ipc_timeout_ms c = 0" "lb_orphan c = []" "lb_tolunnet_port c"
    and sig: "w_reply_sig c \<noteq> 0" "w_reply_sig c AND lb_sig_int c = 0" "w_signals c AND (w_reply_sig c OR lb_sig_int c) = 0"
    and rounds: "w_rounds c = replicate k [] @ [DaemonReply (lb_msg c) m] # [] # rest"
    and width: "lb_errno_width c \<in> {1, 2, 4}" "0 \<le> im_err_no m" "im_err_no m < 256"
  shows "\<exists>d. tn_ipc_call cmd c = Some (im_result m, d) \<and> w_owned d = [] \<and> w_port d = [] \<and> w_faults d = [] \<and> w_rounds d = rest \<and>
    w_msgs d (lb_msg c) = m \<and>
    (if im_result m < 0 \<and> im_err_no m \<noteq> 0 then tn_lvo_errno d = im_err_no m else lb_task_errno d = lb_task_errno c \<and> w_mem d = w_mem c)"
proof -
  let ?p = "lb_msg c" and ?s = "w_reply_sig c OR break_mask cmd c"
  define c0 where "c0 = send_request cmd ?p (c\<lparr>lb_tolunnet_port := True\<rparr>)"
  have idle: "w_owned c = []" "w_port c = []" "w_faults c = []" "?p \<noteq> NULL" "?p \<notin> set (w_freed c)"
    using assms(1,3) by (auto simp: inflight_def)
  have bm: "break_mask cmd c AND w_reply_sig c = 0" "w_signals c AND ?s = 0"
    using sig(2,3) by (simp_all add: break_mask_def and.commute bit.conj_disj_distrib) (auto simp: bit.conj_disj_distrib or_eq_0_iff)
  have c0: "w_signals c0 = w_signals c" "w_reply_sig c0 = w_reply_sig c" "break_mask cmd c0 = break_mask cmd c" "w_owned c0 = [?p]"
      "w_port c0 = []" "w_faults c0 = []" "lb_msg c0 = ?p" "c0 = c0\<lparr>w_rounds := w_rounds c\<rparr>" "w_mem c0 = w_mem c"
      "lb_task_errno c0 = lb_task_errno c" "lb_errno_width c0 = lb_errno_width c"
    using idle by (simp_all add: c0_def send_request_def PutMsg_def fault_if_def Let_def break_mask_def)
  define c1 where "c1 = c0\<lparr>w_rounds := [] # rest, w_owned := [], w_port := [?p], w_msgs := (w_msgs c0)(?p := m)\<rparr>"
  have "Wait ?s c0 = Wait ?s (c0\<lparr>w_rounds := [DaemonReply ?p m] # [] # rest\<rparr>)"
    using Wait_quiet [of c0 ?s k] bm(2) rounds c0(1,8) by metis
  also have "\<dots> = Some (w_reply_sig c, c1)"
  proof -
    have "w_signals c AND w_reply_sig c = 0" using sig(3) by (simp add: bit.conj_disj_distrib or_eq_0_iff)
    then have "(w_signals c OR w_reply_sig c) AND NOT (w_reply_sig c) = w_signals c" by (rule word_or_and_not)
    moreover have "(w_signals c OR w_reply_sig c) AND ?s = w_reply_sig c"
      using bm(2) word_absorb [of "w_reply_sig c"] by (simp only: bit.conj_disj_distrib2 or.left_neutral)
    ultimately show ?thesis using sig(1) c0 by (subst Wait.simps) (simp add: outside_def c1_def)
  qed
  finally have w: "Wait ?s c0 = Some (w_reply_sig c, c1)" .
  define c2 where "c2 = c1\<lparr>w_rounds := rest, w_port := []\<rparr>"
  have "collect ?p 4 c1 = Some (True, c2)"
    by (subst collect.simps) (simp add: GetMsg_def outside_def c1_def c2_def)
  then have "finish_call ?p NULL c1 = Some (im_result m, if im_result m < 0 \<and> im_err_no m \<noteq> 0 then tn_set_errno_val (im_err_no m) c2 else c2)"
    by (simp add: finish_call_def Let_def tn_ipc_release_heap_def c2_def c1_def)
  moreover have "tn_ipc_call cmd c = await_reply cmd ?p NULL c0"
    using assms(2,4) by (simp add: tn_ipc_call_def Let_def c0_def)
  moreover have "await_reply cmd ?p NULL c0 = finish_call ?p NULL c1"
  proof -
    have "break_mask cmd c1 = break_mask cmd c0" by (simp add: break_mask_def c1_def)
    then have "break_mask cmd c1 = break_mask cmd c" using c0(3) by simp
    then show ?thesis using w bm(1) c0(2,3) by (simp add: await_reply_def Let_def and.commute)
  qed
  moreover have "tn_lvo_errno (tn_set_errno_val (im_err_no m) c2) = im_err_no m"
    using width c0(11) by (intro errno_written) (simp_all add: c2_def c1_def)
  moreover have "drains c2 (tn_set_errno_val e c2) \<and> w_rounds (tn_set_errno_val e c2) = rest \<and> w_msgs (tn_set_errno_val e c2) ?p = m \<and>
      w_owned (tn_set_errno_val e c2) = [] \<and> w_port (tn_set_errno_val e c2) = []" for e
    using drains_errno [of c2 e] by (simp add: tn_set_errno_val_def Let_def c2_def c1_def split: option.split)
  ultimately show ?thesis using c0 by (auto simp: drains_def c2_def c1_def)
qed

definition lib_quiet :: TnLib where
  "lib_quiet = lib0\<lparr>lb_ipc_timeout_ms := 0, w_rounds := replicate 3 [] @ [DaemonReply 0x1000 ((w_msgs lib0 0)\<lparr>im_result := -1, im_err_no := 61\<rparr>)] # [] # []\<rparr>"

theorem ipc_call_answer_witness:
  "\<exists>d. tn_ipc_call 6 lib_quiet = Some (-1, d) \<and> tn_lvo_errno d = ECONNREFUSED"
proof -
  let ?m = "(w_msgs lib0 0)\<lparr>im_result := -1, im_err_no := 61\<rparr>"
  have "inflight {} lib_quiet" by (simp add: inflight_def lib_quiet_def lib0_def)
  from ipc_call_answer [OF this, of 3 ?m "[]" 6] show ?thesis by (auto simp: lib_quiet_def lib0_def)
qed

end
