(* ===== verification/Errstr.thy ===== *)
theory Errstr
  imports Lib_Base
begin

text \<open>
  The error text tables (common/errstr.c).
\<close>

definition g_sys_errlist :: "string list" where
  "g_sys_errlist = [
    ''Undefined error: 0'', ''Operation not permitted'', ''No such file or directory'', ''No such process'',
    ''Interrupted system call'', ''Input/output error'', ''Device not configured'',
    ''Argument list too long'', ''Exec format error'', ''Bad file descriptor'', ''No child processes'',
    ''Resource deadlock avoided'', ''Cannot allocate memory'', ''Permission denied'', ''Bad address'',
    ''Block device required'', ''Device busy'', ''File exists'', ''Cross-device link'',
    ''Operation not supported by device'', ''Not a directory'', ''Is a directory'', ''Invalid argument'',
    ''Too many open files in system'', ''Too many open files'', ''Inappropriate ioctl for device'',
    ''Text file busy'', ''File too large'', ''No space left on device'', ''Illegal seek'',
    ''Read-only file system'', ''Too many links'', ''Broken pipe'', ''Numerical argument out of domain'',
    ''Result too large'', ''Resource temporarily unavailable'', ''Operation now in progress'',
    ''Operation already in progress'', ''Socket operation on non-socket'', ''Destination address required'',
    ''Message too long'', ''Protocol wrong type for socket'', ''Protocol not available'',
    ''Protocol not supported'', ''Socket type not supported'', ''Operation not supported'',
    ''Protocol family not supported'', ''Address family not supported by protocol family'',
    ''Address already in use'', ''Can't assign requested address'', ''Network is down'',
    ''Network is unreachable'', ''Network dropped connection on reset'', ''Software caused connection abort'',
    ''Connection reset by peer'', ''No buffer space available'', ''Socket is already connected'',
    ''Socket is not connected'', ''Can't send after socket shutdown'', ''Too many references: can't splice'',
    ''Operation timed out'', ''Connection refused'', ''Too many levels of symbolic links'',
    ''File name too long'', ''Host is down'', ''No route to host'', ''Directory not empty'',
    ''Too many processes'', ''Too many users'', ''Disc quota exceeded'', ''Stale NFS file handle'',
    ''Too many levels of remote in path'', ''RPC struct is bad'', ''RPC version wrong'',
    ''RPC prog. not avail'', ''Program version wrong'', ''Bad procedure for program'', ''No locks available'',
    ''Function not implemented'', ''Inappropriate file type or format'', ''Authentication error'',
    ''Need authenticator''
   ]"

definition tn_strerror :: "int \<Rightarrow> string" where
  "tn_strerror err =
     (if 0 \<le> err \<and> err < int (length g_sys_errlist) then g_sys_errlist ! nat err else ''Unknown error'')"

text \<open>A switch over the code, with the text of the default label.\<close>

definition text_of :: "(int \<times> string) list \<Rightarrow> string \<Rightarrow> int \<Rightarrow> string" where
  "text_of cases dflt code = (case map_of cases code of Some s \<Rightarrow> s | None \<Rightarrow> dflt)"

definition tn_hstrerror :: "int \<Rightarrow> string" where
  "tn_hstrerror herr =
     (text_of [(0, ''Resolver Error 0 (no error)''), (1, ''Unknown host''),
        (2, ''Host name lookup failure''), (3, ''Unknown server error''),
        (4, ''No address associated with name'')]
        ''Unknown resolver error'' herr)"

definition tn_ioerror :: "int \<Rightarrow> string" where
  "tn_ioerror ioerr =
     (let ioerr = (if ioerr < 0 then - ioerr else ioerr) in
      text_of [(0, ''No error''), (1, ''Device or unit failed to open''), (2, ''Request terminated early''),
        (3, ''Command not supported by device''), (4, ''Invalid length''), (5, ''Invalid address''),
        (6, ''Device unit is busy''), (7, ''Hardware failed self-test'')]
        ''Unknown I/O error'' ioerr)"

definition tn_s2error :: "int \<Rightarrow> string" where
  "tn_s2error s2err =
     (text_of [(0, ''No error''), (1, ''Resource allocation failure''), (3, ''Bad argument''),
        (4, ''Inappropriate state''), (5, ''Bad address''), (6, ''Packet length exceeded MTU''),
        (8, ''Command not supported''), (9, ''Software error detected''), (10, ''Driver is offline''),
        (11, ''Transmission attempt failed'')]
        ''Unknown SANA-II error'' s2err)"

definition tn_s2werror :: "int \<Rightarrow> string" where
  "tn_s2werror s2werr =
     (text_of [(0, ''Generic error''), (1, ''Unit not configured''), (2, ''Unit is currently online''),
        (3, ''Unit is currently offline''), (4, ''Protocol already tracked''),
        (5, ''Protocol not tracked''), (6, ''Buffer management function returned error''),
        (7, ''Source address problem''), (8, ''Destination address problem''),
        (9, ''Broadcast address problem''), (10, ''Multicast address problem''),
        (11, ''Multicast address list full''), (12, ''Unsupported event class''),
        (13, ''Statdata failed sanity check''), (15, ''Attempt to configure twice''),
        (16, ''Null pointer detected''), (17, ''Transmission failed: too many retries''),
        (18, ''Driver fixable hardware error''), (19, ''Unit is currently not connected''),
        (20, ''Unit is currently connected''), (21, ''Invalid option rejected''),
        (22, ''Mandatory option is missing''), (23, ''Authentication failed'')]
        ''Unknown SANA-II wire error'' s2werr)"

text \<open>The errno values the daemon and the library return have their own text.\<close>

lemma strerror_texts:
  "tn_strerror EINTR = ''Interrupted system call''" "tn_strerror EBADF = ''Bad file descriptor''"
  "tn_strerror EINVAL = ''Invalid argument''" "tn_strerror EWOULDBLOCK = ''Resource temporarily unavailable''"
  "tn_strerror ENOTCONN = ''Socket is not connected''" "tn_strerror ETIMEDOUT = ''Operation timed out''"
  "tn_strerror ENETDOWN = ''Network is down''" "tn_strerror ENOSYS = ''Function not implemented''"
  by (code_simp+)

lemma strerror_nonempty: "tn_strerror err \<noteq> []"
proof -
  have "\<forall>s\<in>set g_sys_errlist. s \<noteq> []" by code_simp
  then show ?thesis by (auto simp: tn_strerror_def in_set_conv_nth)
qed

end
