(* ===== verification/Sbtc.thy ===== *)
theory Sbtc
  imports Lib_Lvo Errstr Daemon_Reach
begin

text \<open>
  SocketBaseTagList: the tag classifier (common/sbtc\_dispatch.c) and the vector that applies its
  results to the base (lib/lib\_vectors.c).  The tag items lie in client memory, tag word first;
  the walk is over the addresses \<open>NextTagItem\<close> of utility.library yields.
\<close>

section \<open>The classifier\<close>

datatype TnSbtcOp = OP_NONE | OP_GET | OP_SET_SIGINT | OP_SET_SIGIO | OP_SET_SIGURG | OP_SET_SIGEVENT
  | OP_SET_ERRNO | OP_SET_HERRNO | OP_SET_ERRNO_PTR | OP_SET_HERRNO_PTR | OP_SET_FDCALLBACK
  | OP_SET_DTABLESIZE | OP_SET_LOGSTAT | OP_SET_LOGTAGPTR | OP_SET_LOGFACILITY | OP_SET_LOGMASK
  | OP_SET_UDPCHECKSUM | OP_SET_IPDEFAULTTTL | OP_GET_ERRNO_STR | OP_GET_HERRNO_STR
  | OP_GET_IOERRNO_STR | OP_GET_S2ERRNO_STR | OP_GET_S2WERRNO_STR

record TnSbtcResult =
  sr_op :: TnSbtcOp
  sr_is_ref :: bool
  sr_value :: u32
  sr_errno_ptr_width :: nat

record TnSbtcState =
  ss_sig_int :: u32
  ss_sig_io :: u32
  ss_sig_urg :: u32
  ss_sig_event :: u32
  ss_errno_val :: int
  ss_herrno_val :: int
  ss_errno_ptr :: u32
  ss_errno_width :: u32
  ss_herrno_ptr :: u32
  ss_dtablesize :: u32
  ss_fd_callback :: u32
  ss_log_stat :: u32
  ss_log_tag_ptr :: u32
  ss_log_facility :: u32
  ss_log_mask :: u32
  ss_udp_checksum :: u32
  ss_ip_default_ttl :: u32
  ss_have_bits :: u32
  ss_release_str :: u32

definition TN_SBTM_CODE :: "u32 \<Rightarrow> u32" where
  "TN_SBTM_CODE tag = drop_bit 1 tag AND 0x3FFF"

definition sbtf_set :: "u32 \<Rightarrow> bool" where "sbtf_set tag = (tag AND 1 \<noteq> 0)"
definition sbtf_ref :: "u32 \<Rightarrow> bool" where "sbtf_ref tag = (tag AND 0x8000 \<noteq> 0)"

definition res0 :: TnSbtcResult where
  "res0 = \<lparr>sr_op = OP_NONE, sr_is_ref = False, sr_value = 0, sr_errno_ptr_width = 0\<rparr>"

definition get_plain :: "bool \<Rightarrow> u32 \<Rightarrow> TnSbtcResult" where
  "get_plain is_ref value = res0\<lparr>sr_op := OP_GET, sr_is_ref := is_ref, sr_value := value\<rparr>"

text \<open>
  The shapes of a label: set or read a value, set or read a pointer, read only, text of an error code.
\<close>

definition set_or_get :: "u32 \<Rightarrow> u32 \<Rightarrow> TnSbtcOp \<Rightarrow> u32 \<Rightarrow> TnSbtcResult" where
  "set_or_get tag data setop cur =
     (if sbtf_set tag then res0\<lparr>sr_op := setop, sr_is_ref := sbtf_ref tag, sr_value := data\<rparr>
      else get_plain (sbtf_ref tag) cur)"

definition set_or_get_ptr :: "u32 \<Rightarrow> u32 \<Rightarrow> TnSbtcOp \<Rightarrow> nat \<Rightarrow> u32 \<Rightarrow> TnSbtcResult" where
  "set_or_get_ptr tag data setop width cur =
     (if sbtf_set tag then res0\<lparr>sr_op := setop, sr_errno_ptr_width := width, sr_value := data\<rparr>
      else get_plain (sbtf_ref tag) cur)"

definition get_only :: "u32 \<Rightarrow> u32 \<Rightarrow> TnSbtcResult" where
  "get_only tag value = (if sbtf_set tag then res0 else get_plain (sbtf_ref tag) value)"

definition get_text :: "u32 \<Rightarrow> u32 \<Rightarrow> TnSbtcOp \<Rightarrow> TnSbtcResult" where
  "get_text tag data getop =
     (if sbtf_set tag then res0 else res0\<lparr>sr_op := getop, sr_is_ref := sbtf_ref tag, sr_value := data\<rparr>)"

definition have_api :: "TnSbtcState \<Rightarrow> u32 \<Rightarrow> u32" where
  "have_api st b = (if ss_have_bits st AND b \<noteq> 0 then 1 else 0)"

text \<open>The labels of the switch, in its order; \<open>None\<close> is the default label, an unknown tag.\<close>

definition sbtc_labels :: "u32 \<Rightarrow> u32 \<Rightarrow> TnSbtcState \<Rightarrow> (u32 \<times> TnSbtcResult) list" where
  "sbtc_labels tag data st =
    [(1, set_or_get tag data OP_SET_SIGINT (ss_sig_int st)),
     (2, set_or_get tag data OP_SET_SIGIO (ss_sig_io st)),
     (3, set_or_get tag data OP_SET_SIGURG (ss_sig_urg st)),
     (4, set_or_get tag data OP_SET_SIGEVENT (ss_sig_event st)),
     (6, set_or_get tag data OP_SET_ERRNO (word_of_int (ss_errno_val st))),
     (7, set_or_get tag data OP_SET_HERRNO (word_of_int (ss_herrno_val st))),
     (8, set_or_get tag data OP_SET_DTABLESIZE (ss_dtablesize st)),
     (9, set_or_get tag data OP_SET_FDCALLBACK (ss_fd_callback st)),
     (10, set_or_get tag data OP_SET_LOGSTAT (ss_log_stat st)),
     (11, set_or_get tag data OP_SET_LOGTAGPTR (ss_log_tag_ptr st)),
     (12, set_or_get tag data OP_SET_LOGFACILITY (ss_log_facility st)),
     (13, set_or_get tag data OP_SET_LOGMASK (ss_log_mask st)),
     (14, get_text tag data OP_GET_ERRNO_STR),
     (15, get_text tag data OP_GET_HERRNO_STR),
     (16, get_text tag data OP_GET_IOERRNO_STR),
     (17, get_text tag data OP_GET_S2ERRNO_STR),
     (18, get_text tag data OP_GET_S2WERRNO_STR),
     (21, set_or_get_ptr tag data OP_SET_ERRNO_PTR 1 (ss_errno_ptr st)),
     (22, set_or_get_ptr tag data OP_SET_ERRNO_PTR 2 (ss_errno_ptr st)),
     (24, set_or_get_ptr tag data OP_SET_ERRNO_PTR 4 (ss_errno_ptr st)),
     (25, set_or_get_ptr tag data OP_SET_HERRNO_PTR 0 (ss_herrno_ptr st)),
     (29, get_only tag (ss_release_str st)),
     (40, get_only tag 0),
     (42, set_or_get tag data OP_SET_UDPCHECKSUM (ss_udp_checksum st)),
     (43, get_only tag 0),
     (44, set_or_get tag data OP_SET_IPDEFAULTTTL (ss_ip_default_ttl st)),
     (45, get_only tag 0), (46, get_only tag 0),
     (48, get_only tag 1),
     (49, get_only tag 0), (51, get_only tag 0), (52, get_only tag 0), (55, get_only tag 0),
     (56, get_only tag 3),
     (57, get_only tag 0), (58, get_only tag 0), (61, get_only tag 0), (62, get_only tag 0), (64, get_only tag 0),
     (65, get_only tag 0), (66, get_only tag 0), (67, get_only tag 0), (68, get_only tag 0),
     (63, get_only tag (have_api st 0x10)),
     (54, get_only tag (have_api st 0x01)),
     (59, get_only tag (have_api st 0x02)),
     (60, get_only tag (have_api st 0x04)),
     (69, get_only tag (have_api st 0x08)),
     (41, get_only tag 0), (47, get_only tag 0), (50, get_only tag 0), (53, get_only tag 0)]"

definition tn_sbtc_dispatch_tag :: "u32 \<Rightarrow> u32 \<Rightarrow> TnSbtcState \<Rightarrow> TnSbtcResult option" where
  "tn_sbtc_dispatch_tag raw_tag data st = map_of (sbtc_labels raw_tag data st) (TN_SBTM_CODE raw_tag)"

section \<open>The vector\<close>

text \<open>
  Addresses the base and the program text have in the client's address space: the two error fields of the base,
  the release text and the error texts.  The fields of the base are kept apart from client memory.
\<close>

record sbtc_addrs =
  sa_task_errno :: ptr
  sa_task_herrno :: ptr
  sa_release :: ptr
  sa_text :: "string \<Rightarrow> ptr"

definition ptr_value :: "ptr \<Rightarrow> ptr option \<Rightarrow> u32" where
  "ptr_value own p = (case p of None \<Rightarrow> own | Some a \<Rightarrow> a)"

definition ptr_field :: "ptr \<Rightarrow> u32 \<Rightarrow> ptr option" where
  "ptr_field own v = (if v = own then None else Some v)"

definition sbtc_state :: "sbtc_addrs \<Rightarrow> TnLib \<Rightarrow> TnSbtcState" where
  "sbtc_state A c = \<lparr>ss_sig_int = lb_sig_int c, ss_sig_io = lb_sig_io c, ss_sig_urg = lb_sig_urg c,
     ss_sig_event = lb_sig_event c, ss_errno_val = lb_task_errno c, ss_herrno_val = lb_task_herrno c,
     ss_errno_ptr = ptr_value (sa_task_errno A) (lb_errno_ptr c), ss_errno_width = of_nat (lb_errno_width c),
     ss_herrno_ptr = ptr_value (sa_task_herrno A) (lb_herrno_ptr c), ss_dtablesize = word_of_int (lb_dtablesize c),
     ss_fd_callback = lb_fd_callback c, ss_log_stat = word_of_int (lb_log_stat c),
     ss_log_tag_ptr = lb_log_tag_ptr c, ss_log_facility = word_of_int (lb_log_facility c),
     ss_log_mask = word_of_int (lb_log_mask c), ss_udp_checksum = word_of_int (lb_udp_checksum c),
     ss_ip_default_ttl = word_of_int (lb_ip_default_ttl c), ss_have_bits = 0x1F, ss_release_str = sa_release A\<rparr>"

definition tn_sbtc_ref_load :: "ptr \<Rightarrow> TnLib \<Rightarrow> u32" where
  "tn_sbtc_ref_load addr c = load_u32 (w_mem c) addr"

definition tn_sbtc_ref_store :: "ptr \<Rightarrow> u32 \<Rightarrow> TnLib \<Rightarrow> TnLib" where
  "tn_sbtc_ref_store addr v c = c\<lparr>w_mem := store_u32 (w_mem c) addr v\<rparr>"

definition ti_Tag :: "ptr \<Rightarrow> TnLib \<Rightarrow> u32" where "ti_Tag t c = load_u32 (w_mem c) t"
definition ti_Data :: "ptr \<Rightarrow> TnLib \<Rightarrow> u32" where "ti_Data t c = load_u32 (w_mem c) (t + 4)"

definition sbtc_arg :: "TnSbtcResult \<Rightarrow> TnLib \<Rightarrow> u32" where
  "sbtc_arg r c = (if sr_is_ref r \<and> sr_value r \<noteq> 0 then tn_sbtc_ref_load (sr_value r) c else sr_value r)"

definition sbtc_answer :: "ptr \<Rightarrow> TnSbtcResult \<Rightarrow> u32 \<Rightarrow> TnLib \<Rightarrow> TnLib" where
  "sbtc_answer t r v c =
     (if sr_is_ref r \<and> ti_Data t c \<noteq> 0 then tn_sbtc_ref_store (ti_Data t c) v c else tn_sbtc_ref_store (t + 4) v c)"

text \<open>The error-text tags: the code comes in where the answer goes.\<close>

definition sbtc_text :: "sbtc_addrs \<Rightarrow> (int \<Rightarrow> string) \<Rightarrow> ptr \<Rightarrow> TnSbtcResult \<Rightarrow> TnLib \<Rightarrow> TnLib" where
  "sbtc_text A strerr t r c =
     (let err = (if sr_is_ref r \<and> ti_Data t c \<noteq> 0 then tn_sbtc_ref_load (ti_Data t c) c else sr_value r)
      in sbtc_answer t r (sa_text A (strerr (sint err))) c)"

text \<open>
  The descriptor table gets a new size; three blocks are allocated, copied and swapped in.  The blocks of the
  old tables are not tracked.
\<close>

definition free_if :: "ptr \<Rightarrow> TnLib \<Rightarrow> TnLib" where
  "free_if p c = (if p \<noteq> NULL then FreeVec p c else c)"

definition clamp_dtablesize :: "int \<Rightarrow> int" where
  "clamp_dtablesize n =
     (let n = (if n < 4 then 4 else n) in if n > TN_MAX_FDS_PER_TASK then TN_MAX_FDS_PER_TASK else n)"

definition resize_table :: "int \<Rightarrow> TnLib \<Rightarrow> bool \<times> TnLib" where
  "resize_table size0 c =
     (let newsize = clamp_dtablesize size0; n = nat newsize; old = nat (lb_dtablesize c) in
      if newsize \<le> lb_dtablesize c \<and> list_ex (\<lambda>v. 0 \<le> v) (drop n (lb_fd_map c))
      then (False, tn_set_errno_val EINVAL c)
      else if newsize = lb_dtablesize c then (True, c)
      else let (nm, c) = AllocVec c; (ne, c) = AllocVec c; (nk, c) = AllocVec c in
        if nm \<noteq> NULL \<and> ne \<noteq> NULL \<and> nk \<noteq> NULL
        then (True, c\<lparr>lb_fd_map := take n (lb_fd_map c) @ replicate (n - old) (-1),
                      lb_events := take n (lb_events c) @ replicate (n - old) 0,
                      lb_event_masks := take n (lb_event_masks c) @ replicate (n - old) 0,
                      lb_dtablesize := newsize\<rparr>)
        else (False, tn_set_errno_val ENOMEM (free_if nk (free_if ne (free_if nm c)))))"

text \<open>Apply one result; the flag is false when the tag fails.\<close>

fun sbtc_apply :: "sbtc_addrs \<Rightarrow> ptr \<Rightarrow> TnSbtcOp \<Rightarrow> TnSbtcResult \<Rightarrow> TnLib \<Rightarrow> bool \<times> TnLib" where
  "sbtc_apply A t OP_GET r c = (True, sbtc_answer t r (sr_value r) c)"
| "sbtc_apply A t OP_SET_SIGINT r c = (True, c\<lparr>lb_sig_int := sbtc_arg r c\<rparr>)"
| "sbtc_apply A t OP_SET_SIGIO r c = (True, c\<lparr>lb_sig_io := sbtc_arg r c\<rparr>)"
| "sbtc_apply A t OP_SET_SIGURG r c = (True, c\<lparr>lb_sig_urg := sbtc_arg r c\<rparr>)"
| "sbtc_apply A t OP_SET_SIGEVENT r c = (True, c\<lparr>lb_sig_event := sbtc_arg r c\<rparr>)"
| "sbtc_apply A t OP_SET_ERRNO r c = (True, tn_set_errno_val (sint (sbtc_arg r c)) c)"
| "sbtc_apply A t OP_SET_HERRNO r c = (True, tn_set_herrno_val (sint (sbtc_arg r c)) c)"
| "sbtc_apply A t OP_SET_ERRNO_PTR r c =
     (True, c\<lparr>lb_errno_ptr := ptr_field (sa_task_errno A) (sr_value r), lb_errno_width := sr_errno_ptr_width r\<rparr>)"
| "sbtc_apply A t OP_SET_HERRNO_PTR r c = (True, c\<lparr>lb_herrno_ptr := ptr_field (sa_task_herrno A) (sr_value r)\<rparr>)"
| "sbtc_apply A t OP_SET_FDCALLBACK r c = (True, c\<lparr>lb_fd_callback := sbtc_arg r c\<rparr>)"
| "sbtc_apply A t OP_SET_LOGSTAT r c = (True, c\<lparr>lb_log_stat := sint (sbtc_arg r c)\<rparr>)"
| "sbtc_apply A t OP_SET_LOGTAGPTR r c = (True, c\<lparr>lb_log_tag_ptr := sbtc_arg r c\<rparr>)"
| "sbtc_apply A t OP_SET_LOGFACILITY r c = (True, c\<lparr>lb_log_facility := sint (sbtc_arg r c)\<rparr>)"
| "sbtc_apply A t OP_SET_LOGMASK r c = (True, c\<lparr>lb_log_mask := sint (sbtc_arg r c)\<rparr>)"
| "sbtc_apply A t OP_SET_UDPCHECKSUM r c = (True, c\<lparr>lb_udp_checksum := sint (sbtc_arg r c)\<rparr>)"
| "sbtc_apply A t OP_SET_IPDEFAULTTTL r c = (True, c\<lparr>lb_ip_default_ttl := sint (sbtc_arg r c)\<rparr>)"
| "sbtc_apply A t OP_SET_DTABLESIZE r c =
     resize_table (sint (if sbtf_ref (ti_Tag t c) \<and> sr_value r \<noteq> 0 then tn_sbtc_ref_load (sr_value r) c
                         else sr_value r)) c"
| "sbtc_apply A t OP_GET_ERRNO_STR r c = (True, sbtc_text A tn_strerror t r c)"
| "sbtc_apply A t OP_GET_HERRNO_STR r c = (True, sbtc_text A tn_hstrerror t r c)"
| "sbtc_apply A t OP_GET_IOERRNO_STR r c = (True, sbtc_text A tn_ioerror t r c)"
| "sbtc_apply A t OP_GET_S2ERRNO_STR r c = (True, sbtc_text A tn_s2error t r c)"
| "sbtc_apply A t OP_GET_S2WERRNO_STR r c = (True, sbtc_text A tn_s2werror t r c)"
| "sbtc_apply A t OP_NONE r c = (True, c)"

definition sbtc_tag :: "sbtc_addrs \<Rightarrow> ptr \<Rightarrow> TnLib \<Rightarrow> bool \<times> TnLib" where
  "sbtc_tag A t c =
     (case tn_sbtc_dispatch_tag (ti_Tag t c) (ti_Data t c) (sbtc_state A c) of
        None \<Rightarrow> (False, c)
      | Some r \<Rightarrow> sbtc_apply A t (sr_op r) r c)"

fun sbtc_walk :: "sbtc_addrs \<Rightarrow> int \<Rightarrow> ptr list \<Rightarrow> TnLib \<Rightarrow> int \<times> TnLib" where
  "sbtc_walk A idx [] c = (0, c)"
| "sbtc_walk A idx (t # ts) c =
     (case sbtc_tag A t c of (ok, c1) \<Rightarrow> if ok then sbtc_walk A (idx + 1) ts c1 else (idx + 1, c1))"

definition tn_lvo_socketbasetaglist :: "sbtc_addrs \<Rightarrow> ptr list \<Rightarrow> TnLib \<Rightarrow> int \<times> TnLib" where
  "tn_lvo_socketbasetaglist A tags c = sbtc_walk A 0 tags c"

end
