(* ===== verification/Sbtc_Props.thy ===== *)
theory Sbtc_Props
  imports Sbtc Lib_Call_Props
begin

text \<open>
  SocketBaseTagList: which tags are known, where a list stops, what a tag that is set reads back as,
  and that the resizing of the table is the one the daemon's transition system allows its clients.
\<close>

section \<open>Known tags\<close>

definition known_codes :: "u32 list" where
  "known_codes = [1, 2, 3, 4, 6, 7, 8, 9, 10, 11, 12, 13, 14, 15, 16, 17, 18, 21, 22, 24, 25, 29, 40, 41, 42, 43, 44, 45,
     46, 47, 48, 49, 50, 51, 52, 53, 54, 55, 56, 57, 58, 59, 60, 61, 62, 63, 64, 65, 66, 67, 68, 69]"

lemma label_codes: "set (map fst (sbtc_labels tag data st)) = set known_codes"
  unfolding sbtc_labels_def known_codes_def list.map fst_conv by (rule set_eqI) (simp only: list.set insert_iff empty_iff, argo)

lemma dispatch_None_iff: "tn_sbtc_dispatch_tag tag data st = None \<longleftrightarrow> TN_SBTM_CODE tag \<notin> set known_codes"
  using label_codes [of tag data st] by (simp add: tn_sbtc_dispatch_tag_def map_of_eq_None_iff)

text \<open>The label of a code that stands in the switch.\<close>

lemma labels_distinct: "distinct (map fst (sbtc_labels tag data st))"
  by (simp add: sbtc_labels_def)

lemma dispatch_label:
  "(TN_SBTM_CODE tag, r) \<in> set (sbtc_labels tag data st) \<Longrightarrow> tn_sbtc_dispatch_tag tag data st = Some r"
  by (simp add: tn_sbtc_dispatch_tag_def labels_distinct)

section \<open>Failing tags\<close>

lemma errno_keeps_tables [simp]:
  "lb_fd_map (tn_set_errno_val e c) = lb_fd_map c" "lb_events (tn_set_errno_val e c) = lb_events c"
  "lb_event_masks (tn_set_errno_val e c) = lb_event_masks c" "lb_dtablesize (tn_set_errno_val e c) = lb_dtablesize c"
  "lb_task_errno (tn_set_errno_val e c) = e"
  by (auto simp: tn_set_errno_val_def Let_def split: option.splits)

lemma alloc_keeps_tables [simp]:
  "lb_fd_map (snd (AllocVec c)) = lb_fd_map c" "lb_events (snd (AllocVec c)) = lb_events c"
  "lb_event_masks (snd (AllocVec c)) = lb_event_masks c" "lb_dtablesize (snd (AllocVec c)) = lb_dtablesize c"
  "lb_fd_map (free_if p c) = lb_fd_map c" "lb_events (free_if p c) = lb_events c"
  "lb_event_masks (free_if p c) = lb_event_masks c" "lb_dtablesize (free_if p c) = lb_dtablesize c"
  by (auto simp: AllocVec_def free_if_def FreeVec_def fault_if_def Let_def split: list.splits)

definition same_tables :: "TnLib \<Rightarrow> TnLib \<Rightarrow> bool" where
  "same_tables c c1 = (lb_fd_map c1 = lb_fd_map c \<and> lb_events c1 = lb_events c \<and>
     lb_event_masks c1 = lb_event_masks c \<and> lb_dtablesize c1 = lb_dtablesize c)"

lemma resize_fails:
  assumes "resize_table n c = (False, c1)"
  shows "same_tables c c1" "lb_task_errno c1 \<in> {EINVAL, ENOMEM}"
  using assms by (auto simp: resize_table_def same_tables_def Let_def case_prod_unfold split: if_splits)

lemma apply_fails: "sbtc_apply A t op r c = (False, c1) \<Longrightarrow> op = OP_SET_DTABLESIZE \<and> (\<exists>n. resize_table n c = (False, c1))"
  by (cases op) (auto split: if_splits)

lemma dtablesize_code:
  assumes "tn_sbtc_dispatch_tag tag data st = Some r" "sr_op r = OP_SET_DTABLESIZE"
  shows "TN_SBTM_CODE tag = 8"
proof -
  have "(TN_SBTM_CODE tag, r) \<in> set (sbtc_labels tag data st)"
    using assms by (simp add: tn_sbtc_dispatch_tag_def map_of_SomeD)
  then show ?thesis using assms(2)
    unfolding sbtc_labels_def
    by (auto simp: set_or_get_def set_or_get_ptr_def get_only_def get_text_def get_plain_def res0_def split: if_splits)
qed

lemma tag_fails:
  assumes "sbtc_tag A t c = (False, c1)"
  shows "(TN_SBTM_CODE (ti_Tag t c) \<notin> set known_codes \<and> c1 = c) \<or>
    (TN_SBTM_CODE (ti_Tag t c) = 8 \<and> same_tables c c1 \<and> lb_task_errno c1 \<in> {EINVAL, ENOMEM})"
  using assms dispatch_None_iff [of "ti_Tag t c" "ti_Data t c" "sbtc_state A c"]
  by (auto simp: sbtc_tag_def split: option.splits dest!: apply_fails dest: dtablesize_code resize_fails)

lemma walk_idx:
  assumes "sbtc_walk A i ts c = (k, c1)" "0 \<le> i"
  shows "(k = 0 \<and> (\<forall>j\<ge>0. sbtc_walk A j ts c = (0, c1))) \<or>
    (i < k \<and> k \<le> i + int (length ts) \<and>
     (\<exists>c0. (\<forall>j\<ge>0. sbtc_walk A j (take (nat (k - i) - 1) ts) c = (0, c0)) \<and>
           sbtc_tag A (ts ! (nat (k - i) - 1)) c0 = (False, c1)))"
  using assms
proof (induction ts arbitrary: i c)
  case (Cons t ts)
  obtain ok c2 where tag: "sbtc_tag A t c = (ok, c2)" by fastforce
  show ?case
  proof (cases ok)
    case True
    have "sbtc_walk A (i + 1) ts c2 = (k, c1)" using Cons.prems tag True by simp
    from Cons.IH [OF this] Cons.prems(2)
    consider "k = 0" "\<forall>j\<ge>0. sbtc_walk A j ts c2 = (0, c1)" |
      c0 where "i + 1 < k" "k \<le> i + 1 + int (length ts)"
        "\<forall>j\<ge>0. sbtc_walk A j (take (nat (k - (i + 1)) - 1) ts) c2 = (0, c0)"
        "sbtc_tag A (ts ! (nat (k - (i + 1)) - 1)) c0 = (False, c1)"
      by auto
    then show ?thesis
    proof cases
      case 1
      then show ?thesis using tag True by simp
    next
      case 2
      have n: "nat (k - i) - 1 = Suc (nat (k - (i + 1)) - 1)" using 2(1) by linarith
      have "\<forall>j\<ge>0. sbtc_walk A j (take (nat (k - i) - 1) (t # ts)) c = (0, c0)"
        unfolding n using 2(3) tag True by simp
      moreover have "sbtc_tag A ((t # ts) ! (nat (k - i) - 1)) c0 = (False, c1)" unfolding n using 2(4) by simp
      ultimately show ?thesis using 2(1,2) by (intro disjI2) auto
    qed
  next
    case False
    then have "k = i + 1" "c1 = c2" using Cons.prems tag by auto
    then show ?thesis using tag False by auto
  qed
qed simp

text \<open>
  C36. SocketBaseTagList returns 0, or the 1-based position of the first failing tag: the tags before it have been
  applied as if they were the whole list, no tag after it is looked at, and the failing tag is an unknown one, which
  changes nothing, or a table size that cannot be had, which leaves the tables alone and sets errno to EINVAL or ENOMEM.
\<close>

theorem taglist_first_failure:
  assumes "tn_lvo_socketbasetaglist A tags c = (k, c1)" "k \<noteq> 0"
  shows "0 < k \<and> k \<le> int (length tags) \<and>
    (\<exists>c0. tn_lvo_socketbasetaglist A (take (nat k - 1) tags) c = (0, c0) \<and>
       sbtc_tag A (tags ! (nat k - 1)) c0 = (False, c1) \<and>
       (let code = TN_SBTM_CODE (ti_Tag (tags ! (nat k - 1)) c0) in
        (code \<notin> set known_codes \<and> c1 = c0) \<or>
        (code = 8 \<and> lb_fd_map c1 = lb_fd_map c0 \<and> lb_events c1 = lb_events c0 \<and>
         lb_event_masks c1 = lb_event_masks c0 \<and> lb_dtablesize c1 = lb_dtablesize c0 \<and>
         lb_task_errno c1 \<in> {EINVAL, ENOMEM})))"
proof -
  have "0 < k \<and> k \<le> int (length tags) \<and>
     (\<exists>c0. (\<forall>j\<ge>0. sbtc_walk A j (take (nat k - 1) tags) c = (0, c0)) \<and>
           sbtc_tag A (tags ! (nat k - 1)) c0 = (False, c1))"
    using walk_idx [of A 0 tags c k c1] assms by (auto simp: tn_lvo_socketbasetaglist_def)
  then show ?thesis
    using tag_fails by (fastforce simp: tn_lvo_socketbasetaglist_def same_tables_def Let_def)
qed

text \<open>
  A list of three items at address 64: the break mask is set to 0x2000, the table is to shrink below the open
  descriptor 10, the break mask is read.  The second tag fails with EINVAL.
\<close>

definition tag_bytes :: "(u32 \<times> u32) list \<Rightarrow> bytes" where
  "tag_bytes items = concat (map (\<lambda>(t, d). be_of_u32 t @ be_of_u32 d) items)"

definition sbtc_addrs0 :: sbtc_addrs where
  "sbtc_addrs0 = \<lparr>sa_task_errno = 0x7000, sa_task_herrno = 0x7004, sa_release = 0x7100, sa_text = (\<lambda>s. 0x8000)\<rparr>"

definition lib_tags :: "(u32 \<times> u32) list \<Rightarrow> TnLib" where
  "lib_tags items = lib0\<lparr>w_mem := store_bytes (\<lambda>_. 0) 64 (tag_bytes items), lb_dtablesize := 16,
     lb_fd_map := (replicate 16 (-1))[10 := 3], lb_events := replicate 16 0, lb_event_masks := replicate 16 0\<rparr>"

lemma tags_run:
  "tn_lvo_socketbasetaglist sbtc_addrs0 [64, 72, 80] (lib_tags [(3, 0x2000), (17, 8), (2, 0)]) =
   (2, snd (tn_lvo_socketbasetaglist sbtc_addrs0 [64, 72, 80] (lib_tags [(3, 0x2000), (17, 8), (2, 0)])))"
proof -
  have "fst (tn_lvo_socketbasetaglist sbtc_addrs0 [64, 72, 80] (lib_tags [(3, 0x2000), (17, 8), (2, 0)])) = 2"
    by code_simp
  then show ?thesis by (simp add: prod_eq_iff)
qed

theorem taglist_first_failure_witness:
  "\<exists>c0. tn_lvo_socketbasetaglist sbtc_addrs0 [64] (lib_tags [(3, 0x2000), (17, 8), (2, 0)]) = (0, c0) \<and>
     sbtc_tag sbtc_addrs0 72 c0 =
       (False, snd (tn_lvo_socketbasetaglist sbtc_addrs0 [64, 72, 80] (lib_tags [(3, 0x2000), (17, 8), (2, 0)])))"
  using taglist_first_failure [OF tags_run] by auto

section \<open>Round trip\<close>

text \<open>The tags that hold a value of the base.\<close>

definition value_codes :: "u32 list" where
  "value_codes = [1, 2, 3, 4, 6, 7, 9, 10, 11, 12, 13, 42, 44]"

text \<open>The operation and the current value of each.\<close>

definition value_op :: "u32 \<Rightarrow> TnSbtcOp" where
  "value_op code = the (map_of (zip value_codes
     [OP_SET_SIGINT, OP_SET_SIGIO, OP_SET_SIGURG, OP_SET_SIGEVENT, OP_SET_ERRNO, OP_SET_HERRNO, OP_SET_FDCALLBACK,
      OP_SET_LOGSTAT, OP_SET_LOGTAGPTR, OP_SET_LOGFACILITY, OP_SET_LOGMASK, OP_SET_UDPCHECKSUM, OP_SET_IPDEFAULTTTL]) code)"

definition value_of :: "u32 \<Rightarrow> TnLib \<Rightarrow> u32" where
  "value_of code c = the (map_of (zip value_codes
     [lb_sig_int c, lb_sig_io c, lb_sig_urg c, lb_sig_event c, word_of_int (lb_task_errno c),
      word_of_int (lb_task_herrno c), lb_fd_callback c, word_of_int (lb_log_stat c), lb_log_tag_ptr c,
      word_of_int (lb_log_facility c), word_of_int (lb_log_mask c), word_of_int (lb_udp_checksum c),
      word_of_int (lb_ip_default_ttl c)]) code)"

lemma set_value_codes: "set value_codes = {1, 2, 3, 4, 6, 7, 9, 10, 11, 12, 13, 42, 44}"
  by (simp add: value_codes_def)

lemma value_ops:
  "value_op 1 = OP_SET_SIGINT" "value_op 2 = OP_SET_SIGIO" "value_op 3 = OP_SET_SIGURG" "value_op 4 = OP_SET_SIGEVENT"
  "value_op 6 = OP_SET_ERRNO" "value_op 7 = OP_SET_HERRNO" "value_op 9 = OP_SET_FDCALLBACK"
  "value_op 10 = OP_SET_LOGSTAT" "value_op 11 = OP_SET_LOGTAGPTR" "value_op 12 = OP_SET_LOGFACILITY"
  "value_op 13 = OP_SET_LOGMASK" "value_op 42 = OP_SET_UDPCHECKSUM" "value_op 44 = OP_SET_IPDEFAULTTTL"
  by (simp_all add: value_op_def value_codes_def)

lemma value_ofs:
  "value_of 1 c = lb_sig_int c" "value_of 2 c = lb_sig_io c" "value_of 3 c = lb_sig_urg c"
  "value_of 4 c = lb_sig_event c" "value_of 6 c = word_of_int (lb_task_errno c)"
  "value_of 7 c = word_of_int (lb_task_herrno c)" "value_of 9 c = lb_fd_callback c"
  "value_of 10 c = word_of_int (lb_log_stat c)" "value_of 11 c = lb_log_tag_ptr c"
  "value_of 12 c = word_of_int (lb_log_facility c)" "value_of 13 c = word_of_int (lb_log_mask c)"
  "value_of 42 c = word_of_int (lb_udp_checksum c)" "value_of 44 c = word_of_int (lb_ip_default_ttl c)"
  by (simp_all add: value_of_def value_codes_def)

lemma value_of_mem [simp]: "value_of code (c\<lparr>w_mem := m\<rparr>) = value_of code c"
  by (simp add: value_of_def)

lemma store_u32_other: "4 \<le> unat (p - a) \<Longrightarrow> store_u32 m a v p = m p"
  by (simp add: store_u32_def store_bytes_outside)

lemma value_label:
  assumes "TN_SBTM_CODE tag \<in> set value_codes"
  shows "tn_sbtc_dispatch_tag tag data (sbtc_state A c) =
    Some (set_or_get tag data (value_op (TN_SBTM_CODE tag)) (value_of (TN_SBTM_CODE tag) c))"
proof (rule dispatch_label)
  show "(TN_SBTM_CODE tag, set_or_get tag data (value_op (TN_SBTM_CODE tag)) (value_of (TN_SBTM_CODE tag) c))
      \<in> set (sbtc_labels tag data (sbtc_state A c))"
    using assms unfolding set_value_codes
    by (elim insertE emptyE) (simp_all add: sbtc_labels_def sbtc_state_def value_ops value_ofs)
qed

lemma value_apply:
  assumes "code \<in> set value_codes" "code = 6 \<Longrightarrow> lb_errno_ptr c = None" "code = 7 \<Longrightarrow> lb_herrno_ptr c = None"
  shows "\<exists>c1. sbtc_apply A t (value_op code) r c = (True, c1) \<and> w_mem c1 = w_mem c \<and> value_of code c1 = sbtc_arg r c"
  using assms unfolding set_value_codes
  by (elim insertE emptyE) (simp_all add: value_ops value_ofs tn_set_errno_val_def tn_set_herrno_val_def)

text \<open>
  C35. A value of the base that one tag sets, given in the tag or behind its pointer, is what a following tag of the
  same code reads, in the tag or behind its pointer, and the list succeeds.  This covers the signal masks, errno, h\_errno,
  the descriptor hook, the log settings, the UDP checksum switch and the default TTL.
\<close>

theorem taglist_set_get:
  assumes "TN_SBTM_CODE (ti_Tag t1 c) = code" "sbtf_set (ti_Tag t1 c)"
    "TN_SBTM_CODE (ti_Tag t2 c) = code" "\<not> sbtf_set (ti_Tag t2 c)" "code \<in> set value_codes"
    "code = 6 \<longrightarrow> lb_errno_ptr c = None" "code = 7 \<longrightarrow> lb_herrno_ptr c = None"
    "v = (if sbtf_ref (ti_Tag t1 c) \<and> ti_Data t1 c \<noteq> 0 then load_u32 (w_mem c) (ti_Data t1 c) else ti_Data t1 c)"
    "place = (if sbtf_ref (ti_Tag t2 c) \<and> ti_Data t2 c \<noteq> 0 then ti_Data t2 c else t2 + 4)"
  shows "\<exists>c1. tn_lvo_socketbasetaglist A [t1, t2] c = (0, c1) \<and> load_u32 (w_mem c1) place = v \<and> value_of code c1 = v \<and>
    (\<forall>p. 4 \<le> unat (p - place) \<longrightarrow> w_mem c1 p = w_mem c p)"
proof -
  let ?r = "set_or_get (ti_Tag t1 c) (ti_Data t1 c) (value_op code) (value_of code c)"
  have r: "sr_op ?r = value_op code" "sbtc_arg ?r c = v"
    using assms by (simp_all add: set_or_get_def res0_def sbtc_arg_def tn_sbtc_ref_load_def)
  obtain c1 where c1: "sbtc_apply A t1 (value_op code) ?r c = (True, c1)" "w_mem c1 = w_mem c" "value_of code c1 = v"
    using value_apply [of code c A t1 ?r] assms r by auto
  have one: "sbtc_tag A t1 c = (True, c1)" using assms(1,5) c1 r by (simp add: sbtc_tag_def value_label)
  have same: "ti_Tag t2 c1 = ti_Tag t2 c" "ti_Data t2 c1 = ti_Data t2 c" by (simp_all add: ti_Tag_def ti_Data_def c1)
  have two: "sbtc_tag A t2 c1 = (True, c1\<lparr>w_mem := store_u32 (w_mem c1) place v\<rparr>)"
    using assms c1 by (auto simp: sbtc_tag_def same value_label set_or_get_def get_plain_def res0_def sbtc_answer_def
      tn_sbtc_ref_store_def)
  have "tn_lvo_socketbasetaglist A [t1, t2] c = (0, c1\<lparr>w_mem := store_u32 (w_mem c1) place v\<rparr>)"
    using one two by (simp add: tn_lvo_socketbasetaglist_def)
  then show ?thesis using c1 store_u32_other [of _ place "w_mem c" v] by simp
qed

theorem taglist_set_get_witness:
  "\<exists>c1. tn_lvo_socketbasetaglist sbtc_addrs0 [64, 72] (lib_tags [(3, 0x2000), (0x8002, 512)]) = (0, c1) \<and>
     load_u32 (w_mem c1) 512 = 0x2000 \<and> value_of 1 c1 = 0x2000"
proof -
  let ?c = "lib_tags [(3, 0x2000), (0x8002, 512)]"
  have "TN_SBTM_CODE (ti_Tag 64 ?c) = 1" "sbtf_set (ti_Tag 64 ?c)" "TN_SBTM_CODE (ti_Tag 72 ?c) = 1"
      "\<not> sbtf_set (ti_Tag 72 ?c)" "(1 :: u32) \<in> set value_codes"
      "0x2000 = (if sbtf_ref (ti_Tag 64 ?c) \<and> ti_Data 64 ?c \<noteq> 0 then load_u32 (w_mem ?c) (ti_Data 64 ?c) else ti_Data 64 ?c)"
      "512 = (if sbtf_ref (ti_Tag 72 ?c) \<and> ti_Data 72 ?c \<noteq> 0 then ti_Data 72 ?c else 72 + 4)"
    by code_simp+
  then show ?thesis using taglist_set_get [of 64 ?c 1 72 "0x2000" 512 sbtc_addrs0] by auto
qed

section \<open>The table of the base\<close>

text \<open>
  The table size tag is a resizing step of the daemon's transition system: the tables it leaves are those of
  \<open>set_dtablesize\<close>, and errno is its error.
\<close>

lemma resize_refines:
  assumes "sb_fd_map b = lb_fd_map c" "sb_events b = lb_events c" "sb_event_masks b = lb_event_masks c"
    "sb_dtablesize b = lb_dtablesize c"
  shows "\<exists>alloc_ok. case set_dtablesize alloc_ok n b of
      Inl b1 \<Rightarrow> fst (resize_table n c) \<and> (let c1 = snd (resize_table n c) in
        lb_fd_map c1 = sb_fd_map b1 \<and> lb_events c1 = sb_events b1 \<and> lb_event_masks c1 = sb_event_masks b1 \<and>
        lb_dtablesize c1 = sb_dtablesize b1)
    | Inr e \<Rightarrow> \<not> fst (resize_table n c) \<and> lb_task_errno (snd (resize_table n c)) = e"
proof -
  define ok where "ok = (let (nm, c1) = AllocVec c; (ne, c2) = AllocVec c1; (nk, c3) = AllocVec c2
    in nm \<noteq> NULL \<and> ne \<noteq> NULL \<and> nk \<noteq> NULL)"
  show ?thesis
    by (rule exI [of _ ok])
      (simp add: assms set_dtablesize_def resize_table_def clamp_dtablesize_def ok_def Let_def case_prod_unfold)
qed

text \<open>A size that is granted reads back clipped to 4..128.\<close>

lemma resize_reads_back:
  assumes "resize_table n c = (True, c1)"
  shows "lb_dtablesize c1 = clamp_dtablesize n" "4 \<le> lb_dtablesize c1 \<and> lb_dtablesize c1 \<le> 128"
  using assms
  by (auto simp: resize_table_def clamp_dtablesize_def TN_MAX_FDS_PER_TASK_def Let_def case_prod_unfold split: if_splits)

end
