(* ===== verification/Lib_Netdb.thy ===== *)
theory Lib_Netdb
  imports Lib_Lvo Errstr Inet_Props
begin

text \<open>
  The name vectors of the library (lib/lib\_vectors.c): the built-in service, protocol and network tables with
  their iterators, host and domain names, resolver calls, getaddrinfo and getnameinfo.  The result
  structures that live in the base (servent, protoent, netent) are returned by value; a NULL string is \<open>None\<close>.
\<close>

section \<open>Text in client memory\<close>

definition text_bytes :: "string \<Rightarrow> bytes" where
  "text_bytes s = map of_char s"

text \<open>At most \<open>n\<close> characters of the string at an address.\<close>

definition text_at :: "mem \<Rightarrow> ptr \<Rightarrow> nat \<Rightarrow> string" where
  "text_at m p n = map (\<lambda>b. char_of (unat b)) (takeWhile (\<lambda>b. b \<noteq> 0) (load_bytes m p n))"

text \<open>\<open>strncpy\<close> of \<open>n - 1\<close> bytes and the final terminator: the whole buffer of \<open>n\<close> bytes is written.\<close>

definition strncpy_bytes :: "string \<Rightarrow> nat \<Rightarrow> bytes" where
  "strncpy_bytes s n = take (n - 1) (text_bytes s @ replicate (n - 1) 0) @ [0]"

section \<open>Host and domain names\<close>

definition tn_lvo_gethostname :: "ptr \<Rightarrow> int \<Rightarrow> TnLib \<Rightarrow> int \<times> TnLib" where
  "tn_lvo_gethostname name namelen c =
     (if name = NULL \<or> namelen \<le> 0 then (-1, tn_set_errno_val EINVAL c)
      else let h = (if lb_hostname c \<noteq> [] then lb_hostname c else ''amiga'')
           in (0, c\<lparr>w_mem := store_bytes (w_mem c) name (text_bytes (take (nat namelen - 1) h) @ [0])\<rparr>))"

definition tn_lvo_gethostid :: "TnLib \<Rightarrow> (u32 \<times> TnLib) option" where
  "tn_lvo_gethostid c = do {
     (r, c) \<leftarrow> tn_ipc_call 22 (fill [(4, 0)] [(0, NULL)] c);
     Some (if r = 0 then word_of_int (im_args (w_msgs c (lb_msg c)) 0) else 0xFFFFFFFF, c) }"

definition tn_lvo_getdefaultdomainname :: "ptr \<Rightarrow> int \<Rightarrow> TnLib \<Rightarrow> bool \<times> TnLib" where
  "tn_lvo_getdefaultdomainname buffer buffer_size c =
     (if buffer = NULL \<or> buffer_size \<le> 0 then (False, c)
      else let dom = (if lb_domain_name c \<noteq> [] then lb_domain_name c else ''local'') in
        if buffer_size \<le> int (length dom) then (False, c)
        else (True, c\<lparr>w_mem := store_bytes (w_mem c) buffer (text_bytes dom @ [0])\<rparr>))"

definition tn_lvo_setdefaultdomainname :: "string option \<Rightarrow> TnLib \<Rightarrow> TnLib" where
  "tn_lvo_setdefaultdomainname buffer c =
     (case buffer of None \<Rightarrow> c | Some s \<Rightarrow> c\<lparr>lb_domain_name := take 63 s\<rparr>)"

section \<open>Tables\<close>

definition fold_case :: "char \<Rightarrow> char" where
  "fold_case ch = (let n = of_char ch :: nat in if 65 \<le> n \<and> n \<le> 90 then char_of (n + 32) else ch)"

definition schar :: "char \<Rightarrow> int" where
  "schar ch = sint (of_char ch :: u8)"

fun strcasecmp_loop :: "string \<Rightarrow> string \<Rightarrow> int" where
  "strcasecmp_loop (a # s1) (b # s2) =
     (if fold_case a \<noteq> fold_case b then schar (fold_case a) - schar (fold_case b) else strcasecmp_loop s1 s2)"
| "strcasecmp_loop (a # s1) [] = schar a"
| "strcasecmp_loop [] (b # s2) = - schar b"
| "strcasecmp_loop [] [] = 0"

definition tn_strcasecmp :: "string option \<Rightarrow> string option \<Rightarrow> int" where
  "tn_strcasecmp s1 s2 = (case (s1, s2) of (Some a, Some b) \<Rightarrow> strcasecmp_loop a b | _ \<Rightarrow> -1)"

record servent =
  s_name :: string
  s_port :: int
  s_proto :: string

record protoent =
  p_name :: string
  p_proto :: int

record netent =
  n_name :: string
  n_addrtype :: int
  n_net :: int

definition g_services :: "(string \<times> string \<times> u16) list" where
  "g_services =
    [(''echo'', ''tcp'', 7), (''echo'', ''udp'', 7), (''ftp-data'', ''tcp'', 20), (''ftp'', ''tcp'', 21),
     (''ssh'', ''tcp'', 22), (''telnet'', ''tcp'', 23), (''smtp'', ''tcp'', 25), (''time'', ''tcp'', 37),
     (''time'', ''udp'', 37), (''domain'', ''udp'', 53), (''domain'', ''tcp'', 53), (''gopher'', ''tcp'', 70),
     (''finger'', ''tcp'', 79), (''http'', ''tcp'', 80), (''pop3'', ''tcp'', 110), (''ntp'', ''udp'', 123),
     (''imap'', ''tcp'', 143), (''https'', ''tcp'', 443)]"

definition servent_of :: "string \<times> string \<times> u16 \<Rightarrow> int \<Rightarrow> servent" where
  "servent_of s port = \<lparr>s_name = take 31 (fst s), s_port = port, s_proto = take 15 (fst (snd s))\<rparr>"

definition proto_matches :: "string option \<Rightarrow> string \<times> string \<times> u16 \<Rightarrow> bool" where
  "proto_matches proto s = (proto = None \<or> tn_strcasecmp proto (Some (fst (snd s))) = 0)"

text \<open>The 68000 is big-endian: \<open>htons\<close> and \<open>ntohs\<close> are identities.\<close>

definition tn_lvo_getservbyname :: "string option \<Rightarrow> string option \<Rightarrow> servent option" where
  "tn_lvo_getservbyname name proto =
     (if name = None then None
      else map_option (\<lambda>s. servent_of s (uint (snd (snd s))))
        (find (\<lambda>s. tn_strcasecmp name (Some (fst s)) = 0 \<and> proto_matches proto s) g_services))"

definition tn_lvo_getservbyport :: "int \<Rightarrow> string option \<Rightarrow> servent option" where
  "tn_lvo_getservbyport port proto =
     map_option (\<lambda>s. servent_of s port)
       (find (\<lambda>s. snd (snd s) = word_of_int port \<and> proto_matches proto s) g_services)"

definition g_protocols :: "(string \<times> int) list" where
  "g_protocols = [(''ip'', 0), (''icmp'', 1), (''tcp'', 6), (''udp'', 17)]"

definition protoent_of :: "string \<times> int \<Rightarrow> protoent" where
  "protoent_of p = \<lparr>p_name = take 31 (fst p), p_proto = snd p\<rparr>"

definition tn_lvo_getprotobyname :: "string option \<Rightarrow> protoent option" where
  "tn_lvo_getprotobyname name =
     (if name = None then None
      else map_option protoent_of (find (\<lambda>p. tn_strcasecmp name (Some (fst p)) = 0) g_protocols))"

definition tn_lvo_getprotobynumber :: "int \<Rightarrow> protoent option" where
  "tn_lvo_getprotobynumber proto = map_option protoent_of (find (\<lambda>p. snd p = proto) g_protocols)"

definition nets :: "(string \<times> int) list" where
  "nets = [(''loopback'', 127), (''localnet'', 127), (''arpanet'', 10), (''milnet'', 26)]"

text \<open>The network keeps the name as the caller spelt it.\<close>

definition tn_lvo_getnetbyname :: "string option \<Rightarrow> netent option" where
  "tn_lvo_getnetbyname name =
     (case name of None \<Rightarrow> None
      | Some s \<Rightarrow> map_option (\<lambda>n. \<lparr>n_name = take 31 s, n_addrtype = 2, n_net = snd n\<rparr>)
          (find (\<lambda>n. tn_strcasecmp name (Some (fst n)) = 0) nets))"

definition tn_lvo_getnetbyaddr :: "u32 \<Rightarrow> int \<Rightarrow> netent option" where
  "tn_lvo_getnetbyaddr net type =
     (if type \<noteq> 2 then None
      else if net = 127 \<or> net = 10 \<or> net = 26
      then tn_lvo_getnetbyname (Some (if net = 127 then ''loopback'' else if net = 10 then ''arpanet'' else ''milnet''))
      else None)"

section \<open>Iterators\<close>

definition tn_lvo_setnetent :: "TnLib \<Rightarrow> TnLib" where "tn_lvo_setnetent c = c\<lparr>lb_netent_idx := 0\<rparr>"
definition tn_lvo_endnetent :: "TnLib \<Rightarrow> TnLib" where "tn_lvo_endnetent c = c\<lparr>lb_netent_idx := 0\<rparr>"
definition tn_lvo_setprotoent :: "TnLib \<Rightarrow> TnLib" where "tn_lvo_setprotoent c = c\<lparr>lb_protoent_idx := 0\<rparr>"
definition tn_lvo_endprotoent :: "TnLib \<Rightarrow> TnLib" where "tn_lvo_endprotoent c = c\<lparr>lb_protoent_idx := 0\<rparr>"
definition tn_lvo_setservent :: "TnLib \<Rightarrow> TnLib" where "tn_lvo_setservent c = c\<lparr>lb_servent_idx := 0\<rparr>"
definition tn_lvo_endservent :: "TnLib \<Rightarrow> TnLib" where "tn_lvo_endservent c = c\<lparr>lb_servent_idx := 0\<rparr>"

definition tn_lvo_getnetent :: "TnLib \<Rightarrow> netent option \<times> TnLib" where
  "tn_lvo_getnetent c =
     (if lb_netent_idx c = 0
      then (tn_lvo_getnetbyname (Some ''loopback''), c\<lparr>lb_netent_idx := lb_netent_idx c + 1\<rparr>) else (None, c))"

definition tn_lvo_getprotoent :: "TnLib \<Rightarrow> protoent option \<times> TnLib" where
  "tn_lvo_getprotoent c =
     (let i = lb_protoent_idx c in
      if length g_protocols \<le> i then (None, c)
      else (tn_lvo_getprotobyname (Some (fst (g_protocols ! i))), c\<lparr>lb_protoent_idx := i + 1\<rparr>))"

definition tn_lvo_getservent :: "TnLib \<Rightarrow> servent option \<times> TnLib" where
  "tn_lvo_getservent c =
     (let i = lb_servent_idx c in
      if length g_services \<le> i then (None, c)
      else (tn_lvo_getservbyname (Some (fst (g_services ! i))) None, c\<lparr>lb_servent_idx := i + 1\<rparr>))"

section \<open>Resolving\<close>

text \<open>ETIMEDOUT, EAGAIN, EINTR, ENETDOWN, ENOBUFS are worth another try.\<close>

definition tn_lvo_gethostbyname :: "ptr \<Rightarrow> TnLib \<Rightarrow> (ptr \<times> TnLib) option" where
  "tn_lvo_gethostbyname name c =
     (if name = NULL then Some (NULL, c)
      else do {
        (res, c) \<leftarrow> tn_ipc_call 18 (fill [] [(0, name)] c);
        (if res = 0 then Some (NULL, tn_set_herrno_val 1 c)
         else if res = -1
         then Some (NULL, tn_set_herrno_val
           (if lb_task_errno c \<in> {ETIMEDOUT, EWOULDBLOCK, EINTR, ENETDOWN, ENOBUFS} then 2 else 1) c)
         else Some (word_of_int res, c)) })"

definition tn_lvo_gethostbyaddr :: "TnLib \<Rightarrow> ptr \<times> TnLib" where
  "tn_lvo_gethostbyaddr c = (NULL, tn_set_errno_val ENOENT (tn_set_herrno_val 1 c))"

text \<open>\<open>*he = v\<close> when a pointer was given.\<close>

definition put_he :: "ptr \<Rightarrow> int \<Rightarrow> TnLib \<Rightarrow> TnLib" where
  "put_he he v c = (if he = NULL then c else c\<lparr>w_mem := store_u32 (w_mem c) he (word_of_int v)\<rparr>)"

text \<open>
  The copy of the daemon's answer into the caller's structure and buffer: the name, cut to 63 characters, an empty
  alias list of two words on the next word boundary, the address, the address list.
\<close>

definition align4 :: "ptr \<Rightarrow> ptr" where
  "align4 p = (p + 3) AND NOT 3"

definition copy_hostent :: "ptr \<Rightarrow> ptr \<Rightarrow> ptr \<Rightarrow> mem \<Rightarrow> mem" where
  "copy_hostent res hp buf m =
     (let m1 = store_u32 m hp buf;
          h_name = load_u32 m1 res;
          name = (if h_name = NULL then [] else text_bytes (text_at m1 h_name 63));
          m2 = store_bytes m1 buf (name @ [0]);
          aliases = align4 (buf + word_of_nat (length name + 1));
          m3 = store_u32 (store_u32 m2 aliases NULL) (hp + 4) aliases;
          m4 = store_u32 m3 (hp + 8) (load_u32 m3 (res + 8));
          m5 = store_u32 m4 (hp + 12) (load_u32 m4 (res + 12));
          ip_storage = aliases + 8;
          m6 = store_bytes m5 ip_storage (load_bytes m5 (load_u32 m5 (load_u32 m5 (res + 16))) 4);
          addrs = ip_storage + 4;
          m7 = store_u32 (store_u32 m6 addrs ip_storage) (addrs + 4) NULL
      in store_u32 m7 (hp + 16) addrs)"

definition tn_lvo_gethostbyname_r :: "ptr \<Rightarrow> ptr \<Rightarrow> ptr \<Rightarrow> u32 \<Rightarrow> ptr \<Rightarrow> TnLib \<Rightarrow> (ptr \<times> TnLib) option" where
  "tn_lvo_gethostbyname_r name hp buf buflen he c =
     (if hp = NULL \<or> buf = NULL then Some (NULL, put_he he 3 c)
      else do {
        (res, c) \<leftarrow> tn_lvo_gethostbyname name c;
        (if res = NULL then Some (NULL, put_he he (lb_task_herrno c) c)
         else if buflen < 128 then Some (NULL, tn_set_errno_val 34 (put_he he 3 c))
         else Some (hp, put_he he 0 (c\<lparr>w_mem := copy_hostent res hp buf (w_mem c)\<rparr>))) })"

definition tn_lvo_gethostbyaddr_r :: "ptr \<Rightarrow> ptr \<Rightarrow> u32 \<Rightarrow> ptr \<Rightarrow> TnLib \<Rightarrow> ptr \<times> TnLib" where
  "tn_lvo_gethostbyaddr_r hp buf buflen he c =
     (if hp = NULL \<or> buf = NULL then (NULL, put_he he 3 c)
      else let (res, c) = tn_lvo_gethostbyaddr c in
        if res = NULL then (NULL, put_he he (lb_task_herrno c) c)
        else if buflen < 128 then (NULL, tn_set_errno_val 34 (put_he he 3 c))
        else (hp, put_he he 0 (c\<lparr>w_mem := copy_hostent res hp buf (w_mem c)\<rparr>)))"

section \<open>getaddrinfo\<close>

record ai_hints =
  hint_flags :: u32
  hint_family :: int
  hint_socktype :: int

record addrinfo =
  ai_flags :: u32
  ai_family :: int
  ai_socktype :: int
  ai_protocol :: int
  ai_addrlen :: int
  ai_canonname :: "string option"
  ai_sin_family :: int
  ai_sin_port :: u16
  ai_sin_addr :: u32

text \<open>The decimal port: a \<open>LONG\<close> that wraps; a character that is no digit makes it \<open>-1\<close>.\<close>

fun port_number :: "u32 \<Rightarrow> string \<Rightarrow> u32" where
  "port_number port [] = port"
| "port_number port (ch # s) =
     (let n = of_char ch :: nat in
      if 48 \<le> n \<and> n \<le> 57 then port_number (port * 10 + word_of_nat (n - 48)) s else -1)"

definition service_port :: "string option \<Rightarrow> int \<Rightarrow> u16" where
  "service_port servname socktype =
     (case servname of None \<Rightarrow> 0
      | Some s \<Rightarrow>
          if s = [] then 0
          else let port = sint (port_number 0 s);
                   port = (if port < 0
                     then (case tn_lvo_getservbyname servname (Some (if socktype = 2 then ''udp'' else ''tcp'')) of
                             Some se \<Rightarrow> uint (word_of_int (s_port se) :: u16) | None \<Rightarrow> 0)
                     else port)
               in if 0 < port \<and> port < 65536 then word_of_int port else 0)"

definition hint_flag :: "ai_hints option \<Rightarrow> u32 \<Rightarrow> bool" where
  "hint_flag hints f = (case hints of None \<Rightarrow> False | Some h \<Rightarrow> hint_flags h AND f \<noteq> 0)"

text \<open>
  Numeric first, then the resolver.  The host name is passed at address \<open>host_at\<close>; the result is the error, or
  the address with the resolver's host entry (NULL when it was not asked).
\<close>

definition resolve_host :: "string option \<Rightarrow> ptr \<Rightarrow> ai_hints option \<Rightarrow> TnLib \<Rightarrow> ((int + u32 \<times> ptr) \<times> TnLib) option" where
  "resolve_host hostname host_at hints c =
     (if hostname = None \<or> hostname = Some []
      then Some (Inr (if hint_flag hints 1 then 0 else 0x7F000001, NULL), c)
      else let addr = tn_inet_addr_parse (the hostname) in
        if addr \<noteq> 0xFFFFFFFF then Some (Inr (addr, NULL), c)
        else if hint_flag hints 4 then Some (Inl (-2), c)
        else do {
          (he, c) \<leftarrow> tn_lvo_gethostbyname host_at c;
          let h_addr = load_u32 (w_mem c) (load_u32 (w_mem c) (he + 16));
          Some (if he = NULL \<or> h_addr = NULL then Inl (-2) else Inr (load_u32 (w_mem c) h_addr, he), c) })"

definition canonical_name :: "string option \<Rightarrow> ptr \<Rightarrow> ai_hints option \<Rightarrow> TnLib \<Rightarrow> string option" where
  "canonical_name hostname he hints c =
     (if \<not> hint_flag hints 2 then None
      else if he \<noteq> NULL \<and> load_u32 (w_mem c) he \<noteq> NULL then Some (text_at (w_mem c) (load_u32 (w_mem c) he) 254)
      else map_option (take 254) hostname)"

definition tn_lvo_getaddrinfo ::
  "string option \<Rightarrow> ptr \<Rightarrow> string option \<Rightarrow> ai_hints option \<Rightarrow> TnLib \<Rightarrow> (int \<times> (ptr \<times> addrinfo) option \<times> TnLib) option" where
  "tn_lvo_getaddrinfo hostname host_at servname hints c =
     (let bad_family = (case hints of Some h \<Rightarrow> hint_family h \<noteq> 2 \<and> hint_family h \<noteq> 0 | None \<Rightarrow> False);
          bad_type = (case hints of Some h \<Rightarrow> hint_socktype h \<notin> {0, 1, 2, 3} | None \<Rightarrow> False);
          socktype = (case hints of Some h \<Rightarrow> if hint_socktype h \<noteq> 0 then hint_socktype h else 1 | None \<Rightarrow> 1) in
      if bad_family then Some (-6, None, c)
      else if bad_type then Some (-7, None, c)
      else do {
        (r, c) \<leftarrow> resolve_host hostname host_at hints c;
        (case r of
           Inl e \<Rightarrow> Some (e, None, c)
         | Inr (addr, he) \<Rightarrow>
             let (ai, c) = AllocVec c in
             if ai = NULL then Some (-10, None, c)
             else Some (0, Some (ai, \<lparr>ai_flags = (case hints of Some h \<Rightarrow> hint_flags h | None \<Rightarrow> 0), ai_family = 2,
               ai_socktype = socktype, ai_protocol = (if socktype = 2 then 17 else 6), ai_addrlen = 16,
               ai_canonname = canonical_name hostname he hints c, ai_sin_family = 2,
               ai_sin_port = service_port servname socktype, ai_sin_addr = addr\<rparr>), c)) })"

text \<open>The nodes of the list, in its order.\<close>

definition tn_lvo_freeaddrinfo :: "ptr list \<Rightarrow> TnLib \<Rightarrow> TnLib" where
  "tn_lvo_freeaddrinfo ais c = free_all ais c"

definition tn_lvo_gai_strerror :: "int \<Rightarrow> string" where
  "tn_lvo_gai_strerror errnum =
     text_of [(0, ''no error''), (-1, ''invalid value for ai_flags''), (-2, ''name or service not known''),
       (-3, ''temporary failure in resolution''), (-4, ''non-recoverable failure''),
       (-5, ''no address associated with name''), (-6, ''ai_family not supported''),
       (-7, ''ai_socktype not supported''), (-8, ''service not supported''), (-10, ''memory allocation failure''),
       (-11, ''system error''), (-12, ''invalid value for hints''), (-13, ''resolved protocol unknown'')]
       ''unknown error'' errnum"

section \<open>getnameinfo\<close>

definition port_text :: "u16 \<Rightarrow> string" where
  "port_text port = rev (if port = 0 then ''0'' else dec_digits_rev 7 (unat port))"

definition put_text :: "ptr \<Rightarrow> u32 \<Rightarrow> string \<Rightarrow> TnLib \<Rightarrow> TnLib" where
  "put_text buf len s c = c\<lparr>w_mem := store_bytes (w_mem c) buf (strncpy_bytes s (unat len))\<rparr>"

definition nameinfo_host :: "u32 \<Rightarrow> ptr \<Rightarrow> u32 \<Rightarrow> u32 \<Rightarrow> TnLib \<Rightarrow> int \<times> TnLib" where
  "nameinfo_host addr host hostlen flags c =
     (if host = NULL \<or> hostlen = 0 then (0, c)
      else if flags AND 1 \<noteq> 0 then (0, put_text host hostlen (tn_lvo_inet_ntoa addr) c)
      else let (he, c) = tn_lvo_gethostbyaddr c in
        if he \<noteq> NULL \<and> load_u32 (w_mem c) he \<noteq> NULL
        then (0, put_text host hostlen (text_at (w_mem c) (load_u32 (w_mem c) he) (unat hostlen)) c)
        else if flags AND 8 \<noteq> 0 then (-2, c)
        else (0, put_text host hostlen (tn_lvo_inet_ntoa addr) c))"

definition nameinfo_serv :: "u16 \<Rightarrow> ptr \<Rightarrow> u32 \<Rightarrow> u32 \<Rightarrow> TnLib \<Rightarrow> TnLib" where
  "nameinfo_serv port serv servlen flags c =
     (if serv = NULL \<or> servlen = 0 then c
      else if flags AND 2 \<noteq> 0 then put_text serv servlen (port_text port) c
      else case tn_lvo_getservbyport (uint port) (Some (if flags AND 16 \<noteq> 0 then ''udp'' else ''tcp'')) of
             Some se \<Rightarrow> put_text serv servlen (s_name se) c
           | None \<Rightarrow> put_text serv servlen (port_text port) c)"

definition tn_lvo_getnameinfo :: "ptr \<Rightarrow> u32 \<Rightarrow> ptr \<Rightarrow> u32 \<Rightarrow> ptr \<Rightarrow> u32 \<Rightarrow> u32 \<Rightarrow> TnLib \<Rightarrow> int \<times> TnLib" where
  "tn_lvo_getnameinfo sa salen host hostlen serv servlen flags c =
     (if sa = NULL \<or> salen < 16 then (-4, c)
      else let sin = load_bytes (w_mem c) sa 16; addr = u32_of_be (take 4 (drop 4 sin)); port = u16_of_be (drop 2 sin) in
        if sin ! 1 \<noteq> 2 then (-6, c)
        else case nameinfo_host addr host hostlen flags c of
               (e, c1) \<Rightarrow> if e \<noteq> 0 then (e, c1) else (0, nameinfo_serv port serv servlen flags c1))"

section \<open>Inet vectors over the base\<close>

definition tn_lvo_inet_addr :: "string \<Rightarrow> u32" where
  "tn_lvo_inet_addr cp = tn_inet_addr_parse cp"

definition tn_lvo_inet_aton :: "string option \<Rightarrow> ptr \<Rightarrow> TnLib \<Rightarrow> int \<times> TnLib" where
  "tn_lvo_inet_aton cp addr c =
     (case cp of None \<Rightarrow> (0, c)
      | Some s \<Rightarrow>
          (case tn_inet_addr_parse_ex s of None \<Rightarrow> (0, c)
           | Some ip \<Rightarrow> (1, if addr = NULL then c else c\<lparr>w_mem := store_u32 (w_mem c) addr ip\<rparr>)))"

section \<open>System log lines\<close>

text \<open>
  \<open>tn_syslog_expand_m\<close>: the expansion of \<open>%m\<close>.  A conversion is copied whole or not at all.
\<close>

definition spec_len :: "string \<Rightarrow> nat" where
  "spec_len fmt =
     (case fmt of
        CHR ''%'' # CHR ''%'' # _ \<Rightarrow> 2
      | CHR ''%'' # rest \<Rightarrow>
          let k = length (takeWhile (\<lambda>ch. ch \<in> set ''-.l'' \<or> (48 \<le> (of_char ch :: nat) \<and> (of_char ch :: nat) \<le> 57)) rest)
          in if length rest = k then k + 1 else k + 2
      | _ \<Rightarrow> 1)"

definition double_percent :: "string \<Rightarrow> string" where
  "double_percent s = concat (map (\<lambda>ch. if ch = CHR ''%'' then ''%%'' else [ch]) s)"

lemma spec_len_pos: "0 < spec_len fmt"
  by (auto simp: spec_len_def Let_def split: list.splits char.splits bool.splits)

function expand_loop :: "nat \<Rightarrow> int \<Rightarrow> string \<Rightarrow> string \<Rightarrow> string" where
  "expand_loop cap err dst fmt =
     (if fmt = [] then dst
      else if take 2 fmt = ''%m'' then
        (let e = double_percent (tn_strerror err) in
         if cap \<le> length dst + length e then dst else expand_loop cap err (dst @ e) (drop 2 fmt))
      else let n = spec_len fmt in
        if cap \<le> length dst + n then dst else expand_loop cap err (dst @ take n fmt) (drop n fmt))"
  by pat_completeness auto
termination
  by (relation "measure (\<lambda>(_, _, _, fmt). length fmt)") (auto simp: spec_len_pos Let_def)

declare expand_loop.simps [simp del]

definition tn_syslog_expand_m :: "nat \<Rightarrow> string \<Rightarrow> int \<Rightarrow> string" where
  "tn_syslog_expand_m cap fmt err = expand_loop cap err [] fmt"

text \<open>
  \<open>syslog_buf\<close> is the address of the line buffer of the base (200 bytes), \<open>level\<close> the daemon's log level, and
  \<open>fmt_out\<close> the text RawDoFmt of exec.library produces for a format and the data at an address.
\<close>

definition tn_syslog_send :: "ptr \<Rightarrow> int \<Rightarrow> int \<Rightarrow> string \<Rightarrow> TnLib \<Rightarrow> TnLib option" where
  "tn_syslog_send syslog_buf tier pri line c = do {
     let saved = lb_task_errno c;
     let c = c\<lparr>w_mem := store_bytes (w_mem c) syslog_buf (text_bytes line @ [0])\<rparr>;
     (_, c) \<leftarrow> tn_ipc_call 36 (fill [(0, pri), (1, int (length line)), (2, tier)] [(0, syslog_buf)] c);
     Some (if lb_task_errno c \<noteq> saved then tn_set_errno_val saved c else c) }"

definition tn_lib_log :: "ptr \<Rightarrow> int \<Rightarrow> int \<Rightarrow> string option \<Rightarrow> TnLib \<Rightarrow> TnLib option" where
  "tn_lib_log syslog_buf level tier line c =
     (case line of None \<Rightarrow> Some c
      | Some s \<Rightarrow> if tier > level then Some c else tn_syslog_send syslog_buf tier (-1) (take 199 s) c)"

fun has_percent_m :: "string \<Rightarrow> bool" where
  "has_percent_m (a # b # s) = ((a = CHR ''%'' \<and> b = CHR ''m'') \<or> has_percent_m (b # s))"
| "has_percent_m _ = False"

definition syslog_line :: "(string \<Rightarrow> ptr \<Rightarrow> string) \<Rightarrow> string \<Rightarrow> ptr \<Rightarrow> TnLib \<Rightarrow> string" where
  "syslog_line fmt_out msg args c =
     (let fmt = (if has_percent_m msg then tn_syslog_expand_m 128 msg (lb_task_errno c) else msg);
          tag = (if lb_log_tag_ptr c = NULL then [] else text_at (w_mem c) (lb_log_tag_ptr c) 32 @ '': '')
      in tag @ take (199 - length tag) (takeWhile (\<lambda>ch. ch \<noteq> CHR 0x00) (fmt_out fmt args)))"

definition tn_lvo_vsyslog ::
  "(string \<Rightarrow> ptr \<Rightarrow> string) \<Rightarrow> ptr \<Rightarrow> int \<Rightarrow> int \<Rightarrow> string option \<Rightarrow> ptr \<Rightarrow> TnLib \<Rightarrow> TnLib option" where
  "tn_lvo_vsyslog fmt_out syslog_buf level pri msg args c =
     (case msg of None \<Rightarrow> Some c
      | Some s \<Rightarrow>
          if 1 > level then Some c
          else if (word_of_int (lb_log_mask c) :: u32) AND push_bit (nat (pri mod 8)) 1 = 0 then Some c
          else tn_syslog_send syslog_buf 1 pri (syslog_line fmt_out s args c) c)"

end
