(* ===== verification/Lib_Netdb_Props.thy ===== *)
theory Lib_Netdb_Props
  imports Lib_Netdb Lib_Call_Props
begin

text \<open>
  The name vectors: what getaddrinfo reads getnameinfo prints, the reentrant resolver stays inside the caller's
  buffer, the tables and their iterators, and the bounds of a log line.
\<close>

section \<open>Text in memory\<close>

lemma length_text_bytes [simp]: "length (text_bytes s) = length s"
  by (simp add: text_bytes_def)

lemma length_strncpy: "0 < n \<Longrightarrow> length (strncpy_bytes s n) = n"
  by (simp add: strncpy_bytes_def)

definition plain_text :: "string \<Rightarrow> bool" where
  "plain_text s = list_all (\<lambda>ch. ch \<noteq> CHR 0x00) s"

lemma of_char_u8: "unat (of_char ch :: u8) = of_char ch"
proof -
  have "of_char ch < (256 :: nat)" by (metis of_char_mod_256 mod_less_divisor zero_less_numeral)
  moreover have "(of_char ch :: u8) = word_of_nat (of_char ch)" by (simp only: of_nat_of_char)
  ultimately show ?thesis by (simp add: unsigned_of_nat take_bit_nat_eq_self del: of_nat_of_char)
qed

lemma of_char_u8_0: "(of_char ch :: u8) = 0 \<longleftrightarrow> ch = CHR 0x00"
proof
  assume "(of_char ch :: u8) = 0"
  then have "(of_char ch :: nat) = of_char (CHR 0x00)" using of_char_u8 [of ch] by simp
  then show "ch = CHR 0x00" by (simp only: of_char_eq_iff)
qed simp

lemma takeWhile_text:
  assumes "plain_text s"
  shows "takeWhile (\<lambda>b. b \<noteq> 0) (text_bytes s @ 0 # rest) = text_bytes s"
proof -
  have "b \<noteq> 0" if "b \<in> set (text_bytes s)" for b
    using that assms unfolding text_bytes_def plain_text_def list_all_iff set_map by (metis imageE of_char_u8_0)
  then show ?thesis by (subst takeWhile_append2) simp_all
qed

text \<open>A text that fits is read back from the buffer it was copied to.\<close>

lemma text_at_put:
  assumes "plain_text s" "length s < n" "n \<le> 2 ^ 32"
  shows "text_at (store_bytes m p (strncpy_bytes s n)) p n = s"
proof -
  have n: "length (strncpy_bytes s n) = n" using assms by (intro length_strncpy) simp
  have "strncpy_bytes s n = text_bytes s @ 0 # replicate (n - 1 - length s) 0"
    using assms(2) by (simp add: strncpy_bytes_def replicate_append_same)
  moreover have "load_bytes (store_bytes m p (strncpy_bytes s n)) p n = strncpy_bytes s n"
    using load_store_same [of "strncpy_bytes s n" m p] n assms(3) by simp
  ultimately have "takeWhile (\<lambda>b. b \<noteq> 0) (load_bytes (store_bytes m p (strncpy_bytes s n)) p n) = text_bytes s"
    using takeWhile_text [OF assms(1)] by simp
  then show ?thesis by (simp add: text_at_def text_bytes_def of_char_u8 comp_def)
qed

lemma load_bytes_other:
  assumes "\<forall>i<n. length bs \<le> unat (p + word_of_nat i - q)"
  shows "load_bytes (store_bytes m q bs) p n = load_bytes m p n"
  using assms by (auto simp: load_bytes_def store_bytes_outside)

section \<open>Decimal ports\<close>

lemma dec_digits_rev_fuel: "v < 10 ^ n \<Longrightarrow> n \<le> k \<Longrightarrow> dec_digits_rev k v = dec_digits_rev n v"
proof (induction n arbitrary: k v)
  case (Suc n)
  then obtain j where "k = Suc j" by (cases k) auto
  then show ?case using Suc.IH [of "v div 10" j] Suc.prems by (simp add: less_mult_imp_div_less mult.commute)
next
  case 0
  then show ?case by (cases k) auto
qed

lemma unat_port: "unat (ucast (port :: u16) :: u32) = unat port"
  using unsigned_less [of port, where 'a = nat] by (simp add: unsigned_ucast_eq take_bit_nat_eq_self)

lemma port_text_dec: "port_text port = dec_u32 (ucast port)"
proof -
  have l: "unat port < 10 ^ 7" using unsigned_less [of port, where 'a = nat] by simp
  have "(ucast port :: u32) = 0 \<longleftrightarrow> port = 0"
    using unat_port [of port] by (metis unat_eq_zero unsigned_0)
  then show ?thesis
    using dec_digits_rev_fuel [OF l, of 15] by (simp add: unat_port port_text_def dec_u32_def del: dec_digits_rev.simps)
qed

lemma port_number_digits: "list_all is_digit s \<Longrightarrow> port_number v s = dec_value v s"
  by (induction s arbitrary: v) (simp_all add: is_digit_def digit_val_def Let_def)

lemma digit_plain: "list_all is_digit s \<Longrightarrow> plain_text s"
  by (auto simp: plain_text_def list_all_iff is_digit_def)

lemma plain_ntoa: "plain_text (tn_lvo_inet_ntoa ip)"
  using digit_plain [OF dec_u32_digits] by (simp add: tn_lvo_inet_ntoa_def plain_text_def)

lemma length_port_text: "length (port_text port) \<le> 5"
proof -
  have "unat (ucast port :: u32) < 10 ^ 5"
    using unsigned_less [of port, where 'a = nat] by (simp add: unat_port)
  then show ?thesis unfolding port_text_dec by (rule dec_u32_length) simp
qed

lemma service_port_text: "service_port (Some (port_text port)) t = port"
proof -
  have v: "port_number 0 (port_text port) = ucast port"
    by (simp add: port_text_dec port_number_digits dec_u32_digits)
  have "uint (ucast port :: u32) = uint port" using unat_port [of port] by (simp only: uint_nat)
  moreover have "signed_take_bit 31 (uint port) = uint port"
  proof (rule signed_take_bit_int_eq_self)
    show "- (2 ^ 31) \<le> uint port" by (rule order_trans [of _ 0]) simp_all
    show "uint port < 2 ^ 31" using uint_lt2p [of port] by simp
  qed
  ultimately have "sint (ucast port :: u32) = uint port" by (simp add: sint_uint)
  moreover have "uint port < 65536" "0 \<le> uint port" using uint_lt2p [of port] by simp_all
  moreover have "port = 0" if "\<not> 0 < uint port"
    using that \<open>0 \<le> uint port\<close> by (simp only: not_less) (metis order_antisym uint_0_iff)
  ultimately show ?thesis
    using v by (auto simp: service_port_def port_text_dec Let_def)
qed

section \<open>getaddrinfo and getnameinfo\<close>

lemma parse_ntoa_addr: "tn_inet_addr_parse (tn_lvo_inet_ntoa ip) = ip"
  by (simp add: tn_inet_addr_parse_def parse_ntoa)

lemma ntoa_ne: "tn_lvo_inet_ntoa ip \<noteq> []"
  by (simp add: tn_lvo_inet_ntoa_def)

lemma sockin_fields:
  "sockin_bytes f p a ! Suc 0 = ucast f" "u16_of_be (drop 2 (sockin_bytes f p a)) = p"
  "u32_of_be (take 4 (drop 4 (sockin_bytes f p a))) = a"
proof -
  show "sockin_bytes f p a ! Suc 0 = ucast f" by (simp add: sockin_bytes_def)
  show "u16_of_be (drop 2 (sockin_bytes f p a)) = p"
    using u16_be_roundtrip [of p] by (simp add: sockin_bytes_def be_of_u16_def u16_of_be_def)
  show "u32_of_be (take 4 (drop 4 (sockin_bytes f p a))) = a"
    using u32_be_roundtrip [of a] by (simp add: sockin_bytes_def be_of_u16_def be_of_u32_def)
qed

text \<open>
  C39. getaddrinfo and getnameinfo are inverse on numeric names: for every address but the broadcast
  address and every port, getaddrinfo reads the dotted text and the decimal port into a socket address without asking
  the daemon, and getnameinfo prints that socket address, given buffers of 16 and 6 bytes that do not overlap, as the same
  two texts.
\<close>

theorem addrinfo_nameinfo:
  assumes "ip \<noteq> 0xFFFFFFFF" "AllocVec c = (ai, c1)" "ai \<noteq> NULL"
    "sa \<noteq> NULL" "load_bytes (w_mem d) sa 16 = sockin_bytes 2 port ip"
    "host \<noteq> NULL" "serv \<noteq> NULL" "16 \<le> unat hostlen" "6 \<le> unat servlen"
    "\<forall>i<unat hostlen. unat servlen \<le> unat (host + word_of_nat i - serv)"
  shows "(\<exists>x. tn_lvo_getaddrinfo (Some (tn_lvo_inet_ntoa ip)) at (Some (port_text port)) None c = Some (0, Some (ai, x), c1) \<and>
      ai_sin_family x = 2 \<and> ai_sin_port x = port \<and> ai_sin_addr x = ip) \<and>
    (\<exists>d1. tn_lvo_getnameinfo sa 16 host hostlen serv servlen 3 d = (0, d1) \<and>
      text_at (w_mem d1) host (unat hostlen) = tn_lvo_inet_ntoa ip \<and>
      text_at (w_mem d1) serv (unat servlen) = port_text port)"
proof
  show "\<exists>x. tn_lvo_getaddrinfo (Some (tn_lvo_inet_ntoa ip)) at (Some (port_text port)) None c = Some (0, Some (ai, x), c1) \<and>
      ai_sin_family x = 2 \<and> ai_sin_port x = port \<and> ai_sin_addr x = ip"
    using assms(1,2,3) by (simp add: tn_lvo_getaddrinfo_def resolve_host_def parse_ntoa_addr ntoa_ne service_port_text)
  let ?h = "strncpy_bytes (tn_lvo_inet_ntoa ip) (unat hostlen)" and ?s = "strncpy_bytes (port_text port) (unat servlen)"
  define d1 where "d1 = d\<lparr>w_mem := store_bytes (store_bytes (w_mem d) host ?h) serv ?s\<rparr>"
  have len: "hostlen \<noteq> 0" "servlen \<noteq> 0" "unat hostlen \<le> 2 ^ 32" "unat servlen \<le> 2 ^ 32"
    using assms(8,9) unsigned_less [of hostlen, where 'a = nat] unsigned_less [of servlen, where 'a = nat] by auto
  have "tn_lvo_getnameinfo sa 16 host hostlen serv servlen 3 d = (0, d1)"
    using assms len by (simp add: tn_lvo_getnameinfo_def sockin_fields nameinfo_host_def nameinfo_serv_def put_text_def d1_def)
  moreover have "text_at (w_mem d1) serv (unat servlen) = port_text port"
    using length_port_text [of port] assms(9) len digit_plain [OF dec_u32_digits]
    by (simp add: d1_def text_at_put port_text_dec)
  moreover have "text_at (w_mem d1) host (unat hostlen) = tn_lvo_inet_ntoa ip"
  proof -
    have "length ?s = unat servlen" using assms(9) by (intro length_strncpy) simp
    then have "load_bytes (w_mem d1) host (unat hostlen) = load_bytes (store_bytes (w_mem d) host ?h) host (unat hostlen)"
      using assms(10) by (simp add: d1_def load_bytes_other)
    then have "text_at (w_mem d1) host (unat hostlen) = text_at (store_bytes (w_mem d) host ?h) host (unat hostlen)"
      by (simp add: text_at_def)
    then show ?thesis using length_ntoa [of ip] assms(8) len plain_ntoa by (simp add: text_at_put)
  qed
  ultimately show "\<exists>d1. tn_lvo_getnameinfo sa 16 host hostlen serv servlen 3 d = (0, d1) \<and>
      text_at (w_mem d1) host (unat hostlen) = tn_lvo_inet_ntoa ip \<and>
      text_at (w_mem d1) serv (unat servlen) = port_text port" by blast
qed

definition lib_named :: TnLib where
  "lib_named = lib0\<lparr>w_heap := [0x3000], w_mem := store_bytes (\<lambda>_. 0) 256 (sockin_bytes 2 80 0xC0A80102)\<rparr>"

theorem addrinfo_nameinfo_witness:
  "(\<exists>x c1. tn_lvo_getaddrinfo (Some ''192.168.1.2'') 0 (Some ''80'') None lib_named = Some (0, Some (0x3000, x), c1) \<and>
      ai_sin_port x = 80 \<and> ai_sin_addr x = 0xC0A80102) \<and>
   (\<exists>d1. tn_lvo_getnameinfo 256 16 512 16 500 6 3 lib_named = (0, d1) \<and> text_at (w_mem d1) 512 16 = ''192.168.1.2'')"
proof -
  have "tn_lvo_inet_ntoa 0xC0A80102 = ''192.168.1.2''" by code_simp
  moreover have "port_text 80 = ''80''"
  proof -
    have "dec_u32 80 = ''80''" by code_simp
    then show ?thesis by (simp add: port_text_dec)
  qed
  moreover have "AllocVec lib_named = (0x3000, lib_named\<lparr>w_heap := []\<rparr>)" by (simp add: AllocVec_def lib_named_def)
  moreover have "load_bytes (w_mem lib_named) 256 16 = sockin_bytes 2 80 0xC0A80102" by code_simp
  moreover have "\<forall>i<16. (6 :: nat) \<le> unat ((512 :: u32) + word_of_nat i - 500)"
  proof -
    have "list_all (\<lambda>i. (6 :: nat) \<le> unat ((512 :: u32) + word_of_nat i - 500)) [0..<16]" by code_simp
    then show ?thesis by (simp only: list_all_iff set_upt) (meson atLeastLessThan_iff le0)
  qed
  ultimately show ?thesis
    using addrinfo_nameinfo [of "0xC0A80102" lib_named "0x3000" "lib_named\<lparr>w_heap := []\<rparr>" 256 lib_named 80 512 500 16 6 0]
    by auto
qed

section \<open>The reentrant resolver\<close>

text \<open>Memory changed at most in the \<open>n\<close> bytes from \<open>p\<close>.\<close>

definition within :: "ptr \<Rightarrow> nat \<Rightarrow> ptr \<Rightarrow> bool" where
  "within p n a = (unat (a - p) < n)"

lemma store_within: "store_bytes m p bs a \<noteq> m a \<Longrightarrow> within p (length bs) a"
  by (auto simp: store_bytes_def within_def Let_def split: if_splits)

lemma store_u32_within: "store_u32 m p v a \<noteq> m a \<Longrightarrow> within p 4 a"
  using store_within [of m p "be_of_u32 v" a] by (simp add: store_u32_def)

lemma unat_plus_le: "unat (x + y :: u32) \<le> unat x + unat y"
  by (simp add: unat_plus_if')

lemma within_offset:
  assumes "within (p + k) n a" "unat k + n \<le> N" "N \<le> 2 ^ 32"
  shows "within p N a"
proof -
  have "unat (a - p) = unat ((a - (p + k)) + k)" by simp
  also have "\<dots> \<le> unat (a - (p + k)) + unat k" by (rule unat_plus_le)
  finally show ?thesis using assms by (simp add: within_def)
qed

lemma align4_offset: "\<exists>r\<le>3. align4 (p + word_of_nat k) = p + word_of_nat (k + r)"
proof -
  let ?x = "p + word_of_nat k + 3 :: u32"
  have "(?x AND 3) + (?x AND NOT 3) = (?x AND 3) OR (?x AND NOT 3)"
    by (rule disjunctive_add) (simp add: bit_simps)
  also have "\<dots> = ?x" by (simp flip: bit.conj_disj_distrib)
  finally have a: "align4 (p + word_of_nat k) = ?x - (?x AND 3)" by (simp add: align4_def eq_diff_eq add.commute)
  have "?x AND 3 = take_bit 2 ?x" by (simp add: take_bit_eq_mask mask_eq_exp_minus_1)
  then have l: "unat (?x AND 3) \<le> 3" using take_bit_nat_less_exp [of 2 "unat ?x"] by (simp add: unsigned_take_bit_eq)
  define r where "r = 3 - unat (?x AND 3)"
  have "(word_of_nat r :: u32) = 3 - (?x AND 3)" using l by (simp add: r_def of_nat_diff)
  then have "align4 (p + word_of_nat k) = p + word_of_nat (k + r)" unfolding a by (simp add: algebra_simps)
  then show ?thesis using r_def by (intro exI [of _ r]) simp
qed

text \<open>Where the caller's structure and buffer are, and memory that differs from another at most there.\<close>

definition own_area :: "ptr \<Rightarrow> ptr \<Rightarrow> ptr \<Rightarrow> bool" where
  "own_area hp buf a = (within hp 20 a \<or> within buf 87 a)"

definition same_outside :: "ptr \<Rightarrow> ptr \<Rightarrow> mem \<Rightarrow> mem \<Rightarrow> bool" where
  "same_outside hp buf m m1 = (\<forall>a. m1 a \<noteq> m a \<longrightarrow> own_area hp buf a)"

lemma same_outside_store:
  assumes "same_outside hp buf m m1" "\<And>a. within p (length bs) a \<Longrightarrow> own_area hp buf a"
  shows "same_outside hp buf m (store_bytes m1 p bs)"
  using assms store_within unfolding same_outside_def by metis

lemma same_outside_hp:
  assumes "same_outside hp buf m m1" "unat k + 4 \<le> 20"
  shows "same_outside hp buf m (store_u32 m1 (hp + k) v)"
  unfolding store_u32_def using assms(1)
  by (rule same_outside_store) (use assms(2) within_offset [of hp k 4 _ 20] in \<open>simp add: own_area_def\<close>)

lemma same_outside_buf:
  assumes "same_outside hp buf m m1" "k + length bs \<le> 87"
  shows "same_outside hp buf m (store_bytes m1 (buf + word_of_nat k) bs)"
proof (rule same_outside_store [OF assms(1)])
  fix a assume a: "within (buf + word_of_nat k) (length bs) a"
  have "unat (word_of_nat k :: u32) = k" using assms(2) by (intro unat_word_of_nat) simp
  then show "own_area hp buf a" using within_offset [OF a, of 87] assms(2) by (simp add: own_area_def)
qed

lemma same_outside_load:
  assumes "same_outside hp buf m m1" "\<forall>i<n. \<not> own_area hp buf (p + word_of_nat i)"
  shows "load_bytes m1 p n = load_bytes m p n"
  using assms by (auto simp: same_outside_def load_bytes_def)

text \<open>
  The copy, cut at the places where it writes: \<open>n\<close> is the length of the name, the lists start at offset \<open>k\<close>.
\<close>

definition copy_tail :: "ptr \<Rightarrow> ptr \<Rightarrow> ptr \<Rightarrow> mem \<Rightarrow> mem" where
  "copy_tail res hp b m2 =
     (let m3 = store_u32 (store_u32 m2 b NULL) (hp + 4) b;
          m4 = store_u32 m3 (hp + 8) (load_u32 m3 (res + 8));
          m5 = store_u32 m4 (hp + 12) (load_u32 m4 (res + 12));
          m6 = store_bytes m5 (b + 8) (load_bytes m5 (load_u32 m5 (load_u32 m5 (res + 16))) 4);
          m7 = store_u32 (store_u32 m6 (b + 12) (b + 8)) (b + 16) NULL
      in store_u32 m7 (hp + 16) (b + 12))"

definition answer_name :: "mem \<Rightarrow> ptr \<Rightarrow> string" where
  "answer_name m res = (if load_u32 m res = NULL then [] else text_at m (load_u32 m res) 63)"

lemma length_answer_name: "length (answer_name m res) \<le> 63"
  by (auto simp: answer_name_def text_at_def intro: order_trans [OF length_takeWhile_le])

lemma copy_hostent_split:
  "\<exists>k. length (answer_name (store_u32 m hp buf) res) + 1 \<le> k \<and> k + 20 \<le> 87 \<and>
    copy_hostent res hp buf m = copy_tail res hp (buf + word_of_nat k)
      (store_bytes (store_u32 m hp buf) buf (text_bytes (answer_name (store_u32 m hp buf) res) @ [0]))"
proof -
  let ?n = "answer_name (store_u32 m hp buf) res"
  obtain r where r: "r \<le> 3" "align4 (buf + word_of_nat (length ?n + 1)) = buf + word_of_nat (length ?n + 1 + r)"
    using align4_offset by blast
  have n: "(if load_u32 (store_u32 m hp buf) res = NULL then []
      else text_bytes (text_at (store_u32 m hp buf) (load_u32 (store_u32 m hp buf) res) 63)) = text_bytes ?n"
    by (simp add: answer_name_def text_bytes_def)
  show ?thesis
    using r(1) length_answer_name [of "store_u32 m hp buf" res]
    by (intro exI [of _ "length ?n + 1 + r"])
      (simp only: copy_hostent_def copy_tail_def Let_def n length_text_bytes r(2), simp add: add.assoc)
qed

lemma copy_tail_outside:
  assumes "same_outside hp buf m m2" "k + 20 \<le> 87"
  shows "same_outside hp buf m (copy_tail res hp (buf + word_of_nat k) m2)"
proof -
  have step: "same_outside hp buf m (store_bytes x (buf + word_of_nat k + word_of_nat j) bs)"
    if "same_outside hp buf m x" "j + length bs \<le> 20" for x j bs
    using same_outside_buf [OF that(1), of "k + j" bs] assms(2) that(2) by (simp add: add.assoc)
  let ?b = "buf + word_of_nat k"
  have b: "same_outside hp buf m (store_u32 x ?b v)" "same_outside hp buf m (store_u32 x (?b + 12) v)"
      "same_outside hp buf m (store_u32 x (?b + 16) v)" "same_outside hp buf m (store_bytes x (?b + 8) (load_bytes y q 4))"
    if "same_outside hp buf m x" for x y v q
    using step [OF that, of 0 "be_of_u32 v"] step [OF that, of 12 "be_of_u32 v"] step [OF that, of 16 "be_of_u32 v"]
      step [OF that, of 8 "load_bytes y q 4"] by (simp_all add: store_u32_def)
  show ?thesis
    unfolding copy_tail_def Let_def by (intro same_outside_hp b assms(1)) simp_all
qed

lemma copy_hostent_outside: "same_outside hp buf m (copy_hostent res hp buf m)"
proof -
  let ?m = "store_u32 m hp buf"
  obtain k where k: "k + 20 \<le> 87" "copy_hostent res hp buf m = copy_tail res hp (buf + word_of_nat k)
      (store_bytes ?m buf (text_bytes (answer_name ?m res) @ [0]))"
    using copy_hostent_split by blast
  have "same_outside hp buf m ?m" using same_outside_hp [of hp buf m m 0] by (simp add: same_outside_def)
  then have "same_outside hp buf m (store_bytes ?m buf (text_bytes (answer_name ?m res) @ [0]))"
    using same_outside_buf [of hp buf m ?m 0] length_answer_name [of ?m res] by simp
  then show ?thesis using copy_tail_outside k by simp
qed

section \<open>What the copy holds\<close>

text \<open>Stores that do not meet the bytes that are read.\<close>

lemma within_unat:
  assumes "within (b + word_of_nat i) x a" "i + x \<le> 2 ^ 32"
  shows "i \<le> unat (a - b) \<and> unat (a - b) < i + x"
proof -
  have u: "unat (a - (b + word_of_nat i)) < x" using assms(1) by (simp add: within_def)
  then have i: "unat (word_of_nat i :: u32) = i" using assms(2) by (intro unat_word_of_nat) simp
  have "unat (a - b) = unat ((a - (b + word_of_nat i)) + word_of_nat i)" by simp
  also have "\<dots> = unat (a - (b + word_of_nat i)) + i"
    using u i assms(2) unat_add_lem [of "a - (b + word_of_nat i)" "word_of_nat i"] by simp
  finally show ?thesis using u by simp
qed

lemma load_clear:
  assumes "\<And>a. within p x a \<Longrightarrow> \<not> within q (length bs) a" "x \<le> 2 ^ 32"
  shows "load_bytes (store_bytes m q bs) p x = load_bytes m p x"
proof (rule load_bytes_other, intro allI impI)
  fix i assume "i < x"
  then have "within p x (p + word_of_nat i)" using assms(2) unat_word_of_nat [of i, where 'a = 32] by (simp add: within_def)
  then show "length bs \<le> unat (p + word_of_nat i - q)" using assms(1) by (simp add: within_def not_less)
qed

lemma load_near:
  assumes "i + x \<le> j \<or> j + length bs \<le> i" "i + x \<le> 2 ^ 32" "j + length bs \<le> 2 ^ 32"
  shows "load_bytes (store_bytes m (b + word_of_nat j) bs) (b + word_of_nat i) x = load_bytes m (b + word_of_nat i) x"
  using assms by (intro load_clear) (fastforce dest: within_unat, simp)

definition apart :: "ptr \<Rightarrow> ptr \<Rightarrow> bool" where
  "apart hp buf = (\<forall>i<20. \<not> within buf 87 (hp + word_of_nat i))"

lemma apart_within: "apart hp buf \<Longrightarrow> within hp 20 a \<Longrightarrow> \<not> within buf 87 a"
proof -
  assume "apart hp buf" "within hp 20 a"
  then have "\<not> within buf 87 (hp + word_of_nat (unat (a - hp)))" by (auto simp: apart_def within_def)
  then show ?thesis by simp
qed

lemma within_widen: "within (b + word_of_nat i) x a \<Longrightarrow> i + x \<le> N \<Longrightarrow> N \<le> 2 ^ 32 \<Longrightarrow> within b N a"
  using within_unat [of b i x a] by (simp add: within_def)

lemma load_far:
  assumes "apart hp buf" "i + x \<le> 87" "j + length bs \<le> 20"
  shows "load_bytes (store_bytes m (hp + word_of_nat j) bs) (buf + word_of_nat i) x = load_bytes m (buf + word_of_nat i) x"
proof (rule load_clear)
  fix a assume "within (buf + word_of_nat i) x a"
  then have "within buf 87 a" using assms(2) by (auto intro: within_widen)
  then show "\<not> within (hp + word_of_nat j) (length bs) a"
    using apart_within [OF assms(1)] within_widen [of hp j "length bs" a 20] assms(3) by auto
qed (use assms(2) in simp)

lemma load_far_hp:
  assumes "apart hp buf" "i + x \<le> 20" "j + length bs \<le> 87"
  shows "load_bytes (store_bytes m (buf + word_of_nat j) bs) (hp + word_of_nat i) x = load_bytes m (hp + word_of_nat i) x"
proof (rule load_clear)
  fix a assume "within (hp + word_of_nat i) x a"
  then have "within hp 20 a" using assms(2) by (auto intro: within_widen)
  then show "\<not> within (buf + word_of_nat j) (length bs) a"
    using apart_within [OF assms(1)] within_widen [of buf j "length bs" a 87] assms(3) by auto
qed (use assms(2) in simp)

text \<open>The same stores with every place given as an offset.\<close>

lemma copy_tail_offsets:
  obtains m5 k8 k12 k16 h4 h8 h12 h16 v8 v12 where
    "k8 = k + 8" "k12 = k + 12" "k16 = k + 16" "h4 = 4" "h8 = 8" "h12 = 12" "h16 = (16 :: nat)"
    "m5 = store_bytes (store_bytes (store_bytes (store_bytes m2 (buf + word_of_nat k) (be_of_u32 0))
        (hp + word_of_nat h4) (be_of_u32 (buf + word_of_nat k))) (hp + word_of_nat h8) (be_of_u32 v8))
        (hp + word_of_nat h12) (be_of_u32 v12)"
    "copy_tail res hp (buf + word_of_nat k) m2 =
      store_bytes (store_bytes (store_bytes (store_bytes m5 (buf + word_of_nat k8)
          (load_bytes m5 (load_u32 m5 (load_u32 m5 (res + 16))) 4))
        (buf + word_of_nat k12) (be_of_u32 (buf + word_of_nat k8))) (buf + word_of_nat k16) (be_of_u32 0))
        (hp + word_of_nat h16) (be_of_u32 (buf + word_of_nat k12))"
  by (rule that [OF refl refl refl refl refl refl refl refl]) (simp add: copy_tail_def Let_def store_u32_def add.assoc)

lemma copy_tail_result:
  assumes A: "apart hp buf" and k: "k + 20 \<le> 87"
  shows "load_u32 (copy_tail res hp (buf + word_of_nat k) m2) (hp + 16) = buf + word_of_nat (k + 12)"
    "load_u32 (copy_tail res hp (buf + word_of_nat k) m2) (buf + word_of_nat (k + 12)) = buf + word_of_nat (k + 8)"
    "\<exists>m5. same_outside hp buf m2 m5 \<and> load_bytes (copy_tail res hp (buf + word_of_nat k) m2) (buf + word_of_nat (k + 8)) 4 =
       load_bytes m5 (load_u32 m5 (load_u32 m5 (res + 16))) 4"
    "n \<le> k \<Longrightarrow> load_bytes (copy_tail res hp (buf + word_of_nat k) m2) buf n = load_bytes m2 buf n"
    "load_u32 (copy_tail res hp (buf + word_of_nat k) m2) hp = load_u32 m2 hp"
proof -
  obtain m5 k8 k12 k16 h4 h8 h12 h16 v8 v12 where d: "k8 = k + 8" "k12 = k + 12" "k16 = k + 16" "h4 = 4" "h8 = 8" "h12 = 12" "h16 = (16 :: nat)"
    and m5: "m5 = store_bytes (store_bytes (store_bytes (store_bytes m2 (buf + word_of_nat k) (be_of_u32 0))
        (hp + word_of_nat h4) (be_of_u32 (buf + word_of_nat k))) (hp + word_of_nat h8) (be_of_u32 v8))
        (hp + word_of_nat h12) (be_of_u32 v12)"
    and T: "copy_tail res hp (buf + word_of_nat k) m2 =
      store_bytes (store_bytes (store_bytes (store_bytes m5 (buf + word_of_nat k8)
          (load_bytes m5 (load_u32 m5 (load_u32 m5 (res + 16))) 4))
        (buf + word_of_nat k12) (be_of_u32 (buf + word_of_nat k8))) (buf + word_of_nat k16) (be_of_u32 0))
        (hp + word_of_nat h16) (be_of_u32 (buf + word_of_nat k12))"
    by (rule copy_tail_offsets)
  let ?M = "copy_tail res hp (buf + word_of_nat k) m2"
  have b: "k8 + 4 \<le> 87" "k12 + 4 \<le> 87" "k16 + 4 \<le> 87" "k8 + 4 \<le> k12" "k12 + 4 \<le> k16" "k8 + 4 \<le> k16" "k + 4 \<le> k8" "k + 4 \<le> 87"
      "h4 + 4 \<le> 20" "h8 + 4 \<le> 20" "h12 + 4 \<le> 20" "h16 + 4 \<le> 20" "4 \<le> h4" "4 \<le> h8" "4 \<le> h12" "4 \<le> h16"
    using k d by simp_all
  have same: "load_bytes (store_bytes m p bs) p 4 = bs" if "length bs = 4" for m p bs
    using load_store_same [of bs m p] that by simp
  have far: "load_bytes (store_bytes m (hp + word_of_nat j) bs) (buf + word_of_nat i) x = load_bytes m (buf + word_of_nat i) x"
    if "i + x \<le> 87" "j + 4 \<le> 20" "length bs = 4" for m j bs i x using load_far [OF A] that by simp
  have near: "load_bytes (store_bytes m (b + word_of_nat j) bs) (b + word_of_nat i) x = load_bytes m (b + word_of_nat i) x"
    if "i + x \<le> j" "j + 4 \<le> 87" "length bs = 4" for m b j bs i x using that by (intro load_near) auto
  show "load_u32 ?M (buf + word_of_nat (k + 12)) = buf + word_of_nat (k + 8)"
    unfolding d(1,2) [symmetric] T load_u32_def using b by (simp only: far near same length_be u32_be_roundtrip)
  show "load_u32 ?M (hp + 16) = buf + word_of_nat (k + 12)"
    unfolding T load_u32_def using same [of "be_of_u32 (buf + word_of_nat k12)"] d by simp
  have "load_bytes ?M (buf + word_of_nat k8) 4 = load_bytes m5 (load_u32 m5 (load_u32 m5 (res + 16))) 4"
    unfolding T using b by (simp only: far near same length_be length_load_bytes)
  moreover have "same_outside hp buf m2 m5"
  proof -
    have "same_outside hp buf m2 (store_bytes m2 (buf + word_of_nat k) (be_of_u32 0))"
      using b(8) by (intro same_outside_buf) (simp_all add: same_outside_def)
    then show ?thesis unfolding m5 d(4-6) store_u32_def [symmetric] by (intro same_outside_hp) simp_all
  qed
  ultimately show "\<exists>m5. same_outside hp buf m2 m5 \<and> load_bytes ?M (buf + word_of_nat (k + 8)) 4 =
       load_bytes m5 (load_u32 m5 (load_u32 m5 (res + 16))) 4" unfolding d(1) by blast
  show "load_bytes ?M buf n = load_bytes m2 buf n" if "n \<le> k"
  proof -
    have n: "0 + n \<le> 87" "0 + n \<le> k" "0 + n \<le> k8" "0 + n \<le> k12" "0 + n \<le> k16" using that k d by simp_all
    have "load_bytes ?M (buf + word_of_nat 0) n = load_bytes m2 (buf + word_of_nat 0) n"
      unfolding T m5 using b n by (simp only: far near length_be length_load_bytes)
    then show ?thesis by simp
  qed
  have far_hp: "load_bytes (store_bytes m (buf + word_of_nat j) bs) (hp + word_of_nat 0) 4 = load_bytes m (hp + word_of_nat 0) 4"
    if "j + 4 \<le> 87" "length bs = 4" for m j bs using load_far_hp [OF A, of 0 4 j bs m] that by simp
  have near_hp: "load_bytes (store_bytes m (hp + word_of_nat j) bs) (hp + word_of_nat 0) 4 = load_bytes m (hp + word_of_nat 0) 4"
    if "4 \<le> j" "j + 4 \<le> 20" "length bs = 4" for m j bs using load_near [of 0 4 j bs m hp] that by simp
  have "load_bytes ?M (hp + word_of_nat 0) 4 = load_bytes m2 (hp + word_of_nat 0) 4"
    unfolding T m5 using b by (simp only: far_hp near_hp length_be length_load_bytes)
  then show "load_u32 ?M hp = load_u32 m2 hp" by (simp add: load_u32_def)
qed

text \<open>
  The answer of the daemon: the entry at \<open>res\<close>, its name, its address list and the first address, none of which lies
  in the caller's structure or buffer.
\<close>

definition answer_addr :: "mem \<Rightarrow> ptr \<Rightarrow> u32" where
  "answer_addr m res = load_u32 m (load_u32 m (load_u32 m (res + 16)))"

definition answer_clear :: "ptr \<Rightarrow> ptr \<Rightarrow> mem \<Rightarrow> ptr \<Rightarrow> bool" where
  "answer_clear hp buf m res =
     ((\<forall>i<20. \<not> own_area hp buf (res + word_of_nat i)) \<and>
      (\<forall>i<63. \<not> own_area hp buf (load_u32 m res + word_of_nat i)) \<and>
      (\<forall>i<4. \<not> own_area hp buf (load_u32 m (res + 16) + word_of_nat i)) \<and>
      (\<forall>i<4. \<not> own_area hp buf (load_u32 m (load_u32 m (res + 16)) + word_of_nat i)))"

lemma answer_same:
  assumes "same_outside hp buf m m1" "answer_clear hp buf m res"
  shows "answer_name m1 res = answer_name m res" "answer_addr m1 res = answer_addr m res"
proof -
  note L = same_outside_load [OF assms(1)]
  have r: "\<not> own_area hp buf (res + word_of_nat i)" if "i < 20" for i using assms(2) that by (simp add: answer_clear_def)
  have "load_u32 m1 res = load_u32 m res" unfolding load_u32_def using r by (subst L) auto
  then show "answer_name m1 res = answer_name m res"
    using assms(2) by (auto simp: answer_name_def text_at_def answer_clear_def L)
  have "load_u32 m1 (res + 16) = load_u32 m (res + 16)"
    unfolding load_u32_def using r [of "16 + _"] by (subst L) (auto simp: add.assoc)
  moreover have "load_u32 m1 (load_u32 m (res + 16)) = load_u32 m (load_u32 m (res + 16))"
    unfolding load_u32_def [of _ "load_u32 m (res + 16)"] using assms(2) by (subst L) (auto simp: answer_clear_def)
  moreover have "load_u32 m1 (load_u32 m (load_u32 m (res + 16))) = load_u32 m (load_u32 m (load_u32 m (res + 16)))"
    unfolding load_u32_def [of _ "load_u32 m (load_u32 m (res + 16))"] using assms(2) by (subst L) (auto simp: answer_clear_def)
  ultimately show "answer_addr m1 res = answer_addr m res" by (simp add: answer_addr_def)
qed

lemma plain_text_at: "plain_text (text_at m p n)"
proof -
  have "char_of (unat b) \<noteq> CHR 0x00" if "b \<noteq> 0" for b :: u8
  proof
    assume "char_of (unat b) = CHR 0x00"
    then have "unat b mod 256 = of_char (CHR 0x00)" by (metis of_char_of)
    moreover have "unat b < 256" using unsigned_less [of b, where 'a = nat] by simp
    ultimately have "unat b = 0" by simp
    then show False using that by (simp add: unat_eq_0)
  qed
  then show ?thesis by (auto simp: plain_text_def text_at_def list_all_iff dest: set_takeWhileD)
qed

lemma copy_hostent_result:
  assumes "apart hp buf" "answer_clear hp buf m res"
  defines "M \<equiv> copy_hostent res hp buf m" and "nm \<equiv> answer_name m res"
  shows "load_u32 M hp = buf" "text_at M buf (length nm + 1) = nm"
    "load_u32 M (load_u32 M (load_u32 M (hp + 16))) = answer_addr m res"
proof -
  let ?m1 = "store_u32 m hp buf"
  have s1: "same_outside hp buf m ?m1" using same_outside_hp [of hp buf m m 0] by (simp add: same_outside_def)
  have nm: "answer_name ?m1 res = nm" using answer_same(1) [OF s1 assms(2)] by (simp add: nm_def)
  have l: "length nm \<le> 63" using length_answer_name nm_def by simp
  let ?m2 = "store_bytes ?m1 buf (text_bytes nm @ [0])"
  obtain k where k: "length nm + 1 \<le> k" "k + 20 \<le> 87" and M: "M = copy_tail res hp (buf + word_of_nat k) ?m2"
    using copy_hostent_split [of m hp buf res] by (auto simp: nm M_def)
  note R = copy_tail_result [OF assms(1) k(2), where res = res and ?m2.0 = ?m2, folded M]
  show "load_u32 M hp = buf"
    using R(5) load_far_hp [OF assms(1), of 0 4 0 "text_bytes nm @ [0]" ?m1] l by (simp add: load_u32_def store_u32_def load_store_same [of "be_of_u32 buf", simplified])
  have "load_bytes M buf (length nm + 1) = text_bytes nm @ [0]"
    using R(4) [OF k(1)] load_store_same [of "text_bytes nm @ [0]" ?m1 buf] l by simp
  moreover have "plain_text nm" using plain_text_at by (simp add: nm_def answer_name_def plain_text_def)
  ultimately show "text_at M buf (length nm + 1) = nm"
    using takeWhile_text [of nm "[]"] by (simp add: text_at_def text_bytes_def of_char_u8 comp_def)
  have s2: "same_outside hp buf m ?m2" using same_outside_buf [OF s1, of 0 "text_bytes nm @ [0]"] l by simp
  obtain m5 where m5: "same_outside hp buf ?m2 m5"
      "load_bytes M (buf + word_of_nat (k + 8)) 4 = load_bytes m5 (load_u32 m5 (load_u32 m5 (res + 16))) 4"
    using R(3) by blast
  have "same_outside hp buf m m5" using s2 m5(1) unfolding same_outside_def by metis
  then have "answer_addr m5 res = answer_addr m res" using answer_same(2) assms(2) by blast
  moreover have "load_u32 M (buf + word_of_nat (k + 8)) = answer_addr m5 res"
    using m5(2) by (simp add: answer_addr_def load_u32_def)
  ultimately show "load_u32 M (load_u32 M (load_u32 M (hp + 16))) = answer_addr m res" by (simp add: R(1,2) del: of_nat_add)
qed

text \<open>
  C40. gethostbyname\_r copies the answer and stays inside what the caller gave.  When the daemon has answered, with
  at least the 128 bytes it asks for, the caller's structure leads to the name, cut to 63 characters, and to the
  address of the answer; apart from the error word, only the 20 bytes of the structure and the first 87 bytes of the
  buffer are written, however the buffer is aligned.
\<close>

theorem gethostbyname_r_exact:
  assumes "tn_lvo_gethostbyname name c = Some (res, c1)" "res \<noteq> NULL" "hp \<noteq> NULL" "buf \<noteq> NULL" "128 \<le> buflen"
    "apart hp buf" "answer_clear hp buf (w_mem c1) res"
  shows "\<exists>M. tn_lvo_gethostbyname_r name hp buf buflen he c = Some (hp, put_he he 0 (c1\<lparr>w_mem := M\<rparr>)) \<and>
    text_at M (load_u32 M hp) (length (answer_name (w_mem c1) res) + 1) = answer_name (w_mem c1) res \<and>
    load_u32 M (load_u32 M (load_u32 M (hp + 16))) = answer_addr (w_mem c1) res \<and>
    (\<forall>a. M a \<noteq> w_mem c1 a \<longrightarrow> within hp 20 a \<or> within buf 87 a)"
proof -
  let ?M = "copy_hostent res hp buf (w_mem c1)"
  have "tn_lvo_gethostbyname_r name hp buf buflen he c = Some (hp, put_he he 0 (c1\<lparr>w_mem := ?M\<rparr>))"
    using assms(1-5) by (simp add: tn_lvo_gethostbyname_r_def not_less)
  then show ?thesis
    using copy_hostent_result [OF assms(6,7)] copy_hostent_outside [of hp buf "w_mem c1" res]
    by (intro exI [of _ ?M]) (simp add: same_outside_def own_area_def)
qed

text \<open>
  A daemon that answers gethostbyname with an entry at 0x400: name \<open>amiga.lan\<close> at 0x420, address list at 0x440, address
  10.0.0.7 at 0x450.  The caller's structure is at 0x500 and its buffer at the odd address 0x601.
\<close>

definition lib_resolved :: TnLib where
  "lib_resolved = lib0\<lparr>lb_ipc_timeout_ms := 0,
     w_mem := store_bytes (store_bytes (store_bytes (store_bytes (\<lambda>_. 0)
       0x400 (be_of_u32 0x420 @ be_of_u32 0 @ be_of_u32 2 @ be_of_u32 4 @ be_of_u32 0x440))
       0x420 (text_bytes ''amiga.lan'')) 0x440 (be_of_u32 0x450 @ be_of_u32 0)) 0x450 [10, 0, 0, 7],
     w_rounds := [[DaemonReply 0x1000 ((w_msgs lib0 0)\<lparr>im_result := 0x400, im_err_no := 0\<rparr>)], []]\<rparr>"

lemma not_within:
  assumes "unat p + i < unat q \<and> N + unat q \<le> 2 ^ 32 \<or> unat q + N \<le> unat p + i \<and> unat p + i < 2 ^ 32"
  shows "\<not> within q N (p + word_of_nat i)"
proof -
  have i: "unat p + i < 2 ^ 32" using assms unsigned_less [of q, where 'a = nat] by auto
  then have "unat (word_of_nat i :: u32) = i" by (intro unat_word_of_nat) simp
  then have "unat (p + word_of_nat i) = unat p + i" using i unat_add_lem [of p "word_of_nat i"] by simp
  then show ?thesis using assms by (auto simp: within_def unat_sub_if')
qed

lemma resolved_call:
  "\<exists>c1. tn_lvo_gethostbyname 0x300 lib_resolved = Some (0x400, c1) \<and> w_mem c1 = w_mem lib_resolved"
  by (simp add: tn_lvo_gethostbyname_def fill_def tn_ipc_call_def send_request_def PutMsg_def fault_if_def await_reply_def
    break_mask_def tn_cmd_may_park_def Wait.simps outside_def lib_resolved_def lib0_def finish_call_def collect.simps GetMsg_def
    tn_ipc_release_heap_def Let_def)

lemma resolved_memory:
  "load_u32 (w_mem lib_resolved) 0x400 = 0x420" "load_u32 (w_mem lib_resolved) 0x410 = 0x440"
  "load_u32 (w_mem lib_resolved) 0x440 = 0x450" "load_u32 (w_mem lib_resolved) 0x450 = 0x0A000007"
  by (simp_all add: lib_resolved_def load_u32_def load_bytes_def store_bytes_def u32_of_be_def be_of_u32_def upt_rec Let_def)

lemma resolved_clear: "apart 0x500 0x601" "w_mem c1 = w_mem lib_resolved \<Longrightarrow> answer_clear 0x500 0x601 (w_mem c1) 0x400"
proof -
  show "apart 0x500 0x601" unfolding apart_def by (intro allI impI not_within) simp
  have "\<not> own_area 0x500 0x601 (p + word_of_nat i)" if "unat p + i < 0x500" for p i
    unfolding own_area_def using that not_within [of p i "0x500" 20] not_within [of p i "0x601" 87] by simp
  then show "answer_clear 0x500 0x601 (w_mem c1) 0x400" if "w_mem c1 = w_mem lib_resolved"
    unfolding answer_clear_def that using resolved_memory by simp
qed

theorem gethostbyname_r_exact_witness:
  "\<exists>c1 M. tn_lvo_gethostbyname_r 0x300 0x500 0x601 128 0 lib_resolved = Some (0x500, c1\<lparr>w_mem := M\<rparr>) \<and>
    load_u32 M (load_u32 M (load_u32 M (0x500 + 16))) = 0x0A000007"
proof -
  obtain c1 where c1: "tn_lvo_gethostbyname 0x300 lib_resolved = Some (0x400, c1)" "w_mem c1 = w_mem lib_resolved"
    using resolved_call by blast
  have "answer_addr (w_mem c1) 0x400 = 0x0A000007" using resolved_memory by (simp add: answer_addr_def c1(2))
  then show ?thesis
    using gethostbyname_r_exact [OF c1(1) _ _ _ _ resolved_clear(1) resolved_clear(2) [OF c1(2)], of 128 0]
    by (auto simp: put_he_def)
qed

section \<open>Tables and iterators\<close>

lemma strcasecmp_refl: "strcasecmp_loop s s = 0"
  by (induction s) simp_all

fun calls :: "('c \<Rightarrow> 'r \<times> 'c) \<Rightarrow> nat \<Rightarrow> 'c \<Rightarrow> 'r list" where
  "calls f 0 c = []"
| "calls f (Suc n) c = fst (f c) # calls f n (snd (f c))"

text \<open>The protocol iterator lists the table and then ends.\<close>

lemma getprotoent_lists:
  "calls tn_lvo_getprotoent 5 (tn_lvo_setprotoent c) = map (Some \<circ> protoent_of) g_protocols @ [None]"
proof -
  have "calls tn_lvo_getprotoent 5 (tn_lvo_setprotoent c) = calls tn_lvo_getprotoent 5 (c\<lparr>lb_protoent_idx := 0\<rparr>)"
    by (simp add: tn_lvo_setprotoent_def)
  also have "\<dots> = map (Some \<circ> protoent_of) g_protocols @ [None]"
    by (simp add: numeral_eq_Suc tn_lvo_getprotoent_def g_protocols_def tn_lvo_getprotobyname_def tn_strcasecmp_def
      fold_case_def schar_def Let_def)
  finally show ?thesis .
qed

text \<open>
  The service iterator does not: it looks each entry up by its name alone, so an entry behind another of the same
  name is never returned, although getservbyname finds it.
\<close>

lemma getservent_hides_udp:
  "\<forall>n. Some \<lparr>s_name = ''echo'', s_port = 7, s_proto = ''udp''\<rparr> \<notin> set (calls tn_lvo_getservent n c)"
  "tn_lvo_getservbyname (Some ''echo'') (Some ''udp'') = Some \<lparr>s_name = ''echo'', s_port = 7, s_proto = ''udp''\<rparr>"
proof -
  have "list_all (\<lambda>s. tn_lvo_getservbyname (Some (fst s)) None \<noteq> Some \<lparr>s_name = ''echo'', s_port = 7, s_proto = ''udp''\<rparr>) g_services"
    by code_simp
  then have "fst (tn_lvo_getservent d) \<noteq> Some \<lparr>s_name = ''echo'', s_port = 7, s_proto = ''udp''\<rparr>" for d
    by (auto simp: tn_lvo_getservent_def Let_def list_all_length)
  then have "Some \<lparr>s_name = ''echo'', s_port = 7, s_proto = ''udp''\<rparr> \<notin> set (calls tn_lvo_getservent n d)" for n d
    by (induction n arbitrary: d) (auto dest: sym)
  then show "\<forall>n. Some \<lparr>s_name = ''echo'', s_port = 7, s_proto = ''udp''\<rparr> \<notin> set (calls tn_lvo_getservent n c)" by blast
  show "tn_lvo_getservbyname (Some ''echo'') (Some ''udp'') = Some \<lparr>s_name = ''echo'', s_port = 7, s_proto = ''udp''\<rparr>"
    by code_simp
qed

text \<open>Every service is found by its name and protocol, and by its port and protocol.\<close>

lemma services_found:
  "list_all (\<lambda>(n, p, port). tn_lvo_getservbyname (Some n) (Some p) = Some \<lparr>s_name = n, s_port = uint port, s_proto = p\<rparr> \<and>
     tn_lvo_getservbyport (uint port) (Some p) = Some \<lparr>s_name = n, s_port = uint port, s_proto = p\<rparr>) g_services"
  by code_simp

section \<open>Log lines\<close>

lemma expand_bound: "length dst < cap \<Longrightarrow> length (expand_loop cap err dst fmt) < cap"
proof (induction cap err dst fmt rule: expand_loop.induct)
  case (1 cap err dst fmt)
  show ?case
    by (subst expand_loop.simps) (use 1 in \<open>auto simp: Let_def not_le\<close>)
qed

text \<open>A line always fits the 200 bytes of the base, its terminator included.\<close>

lemma syslog_line_bound: "length (syslog_line fmt_out msg args c) \<le> 199"
proof -
  have "length (text_at (w_mem c) (lb_log_tag_ptr c) 32) \<le> 32"
    by (auto simp: text_at_def intro: order_trans [OF length_takeWhile_le])
  then show ?thesis by (auto simp: syslog_line_def Let_def min_def)
qed

text \<open>Logging never disturbs errno.\<close>

lemma vsyslog_keeps_errno:
  assumes "tn_lvo_vsyslog fmt_out syslog_buf level pri msg args c = Some c1"
  shows "lb_task_errno c1 = lb_task_errno c"
proof -
  have "lb_task_errno (tn_set_errno_val e d) = e" for e d
    by (auto simp: tn_set_errno_val_def Let_def split: option.splits)
  then show ?thesis
    using assms by (auto simp: tn_lvo_vsyslog_def tn_syslog_send_def bind_eq_Some_conv Let_def split: option.splits if_splits)
qed

end
