(* ===== verification/Lib_Select.thy ===== *)
theory Lib_Select
  imports Lib_Lvo Ipc_Select
begin

text \<open>
  WaitSelect on the client side (lib/lib\_vectors.c): the descriptor words travel in the request, the selector of the
  daemon is armed, the task waits for its signal, the timer or a break, and the ready sets are queried.
  A descriptor set is two words in client memory; a signal mask pointer may be NULL.
\<close>

section \<open>Rounds\<close>

text \<open>No request gives rounds back.\<close>

lemma frame_rounds [simp]:
  "w_rounds (tn_set_errno_val e c) = w_rounds c" "w_rounds (SetSignal n s c) = w_rounds c"
  "w_rounds (PutMsg p c) = w_rounds c" "w_rounds (FreeVec p c) = w_rounds c" "w_rounds (snd (AllocVec c)) = w_rounds c"
  "w_rounds (tn_ipc_orphan_heap p c) = w_rounds c" "w_rounds (tn_ipc_release_heap p c) = w_rounds c"
  "w_rounds (put_cancel p q c) = w_rounds c" "w_rounds (send_request cmd p c) = w_rounds c"
  by (auto simp: tn_set_errno_val_def SetSignal_def PutMsg_def FreeVec_def AllocVec_def fault_if_def tn_ipc_orphan_heap_def
    tn_ipc_release_heap_def put_cancel_def send_request_def Let_def split: option.splits list.splits)

abbreviation (input) fewer :: "TnLib \<Rightarrow> TnLib \<Rightarrow> bool" where
  "fewer d c \<equiv> length (w_rounds d) \<le> length (w_rounds c)"

lemma drain_lap_fewer: "drain_lap b t0 c = Some (e, d) \<Longrightarrow> fewer d c"
proof (cases e)
  case None
  then show "drain_lap b t0 c = Some (e, d) \<Longrightarrow> fewer d c"
    by (auto simp: drain_lap_def bind_eq_Some_conv split: if_splits)
qed (auto dest: drain_lap_rounds)

lemma cancel_drain_fewer: "cancel_drain b t0 m k gm gc c = Some (gm1, gc1, d) \<Longrightarrow> fewer d c"
proof (induction b t0 m k gm gc c rule: cancel_drain.induct)
  case (1 b t0 m k gm gc c)
  show ?case
  proof (cases "gm \<and> gc")
    case False
    then obtain e c1 where l: "drain_lap b t0 c = Some (e, c1)"
      using 1(4) by (subst (asm) cancel_drain.simps) (auto split: option.splits)
    have "fewer c1 c" by (rule drain_lap_fewer [OF l])
    moreover have "fewer d c1"
      using 1 False l by (subst (asm) (4) cancel_drain.simps) (auto split: option.splits if_splits)
    ultimately show ?thesis by simp
  qed (use 1(4) in \<open>simp add: cancel_drain.simps\<close>)
qed

lemma await_embedded_fewer: "await_embedded m c = Some d \<Longrightarrow> fewer d c"
proof (induction m c rule: await_embedded.induct)
  case (1 m c)
  show ?case
    using 1(2) 1(1) by (subst (asm) await_embedded.simps)
      (fastforce split: option.splits if_splits dest: rounds_less)
qed

lemma drain_late_fewer: "drain_late c = Some d \<Longrightarrow> fewer d c"
proof (induction c rule: drain_late.induct)
  case (1 c)
  show ?case
    using 1(2) 1(1) by (subst (asm) drain_late.simps) (fastforce split: option.splits if_splits dest: rounds_less)
qed

lemma watchdog_fewer: "watchdog cmd t0 b c = Some (w, d) \<Longrightarrow> fewer d c"
proof (induction cmd t0 b c rule: watchdog.induct)
  case (1 cmd t0 b c)
  show ?case
    using 1(2) 1(1) by (subst (asm) watchdog.simps) (fastforce simp: Let_def split: option.splits if_splits dest: rounds_less)
qed

lemma collect_fewer: "collect m n c = Some (x, d) \<Longrightarrow> fewer d c"
proof (induction m n c rule: collect.induct)
  case (1 m n c)
  show ?case
    using 1(2) 1(1) by (subst (asm) collect.simps) (fastforce split: option.splits if_splits nat.splits dest: rounds_less)
qed

lemma cancel_inflight_fewer: "tn_ipc_cancel_inflight m a c = Some (x, d) \<Longrightarrow> fewer d c"
  by (auto simp: tn_ipc_cancel_inflight_def bind_eq_Some_conv Let_def case_prod_unfold split: if_splits
    dest!: await_embedded_fewer cancel_drain_fewer)

lemma finish_call_fewer: "finish_call m h c = Some (r, d) \<Longrightarrow> fewer d c"
  by (auto simp: finish_call_def bind_eq_Some_conv Let_def split: if_splits dest!: collect_fewer)

lemma broken_call_fewer: "broken_call w m h brk c = Some (r, d) \<Longrightarrow> fewer d c"
  by (auto simp: broken_call_def bind_eq_Some_conv Let_def split: if_splits dest!: cancel_inflight_fewer)

lemma await_reply_fewer:
  assumes "await_reply cmd m h c = Some (r, d)"
  shows "fewer d c"
proof (cases "h \<noteq> NULL \<and> tn_ensure_timer c")
  case True
  then obtain w c1 where w: "watchdog cmd (tn_ticks_now (SetSignal 0 (w_tm_sig c) c)) (lb_ipc_timeout_ms (SetSignal 0 (w_tm_sig c) c))
      (SetSignal 0 (w_tm_sig c) c) = Some (w, c1)"
    using assms by (auto simp: await_reply_def bind_eq_Some_conv Let_def)
  have "fewer d c1"
    using assms w True
    by (auto simp: await_reply_def bind_eq_Some_conv Let_def split: wake.splits dest!: broken_call_fewer finish_call_fewer cancel_inflight_fewer)
  then show ?thesis using watchdog_fewer [OF w] by simp
next
  case False
  then obtain g c1 where w: "Wait (w_reply_sig c OR break_mask cmd c) c = Some (g, c1)"
    using assms by (auto simp: await_reply_def bind_eq_Some_conv)
  have "fewer d c1"
    using assms w False by (auto simp: await_reply_def bind_eq_Some_conv Let_def split: if_splits dest!: broken_call_fewer finish_call_fewer)
  then show ?thesis using Wait_rounds [OF w] by simp
qed

lemma ipc_call_fewer:
  assumes "tn_ipc_call cmd c = Some (r, d)"
  shows "fewer d c"
proof -
  have alloc: "fewer (snd (AllocVec x)) x" for x by simp
  show ?thesis
    using assms alloc
    by (auto simp: tn_ipc_call_def bind_eq_Some_conv Let_def case_prod_unfold split: if_splits
      dest!: await_reply_fewer drain_late_fewer)
qed

section \<open>Descriptor sets\<close>

definition fds_zero :: "ptr \<Rightarrow> u32 \<Rightarrow> TnLib \<Rightarrow> TnLib" where
  "fds_zero s off c = (if s = NULL then c else c\<lparr>w_mem := store_u32 (w_mem c) (s + off) 0\<rparr>)"

definition tn_ws_zero :: "ptr \<Rightarrow> ptr \<Rightarrow> ptr \<Rightarrow> int \<Rightarrow> TnLib \<Rightarrow> TnLib" where
  "tn_ws_zero r w e nfds c =
     fold (\<lambda>off c. fds_zero e off (fds_zero w off (fds_zero r off c))) (if 32 < nfds then [0, 4] else [0]) c"

definition tn_ws_save :: "ptr \<Rightarrow> int \<Rightarrow> TnLib \<Rightarrow> u32 \<times> u32" where
  "tn_ws_save s nfds c =
     (if s = NULL then (0, 0) else (load_u32 (w_mem c) s, if 32 < nfds then load_u32 (w_mem c) (s + 4) else 0))"

definition tn_ws_restore :: "ptr \<Rightarrow> u32 \<times> u32 \<Rightarrow> int \<Rightarrow> TnLib \<Rightarrow> TnLib" where
  "tn_ws_restore s orig nfds c =
     (if s = NULL then c
      else let m = store_u32 (w_mem c) s (fst orig)
           in c\<lparr>w_mem := (if 32 < nfds then store_u32 m (s + 4) (snd orig) else m)\<rparr>)"

definition tn_ws_clear_range :: "ptr \<Rightarrow> int \<Rightarrow> int \<Rightarrow> TnLib \<Rightarrow> TnLib" where
  "tn_ws_clear_range s from to c =
     (if s = NULL then c
      else c\<lparr>w_mem := fold (\<lambda>fd m. let p = s + word_of_nat (4 * (fd div 32))
                                  in store_u32 m p (load_u32 m p AND NOT (push_bit (fd mod 32) 1)))
                      [nat from..<nat to] (w_mem c)\<rparr>)"

definition put_signals :: "ptr \<Rightarrow> u32 \<Rightarrow> TnLib \<Rightarrow> TnLib" where
  "put_signals signals v c = (if signals = NULL then c else c\<lparr>w_mem := store_u32 (w_mem c) signals v\<rparr>)"

definition tn_ws_interrupted ::
  "u32 \<Rightarrow> u32 \<Rightarrow> u32 \<Rightarrow> ptr \<Rightarrow> ptr \<Rightarrow> ptr \<Rightarrow> ptr \<Rightarrow> int \<Rightarrow> TnLib \<Rightarrow> int \<times> TnLib" where
  "tn_ws_interrupted got user_mask brk_mask signals r w e nfds c =
     (let user_got = got AND user_mask; brk_got = got AND brk_mask;
          c = tn_set_errno_val EINTR (tn_ws_zero r w e nfds c);
          c = (if brk_got \<noteq> 0 then SetSignal brk_got brk_got c else c)
      in if user_got \<noteq> 0 then (0, put_signals signals user_got (SetSignal 0 user_got c))
         else (-1, put_signals signals 0 c))"

section \<open>The wait\<close>

text \<open>What one call keeps: the clipped count, the sets, their words on entry, the masks and the timeout in ticks.\<close>

record waitselect =
  ws_nfds :: int
  ws_r :: ptr
  ws_w :: ptr
  ws_e :: ptr
  ws_orig_r :: "u32 \<times> u32"
  ws_orig_w :: "u32 \<times> u32"
  ws_orig_e :: "u32 \<times> u32"
  ws_user_mask :: u32
  ws_brk_mask :: u32
  ws_signals :: ptr
  ws_has_timeout :: bool
  ws_budget :: u32

definition ws_restore :: "waitselect \<Rightarrow> TnLib \<Rightarrow> TnLib" where
  "ws_restore W c =
     tn_ws_restore (ws_e W) (ws_orig_e W) (ws_nfds W) (tn_ws_restore (ws_w W) (ws_orig_w W) (ws_nfds W)
       (tn_ws_restore (ws_r W) (ws_orig_r W) (ws_nfds W) c))"

definition ws_arm :: "waitselect \<Rightarrow> TnLib \<Rightarrow> (int \<times> TnLib) option" where
  "ws_arm W c =
     tn_ipc_call 29 (fill [(0, ws_nfds W), (1, sint (fst (ws_orig_r W))), (2, sint (fst (ws_orig_w W))), (3, sint (fst (ws_orig_e W)))]
       [(0, ws_r W), (1, ws_w W), (2, ws_e W)] c)"

definition ws_disarm :: "TnLib \<Rightarrow> TnLib option" where
  "ws_disarm c = map_option snd (tn_ipc_call 30 c)"

definition ws_query :: "waitselect \<Rightarrow> TnLib \<Rightarrow> (int \<times> TnLib) option" where
  "ws_query W c = tn_ipc_call 20 (fill [(0, ws_nfds W)] [(0, ws_r W), (1, ws_w W), (2, ws_e W)] c)"

definition ws_sig_mask :: "waitselect \<Rightarrow> u32" where
  "ws_sig_mask W = (ws_user_mask W OR ws_brk_mask W)"

definition ws_interrupted :: "waitselect \<Rightarrow> u32 \<Rightarrow> TnLib \<Rightarrow> int \<times> TnLib" where
  "ws_interrupted W got c =
     tn_ws_interrupted got (ws_user_mask W) (ws_brk_mask W) (ws_signals W) (ws_r W) (ws_w W) (ws_e W) (ws_nfds W) c"

text \<open>The seconds and microseconds in 1/50 s, saturating.\<close>

definition budget_ticks :: "u32 \<times> u32 \<Rightarrow> u32" where
  "budget_ticks tv =
     (if fst tv > 0xFFFFFFFF div 50 then 0xFFFFFFFF
      else let s = fst tv * 50; b = s + snd tv div 20000; b = (if b < s then 0xFFFFFFFF else b)
           in if b = 0 then 1 else b)"

text \<open>After a wake: \<open>Some r\<close> is the result of the call, \<open>None\<close> another attempt.\<close>

definition ws_woken :: "waitselect \<Rightarrow> u32 \<Rightarrow> u32 \<Rightarrow> TnLib \<Rightarrow> (int option \<times> TnLib) option" where
  "ws_woken W t0 fired c = do {
     c \<leftarrow> (if 0 < ws_nfds W then ws_disarm c else Some c);
     (if ws_sig_mask W \<noteq> 0 \<and> fired AND ws_sig_mask W \<noteq> 0
      then let (r, c) = ws_interrupted W (fired AND ws_sig_mask W) c in Some (Some r, c)
      else do {
        let elapsed = tn_ticks_now c - t0;
        (res, c) \<leftarrow> ws_query W (ws_restore W c);
        let c = put_signals (ws_signals W) 0 c;
        (if res \<noteq> 0 then Some (Some res, c)
         else if \<not> ws_has_timeout W then do {
           (arm_res, c) \<leftarrow> ws_arm W (ws_restore W c);
           Some (if 0 < arm_res then Some arm_res else if arm_res < 0 then Some (-1) else None, c) }
         else if ws_budget W \<le> elapsed + 3 then Some (Some 0, tn_ws_zero (ws_r W) (ws_w W) (ws_e W) (ws_nfds W) c)
         else do {
           (arm_res, c) \<leftarrow> ws_arm W (ws_restore W c);
           Some (if 0 < arm_res then Some arm_res else None, c) }) }) }"

definition ws_spent :: "waitselect \<Rightarrow> u32 \<Rightarrow> TnLib \<Rightarrow> bool" where
  "ws_spent W t0 c = (ws_has_timeout W \<and> ws_budget W \<le> tn_ticks_now c - t0)"

definition ws_mask :: "waitselect \<Rightarrow> TnLib \<Rightarrow> u32" where
  "ws_mask W c =
     (ws_sig_mask W OR (if 0 < ws_nfds W then if lb_sig_select c \<noteq> 0 then lb_sig_select c else lb_sig_io c else 0)
      OR (if ws_has_timeout W then w_tm_sig c else 0))"

definition ws_wait :: "waitselect \<Rightarrow> TnLib \<Rightarrow> (u32 \<times> TnLib) option" where
  "ws_wait W c = (if ws_has_timeout W
     then map_option (\<lambda>(fired, c). (fired, retire_timer c)) (Wait (ws_mask W c) (SendIO c)) else Wait (ws_mask W c) c)"

lemma disarm_fewer: "ws_disarm c = Some d \<Longrightarrow> fewer d c"
  by (auto simp: ws_disarm_def dest: ipc_call_fewer)

lemma ws_frame_rounds [simp]:
  "w_rounds (fill as ps c) = w_rounds c" "w_rounds (put_signals s v c) = w_rounds c"
  "w_rounds (tn_ws_zero r w e n c) = w_rounds c" "w_rounds (ws_restore W c) = w_rounds c"
  "w_rounds (snd (ws_interrupted W g c)) = w_rounds c"
  by (auto simp: fill_def put_signals_def tn_ws_zero_def fds_zero_def ws_restore_def tn_ws_restore_def ws_interrupted_def
    tn_ws_interrupted_def Let_def)

lemma arm_fewer: "ws_arm W c = Some (r, d) \<Longrightarrow> fewer d c"
  using ipc_call_fewer by (fastforce simp: ws_arm_def)

lemma query_fewer: "ws_query W c = Some (r, d) \<Longrightarrow> fewer d c"
  using ipc_call_fewer by (fastforce simp: ws_query_def)

lemma woken_fewer: "ws_woken W t0 g c = Some (r, d) \<Longrightarrow> fewer d c"
proof -
  assume run: "ws_woken W t0 g c = Some (r, d)"
  then obtain c1 where c1: "(if 0 < ws_nfds W then ws_disarm c else Some c) = Some c1"
    by (auto simp: ws_woken_def bind_eq_Some_conv)
  have "fewer c1 c" using c1 by (auto split: if_splits dest: disarm_fewer)
  moreover have "fewer d c1"
  proof (cases "ws_sig_mask W \<noteq> 0 \<and> g AND ws_sig_mask W \<noteq> 0")
    case True
    then have "d = snd (ws_interrupted W (g AND ws_sig_mask W) c1)"
      using run c1 by (auto simp: ws_woken_def case_prod_unfold Let_def)
    then show ?thesis by simp
  next
    case False
    then obtain res c2 where q: "ws_query W (ws_restore W c1) = Some (res, c2)"
      using run c1 by (auto simp: ws_woken_def bind_eq_Some_conv)
    have "fewer d c2"
      using run c1 False q by (auto simp: ws_woken_def bind_eq_Some_conv Let_def split: if_splits dest!: arm_fewer)
    then show ?thesis using query_fewer [OF q] by simp
  qed
  ultimately show ?thesis by simp
qed

lemma ws_wait_rounds: "ws_wait W c = Some (g, d) \<Longrightarrow> length (w_rounds d) < length (w_rounds c)"
  by (auto simp: ws_wait_def split: if_splits dest!: Wait_rounds)

function ws_loop :: "waitselect \<Rightarrow> u32 \<Rightarrow> TnLib \<Rightarrow> (int \<times> TnLib) option" where
  "ws_loop W t0 c0 =
     (let c = SetSignal 0 (w_tm_sig c0) c0 in
      if ws_spent W t0 c then
        (let c = put_signals (ws_signals W) 0 (tn_ws_zero (ws_r W) (ws_w W) (ws_e W) (ws_nfds W) c)
         in map_option (\<lambda>c. (0, c)) (if 0 < ws_nfds W then ws_disarm c else Some c))
      else case ws_wait W c of None \<Rightarrow> None
      | Some (fired, c1) \<Rightarrow>
          (case ws_woken W t0 fired c1 of None \<Rightarrow> None
           | Some (Some r, c2) \<Rightarrow> Some (r, c2)
           | Some (None, c2) \<Rightarrow> ws_loop W t0 c2))"
  by pat_completeness auto
termination
  by (relation "measure (\<lambda>(_, _, c). length (w_rounds c))") (auto dest!: ws_wait_rounds woken_fewer)

declare ws_loop.simps [simp del]

text \<open>Only descriptors below 64 and below the table size can be asked for; the bits above are cleared.\<close>

definition ws_clip :: "int \<Rightarrow> ptr \<Rightarrow> ptr \<Rightarrow> ptr \<Rightarrow> TnLib \<Rightarrow> int \<times> TnLib" where
  "ws_clip nfds r w e c =
     (let lim = (if lb_dtablesize c > 64 then 64 else lb_dtablesize c) in
      if nfds > lim
      then let top = (if nfds < 64 then nfds else 64)
           in (lim, tn_ws_clear_range e lim top (tn_ws_clear_range w lim top (tn_ws_clear_range r lim top c)))
      else (nfds, c))"

definition ws_setup :: "int \<Rightarrow> ptr \<Rightarrow> ptr \<Rightarrow> ptr \<Rightarrow> (u32 \<times> u32) option \<Rightarrow> ptr \<Rightarrow> TnLib \<Rightarrow> waitselect" where
  "ws_setup nfds r w e timeout signals c =
     (let user_mask = (if signals = NULL then 0 else load_u32 (w_mem c) signals) in
      \<lparr>ws_nfds = nfds, ws_r = r, ws_w = w, ws_e = e, ws_orig_r = tn_ws_save r nfds c, ws_orig_w = tn_ws_save w nfds c,
       ws_orig_e = tn_ws_save e nfds c, ws_user_mask = user_mask, ws_brk_mask = lb_sig_int c AND NOT user_mask,
       ws_signals = signals, ws_has_timeout = (timeout \<noteq> None),
       ws_budget = (case timeout of None \<Rightarrow> 0 | Some tv \<Rightarrow> budget_ticks tv)\<rparr>)"

text \<open>The wait proper, once the selector is armed.\<close>

definition ws_enter :: "waitselect \<Rightarrow> TnLib \<Rightarrow> (int \<times> TnLib) option" where
  "ws_enter W c =
     (if 0 < ws_nfds W \<and> lb_sig_select c = 0 \<and> lb_sig_io c = 0
      then do { c \<leftarrow> ws_disarm c; Some (-1, tn_set_errno_val ENOBUFS c) }
      else if \<not> tn_ensure_timer c
      then do { c \<leftarrow> (if 0 < ws_nfds W then ws_disarm c else Some c); Some (-1, tn_set_errno_val ENOBUFS c) }
      else ws_loop W (tn_ticks_now c) c)"

text \<open>Without descriptors: a sleep, or with no timeout a wait for the signals.\<close>

definition ws_sleep :: "waitselect \<Rightarrow> bool \<Rightarrow> TnLib \<Rightarrow> (int \<times> TnLib) option" where
  "ws_sleep W zero_timeout c =
     (if \<not> ws_has_timeout W \<or> zero_timeout then
        (if \<not> ws_has_timeout W \<and> ws_sig_mask W \<noteq> 0 then do {
           (got, c) \<leftarrow> Wait (ws_sig_mask W) c;
           let got2 = got AND ws_sig_mask W;
           let c = tn_set_errno_val EINTR (SetSignal got2 got2 c);
           Some (if got2 AND ws_user_mask W = 0 then (-1, put_signals (ws_signals W) 0 c)
                 else (0, put_signals (ws_signals W) (got2 AND ws_user_mask W) c)) }
         else Some (0, put_signals (ws_signals W) 0 c))
      else ws_enter W c)"

definition ws_select :: "waitselect \<Rightarrow> bool \<Rightarrow> TnLib \<Rightarrow> (int \<times> TnLib) option" where
  "ws_select W zero_timeout c = do {
     (res, c) \<leftarrow> ws_arm W c;
     (if res < 0 then do { c \<leftarrow> ws_disarm c; Some (-1, c) }
      else if res > 0 then Some (res, put_signals (ws_signals W) 0 c)
      else if zero_timeout then do {
        c \<leftarrow> ws_disarm c;
        Some (0, put_signals (ws_signals W) 0 (tn_ws_zero (ws_r W) (ws_w W) (ws_e W) (ws_nfds W) c)) }
      else ws_enter W c) }"

definition tn_lvo_waitselect ::
  "int \<Rightarrow> ptr \<Rightarrow> ptr \<Rightarrow> ptr \<Rightarrow> (u32 \<times> u32) option \<Rightarrow> ptr \<Rightarrow> TnLib \<Rightarrow> (int \<times> TnLib) option" where
  "tn_lvo_waitselect nfds0 r w e timeout signals c =
     (let chk = tn_fdset_check_nfds nfds0 in
      if chk \<noteq> 0 then Some (-1, tn_set_errno_val chk c)
      else let (nfds, c) = ws_clip nfds0 r w e c; W = ws_setup nfds r w e timeout signals c;
               received = w_signals c AND ws_sig_mask W in
      if received \<noteq> 0 then Some (ws_interrupted W received c)
      else let c = (if lb_sig_select c \<noteq> 0 then SetSignal 0 (lb_sig_select c) c
                    else if lb_sig_io c \<noteq> 0 then SetSignal 0 (lb_sig_io c) c else c) in
      if 0 < nfds then ws_select W (timeout = Some (0, 0)) c else ws_sleep W (timeout = Some (0, 0)) c)"

end
