(* ===== verification/Lib_Select_Props.thy ===== *)
theory Lib_Select_Props
  imports Lib_Select Lib_Lvo_Props
begin

text \<open>
  WaitSelect: whatever happens while it waits, it leaves no timer request or message behind, and a wait without
  timeout returns 0 only for a signal the caller asked for.
\<close>

section \<open>At rest\<close>

lemma ipc_call_rest:
  assumes "tn_ipc_call cmd c = Some (r, d)" "at_rest c"
  shows "at_rest d"
proof -
  have "inflight {} d \<and> same_mode c d" using assms by (intro ipc_call_inflight) (auto simp: at_rest_def)
  then show ?thesis
    using assms(2) by (cases "lb_ipc_timeout_ms c = 0") (auto simp: at_rest_def same_mode_def word_neq_0_conv)
qed

lemma rest_drains: "at_rest c \<Longrightarrow> drains c d \<Longrightarrow> at_rest d"
  using inflight_drains by (auto simp: at_rest_def drains_def)

lemma rest_frame [simp]:
  "at_rest (c\<lparr>w_mem := m\<rparr>) = at_rest c" "at_rest (c\<lparr>w_msgs := x\<rparr>) = at_rest c"
  "at_rest (tn_set_errno_val e c) = at_rest c" "at_rest (SetSignal n s c) = at_rest c"
  by (auto simp: at_rest_def inflight_def tn_set_errno_val_def SetSignal_def Let_def split: option.splits)

lemma rest_parts [simp]:
  "at_rest (fill as ps c) = at_rest c" "at_rest (put_signals s v c) = at_rest c"
  "at_rest (fds_zero s off c) = at_rest c" "at_rest (tn_ws_restore s orig n c) = at_rest c"
  "at_rest (tn_ws_clear_range s a b c) = at_rest c"
  by (simp_all add: fill_def put_signals_def fds_zero_def tn_ws_restore_def tn_ws_clear_range_def Let_def)

lemma rest_sets [simp]:
  "at_rest (tn_ws_zero r w e n c) = at_rest c" "at_rest (ws_restore W c) = at_rest c"
  "at_rest (snd (ws_interrupted W g c)) = at_rest c" "at_rest (snd (ws_clip n r w e c)) = at_rest c"
  by (simp_all add: tn_ws_zero_def ws_restore_def ws_interrupted_def tn_ws_interrupted_def ws_clip_def Let_def)

lemma ws_calls_rest:
  "ws_arm W c = Some (r, d) \<Longrightarrow> at_rest c \<Longrightarrow> at_rest d"
  "ws_query W c = Some (r, d) \<Longrightarrow> at_rest c \<Longrightarrow> at_rest d"
  "ws_disarm c = Some d \<Longrightarrow> at_rest c \<Longrightarrow> at_rest d"
  by (auto simp: ws_arm_def ws_query_def ws_disarm_def dest: ipc_call_rest)

lemma ws_wait_rest:
  assumes "ws_wait W c = Some (g, d)" "at_rest c"
  shows "at_rest d"
proof (cases "ws_has_timeout W")
  case True
  then obtain d0 where "Wait (ws_mask W c) (SendIO c) = Some (g, d0)" "d = retire_timer d0"
    using assms(1) by (auto simp: ws_wait_def)
  moreover have "\<not> w_timer_sent c" using assms(2) by (simp add: at_rest_def inflight_def)
  ultimately have "drains c d" using drains_timed by simp
  then show ?thesis using rest_drains assms(2) by blast
next
  case False
  then show ?thesis using assms rest_drains drains_Wait by (auto simp: ws_wait_def)
qed

section \<open>The result of an interrupted wait\<close>

text \<open>A result of 0 without a timeout: a signal the caller asked for, reported in \<open>*signals\<close>, errno EINTR.\<close>

definition signalled :: "waitselect \<Rightarrow> TnLib \<Rightarrow> bool" where
  "signalled W d = (ws_signals W \<noteq> NULL \<and> load_u32 (w_mem d) (ws_signals W) \<noteq> 0 \<and>
     load_u32 (w_mem d) (ws_signals W) AND NOT (ws_user_mask W) = 0 \<and> lb_task_errno d = EINTR)"

definition ws_ok :: "waitselect \<Rightarrow> int \<Rightarrow> TnLib \<Rightarrow> bool" where
  "ws_ok W r d = (at_rest d \<and> (r = 0 \<longrightarrow> \<not> ws_has_timeout W \<longrightarrow> signalled W d))"

definition ws_wf :: "waitselect \<Rightarrow> bool" where
  "ws_wf W = (ws_signals W = NULL \<longrightarrow> ws_user_mask W = 0)"

lemma errno_after [simp]:
  "lb_task_errno (tn_set_errno_val e c) = e" "lb_task_errno (SetSignal n s c) = lb_task_errno c"
  "lb_task_errno (put_signals p v c) = lb_task_errno c"
  by (auto simp: tn_set_errno_val_def SetSignal_def put_signals_def Let_def split: option.splits)

lemma interrupted_ok:
  assumes "at_rest c" "ws_wf W" "ws_interrupted W g c = (r, d)"
  shows "ws_ok W r d"
proof -
  have rest: "at_rest d" using rest_sets(3) [of W g c] assms(1,3) by simp
  have "signalled W d" if "r = 0"
    using that assms(2,3)
    by (auto simp: ws_interrupted_def tn_ws_interrupted_def signalled_def ws_wf_def put_signals_def Let_def and.assoc
      split: if_splits)
  then show ?thesis using rest by (simp add: ws_ok_def)
qed

lemma woken_ok:
  assumes "ws_woken W t0 g c = Some (x, d)" "at_rest c" "ws_wf W"
  shows "at_rest d \<and> (\<forall>r. x = Some r \<longrightarrow> ws_ok W r d)"
proof -
  obtain c1 where c1: "(if 0 < ws_nfds W then ws_disarm c else Some c) = Some c1"
    using assms(1) by (auto simp: ws_woken_def bind_eq_Some_conv)
  then have rest: "at_rest c1" using assms(2) by (auto split: if_splits dest: ws_calls_rest(3))
  show ?thesis
  proof (cases "ws_sig_mask W \<noteq> 0 \<and> g AND ws_sig_mask W \<noteq> 0")
    case True
    obtain r d1 where i: "ws_interrupted W (g AND ws_sig_mask W) c1 = (r, d1)" by fastforce
    then have "x = Some r" "d = d1" using assms(1) c1 True by (auto simp: ws_woken_def Let_def)
    then show ?thesis using interrupted_ok [OF rest assms(3) i] by (simp add: ws_ok_def)
  next
    case False
    then obtain res c2 where q: "ws_query W (ws_restore W c1) = Some (res, c2)"
      using assms(1) c1 by (auto simp: ws_woken_def bind_eq_Some_conv)
    then have "at_rest c2" using rest ws_calls_rest(2) by simp
    then show ?thesis
      using assms(1) c1 False q
      by (auto simp: ws_woken_def bind_eq_Some_conv Let_def ws_ok_def split: if_splits dest!: ws_calls_rest(1))
  qed
qed

lemma loop_ok:
  assumes "ws_loop W t0 c = Some (r, d)" "at_rest c" "ws_wf W"
  shows "ws_ok W r d"
  using assms
proof (induction W t0 c rule: ws_loop.induct)
  case (1 W t0 c0)
  let ?c = "SetSignal 0 (w_tm_sig c0) c0"
  show ?case
  proof (cases "ws_spent W t0 ?c")
    case True
    then show ?thesis
      using 1(2-4) by (subst (asm) ws_loop.simps)
        (auto simp: Let_def ws_ok_def ws_spent_def split: if_splits dest!: ws_calls_rest(3))
  next
    case False
    then obtain g c1 where w: "ws_wait W ?c = Some (g, c1)"
      using 1(2) by (subst (asm) ws_loop.simps) (auto simp: Let_def split: option.splits)
    then obtain x c2 where k: "ws_woken W t0 g c1 = Some (x, c2)"
      using 1(2) False by (subst (asm) ws_loop.simps) (auto simp: Let_def split: option.splits)
    have c2: "at_rest c2" "\<forall>r. x = Some r \<longrightarrow> ws_ok W r c2"
      using woken_ok [OF k ws_wait_rest [OF w] 1(4)] 1(3) by simp_all
    show ?thesis
    proof (cases x)
      case None
      then have "ws_loop W t0 c2 = Some (r, d)"
        using 1(2) False w k by (subst (asm) ws_loop.simps) (simp add: Let_def)
      then show ?thesis using 1(1) [OF refl False w refl k _ None] c2(1) 1(4) by auto
    next
      case (Some y)
      then show ?thesis using 1(2) False w k c2 by (subst (asm) ws_loop.simps) (simp add: Let_def)
    qed
  qed
qed

lemma enter_ok:
  assumes "ws_enter W c = Some (r, d)" "at_rest c" "ws_wf W"
  shows "ws_ok W r d"
  using assms loop_ok
  by (auto simp: ws_enter_def ws_ok_def bind_eq_Some_conv split: if_splits dest!: ws_calls_rest(3))

lemma select_ok:
  assumes "ws_select W z c = Some (r, d)" "at_rest c" "ws_wf W" "z \<longrightarrow> ws_has_timeout W"
  shows "ws_ok W r d"
proof -
  obtain res c1 where a: "ws_arm W c = Some (res, c1)" using assms(1) by (auto simp: ws_select_def bind_eq_Some_conv)
  then have "at_rest c1" using assms(2) ws_calls_rest(1) by blast
  then show ?thesis
    using assms a enter_ok [of W c1 r d]
    by (auto simp: ws_select_def ws_ok_def bind_eq_Some_conv split: if_splits dest!: ws_calls_rest(3))
qed

lemma sleep_rest:
  assumes "ws_sleep W z c = Some (r, d)" "at_rest c" "ws_wf W"
  shows "at_rest d"
  using assms enter_ok [of W c r d] rest_drains [OF _ drains_Wait]
  by (auto simp: ws_sleep_def ws_ok_def bind_eq_Some_conv Let_def split: if_splits)


text \<open>
  A wait for one descriptor with the caller's signal 0x2000 in the mask: the selector is armed, it wakes the task
  although nothing is ready, is armed again, and then the signal arrives.
\<close>

definition lib_select :: TnLib where
  "lib_select = (let m = (w_msgs lib0 0)\<lparr>im_result := 0, im_err_no := 0\<rparr>; answered = [[DaemonReply 0x1000 m], []] in
     lib0\<lparr>lb_ipc_timeout_ms := 0, w_mem := store_u32 (\<lambda>_. 0) 64 0x2000,
       w_rounds := answered @ [[SetSignals 0x10000]] @ answered @ answered @ answered @ [[SetSignals 0x2000]] @ answered\<rparr>)"

lemma select_run: "\<exists>d. tn_lvo_waitselect 1 0 0 0 None 64 lib_select = Some (0, d)"
proof -
  have "map_option fst (tn_lvo_waitselect 1 0 0 0 None 64 lib_select) = Some 0" by code_simp
  then show ?thesis by auto
qed


end
