(* ===== verification/Lib_Open.thy ===== *)
theory Lib_Open
  imports Lib_Select_Props
begin

text \<open>
  Opening and closing the library (lib/lib\_vectors.c): the clone of the base, its message port, signal and tables,
  the OPEN request, the unwinding when one of them fails, and the release of everything at close.  The block of the base
  stands for the message embedded in it; ports and signals are counted.
\<close>

section \<open>Resources\<close>

text \<open>What a base holds besides its fields: the addresses of its blocks, its reply port and its signal bit.\<close>

record lib_res =
  rs_raw :: ptr
  rs_fd_map :: ptr
  rs_events :: ptr
  rs_event_masks :: ptr
  rs_reply_port :: bool
  rs_sig_select_bit :: int

text \<open>
  What exec.library answers, and what is held in total: the open count of the root library, ports and signals.
\<close>

record lib_world =
  wd_neg_size :: nat
  wd_port_ok :: bool
  wd_signal :: int
  wd_task :: ptr
  wd_open_cnt :: int
  wd_ports :: int
  wd_signals :: int

definition res_null :: lib_res where
  "res_null = \<lparr>rs_raw = NULL, rs_fd_map = NULL, rs_events = NULL, rs_event_masks = NULL, rs_reply_port = False,
     rs_sig_select_bit = -1\<rparr>"

definition free_block :: "ptr \<Rightarrow> TnLib \<Rightarrow> TnLib" where
  "free_block p c = (if p = NULL then c else FreeVec p c)"

definition DeleteMsgPort :: "lib_res \<Rightarrow> lib_world \<Rightarrow> lib_world" where
  "DeleteMsgPort R X = (if rs_reply_port R then X\<lparr>wd_ports := wd_ports X - 1\<rparr> else X)"

definition FreeSignal :: "lib_res \<Rightarrow> lib_world \<Rightarrow> lib_world" where
  "FreeSignal R X = (if rs_sig_select_bit R \<noteq> -1 then X\<lparr>wd_signals := wd_signals X - 1\<rparr> else X)"

section \<open>LIB\_OPEN\<close>

text \<open>The cleared block of the base with the fields set at open; the world part is kept.\<close>

definition base_fields :: "lib_world \<Rightarrow> ptr \<Rightarrow> TnLib \<Rightarrow> TnLib" where
  "base_fields X base c =
     c\<lparr>lb_msg := base, lb_base := base, lb_owner_task := wd_task X, lb_tolunnet_port := w_daemon c, lb_ipc_timeout_ms := 0,
       lb_ipc_timeouts := 0, lb_orphan := [], lb_errno_ptr := None, lb_task_errno := 0, lb_errno_width := 4,
       lb_herrno_ptr := None, lb_task_herrno := 0, lb_sig_io := 0, lb_sig_urg := 0, lb_sig_int := 0x1000, lb_sig_event := 0,
       lb_sig_select := (if wd_signal X \<noteq> -1 then push_bit (nat (wd_signal X)) 1 else 0),
       lb_fd_callback := NULL, lb_log_stat := 0, lb_log_tag_ptr := NULL, lb_log_facility := 0, lb_log_mask := 0xFF,
       lb_udp_checksum := 1, lb_ip_default_ttl := 64, lb_hostname := [], lb_domain_name := [], lb_netent_idx := 0,
       lb_servent_idx := 0, lb_protoent_idx := 0, lb_gse_last_fd := -1\<rparr>"

definition base_tables :: "int \<Rightarrow> TnLib \<Rightarrow> TnLib" where
  "base_tables n c = c\<lparr>lb_dtablesize := n, lb_fd_map := replicate (nat n) (-1), lb_events := replicate (nat n) 0,
     lb_event_masks := replicate (nat n) 0\<rparr>"

text \<open>The \<open>fail\<close> label: one unwind path.\<close>

definition open_fail :: "lib_res \<Rightarrow> lib_world \<Rightarrow> TnLib \<Rightarrow> lib_res option \<times> lib_world \<times> TnLib" where
  "open_fail R X c =
     (let c = free_block (rs_event_masks R) (free_block (rs_events R) (free_block (rs_fd_map R) c));
          X = DeleteMsgPort R (FreeSignal R X);
          c = FreeVec (rs_raw R) (free_block (lb_cancel_msg c) c)
      in (None, X\<lparr>wd_open_cnt := wd_open_cnt X - 1\<rparr>, c))"

text \<open>The OPEN request; a refusal other than the absent daemon's fails.\<close>

definition open_request :: "lib_res \<Rightarrow> lib_world \<Rightarrow> TnLib \<Rightarrow> (lib_res option \<times> lib_world \<times> TnLib) option" where
  "open_request R X c = do {
     (r, c) \<leftarrow> tn_ipc_call 0 c;
     Some (if r < 0 \<and> lb_task_errno c \<noteq> ENETDOWN then open_fail R X c else (Some R, X, c)) }"

definition open_tables :: "lib_res \<Rightarrow> lib_world \<Rightarrow> TnLib \<Rightarrow> (lib_res option \<times> lib_world \<times> TnLib) option" where
  "open_tables R X c =
     (let (m, c) = AllocVec c; (e, c) = AllocVec c; (k, c) = AllocVec c;
          R = R\<lparr>rs_fd_map := m, rs_events := e, rs_event_masks := k\<rparr>
      in if m = NULL \<or> e = NULL \<or> k = NULL then Some (open_fail R X c)
         else open_request R X (base_tables 64 c))"

definition tn_lib_open :: "lib_world \<Rightarrow> TnLib \<Rightarrow> (lib_res option \<times> lib_world \<times> TnLib) option" where
  "tn_lib_open X c =
     (let X = X\<lparr>wd_open_cnt := wd_open_cnt X + 1\<rparr>; (raw, c) = AllocVec c in
      if raw = NULL then Some (None, X\<lparr>wd_open_cnt := wd_open_cnt X - 1\<rparr>, c)
      else if odd (wd_neg_size X) then Some (None, X\<lparr>wd_open_cnt := wd_open_cnt X - 1\<rparr>, FreeVec raw c)
      else let R = res_null\<lparr>rs_raw := raw\<rparr>; (cancel, c) = AllocVec c; c = c\<lparr>lb_cancel_msg := cancel\<rparr> in
      if cancel = NULL \<or> \<not> wd_port_ok X then Some (open_fail R X c)
      else let R = R\<lparr>rs_reply_port := True, rs_sig_select_bit := wd_signal X\<rparr>;
               X = X\<lparr>wd_ports := wd_ports X + 1, wd_signals := wd_signals X + (if wd_signal X \<noteq> -1 then 1 else 0)\<rparr>
           in open_tables R X (base_fields X raw c))"

section \<open>LIB\_CLOSE\<close>

text \<open>
  The messages first (\<open>tn_lib_close\<close>: CLOSE, the abandoned chain and the CANCEL message), then the rest.
  The timer request and its port, which WaitSelect and the watchdog open on demand, are not part of the ledger, and the fields
  of the freed base are left as they are.
\<close>

definition lib_close_all :: "lib_res \<Rightarrow> lib_world \<Rightarrow> TnLib \<Rightarrow> (lib_world \<times> TnLib) option" where
  "lib_close_all R X c = do {
     c \<leftarrow> tn_lib_close c;
     let X = DeleteMsgPort R (FreeSignal R X);
     let c = free_block (rs_event_masks R) (free_block (rs_events R) (free_block (rs_fd_map R) c));
     Some (if wd_open_cnt X > 0 then X\<lparr>wd_open_cnt := wd_open_cnt X - 1\<rparr> else X, FreeVec (rs_raw R) c) }"

end
