(* ===== verification/Lib_Open_Props.thy ===== *)
theory Lib_Open_Props
  imports Lib_Open "HOL-Library.Multiset"
begin

text \<open>
  The life of a base: a failed open gives back what it took, a successful one leaves the base at rest, and close
  after any requests gives everything back.
\<close>

section \<open>Requests without the watchdog\<close>

text \<open>Without the reply watchdog a request allocates and frees nothing.\<close>

definition quiet :: "TnLib \<Rightarrow> TnLib \<Rightarrow> bool" where
  "quiet c d = (w_heap d = w_heap c \<and> w_freed d = w_freed c \<and> lb_cancel_msg d = lb_cancel_msg c \<and>
     lb_msg d = lb_msg c \<and> lb_ipc_timeout_ms d = lb_ipc_timeout_ms c)"

lemma quiet_refl [simp]: "quiet c c" by (simp add: quiet_def)

lemma quiet_trans: "quiet a b \<Longrightarrow> quiet b c \<Longrightarrow> quiet a c" by (simp add: quiet_def)

lemma quiet_drains: "drains c d \<Longrightarrow> quiet c d" by (simp add: quiet_def drains_def)

lemma quiet_parts [simp]:
  "quiet c (tn_set_errno_val e d) = quiet c d" "quiet c (SetSignal n s d) = quiet c d"
  "quiet c (tn_ipc_release_heap NULL d) = quiet c d" "quiet c (d\<lparr>w_msgs := x\<rparr>) = quiet c d"
  "quiet c (d\<lparr>lb_tolunnet_port := b\<rparr>) = quiet c d" "quiet c (put_cancel p q d) = quiet c d"
  "quiet c (send_request cmd p d) = quiet c d" "quiet c (tn_ipc_orphan_heap p d) = quiet c d"
  by (auto simp: quiet_def tn_ipc_orphan_heap_def tn_set_errno_val_def SetSignal_def tn_ipc_release_heap_def put_cancel_def send_request_def
    PutMsg_def fault_if_def Let_def split: option.splits)

lemma quiet_from [simp]:
  "quiet (SetSignal n s c) d = quiet c d" "quiet (put_cancel p q c) d = quiet c d" "quiet (send_request cmd p c) d = quiet c d"
  "quiet (c\<lparr>w_msgs := x\<rparr>) d = quiet c d" "quiet (c\<lparr>lb_tolunnet_port := b\<rparr>) d = quiet c d"
  by (auto simp: quiet_def SetSignal_def put_cancel_def send_request_def PutMsg_def fault_if_def Let_def)

lemma quiet_GetMsg: "GetMsg c = Some (p, d) \<Longrightarrow> quiet c d" using drains_GetMsg(1) quiet_drains by blast
lemma quiet_WaitPort: "WaitPort c = Some d \<Longrightarrow> quiet c d" using drains_WaitPort quiet_drains by blast
lemma quiet_Wait: "Wait s c = Some (g, d) \<Longrightarrow> quiet c d" using drains_Wait quiet_drains by blast

lemma quiet_lap: "drain_lap b t0 c = Some (e, d) \<Longrightarrow> \<not> b \<Longrightarrow> quiet c d \<and> e \<noteq> None"
  by (auto simp: drain_lap_def bind_eq_Some_conv dest!: quiet_GetMsg quiet_WaitPort elim: quiet_trans)

lemma quiet_cancel_drain:
  "cancel_drain b t0 m k gm gc c = Some (gm1, gc1, d) \<Longrightarrow> \<not> b \<Longrightarrow> quiet c d \<and> gm1 \<and> gc1"
proof (induction b t0 m k gm gc c rule: cancel_drain.induct)
  case (1 b t0 m k gm gc c)
  show ?case
  proof (cases "gm \<and> gc")
    case False
    then obtain e c1 where l: "drain_lap b t0 c = Some (e, c1)"
      using 1(4) by (subst (asm) cancel_drain.simps) (auto split: option.splits)
    obtain p where p: "e = Some p" using quiet_lap [OF l 1(5)] by auto
    consider "p = NULL" | "p \<noteq> NULL" "p = m" | "p \<noteq> NULL" "p \<noteq> m" by blast
    then have "quiet c1 d \<and> gm1 \<and> gc1"
    proof cases
      case 1
      then show ?thesis using "1.IH"(1) [OF False l refl p] "1.prems" False l p by (subst (asm) cancel_drain.simps) auto
    next
      case 2
      then show ?thesis using "1.IH"(2) [OF False l refl p] "1.prems" False l p by (subst (asm) cancel_drain.simps) auto
    next
      case 3
      then show ?thesis using "1.IH"(3) [OF False l refl p] "1.prems" False l p by (subst (asm) cancel_drain.simps) auto
    qed
    then show ?thesis using quiet_lap [OF l 1(5)] quiet_trans by blast
  qed (use 1(4) in \<open>simp add: cancel_drain.simps\<close>)
qed

lemma quiet_await_embedded: "await_embedded m c = Some d \<Longrightarrow> quiet c d"
proof (induction m c rule: await_embedded.induct)
  case (1 m c)
  then obtain got c1 where g: "GetMsg c = Some (got, c1)"
    by (subst (asm) (2) await_embedded.simps) (auto split: option.splits)
  show ?case
  proof (cases "got = m")
    case True
    then show ?thesis using 1(2) g quiet_GetMsg by (subst (asm) await_embedded.simps) auto
  next
    case False
    then obtain c2 where w: "WaitPort c1 = Some c2" "await_embedded m c2 = Some d"
      using 1(2) g by (subst (asm) await_embedded.simps) (auto split: option.splits)
    then have "quiet c2 d" using 1(1) g False by auto
    then show ?thesis using quiet_GetMsg [OF g] quiet_WaitPort [OF w(1)] quiet_trans by blast
  qed
qed

lemma quiet_collect: "collect m n c = Some (x, d) \<Longrightarrow> quiet c d"
proof (induction m n c rule: collect.induct)
  case (1 m n c)
  then obtain got c1 where g: "GetMsg c = Some (got, c1)"
    by (subst (asm) (2) collect.simps) (auto split: option.splits)
  show ?case
  proof (cases "got = m \<or> n = 0")
    case True
    then show ?thesis using 1(2) g quiet_GetMsg by (subst (asm) collect.simps) (auto split: if_splits)
  next
    case False
    then obtain k c2 where w: "n = Suc k" "WaitPort c1 = Some c2" "collect m k c2 = Some (x, d)"
      using 1(2) g by (subst (asm) collect.simps) (auto split: option.splits nat.splits)
    then have "quiet c2 d" using 1(1) g False by auto
    then show ?thesis using quiet_GetMsg [OF g] quiet_WaitPort [OF w(2)] quiet_trans by blast
  qed
qed

lemma quiet_cancel_inflight: "tn_ipc_cancel_inflight m False c = Some (x, d) \<Longrightarrow> quiet c d \<and> x"
  by (auto simp: tn_ipc_cancel_inflight_def bind_eq_Some_conv Let_def split: if_splits
    dest!: quiet_await_embedded quiet_cancel_drain)

lemma quiet_finish: "finish_call m NULL c = Some (r, d) \<Longrightarrow> quiet c d"
  by (auto simp: finish_call_def bind_eq_Some_conv Let_def dest!: quiet_collect)

lemma quiet_broken: "broken_call False m NULL brk c = Some (r, d) \<Longrightarrow> quiet c d"
  by (auto simp: broken_call_def bind_eq_Some_conv Let_def split: if_splits dest!: quiet_cancel_inflight)

lemma quiet_call:
  assumes "tn_ipc_call cmd c = Some (r, d)" "lb_ipc_timeout_ms c = 0"
  shows "quiet c d"
proof -
  have "quiet x y" if "await_reply cmd m NULL x = Some (r, y)" for m x y
    using that by (auto simp: await_reply_def bind_eq_Some_conv Let_def split: if_splits
      dest!: quiet_Wait quiet_finish quiet_broken elim: quiet_trans)
  then have "quiet (send_request cmd (lb_msg c) (c\<lparr>lb_tolunnet_port := True\<rparr>)) d"
    if "await_reply cmd (lb_msg c) NULL (send_request cmd (lb_msg c) (c\<lparr>lb_tolunnet_port := True\<rparr>)) = Some (r, d)"
    using that by blast
  then show ?thesis using assms by (simp add: tn_ipc_call_def Let_def split: if_splits) auto
qed

section \<open>Blocks held\<close>

abbreviation (input) blocks :: "ptr list \<Rightarrow> ptr list" where
  "blocks ps \<equiv> filter (\<lambda>p. p \<noteq> NULL) ps"

text \<open>The state before an open: nothing outstanding, the allocator's answers apart from each other and from freed blocks.\<close>

definition fresh :: "TnLib \<Rightarrow> bool" where
  "fresh c = (w_owned c = [] \<and> w_port c = [] \<and> w_faults c = [] \<and> \<not> w_timer_sent c \<and>
     distinct (blocks (w_heap c) @ w_freed c) \<and> NULL \<notin> set (w_freed c))"

text \<open>Since \<open>c0\<close> exactly the blocks \<open>B\<close> have been taken from the allocator and not been given back.\<close>

definition ledger :: "TnLib \<Rightarrow> ptr list \<Rightarrow> TnLib \<Rightarrow> bool" where
  "ledger c0 B c = (w_faults c = [] \<and> w_owned c = [] \<and> w_port c = [] \<and> \<not> w_timer_sent c \<and>
     (\<exists>taken. w_heap c0 = taken @ w_heap c \<and> mset (blocks taken) + mset (w_freed c0) = mset B + mset (w_freed c)))"

lemma ledger_start: "fresh c \<Longrightarrow> ledger c [] c"
  by (simp add: fresh_def ledger_def)

lemma ledger_perm: "ledger c0 B c \<Longrightarrow> mset B = mset B1 \<Longrightarrow> ledger c0 B1 c"
  by (simp add: ledger_def)

lemma ledger_alloc:
  assumes "ledger c0 B c" "AllocVec c = (p, d)"
  shows "ledger c0 (blocks [p] @ B) d"
proof (cases "w_heap c")
  case Nil
  then show ?thesis using assms by (simp add: AllocVec_def)
next
  case (Cons q qs)
  obtain taken where t: "w_heap c0 = taken @ w_heap c" "mset (blocks taken) + mset (w_freed c0) = mset B + mset (w_freed c)"
    using assms(1) by (auto simp: ledger_def)
  have "p = q" "d = c\<lparr>w_heap := qs\<rparr>" using Cons assms(2) by (simp_all add: AllocVec_def)
  moreover have "w_heap c0 = (taken @ [q]) @ qs" using t(1) Cons by simp
  ultimately show ?thesis using assms(1) t(2) unfolding ledger_def by (intro conjI exI [of _ "taken @ [q]"]) auto
qed

lemma ledger_distinct:
  assumes "fresh c0" "ledger c0 B c"
  shows "distinct (B @ w_freed c @ blocks (w_heap c))" "NULL \<notin> set (B @ w_freed c)"
proof -
  obtain taken where t: "w_heap c0 = taken @ w_heap c" "mset (blocks taken) + mset (w_freed c0) = mset B + mset (w_freed c)"
    using assms(2) by (auto simp: ledger_def)
  have "mset (B @ w_freed c @ blocks (w_heap c)) = mset (blocks (w_heap c0) @ w_freed c0)"
    using t(2) by (simp add: t(1) ac_simps)
  moreover have "distinct (blocks (w_heap c0) @ w_freed c0)" using assms(1) by (simp add: fresh_def)
  ultimately show "distinct (B @ w_freed c @ blocks (w_heap c))" by (metis mset_eq_imp_distinct_iff)
  have "set (B @ w_freed c) = set (blocks taken @ w_freed c0)" using t(2) by (metis mset_append mset_eq_setD)
  then show "NULL \<notin> set (B @ w_freed c)" using assms(1) by (auto simp: fresh_def)
qed

lemma ledger_free:
  assumes "fresh c0" "ledger c0 (p # B) c"
  shows "ledger c0 B (FreeVec p c)"
proof -
  have "p \<notin> set (w_freed c)" using ledger_distinct(1) [OF assms] by auto
  then show ?thesis using assms(2) by (simp add: ledger_def FreeVec_def fault_if_def Let_def)
qed

lemma ledger_free_block: "fresh c0 \<Longrightarrow> ledger c0 (blocks (p # B)) c \<Longrightarrow> ledger c0 (blocks B) (free_block p c)"
  by (cases "p = NULL") (simp_all add: free_block_def ledger_free)

lemma ledger_frame:
  assumes "w_heap d = w_heap c" "w_freed d = w_freed c" "w_faults d = w_faults c" "w_owned d = w_owned c"
    "w_port d = w_port c" "w_timer_sent d = w_timer_sent c"
  shows "ledger c0 B d = ledger c0 B c"
  using assms by (simp add: ledger_def)

text \<open>A base at rest without the watchdog has nothing outstanding, so a request keeps the ledger.\<close>

lemma ledger_call:
  assumes "ledger c0 B c" "at_rest c" "lb_ipc_timeout_ms c = 0" "tn_ipc_call cmd c = Some (r, d)"
  shows "ledger c0 B d" "at_rest d" "lb_ipc_timeout_ms d = 0" "quiet c d"
proof -
  show rest: "at_rest d" by (rule ipc_call_rest [OF assms(4,2)])
  show q: "quiet c d" by (rule quiet_call [OF assms(4,3)])
  then show z: "lb_ipc_timeout_ms d = 0" using assms(3) by (simp add: quiet_def)
  then have "w_owned d = [] \<and> w_port d = [] \<and> w_faults d = [] \<and> \<not> w_timer_sent d"
    using rest by (auto simp: at_rest_def inflight_def)
  then show "ledger c0 B d" using assms(1) q by (simp add: ledger_def quiet_def)
qed

section \<open>Open\<close>

text \<open>Everything is back: the blocks, the ports, the signals and the open count.\<close>

definition balanced :: "lib_world \<Rightarrow> TnLib \<Rightarrow> lib_world \<Rightarrow> TnLib \<Rightarrow> bool" where
  "balanced X c X1 c1 = (ledger c [] c1 \<and> wd_open_cnt X1 = wd_open_cnt X \<and> wd_ports X1 = wd_ports X \<and>
     wd_signals X1 = wd_signals X)"

text \<open>What an open base accounts for.\<close>

definition res_blocks :: "lib_res \<Rightarrow> ptr list" where
  "res_blocks R = [rs_fd_map R, rs_events R, rs_event_masks R]"

definition accounts :: "lib_world \<Rightarrow> lib_res \<Rightarrow> lib_world \<Rightarrow> bool" where
  "accounts X R X1 = (wd_open_cnt X1 = wd_open_cnt X + 1 \<and>
     wd_ports X1 = wd_ports X + (if rs_reply_port R then 1 else 0) \<and>
     wd_signals X1 = wd_signals X + (if rs_sig_select_bit R \<noteq> -1 then 1 else 0))"

lemma free_cancel_frame: "lb_cancel_msg (free_block p c) = lb_cancel_msg c"
  by (simp add: free_block_def FreeVec_def fault_if_def Let_def)

lemma open_fail_balanced:
  assumes "fresh c0" "ledger c0 (blocks (res_blocks R @ [lb_cancel_msg c, rs_raw R])) c" "rs_raw R \<noteq> NULL" "accounts X R X1"
  shows "fst (open_fail R X1 c) = None \<and> balanced X c0 (fst (snd (open_fail R X1 c))) (snd (snd (open_fail R X1 c)))"
proof -
  let ?c3 = "free_block (rs_event_masks R) (free_block (rs_events R) (free_block (rs_fd_map R) c))"
  note step = ledger_free_block [OF assms(1)]
  have "ledger c0 (blocks (rs_fd_map R # rs_events R # rs_event_masks R # [lb_cancel_msg c, rs_raw R])) c"
    using assms(2) by (simp only: res_blocks_def append.simps)
  then have "ledger c0 (blocks [lb_cancel_msg c, rs_raw R]) ?c3" by (intro step)
  then have "ledger c0 (blocks [rs_raw R]) (free_block (lb_cancel_msg ?c3) ?c3)"
    unfolding free_cancel_frame by (rule step)
  then have "ledger c0 [] (FreeVec (rs_raw R) (free_block (lb_cancel_msg ?c3) ?c3))"
    using ledger_free [OF assms(1)] assms(3) by simp
  then show ?thesis
    using assms(4) by (simp add: open_fail_def balanced_def accounts_def DeleteMsgPort_def FreeSignal_def Let_def)
qed

text \<open>The outcome of an open: everything is back, or a base at rest that accounts for what was taken.\<close>

definition open_outcome :: "lib_world \<Rightarrow> TnLib \<Rightarrow> lib_res option \<times> lib_world \<times> TnLib \<Rightarrow> bool" where
  "open_outcome X c0 y = (case y of
     (None, X1, c1) \<Rightarrow> balanced X c0 X1 c1
   | (Some R, X1, c1) \<Rightarrow> at_rest c1 \<and> lb_ipc_timeout_ms c1 = 0 \<and> rs_raw R \<noteq> NULL \<and> accounts X R X1 \<and>
       ledger c0 (blocks (res_blocks R @ [lb_cancel_msg c1, rs_raw R])) c1)"

lemma open_fail_outcome:
  assumes "fresh c0" "ledger c0 (blocks (res_blocks R @ [lb_cancel_msg c, rs_raw R])) c" "rs_raw R \<noteq> NULL" "accounts X R X1"
  shows "open_outcome X c0 (open_fail R X1 c)"
proof -
  obtain x X2 c2 where "open_fail R X1 c = (x, X2, c2)" by (metis surj_pair)
  then show ?thesis using open_fail_balanced [OF assms] by (simp add: open_outcome_def)
qed

lemma open_request_outcome:
  assumes "fresh c0" "ledger c0 (blocks (res_blocks R @ [lb_cancel_msg c, rs_raw R])) c" "rs_raw R \<noteq> NULL" "accounts X R X1"
    "at_rest c" "lb_ipc_timeout_ms c = 0" "open_request R X1 c = Some y"
  shows "open_outcome X c0 y"
proof -
  obtain r d where d: "tn_ipc_call 0 c = Some (r, d)" using assms(7) by (auto simp: open_request_def bind_eq_Some_conv)
  note C = ledger_call [OF assms(2,5,6) d]
  have l: "ledger c0 (blocks (res_blocks R @ [lb_cancel_msg d, rs_raw R])) d" using C(1,4) by (simp add: quiet_def)
  show ?thesis
  proof (cases "r < 0 \<and> lb_task_errno d \<noteq> ENETDOWN")
    case True
    then show ?thesis using assms(7) d open_fail_outcome [OF assms(1) l assms(3,4)] by (simp add: open_request_def)
  next
    case False
    then have "y = (Some R, X1, d)" using assms(7) d by (auto simp: open_request_def)
    then show ?thesis using C l assms(3,4) by (simp add: open_outcome_def)
  qed
qed

lemma alloc_keeps:
  "AllocVec c = (p, d) \<Longrightarrow> lb_cancel_msg d = lb_cancel_msg c \<and> lb_msg d = lb_msg c \<and> lb_ipc_timeout_ms d = lb_ipc_timeout_ms c \<and>
    lb_orphan d = lb_orphan c"
  by (auto simp: AllocVec_def split: list.splits)

lemma open_rest:
  assumes "fresh c0" "ledger c0 (blocks (ps @ [lb_cancel_msg c, raw])) c" "raw \<noteq> NULL" "lb_msg c = raw"
    "lb_orphan c = []"
  shows "at_rest c"
proof -
  have D: "distinct (blocks (ps @ [lb_cancel_msg c, raw]) @ w_freed c @ blocks (w_heap c))"
    "NULL \<notin> set (w_freed c)"
    using ledger_distinct [OF assms(1,2)] by simp_all
  have "w_faults c = []" "w_owned c = []" "w_port c = []" "\<not> w_timer_sent c" using assms(2) by (simp_all add: ledger_def)
  then show ?thesis using D assms(3-5) by (auto simp: at_rest_def inflight_def)
qed

lemma open_tables_outcome:
  assumes "fresh c0" "ledger c0 (blocks [lb_cancel_msg c, rs_raw R]) c" "rs_raw R \<noteq> NULL" "accounts X R X1"
    "lb_msg c = rs_raw R" "lb_orphan c = []" "lb_ipc_timeout_ms c = 0" "open_tables R X1 c = Some y"
  shows "open_outcome X c0 y"
proof -
  obtain m c1 e c2 k c3 where al: "AllocVec c = (m, c1)" "AllocVec c1 = (e, c2)" "AllocVec c2 = (k, c3)" by (metis surj_pair)
  let ?R = "R\<lparr>rs_fd_map := m, rs_events := e, rs_event_masks := k\<rparr>"
  have keep: "lb_cancel_msg c3 = lb_cancel_msg c" "lb_msg c3 = rs_raw R" "lb_ipc_timeout_ms c3 = 0" "lb_orphan c3 = []"
    using alloc_keeps [OF al(1)] alloc_keeps [OF al(2)] alloc_keeps [OF al(3)] assms(5-7) by simp_all
  have "ledger c0 (blocks [k] @ blocks [e] @ blocks [m] @ blocks [lb_cancel_msg c, rs_raw R]) c3"
    by (rule ledger_alloc [OF ledger_alloc [OF ledger_alloc [OF assms(2) al(1)] al(2)] al(3)])
  then have l: "ledger c0 (blocks (res_blocks ?R @ [lb_cancel_msg c3, rs_raw ?R])) c3"
    by (rule ledger_perm) (simp add: res_blocks_def keep)
  have acc: "accounts X ?R X1" using assms(4) by (simp add: accounts_def)
  show ?thesis
  proof (cases "m = NULL \<or> e = NULL \<or> k = NULL")
    case True
    then have "y = open_fail ?R X1 c3" using assms(8) al by (simp add: open_tables_def Let_def)
    then show ?thesis using open_fail_outcome [OF assms(1) l _ acc] assms(3) by simp
  next
    case False
    let ?c = "base_tables 64 c3"
    have l2: "ledger c0 (blocks (res_blocks ?R @ [lb_cancel_msg ?c, rs_raw ?R])) ?c"
      using l by (simp add: ledger_def base_tables_def)
    have run: "open_request ?R X1 ?c = Some y" using assms(8) al False by (simp add: open_tables_def Let_def)
    have rest: "at_rest ?c" by (rule open_rest [OF assms(1) l2]) (use assms(3) keep in \<open>simp_all add: base_tables_def\<close>)
    show ?thesis
      by (rule open_request_outcome [OF assms(1) l2 _ acc rest _ run]) (use assms(3) keep in \<open>simp_all add: base_tables_def\<close>)
  qed
qed

lemma open_outcome_all:
  assumes "fresh c0" "tn_lib_open X c0 = Some y"
  shows "open_outcome X c0 y"
proof -
  obtain raw c1 where raw: "AllocVec c0 = (raw, c1)" by fastforce
  have l1: "ledger c0 (blocks [raw] @ []) c1" by (rule ledger_alloc [OF ledger_start [OF assms(1)] raw])
  let ?X = "X\<lparr>wd_open_cnt := wd_open_cnt X + 1\<rparr>"
  consider "raw = NULL" | "raw \<noteq> NULL" "odd (wd_neg_size X)" | "raw \<noteq> NULL" "even (wd_neg_size X)" by blast
  then show ?thesis
  proof cases
    case 1
    then show ?thesis using assms(2) raw l1 by (auto simp: tn_lib_open_def open_outcome_def balanced_def Let_def)
  next
    case 2
    then have "ledger c0 [] (FreeVec raw c1)" using ledger_free [OF assms(1)] l1 by simp
    then show ?thesis using assms(2) raw 2 by (auto simp: tn_lib_open_def open_outcome_def balanced_def Let_def)
  next
    case 3
    obtain cancel c2 where ca: "AllocVec c1 = (cancel, c2)" by fastforce
    have "ledger c0 (blocks [cancel] @ blocks [raw] @ []) c2" by (rule ledger_alloc [OF l1 ca])
    then have l2: "ledger c0 (blocks [cancel, raw]) c2" by (rule ledger_perm) simp
    let ?R = "res_null\<lparr>rs_raw := raw\<rparr>" and ?c = "c2\<lparr>lb_cancel_msg := cancel\<rparr>"
    have l3: "ledger c0 (blocks [lb_cancel_msg ?c, rs_raw ?R]) ?c" using l2 by (simp add: ledger_def)
    show ?thesis
    proof (cases "cancel = NULL \<or> \<not> wd_port_ok X")
      case True
      then have "y = open_fail ?R ?X ?c" using assms(2) raw ca 3 by (simp add: tn_lib_open_def Let_def)
      moreover have "ledger c0 (blocks (res_blocks ?R @ [lb_cancel_msg ?c, rs_raw ?R])) ?c"
        using l3 by (simp add: res_blocks_def res_null_def)
      ultimately show ?thesis
        using open_fail_outcome [OF assms(1), of ?R ?c X ?X] 3 by (simp add: accounts_def res_null_def)
    next
      case False
      let ?R1 = "?R\<lparr>rs_reply_port := True, rs_sig_select_bit := wd_signal X\<rparr>"
      let ?X1 = "?X\<lparr>wd_ports := wd_ports X + 1, wd_signals := wd_signals X + (if wd_signal X \<noteq> -1 then 1 else 0)\<rparr>"
      have run: "open_tables ?R1 ?X1 (base_fields ?X1 raw ?c) = Some y"
        using assms(2) raw ca 3 False by (simp add: tn_lib_open_def Let_def)
      have l4: "ledger c0 (blocks [lb_cancel_msg (base_fields ?X1 raw ?c), rs_raw ?R1]) (base_fields ?X1 raw ?c)"
        using l3 by (simp add: ledger_def base_fields_def)
      show ?thesis
        by (rule open_tables_outcome [OF assms(1) l4 _ _ _ _ _ run])
          (use 3 in \<open>simp_all add: accounts_def base_fields_def\<close>)
    qed
  qed
qed

section \<open>Close\<close>

text \<open>A base that owes the allocator exactly the blocks \<open>B\<close> stays so over any session, and keeps its CANCEL message.\<close>

definition owes :: "TnLib \<Rightarrow> ptr list \<Rightarrow> TnLib \<Rightarrow> bool" where
  "owes c0 B c = (ledger c0 B c \<and> at_rest c \<and> lb_ipc_timeout_ms c = 0)"

lemma owes_request:
  assumes "owes c0 B c" "request q c = Some (r, d)"
  shows "owes c0 B d \<and> lb_cancel_msg d = lb_cancel_msg c"
proof -
  obtain cmd as ps where q: "q = (cmd, as, ps)" by (cases q)
  let ?c = "c\<lparr>w_msgs := (w_msgs c)(lb_msg c := (w_msgs c (lb_msg c))\<lparr>im_args := as, im_ptrs := ps\<rparr>)\<rparr>"
  have run: "tn_ipc_call cmd ?c = Some (r, d)" using assms(2) q by (simp add: request_def)
  have "ledger c0 B ?c" using assms(1) by (simp add: owes_def ledger_def)
  then show ?thesis using ledger_call [OF _ _ _ run] assms(1) by (simp add: owes_def quiet_def)
qed

interpretation ledger_chan: request_channel request session "owes c0 B" "\<lambda>c d. lb_cancel_msg d = lb_cancel_msg c" for c0 B
  by unfold_locales (auto simp: session_request dest: owes_request)

lemma close_balanced:
  assumes "fresh c0" "ledger c0 (blocks (res_blocks R @ [lb_cancel_msg c, rs_raw R])) c" "at_rest c"
    "lb_ipc_timeout_ms c = 0" "rs_raw R \<noteq> NULL" "accounts X R X1" "0 \<le> wd_open_cnt X" "lib_close_all R X1 c = Some (X2, d)"
  shows "balanced X c0 X2 d"
proof -
  obtain r c1 c2 where run: "tn_ipc_call 1 c = Some (r, c1)" "drain_port c1 = Some c2"
    using assms(8) by (auto simp: lib_close_all_def tn_lib_close_def bind_eq_Some_conv)
  note C = ledger_call [OF assms(2-4) run(1)]
  have dr: "drains c1 c2" by (rule drains_drain_port [OF run(2)])
  have o: "lb_orphan c2 = []" using C(2,3) dr by (auto simp: at_rest_def drains_def)
  have can: "lb_cancel_msg c2 = lb_cancel_msg c" using C(4) dr by (simp add: quiet_def drains_def)
  have l2: "ledger c0 (blocks (res_blocks R @ [lb_cancel_msg c2, rs_raw R])) c2"
    using C(1) dr can by (auto simp: ledger_def drains_def)
  let ?c3 = "c2\<lparr>lb_orphan := []\<rparr>"
  let ?c4 = "if lb_cancel_msg ?c3 \<noteq> NULL then (FreeVec (lb_cancel_msg ?c3) ?c3)\<lparr>lb_cancel_msg := NULL\<rparr> else ?c3"
  have l4: "ledger c0 (blocks (res_blocks R @ [rs_raw R])) ?c4"
  proof (cases "lb_cancel_msg c2 = NULL")
    case True
    then show ?thesis using l2 by (simp add: ledger_def)
  next
    case False
    have "ledger c0 (lb_cancel_msg c2 # blocks (res_blocks R @ [rs_raw R])) ?c3"
      using l2 False by (simp add: ledger_def)
    then have "ledger c0 (blocks (res_blocks R @ [rs_raw R])) (FreeVec (lb_cancel_msg c2) ?c3)"
      by (rule ledger_free [OF assms(1)])
    then show ?thesis using False by (simp add: ledger_def)
  qed
  have close: "tn_lib_close c = Some ?c4" using run o by (simp add: tn_lib_close_def Let_def)
  have "ledger c0 (blocks (rs_fd_map R # rs_events R # rs_event_masks R # [rs_raw R])) ?c4"
    using l4 by (simp only: res_blocks_def append.simps)
  then have "ledger c0 (blocks [rs_raw R]) (free_block (rs_event_masks R) (free_block (rs_events R) (free_block (rs_fd_map R) ?c4)))"
    by (intro ledger_free_block [OF assms(1)])
  then have "ledger c0 [] (FreeVec (rs_raw R) (free_block (rs_event_masks R) (free_block (rs_events R) (free_block (rs_fd_map R) ?c4))))"
    using ledger_free [OF assms(1)] assms(5) by simp
  then show ?thesis
    using assms(6-8) close
    by (auto simp: lib_close_all_def balanced_def accounts_def DeleteMsgPort_def FreeSignal_def Let_def split: if_splits)
qed

text \<open>
  C37. The life of a base is balanced.  An open that fails, at whichever step, gives back every block it took, exactly
  once and none while the daemon holds it, its port, its signal and its count; one that succeeds leaves the base at rest;
  and closing it after any sequence of requests without the reply watchdog gives everything back in the same way.
\<close>

theorem lib_lifecycle:
  assumes "fresh c" "0 \<le> wd_open_cnt X" "tn_lib_open X c = Some (opened, X1, c1)"
  shows "(opened = None \<longrightarrow> balanced X c X1 c1) \<and>
    (\<forall>R reqs rs c2 X2 d. opened = Some R \<longrightarrow> at_rest c1 \<and>
      (session reqs c1 = Some (rs, c2) \<longrightarrow> lib_close_all R X1 c2 = Some (X2, d) \<longrightarrow> balanced X c X2 d))"
proof (cases opened)
  case None
  then show ?thesis using open_outcome_all [OF assms(1,3)] by (simp add: open_outcome_def)
next
  case (Some R)
  then have O: "at_rest c1" "lb_ipc_timeout_ms c1 = 0" "rs_raw R \<noteq> NULL" "accounts X R X1"
      "ledger c (blocks (res_blocks R @ [lb_cancel_msg c1, rs_raw R])) c1"
    using open_outcome_all [OF assms(1,3)] by (simp_all add: open_outcome_def)
  have "balanced X c X2 d" if "session reqs c1 = Some (rs, c2)" "lib_close_all R X1 c2 = Some (X2, d)" for reqs rs c2 X2 d
    using ledger_chan.run_ready [OF that(1)] ledger_chan.run_keeps [OF that(1)] O(1,2,5)
      close_balanced [OF assms(1) _ _ _ O(3,4) assms(2) that(2)] by (simp add: owes_def)
  then show ?thesis using Some O(1) by simp
qed

text \<open>A task opens the library, the daemon answers OPEN and CLOSE.\<close>

definition lib_unopened :: TnLib where
  "lib_unopened = (let m = (w_msgs lib0 0)\<lparr>im_result := 0, im_err_no := 0\<rparr> in
     lib0\<lparr>w_heap := [0x3000, 0x4000, 0x5000, 0x6000, 0x7000],
       w_rounds := [[DaemonReply 0x3000 m], [], [DaemonReply 0x3000 m], [], []]\<rparr>)"

definition world0 :: lib_world where
  "world0 = \<lparr>wd_neg_size = 600, wd_port_ok = True, wd_signal = 20, wd_task = 0x500, wd_open_cnt = 0, wd_ports = 0, wd_signals = 0\<rparr>"

definition open_then_close :: "(lib_world \<times> TnLib) option" where
  "open_then_close = (case tn_lib_open world0 lib_unopened of
     Some (Some R, X1, c1) \<Rightarrow> lib_close_all R X1 c1 | _ \<Rightarrow> None)"

lemma open_close_runs: "\<exists>y. open_then_close = Some y"
proof -
  have "open_then_close \<noteq> None" by code_simp
  then show ?thesis by auto
qed

theorem lib_lifecycle_witness:
  "\<exists>X2 d. open_then_close = Some (X2, d) \<and> balanced world0 lib_unopened X2 d"
proof -
  obtain X2 d where y: "open_then_close = Some (X2, d)" using open_close_runs by auto
  then obtain R X1 c1 where o: "tn_lib_open world0 lib_unopened = Some (Some R, X1, c1)" "lib_close_all R X1 c1 = Some (X2, d)"
    by (auto simp: open_then_close_def split: option.splits)
  have "fresh lib_unopened" "0 \<le> wd_open_cnt world0"
    by (simp_all add: fresh_def lib_unopened_def lib0_def world0_def Let_def)
  from lib_lifecycle [OF this o(1)] have "balanced world0 lib_unopened X2 d" using o(2) by (auto dest: spec [of _ "[]"])
  then show ?thesis using y by blast
qed

end
