(* ===== verification/Spec2Isabelle.thy ===== *)
theory Spec2Isabelle
  imports Prelude Route Slot_Props Timeouts Rx_Queue Select_Props Selector_Props Slot_Inv Stream_Props Send_Props
    Sockopt_Props Error_Props Report_Props Request_Props Prefs_Load Reconfig_Props Inet_Props Http_Props Csprng
    Lib_Answer Sbtc_Props Lib_Netdb_Props Lib_Open_Props
begin

text \<open>
  \<^bold>\<open>tolunnet\<close> is a TCP/IP stack for AmigaOS on the 68000 family.  A daemon process runs lwIP and owns every socket; client
  tasks open \<open>bsdsocket.library\<close>, whose vectors turn each call into one Exec message to the daemon and wait for the
  reply.  This development models the program's own C code under \<open>src/src/task\<close> (the daemon), \<open>src/src/lib\<close> (the
  library) and \<open>src/src/common\<close> (shared text, address and preference code), and proves what makes it correct.

  \<^bold>\<open>How the parts interact.\<close>  A vector of \<open>lib_vectors.c\<close> fills the message embedded in the opener's base and calls
  \<open>tn_ipc_call\<close>, which sends it and waits for the reply, a break signal or the watchdog.  The daemon's loop hands each
  message to \<open>tn_handle_ipc\<close>, whose table gives the guards and the handler of the command.  A handler works on the 64
  socket slots, on the descriptor table in the opener's base and on client memory, calls lwIP, and either answers at
  once or parks the message on a slot.  lwIP calls back with data, connections, free buffer space and errors; the callbacks fill
  the queues of the slot, answer parked messages and wake the selectors that clients armed for WaitSelect.  Ticks expire
  parked requests, and openers whose task has died are reaped.

  \<^bold>\<open>Conventions.\<close>  C integers keep their width (\<open>u8\<close>, \<open>u16\<close>, \<open>u32\<close>) where they wrap, \<open>LONG\<close> results and arguments are
  \<open>int\<close>; pointers are 32-bit words with \<open>NULL = 0\<close>; client memory is a byte per address in big-endian order.  Structures are records
  with the field names of the source behind a prefix; an errno is the number the reply carries.  The daemon is one record
  \<open>TnDaemon\<close> that handlers take and return, with a trace \<open>d_fx\<close> of the replies, signals and lwIP calls in the order they
  happen.  The library's side is the record \<open>TnLib\<close>: the base and the world it sees.

  \<^bold>\<open>What is outside.\<close>  Code that is not part of the sources is an argument.
  \<^item> \<open>env\<close>: each lwIP or Exec call the daemon makes has the result and the effect on the lwIP state this record gives; properties
    that need a law of it (a connection accepts what it is told it accepts, say) name it as a hypothesis.
  \<^item> \<open>ext_handlers\<close>: the four reporting and configuration commands GETSTATUS, RECONFIG, GETSTATS and IFCTL of the
    dispatcher; RECONFIG itself is modelled in \<open>Ipc_Reconfig\<close>.
  \<^item> \<open>Dos\<close> with the laws \<open>dos_ok\<close>: AmigaDOS files on a disk of any type, including what a power cut may leave.
  \<^item> \<open>conf_env\<close>: whether files open and names resolve during RECONFIG.
  \<^item> \<open>w_rounds\<close>: on the client side, the list of what the daemon, the timer, signals and the clock do each time the library
    looks; \<open>w_heap\<close>: what the allocator answers; \<open>lib_world\<close>: what exec.library answers at open.  Properties hold for every such list.  A
    list that ends while the library waits gives \<open>None\<close>: the task waits for ever.
  \<^item> The client's descriptor hook, the tag items of utility.library and the formatting of RawDoFmt are functions.

  \<^bold>\<open>The theories of the daemon.\<close>
  \<^item> \<open>Prelude\<close>, \<open>Client_Memory\<close> (\<open>sockaddr_util.c\<close>) and \<open>Task_Ctx\<close> (\<open>task_ctx.h\<close>, \<open>ipc.h\<close>): types, errno values, scans of
    fixed tables, byte-wise access, the data model and the effects.
  \<^item> \<open>Route\<close> (\<open>route.c\<close>, \<open>route_hook.c\<close>): the table denotes a finite map; lookup is longest prefix match.
  \<^item> \<open>Slot_Table\<close> (\<open>slot_table.c\<close>) with \<open>Slot_Frames\<close> and \<open>Slot_Props\<close>: slots, queues, parked requests, and what releasing
    a slot answers and leaves.  \<open>Rx_Queue\<close> is the receive queue at the level of its pointers, simulated by the list; \<open>Timeouts\<close>
    is about deadlines across tick wrap-around.
  \<^item> \<open>Ipc_Select\<close> (\<open>ipc_select.c\<close>, \<open>fdset_util.c\<close>) with \<open>Select_Props\<close> and \<open>Selector_Props\<close>: readiness, WAITSELECT, selectors.
  \<^item> \<open>Ipc_Recv\<close>, \<open>Tcp_Callbacks\<close>, \<open>Ipc_Tcp\<close> (\<open>ipc_tcp.c\<close>, \<open>ipc_dgram.c\<close>, \<open>ipc_msg.c\<close>, \<open>tn_drain_loopback\<close> of \<open>netif_mgr.c\<close>) with
    \<open>Stream_Props\<close>, \<open>Send_Props\<close> and \<open>Error_Props\<close>: no byte is lost, repeated or reordered in either direction, and the end
    of a connection answers everybody.
  \<^item> \<open>Ipc_Netdb\<close> (\<open>ipc_netdb.c\<close>, \<open>ipc_route.c\<close>), \<open>Ipc_Socket\<close> (\<open>ipc_socket.c\<close>, reaping in \<open>daemon_main.c\<close>), \<open>Ipc_Sockopt\<close>
    (\<open>ipc_setsockopt.c\<close>, \<open>ipc_getsockopt.c\<close>), \<open>Ipc_Status\<close> (\<open>ipc_status.c\<close>), \<open>Ipc_Dispatch\<close> (\<open>ipc_dispatch.c\<close>): the other handlers and the
    dispatcher, with \<open>Sockopt_Props\<close>, \<open>Report_Props\<close> and \<open>Request_Props\<close>.
  \<^item> \<open>Ledger\<close>, \<open>Ledger_View\<close>, \<open>Refcount\<close>, \<open>Park_Id\<close>: an abstract ledger of references, which the operations that open, share,
    park and close sockets refine.  \<open>Daemon_Reach\<close> is the daemon as a transition system (\<open>daemon_reach\<close>) of requests,
    callbacks, ticks, reaping and client writes; reachable states have exact reference counts and every request returns.
    \<open>Slot_Inv\<close> shows that slots stay well-formed in it.  \<open>Fixtures\<close> holds concrete states for evaluation.
  \<^item> \<open>Config_Text\<close> (\<open>config_text.c\<close>) with \<open>Config_Props\<close>, \<open>Config_Roundtrip\<close>, \<open>Config_Read\<close>, \<open>Config_Merge\<close>; \<open>Prefs_Store\<close>
    (\<open>prefs.c\<close>, \<open>safe_replace.c\<close>) with \<open>Prefs_Props\<close>, \<open>Prefs_Load\<close>; \<open>Ipc_Reconfig\<close> (\<open>ipc_status.c\<close>, \<open>netif_mgr.c\<close>, \<open>log.c\<close>,
    \<open>syslog.c\<close>) with \<open>Reconfig_Props\<close>: the configuration is written and read back, kept over crashes, and applied live.
  \<^item> \<open>Csprng\<close> (\<open>tn_csprng.c\<close>, \<open>timers.c\<close>): SipHash, initial sequence numbers, the millisecond clock.

  \<^bold>\<open>The theories of the library and its tools.\<close>
  \<^item> \<open>Lib_Base\<close>, \<open>Lib_Call\<close> with \<open>Lib_Call_Props\<close> and \<open>Lib_Answer\<close>: the request path, with the faults (sending, reusing or
    freeing a message the daemon holds) recorded by the primitives and shown not to occur.
  \<^item> \<open>Lib_Lvo\<close> with \<open>Lib_Lvo_Props\<close>: the socket vectors, errno, events.  \<open>Lib_Select\<close> with \<open>Lib_Select_Props\<close>: WaitSelect.
    \<open>Lib_Open\<close> with \<open>Lib_Open_Props\<close>: opening and closing as a ledger of blocks, ports and signals.
  \<^item> \<open>Sbtc\<close> with \<open>Sbtc_Props\<close> (\<open>sbtc_dispatch.c\<close> and its vector), \<open>Errstr\<close> (\<open>errstr.c\<close>), \<open>Lib_Netdb\<close> with \<open>Lib_Netdb_Props\<close>: base
    tags, error texts, names, services and log lines.  \<open>Inet\<close> with \<open>Inet_Props\<close> (\<open>inet_parse.c\<close>): addresses as text.
  \<^item> \<open>Http_Url\<close> with \<open>Http_Props\<close> (\<open>http_url.c\<close>, the body writer of \<open>TolunnetGet.c\<close>): URLs and chunked bodies.

  \<^bold>\<open>Interfaces.\<close>  Four contracts are locales, with their clients' lemmas proved inside: \<open>fib\<close> (a forwarding table, interpreted as
  \<open>rt\<close> on the route table), \<open>fifo\<close> (a bounded queue, \<open>rxq\<close> and \<open>accq\<close> on the receive and accept queues), \<open>stream_reader\<close>
  (reads that split a stream, \<open>tcp_rd\<close> on RECV) and \<open>request_channel\<close> (requests that keep a condition and a
  relation, \<open>owner_chan\<close> and \<open>ledger_chan\<close> on the library's sessions).

  \<^bold>\<open>Loops and bounds.\<close>  Loops of the source are structural or have a measure.  Where a loop of the source has no bound of its
  own the model counts: the UNIQUE\_ID search takes one round more than there are slots, and \<open>Park_Id\<close> shows that this
  is enough; the loopback drain makes the 64 passes the source makes; decimal printing takes 15 digits, more than
  any 32-bit number has; waiting on the client side is bounded by the list of rounds.

  \<^bold>\<open>This theory\<close> holds the property that spans both sides: what a client gets for a request is what the daemon's
  handler answered, and a request the dispatcher refuses costs nothing.

  \<^bold>\<open>Not modelled.\<close>  Start-up of the daemon, timer.device requests and SANA-II packet I/O (device glue); interface set-up and IFCTL
  (arguments passed on to drivers); the status and statistics reports and the counters that feed only them; the text
  of the log and syslog frames and the crash log (output, raw memory); the generated vector table, the vectors that
  only return ENOSYS and those on \<open>struct Process\<close>; the usergroup library, the setup assistant, the command line tools and the GUI.
\<close>

section \<open>From the client to the daemon and back\<close>

text \<open>What a refused request leaves of the daemon, and what its message then holds.\<close>

lemma refused_reply:
  assumes "m \<noteq> NULL" "refusal d (d_msgs d m) = Some e" "tn_handle_ipc E ext m d = Some (d1, reply)"
  shows "reply" "d_msgs d1 m = (d_msgs d m)\<lparr>im_result := -1, im_err_no := e\<rparr>"
    "d_sockets d1 = d_sockets d" "d_bases d1 = d_bases d" "d_mem d1 = d_mem d" "d_lw d1 = d_lw d" "d_fx d1 = d_fx d"
proof -
  obtain d0 where d0: "tn_handle_ipc E ext m d = Some (set_reply m (-1) e d0, True)"
    "d0 = set_reply m 0 0 d \<or> d0 = count_call (im_cmd (d_msgs d m)) (set_reply m 0 0 d)"
    using dispatch_refusal [OF assms(1,2)] by blast
  then have "d1 = set_reply m (-1) e d0" "reply" using assms(3) by simp_all
  then show "reply" "d_msgs d1 m = (d_msgs d m)\<lparr>im_result := -1, im_err_no := e\<rparr>"
    "d_sockets d1 = d_sockets d" "d_bases d1 = d_bases d" "d_mem d1 = d_mem d" "d_lw d1 = d_lw d" "d_fx d1 = d_fx d"
    using d0(2) by (auto simp: msgs_set_reply count_call_def)
qed

lemma refusal_errno: "refusal d g = Some e \<Longrightarrow> e \<in> {ENOSYS, EINVAL, EBADF}"
  by (auto simp: refusal_def split: if_splits)


text \<open>A RECV on a descriptor that was never opened.\<close>

definition bad_recv :: TnIpcMsg where
  "bad_recv = (w_msgs lib0 0)\<lparr>im_cmd := 10, im_client_task := 0x500, im_socket_base := 0x100\<rparr>"

definition lib_bad_recv :: TnLib where
  "lib_bad_recv = lib0\<lparr>lb_ipc_timeout_ms := 0,
     w_rounds := [[], [DaemonReply 0x1000 (bad_recv\<lparr>im_result := -1, im_err_no := EBADF\<rparr>)], []]\<rparr>"


end
